(* ===== verification/Prelude.thy ===== *)
theory Prelude
  imports Main "HOL-Library.Finite_Map" "HOL-Library.Word"
begin

text \<open>
  Shared vocabulary of the development: Go's machine integers and maps, the outcome of a Go
  call (a value, an error value or a panic), the state of a reconciler and the sequencing of
  calls that may fail. Three theorem collections gather what the component theories feed to the
  simplifier: \<open>act_simps\<close> (sequencing), \<open>go_simps\<close> (strings and maps) and
  \<open>stage_simps\<close> (reconcile stages).
\<close>

named_theorems act_simps
named_theorems go_simps
named_theorems stage_simps

section \<open>Integers and maps\<close>

text \<open>Go's \<open>int32\<close> and \<open>int64\<close> wrap around; a signed reading is \<open>sint\<close>.\<close>

type_synonym int32 = "32 word"
type_synonym int64 = "64 word"

text \<open>
  A Go map with string keys. Where the code tells a nil map from an empty one the type is
  \<open>smap option\<close>: \<open>None\<close> is the nil map, which reads as empty and panics when written.
\<close>

type_synonym smap = "(string, string) fmap"

definition entries :: "('k, 'v) fmap option \<Rightarrow> ('k, 'v) fmap" where
  "entries m = (case m of None \<Rightarrow> fmempty | Some f \<Rightarrow> f)"

lemma entries_simps [simp]: "entries None = fmempty" "entries (Some f) = f"
  by (simp_all add: entries_def)

text \<open>Reading a missing key of a Go map gives the zero value of the element type.\<close>

definition mget :: "smap \<Rightarrow> string \<Rightarrow> string" where
  "mget m k = (case fmlookup m k of None \<Rightarrow> '''' | Some v \<Rightarrow> v)"

lemma mget_fmupd [simp]: "mget (fmupd k v m) j = (if j = k then v else mget m j)"
  by (simp add: mget_def)

lemma mget_fmempty [simp]: "mget fmempty k = ''''"
  by (simp add: mget_def)

text \<open>Association lists: with distinct keys the order of the entries does not matter.\<close>

lemma map_of_rev: "distinct (map fst xs) \<Longrightarrow> map_of (rev xs) = map_of xs"
proof (induction xs)
  case (Cons x xs)
  then have "map_of (rev xs) (fst x) = None"
    by (simp add: map_of_eq_None_iff)
  then show ?case
    using Cons by (cases x) (auto simp: map_add_def fun_eq_iff split: option.splits)
qed simp

section \<open>Errors, outcomes\<close>

text \<open>
  The errors of the API server that the code tells apart (\<open>apierrors.IsNotFound\<close>, the
  conflict that \<open>retry.RetryOnConflict\<close> looks for); any other is \<open>OtherAPI\<close>.
\<close>

datatype api_reason = NotFound | Conflict | OtherAPI

text \<open>
  A Go error value: built by \<open>fmt.Errorf\<close> without and with \<open>%w\<close>, or returned by the
  API client.
\<close>

datatype gerr = Errorf string | Wrapf string gerr | ApiErr api_reason string

fun errText :: "gerr \<Rightarrow> string" where
  "errText (Errorf m) = m"
| "errText (Wrapf m e) = m @ errText e"
| "errText (ApiErr _ m) = m"

fun isNotFound :: "gerr \<Rightarrow> bool" where
  "isNotFound (Errorf _) = False"
| "isNotFound (Wrapf _ e) = isNotFound e"
| "isNotFound (ApiErr r _) = (r = NotFound)"

datatype 'a res = Ok 'a | Err gerr | Panic string

primrec isOk :: "'a res \<Rightarrow> bool" where
  "isOk (Ok _) = True"
| "isOk (Err _) = False"
| "isOk (Panic _) = False"

primrec mapErr :: "(gerr \<Rightarrow> gerr) \<Rightarrow> 'a res \<Rightarrow> 'a res" where
  "mapErr f (Ok x) = Ok x"
| "mapErr f (Err e) = Err (f e)"
| "mapErr f (Panic p) = Panic p"

primrec bindR :: "'a res \<Rightarrow> ('a \<Rightarrow> 'b res) \<Rightarrow> 'b res" where
  "bindR (Ok x) f = f x"
| "bindR (Err e) f = Err e"
| "bindR (Panic p) f = Panic p"

lemma isOk_iff: "isOk r \<longleftrightarrow> (\<exists>x. r = Ok x)"
  by (cases r) auto

lemma isOk_mapErr [simp]: "isOk (mapErr f r) = isOk r"
  by (cases r) simp_all

lemma mapErr_eq_Ok [simp]: "mapErr f r = Ok x \<longleftrightarrow> r = Ok x"
  by (cases r) auto

lemma bindR_Ok_iff: "bindR r f = Ok y \<longleftrightarrow> (\<exists>x. r = Ok x \<and> f x = Ok y)"
  by (cases r) auto

lemma bindR_assoc: "bindR (bindR r f) g = bindR r (\<lambda>x. bindR (f x) g)"
  by (cases r) simp_all

section \<open>Reconciler state and calls\<close>

text \<open>
  What a reconciler reads and changes: the cluster behind the API client (\<open>rs_world\<close>, of a
  type the model leaves open), the events it has emitted, oldest first, and the custom resource
  it holds in memory. An action may fail and still have changed the state.
\<close>

datatype event_type = EventNormal | EventWarning

record event =
  ev_type :: event_type
  ev_reason :: string
  ev_message :: string

record ('w, 'c) rstate =
  rs_world :: 'w
  rs_events :: "event list"
  rs_cr :: 'c

type_synonym ('w, 'c, 'a) act = "('w, 'c) rstate \<Rightarrow> 'a res \<times> ('w, 'c) rstate"

definition retA :: "'a \<Rightarrow> ('w, 'c, 'a) act" where
  "retA x s = (Ok x, s)"

definition failA :: "gerr \<Rightarrow> ('w, 'c, 'a) act" where
  "failA e s = (Err e, s)"

definition panicA :: "string \<Rightarrow> ('w, 'c, 'a) act" where
  "panicA p s = (Panic p, s)"

definition liftA :: "'a res \<Rightarrow> ('w, 'c, 'a) act" where
  "liftA r s = (r, s)"

definition bindA :: "('w, 'c, 'a) act \<Rightarrow> ('a \<Rightarrow> ('w, 'c, 'b) act) \<Rightarrow> ('w, 'c, 'b) act" where
  "bindA m f s = (case m s of
     (Ok x, s') \<Rightarrow> f x s'
   | (Err e, s') \<Rightarrow> (Err e, s')
   | (Panic p, s') \<Rightarrow> (Panic p, s'))"

definition thenA :: "('w, 'c, unit) act \<Rightarrow> ('w, 'c, 'b) act \<Rightarrow> ('w, 'c, 'b) act" where
  "thenA m k = bindA m (\<lambda>_. k)"

text \<open>\<open>tryA\<close> hands an error to the caller as a value, as Go's second result does.\<close>

definition tryA :: "('w, 'c, 'a) act \<Rightarrow> ('a res \<Rightarrow> ('w, 'c, 'b) act) \<Rightarrow> ('w, 'c, 'b) act" where
  "tryA m f s = (case m s of (Panic p, s') \<Rightarrow> (Panic p, s') | (r, s') \<Rightarrow> f r s')"

definition wrapA :: "(gerr \<Rightarrow> gerr) \<Rightarrow> ('w, 'c, 'a) act \<Rightarrow> ('w, 'c, 'a) act" where
  "wrapA f m s = (case m s of (r, s') \<Rightarrow> (mapErr f r, s'))"

definition getCR :: "('w, 'c, 'c) act" where
  "getCR s = (Ok (rs_cr s), s)"

definition modCR :: "('c \<Rightarrow> 'c) \<Rightarrow> ('w, 'c, unit) act" where
  "modCR f s = (Ok (), s\<lparr>rs_cr := f (rs_cr s)\<rparr>)"

definition emitA :: "event_type \<Rightarrow> string \<Rightarrow> string \<Rightarrow> ('w, 'c, unit) act" where
  "emitA t r m s =
     (Ok (), s\<lparr>rs_events := rs_events s @ [\<lparr>ev_type = t, ev_reason = r, ev_message = m\<rparr>]\<rparr>)"

text \<open>An API call that only reads the cluster, and one that changes it.\<close>

definition readA :: "('w \<Rightarrow> 'a res) \<Rightarrow> ('w, 'c, 'a) act" where
  "readA f s = (f (rs_world s), s)"

definition callA :: "('w \<Rightarrow> 'w \<times> 'a res) \<Rightarrow> ('w, 'c, 'a) act" where
  "callA f s = (case f (rs_world s) of (w', r) \<Rightarrow> (r, s\<lparr>rs_world := w'\<rparr>))"

definition whenA :: "bool \<Rightarrow> ('w, 'c, unit) act \<Rightarrow> ('w, 'c, unit) act" where
  "whenA b m = (if b then m else retA ())"

lemmas act_defs =
  retA_def failA_def panicA_def liftA_def bindA_def thenA_def tryA_def wrapA_def getCR_def
  modCR_def emitA_def readA_def callA_def whenA_def

lemma bindA_ret [act_simps]: "bindA (retA x) f = f x"
  by (simp add: act_defs fun_eq_iff)

lemma thenA_ret [act_simps]: "thenA (retA ()) m = m"
  by (simp add: act_defs fun_eq_iff)

lemma bindA_fail [act_simps]: "bindA (failA e) f = failA e"
  by (simp add: act_defs fun_eq_iff)

lemma thenA_fail [act_simps]: "thenA (failA e) m = failA e"
  by (simp add: act_defs fun_eq_iff)

lemma whenA_simps [act_simps]: "whenA True m = m" "whenA False m = retA ()"
  by (simp_all add: whenA_def)

lemma bindA_assoc: "bindA (bindA m f) g = bindA m (\<lambda>x. bindA (f x) g)"
  by (simp add: bindA_def fun_eq_iff split: prod.splits res.splits)

text \<open>A successful sequence is a successful first call and a successful rest.\<close>

lemma bindA_Ok_iff:
  "bindA m f s = (Ok y, t) \<longleftrightarrow> (\<exists>x u. m s = (Ok x, u) \<and> f x u = (Ok y, t))"
  by (auto simp: bindA_def split: prod.splits res.splits)

lemma thenA_Ok_iff:
  "thenA m k s = (Ok y, t) \<longleftrightarrow> (\<exists>u. m s = (Ok (), u) \<and> k u = (Ok y, t))"
  by (simp add: thenA_def bindA_Ok_iff)

lemma wrapA_Ok_iff [simp]: "wrapA f m s = (Ok y, t) \<longleftrightarrow> m s = (Ok y, t)"
  by (auto simp: wrapA_def split: prod.splits)

end
