(* ===== verification/GoStd.thy ===== *)
theory GoStd
  imports Prelude
begin

text \<open>
  The functions of Go's standard library that the modelled code calls: \<open>strings\<close>,
  \<open>strconv\<close>, the \<open>%q\<close> verb of \<open>fmt\<close>, \<open>path\<close>, \<open>net.SplitHostPort\<close> and
  \<open>net/url\<close>. A Go string is its list of bytes. Case folding, white space and quoting are
  those of the ASCII range; a byte from 128 up is kept as it is. \<open>url.Parse\<close> is modelled but
  for the zone identifier of a bracketed IPv6 host.
\<close>

section \<open>strings\<close>

definition hasPrefix :: "string \<Rightarrow> string \<Rightarrow> bool" where
  "hasPrefix s p = (take (length p) s = p)"

definition hasSuffix :: "string \<Rightarrow> string \<Rightarrow> bool" where
  "hasSuffix s p = hasPrefix (rev s) (rev p)"

definition trimPrefix :: "string \<Rightarrow> string \<Rightarrow> string" where
  "trimPrefix s p = (if hasPrefix s p then drop (length p) s else s)"

text \<open>\<open>strings.Index\<close>: \<open>None\<close> is Go's -1.\<close>

fun indexOf :: "string \<Rightarrow> string \<Rightarrow> nat option" where
  "indexOf [] p = (if p = [] then Some 0 else None)"
| "indexOf (c # s) p =
     (if hasPrefix (c # s) p then Some 0 else map_option Suc (indexOf s p))"

definition contains :: "string \<Rightarrow> string \<Rightarrow> bool" where
  "contains s p = (indexOf s p \<noteq> None)"

text \<open>\<open>strings.LastIndex\<close> of a one-character string.\<close>

fun lastIndexC :: "string \<Rightarrow> char \<Rightarrow> nat option" where
  "lastIndexC [] c = None"
| "lastIndexC (d # s) c =
     (case lastIndexC s c of
        Some i \<Rightarrow> Some (Suc i)
      | None \<Rightarrow> if d = c then Some 0 else None)"

text \<open>\<open>strings.Split\<close> by a one-character separator, \<open>strings.Cut\<close>, \<open>strings.Join\<close>.\<close>

fun splitC :: "char \<Rightarrow> string \<Rightarrow> string list" where
  "splitC c [] = [[]]"
| "splitC c (d # s) =
     (if d = c then [] # splitC c s
      else (case splitC c s of [] \<Rightarrow> [[d]] | w # ws \<Rightarrow> (d # w) # ws))"

definition cutC :: "char \<Rightarrow> string \<Rightarrow> string \<times> string" where
  "cutC c s = (takeWhile (\<lambda>d. d \<noteq> c) s, drop 1 (dropWhile (\<lambda>d. d \<noteq> c) s))"

fun joinS :: "string list \<Rightarrow> string \<Rightarrow> string" where
  "joinS [] sep = ''''"
| "joinS [x] sep = x"
| "joinS (x # y # xs) sep = x @ sep @ joinS (y # xs) sep"

definition isSpaceC :: "char \<Rightarrow> bool" where
  "isSpaceC c = (of_char c \<in> {9, 10, 11, 12, 13, 32 :: nat})"

definition trimSpace :: "string \<Rightarrow> string" where
  "trimSpace s = rev (dropWhile isSpaceC (rev (dropWhile isSpaceC s)))"

definition isUpperC :: "char \<Rightarrow> bool" where
  "isUpperC c = (65 \<le> (of_char c :: nat) \<and> of_char c \<le> (90 :: nat))"

definition isLowerC :: "char \<Rightarrow> bool" where
  "isLowerC c = (97 \<le> (of_char c :: nat) \<and> of_char c \<le> (122 :: nat))"

definition isDigitC :: "char \<Rightarrow> bool" where
  "isDigitC c = (48 \<le> (of_char c :: nat) \<and> of_char c \<le> (57 :: nat))"

definition toLowerC :: "char \<Rightarrow> char" where
  "toLowerC c = (if isUpperC c then char_of (of_char c + 32 :: nat) else c)"

definition toUpperC :: "char \<Rightarrow> char" where
  "toUpperC c = (if isLowerC c then char_of (of_char c - 32 :: nat) else c)"

definition toLower :: "string \<Rightarrow> string" where
  "toLower s = map toLowerC s"

lemma toLowerC_idem: "toLowerC (toLowerC c) = toLowerC c"
proof (cases "isUpperC c")
  case True
  then have "\<not> isUpperC (char_of (of_char c + 32 :: nat))"
    by (auto simp: isUpperC_def of_char_of)
  then show ?thesis by (simp add: toLowerC_def)
qed (simp add: toLowerC_def)

lemma toLower_idem: "toLower (toLower s) = toLower s"
  by (simp add: toLower_def toLowerC_idem)

section \<open>strconv and fmt\<close>

definition digitC :: "nat \<Rightarrow> char" where
  "digitC n = char_of (48 + n)"

fun natText :: "nat \<Rightarrow> string" where
  "natText n = (if n < 10 then [digitC n] else natText (n div 10) @ [digitC (n mod 10)])"

declare natText.simps [simp del]

lemma digitC_simps [go_simps]:
  "digitC 0 = CHR ''0''" "digitC 1 = CHR ''1''" "digitC (Suc 0) = CHR ''1''" "digitC 2 = CHR ''2''"
  "digitC 3 = CHR ''3''" "digitC 4 = CHR ''4''" "digitC 5 = CHR ''5''" "digitC 6 = CHR ''6''"
  "digitC 7 = CHR ''7''" "digitC 8 = CHR ''8''" "digitC 9 = CHR ''9''"
  by code_simp+

definition itoa :: "int \<Rightarrow> string" where
  "itoa i = (if i < 0 then ''-'' @ natText (nat (- i)) else natText (nat i))"

definition boolText :: "bool \<Rightarrow> string" where
  "boolText b = (if b then ''true'' else ''false'')"

fun digitsVal :: "nat \<Rightarrow> string \<Rightarrow> nat option" where
  "digitsVal acc [] = Some acc"
| "digitsVal acc (c # s) =
     (if isDigitC c then digitsVal (10 * acc + (of_char c - 48)) s else None)"

text \<open>\<open>strconv.Atoi\<close> on a 64-bit platform: \<open>None\<close> is its error.\<close>

definition atoi :: "string \<Rightarrow> int option" where
  "atoi s =
     (let neg = hasPrefix s ''-'';
          ds = (if neg \<or> hasPrefix s ''+'' then drop 1 s else s)
      in if ds = [] then None
         else case digitsVal 0 ds of
           None \<Rightarrow> None
         | Some n \<Rightarrow>
             (let i = (if neg then - int n else int n)
              in if - (2 ^ 63) \<le> i \<and> i < 2 ^ 63 then Some i else None))"

text \<open>\<open>%q\<close>: the string in double quotes with Go's escapes.\<close>

definition hexC :: "nat \<Rightarrow> char" where
  "hexC n = (if n < 10 then char_of (48 + n) else char_of (87 + n))"

definition quoteC :: "char \<Rightarrow> string" where
  "quoteC c =
     (let n = (of_char c :: nat) in
      if n = 34 then [CHR 0x5C, c]
      else if n = 92 then [CHR 0x5C, c]
      else if n = 7 then [CHR 0x5C, CHR ''a'']
      else if n = 8 then [CHR 0x5C, CHR ''b'']
      else if n = 12 then [CHR 0x5C, CHR ''f'']
      else if n = 10 then [CHR 0x5C, CHR ''n'']
      else if n = 13 then [CHR 0x5C, CHR ''r'']
      else if n = 9 then [CHR 0x5C, CHR ''t'']
      else if n = 11 then [CHR 0x5C, CHR ''v'']
      else if n < 32 \<or> n = 127 then [CHR 0x5C, CHR ''x'', hexC (n div 16), hexC (n mod 16)]
      else [c])"

definition quote :: "string \<Rightarrow> string" where
  "quote s = [CHR 0x22] @ concat (map quoteC s) @ [CHR 0x22]"

text \<open>\<open>%v\<close> of a slice of strings.\<close>

definition sliceText :: "string list \<Rightarrow> string" where
  "sliceText xs = ''['' @ joinS xs '' '' @ '']''"

section \<open>path\<close>

text \<open>\<open>path.Clean\<close>: the components are processed left to right on a stack.\<close>

fun cleanComps :: "bool \<Rightarrow> string list \<Rightarrow> string list \<Rightarrow> string list" where
  "cleanComps rooted st [] = rev st"
| "cleanComps rooted st (x # xs) =
     (if x = [] \<or> x = ''.'' then cleanComps rooted st xs
      else if x = ''..'' then
        (case st of
           [] \<Rightarrow> cleanComps rooted (if rooted then [] else [''..'']) xs
         | t # ts \<Rightarrow> if t = ''..'' then cleanComps rooted (''..'' # st) xs
                     else cleanComps rooted ts xs)
      else cleanComps rooted (x # st) xs)"

definition pathClean :: "string \<Rightarrow> string" where
  "pathClean p =
     (let rooted = hasPrefix p ''/'';
          out = (if rooted then ''/'' else '''') @ joinS (cleanComps rooted [] (splitC (CHR ''/'') p)) ''/''
      in if out = [] then ''.'' else out)"

definition pathDir :: "string \<Rightarrow> string" where
  "pathDir p =
     pathClean (case lastIndexC p (CHR ''/'') of None \<Rightarrow> '''' | Some i \<Rightarrow> take (Suc i) p)"

definition pathJoin :: "string list \<Rightarrow> string" where
  "pathJoin xs =
     (let ys = filter (\<lambda>x. x \<noteq> []) xs in if ys = [] then '''' else pathClean (joinS ys ''/''))"

section \<open>net\<close>

text \<open>\<open>net.SplitHostPort\<close>: host and port, \<open>None\<close> for any of its address errors.\<close>

definition splitHostPort :: "string \<Rightarrow> (string \<times> string) option" where
  "splitHostPort hp =
     (case lastIndexC hp (CHR '':'') of
        None \<Rightarrow> None
      | Some i \<Rightarrow>
          if hasPrefix hp ''['' then
            (case indexOf hp '']'' of
               None \<Rightarrow> None
             | Some e \<Rightarrow>
                 if Suc e \<noteq> i then None
                 else if contains (drop 1 hp) ''['' \<or> contains (drop (Suc e) hp) '']'' then None
                 else Some (take (e - 1) (drop 1 hp), drop (Suc i) hp))
          else if contains (take i hp) '':'' then None
          else if contains hp ''['' \<or> contains hp '']'' then None
          else Some (take i hp, drop (Suc i) hp))"

section \<open>net/url\<close>

record url =
  u_Scheme :: string
  u_Opaque :: string
  u_Host :: string
  u_Path :: string
  u_RawQuery :: string

definition isHexC :: "char \<Rightarrow> bool" where
  "isHexC c = (isDigitC c \<or> (let n = (of_char c :: nat) in (65 \<le> n \<and> n \<le> 70) \<or> (97 \<le> n \<and> n \<le> 102)))"

definition unhexC :: "char \<Rightarrow> nat" where
  "unhexC c =
     (let n = (of_char c :: nat) in
      if isDigitC c then n - 48 else if 97 \<le> n then n - 87 else n - 55)"

datatype url_mode = EncodePath | EncodeHost | EncodeUser | EncodeFragment

text \<open>Characters of the ASCII range that may stand unescaped in a host.\<close>

definition hostOkC :: "char \<Rightarrow> bool" where
  "hostOkC c =
     (isUpperC c \<or> isLowerC c \<or> isDigitC c \<or> 128 \<le> (of_char c :: nat) \<or>
      c \<in> set ''-_.~!$&()*+,;=:[]<>'' \<or> c = CHR 0x27 \<or> c = CHR 0x22)"

fun unescape :: "url_mode \<Rightarrow> string \<Rightarrow> string option" where
  "unescape m [] = Some []"
| "unescape m (c # s) =
     (if c = CHR ''%'' then
        (case s of
           a # b # r \<Rightarrow>
             if \<not> (isHexC a \<and> isHexC b) then None
             else if m = EncodeHost \<and> unhexC a < 8 \<and> \<not> (a = CHR ''2'' \<and> b = CHR ''5'') then None
             else map_option (\<lambda>t. char_of (16 * unhexC a + unhexC b) # t) (unescape m r)
         | _ \<Rightarrow> None)
      else if m = EncodeHost \<and> \<not> hostOkC c then None
      else map_option (\<lambda>t. c # t) (unescape m s))"

definition validOptionalPort :: "string \<Rightarrow> bool" where
  "validOptionalPort p = (p = [] \<or> (hasPrefix p '':'' \<and> list_all isDigitC (drop 1 p)))"

definition parseHost :: "string \<Rightarrow> string option" where
  "parseHost h =
     (if hasPrefix h ''['' then
        (case lastIndexC h (CHR '']'') of
           None \<Rightarrow> None
         | Some i \<Rightarrow> if validOptionalPort (drop (Suc i) h) then unescape EncodeHost h else None)
      else
        (case lastIndexC h (CHR '':'') of
           None \<Rightarrow> unescape EncodeHost h
         | Some i \<Rightarrow> if validOptionalPort (drop i h) then unescape EncodeHost h else None))"

definition validUserinfoC :: "char \<Rightarrow> bool" where
  "validUserinfoC c =
     (isUpperC c \<or> isLowerC c \<or> isDigitC c \<or> c \<in> set ''-._:~!$&()*+,;=%@'' \<or> c = CHR 0x27)"

definition parseAuthority :: "string \<Rightarrow> string option" where
  "parseAuthority a =
     (case lastIndexC a (CHR ''@'') of
        None \<Rightarrow> parseHost a
      | Some i \<Rightarrow>
          (case parseHost (drop (Suc i) a) of
             None \<Rightarrow> None
           | Some h \<Rightarrow>
               let ui = take i a; (usr, pw) = cutC (CHR '':'') ui in
               if \<not> list_all validUserinfoC ui then None
               else if unescape EncodeUser usr = None \<or> unescape EncodeUser pw = None then None
               else Some h))"

text \<open>
  \<open>getScheme\<close>: the scheme and the rest, with an empty scheme when there is none; the outer
  \<open>None\<close> is the error of a URL that begins with a colon.
\<close>

fun schemeAt :: "bool \<Rightarrow> string \<Rightarrow> nat option option" where
  "schemeAt start [] = Some None"
| "schemeAt start (c # s) =
     (if isUpperC c \<or> isLowerC c then map_option (map_option Suc) (schemeAt False s)
      else if isDigitC c \<or> c \<in> set ''+-.'' then
        (if start then Some None else map_option (map_option Suc) (schemeAt False s))
      else if c = CHR '':'' then (if start then None else Some (Some 0))
      else Some None)"

definition getScheme :: "string \<Rightarrow> (string \<times> string) option" where
  "getScheme s =
     (case schemeAt True s of
        None \<Rightarrow> None
      | Some None \<Rightarrow> Some ('''', s)
      | Some (Some i) \<Rightarrow> Some (take i s, drop (Suc i) s))"

definition splitQuery :: "string \<Rightarrow> string \<times> string" where
  "splitQuery s =
     (if hasSuffix s ''?'' \<and> count_list s (CHR ''?'') = 1 then (butlast s, '''')
      else cutC (CHR ''?'') s)"

definition hasAuthority :: "string \<Rightarrow> string \<Rightarrow> bool" where
  "hasAuthority scheme rest =
     ((scheme \<noteq> [] \<or> \<not> hasPrefix rest ''///'') \<and> hasPrefix rest ''//'')"

definition parseRest :: "string \<Rightarrow> string \<Rightarrow> string \<Rightarrow> url option" where
  "parseRest scheme q rest =
     (let auth = hasAuthority scheme rest;
          a = (if auth then takeWhile (\<lambda>c. c \<noteq> CHR ''/'') (drop 2 rest) else '''');
          p = (if auth then dropWhile (\<lambda>c. c \<noteq> CHR ''/'') (drop 2 rest) else rest)
      in case (if auth then parseAuthority a else Some '''') of
           None \<Rightarrow> None
         | Some h \<Rightarrow>
             (case unescape EncodePath p of
                None \<Rightarrow> None
              | Some p' \<Rightarrow> Some \<lparr>u_Scheme = scheme, u_Opaque = '''', u_Host = h, u_Path = p',
                                 u_RawQuery = q\<rparr>))"

definition parseNoFragment :: "string \<Rightarrow> url option" where
  "parseNoFragment s =
     (if list_ex (\<lambda>c. (of_char c :: nat) < 32 \<or> (of_char c :: nat) = 127) s then None
      else if s = ''*'' then
        Some \<lparr>u_Scheme = '''', u_Opaque = '''', u_Host = '''', u_Path = ''*'', u_RawQuery = ''''\<rparr>
      else case getScheme s of
        None \<Rightarrow> None
      | Some (sch, rest0) \<Rightarrow>
          (let scheme = toLower sch; (rest, q) = splitQuery rest0 in
           if \<not> hasPrefix rest ''/'' \<and> scheme \<noteq> [] then
             Some \<lparr>u_Scheme = scheme, u_Opaque = rest, u_Host = '''', u_Path = '''', u_RawQuery = q\<rparr>
           else if \<not> hasPrefix rest ''/'' \<and> contains (fst (cutC (CHR ''/'') rest)) '':'' then None
           else parseRest scheme q rest))"

definition urlParse :: "string \<Rightarrow> url option" where
  "urlParse s =
     (let (u, frag) = cutC (CHR ''#'') s in
      case parseNoFragment u of
        None \<Rightarrow> None
      | Some r \<Rightarrow> if unescape EncodeFragment frag = None then None else Some r)"
end
