(* ===== verification/KubeTypes.thy ===== *)
theory KubeTypes
  imports GoStd
begin

text \<open>
  The Kubernetes vocabulary: the fields that the operator reads or writes of the API types it
  imports from \<open>k8s.io/api\<close> and its companions, and the API client as a parameter. Affinity
  rules, tolerations and managed fields are only copied, so their values are opaque tokens (the
  empty string is the zero value). A resource quantity is the text it was parsed from.
\<close>

section \<open>Metadata and conditions\<close>

record owner_ref =
  ow_APIVersion :: string
  ow_Kind :: string
  ow_Name :: string
  ow_UID :: string
  ow_Controller :: bool

record objmeta =
  om_Name :: string
  om_Namespace :: string
  om_UID :: string
  om_Labels :: "smap option"
  om_Annotations :: "smap option"
  om_Generation :: int64
  om_ResourceVersion :: string
  om_SelfLink :: string
  om_CreationTimestamp :: nat
  om_DeletionTimestamp :: "nat option"
  om_DeletionGracePeriodSeconds :: "int64 option"
  om_Finalizers :: "string list"
  om_OwnerReferences :: "owner_ref list"
  om_ManagedFields :: "string list"

text \<open>Go's \<open>ObjectMeta{Name: n, Namespace: ns}\<close>.\<close>

definition newMeta :: "string \<Rightarrow> string \<Rightarrow> objmeta" where
  "newMeta n ns =
     \<lparr>om_Name = n, om_Namespace = ns, om_UID = '''', om_Labels = None, om_Annotations = None,
      om_Generation = 0, om_ResourceVersion = '''', om_SelfLink = '''', om_CreationTimestamp = 0,
      om_DeletionTimestamp = None, om_DeletionGracePeriodSeconds = None, om_Finalizers = [],
      om_OwnerReferences = [], om_ManagedFields = []\<rparr>"

lemma newMeta_simps [simp]:
  "om_Name (newMeta n ns) = n" "om_Namespace (newMeta n ns) = ns" "om_UID (newMeta n ns) = ''''"
  "om_Labels (newMeta n ns) = None" "om_Annotations (newMeta n ns) = None"
  "om_OwnerReferences (newMeta n ns) = []" "om_Finalizers (newMeta n ns) = []"
  by (simp_all add: newMeta_def)

record condition =
  c_Type :: string
  c_Status :: string
  c_Reason :: string
  c_Message :: string
  c_LastTransitionTime :: nat

abbreviation "ConditionTrue \<equiv> ''True''"
abbreviation "ConditionFalse \<equiv> ''False''"
abbreviation "ConditionUnknown \<equiv> ''Unknown''"

section \<open>References, resources\<close>

record object_ref =
  ref_APIVersion :: string
  ref_Kind :: string
  ref_Name :: string
  ref_Namespace :: string

record secret_ref =
  sr_Name :: string
  sr_Namespace :: string

record issuer_ref =
  ir_Name :: string
  ir_Kind :: string

record resource_requirements =
  rr_Requests :: "smap option"
  rr_Limits :: "smap option"

type_synonym toleration = string
type_synonym affinity = string

section \<open>Services, config maps, secrets\<close>

record service_port =
  sp_Name :: string
  sp_Port :: int32
  sp_TargetPort :: int32
  sp_NodePort :: int32

record service =
  svc_Meta :: objmeta
  svc_Selector :: smap
  svc_Ports :: "service_port list"
  svc_Type :: string
  svc_Status :: string

record configmap =
  cm_Meta :: objmeta
  cm_Data :: "smap option"

record secret =
  sec_Meta :: objmeta
  sec_Data :: smap

section \<open>The API client\<close>

type_synonym nname = "string \<times> string"

definition metaKey :: "objmeta \<Rightarrow> nname" where
  "metaKey m = (om_Namespace m, om_Name m)"

text \<open>
  What a list call selects by: a namespace (the empty string is all), labels, and the
  \<open>.metadata.controller\<close> field index that \<open>MatchingFields\<close> consults.
\<close>

record list_opts =
  lo_Namespace :: string
  lo_Labels :: smap
  lo_Controller :: "string option"

text \<open>
  The client of one kind of object. The calls run against the cluster \<open>'w\<close>; a write returns
  the new cluster and the object as the server stored it. \<open>cCreateOrUpdate\<close> is
  \<open>controllerutil.CreateOrUpdate\<close> with its mutate callback.
\<close>

record ('w, 'o) client =
  cGet :: "'w \<Rightarrow> nname \<Rightarrow> 'o res"
  cList :: "'w \<Rightarrow> list_opts \<Rightarrow> 'o list res"
  cCreate :: "'w \<Rightarrow> 'o \<Rightarrow> 'w \<times> 'o res"
  cUpdate :: "'w \<Rightarrow> 'o \<Rightarrow> 'w \<times> 'o res"
  cStatusUpdate :: "'w \<Rightarrow> 'o \<Rightarrow> 'w \<times> 'o res"
  cDelete :: "'w \<Rightarrow> nname \<Rightarrow> 'w \<times> unit res"
  cCreateOrUpdate :: "'w \<Rightarrow> 'o \<Rightarrow> ('o \<Rightarrow> 'o res) \<Rightarrow> 'w \<times> 'o res"

text \<open>
  What the code relies on, by the client's documentation: a successful write is visible to a
  read of the same key, with the user's content \<open>u\<close> as it was sent; \<open>CreateOrUpdate\<close> reads
  the object, runs the callback on what it read (or on the object given, when there is none) and
  creates, updates or, when the callback changed nothing, leaves it.
\<close>

definition writeVisible ::
  "('o \<Rightarrow> nname) \<Rightarrow> ('o \<Rightarrow> 'u) \<Rightarrow> ('w, 'o) client \<Rightarrow> bool" where
  "writeVisible key u c \<longleftrightarrow>
     (\<forall>w o1 w' o2. (cCreate c w o1 = (w', Ok o2) \<or> cUpdate c w o1 = (w', Ok o2)) \<longrightarrow>
        cGet c w' (key o1) = Ok o2 \<and> key o2 = key o1 \<and> u o2 = u o1)"

definition createOrUpdateSpec :: "('o \<Rightarrow> nname) \<Rightarrow> ('w, 'o) client \<Rightarrow> bool" where
  "createOrUpdateSpec key c \<longleftrightarrow>
     (\<forall>w o1 f. cCreateOrUpdate c w o1 f =
        (case cGet c w (key o1) of
           Ok cur \<Rightarrow>
             (case f cur of
                Ok new \<Rightarrow> if new = cur then (w, Ok cur) else cUpdate c w new
              | Err e \<Rightarrow> (w, Err e)
              | Panic p \<Rightarrow> (w, Panic p))
         | Err e \<Rightarrow>
             if isNotFound e then
               (case f o1 of
                  Ok new \<Rightarrow> cCreate c w new
                | Err e' \<Rightarrow> (w, Err e')
                | Panic p \<Rightarrow> (w, Panic p))
             else (w, Err e)
         | Panic p \<Rightarrow> (w, Panic p)))"

lemma writeVisibleD:
  assumes "writeVisible key u c"
    and "cCreate c w x = (w', Ok y) \<or> cUpdate c w x = (w', Ok y)"
  shows "cGet c w' (key x) = Ok y" "key y = key x" "u y = u x"
  using assms unfolding writeVisible_def by blast+

text \<open>All of it, with what a read returns: the object under the key that was asked for.\<close>

definition clientDocs :: "('o \<Rightarrow> nname) \<Rightarrow> ('o \<Rightarrow> 'u) \<Rightarrow> ('w, 'o) client \<Rightarrow> bool" where
  "clientDocs key u c \<longleftrightarrow>
     writeVisible key u c \<and> createOrUpdateSpec key c \<and> (\<forall>w k x. cGet c w k = Ok x \<longrightarrow> key x = k)"

lemma clientDocs_get: "clientDocs key u c \<Longrightarrow> cGet c w k = Ok x \<Longrightarrow> key x = k"
  unfolding clientDocs_def by blast

text \<open>
  What a successful \<open>CreateOrUpdate\<close> leaves behind: the callback ran on the stored object, or on
  the given one when there was none, and its result is what a read returns afterwards.
\<close>

lemma createOrUpdate_result:
  assumes docs: "clientDocs key u c"
    and frame: "\<And>x y. f x = Ok y \<Longrightarrow> key y = key x"
    and ok: "cCreateOrUpdate c w o1 f = (w', Ok o2)"
  obtains start new where "f start = Ok new" "cGet c w' (key o1) = Ok o2" "u o2 = u new"
    "cGet c w (key o1) = Ok start \<or> (start = o1 \<and> (\<exists>e. cGet c w (key o1) = Err e \<and> isNotFound e))"
proof (cases "cGet c w (key o1)")
  case (Ok cur)
  have cur: "key cur = key o1"
    using clientDocs_get [OF docs Ok] .
  obtain new where new: "f cur = Ok new" and
    res: "(if new = cur then (w, Ok cur) else cUpdate c w new) = (w', Ok o2)"
    using ok Ok docs by (auto simp: clientDocs_def createOrUpdateSpec_def split: res.splits)
  have "cGet c w' (key o1) = Ok o2 \<and> u o2 = u new"
  proof (cases "new = cur")
    case True
    then show ?thesis using res Ok by simp
  next
    case False
    then show ?thesis
      using res writeVisibleD [of key u c w new w' o2] docs cur frame [OF new]
      by (simp add: clientDocs_def)
  qed
  then show ?thesis using that [OF new] Ok by simp
next
  case (Err e)
  obtain new where new: "f o1 = Ok new" and res: "cCreate c w new = (w', Ok o2)" and nf: "isNotFound e"
    using ok Err docs
    by (auto simp: clientDocs_def createOrUpdateSpec_def split: res.splits if_splits)
  have "cGet c w' (key o1) = Ok o2 \<and> u o2 = u new"
    using res writeVisibleD [of key u c w new w' o2] docs frame [OF new] by (simp add: clientDocs_def)
  then show ?thesis using that [OF new] Err nf by simp
next
  case (Panic p)
  then show ?thesis
    using ok docs by (auto simp: clientDocs_def createOrUpdateSpec_def)
qed

lemma createOrUpdate_writes:
  assumes "createOrUpdateSpec key c" and "cCreateOrUpdate c w x f = (w', Ok y)"
  obtains start new where "f start = Ok new" "cCreate c w new = (w', Ok y) \<or> cUpdate c w new = (w', Ok y)"
  | cur where "f cur = Ok cur" "cGet c w (key x) = Ok cur" "w' = w" "y = cur"
proof -
  have spec: "cCreateOrUpdate c w x f =
        (case cGet c w (key x) of
           Ok cur \<Rightarrow>
             (case f cur of
                Ok new \<Rightarrow> if new = cur then (w, Ok cur) else cUpdate c w new
              | Err e \<Rightarrow> (w, Err e)
              | Panic p \<Rightarrow> (w, Panic p))
         | Err e \<Rightarrow>
             if isNotFound e then
               (case f x of
                  Ok new \<Rightarrow> cCreate c w new
                | Err e' \<Rightarrow> (w, Err e')
                | Panic p \<Rightarrow> (w, Panic p))
             else (w, Err e)
         | Panic p \<Rightarrow> (w, Panic p))"
    using assms(1) unfolding createOrUpdateSpec_def by blast
  show ?thesis
    using assms(2) that unfolding spec by (auto split: res.splits if_splits)
qed

section \<open>A client in memory\<close>

text \<open>
  A store that behaves as documented, for the examples: the objects of one kind in a list.
\<close>

definition memGet :: "('o \<Rightarrow> nname) \<Rightarrow> 'o list \<Rightarrow> nname \<Rightarrow> 'o res" where
  "memGet key w k = (case find (\<lambda>x. key x = k) w of Some x \<Rightarrow> Ok x | None \<Rightarrow> Err (ApiErr NotFound ''not found''))"

definition memCreate :: "('o \<Rightarrow> nname) \<Rightarrow> 'o list \<Rightarrow> 'o \<Rightarrow> 'o list \<times> 'o res" where
  "memCreate key w x =
     (if find (\<lambda>y. key y = key x) w = None then (w @ [x], Ok x)
      else (w, Err (ApiErr OtherAPI ''already exists'')))"

definition memUpdate :: "('o \<Rightarrow> nname) \<Rightarrow> 'o list \<Rightarrow> 'o \<Rightarrow> 'o list \<times> 'o res" where
  "memUpdate key w x =
     (if find (\<lambda>y. key y = key x) w = None then (w, Err (ApiErr NotFound ''not found''))
      else (map (\<lambda>y. if key y = key x then x else y) w, Ok x))"

definition memClient :: "('o \<Rightarrow> nname) \<Rightarrow> (list_opts \<Rightarrow> 'o \<Rightarrow> bool) \<Rightarrow> ('o list, 'o) client" where
  "memClient key sel =
     \<lparr>cGet = memGet key,
      cList = \<lambda>w lo. Ok (filter (sel lo) w),
      cCreate = memCreate key, cUpdate = memUpdate key, cStatusUpdate = memUpdate key,
      cDelete = \<lambda>w k. (filter (\<lambda>x. key x \<noteq> k) w, Ok ()),
      cCreateOrUpdate = \<lambda>w x f.
        (case memGet key w (key x) of
           Ok cur \<Rightarrow>
             (case f cur of
                Ok new \<Rightarrow> if new = cur then (w, Ok cur) else memUpdate key w new
              | Err e \<Rightarrow> (w, Err e)
              | Panic p \<Rightarrow> (w, Panic p))
         | Err e \<Rightarrow>
             (case f x of
                Ok new \<Rightarrow> memCreate key w new
              | Err e' \<Rightarrow> (w, Err e')
              | Panic p \<Rightarrow> (w, Panic p))
         | Panic p \<Rightarrow> (w, Panic p))\<rparr>"

lemma find_append_new: "find P w = None \<Longrightarrow> P x \<Longrightarrow> find P (w @ [x]) = Some x"
  by (induction w) (auto split: if_splits)

lemma find_map_replace:
  assumes "find (\<lambda>y. key y = key x) w \<noteq> None"
  shows "find (\<lambda>y. key y = key x) (map (\<lambda>y. if key y = key x then x else y) w) = Some x"
  using assms by (induction w) auto

lemma memClient_docs: "clientDocs key u (memClient key sel)"
  unfolding clientDocs_def
proof (intro conjI)
  show "writeVisible key u (memClient key sel)"
    by (auto simp: writeVisible_def memClient_def memCreate_def memUpdate_def memGet_def
        find_append_new find_map_replace split: if_splits)
  show "createOrUpdateSpec key (memClient key sel)"
    by (auto simp: createOrUpdateSpec_def memClient_def memGet_def split: res.split option.split)
  show "\<forall>w k x. cGet (memClient key sel) w k = Ok x \<longrightarrow> key x = k"
    by (auto simp: memClient_def memGet_def find_Some_iff split: option.splits)
qed

definition cmKey :: "configmap \<Rightarrow> nname" where
  "cmKey c = metaKey (cm_Meta c)"


end
