(* ===== verification/Predicates.thy ===== *)
theory Predicates
  imports KubeTypes
begin

text \<open>
  The watch predicates of \<open>internal/controller/common/predicate.go\<close>. A predicate is the struct
  literal \<open>predicate.Funcs\<close> the code builds, with the callbacks it sets; what controller-runtime
  does with it (an unset callback accepts, \<open>Or\<close> accepts when one accepts, the builder's global
  filter and a watch's own predicates must all accept) is the parameter \<open>run\<close> with the
  documented laws \<open>predicateDocs\<close>. Object contents that are only compared are opaque values.
\<close>

section \<open>Watched objects, events, predicates\<close>

datatype kind =
    KSecret | KConfigMap | KDeployment | KPod | KStandalone | KCRD | KClusterManager
  | KClusterMaster | KStatefulSet | KJob | KService | KServiceAccount | KRole | KRoleBinding
  | KRayService | KRayCluster | KCertificate | KServiceMonitor | KAIPlatform | KAIService

record 'v wstatus =
  ws_Phase :: string
  ws_Conditions :: 'v
  ws_Rest :: 'v

record 'v wobj =
  wo_Kind :: kind
  wo_Meta :: objmeta
  wo_Data :: 'v
  wo_Spec :: 'v
  wo_Status :: "'v wstatus"

datatype 'v wevent =
    CreateEvent "'v wobj"
  | UpdateEvent "'v wobj" "'v wobj"
  | DeleteEvent "'v wobj" bool
  | GenericEvent "'v wobj"

record 'v funcs =
  f_Create :: "('v wobj \<Rightarrow> bool) option"
  f_Update :: "('v wobj \<Rightarrow> 'v wobj \<Rightarrow> bool) option"
  f_Delete :: "('v wobj \<Rightarrow> bool \<Rightarrow> bool) option"
  f_Generic :: "('v wobj \<Rightarrow> bool) option"

text \<open>
  The expressions the controllers build predicates from: the struct literals above, \<open>Or\<close>, and
  the library's own \<open>GenerationChangedPredicate\<close>.
\<close>

datatype 'v predicate = Funcs "'v funcs" | PredOr "'v predicate list" | LibGenerationChanged

text \<open>The delete callback, the same in every predicate: its argument is \<open>DeleteStateUnknown\<close>.\<close>

definition deleteFunc :: "'v wobj \<Rightarrow> bool \<Rightarrow> bool" where
  "deleteFunc o1 deleteStateUnknown = (\<not> deleteStateUnknown)"

definition updateDelete :: "('v wobj \<Rightarrow> 'v wobj \<Rightarrow> bool) \<Rightarrow> 'v funcs" where
  "updateDelete u = \<lparr>f_Create = None, f_Update = Some u, f_Delete = Some deleteFunc, f_Generic = None\<rparr>"

section \<open>The predicates\<close>

definition LabelChangedPredicate :: "'v funcs" where
  "LabelChangedPredicate = updateDelete (\<lambda>old new. om_Labels (wo_Meta old) \<noteq> om_Labels (wo_Meta new))"

definition GenerationChangedPredicate :: "'v funcs" where
  "GenerationChangedPredicate =
     updateDelete (\<lambda>old new. om_Generation (wo_Meta old) \<noteq> om_Generation (wo_Meta new))"

definition AnnotationChangedPredicate :: "'v funcs" where
  "AnnotationChangedPredicate =
     updateDelete (\<lambda>old new. om_Annotations (wo_Meta old) \<noteq> om_Annotations (wo_Meta new))"

definition deleting :: "'v wobj \<Rightarrow> bool" where
  "deleting o1 = (om_DeletionGracePeriodSeconds (wo_Meta o1) \<noteq> None)"

definition SecretChangedPredicate :: "'v funcs" where
  "SecretChangedPredicate = updateDelete (\<lambda>old new.
     if wo_Kind new \<noteq> KSecret then False
     else if deleting new then True
     else if wo_Kind old \<noteq> KSecret then False
     else wo_Data new \<noteq> wo_Data old)"

definition ConfigMapChangedPredicate :: "'v funcs" where
  "ConfigMapChangedPredicate = updateDelete (\<lambda>old new.
     if wo_Kind new \<noteq> KConfigMap then False
     else if deleting new then True
     else if wo_Kind old \<noteq> KConfigMap then False
     else wo_Data new \<noteq> wo_Data old)"

definition DeploymentChangedPredicate :: "'v funcs" where
  "DeploymentChangedPredicate = updateDelete (\<lambda>old new.
     if wo_Kind new \<noteq> KDeployment then False
     else if deleting new then True
     else if wo_Kind old \<noteq> KDeployment then False
     else wo_Status new \<noteq> wo_Status old)"

definition PodChangedPredicate :: "'v funcs" where
  "PodChangedPredicate = updateDelete (\<lambda>old new.
     if wo_Kind new \<noteq> KPod then False
     else if deleting new then True
     else if wo_Kind old \<noteq> KPod then False
     else wo_Status new \<noteq> wo_Status old)"

definition ResourceFailedPredicate :: "'v funcs" where
  "ResourceFailedPredicate = updateDelete (\<lambda>old new.
     if wo_Kind new \<noteq> KStandalone then False
     else if deleting new then True
     else ws_Phase (wo_Status new) = ''Error'')"

fun stringInSlice :: "string \<Rightarrow> string list \<Rightarrow> bool" where
  "stringInSlice a [] = False"
| "stringInSlice a (b # bs) = (if b = a then True else stringInSlice a bs)"

definition splunkCrds :: "string list" where
  "splunkCrds =
     [''clustermasters.enterprise.splunk.com'', ''clustermanagers.enterprise.splunk.com'',
      ''indexerclusters.enterprise.splunk.com'', ''licensemasters.enterprise.splunk.com'',
      ''licensemanagers.enterprise.splunk.com'', ''monitoringconsoles.enterprise.splunk.com'',
      ''searchheadclusters.enterprise.splunk.com'', ''standalones.enterprise.splunk.com'']"

definition CrdChangedPredicate :: "'v funcs" where
  "CrdChangedPredicate = updateDelete (\<lambda>old new.
     if wo_Kind new \<noteq> KCRD \<or> wo_Kind old \<noteq> KCRD then False
     else if deleting new then True
     else if \<not> stringInSlice (om_Name (wo_Meta new)) splunkCrds then False
     else wo_Spec new \<noteq> wo_Spec old)"

definition ClusterManagerChangedPredicate :: "'v funcs" where
  "ClusterManagerChangedPredicate = updateDelete (\<lambda>old new.
     if wo_Kind new \<noteq> KClusterManager then False
     else if deleting new then True
     else if wo_Kind old \<noteq> KClusterManager then False
     else wo_Status new \<noteq> wo_Status old)"

definition ClusterMasterChangedPredicate :: "'v funcs" where
  "ClusterMasterChangedPredicate = updateDelete (\<lambda>old new.
     if wo_Kind new \<noteq> KClusterMaster then False
     else if deleting new then True
     else if wo_Kind old \<noteq> KClusterMaster then False
     else wo_Status new \<noteq> wo_Status old)"

definition StatefulSetChangedPredicate :: "'v funcs" where
  "StatefulSetChangedPredicate = updateDelete (\<lambda>old new.
     if wo_Kind new \<noteq> KStatefulSet then False
     else if deleting new then True
     else if wo_Kind old \<noteq> KStatefulSet then False
     else wo_Status new \<noteq> wo_Status old)"

definition JobChangedPredicate :: "'v funcs" where
  "JobChangedPredicate = updateDelete (\<lambda>old new.
     if wo_Kind new \<noteq> KJob then False
     else if deleting new then True
     else if wo_Kind old \<noteq> KJob then False
     else ws_Conditions (wo_Status new) \<noteq> ws_Conditions (wo_Status old))"

lemma stringInSlice_iff: "stringInSlice a xs \<longleftrightarrow> a \<in> set xs"
  by (induction xs) auto

section \<open>The contract of a typed predicate\<close>

text \<open>
  What the typed predicates share: on an update, only the kind \<open>kind\<close> passes, an object being
  deleted always passes, and otherwise a change of the content \<open>content\<close> is what counts.
\<close>

locale changed_predicate =
  fixes pred :: "'v funcs" and kind :: kind and content :: "'v wobj \<Rightarrow> 'c"
  assumes update_law: "f_Update pred = Some (\<lambda>old new.
      wo_Kind new = kind \<and> (deleting new \<or> (wo_Kind old = kind \<and> content new \<noteq> content old)))"
    and delete_law: "f_Delete pred = Some deleteFunc"
    and others_law: "f_Create pred = None \<and> f_Generic pred = None"
begin

lemma resync_ignored: "\<not> deleting x \<Longrightarrow> \<not> the (f_Update pred) x x"
  by (simp add: update_law)

lemma other_kind_ignored: "wo_Kind new \<noteq> kind \<Longrightarrow> \<not> the (f_Update pred) old new"
  by (simp add: update_law)

lemma deletion_passes: "wo_Kind new = kind \<Longrightarrow> deleting new \<Longrightarrow> the (f_Update pred) old new"
  by (simp add: update_law)

lemma fires_iff:
  "the (f_Update pred) old new \<longleftrightarrow>
     wo_Kind new = kind \<and> (deleting new \<or> (wo_Kind old = kind \<and> content new \<noteq> content old))"
  by (simp add: update_law)

end

lemmas predicate_defs =
  LabelChangedPredicate_def GenerationChangedPredicate_def AnnotationChangedPredicate_def
  SecretChangedPredicate_def ConfigMapChangedPredicate_def DeploymentChangedPredicate_def
  PodChangedPredicate_def ResourceFailedPredicate_def CrdChangedPredicate_def
  ClusterManagerChangedPredicate_def ClusterMasterChangedPredicate_def
  StatefulSetChangedPredicate_def JobChangedPredicate_def updateDelete_def

interpretation secretP: changed_predicate SecretChangedPredicate KSecret wo_Data
  by unfold_locales (auto simp: predicate_defs fun_eq_iff)

interpretation configMapP: changed_predicate ConfigMapChangedPredicate KConfigMap wo_Data
  by unfold_locales (auto simp: predicate_defs fun_eq_iff)

interpretation deploymentP: changed_predicate DeploymentChangedPredicate KDeployment wo_Status
  by unfold_locales (auto simp: predicate_defs fun_eq_iff)

interpretation podP: changed_predicate PodChangedPredicate KPod wo_Status
  by unfold_locales (auto simp: predicate_defs fun_eq_iff)

interpretation clusterManagerP: changed_predicate ClusterManagerChangedPredicate KClusterManager wo_Status
  by unfold_locales (auto simp: predicate_defs fun_eq_iff)

interpretation clusterMasterP: changed_predicate ClusterMasterChangedPredicate KClusterMaster wo_Status
  by unfold_locales (auto simp: predicate_defs fun_eq_iff)

interpretation statefulSetP: changed_predicate StatefulSetChangedPredicate KStatefulSet wo_Status
  by unfold_locales (auto simp: predicate_defs fun_eq_iff)

interpretation jobP: changed_predicate JobChangedPredicate KJob "\<lambda>x. ws_Conditions (wo_Status x)"
  by unfold_locales (auto simp: predicate_defs fun_eq_iff)

section \<open>Running predicates: the documented behaviour of controller-runtime\<close>

definition predicateDocs :: "('v predicate \<Rightarrow> 'v wevent \<Rightarrow> bool) \<Rightarrow> bool" where
  "predicateDocs run \<longleftrightarrow>
     (\<forall>f x. run (Funcs f) (CreateEvent x) = (case f_Create f of None \<Rightarrow> True | Some g \<Rightarrow> g x)) \<and>
     (\<forall>f x y. run (Funcs f) (UpdateEvent x y) = (case f_Update f of None \<Rightarrow> True | Some g \<Rightarrow> g x y)) \<and>
     (\<forall>f x b. run (Funcs f) (DeleteEvent x b) = (case f_Delete f of None \<Rightarrow> True | Some g \<Rightarrow> g x b)) \<and>
     (\<forall>f x. run (Funcs f) (GenericEvent x) = (case f_Generic f of None \<Rightarrow> True | Some g \<Rightarrow> g x)) \<and>
     (\<forall>ps e. run (PredOr ps) e = list_ex (\<lambda>p. run p e) ps) \<and>
     (\<forall>x y. run LibGenerationChanged (UpdateEvent x y) =
        (om_Generation (wo_Meta x) \<noteq> om_Generation (wo_Meta y)))"

lemma predicateDocsD:
  assumes "predicateDocs run"
  shows "run (Funcs (updateDelete u)) (CreateEvent x)"
    and "run (Funcs (updateDelete u)) (UpdateEvent x y) = u x y"
    and "run (Funcs (updateDelete u)) (DeleteEvent x b) = (\<not> b)"
    and "run (Funcs (updateDelete u)) (GenericEvent x)"
    and "run (PredOr ps) e = list_ex (\<lambda>p. run p e) ps"
    and "run LibGenerationChanged (UpdateEvent x y) =
           (om_Generation (wo_Meta x) \<noteq> om_Generation (wo_Meta y))"
  using assms unfolding predicateDocs_def by (simp_all add: updateDelete_def deleteFunc_def)

text \<open>An evaluator with that behaviour, for the examples.\<close>

fun runPredicate :: "'v predicate \<Rightarrow> 'v wevent \<Rightarrow> bool" where
  "runPredicate (Funcs f) e =
     (case e of
        CreateEvent x \<Rightarrow> (case f_Create f of None \<Rightarrow> True | Some g \<Rightarrow> g x)
      | UpdateEvent x y \<Rightarrow> (case f_Update f of None \<Rightarrow> True | Some g \<Rightarrow> g x y)
      | DeleteEvent x b \<Rightarrow> (case f_Delete f of None \<Rightarrow> True | Some g \<Rightarrow> g x b)
      | GenericEvent x \<Rightarrow> (case f_Generic f of None \<Rightarrow> True | Some g \<Rightarrow> g x))"
| "runPredicate (PredOr ps) e = list_ex (\<lambda>p. runPredicate p e) ps"
| "runPredicate LibGenerationChanged e =
     (case e of
        UpdateEvent x y \<Rightarrow> om_Generation (wo_Meta x) \<noteq> om_Generation (wo_Meta y)
      | _ \<Rightarrow> True)"

lemma runPredicate_docs: "predicateDocs runPredicate"
  by (simp add: predicateDocs_def)

section \<open>Properties\<close>

text \<open>
  The typed watch predicates: an update passes exactly when the new object is of the
  predicate's kind and is being deleted, or the old one is of that kind too and the compared
  content (a Secret's and a ConfigMap's data, a workload's status, a Job's conditions) differs;
  a CRD update passes when both are CRDs and the new one is being deleted, or is one of Splunk's
  and its spec differs.
\<close>

theorem typed_predicates_fire_iff:
  "(the (f_Update SecretChangedPredicate) old new \<longleftrightarrow>
      wo_Kind new = KSecret \<and> (deleting new \<or> (wo_Kind old = KSecret \<and> wo_Data new \<noteq> wo_Data old))) \<and>
   (the (f_Update ConfigMapChangedPredicate) old new \<longleftrightarrow>
      wo_Kind new = KConfigMap \<and> (deleting new \<or> (wo_Kind old = KConfigMap \<and> wo_Data new \<noteq> wo_Data old))) \<and>
   (the (f_Update DeploymentChangedPredicate) old new \<longleftrightarrow>
      wo_Kind new = KDeployment \<and> (deleting new \<or> (wo_Kind old = KDeployment \<and> wo_Status new \<noteq> wo_Status old))) \<and>
   (the (f_Update StatefulSetChangedPredicate) old new \<longleftrightarrow>
      wo_Kind new = KStatefulSet \<and> (deleting new \<or> (wo_Kind old = KStatefulSet \<and> wo_Status new \<noteq> wo_Status old))) \<and>
   (the (f_Update JobChangedPredicate) old new \<longleftrightarrow>
      wo_Kind new = KJob \<and> (deleting new \<or> (wo_Kind old = KJob \<and>
        ws_Conditions (wo_Status new) \<noteq> ws_Conditions (wo_Status old)))) \<and>
   (the (f_Update CrdChangedPredicate) old new \<longleftrightarrow>
      wo_Kind new = KCRD \<and> wo_Kind old = KCRD \<and>
      (deleting new \<or> (om_Name (wo_Meta new) \<in> set splunkCrds \<and> wo_Spec new \<noteq> wo_Spec old)))"
  by (intro conjI secretP.fires_iff configMapP.fires_iff deploymentP.fires_iff
      statefulSetP.fires_iff jobP.fires_iff)
     (auto simp: CrdChangedPredicate_def updateDelete_def stringInSlice_iff)

end
