(* ===== verification/Events.thy ===== *)
theory Events
  imports KubeTypes
begin

text \<open>
  The event helper of \<open>pkg/ai/events.go\<close>: events are appended to the recorder of the
  reconciler state. The conditions it compares with are those of the previous reconcile.
\<close>

section \<open>Emitting\<close>

definition hasCondition :: "condition list \<Rightarrow> string \<Rightarrow> string \<Rightarrow> bool" where
  "hasCondition cs t st = list_ex (\<lambda>c. c_Type c = t \<and> c_Status c = st) cs"

definition emitStageEvent :: "string \<Rightarrow> gerr option \<Rightarrow> condition list \<Rightarrow> ('w, 'c, unit) act" where
  "emitStageEvent stageName err prev =
     (case err of
        Some e \<Rightarrow>
          let prevSuccess = hasCondition prev (stageName @ ''Ready'') ConditionTrue
          in whenA (prevSuccess \<or> length prev = 0)
               (emitA EventWarning (stageName @ ''Failed'')
                  (''Stage '' @ stageName @ '' failed: '' @ errText e))
      | None \<Rightarrow>
          let prevFailed = hasCondition prev (stageName @ ''Ready'') ConditionFalse
          in whenA prevFailed
               (emitA EventNormal (stageName @ ''Succeeded'')
                  (''Stage '' @ stageName @ '' completed successfully'')))"

definition emitLifecycleEvent :: "string \<Rightarrow> string \<Rightarrow> ('w, 'c, unit) act" where
  "emitLifecycleEvent reason message = emitA EventNormal reason message"

definition emitErrorEvent :: "string \<Rightarrow> string \<Rightarrow> ('w, 'c, unit) act" where
  "emitErrorEvent reason message = emitA EventWarning reason message"

fun firstStatus :: "condition list \<Rightarrow> string \<Rightarrow> string" where
  "firstStatus [] t = ConditionUnknown"
| "firstStatus (c # cs) t = (if c_Type c = t then c_Status c else firstStatus cs t)"

definition emitTransitionEvent ::
  "string \<Rightarrow> string \<Rightarrow> condition list \<Rightarrow> string \<Rightarrow> ('w, 'c, unit) act" where
  "emitTransitionEvent conditionType newStatus prev message =
     whenA (newStatus \<noteq> firstStatus prev conditionType)
       (emitA (if newStatus = ConditionFalse then EventWarning else EventNormal) conditionType message)"

section \<open>What is emitted\<close>

text \<open>The events an action appends, when it always returns.\<close>

definition emits :: "('w, 'c, unit) act \<Rightarrow> event list \<Rightarrow> bool" where
  "emits m evs \<longleftrightarrow> (\<forall>s. m s = (Ok (), s\<lparr>rs_events := rs_events s @ evs\<rparr>))"

lemma emits_ret: "emits (retA ()) []"
  by (simp add: emits_def retA_def)

lemma emits_emitA: "emits (emitA t r m) [\<lparr>ev_type = t, ev_reason = r, ev_message = m\<rparr>]"
  by (simp add: emits_def emitA_def)

lemma emits_whenA: "emits m evs \<Longrightarrow> emits (whenA b m) (if b then evs else [])"
  by (simp add: emits_ret act_simps)

lemma emits_thenA:
  assumes "emits m a" and "emits k b"
  shows "emits (thenA m k) (a @ b)"
  using assms by (simp add: emits_def thenA_def bindA_def)

lemma emits_stage:
  "emits (emitStageEvent n err prev)
     (case err of
        Some e \<Rightarrow> if hasCondition prev (n @ ''Ready'') ConditionTrue \<or> prev = []
                  then [\<lparr>ev_type = EventWarning, ev_reason = n @ ''Failed'',
                         ev_message = ''Stage '' @ n @ '' failed: '' @ errText e\<rparr>] else []
      | None \<Rightarrow> if hasCondition prev (n @ ''Ready'') ConditionFalse
                then [\<lparr>ev_type = EventNormal, ev_reason = n @ ''Succeeded'',
                       ev_message = ''Stage '' @ n @ '' completed successfully''\<rparr>] else [])"
  by (cases err) (auto simp: emitStageEvent_def Let_def act_simps emits_ret emits_emitA)

lemma emits_transition:
  "emits (emitTransitionEvent t st prev msg)
     (if st \<noteq> firstStatus prev t
      then [\<lparr>ev_type = (if st = ConditionFalse then EventWarning else EventNormal),
             ev_reason = t, ev_message = msg\<rparr>] else [])"
  using emits_whenA [OF emits_emitA] unfolding emitTransitionEvent_def by blast

text \<open>
  A stage event is emitted on a transition only: a failure event when the stage's condition
  was True before or nothing was recorded at all, a success event when it was False; so the same
  outcome against the condition it left behind emits nothing.
\<close>

theorem stage_event_on_transition:
  "emits (emitStageEvent n err prev)
     (case err of
        Some e \<Rightarrow> if hasCondition prev (n @ ''Ready'') ConditionTrue \<or> prev = []
                  then [\<lparr>ev_type = EventWarning, ev_reason = n @ ''Failed'',
                         ev_message = ''Stage '' @ n @ '' failed: '' @ errText e\<rparr>] else []
      | None \<Rightarrow> if hasCondition prev (n @ ''Ready'') ConditionFalse
                then [\<lparr>ev_type = EventNormal, ev_reason = n @ ''Succeeded'',
                       ev_message = ''Stage '' @ n @ '' completed successfully''\<rparr>] else []) \<and>
   emits (emitStageEvent n err
      [\<lparr>c_Type = n @ ''Ready'', c_Status = (if err = None then ConditionTrue else ConditionFalse),
        c_Reason = r, c_Message = m, c_LastTransitionTime = t\<rparr>]) []"
proof
  let ?c = "[\<lparr>c_Type = n @ ''Ready'', c_Status = (if err = None then ConditionTrue else ConditionFalse),
        c_Reason = r, c_Message = m, c_LastTransitionTime = t\<rparr>]"
  have "\<not> hasCondition ?c (n @ ''Ready'') (if err = None then ConditionFalse else ConditionTrue)"
    by (simp add: hasCondition_def)
  then show "emits (emitStageEvent n err ?c) []"
    using emits_stage [of n err ?c] by (cases err) simp_all
qed (rule emits_stage)

end
