(* ===== verification/ApiTypes.thy ===== *)
theory ApiTypes
  imports KubeTypes
begin

text \<open>
  The custom resources of \<open>api/v1\<close>: \<open>AIPlatform\<close> and \<open>AIService\<close> with the types of their
  specs and statuses, field by field. A record field carries the Go field's name behind a
  prefix for its struct.
\<close>

section \<open>Shared types\<close>

abbreviation SecretSourceKubernetes :: string where "SecretSourceKubernetes \<equiv> ''kubernetes''"
abbreviation SecretSourceVault :: string where "SecretSourceVault \<equiv> ''vault''"

definition TotalWorker :: int where
  "TotalWorker = 1"

record SchedulingSpec =
  ss_NodeSelector :: "smap option"
  ss_Tolerations :: "toleration list"
  ss_Affinity :: "affinity option"

record ObjectStorageSpec =
  os_Path :: string
  os_Endpoint :: string
  os_Region :: string
  os_SecretRef :: string

record SplunkConfigurationSpec =
  sc_SplunkCustomResourceRef :: object_ref
  sc_SecretRef :: secret_ref
  sc_Endpoint :: string
  sc_Token :: string
  sc_SecretSource :: string
  sc_VaultFilePath :: string

record FeatureSpec =
  fs_Name :: string
  fs_ServiceAccountName :: string
  fs_Version :: string
  fs_ScaleFactor :: "int32 option"

record MTLSConfig =
  mt_Enabled :: bool
  mt_IssuerRef :: issuer_ref
  mt_SecretName :: string
  mt_DNSNames :: "string list"
  mt_Termination :: string

record MetricsConfig =
  mc_Enabled :: bool
  mc_Path :: string
  mc_Port :: int32

section \<open>AIPlatform\<close>

record Images =
  im_SAIAImage :: string
  im_WeaviateImage :: string
  im_RayHeadGroupImage :: string
  im_RayWorkerGroupImage :: string
  im_ImagePullSecrets :: "string list"

record VectorDBStorageSpec =
  vs_PVCName :: string
  vs_Size :: string
  vs_StorageClassName :: string

record StorageSpec =
  st_VectorDB :: VectorDBStorageSpec

record WeaviateSpec =
  we_Replicas :: "int32 option"
  we_Resources :: resource_requirements
  we_ServiceAccountName :: string
  we_SchedulingSpec :: SchedulingSpec

record HeadGroupSpec =
  hg_ServiceAccountName :: string
  hg_SchedulingSpec :: SchedulingSpec
  hg_ImageRegistry :: string

record WorkerGroupConfig =
  wg_ServiceAccountName :: string
  wg_ImageRegistry :: string

record GPUConfig =
  gc_Tier :: string
  gc_MinReplicas :: int32
  gc_MaxReplicas :: int32
  gc_GPUsPerPod :: int32
  gc_Resources :: resource_requirements

record ReplicasSpec =
  rs_Min :: int32
  rs_Max :: int32

record MachineClass =
  ma_ResourceRequirements :: resource_requirements
  ma_GPU :: int32
  ma_EphimeralStorage :: string

record SidecarSpec =
  sd_Envoy :: bool
  sd_Otel :: bool
  sd_PrometheusOperator :: bool

record IngressPath =
  ip_Path :: string
  ip_PathType :: string

record IngressHost =
  ih_Host :: string
  ih_Paths :: "IngressPath list"

record IngressTLS =
  it_Hosts :: "string list"
  it_SecretName :: string

record IngressSpec =
  in_Enabled :: bool
  in_ClassName :: string
  in_Annotations :: "smap option"
  in_Hosts :: "IngressHost list"
  in_TLS :: "IngressTLS list"

record AIPlatformSpec =
  ap_ObjectStorage :: ObjectStorageSpec
  ap_ServiceAccountName :: string
  ap_GpuInstanceType :: string
  ap_Features :: "FeatureSpec list"
  ap_WorkerGroupConfig :: "WorkerGroupConfig option"
  ap_Sidecars :: SidecarSpec
  ap_CertificateRef :: string
  ap_ClusterDomain :: string
  ap_Images :: Images
  ap_DefaultAcceleratorType :: string
  ap_SplunkConfiguration :: SplunkConfigurationSpec
  ap_Storage :: StorageSpec
  ap_GPUSchedulingSpec :: "SchedulingSpec option"
  ap_CPUSchedulingSpec :: "SchedulingSpec option"
  ap_Ingress :: "IngressSpec option"
  ap_MTLS :: MTLSConfig
  ap_ServiceTemplate :: service

record AIPlatformStatus =
  aps_RayServiceName :: string
  aps_VectorDbServiceName :: string
  aps_RayServiceStatus :: string
  aps_Conditions :: "condition list"
  aps_ObservedGeneration :: int64
  aps_Ingress :: string

record AIPlatform =
  p_Meta :: objmeta
  p_Spec :: AIPlatformSpec
  p_Status :: AIPlatformStatus

section \<open>AIService\<close>

record AIServiceSpec =
  as_Feature :: FeatureSpec
  as_Version :: string
  as_TaskVolume :: ObjectStorageSpec
  as_SplunkConfiguration :: SplunkConfigurationSpec
  as_VectorDbUrl :: string
  as_AIPlatformUrl :: string
  as_AIPlatformRef :: object_ref
  as_Replicas :: int32
  as_ServiceAccountName :: string
  as_ImagePullSecrets :: "string list"
  as_Port :: int32
  as_Env :: "smap option"
  as_Tolerations :: "toleration list"
  as_Affinity :: affinity
  as_Resources :: resource_requirements
  as_Metrics :: MetricsConfig
  as_MTLS :: MTLSConfig
  as_ServiceTemplate :: service
  as_ClusterDomain :: string

record AIServiceStatus =
  ass_SchemaJobId :: string
  ass_VectorDbStatus :: string
  ass_PlatformStatus :: string
  ass_Conditions :: "condition list"
  ass_ObservedGeneration :: int64

record AIService =
  s_Meta :: objmeta
  s_Spec :: AIServiceSpec
  s_Status :: AIServiceStatus

section \<open>Zero values\<close>

text \<open>Go's zero value of each struct, which the code builds on and examples start from.\<close>

definition zeroService :: service where
  "zeroService = \<lparr>svc_Meta = newMeta '''' '''', svc_Selector = fmempty, svc_Ports = [],
                  svc_Type = '''', svc_Status = ''''\<rparr>"

definition zeroFeature :: FeatureSpec where
  "zeroFeature = \<lparr>fs_Name = '''', fs_ServiceAccountName = '''', fs_Version = '''',
                  fs_ScaleFactor = None\<rparr>"

definition zeroStorage :: ObjectStorageSpec where
  "zeroStorage = \<lparr>os_Path = '''', os_Endpoint = '''', os_Region = '''', os_SecretRef = ''''\<rparr>"

definition zeroObjectRef :: object_ref where
  "zeroObjectRef = \<lparr>ref_APIVersion = '''', ref_Kind = '''', ref_Name = '''', ref_Namespace = ''''\<rparr>"

definition zeroSplunk :: SplunkConfigurationSpec where
  "zeroSplunk = \<lparr>sc_SplunkCustomResourceRef = zeroObjectRef,
                 sc_SecretRef = \<lparr>sr_Name = '''', sr_Namespace = ''''\<rparr>, sc_Endpoint = '''',
                 sc_Token = '''', sc_SecretSource = '''', sc_VaultFilePath = ''''\<rparr>"

definition zeroMTLS :: MTLSConfig where
  "zeroMTLS = \<lparr>mt_Enabled = False, mt_IssuerRef = \<lparr>ir_Name = '''', ir_Kind = ''''\<rparr>,
               mt_SecretName = '''', mt_DNSNames = [], mt_Termination = ''''\<rparr>"

definition zeroServiceSpec :: AIServiceSpec where
  "zeroServiceSpec =
     \<lparr>as_Feature = zeroFeature, as_Version = '''', as_TaskVolume = zeroStorage,
      as_SplunkConfiguration = zeroSplunk, as_VectorDbUrl = '''', as_AIPlatformUrl = '''',
      as_AIPlatformRef = zeroObjectRef, as_Replicas = 0, as_ServiceAccountName = '''',
      as_ImagePullSecrets = [], as_Port = 0, as_Env = None, as_Tolerations = [],
      as_Affinity = '''', as_Resources = \<lparr>rr_Requests = None, rr_Limits = None\<rparr>,
      as_Metrics = \<lparr>mc_Enabled = False, mc_Path = '''', mc_Port = 0\<rparr>, as_MTLS = zeroMTLS,
      as_ServiceTemplate = zeroService, as_ClusterDomain = ''''\<rparr>"

definition zeroAIService :: AIService where
  "zeroAIService =
     \<lparr>s_Meta = newMeta '''' '''', s_Spec = zeroServiceSpec,
      s_Status = \<lparr>ass_SchemaJobId = '''', ass_VectorDbStatus = '''', ass_PlatformStatus = '''',
                  ass_Conditions = [], ass_ObservedGeneration = 0\<rparr>\<rparr>"

definition zeroPlatformSpec :: AIPlatformSpec where
  "zeroPlatformSpec =
     \<lparr>ap_ObjectStorage = zeroStorage, ap_ServiceAccountName = '''', ap_GpuInstanceType = '''',
      ap_Features = [], ap_WorkerGroupConfig = None,
      ap_Sidecars = \<lparr>sd_Envoy = False, sd_Otel = False, sd_PrometheusOperator = False\<rparr>,
      ap_CertificateRef = '''', ap_ClusterDomain = '''',
      ap_Images = \<lparr>im_SAIAImage = '''', im_WeaviateImage = '''', im_RayHeadGroupImage = '''',
                   im_RayWorkerGroupImage = '''', im_ImagePullSecrets = []\<rparr>,
      ap_DefaultAcceleratorType = '''', ap_SplunkConfiguration = zeroSplunk,
      ap_Storage = \<lparr>st_VectorDB = \<lparr>vs_PVCName = '''', vs_Size = '''', vs_StorageClassName = ''''\<rparr>\<rparr>,
      ap_GPUSchedulingSpec = None, ap_CPUSchedulingSpec = None, ap_Ingress = None,
      ap_MTLS = zeroMTLS, ap_ServiceTemplate = zeroService\<rparr>"

definition zeroAIPlatform :: AIPlatform where
  "zeroAIPlatform =
     \<lparr>p_Meta = newMeta '''' '''', p_Spec = zeroPlatformSpec,
      p_Status = \<lparr>aps_RayServiceName = '''', aps_VectorDbServiceName = '''',
                  aps_RayServiceStatus = '''', aps_Conditions = [], aps_ObservedGeneration = 0,
                  aps_Ingress = ''''\<rparr>\<rparr>"

lemmas zero_defs =
  zeroService_def zeroFeature_def zeroStorage_def zeroObjectRef_def zeroSplunk_def zeroMTLS_def
  zeroServiceSpec_def zeroAIService_def zeroPlatformSpec_def zeroAIPlatform_def

end
