(* ===== verification/Urls.thy ===== *)
theory Urls
  imports GoStd
begin

text \<open>
  What \<open>url.Parse\<close> makes of a URL with a scheme, an authority and a path in which nothing is
  escaped: its parts. The volumes of the object store and the endpoints that are probed are such.
\<close>

text \<open>The characters that stand for themselves, and a path of them.\<close>

definition plainC :: "char \<Rightarrow> bool" where
  "plainC c = (c \<notin> {CHR ''%'', CHR ''?'', CHR ''#''} \<and> 32 \<le> (of_char c :: nat) \<and> (of_char c :: nat) \<noteq> 127)"

definition plainPath :: "string \<Rightarrow> bool" where
  "plainPath p = (list_all plainC p \<and> (p = '''' \<or> hd p = CHR ''/''))"

lemma lastIndexC_absent: "c \<notin> set s \<Longrightarrow> lastIndexC s c = None"
  by (induction s) auto

lemma unescape_plain: "list_all plainC p \<Longrightarrow> unescape EncodePath p = Some p"
  by (induction p) (auto simp: plainC_def)

definition schemeC :: "char \<Rightarrow> bool" where
  "schemeC c = (isLowerC c \<or> isDigitC c)"

lemma schemeAt_colon: "list_all schemeC s \<Longrightarrow> schemeAt False (s @ CHR '':'' # r) = Some (Some (length s))"
proof (induction s)
  case Nil
  have "\<not> isUpperC (CHR '':'')" "\<not> isLowerC (CHR '':'')" "\<not> isDigitC (CHR '':'')"
    by code_simp+
  then show ?case by simp
next
  case (Cons c s)
  then show ?case by (auto simp: schemeC_def)
qed

lemma getScheme_colon:
  assumes "list_all schemeC s" and "s \<noteq> []" and "isLowerC (hd s)"
  shows "getScheme (s @ CHR '':'' # r) = Some (s, r)"
  using assms schemeAt_colon [of "tl s" r] by (cases s) (simp_all add: getScheme_def)

lemma toLower_scheme: "list_all schemeC s \<Longrightarrow> toLower s = s"
proof -
  have "schemeC c \<Longrightarrow> toLowerC c = c" for c
    by (auto simp: schemeC_def toLowerC_def isUpperC_def isLowerC_def isDigitC_def)
  then show "list_all schemeC s \<Longrightarrow> toLower s = s"
    by (induction s) (simp_all add: toLower_def)
qed

lemma cutC_absent: "c \<notin> set s \<Longrightarrow> cutC c s = (s, '''')"
  by (induction s) (auto simp: cutC_def)

lemma hasSuffix_last: "hasSuffix s [c] \<Longrightarrow> c \<in> set s"
  by (cases "rev s") (auto simp: hasSuffix_def hasPrefix_def dest: arg_cong [where f = rev])

lemma plain_chars:
  assumes "list_all plainC u"
  shows "CHR ''#'' \<notin> set u" "CHR ''?'' \<notin> set u"
    "\<not> list_ex (\<lambda>c. (of_char c :: nat) < 32 \<or> (of_char c :: nat) = 127) u"
proof -
  have ctl: "plainC c \<Longrightarrow> \<not> ((of_char c :: nat) < 32 \<or> (of_char c :: nat) = 127)" for c
    unfolding plainC_def by linarith
  have "\<not> plainC (CHR ''#'')" "\<not> plainC (CHR ''?'')"
    by (simp_all add: plainC_def)
  then show "CHR ''#'' \<notin> set u" "CHR ''?'' \<notin> set u"
    "\<not> list_ex (\<lambda>c. (of_char c :: nat) < 32 \<or> (of_char c :: nat) = 127) u"
    using assms ctl unfolding list_all_iff list_ex_iff by blast+
qed

lemma urlParse_authority:
  assumes s: "list_all schemeC s" "s \<noteq> []" "isLowerC (hd s)"
    and a: "parseAuthority a = Some h" "list_all plainC a" "CHR ''/'' \<notin> set a" and p: "plainPath p"
  shows "urlParse (s @ ''://'' @ a @ p) =
     Some \<lparr>u_Scheme = s, u_Opaque = [], u_Host = h, u_Path = p, u_RawQuery = []\<rparr>"
proof -
  let ?rest = "''//'' @ a @ p"
  let ?u = "s @ ''://'' @ a @ p"
  have pl: "list_all plainC p" and hd: "p = [] \<or> hd p = CHR ''/''"
    using p by (simp_all add: plainPath_def)
  have scheme_chars: "schemeC c \<Longrightarrow> plainC c" for c
    by (auto simp: schemeC_def plainC_def isLowerC_def isDigitC_def)
  have plain_lits: "plainC (CHR '':'')" "plainC (CHR ''/'')"
    by code_simp+
  have all: "list_all plainC ?u"
    using s(1) a(2) pl plain_lits by (auto simp: list_all_iff scheme_chars)
  note no = plain_chars(1,2) [OF all] and ctl = plain_chars(3) [OF all]
  have query: "splitQuery ?rest = (?rest, [])"
    using no(2) by (auto simp: splitQuery_def cutC_absent dest: hasSuffix_last)
  have auth: "hasAuthority s ?rest"
    using s(2) by (simp add: hasAuthority_def hasPrefix_def)
  have take: "takeWhile (\<lambda>c. c \<noteq> CHR ''/'') (a @ p) = a"
    using a(3) hd by (cases p) (auto simp: takeWhile_append)
  have drop: "dropWhile (\<lambda>c. c \<noteq> CHR ''/'') (a @ p) = p"
    using a(3) hd by (cases p) (auto simp: dropWhile_append)
  have slash: "hasPrefix ?rest ''/''"
    by (simp add: hasPrefix_def)
  have star: "?u \<noteq> ''*''"
    using s(1,2) by (cases s) (auto simp: schemeC_def isLowerC_def isDigitC_def)
  have "parseNoFragment ?u = parseRest s [] ?rest"
    using getScheme_colon [OF s, of ?rest] ctl star query slash
    by (simp add: parseNoFragment_def toLower_scheme [OF s(1)])
  also have "\<dots> = Some \<lparr>u_Scheme = s, u_Opaque = [], u_Host = h, u_Path = p, u_RawQuery = []\<rparr>"
    using auth take drop by (simp add: parseRest_def a(1) unescape_plain [OF pl])
  finally show ?thesis
    using no(1) by (simp add: urlParse_def cutC_absent)
qed

end
