(* ===== verification/Storage.thy ===== *)
theory Storage
  imports ApiTypes Urls
begin

text \<open>
  The object-storage clients of \<open>pkg/storage\<close>. What an SDK answers (pages of a listing, the
  outcome of a head request, whether a session or a credential can be made) is a parameter, a
  record of functions per SDK; the URIs and keys the clients build, their error handling and the
  dispatch on the scheme are the code's. The interface \<open>StorageClient\<close> has the contract
  \<open>storage_client\<close>, and \<open>artifact_client\<close> adds what its comment on \<open>BuildArtifactURI\<close> promises.
\<close>

section \<open>SDKs\<close>

text \<open>An AWS error: a response with its status code, or anything else.\<close>

datatype aws_err = RequestFailure int gerr | OtherFailure gerr

primrec awsErr :: "aws_err \<Rightarrow> gerr" where
  "awsErr (RequestFailure _ e) = e"
| "awsErr (OtherFailure e) = e"

record s3_api =
  s3_pages :: "string \<Rightarrow> string \<Rightarrow> string list list \<times> aws_err option"
  s3_head :: "string \<Rightarrow> string \<Rightarrow> aws_err option"

text \<open>A GCS iterator step: an object's name, or an error; the end of the list is \<open>Done\<close>.\<close>

datatype gcs_err = ErrObjectNotExist gerr | OtherGCSErr gerr

primrec gcsErr :: "gcs_err \<Rightarrow> gerr" where
  "gcsErr (ErrObjectNotExist e) = e"
| "gcsErr (OtherGCSErr e) = e"

record gcs_api =
  gcs_objects :: "string \<Rightarrow> string \<Rightarrow> string res list"
  gcs_attrs :: "string \<Rightarrow> string \<Rightarrow> gcs_err option"

record azure_api =
  az_pages :: "string \<Rightarrow> string \<Rightarrow> string list res list"
  az_properties :: "string \<Rightarrow> string \<Rightarrow> aws_err option"

section \<open>S3 and MinIO\<close>

record s3Client =
  s3_cli :: s3_api
  s3_bucket :: string
  s3_prefix :: string

record aws_config =
  aws_Endpoint :: string
  aws_Region :: string
  aws_S3ForcePathStyle :: bool
  aws_InsecureSkipVerify :: bool
  aws_Credentials :: "(string \<times> string \<times> string) option"

text \<open>
  The parameters of the constructors: the secret behind \<open>SecretRef\<close>, and the SDKs'
  constructors.
\<close>

record sdk =
  k_getSecret :: "nname \<Rightarrow> secret res"
  k_awsSession :: "aws_config \<Rightarrow> s3_api res"
  k_gcsClient :: "string option \<Rightarrow> gcs_api res"
  k_azureSecretCred :: "string \<Rightarrow> string \<Rightarrow> string \<Rightarrow> string res"
  k_azureDefaultCred :: "string res"
  k_azureClient :: "string \<Rightarrow> string \<Rightarrow> azure_api res"

definition staticCredentials :: "secret \<Rightarrow> string \<times> string \<times> string" where
  "staticCredentials s = (mget (sec_Data s) ''s3_access_key'', mget (sec_Data s) ''s3_secret_key'', '''')"

definition awsCredentials ::
  "sdk \<Rightarrow> string \<Rightarrow> ObjectStorageSpec \<Rightarrow> (string \<times> string \<times> string) option res" where
  "awsCredentials k ns vs =
     (if os_SecretRef vs \<noteq> ''''
      then bindR (k_getSecret k (ns, os_SecretRef vs)) (\<lambda>s. Ok (Some (staticCredentials s)))
      else Ok None)"

definition NewS3Client :: "sdk \<Rightarrow> string \<Rightarrow> string \<Rightarrow> string \<Rightarrow> ObjectStorageSpec \<Rightarrow> s3Client res" where
  "NewS3Client k ns bucket prefix vs =
     bindR (awsCredentials k ns vs) (\<lambda>cr.
     bindR (k_awsSession k \<lparr>aws_Endpoint = os_Endpoint vs, aws_Region = os_Region vs,
              aws_S3ForcePathStyle = True, aws_InsecureSkipVerify = True, aws_Credentials = cr\<rparr>) (\<lambda>cli.
     Ok \<lparr>s3_cli = cli, s3_bucket = bucket, s3_prefix = prefix\<rparr>))"

definition NewMinioClient :: "sdk \<Rightarrow> string \<Rightarrow> string \<Rightarrow> string \<Rightarrow> ObjectStorageSpec \<Rightarrow> s3Client res" where
  "NewMinioClient k ns bucket prefix vs =
     bindR (awsCredentials k ns vs) (\<lambda>cr.
     bindR (k_awsSession k \<lparr>aws_Endpoint = os_Endpoint vs, aws_Region = os_Region vs,
              aws_S3ForcePathStyle = True, aws_InsecureSkipVerify = False, aws_Credentials = cr\<rparr>) (\<lambda>cli.
     Ok \<lparr>s3_cli = cli, s3_bucket = bucket, s3_prefix = prefix\<rparr>))"

text \<open>The callback appends every key of every page and asks for more.\<close>

definition s3ListObjects :: "s3Client \<Rightarrow> string list res" where
  "s3ListObjects c =
     (case s3_pages (s3_cli c) (s3_bucket c) (s3_prefix c) of
        (pages, None) \<Rightarrow> Ok (fold (\<lambda>page keys. keys @ page) pages [])
      | (pages, Some e) \<Rightarrow> Err (awsErr e))"

definition s3Exists :: "s3Client \<Rightarrow> string \<Rightarrow> bool res" where
  "s3Exists c key =
     (let filePath = s3_prefix c @ ''/'' @ key
      in case s3_head (s3_cli c) (s3_bucket c) filePath of
           None \<Rightarrow> Ok True
         | Some (RequestFailure code e) \<Rightarrow> if code = 404 then Ok False else Err e
         | Some (OtherFailure e) \<Rightarrow> Err e)"

definition nl :: string where
  "nl = [CHR 0x0A]"

definition s3BuildLoaderBlock :: "s3Client \<Rightarrow> string \<Rightarrow> string" where
  "s3BuildLoaderBlock c uri =
     (let trim = ''s3://'' @ s3_bucket c @ ''/''; p = trimPrefix uri trim; dir = pathDir p
      in ''        s3_artifact:'' @ nl @ ''          bucket: '' @ s3_bucket c @ nl @
         ''          s3_key_prefix: '' @ dir @ nl)"

definition s3BuildWorkingDir :: "s3Client \<Rightarrow> string \<Rightarrow> string" where
  "s3BuildWorkingDir c modelName =
     (if s3_prefix c = '''' then ''s3://'' @ s3_bucket c @ ''/'' @ modelName
      else ''s3://'' @ s3_bucket c @ ''/'' @ s3_prefix c @ ''/'' @ modelName)"

definition s3BuildArtifactURI :: "s3Client \<Rightarrow> string \<Rightarrow> string" where
  "s3BuildArtifactURI c key =
     (let k = trimPrefix key ''/''
      in if s3_prefix c \<noteq> '''' then ''s3://'' @ s3_bucket c @ ''/'' @ s3_prefix c @ ''/'' @ k
         else ''s3://'' @ s3_bucket c @ ''/'' @ k)"

section \<open>Google Cloud Storage\<close>

record gcsClient =
  gcs_cli :: gcs_api
  gcs_bucket :: string
  gcs_prefix :: string

definition NewGCSClient :: "sdk \<Rightarrow> string \<Rightarrow> string \<Rightarrow> string \<Rightarrow> ObjectStorageSpec \<Rightarrow> gcsClient res" where
  "NewGCSClient k ns bucket prefix vs =
     bindR (if os_SecretRef vs \<noteq> '''' then
              bindR (mapErr (Wrapf ''fetch GCP secret: '') (k_getSecret k (ns, os_SecretRef vs))) (\<lambda>s.
                case fmlookup (sec_Data s) ''service_account.json'' of
                  None \<Rightarrow> Err (Errorf (''secret '' @ quote (os_SecretRef vs) @
                                       '' missing key '' @ [CHR 0x27] @ ''service_account.json'' @ [CHR 0x27]))
                | Some j \<Rightarrow> Ok (Some j))
            else Ok None) (\<lambda>opts.
     bindR (mapErr (Wrapf ''new GCS client: '') (k_gcsClient k opts)) (\<lambda>cli.
     Ok \<lparr>gcs_cli = cli, gcs_bucket = bucket, gcs_prefix = prefix\<rparr>))"

fun gcsDrain :: "string list \<Rightarrow> string res list \<Rightarrow> string list res" where
  "gcsDrain keys [] = Ok keys"
| "gcsDrain keys (Ok n # rest) = gcsDrain (keys @ [n]) rest"
| "gcsDrain keys (Err e # rest) = Err e"
| "gcsDrain keys (Panic p # rest) = Panic p"

definition gcsListObjects :: "gcsClient \<Rightarrow> string list res" where
  "gcsListObjects c = gcsDrain [] (gcs_objects (gcs_cli c) (gcs_bucket c) (gcs_prefix c))"

definition gcsBuildLoaderBlock :: "gcsClient \<Rightarrow> string \<Rightarrow> string" where
  "gcsBuildLoaderBlock c uri =
     (let trim = ''gs://'' @ gcs_bucket c @ ''/''; p = trimPrefix uri trim; dir = pathDir p
      in ''        gcs_artifact:'' @ nl @ ''          bucket: '' @ gcs_bucket c @ nl @
         ''          object_key: '' @ dir @ nl)"

definition gcsBuildWorkingDir :: "gcsClient \<Rightarrow> string \<Rightarrow> string" where
  "gcsBuildWorkingDir c modelName =
     (if gcs_prefix c = '''' then ''gs://'' @ gcs_bucket c @ ''/'' @ modelName
      else ''gs://'' @ gcs_bucket c @ ''/'' @ gcs_prefix c @ ''/'' @ modelName)"

definition gcsBuildArtifactURI :: "gcsClient \<Rightarrow> string \<Rightarrow> string" where
  "gcsBuildArtifactURI c key =
     (let trim = gcs_prefix c @ ''/''; p = trimPrefix key trim
      in ''gs://'' @ gcs_bucket c @ ''/'' @ p)"

definition gcsExists :: "gcsClient \<Rightarrow> string \<Rightarrow> bool res" where
  "gcsExists c key =
     (let filePath = gcs_prefix c @ ''/'' @ key
      in case gcs_attrs (gcs_cli c) (gcs_bucket c) filePath of
           None \<Rightarrow> Ok True
         | Some (ErrObjectNotExist e) \<Rightarrow> Ok False
         | Some (OtherGCSErr e) \<Rightarrow> Err (Wrapf (''GCS HeadObject('' @ quote filePath @ ''): '') e))"

section \<open>Azure\<close>

record azureClient =
  az_cli :: azure_api
  az_endpoint :: string
  az_container :: string
  az_prefix :: string

definition NewAzureClient :: "sdk \<Rightarrow> string \<Rightarrow> string \<Rightarrow> string \<Rightarrow> ObjectStorageSpec \<Rightarrow> azureClient res" where
  "NewAzureClient k ns container prefix vs =
     bindR (if os_SecretRef vs \<noteq> '''' then
              bindR (mapErr (Wrapf ''fetch Azure secret: '') (k_getSecret k (ns, os_SecretRef vs))) (\<lambda>s.
                mapErr (Wrapf ''client-secret credential: '')
                  (k_azureSecretCred k (mget (sec_Data s) ''azure_tenant_id'')
                     (mget (sec_Data s) ''azure_client_id'') (mget (sec_Data s) ''azure_client_secret'')))
            else mapErr (Wrapf ''default azure credential: '') (k_azureDefaultCred k)) (\<lambda>cred.
     bindR (mapErr (Wrapf ''new Azure blob client: '') (k_azureClient k (os_Endpoint vs) cred)) (\<lambda>cli.
     Ok \<lparr>az_cli = cli, az_endpoint = os_Endpoint vs, az_container = container, az_prefix = prefix\<rparr>))"

fun azDrain :: "string list \<Rightarrow> string list res list \<Rightarrow> string list res" where
  "azDrain keys [] = Ok keys"
| "azDrain keys (Ok ns # rest) = azDrain (keys @ ns) rest"
| "azDrain keys (Err e # rest) = Err e"
| "azDrain keys (Panic p # rest) = Panic p"

definition azListObjects :: "azureClient \<Rightarrow> string list res" where
  "azListObjects c = azDrain [] (az_pages (az_cli c) (az_container c) (az_prefix c))"

definition azBuildLoaderBlock :: "azureClient \<Rightarrow> string \<Rightarrow> string" where
  "azBuildLoaderBlock c uri =
     (let trim = az_endpoint c @ ''/'' @ az_container c @ ''/''; p = trimPrefix uri trim; dir = pathDir p
      in ''        azure_blob:'' @ nl @ ''          url: '' @ az_endpoint c @ nl @
         ''          container: '' @ az_container c @ nl @ ''          blob_prefix: '' @ dir @ nl)"

definition azBuildWorkingDir :: "azureClient \<Rightarrow> string \<Rightarrow> string" where
  "azBuildWorkingDir c modelName =
     (let base = az_endpoint c @ ''/'' @ az_container c
      in if az_prefix c = '''' then base @ ''/'' @ modelName
         else base @ ''/'' @ az_prefix c @ ''/'' @ modelName)"

definition azBuildArtifactURI :: "azureClient \<Rightarrow> string \<Rightarrow> string" where
  "azBuildArtifactURI c key =
     (let k = trimPrefix key ''/''
      in if az_prefix c \<noteq> '''' then az_endpoint c @ ''/'' @ az_container c @ ''/'' @ az_prefix c @ ''/'' @ k
         else az_endpoint c @ ''/'' @ az_container c @ ''/'' @ k)"

definition azKey :: "azureClient \<Rightarrow> string \<Rightarrow> string" where
  "azKey c blobName = (if az_prefix c \<noteq> '''' then pathJoin [az_prefix c, blobName] else blobName)"

definition azExists :: "azureClient \<Rightarrow> string \<Rightarrow> bool res" where
  "azExists c blobName =
     (case az_properties (az_cli c) (az_container c) (azKey c blobName) of
        None \<Rightarrow> Ok True
      | Some (RequestFailure code e) \<Rightarrow>
          if code = 404 then Ok False else Err (Wrapf ''blob GetProperties: '' e)
      | Some (OtherFailure e) \<Rightarrow> Err (Wrapf ''blob GetProperties: '' e))"

section \<open>The fixture client\<close>

record fixtureClient =
  fx_bucket :: string
  fx_prefix :: string

definition NewFixtureClient :: "string \<Rightarrow> string \<Rightarrow> fixtureClient res" where
  "NewFixtureClient bucket prefix = Ok \<lparr>fx_bucket = bucket, fx_prefix = prefix\<rparr>"

definition fxBuildLoaderBlock :: "fixtureClient \<Rightarrow> string \<Rightarrow> string" where
  "fxBuildLoaderBlock c uri =
     (let trim = ''s3://'' @ fx_bucket c @ ''/''; p = trimPrefix uri trim; dir = pathDir p
      in ''        s3_artifact:'' @ nl @ ''          bucket: '' @ fx_bucket c @ nl @
         ''          s3_key_prefix: '' @ dir @ nl)"

definition fxBuildWorkingDir :: "fixtureClient \<Rightarrow> string \<Rightarrow> string" where
  "fxBuildWorkingDir c modelName =
     (if fx_prefix c = '''' then ''s3://'' @ fx_bucket c @ ''/'' @ modelName
      else ''s3://'' @ fx_bucket c @ ''/'' @ fx_prefix c @ ''/'' @ modelName)"

definition fxBuildArtifactURI :: "fixtureClient \<Rightarrow> string \<Rightarrow> string" where
  "fxBuildArtifactURI c key =
     (let k = trimPrefix key ''/''
      in if fx_prefix c \<noteq> '''' then ''s3://'' @ fx_bucket c @ ''/'' @ fx_prefix c @ ''/'' @ k
         else ''s3://'' @ fx_bucket c @ ''/'' @ k)"

definition fxListObjects :: "fixtureClient \<Rightarrow> string list res" where
  "fxListObjects c = Ok []"

definition fxExists :: "fixtureClient \<Rightarrow> string \<Rightarrow> bool res" where
  "fxExists c key = Ok True"

section \<open>The interface value\<close>

datatype StorageClient =
    S3Storage s3Client | GCSStorage gcsClient | AzureStorage azureClient | FixtureStorage fixtureClient

primrec ListObjects :: "StorageClient \<Rightarrow> string list res" where
  "ListObjects (S3Storage c) = s3ListObjects c"
| "ListObjects (GCSStorage c) = gcsListObjects c"
| "ListObjects (AzureStorage c) = azListObjects c"
| "ListObjects (FixtureStorage c) = fxListObjects c"

primrec BuildLoaderBlock :: "StorageClient \<Rightarrow> string \<Rightarrow> string" where
  "BuildLoaderBlock (S3Storage c) = s3BuildLoaderBlock c"
| "BuildLoaderBlock (GCSStorage c) = gcsBuildLoaderBlock c"
| "BuildLoaderBlock (AzureStorage c) = azBuildLoaderBlock c"
| "BuildLoaderBlock (FixtureStorage c) = fxBuildLoaderBlock c"

primrec BuildWorkingDir :: "StorageClient \<Rightarrow> string \<Rightarrow> string" where
  "BuildWorkingDir (S3Storage c) = s3BuildWorkingDir c"
| "BuildWorkingDir (GCSStorage c) = gcsBuildWorkingDir c"
| "BuildWorkingDir (AzureStorage c) = azBuildWorkingDir c"
| "BuildWorkingDir (FixtureStorage c) = fxBuildWorkingDir c"

primrec BuildArtifactURI :: "StorageClient \<Rightarrow> string \<Rightarrow> string" where
  "BuildArtifactURI (S3Storage c) = s3BuildArtifactURI c"
| "BuildArtifactURI (GCSStorage c) = gcsBuildArtifactURI c"
| "BuildArtifactURI (AzureStorage c) = azBuildArtifactURI c"
| "BuildArtifactURI (FixtureStorage c) = fxBuildArtifactURI c"

primrec Exists :: "StorageClient \<Rightarrow> string \<Rightarrow> bool res" where
  "Exists (S3Storage c) = s3Exists c"
| "Exists (GCSStorage c) = gcsExists c"
| "Exists (AzureStorage c) = azExists c"
| "Exists (FixtureStorage c) = fxExists c"

primrec GetProvider :: "StorageClient \<Rightarrow> string" where
  "GetProvider (S3Storage c) = ''s3''"
| "GetProvider (GCSStorage c) = ''gcs''"
| "GetProvider (AzureStorage c) = ''azure''"
| "GetProvider (FixtureStorage c) = ''s3''"

primrec GetBucket :: "StorageClient \<Rightarrow> string" where
  "GetBucket (S3Storage c) = s3_bucket c"
| "GetBucket (GCSStorage c) = gcs_bucket c"
| "GetBucket (AzureStorage c) = az_container c"
| "GetBucket (FixtureStorage c) = fx_bucket c"

primrec GetPrefix :: "StorageClient \<Rightarrow> string" where
  "GetPrefix (S3Storage c) = s3_prefix c"
| "GetPrefix (GCSStorage c) = gcs_prefix c"
| "GetPrefix (AzureStorage c) = az_prefix c"
| "GetPrefix (FixtureStorage c) = fx_prefix c"

text \<open>\<open>NewStorageClient\<close>: \<open>urlErr\<close> is the text of the error of \<open>url.Parse\<close>.\<close>

definition NewStorageClient :: "sdk \<Rightarrow> (string \<Rightarrow> gerr) \<Rightarrow> string \<Rightarrow> ObjectStorageSpec \<Rightarrow> StorageClient res" where
  "NewStorageClient k urlErr ns vs =
     (case urlParse (os_Path vs) of
        None \<Rightarrow> Err (Wrapf (''invalid volume URI '' @ quote (os_Path vs) @ '': '') (urlErr (os_Path vs)))
      | Some u \<Rightarrow>
          (let prefix = trimPrefix (u_Path u) ''/''; scheme = u_Scheme u; host = u_Host u
           in if scheme = ''s3'' then bindR (NewS3Client k ns host prefix vs) (\<lambda>c. Ok (S3Storage c))
              else if scheme = ''gs'' \<or> scheme = ''gcs''
                then bindR (NewGCSClient k ns host prefix vs) (\<lambda>c. Ok (GCSStorage c))
              else if scheme = ''azure''
                then bindR (NewAzureClient k ns host prefix vs) (\<lambda>c. Ok (AzureStorage c))
              else if scheme = ''minio''
                then bindR (NewMinioClient k ns host prefix vs) (\<lambda>c. Ok (S3Storage c))
              else if scheme = ''fixture''
                then bindR (NewFixtureClient host prefix) (\<lambda>c. Ok (FixtureStorage c))
              else Err (Errorf (''unsupported storage scheme '' @ quote scheme))))"

section \<open>Parsing a volume URI\<close>

text \<open>The characters that the CRD's pattern allows in a bucket.\<close>

definition bucketC :: "char \<Rightarrow> bool" where
  "bucketC c = (isUpperC c \<or> isLowerC c \<or> isDigitC c \<or> c \<in> {CHR ''.'', CHR ''-'', CHR ''_''})"

lemma special_chars:
  "\<not> bucketC (CHR ''/'')" "\<not> bucketC (CHR '':'')" "\<not> bucketC (CHR ''@'')" "\<not> bucketC (CHR ''%'')"
  "\<not> bucketC (CHR ''['')" "\<not> bucketC (CHR ''#'')" "\<not> bucketC (CHR ''?'')"
  by code_simp+

lemma bucketC_range: "bucketC c \<Longrightarrow> 32 \<le> (of_char c :: nat) \<and> (of_char c :: nat) \<noteq> 127"
  by (auto simp: bucketC_def isUpperC_def isLowerC_def isDigitC_def)

lemma bucketC_hostOk: "bucketC c \<Longrightarrow> hostOkC c"
  by (auto simp: bucketC_def hostOkC_def)

lemma bucket_absent: "list_all bucketC b \<Longrightarrow> \<not> bucketC c \<Longrightarrow> c \<notin> set b"
  by (auto simp: list_all_iff)

lemma unescape_bucket: "list_all bucketC b \<Longrightarrow> unescape EncodeHost b = Some b"
proof (induction b)
  case (Cons c b)
  then have "c \<noteq> CHR ''%''" "hostOkC c"
    using special_chars(4) by (auto simp: bucketC_hostOk)
  then show ?case using Cons by simp
qed simp

lemma parseAuthority_bucket:
  assumes "list_all bucketC b"
  shows "parseAuthority b = Some b"
proof -
  have "\<not> hasPrefix b ''[''"
    using assms special_chars(5) by (cases b) (auto simp: hasPrefix_def)
  then show ?thesis
    using assms
    by (simp add: parseAuthority_def parseHost_def lastIndexC_absent bucket_absent special_chars
        unescape_bucket)
qed

lemma urlParse_volume:
  assumes s: "list_all schemeC s" "s \<noteq> []" "isLowerC (hd s)"
    and b: "list_all bucketC b" and p: "plainPath p"
  shows "urlParse (s @ ''://'' @ b @ p) =
     Some \<lparr>u_Scheme = s, u_Opaque = [], u_Host = b, u_Path = p, u_RawQuery = []\<rparr>"
proof (rule urlParse_authority [OF s parseAuthority_bucket [OF b] _ bucket_absent [OF b special_chars(1)] p])
  have "bucketC c \<Longrightarrow> plainC c" for c
    using special_chars bucketC_range [of c] by (auto simp: plainC_def)
  then show "list_all plainC b"
    using b by (auto simp: list_all_iff)
qed

section \<open>The contract of a storage client\<close>

lemma hasPrefix_append: "hasPrefix (p @ s) p"
  by (simp add: hasPrefix_def)

lemma trimPrefix_append: "trimPrefix (p @ s) p = s"
  by (simp add: trimPrefix_def hasPrefix_append)

text \<open>The key under which the volume holds \<open>name\<close>.\<close>

definition volumeKey :: "string \<Rightarrow> string \<Rightarrow> string" where
  "volumeKey prefix name = (if prefix = '''' then name else prefix @ ''/'' @ name)"

text \<open>
  \<open>base\<close> is the URI of the bucket, \<open>block\<close> the loader snippet for a directory of it: a working
  directory is the URI of the key in the volume, and the loader block names the directory of the
  key that a URI of the bucket stands for.
\<close>

locale storage_client =
  fixes base :: string and prefix :: string and block :: "string \<Rightarrow> string"
    and workingDir :: "string \<Rightarrow> string" and loaderBlock :: "string \<Rightarrow> string"
  assumes working_law: "workingDir m = base @ ''/'' @ volumeKey prefix m"
    and loader_law: "loaderBlock uri = block (pathDir (trimPrefix uri (base @ ''/'')))"
begin

lemma workingDir_inj: "workingDir m = workingDir n \<Longrightarrow> m = n"
  by (simp add: working_law volumeKey_def split: if_splits)

lemma loader_of_workingDir: "loaderBlock (workingDir m) = block (pathDir (volumeKey prefix m))"
  using trimPrefix_append [of "base @ ''/''" "volumeKey prefix m"]
  by (simp add: loader_law working_law)

end

text \<open>What the interface's comment promises of \<open>BuildArtifactURI\<close>.\<close>

locale artifact_client = storage_client +
  fixes artifactURI :: "string \<Rightarrow> string"
  assumes artifact_law: "artifactURI k = workingDir (trimPrefix k ''/'')"
begin

lemma loader_of_artifact:
  "loaderBlock (artifactURI k) = block (pathDir (volumeKey prefix (trimPrefix k ''/'')))"
  by (simp add: artifact_law loader_of_workingDir)

lemma artifact_leading_slash: "\<not> hasPrefix k ''/'' \<Longrightarrow> artifactURI (CHR ''/'' # k) = artifactURI k"
  by (simp add: artifact_law trimPrefix_def hasPrefix_def)

end

definition s3Block :: "s3Client \<Rightarrow> string \<Rightarrow> string" where
  "s3Block c dir = ''        s3_artifact:'' @ nl @ ''          bucket: '' @ s3_bucket c @ nl @
     ''          s3_key_prefix: '' @ dir @ nl"

definition gcsBlock :: "gcsClient \<Rightarrow> string \<Rightarrow> string" where
  "gcsBlock c dir = ''        gcs_artifact:'' @ nl @ ''          bucket: '' @ gcs_bucket c @ nl @
     ''          object_key: '' @ dir @ nl"

definition azBlock :: "azureClient \<Rightarrow> string \<Rightarrow> string" where
  "azBlock c dir = ''        azure_blob:'' @ nl @ ''          url: '' @ az_endpoint c @ nl @
     ''          container: '' @ az_container c @ nl @ ''          blob_prefix: '' @ dir @ nl"

definition fxBlock :: "fixtureClient \<Rightarrow> string \<Rightarrow> string" where
  "fxBlock c dir = ''        s3_artifact:'' @ nl @ ''          bucket: '' @ fx_bucket c @ nl @
     ''          s3_key_prefix: '' @ dir @ nl"

lemmas s3_defs = s3BuildLoaderBlock_def s3BuildWorkingDir_def s3BuildArtifactURI_def s3Block_def
lemmas gcs_defs = gcsBuildLoaderBlock_def gcsBuildWorkingDir_def gcsBuildArtifactURI_def gcsBlock_def
lemmas az_defs = azBuildLoaderBlock_def azBuildWorkingDir_def azBuildArtifactURI_def azBlock_def
lemmas fx_defs = fxBuildLoaderBlock_def fxBuildWorkingDir_def fxBuildArtifactURI_def fxBlock_def

interpretation s3_client:
  artifact_client "''s3://'' @ s3_bucket c" "s3_prefix c" "s3Block c" "s3BuildWorkingDir c"
    "s3BuildLoaderBlock c" "s3BuildArtifactURI c" for c
  by unfold_locales (simp_all add: s3_defs volumeKey_def Let_def)

interpretation gcs_client:
  storage_client "''gs://'' @ gcs_bucket c" "gcs_prefix c" "gcsBlock c" "gcsBuildWorkingDir c"
    "gcsBuildLoaderBlock c" for c
  by unfold_locales (simp_all add: gcs_defs volumeKey_def Let_def)

interpretation az_client:
  artifact_client "az_endpoint c @ ''/'' @ az_container c" "az_prefix c" "azBlock c" "azBuildWorkingDir c"
    "azBuildLoaderBlock c" "azBuildArtifactURI c" for c
  by unfold_locales (simp_all add: az_defs volumeKey_def Let_def)

interpretation fx_client:
  artifact_client "''s3://'' @ fx_bucket c" "fx_prefix c" "fxBlock c" "fxBuildWorkingDir c"
    "fxBuildLoaderBlock c" "fxBuildArtifactURI c" for c
  by unfold_locales (simp_all add: fx_defs volumeKey_def Let_def)

text \<open>The outcome of a head request for one key, as \<open>Exists\<close> reports it.\<close>

definition s3Probe :: "s3Client \<Rightarrow> string \<Rightarrow> bool res" where
  "s3Probe c key =
     (case s3_head (s3_cli c) (s3_bucket c) key of
        None \<Rightarrow> Ok True
      | Some (RequestFailure code e) \<Rightarrow> if code = 404 then Ok False else Err e
      | Some (OtherFailure e) \<Rightarrow> Err e)"

definition gcsProbe :: "gcsClient \<Rightarrow> string \<Rightarrow> bool res" where
  "gcsProbe c key =
     (case gcs_attrs (gcs_cli c) (gcs_bucket c) key of
        None \<Rightarrow> Ok True
      | Some (ErrObjectNotExist e) \<Rightarrow> Ok False
      | Some (OtherGCSErr e) \<Rightarrow> Err (Wrapf (''GCS HeadObject('' @ quote key @ ''): '') e))"

section \<open>Properties\<close>

text \<open>
  C36: the round trip of an artifact through its URI: for S3 and Azure the loader block built from
  the URI of a key names the directory of that key below the volume's prefix.
\<close>

theorem artifact_loader_roundtrip:
  "BuildLoaderBlock (S3Storage c) (BuildArtifactURI (S3Storage c) k) =
     s3Block c (pathDir (volumeKey (s3_prefix c) (trimPrefix k ''/''))) \<and>
   BuildLoaderBlock (AzureStorage a) (BuildArtifactURI (AzureStorage a) k) =
     azBlock a (pathDir (volumeKey (az_prefix a) (trimPrefix k ''/'')))"
  by (simp add: s3_client.loader_of_artifact az_client.loader_of_artifact)

text \<open>
  A GCS client with a prefix builds the same URI for a key with and without the prefix, one
  that leaves the prefix out: the artifact URI of a key is never the URI of the package of that
  name in the volume.
\<close>

theorem gcs_artifact_drops_prefix:
  assumes "gcs_prefix c \<noteq> []" and "\<not> hasPrefix k (gcs_prefix c @ ''/'')"
  shows "BuildArtifactURI (GCSStorage c) (gcs_prefix c @ ''/'' @ k) = ''gs://'' @ gcs_bucket c @ ''/'' @ k \<and>
     BuildArtifactURI (GCSStorage c) k = ''gs://'' @ gcs_bucket c @ ''/'' @ k \<and>
     BuildArtifactURI (GCSStorage c) k \<noteq> BuildWorkingDir (GCSStorage c) k"
proof -
  have keep: "trimPrefix k (gcs_prefix c @ ''/'') = k"
    using assms(2) by (simp add: trimPrefix_def)
  have cut: "trimPrefix (gcs_prefix c @ ''/'' @ k) (gcs_prefix c @ ''/'') = k"
    using trimPrefix_append [of "gcs_prefix c @ ''/''" k] by simp
  show ?thesis
    using assms(1) cut by (simp add: gcs_defs keep)
qed

theorem gcs_artifact_drops_prefix_witness:
  "BuildArtifactURI (GCSStorage \<lparr>gcs_cli = \<lparr>gcs_objects = \<lambda>_ _. [], gcs_attrs = \<lambda>_ _. None\<rparr>,
      gcs_bucket = ''b'', gcs_prefix = ''p''\<rparr>) ''m.zip'' = ''gs://b/m.zip''"
  using gcs_artifact_drops_prefix [of "\<lparr>gcs_cli = \<lparr>gcs_objects = \<lambda>_ _. [], gcs_attrs = \<lambda>_ _. None\<rparr>,
      gcs_bucket = ''b'', gcs_prefix = ''p''\<rparr>" "''m.zip''"]
  by (simp add: hasPrefix_def)

text \<open>
  Below a non-empty prefix, the object that \<open>Exists\<close> probes on S3 and GCS is the one whose
  URI \<open>BuildWorkingDir\<close> returns; without a prefix the probed key starts with a slash that the
  URI does not have.
\<close>

theorem exists_probes_working_dir:
  "(if s3_prefix c = []
    then s3BuildWorkingDir c m = ''s3://'' @ s3_bucket c @ ''/'' @ m \<and>
         Exists (S3Storage c) m = s3Probe c (CHR ''/'' # m)
    else \<exists>key. s3BuildWorkingDir c m = ''s3://'' @ s3_bucket c @ ''/'' @ key \<and>
         Exists (S3Storage c) m = s3Probe c key) \<and>
   (if gcs_prefix g = []
    then gcsBuildWorkingDir g m = ''gs://'' @ gcs_bucket g @ ''/'' @ m \<and>
         Exists (GCSStorage g) m = gcsProbe g (CHR ''/'' # m)
    else \<exists>key. gcsBuildWorkingDir g m = ''gs://'' @ gcs_bucket g @ ''/'' @ key \<and>
         Exists (GCSStorage g) m = gcsProbe g key)"
  by (simp add: s3Exists_def gcsExists_def s3BuildWorkingDir_def gcsBuildWorkingDir_def
      s3Probe_def gcsProbe_def Let_def)

lemma S3_routes:
  "bindR (NewS3Client k ns b p vs) (\<lambda>c. Ok (S3Storage c)) = Ok c \<Longrightarrow>
     GetBucket c = b \<and> GetPrefix c = p \<and> GetProvider c = ''s3''"
  by (auto simp: NewS3Client_def bindR_Ok_iff)

lemma Minio_routes:
  "bindR (NewMinioClient k ns b p vs) (\<lambda>c. Ok (S3Storage c)) = Ok c \<Longrightarrow>
     GetBucket c = b \<and> GetPrefix c = p \<and> GetProvider c = ''s3''"
  by (auto simp: NewMinioClient_def bindR_Ok_iff)

lemma GCS_routes:
  "bindR (NewGCSClient k ns b p vs) (\<lambda>c. Ok (GCSStorage c)) = Ok c \<Longrightarrow>
     GetBucket c = b \<and> GetPrefix c = p \<and> GetProvider c = ''gcs''"
  unfolding NewGCSClient_def by (auto simp: bindR_Ok_iff)

lemma Azure_routes:
  "bindR (NewAzureClient k ns b p vs) (\<lambda>c. Ok (AzureStorage c)) = Ok c \<Longrightarrow>
     GetBucket c = b \<and> GetPrefix c = p \<and> GetProvider c = ''azure''"
  unfolding NewAzureClient_def by (auto simp: bindR_Ok_iff)

lemma volume_scheme_chars:
  "isLowerC (CHR ''s'')" "isLowerC (CHR ''g'')" "isLowerC (CHR ''a'')" "isLowerC (CHR ''m'')"
  "schemeC (CHR ''s'')" "schemeC (CHR ''3'')" "schemeC (CHR ''g'')" "schemeC (CHR ''a'')"
  "schemeC (CHR ''z'')" "schemeC (CHR ''u'')" "schemeC (CHR ''r'')" "schemeC (CHR ''e'')"
  "schemeC (CHR ''m'')" "schemeC (CHR ''i'')" "schemeC (CHR ''n'')" "schemeC (CHR ''o'')"
  by (simp_all add: schemeC_def isLowerC_def isDigitC_def)

lemma volume_schemes:
  assumes "s \<in> {''s3'', ''gs'', ''azure'', ''minio''}"
  shows "list_all schemeC s \<and> s \<noteq> [] \<and> isLowerC (hd s)"
  using assms by (elim insertE emptyE) (simp_all add: volume_scheme_chars)

text \<open>
  For a volume path of the shape the CRD allows (scheme, bucket name, optional path without
  escapes), a storage client that could be made is of the scheme's provider and holds exactly
  the bucket and the path without its leading slash.
\<close>

theorem new_client_routes:
  assumes "os_Path vs = s @ ''://'' @ b @ p" and "s \<in> {''s3'', ''gs'', ''azure'', ''minio''}"
    and "list_all bucketC b" and "plainPath p"
    and "NewStorageClient k urlErr ns vs = Ok c"
  shows "GetBucket c = b \<and> GetPrefix c = trimPrefix p ''/'' \<and>
     (s, GetProvider c) \<in> {(''s3'', ''s3''), (''gs'', ''gcs''), (''azure'', ''azure''), (''minio'', ''s3'')}"
proof -
  have "urlParse (os_Path vs) =
      Some \<lparr>u_Scheme = s, u_Opaque = '''', u_Host = b, u_Path = p, u_RawQuery = ''''\<rparr>"
    using volume_schemes [OF assms(2)] urlParse_volume [of s b p] assms(1,3,4) by simp
  then have new: "NewStorageClient k urlErr ns vs =
     (if s = ''s3'' then bindR (NewS3Client k ns b (trimPrefix p ''/'') vs) (\<lambda>c. Ok (S3Storage c))
      else if s = ''gs'' then bindR (NewGCSClient k ns b (trimPrefix p ''/'') vs) (\<lambda>c. Ok (GCSStorage c))
      else if s = ''azure'' then bindR (NewAzureClient k ns b (trimPrefix p ''/'') vs) (\<lambda>c. Ok (AzureStorage c))
      else bindR (NewMinioClient k ns b (trimPrefix p ''/'') vs) (\<lambda>c. Ok (S3Storage c)))"
    using assms(2) by (elim insertE emptyE) (simp_all add: NewStorageClient_def)
  show ?thesis
    using assms(2,5)[unfolded new]
    by (elim insertE emptyE)
       (simp_all add: S3_routes GCS_routes Azure_routes Minio_routes)
qed

definition sampleSdk :: sdk where
  "sampleSdk = \<lparr>k_getSecret = \<lambda>_. Err (ApiErr NotFound []),
     k_awsSession = \<lambda>_. Ok \<lparr>s3_pages = \<lambda>_ _. ([], None), s3_head = \<lambda>_ _. None\<rparr>,
     k_gcsClient = \<lambda>_. Ok \<lparr>gcs_objects = \<lambda>_ _. [], gcs_attrs = \<lambda>_ _. None\<rparr>,
     k_azureSecretCred = \<lambda>_ _ _. Ok [], k_azureDefaultCred = Ok [],
     k_azureClient = \<lambda>_ _. Ok \<lparr>az_pages = \<lambda>_ _. [], az_properties = \<lambda>_ _. None\<rparr>\<rparr>"

definition sampleVolume :: ObjectStorageSpec where
  "sampleVolume = zeroStorage\<lparr>os_Path := ''s3://b/p''\<rparr>"

theorem new_client_routes_witness:
  "\<exists>c. NewStorageClient sampleSdk Errorf ''ns'' sampleVolume = Ok c \<and> GetBucket c = ''b'' \<and> GetPrefix c = ''p''"
proof -
  have path: "os_Path sampleVolume = ''s3'' @ ''://'' @ ''b'' @ ''/p''"
    by (simp add: sampleVolume_def)
  have plain: "list_all bucketC ''b''" "plainPath ''/p''"
    by code_simp+
  have "urlParse (os_Path sampleVolume) =
      Some \<lparr>u_Scheme = ''s3'', u_Opaque = '''', u_Host = ''b'', u_Path = ''/p'', u_RawQuery = ''''\<rparr>"
    using volume_schemes [of "''s3''"] urlParse_volume [of "''s3''" "''b''" "''/p''"] plain path by simp
  then obtain c where c: "NewStorageClient sampleSdk Errorf ''ns'' sampleVolume = Ok c"
    by (simp add: NewStorageClient_def NewS3Client_def awsCredentials_def sampleVolume_def
        zeroStorage_def sampleSdk_def)
  show ?thesis
    using new_client_routes [OF path _ plain c] c by (simp add: trimPrefix_def hasPrefix_def)
qed

lemma fold_pages: "fold (\<lambda>page keys. keys @ page) pages keys = keys @ concat pages"
  by (induction pages arbitrary: keys) simp_all

lemma gcsDrain_Ok: "gcsDrain keys xs = Ok ys \<longleftrightarrow> (\<exists>ns. xs = map Ok ns \<and> ys = keys @ ns)"
proof (induction keys xs rule: gcsDrain.induct)
  case (2 keys n rest)
  show ?case
  proof
    assume "gcsDrain keys (Ok n # rest) = Ok ys"
    then obtain ns where "rest = map Ok ns" "ys = (keys @ [n]) @ ns"
      using 2 by auto
    then show "\<exists>ns. Ok n # rest = map Ok ns \<and> ys = keys @ ns"
      by (intro exI [of _ "n # ns"]) simp
  qed (use 2 in auto)
qed auto

lemma azDrain_Ok: "azDrain keys xs = Ok ys \<longleftrightarrow> (\<exists>ps. xs = map Ok ps \<and> ys = keys @ concat ps)"
proof (induction keys xs rule: azDrain.induct)
  case (2 keys ns rest)
  show ?case
  proof
    assume "azDrain keys (Ok ns # rest) = Ok ys"
    then obtain ps where "rest = map Ok ps" "ys = (keys @ ns) @ concat ps"
      using 2 by auto
    then show "\<exists>ps. Ok ns # rest = map Ok ps \<and> ys = keys @ concat ps"
      by (intro exI [of _ "ns # ps"]) simp
  qed (use 2 in auto)
qed auto

text \<open>
  A listing that succeeds is complete and in order: it is the concatenation of every page
  (S3, Azure) or every object (GCS) that the service returned; any error of the service makes the
  listing fail.
\<close>

theorem listing_complete:
  "(ListObjects (S3Storage c) = Ok keys \<longleftrightarrow>
      (\<exists>pages. s3_pages (s3_cli c) (s3_bucket c) (s3_prefix c) = (pages, None) \<and> keys = concat pages)) \<and>
   (ListObjects (GCSStorage g) = Ok keys \<longleftrightarrow>
      gcs_objects (gcs_cli g) (gcs_bucket g) (gcs_prefix g) = map Ok keys) \<and>
   (ListObjects (AzureStorage a) = Ok keys \<longleftrightarrow>
      (\<exists>pages. az_pages (az_cli a) (az_container a) (az_prefix a) = map Ok pages \<and> keys = concat pages))"
  by (auto simp: s3ListObjects_def gcsListObjects_def azListObjects_def fold_pages gcsDrain_Ok
      azDrain_Ok split: prod.splits option.splits)

end
