(* ===== verification/ServeConfig.thy ===== *)
theory ServeConfig
  imports Storage
begin

text \<open>
  The Ray Serve configuration (\<open>pkg/ai/raybuilder/configmap_serve.go\<close>, \<open>types.go\<close>): the
  applications fragment is read from a config map, filtered by what the object store holds,
  filled in and written to the serve config map. YAML decoding and encoding, the environment, the
  API client and \<open>SetOwnerReference\<close> are parameters.
\<close>

section \<open>Types\<close>

record HTTPOptions =
  ho_Host :: string
  ho_Port :: int
  ho_RequestTimeoutS :: int
  ho_KeepAliveTimeoutS :: int

record GRPCOptions =
  go_Port :: int
  go_GRPCServicerFunctions :: "string list"
  go_RequestTimeoutS :: int

record LoggingConfig =
  lc_LogLevel :: string
  lc_LogsDir :: string
  lc_Encoding :: string
  lc_EnableAccessLog :: bool

text \<open>A nil \<open>Pip\<close> slice differs from an empty one; \<open>Args\<close> is only copied.\<close>

record RuntimeEnv =
  re_WorkingDir :: string
  re_EnvVars :: "smap option"
  re_Pip :: "string list option"

record Application =
  app_Name :: string
  app_ImportPath :: string
  app_RoutePrefix :: string
  app_Args :: string
  app_RuntimeEnv :: "RuntimeEnv option"

record ServeConfig =
  sv_ProxyLocation :: string
  sv_HTTPOptions :: HTTPOptions
  sv_GRPCOptions :: GRPCOptions
  sv_LoggingConfig :: LoggingConfig
  sv_Applications :: "Application list"

record Config =
  cf_RayService :: ServeConfig

section \<open>Names\<close>

text \<open>Go's index expression panics out of range; here on the empty word.\<close>

definition capitalize :: "string \<Rightarrow> string res" where
  "capitalize word =
     (case word of
        [] \<Rightarrow> Panic ''runtime error: index out of range [0] with length 0''
      | c # cs \<Rightarrow> Ok (toUpperC c # cs))"

fun camelWords :: "nat \<Rightarrow> string \<Rightarrow> string list \<Rightarrow> string res" where
  "camelWords i result [] = Ok result"
| "camelWords i result (w # ws) =
     (if i = 0 then camelWords (Suc i) (result @ w) ws
      else bindR (capitalize w) (\<lambda>c. camelWords (Suc i) (result @ c) ws))"

definition toCamelCase :: "string \<Rightarrow> string res" where
  "toCamelCase s = camelWords 0 '''' (splitC (CHR ''_'') s)"

definition metricC :: "char \<Rightarrow> bool" where
  "metricC c = (isUpperC c \<or> isLowerC c \<or> isDigitC c \<or> c = CHR ''_'' \<or> c = CHR '':'')"

definition metricStartC :: "char \<Rightarrow> bool" where
  "metricStartC c = (isUpperC c \<or> isLowerC c \<or> c = CHR ''_'' \<or> c = CHR '':'')"

definition sanitizeMetricName :: "string \<Rightarrow> string" where
  "sanitizeMetricName s =
     (let m = map (\<lambda>c. if metricC c then c else CHR ''_'') s
      in if length m = 0 \<or> \<not> metricStartC (hd m) then ''_'' @ m else m)"

section \<open>Filtering in place\<close>

text \<open>
  The loop appends to \<open>Applications[:0]\<close>, which shares the array it ranges over: \<open>xs\<close> is that
  array, \<open>n\<close> the length of the kept slice, \<open>i\<close> the element it looks at.
\<close>

function filterInPlace :: "('a \<Rightarrow> bool res) \<Rightarrow> 'a list \<Rightarrow> nat \<Rightarrow> nat \<Rightarrow> 'a list res" where
  "filterInPlace f xs n i =
     (if i < length xs then
        bindR (f (xs ! i)) (\<lambda>ok.
          if ok then filterInPlace f (xs[n := xs ! i]) (Suc n) (Suc i)
          else filterInPlace f xs n (Suc i))
      else Ok (take n xs))"
  by pat_completeness auto

termination
  by (relation "measure (\<lambda>(f, xs, n, i). length xs - i)") auto

declare filterInPlace.simps [simp del]

definition appKey :: "string \<Rightarrow> string \<Rightarrow> string" where
  "appKey name version = name @ ''-'' @ version @ ''.zip''"

definition keepExisting :: "StorageClient \<Rightarrow> string \<Rightarrow> Application list \<Rightarrow> Application list res" where
  "keepExisting storCli version apps =
     filterInPlace (\<lambda>a. mapErr (Wrapf (''checking existence of '' @ appKey (app_Name a) version @ '': ''))
                          (Exists storCli (appKey (app_Name a) version))) apps 0 0"

section \<open>Filling in an application\<close>

definition serviceVars :: "string \<Rightarrow> StorageClient \<Rightarrow> string \<Rightarrow> smap" where
  "serviceVars platformName artfCli appName =
     fmap_of_list
       [(''SERVICE_NAME'', sanitizeMetricName platformName),
        (''SERVICE_INTERNAL_NAME'', sanitizeMetricName platformName),
        (''USE_SYSTEM_PERMISSIONS'', ''true''), (''APPLICATION_NAME'', appName),
        (''ARTIFACTS_PROVIDER'', GetProvider artfCli), (''ARTIFACTS_BUCKET'', GetBucket artfCli)]"

definition fillEnv :: "string \<Rightarrow> smap \<Rightarrow> RuntimeEnv option \<Rightarrow> RuntimeEnv" where
  "fillEnv wd vars env =
     (let e = (case env of
                 Some e \<Rightarrow> e\<lparr>re_WorkingDir := (if re_WorkingDir e = '''' then wd else re_WorkingDir e),
                             re_EnvVars := Some (entries (re_EnvVars e) ++\<^sub>f vars)\<rparr>
               | None \<Rightarrow> \<lparr>re_WorkingDir = wd, re_EnvVars = Some vars, re_Pip = None\<rparr>)
      in e\<lparr>re_Pip := (case re_Pip e of
                       None \<Rightarrow> Some [''azure-storage-blob'', ''google-cloud-storage'']
                     | Some p \<Rightarrow> Some p)\<rparr>)"

definition fillApp ::
  "string \<Rightarrow> string \<Rightarrow> StorageClient \<Rightarrow> StorageClient \<Rightarrow> Application \<Rightarrow> Application res" where
  "fillApp platformName version storCli artfCli app =
     (let fileName = appKey (app_Name app) version; wd = BuildWorkingDir storCli fileName;
          appName = app_Name app
      in bindR (toCamelCase appName) (\<lambda>camel.
           Ok (app\<lparr>
             app_ImportPath := (if app_ImportPath app = '''' then ''main:create_serve_app'' else app_ImportPath app),
             app_RoutePrefix := (if app_RoutePrefix app = '''' then ''/'' @ toLower appName else app_RoutePrefix app),
             app_RuntimeEnv := Some (fillEnv wd (serviceVars platformName artfCli appName) (app_RuntimeEnv app)),
             app_Name := camel\<rparr>)))"

fun mapR :: "('a \<Rightarrow> 'b res) \<Rightarrow> 'a list \<Rightarrow> 'b list res" where
  "mapR f [] = Ok []"
| "mapR f (x # xs) = bindR (f x) (\<lambda>y. bindR (mapR f xs) (\<lambda>ys. Ok (y # ys)))"

definition fixedOptions :: "ServeConfig \<Rightarrow> ServeConfig" where
  "fixedOptions c = c\<lparr>
     sv_HTTPOptions := \<lparr>ho_Host = '''', ho_Port = 0, ho_RequestTimeoutS = 0, ho_KeepAliveTimeoutS = 10\<rparr>,
     sv_LoggingConfig := \<lparr>lc_LogLevel = ''INFO'', lc_LogsDir = ''/tmp/ray/logs'', lc_Encoding = ''JSON'',
                          lc_EnableAccessLog = True\<rparr>\<rparr>"

section \<open>Reconciling the config map\<close>

text \<open>What the reconciler is given: clients, environment and codecs.\<close>

record 'w serve_deps =
  sd_sdk :: sdk
  sd_urlErr :: "string \<Rightarrow> gerr"
  sd_cm :: "('w, configmap) client"
  sd_getenv :: "string \<Rightarrow> string"
  sd_unmarshal :: "string \<Rightarrow> Config res"
  sd_marshal :: "ServeConfig \<Rightarrow> string res"
  sd_setOwner :: "AIPlatform \<Rightarrow> configmap \<Rightarrow> configmap res"

definition subVolume :: "ObjectStorageSpec \<Rightarrow> string \<Rightarrow> ObjectStorageSpec" where
  "subVolume o1 sub = o1\<lparr>os_Path := os_Path o1 @ ''/'' @ sub\<rparr>"

text \<open>The two clients, the configuration read, and what is to be written.\<close>

definition buildServeConfig :: "'w serve_deps \<Rightarrow> AIPlatform \<Rightarrow> 'w \<Rightarrow> string res" where
  "buildServeConfig d p w =
     (let ns = om_Namespace (p_Meta p); name = om_Name (p_Meta p); st = ap_ObjectStorage (p_Spec p);
          version = sd_getenv d ''MODEL_VERSION''
      in bindR (NewStorageClient (sd_sdk d) (sd_urlErr d) ns (subVolume st ''ray-services/ai-platform/applications'')) (\<lambda>storCli.
         bindR (NewStorageClient (sd_sdk d) (sd_urlErr d) ns (subVolume st ''model_artifacts'')) (\<lambda>artfCli.
         bindR (cGet (sd_cm d) w (ns, name @ ''-applications'')) (\<lambda>appsCM.
         bindR (mapErr (Wrapf ''failed to unmarshal applications.yaml: '')
                  (sd_unmarshal d (mget (entries (cm_Data appsCM)) ''applications.yaml''))) (\<lambda>config.
         bindR (keepExisting storCli version (sv_Applications (cf_RayService config))) (\<lambda>apps.
         bindR (mapR (fillApp name version storCli artfCli) apps) (\<lambda>filled.
         mapErr (Wrapf ''failed to marshal serveConfig: '')
           (sd_marshal d (fixedOptions ((cf_RayService config)\<lparr>sv_Applications := filled\<rparr>))))))))))"

definition mutateServeCM :: "'w serve_deps \<Rightarrow> AIPlatform \<Rightarrow> string \<Rightarrow> configmap \<Rightarrow> configmap res" where
  "mutateServeCM d p out cm =
     sd_setOwner d p (cm\<lparr>cm_Data := Some (fmupd ''serveconfig.yaml'' out (entries (cm_Data cm)))\<rparr>)"

definition ReconcileServeConfigMap :: "'w serve_deps \<Rightarrow> AIPlatform \<Rightarrow> 'w \<Rightarrow> 'w \<times> unit res" where
  "ReconcileServeConfigMap d p w =
     (case buildServeConfig d p w of
        Err e \<Rightarrow> (w, Err e)
      | Panic x \<Rightarrow> (w, Panic x)
      | Ok out \<Rightarrow>
          (case cCreateOrUpdate (sd_cm d) w
                  \<lparr>cm_Meta = newMeta (om_Name (p_Meta p) @ ''-serveconfig'') (om_Namespace (p_Meta p)), cm_Data = None\<rparr>
                  (mutateServeCM d p out) of
             (w', Ok _) \<Rightarrow> (w', Ok ())
           | (w', Err e) \<Rightarrow> (w', Err e)
           | (w', Panic x) \<Rightarrow> (w', Panic x)))"

section \<open>The pieces are correct\<close>

lemma filterInPlace_correct:
  assumes "n \<le> i" and "i \<le> length xs"
  shows "filterInPlace f xs n i =
     bindR (mapR (\<lambda>x. bindR (f x) (\<lambda>ok. Ok (if ok then [x] else []))) (drop i xs))
       (\<lambda>yss. Ok (take n xs @ concat yss))"
  using assms
proof (induction f xs n i rule: filterInPlace.induct)
  case (1 f xs n i)
  show ?case
  proof (cases "i < length xs")
    case True
    then have drop: "drop i xs = xs ! i # drop (Suc i) xs"
      by (simp add: Cons_nth_drop_Suc)
    show ?thesis
    proof (cases "f (xs ! i)")
      case (Ok ok)
      show ?thesis
      proof (cases ok)
        case keep: True
        have "filterInPlace f (xs[n := xs ! i]) (Suc n) (Suc i) =
            bindR (mapR (\<lambda>x. bindR (f x) (\<lambda>ok. Ok (if ok then [x] else []))) (drop (Suc i) xs))
              (\<lambda>yss. Ok (take n xs @ [xs ! i] @ concat yss))"
          using "1.IH"(1) [OF True keep] True "1.prems"
          by (simp add: take_Suc_conv_app_nth drop_update_cancel)
        then show ?thesis
          using True Ok keep
          by (subst filterInPlace.simps) (simp add: drop bindR_assoc)
      next
        case skip: False
        then show ?thesis
          using "1.IH"(2) [OF True skip] True Ok "1.prems"
          by (subst filterInPlace.simps) (simp add: drop bindR_assoc)
      qed
    qed (use True in \<open>subst filterInPlace.simps, simp add: drop\<close>)+
  next
    case False
    then show ?thesis
      using "1.prems" by (subst filterInPlace.simps) simp
  qed
qed

lemma mapR_Ok_iff: "mapR f xs = Ok ys \<longleftrightarrow> list_all2 (\<lambda>x y. f x = Ok y) xs ys"
proof (induction xs arbitrary: ys)
  case Nil
  then show ?case by auto
next
  case (Cons x xs)
  show ?case
    by (cases ys) (auto simp: bindR_Ok_iff Cons.IH)
qed

lemma mapR_filter:
  assumes "mapR (\<lambda>x. bindR (f x) (\<lambda>ok. Ok (if ok then [x] else []))) xs = Ok yss"
  shows "concat yss = filter (\<lambda>x. f x = Ok True) xs \<and> list_all (\<lambda>x. isOk (f x)) xs"
  using assms
proof (induction xs arbitrary: yss)
  case (Cons x xs)
  then obtain ok zss where "f x = Ok ok"
      "mapR (\<lambda>x. bindR (f x) (\<lambda>ok. Ok (if ok then [x] else []))) xs = Ok zss"
      "yss = (if ok then [x] else []) # zss"
    by (auto simp: bindR_Ok_iff)
  then show ?case using Cons.IH [of zss] by auto
qed simp

lemma filterInPlace_Ok:
  assumes "filterInPlace f xs 0 0 = Ok ys"
  shows "ys = filter (\<lambda>x. f x = Ok True) xs \<and> list_all (\<lambda>x. isOk (f x)) xs"
proof -
  obtain yss where "mapR (\<lambda>x. bindR (f x) (\<lambda>ok. Ok (if ok then [x] else []))) xs = Ok yss"
      "ys = concat yss"
    using assms filterInPlace_correct [of 0 0 xs f] by (auto simp: bindR_Ok_iff)
  then show ?thesis using mapR_filter by simp
qed

lemma keepExisting_Ok:
  assumes "keepExisting storCli version apps = Ok ys"
  shows "ys = filter (\<lambda>a. Exists storCli (appKey (app_Name a) version) = Ok True) apps"
  using filterInPlace_Ok [OF assms [unfolded keepExisting_def]] by simp

lemma camelWords_acc:
  "camelWords (Suc i) r ws = bindR (mapR capitalize ws) (\<lambda>cs. Ok (r @ concat cs))"
  by (induction ws arbitrary: i r) (simp_all add: bindR_assoc)

lemma splitC_nonempty: "splitC c s \<noteq> []"
  by (induction s) (auto split: list.splits)

lemma toCamelCase_eq:
  "toCamelCase s = bindR (mapR capitalize (tl (splitC (CHR ''_'') s)))
     (\<lambda>cs. Ok (hd (splitC (CHR ''_'') s) @ concat cs))"
  using splitC_nonempty [of "CHR ''_''" s]
  by (cases "splitC (CHR ''_'') s") (simp_all add: toCamelCase_def camelWords_acc)

lemma capitalize_simps [simp]:
  "capitalize [] = Panic ''runtime error: index out of range [0] with length 0''"
  "capitalize (c # cs) = Ok (toUpperC c # cs)"
  by (simp_all add: capitalize_def)

lemma mapR_capitalize_cases:
  "([] \<notin> set ws \<and> mapR capitalize ws = Ok (map (\<lambda>w. toUpperC (hd w) # tl w) ws)) \<or>
   ([] \<in> set ws \<and> (\<exists>p. mapR capitalize ws = Panic p))"
proof (induction ws)
  case (Cons w ws)
  then show ?case by (cases w) auto
qed simp

lemma ex_split_Cons:
  "(\<exists>u v. d # s = u @ c # v \<and> P v) \<longleftrightarrow> (d = c \<and> P s) \<or> (\<exists>u v. s = u @ c # v \<and> P v)"
  by (auto simp: Cons_eq_append_conv)

lemma Nil_in_splitC: "[] \<in> set (splitC c s) \<longleftrightarrow> s = [] \<or> hd s = c \<or> [] \<in> set (tl (splitC c s))"
  using splitC_nonempty [of c "tl s"] by (cases s) (auto split: list.splits)

lemma splitC_words:
  "[] \<in> set (tl (splitC c s)) \<longleftrightarrow> (\<exists>u v. s = u @ c # v \<and> (v = [] \<or> hd v = c))"
proof (induction s)
  case (Cons d s)
  have "[] \<in> set (tl (splitC c (d # s))) \<longleftrightarrow>
      (d = c \<and> (s = [] \<or> hd s = c)) \<or> [] \<in> set (tl (splitC c s))"
    using Nil_in_splitC [of c s] splitC_nonempty [of c s] by (auto split: list.splits)
  then show ?case
    by (simp only: ex_split_Cons Cons.IH)
qed simp

lemma sanitize_chars: "list_all metricC (sanitizeMetricName s)"
  by (auto simp: sanitizeMetricName_def Let_def metricC_def list_all_iff)

lemma map_metricC_id: "list_all metricC s \<Longrightarrow> map (\<lambda>c. if metricC c then c else CHR ''_'') s = s"
  by (induction s) auto

lemma sanitize_start: "sanitizeMetricName s \<noteq> [] \<and> metricStartC (hd (sanitizeMetricName s))"
  by (auto simp: sanitizeMetricName_def Let_def metricStartC_def)


section \<open>Properties\<close>

text \<open>
  Filtering the applications in place, over the array being read, is filtering: when it
  succeeds every existence check succeeded and the result is the applications whose package is in
  the store, in order.
\<close>

theorem keep_existing_is_filter:
  "keepExisting storCli version apps = Ok ys \<longleftrightarrow>
     list_all (\<lambda>a. isOk (Exists storCli (appKey (app_Name a) version))) apps \<and>
     ys = filter (\<lambda>a. Exists storCli (appKey (app_Name a) version) = Ok True) apps"
proof -
  let ?f = "\<lambda>a. mapErr (Wrapf (''checking existence of '' @ appKey (app_Name a) version @ '': ''))
                  (Exists storCli (appKey (app_Name a) version))"
  have "list_all (\<lambda>a. isOk (?f a)) xs \<Longrightarrow>
      \<exists>yss. mapR (\<lambda>x. bindR (?f x) (\<lambda>ok. Ok (if ok then [x] else []))) xs = Ok yss" for xs
    by (induction xs) (auto simp: isOk_iff)
  then have total: "list_all (\<lambda>a. isOk (?f a)) apps \<Longrightarrow> \<exists>zs. filterInPlace ?f apps 0 0 = Ok zs"
    using filterInPlace_correct [of 0 0 apps ?f] by (fastforce simp: bindR_Ok_iff)
  show ?thesis
  proof
    assume "keepExisting storCli version apps = Ok ys"
    from filterInPlace_Ok [OF this [unfolded keepExisting_def]]
    show "list_all (\<lambda>a. isOk (Exists storCli (appKey (app_Name a) version))) apps \<and>
       ys = filter (\<lambda>a. Exists storCli (appKey (app_Name a) version) = Ok True) apps"
      by simp
  next
    assume r: "list_all (\<lambda>a. isOk (Exists storCli (appKey (app_Name a) version))) apps \<and>
       ys = filter (\<lambda>a. Exists storCli (appKey (app_Name a) version) = Ok True) apps"
    then obtain zs where zs: "keepExisting storCli version apps = Ok zs"
      using total by (auto simp: keepExisting_def)
    then show "keepExisting storCli version apps = Ok ys"
      using keepExisting_Ok [OF zs] r by simp
  qed
qed

text \<open>
  \<open>toCamelCase\<close> panics exactly on a name that ends with an underscore or has two in a row;
  otherwise it joins the words, all but the first with a capital initial.
\<close>

theorem toCamelCase_panics_iff:
  "((\<exists>p. toCamelCase s = Panic p) \<longleftrightarrow> (\<exists>u v. s = u @ CHR ''_'' # v \<and> (v = [] \<or> hd v = CHR ''_''))) \<and>
   ((\<exists>p. toCamelCase s = Panic p) \<or>
    toCamelCase s = Ok (hd (splitC (CHR ''_'') s) @
      concat (map (\<lambda>w. toUpperC (hd w) # tl w) (tl (splitC (CHR ''_'') s)))))"
  using mapR_capitalize_cases [of "tl (splitC (CHR ''_'') s)"]
  unfolding toCamelCase_eq splitC_words [symmetric] by auto

text \<open>
  A sanitized metric name is a valid Prometheus metric name (letters, digits, underscores
  and colons, not empty, not starting with a digit), a valid name is kept, and sanitizing is
  idempotent.
\<close>

theorem sanitizeMetricName_correct:
  "list_all metricC (sanitizeMetricName s) \<and> sanitizeMetricName s \<noteq> [] \<and>
   metricStartC (hd (sanitizeMetricName s)) \<and>
   sanitizeMetricName (sanitizeMetricName s) = sanitizeMetricName s \<and>
   (sanitizeMetricName s = s) = (list_all metricC s \<and> s \<noteq> [] \<and> metricStartC (hd s))"
proof -
  have keep: "sanitizeMetricName m = m" if "list_all metricC m" "m \<noteq> []" "metricStartC (hd m)" for m
    using that by (simp add: sanitizeMetricName_def Let_def map_metricC_id)
  show ?thesis
    using sanitize_chars [of s] sanitize_start [of s] keep by metis
qed

lemma fillEnv_facts:
  "re_EnvVars (fillEnv wd vars env) =
     Some (entries (case env of Some e \<Rightarrow> re_EnvVars e | None \<Rightarrow> None) ++\<^sub>f vars)"
  "\<exists>pip. re_Pip (fillEnv wd vars env) = Some pip"
  "re_WorkingDir (fillEnv wd vars env) =
     (case env of Some e \<Rightarrow> if re_WorkingDir e = '''' then wd else re_WorkingDir e | None \<Rightarrow> wd)"
  by (cases env; simp add: fillEnv_def Let_def split: option.split)+

lemma buildServeConfig_Ok:
  assumes "buildServeConfig d p w = Ok out"
  obtains storCli artfCli cm config filled where
    "NewStorageClient (sd_sdk d) (sd_urlErr d) (om_Namespace (p_Meta p))
       (subVolume (ap_ObjectStorage (p_Spec p)) ''ray-services/ai-platform/applications'') = Ok storCli"
    "NewStorageClient (sd_sdk d) (sd_urlErr d) (om_Namespace (p_Meta p))
       (subVolume (ap_ObjectStorage (p_Spec p)) ''model_artifacts'') = Ok artfCli"
    "cGet (sd_cm d) w (om_Namespace (p_Meta p), om_Name (p_Meta p) @ ''-applications'') = Ok cm"
    "sd_unmarshal d (mget (entries (cm_Data cm)) ''applications.yaml'') = Ok config"
    "list_all2 (\<lambda>a b. fillApp (om_Name (p_Meta p)) (sd_getenv d ''MODEL_VERSION'') storCli artfCli a = Ok b)
       (filter (\<lambda>a. Exists storCli (appKey (app_Name a) (sd_getenv d ''MODEL_VERSION'')) = Ok True)
          (sv_Applications (cf_RayService config))) filled"
    "sd_marshal d (fixedOptions ((cf_RayService config)\<lparr>sv_Applications := filled\<rparr>)) = Ok out"
  using assms by (auto simp: buildServeConfig_def Let_def bindR_Ok_iff mapR_Ok_iff dest!: keepExisting_Ok)

definition keepsConfigMap :: "(configmap \<Rightarrow> configmap res) \<Rightarrow> bool" where
  "keepsConfigMap f \<longleftrightarrow> (\<forall>x y. f x = Ok y \<longrightarrow> cm_Data y = cm_Data x \<and> cmKey y = cmKey x)"

text \<open>
  What the served configuration is to hold, stated on its own: \<open>servedFrom\<close> relates an application
  of the fragment to the one that is served, field by field and variable by variable, and
  \<open>servedConfig\<close> a whole fragment to the configuration. The name is in camel case: the words between
  the underscores, none of them empty after the first, joined with a capital initial.
\<close>

definition camelOf :: "string \<Rightarrow> string \<Rightarrow> bool" where
  "camelOf s camel \<longleftrightarrow>
     [] \<notin> set (tl (splitC (CHR ''_'') s)) \<and>
     camel = hd (splitC (CHR ''_'') s) @ concat (map (\<lambda>w. toUpperC (hd w) # tl w) (tl (splitC (CHR ''_'') s)))"

definition servedVars :: "string \<Rightarrow> StorageClient \<Rightarrow> string \<Rightarrow> smap \<Rightarrow> smap \<Rightarrow> bool" where
  "servedVars platform artf app user vars \<longleftrightarrow>
     fmlookup vars ''SERVICE_NAME'' = Some (sanitizeMetricName platform) \<and>
     fmlookup vars ''SERVICE_INTERNAL_NAME'' = Some (sanitizeMetricName platform) \<and>
     fmlookup vars ''USE_SYSTEM_PERMISSIONS'' = Some ''true'' \<and>
     fmlookup vars ''APPLICATION_NAME'' = Some app \<and>
     fmlookup vars ''ARTIFACTS_PROVIDER'' = Some (GetProvider artf) \<and>
     fmlookup vars ''ARTIFACTS_BUCKET'' = Some (GetBucket artf) \<and>
     (\<forall>k. k \<notin> {''SERVICE_NAME'', ''SERVICE_INTERNAL_NAME'', ''USE_SYSTEM_PERMISSIONS'', ''APPLICATION_NAME'',
                 ''ARTIFACTS_PROVIDER'', ''ARTIFACTS_BUCKET''} \<longrightarrow> fmlookup vars k = fmlookup user k)"

definition servedFrom ::
  "string \<Rightarrow> string \<Rightarrow> StorageClient \<Rightarrow> StorageClient \<Rightarrow> Application \<Rightarrow> Application \<Rightarrow> bool" where
  "servedFrom platform version stor artf a b \<longleftrightarrow>
     camelOf (app_Name a) (app_Name b) \<and>
     app_ImportPath b = (if app_ImportPath a = [] then ''main:create_serve_app'' else app_ImportPath a) \<and>
     app_RoutePrefix b = (if app_RoutePrefix a = [] then ''/'' @ toLower (app_Name a) else app_RoutePrefix a) \<and>
     app_Args b = app_Args a \<and>
     (\<exists>env vars. app_RuntimeEnv b = Some env \<and> re_EnvVars env = Some vars \<and>
        servedVars platform artf (app_Name a)
          (case app_RuntimeEnv a of Some e \<Rightarrow> entries (re_EnvVars e) | None \<Rightarrow> fmempty) vars \<and>
        re_WorkingDir env =
          (let wd = (case app_RuntimeEnv a of Some e \<Rightarrow> re_WorkingDir e | None \<Rightarrow> [])
           in if wd = [] then BuildWorkingDir stor (app_Name a @ ''-'' @ version @ ''.zip'') else wd) \<and>
        re_Pip env =
          (case Option.bind (app_RuntimeEnv a) re_Pip of
             Some pip \<Rightarrow> Some pip | None \<Rightarrow> Some [''azure-storage-blob'', ''google-cloud-storage'']))"

definition servedConfig ::
  "string \<Rightarrow> string \<Rightarrow> StorageClient \<Rightarrow> StorageClient \<Rightarrow> ServeConfig \<Rightarrow> ServeConfig \<Rightarrow> bool" where
  "servedConfig platform version stor artf c served \<longleftrightarrow>
     list_all2 (servedFrom platform version stor artf)
       (filter (\<lambda>a. Exists stor (app_Name a @ ''-'' @ version @ ''.zip'') = Ok True) (sv_Applications c))
       (sv_Applications served) \<and>
     sv_HTTPOptions served =
       \<lparr>ho_Host = [], ho_Port = 0, ho_RequestTimeoutS = 0, ho_KeepAliveTimeoutS = 10\<rparr> \<and>
     sv_LoggingConfig served =
       \<lparr>lc_LogLevel = ''INFO'', lc_LogsDir = ''/tmp/ray/logs'', lc_Encoding = ''JSON'', lc_EnableAccessLog = True\<rparr> \<and>
     sv_ProxyLocation served = sv_ProxyLocation c \<and> sv_GRPCOptions served = sv_GRPCOptions c"

definition storedData :: "('w, configmap) client \<Rightarrow> 'w \<Rightarrow> nname \<Rightarrow> smap" where
  "storedData c w k = (case cGet c w k of Ok cm \<Rightarrow> entries (cm_Data cm) | _ \<Rightarrow> fmempty)"

lemma toCamelCase_Ok: "toCamelCase s = Ok camel \<longleftrightarrow> camelOf s camel"
  using mapR_capitalize_cases [of "tl (splitC (CHR ''_'') s)"]
  unfolding toCamelCase_eq camelOf_def by auto

lemma served_application:
  assumes "fillApp platform version stor artf a = Ok b"
  shows "servedFrom platform version stor artf a b"
proof -
  let ?env = "fillEnv (BuildWorkingDir stor (appKey (app_Name a) version))
         (serviceVars platform artf (app_Name a)) (app_RuntimeEnv a)"
  obtain camel where camel: "camelOf (app_Name a) camel" and
    b: "b = a\<lparr>
      app_ImportPath := (if app_ImportPath a = [] then ''main:create_serve_app'' else app_ImportPath a),
      app_RoutePrefix := (if app_RoutePrefix a = [] then ''/'' @ toLower (app_Name a) else app_RoutePrefix a),
      app_RuntimeEnv := Some ?env, app_Name := camel\<rparr>"
    using assms by (auto simp: fillApp_def Let_def bindR_Ok_iff toCamelCase_Ok)
  have vars: "servedVars platform artf (app_Name a) user (user ++\<^sub>f serviceVars platform artf (app_Name a))" for user
    by (simp add: servedVars_def serviceVars_def fmlookup_of_list)
  have pip: "re_Pip ?env = (case Option.bind (app_RuntimeEnv a) re_Pip of
      Some pip \<Rightarrow> Some pip | None \<Rightarrow> Some [''azure-storage-blob'', ''google-cloud-storage''])"
    by (cases "app_RuntimeEnv a") (simp_all add: fillEnv_def Let_def split: option.split)
  show ?thesis
    unfolding servedFrom_def b
    using camel vars [of fmempty] vars pip
    by (cases "app_RuntimeEnv a") (simp_all add: fillEnv_facts appKey_def Let_def)
qed

lemma served_fragment:
  assumes "list_all2 (\<lambda>a b. fillApp platform version stor artf a = Ok b)
       (filter (\<lambda>a. Exists stor (appKey (app_Name a) version) = Ok True) (sv_Applications c)) filled"
  shows "servedConfig platform version stor artf c (fixedOptions (c\<lparr>sv_Applications := filled\<rparr>))"
  using list_all2_mono [OF assms served_application]
  by (simp add: servedConfig_def fixedOptions_def appKey_def)

text \<open>
  C33: after a successful reconcile the serve config map holds, under \<open>serveconfig.yaml\<close>, the
  encoding of a configuration with the fixed HTTP and logging options whose applications are, in
  order, those of the fragment whose package exists in the store, each with its name in camel case,
  the user's or the default import path, route, working directory and requirements, and the six
  service variables over the user's; every other entry is as it was stored before. The API client
  behaves as documented and \<open>SetOwnerReference\<close> leaves data and key alone.
\<close>

theorem serve_config_written:
  assumes "clientDocs cmKey cm_Data (sd_cm d)" and "keepsConfigMap (sd_setOwner d p)"
    and "ReconcileServeConfigMap d p w = (w', Ok ())"
  shows "\<exists>stor artf appsCM config served out cm.
     NewStorageClient (sd_sdk d) (sd_urlErr d) (om_Namespace (p_Meta p))
       (subVolume (ap_ObjectStorage (p_Spec p)) ''ray-services/ai-platform/applications'') = Ok stor \<and>
     NewStorageClient (sd_sdk d) (sd_urlErr d) (om_Namespace (p_Meta p))
       (subVolume (ap_ObjectStorage (p_Spec p)) ''model_artifacts'') = Ok artf \<and>
     cGet (sd_cm d) w (om_Namespace (p_Meta p), om_Name (p_Meta p) @ ''-applications'') = Ok appsCM \<and>
     sd_unmarshal d (mget (entries (cm_Data appsCM)) ''applications.yaml'') = Ok config \<and>
     servedConfig (om_Name (p_Meta p)) (sd_getenv d ''MODEL_VERSION'') stor artf (cf_RayService config) served \<and>
     sd_marshal d served = Ok out \<and>
     cGet (sd_cm d) w' (om_Namespace (p_Meta p), om_Name (p_Meta p) @ ''-serveconfig'') = Ok cm \<and>
     cm_Data cm = Some (fmupd ''serveconfig.yaml'' out
       (storedData (sd_cm d) w (om_Namespace (p_Meta p), om_Name (p_Meta p) @ ''-serveconfig'')))"
proof -
  let ?cm0 = "\<lparr>cm_Meta = newMeta (om_Name (p_Meta p) @ ''-serveconfig'') (om_Namespace (p_Meta p)), cm_Data = None\<rparr>"
  obtain out cm where out: "buildServeConfig d p w = Ok out"
    and cou: "cCreateOrUpdate (sd_cm d) w ?cm0 (mutateServeCM d p out) = (w', Ok cm)"
    using assms(3) by (auto simp: ReconcileServeConfigMap_def split: res.splits prod.splits)
  have frame: "cmKey y = cmKey x \<and> cm_Data y = Some (fmupd ''serveconfig.yaml'' out (entries (cm_Data x)))"
    if "mutateServeCM d p out x = Ok y" for x y
    using that assms(2) by (fastforce simp: mutateServeCM_def keepsConfigMap_def cmKey_def)
  have key: "cmKey ?cm0 = (om_Namespace (p_Meta p), om_Name (p_Meta p) @ ''-serveconfig'')"
    by (simp add: cmKey_def metaKey_def)
  obtain start new where new: "mutateServeCM d p out start = Ok new"
      "cGet (sd_cm d) w' (cmKey ?cm0) = Ok cm" "cm_Data cm = cm_Data new"
      "cGet (sd_cm d) w (cmKey ?cm0) = Ok start \<or>
       (start = ?cm0 \<and> (\<exists>e. cGet (sd_cm d) w (cmKey ?cm0) = Err e \<and> isNotFound e))"
    by (rule createOrUpdate_result [OF assms(1) conjunct1 [OF frame] cou])
  have written: "cGet (sd_cm d) w' (om_Namespace (p_Meta p), om_Name (p_Meta p) @ ''-serveconfig'') = Ok cm"
    using new(2) key by simp
  have data: "cm_Data cm = Some (fmupd ''serveconfig.yaml'' out
      (storedData (sd_cm d) w (om_Namespace (p_Meta p), om_Name (p_Meta p) @ ''-serveconfig'')))"
    using frame [OF new(1)] new(3,4) unfolding key storedData_def by auto
  show ?thesis
    by (rule buildServeConfig_Ok [OF out])
       (intro exI conjI, assumption+, erule served_fragment, assumption, rule written, rule data)
qed

text \<open>
  A run on an S3 bucket that holds the package of the first of two applications, with a serve config
  map that already has another entry. The encoding lists the applications with their bucket variable.
\<close>

definition packageApi :: s3_api where
  "packageApi = \<lparr>s3_pages = \<lambda>_ _. ([], None),
     s3_head = \<lambda>_ path. if path = ''ray-services/ai-platform/applications/a_b-1.zip'' then None
                        else Some (RequestFailure 404 (Errorf ''not found''))\<rparr>"

definition packageStore :: "string \<Rightarrow> StorageClient" where
  "packageStore prefix = S3Storage \<lparr>s3_cli = packageApi, s3_bucket = ''b'', s3_prefix = prefix\<rparr>"

lemma packageStore_sel: "GetBucket (packageStore prefix) = ''b''"
  "Exists (packageStore ''ray-services/ai-platform/applications'') k = Ok (k = ''a_b-1.zip'')"
  by (simp_all add: packageStore_def packageApi_def s3Exists_def)

definition sampleApp :: "string \<Rightarrow> Application" where
  "sampleApp n = \<lparr>app_Name = n, app_ImportPath = [], app_RoutePrefix = [], app_Args = [], app_RuntimeEnv = None\<rparr>"

definition bucketOf :: "Application \<Rightarrow> string" where
  "bucketOf a = (case app_RuntimeEnv a of Some e \<Rightarrow> mget (entries (re_EnvVars e)) ''ARTIFACTS_BUCKET'' | None \<Rightarrow> [])"

definition sampleFragment :: ServeConfig where
  "sampleFragment = \<lparr>sv_ProxyLocation = [],
     sv_HTTPOptions = \<lparr>ho_Host = [], ho_Port = 0, ho_RequestTimeoutS = 0, ho_KeepAliveTimeoutS = 0\<rparr>,
     sv_GRPCOptions = \<lparr>go_Port = 0, go_GRPCServicerFunctions = [], go_RequestTimeoutS = 0\<rparr>,
     sv_LoggingConfig = \<lparr>lc_LogLevel = [], lc_LogsDir = [], lc_Encoding = [], lc_EnableAccessLog = False\<rparr>,
     sv_Applications = [sampleApp ''a_b'', sampleApp ''c'']\<rparr>"

definition sampleDeps :: "configmap list serve_deps" where
  "sampleDeps =
     \<lparr>sd_sdk = sampleSdk\<lparr>k_awsSession := \<lambda>_. Ok packageApi\<rparr>, sd_urlErr = Errorf, sd_cm = memClient cmKey (\<lambda>_ _. True),
      sd_getenv = \<lambda>_. ''1'', sd_unmarshal = \<lambda>_. Ok \<lparr>cf_RayService = sampleFragment\<rparr>,
      sd_marshal = \<lambda>c. Ok (concat (map (\<lambda>a. app_Name a @ ''@'' @ bucketOf a) (sv_Applications c))),
      sd_setOwner = \<lambda>_ c. Ok c\<rparr>"

definition sampleCMs :: "configmap list" where
  "sampleCMs =
     [\<lparr>cm_Meta = newMeta ''p-applications'' ''ns'', cm_Data = None\<rparr>,
      \<lparr>cm_Meta = newMeta ''p-serveconfig'' ''ns'', cm_Data = Some (fmap_of_list [(''extra'', ''x'')])\<rparr>]"

definition servePlatform :: AIPlatform where
  "servePlatform = zeroAIPlatform\<lparr>p_Meta := newMeta ''p'' ''ns'',
     p_Spec := zeroPlatformSpec\<lparr>ap_ObjectStorage := zeroStorage\<lparr>os_Path := ''s3://b''\<rparr>\<rparr>\<rparr>"

lemma sample_volume:
  assumes "plainPath sub"
  shows "NewStorageClient (sampleSdk\<lparr>k_awsSession := \<lambda>_. Ok packageApi\<rparr>) e ns
     (zeroStorage\<lparr>os_Path := ''s3://b'' @ sub\<rparr>) = Ok (packageStore (trimPrefix sub ''/''))"
proof -
  have "urlParse (''s3'' @ ''://'' @ ''b'' @ sub) =
      Some \<lparr>u_Scheme = ''s3'', u_Opaque = [], u_Host = ''b'', u_Path = sub, u_RawQuery = []\<rparr>"
    by (rule urlParse_volume [OF _ _ _ _ assms])
       (simp_all add: bucketC_def schemeC_def isLowerC_def isDigitC_def isUpperC_def)
  then show ?thesis
    by (simp add: NewStorageClient_def NewS3Client_def awsCredentials_def sampleSdk_def zeroStorage_def packageStore_def)
qed

lemma sample_names:
  "plainPath ''/ray-services/ai-platform/applications''" "plainPath ''/model_artifacts''"
  "trimPrefix ''/ray-services/ai-platform/applications'' ''/'' = ''ray-services/ai-platform/applications''"
  "splitC (CHR ''_'') ''a_b'' = [''a'', ''b'']" "toUpperC (CHR ''b'') = CHR ''B''"
  by code_simp+

lemma sample_stores:
  "NewStorageClient (sd_sdk sampleDeps) (sd_urlErr sampleDeps) (om_Namespace (p_Meta servePlatform))
     (subVolume (ap_ObjectStorage (p_Spec servePlatform)) ''ray-services/ai-platform/applications'') =
   Ok (packageStore ''ray-services/ai-platform/applications'')"
  "NewStorageClient (sd_sdk sampleDeps) (sd_urlErr sampleDeps) (om_Namespace (p_Meta servePlatform))
     (subVolume (ap_ObjectStorage (p_Spec servePlatform)) ''model_artifacts'') =
   Ok (packageStore (trimPrefix ''/model_artifacts'' ''/''))"
  using sample_volume [OF sample_names(1), of Errorf "''ns''"] sample_volume [OF sample_names(2), of Errorf "''ns''"]
    sample_names(3)
  by (simp_all add: servePlatform_def zeroPlatformSpec_def zeroAIPlatform_def subVolume_def zeroStorage_def sampleDeps_def)

lemma servePlatform_sel: "om_Name (p_Meta servePlatform) = ''p''" "om_Namespace (p_Meta servePlatform) = ''ns''"
  by (simp_all add: servePlatform_def)

lemma sampleDeps_sel:
  "sd_getenv sampleDeps n = ''1''" "sd_unmarshal sampleDeps x = Ok \<lparr>cf_RayService = sampleFragment\<rparr>"
  "sd_marshal sampleDeps c = Ok (concat (map (\<lambda>a. app_Name a @ ''@'' @ bucketOf a) (sv_Applications c)))"
  "sd_cm sampleDeps = memClient cmKey (\<lambda>_ _. True)" "sd_setOwner sampleDeps p m = Ok m"
  by (simp_all add: sampleDeps_def)

lemma sampleCMs_sel:
  "memGet cmKey sampleCMs (''ns'', ''p-applications'') =
     Ok \<lparr>cm_Meta = newMeta ''p-applications'' ''ns'', cm_Data = None\<rparr>"
  "memGet cmKey sampleCMs (''ns'', ''p-serveconfig'') =
     Ok \<lparr>cm_Meta = newMeta ''p-serveconfig'' ''ns'', cm_Data = Some (fmap_of_list [(''extra'', ''x'')])\<rparr>"
  by (simp_all add: sampleCMs_def memGet_def cmKey_def metaKey_def)

lemma fragment_apps: "sv_Applications sampleFragment = [sampleApp ''a_b'', sampleApp ''c'']"
  "app_Name (sampleApp n) = n"
  by (simp_all add: sampleFragment_def sampleApp_def)

lemma sampleServe_run: "\<exists>w. ReconcileServeConfigMap sampleDeps servePlatform sampleCMs = (w, Ok ())"
proof -
  let ?stor = "packageStore ''ray-services/ai-platform/applications''"
  have kept: "keepExisting ?stor ''1'' [sampleApp ''a_b'', sampleApp ''c''] = Ok [sampleApp ''a_b'']"
    by (simp add: keepExisting_def filterInPlace.simps packageStore_sel fragment_apps appKey_def)
  have "toCamelCase ''a_b'' = Ok ''aB''"
    by (simp add: toCamelCase_Ok camelOf_def sample_names)
  then obtain b where "fillApp ''p'' ''1'' ?stor (packageStore (trimPrefix ''/model_artifacts'' ''/'')) (sampleApp ''a_b'') = Ok b"
    by (simp add: fillApp_def Let_def fragment_apps)
  then obtain out where "buildServeConfig sampleDeps servePlatform sampleCMs = Ok out"
    using kept sample_stores
    by (simp add: buildServeConfig_def servePlatform_sel sampleDeps_sel memClient_def sampleCMs_sel fragment_apps Let_def)
  then show ?thesis
    by (simp add: ReconcileServeConfigMap_def mutateServeCM_def sampleDeps_sel memClient_def sampleCMs_sel
        servePlatform_sel cmKey_def metaKey_def memUpdate_def)
       (simp add: sampleCMs_def cmKey_def metaKey_def)
qed

theorem serve_config_written_witness:
  "\<exists>w cm. ReconcileServeConfigMap sampleDeps servePlatform sampleCMs = (w, Ok ()) \<and>
     cGet (sd_cm sampleDeps) w (''ns'', ''p-serveconfig'') = Ok cm \<and>
     cm_Data cm = Some (fmap_of_list [(''extra'', ''x''), (''serveconfig.yaml'', ''aB@b'')])"
proof -
  have docs: "clientDocs cmKey cm_Data (sd_cm sampleDeps)"
    by (simp add: sampleDeps_def memClient_docs)
  have own: "keepsConfigMap (sd_setOwner sampleDeps servePlatform)"
    by (simp add: keepsConfigMap_def sampleDeps_def)
  obtain w where run: "ReconcileServeConfigMap sampleDeps servePlatform sampleCMs = (w, Ok ())"
    using sampleServe_run by blast
  let ?stor = "packageStore ''ray-services/ai-platform/applications''"
  let ?artf = "packageStore (trimPrefix ''/model_artifacts'' ''/'')"
  obtain served cm where
    served: "servedConfig ''p'' ''1'' ?stor ?artf sampleFragment served"
    and cm: "cGet (sd_cm sampleDeps) w (''ns'', ''p-serveconfig'') = Ok cm"
      "cm_Data cm = Some (fmupd ''serveconfig.yaml''
         (concat (map (\<lambda>a. app_Name a @ ''@'' @ bucketOf a) (sv_Applications served)))
         (storedData (sd_cm sampleDeps) sampleCMs (''ns'', ''p-serveconfig'')))"
    using serve_config_written [OF docs own run] unfolding sample_stores
    by (auto simp: servePlatform_sel sampleDeps_sel)
  obtain b where b: "sv_Applications served = [b]" "servedFrom ''p'' ''1'' ?stor ?artf (sampleApp ''a_b'') b"
    using served unfolding servedConfig_def
    by (auto simp: fragment_apps packageStore_sel list_all2_Cons1)
  have "app_Name b = ''aB''"
    using b(2) by (simp add: servedFrom_def camelOf_def sample_names fragment_apps)
  moreover obtain env vars where "app_RuntimeEnv b = Some env" "re_EnvVars env = Some vars"
      "fmlookup vars ''ARTIFACTS_BUCKET'' = Some (GetBucket ?artf)"
    using b(2) unfolding servedFrom_def servedVars_def by (elim conjE exE)
  then have "bucketOf b = ''b''"
    by (simp add: bucketOf_def mget_def packageStore_sel)
  ultimately have "concat (map (\<lambda>a. app_Name a @ ''@'' @ bucketOf a) (sv_Applications served)) = ''aB@b''"
    by (simp add: b(1))
  moreover have "storedData (sd_cm sampleDeps) sampleCMs (''ns'', ''p-serveconfig'') = fmap_of_list [(''extra'', ''x'')]"
    by (simp add: storedData_def sampleDeps_sel memClient_def sampleCMs_sel)
  moreover have "fmupd ''serveconfig.yaml'' ''aB@b'' (fmap_of_list [(''extra'', ''x'')]) =
      fmap_of_list [(''extra'', ''x''), (''serveconfig.yaml'', ''aB@b'')]"
    by (rule fmap_ext) (auto simp: fmlookup_of_list)
  ultimately show ?thesis
    using run cm by (intro exI [of _ w] exI [of _ cm]) simp
qed

end
