(* ===== verification/SplunkUtils.thy ===== *)
theory SplunkUtils
  imports ApiTypes
begin

text \<open>
  Resolution of the Splunk endpoint and HEC token (\<open>pkg/splunkutils\<close>, \<open>pkg/common/vault.go\<close>).
  The API reads of the Splunk custom resources and of the secret, and the file system, are
  parameters. \<open>SplunkSecretResolver\<close> is an interface of the source: its contract is the locale
  \<open>secret_resolver\<close>, interpreted on both implementations.
\<close>

section \<open>Names\<close>

abbreviation SplunkStandalone :: string where "SplunkStandalone \<equiv> ''standalone''"
abbreviation SplunkIndexer :: string where "SplunkIndexer \<equiv> ''indexer''"

definition SplunkMgmtPort :: int where
  "SplunkMgmtPort = 8089"

abbreviation defaultClusterDomain :: string where "defaultClusterDomain \<equiv> ''cluster.local''"

definition buildSplunkServiceName :: "string \<Rightarrow> string \<Rightarrow> string" where
  "buildSplunkServiceName identifier instanceType =
     ''splunk-'' @ identifier @ ''-'' @ instanceType @ ''-service''"

definition buildFQDN :: "string \<Rightarrow> string \<Rightarrow> string \<Rightarrow> string" where
  "buildFQDN svc ns clusterDomain =
     (let d = (if clusterDomain = '''' then defaultClusterDomain else clusterDomain)
      in svc @ ''.'' @ ns @ ''.svc.'' @ d)"

definition GetNamespaceScopedSecretName :: "string \<Rightarrow> string" where
  "GetNamespaceScopedSecretName ns = ''splunk-'' @ ns @ ''-secret''"

text \<open>\<open>%q\<close> of a \<open>types.NamespacedName\<close>, which prints as namespace/name.\<close>

definition quoteKey :: "nname \<Rightarrow> string" where
  "quoteKey k = quote (fst k @ ''/'' @ snd k)"

section \<open>The endpoint\<close>

text \<open>\<open>getStandalone\<close> and \<open>getIndexer\<close> read a custom resource; only its metadata is used.\<close>

definition mgmtURL :: "string \<Rightarrow> string \<Rightarrow> objmeta \<Rightarrow> string" where
  "mgmtURL instanceType clusterDomain m =
     ''https://'' @ buildFQDN (buildSplunkServiceName (om_Name m) instanceType) (om_Namespace m) clusterDomain
     @ '':'' @ itoa SplunkMgmtPort"

definition ResolveSplunkEndpoint ::
  "(nname \<Rightarrow> objmeta res) \<Rightarrow> (nname \<Rightarrow> objmeta res) \<Rightarrow> string \<Rightarrow> SplunkConfigurationSpec \<Rightarrow> string \<Rightarrow> string res" where
  "ResolveSplunkEndpoint getStandalone getIndexer ns cfg clusterDomain =
     (let ref = sc_SplunkCustomResourceRef cfg;
          refNS = (if ref_Namespace ref = '''' then ns else ref_Namespace ref);
          key = (refNS, ref_Name ref)
      in if sc_Endpoint cfg \<noteq> '''' then Ok (sc_Endpoint cfg)
         else if ref_Name ref = '''' then Err (Errorf ''no Splunk endpoint or reference provided'')
         else if ref_Kind ref = ''Standalone'' then
           (case getStandalone key of
              Ok m \<Rightarrow> Ok (mgmtURL SplunkStandalone clusterDomain m)
            | Err e \<Rightarrow> Err (Wrapf (''failed to fetch Splunk Standalone '' @ quoteKey key @ '': '') e)
            | Panic p \<Rightarrow> Panic p)
         else if ref_Kind ref = ''IndexerCluster'' then
           (case getIndexer key of
              Ok m \<Rightarrow> Ok (mgmtURL SplunkIndexer clusterDomain m)
            | Err e \<Rightarrow> Err (Wrapf (''failed to fetch Splunk IndexerCluster '' @ quoteKey key @ '': '') e)
            | Panic p \<Rightarrow> Panic p)
         else Err (Errorf (''unsupported Splunk kind '' @ quote (ref_Kind ref) @
                           '' for endpoint resolution'')))"

section \<open>The token\<close>

type_synonym token_resolver = "string \<Rightarrow> SplunkConfigurationSpec \<Rightarrow> string res"

definition KubernetesGetHECToken :: "(nname \<Rightarrow> secret res) \<Rightarrow> token_resolver" where
  "KubernetesGetHECToken getSecret ns cfg =
     (let secretName = GetNamespaceScopedSecretName ns
      in case getSecret (ns, secretName) of
           Err e \<Rightarrow> Err (Wrapf (''failed to get namespace-scoped Splunk secret '' @ quote secretName @ '': '') e)
         | Panic p \<Rightarrow> Panic p
         | Ok s \<Rightarrow>
             (case fmlookup (sec_Data s) ''hec_token'' of
                None \<Rightarrow> Err (Errorf (''secret '' @ quote secretName @ '' missing hec_token''))
              | Some t \<Rightarrow> Ok t))"

definition GetHECTokenFromNamespaceScopedSecret :: "(nname \<Rightarrow> secret res) \<Rightarrow> string \<Rightarrow> string res" where
  "GetHECTokenFromNamespaceScopedSecret getSecret ns =
     (let secretName = GetNamespaceScopedSecretName ns
      in case getSecret (ns, secretName) of
           Err e \<Rightarrow> Err (Wrapf (''failed to get namespace-scoped Splunk secret '' @ quote secretName @ '': '') e)
         | Panic p \<Rightarrow> Panic p
         | Ok s \<Rightarrow>
             (case fmlookup (sec_Data s) ''hec_token'' of
                None \<Rightarrow> Err (Errorf (''secret '' @ quote secretName @ '' missing required key '' @
                                     quote ''hec_token''))
              | Some t \<Rightarrow> Ok t))"

definition VaultGetHECToken :: "(string \<Rightarrow> string res) \<Rightarrow> token_resolver" where
  "VaultGetHECToken readFile ns cfg =
     (if sc_VaultFilePath cfg = ''''
      then Err (Errorf ''VaultFilePath must be provided for SecretSource=vault'')
      else case readFile (sc_VaultFilePath cfg) of
        Err e \<Rightarrow> Err (Wrapf (''failed to read Vault-injected token file '' @
                             quote (sc_VaultFilePath cfg) @ '': '') e)
      | Panic p \<Rightarrow> Panic p
      | Ok d \<Rightarrow>
          (let token = trimSpace d
           in if token = ''''
              then Err (Errorf (''vault-injected file '' @ quote (sc_VaultFilePath cfg) @ '' is empty''))
              else Ok token))"

text \<open>The copy of the vault resolver in \<open>pkg/common\<close>.\<close>

definition CommonVaultGetHECToken :: "(string \<Rightarrow> string res) \<Rightarrow> token_resolver" where
  "CommonVaultGetHECToken readFile ns cfg =
     (if sc_VaultFilePath cfg = ''''
      then Err (Errorf ''VaultFilePath must be provided for SecretSource=vault'')
      else case readFile (sc_VaultFilePath cfg) of
        Ok d \<Rightarrow>
          (if trimSpace d = ''''
           then Err (Errorf (''vault-injected file '' @ quote (sc_VaultFilePath cfg) @ '' is empty''))
           else Ok (trimSpace d))
      | Err e \<Rightarrow> Err (Wrapf (''failed to read Vault-injected token file '' @
                             quote (sc_VaultFilePath cfg) @ '': '') e)
      | Panic p \<Rightarrow> Panic p)"

section \<open>Validation and enrichment\<close>

text \<open>
  The configuration is changed through its pointer, also on the way to an error: the result is
  the configuration afterwards and the outcome.
\<close>

definition ensureToken ::
  "string \<Rightarrow> SplunkConfigurationSpec \<Rightarrow> token_resolver \<Rightarrow> SplunkConfigurationSpec \<times> unit res" where
  "ensureToken ns cfg resolver =
     (case resolver ns cfg of
        Ok t \<Rightarrow> (cfg\<lparr>sc_Token := t\<rparr>, Ok ())
      | Err e \<Rightarrow> (cfg, Err e)
      | Panic p \<Rightarrow> (cfg, Panic p))"

definition ValidateAndEnrichSplunkConfig ::
  "(nname \<Rightarrow> objmeta res) \<Rightarrow> (nname \<Rightarrow> objmeta res) \<Rightarrow> string \<Rightarrow> string \<Rightarrow> SplunkConfigurationSpec \<Rightarrow>
   token_resolver \<Rightarrow> SplunkConfigurationSpec \<times> unit res" where
  "ValidateAndEnrichSplunkConfig getStandalone getIndexer ns clusterDomain cfg resolver =
     (if sc_Endpoint cfg \<noteq> '''' then ensureToken ns cfg resolver
      else if ref_Name (sc_SplunkCustomResourceRef cfg) \<noteq> '''' then
        (case ResolveSplunkEndpoint getStandalone getIndexer ns cfg clusterDomain of
           Ok e \<Rightarrow> ensureToken ns (cfg\<lparr>sc_Endpoint := e\<rparr>) resolver
         | Err e \<Rightarrow> (cfg, Err (Wrapf ''failed to resolve Splunk endpoint: '' e))
         | Panic p \<Rightarrow> (cfg, Panic p))
      else (cfg, Err (Errorf ''SplunkConfiguration must have either Endpoint or SplunkCustomResourceRef set'')))"

section \<open>The contract of a resolver\<close>

text \<open>
  What enrichment needs of a resolver: the token does not depend on the two fields that
  enrichment itself fills in.
\<close>

locale secret_resolver =
  fixes getToken :: token_resolver
  assumes token_frame: "getToken ns (cfg\<lparr>sc_Endpoint := e, sc_Token := t\<rparr>) = getToken ns cfg"
begin

lemma token_frame_token: "getToken ns (cfg\<lparr>sc_Token := t\<rparr>) = getToken ns cfg"
  using token_frame [where ns = ns and cfg = cfg and e = "sc_Endpoint cfg" and t = t] by simp

lemma token_frame_endpoint: "getToken ns (cfg\<lparr>sc_Endpoint := e\<rparr>) = getToken ns cfg"
proof -
  have "cfg\<lparr>sc_Endpoint := e\<rparr> = cfg\<lparr>sc_Endpoint := e, sc_Token := sc_Token cfg\<rparr>"
    by simp
  then show ?thesis by (metis token_frame)
qed

lemma ensureToken_idem:
  assumes "ensureToken ns cfg getToken = (cfg', Ok ())"
  shows "ensureToken ns cfg' getToken = (cfg', Ok ())" "sc_Endpoint cfg' = sc_Endpoint cfg"
    "getToken ns cfg = Ok (sc_Token cfg')"
  using assms by (auto simp: ensureToken_def token_frame_token split: res.splits)

lemma enrich_success:
  assumes "ValidateAndEnrichSplunkConfig gs gi ns cdom cfg getToken = (cfg', Ok ())"
  shows "ResolveSplunkEndpoint gs gi ns cfg cdom = Ok (sc_Endpoint cfg') \<and>
     getToken ns cfg = Ok (sc_Token cfg') \<and>
     cfg' = cfg\<lparr>sc_Endpoint := sc_Endpoint cfg', sc_Token := sc_Token cfg'\<rparr>"
proof (cases "sc_Endpoint cfg = ''''")
  case False
  then show ?thesis
    using assms
    by (auto simp: ValidateAndEnrichSplunkConfig_def ResolveSplunkEndpoint_def ensureToken_def
        split: res.splits)
next
  case True
  then obtain e where "ResolveSplunkEndpoint gs gi ns cfg cdom = Ok e"
      "ensureToken ns (cfg\<lparr>sc_Endpoint := e\<rparr>) getToken = (cfg', Ok ())"
    using assms by (auto simp: ValidateAndEnrichSplunkConfig_def split: res.splits if_splits)
  then show ?thesis
    by (auto simp: ensureToken_def token_frame_endpoint split: res.splits)
qed

lemma enrich_idem:
  assumes "ValidateAndEnrichSplunkConfig gs gi ns cdom cfg getToken = (cfg', Ok ())"
    and "sc_Endpoint cfg' \<noteq> ''''"
  shows "ValidateAndEnrichSplunkConfig gs gi ns cdom cfg' getToken = (cfg', Ok ())"
proof -
  have "getToken ns cfg' = Ok (sc_Token cfg')"
    using enrich_success [OF assms(1)] token_frame by metis
  then show ?thesis
    using assms(2) by (simp add: ValidateAndEnrichSplunkConfig_def ensureToken_def)
qed

end

interpretation kubernetes: secret_resolver "KubernetesGetHECToken getSecret" for getSecret
  by unfold_locales (simp add: KubernetesGetHECToken_def)

interpretation vault: secret_resolver "VaultGetHECToken readFile" for readFile
  by unfold_locales (simp add: VaultGetHECToken_def Let_def split: res.split)

interpretation common_vault: secret_resolver "CommonVaultGetHECToken readFile" for readFile
  by unfold_locales (simp add: CommonVaultGetHECToken_def Let_def split: res.split)

lemma mgmtPort_text: "itoa SplunkMgmtPort = ''8089''"
  by (simp add: SplunkMgmtPort_def itoa_def natText.simps go_simps)

lemma mgmtURL_nonempty: "mgmtURL t d m \<noteq> ''''"
  by (simp add: mgmtURL_def)

lemma resolve_nonempty:
  "ResolveSplunkEndpoint gs gi ns cfg cdom = Ok e \<Longrightarrow> e \<noteq> ''''"
  by (auto simp: ResolveSplunkEndpoint_def Let_def mgmtURL_nonempty split: if_splits res.splits)

section \<open>Properties\<close>

text \<open>
  Enriching a Splunk configuration from the namespace secret succeeds with the resolved
  endpoint and the secret's token, changes nothing else, and is idempotent: enriching the result
  again leaves it as it is.
\<close>

theorem enrich_from_secret:
  assumes "ValidateAndEnrichSplunkConfig gs gi ns cdom cfg (KubernetesGetHECToken getSecret) = (cfg', Ok ())"
  shows "ResolveSplunkEndpoint gs gi ns cfg cdom = Ok (sc_Endpoint cfg') \<and>
     KubernetesGetHECToken getSecret ns cfg = Ok (sc_Token cfg') \<and>
     cfg' = cfg\<lparr>sc_Endpoint := sc_Endpoint cfg', sc_Token := sc_Token cfg'\<rparr> \<and>
     ValidateAndEnrichSplunkConfig gs gi ns cdom cfg' (KubernetesGetHECToken getSecret) = (cfg', Ok ())"
  using kubernetes.enrich_success [OF assms] kubernetes.enrich_idem [OF assms]
    resolve_nonempty by blast

text \<open>
  With a vault resolver, success means a non-blank token file: the stored token is the
  file's content without surrounding white space, and enriching again changes nothing.
\<close>

theorem enrich_from_vault:
  assumes "ValidateAndEnrichSplunkConfig gs gi ns cdom cfg (VaultGetHECToken readFile) = (cfg', Ok ())"
  shows "(\<exists>d. readFile (sc_VaultFilePath cfg) = Ok d \<and> sc_Token cfg' = trimSpace d) \<and>
     sc_Token cfg' \<noteq> [] \<and> sc_VaultFilePath cfg \<noteq> [] \<and>
     ValidateAndEnrichSplunkConfig gs gi ns cdom cfg' (VaultGetHECToken readFile) = (cfg', Ok ())"
proof -
  have ok: "VaultGetHECToken readFile ns cfg = Ok (sc_Token cfg')"
    using vault.enrich_success [OF assms] by blast
  have "ValidateAndEnrichSplunkConfig gs gi ns cdom cfg' (VaultGetHECToken readFile) = (cfg', Ok ())"
    using vault.enrich_success [OF assms] vault.enrich_idem [OF assms] resolve_nonempty by blast
  then show ?thesis
    using ok by (auto simp: VaultGetHECToken_def Let_def split: if_splits res.splits)
qed

definition sampleSecret :: "nname \<Rightarrow> secret res" where
  "sampleSecret k = Ok \<lparr>sec_Meta = newMeta (snd k) (fst k), sec_Data = fmap_of_list [(''hec_token'', ''abc'')]\<rparr>"

definition sampleSplunk :: SplunkConfigurationSpec where
  "sampleSplunk = zeroSplunk\<lparr>sc_SplunkCustomResourceRef :=
     zeroObjectRef\<lparr>ref_Kind := ''Standalone'', ref_Name := ''s1''\<rparr>, sc_VaultFilePath := ''/vault/token''\<rparr>"

lemmas sampleSplunk_defs =
  sampleSecret_def sampleSplunk_def zeroSplunk_def zeroObjectRef_def ValidateAndEnrichSplunkConfig_def
  ResolveSplunkEndpoint_def ensureToken_def mgmtURL_def buildFQDN_def buildSplunkServiceName_def
  mgmtPort_text

theorem enrich_from_secret_witness:
  "let cfg' = sampleSplunk\<lparr>sc_Endpoint := ''https://splunk-s1-standalone-service.ns.svc.cluster.local:8089'',
                          sc_Token := ''abc''\<rparr>
   in ValidateAndEnrichSplunkConfig (\<lambda>k. Ok (newMeta (snd k) (fst k))) (\<lambda>_. Panic []) ''ns'' [] cfg'
        (KubernetesGetHECToken sampleSecret) = (cfg', Ok ())"
proof -
  let ?cfg = "sampleSplunk\<lparr>sc_Endpoint := ''https://splunk-s1-standalone-service.ns.svc.cluster.local:8089'',
                          sc_Token := ''abc''\<rparr>"
  have "ValidateAndEnrichSplunkConfig (\<lambda>k. Ok (newMeta (snd k) (fst k))) (\<lambda>_. Panic []) ''ns'' [] sampleSplunk
        (KubernetesGetHECToken sampleSecret) = (?cfg, Ok ())"
    by (simp add: sampleSplunk_defs KubernetesGetHECToken_def)
  from enrich_from_secret [OF this] show ?thesis by (simp add: Let_def)
qed

theorem enrich_from_vault_witness:
  "ValidateAndEnrichSplunkConfig (\<lambda>_. Panic []) (\<lambda>_. Panic []) ''ns'' []
     (sampleSplunk\<lparr>sc_Endpoint := ''splunk'', sc_Token := ''abc''\<rparr>) (VaultGetHECToken (\<lambda>_. Ok '' abc '')) =
   (sampleSplunk\<lparr>sc_Endpoint := ''splunk'', sc_Token := ''abc''\<rparr>, Ok ())"
proof -
  have "ValidateAndEnrichSplunkConfig (\<lambda>_. Panic []) (\<lambda>_. Panic []) ''ns'' []
     (sampleSplunk\<lparr>sc_Endpoint := ''splunk''\<rparr>) (VaultGetHECToken (\<lambda>_. Ok '' abc '')) =
     (sampleSplunk\<lparr>sc_Endpoint := ''splunk'', sc_Token := ''abc''\<rparr>, Ok ())"
    by (simp add: sampleSplunk_defs VaultGetHECToken_def trimSpace_def isSpaceC_def)
  from enrich_from_vault [OF this] show ?thesis by blast
qed

text \<open>
  An endpoint derived from a reference is the management URL of the referenced instance's
  service, in the reference's namespace (the resource's own by default) and cluster domain,
  provided a read returns the object it was asked for.
\<close>

theorem derived_endpoint:
  assumes "sc_Endpoint cfg = []"
    and "\<And>k m. gs k = Ok m \<Longrightarrow> metaKey m = k" and "\<And>k m. gi k = Ok m \<Longrightarrow> metaKey m = k"
    and "ResolveSplunkEndpoint gs gi ns cfg cdom = Ok e"
  shows "\<exists>t. (ref_Kind (sc_SplunkCustomResourceRef cfg), t) \<in>
               {(''Standalone'', ''standalone''), (''IndexerCluster'', ''indexer'')} \<and>
     e = ''https://splunk-'' @ ref_Name (sc_SplunkCustomResourceRef cfg) @ ''-'' @ t @ ''-service.'' @
         (if ref_Namespace (sc_SplunkCustomResourceRef cfg) = [] then ns
          else ref_Namespace (sc_SplunkCustomResourceRef cfg)) @ ''.svc.'' @
         (if cdom = [] then ''cluster.local'' else cdom) @ '':8089''"
  using assms(1,4)
  by (auto simp: ResolveSplunkEndpoint_def Let_def mgmtURL_def buildFQDN_def mgmtPort_text
      buildSplunkServiceName_def metaKey_def split: if_splits res.splits dest: assms(2,3))

theorem derived_endpoint_witness:
  "\<exists>t. (''Standalone'', t) \<in> {(''Standalone'', ''standalone''), (''IndexerCluster'', ''indexer'')} \<and>
     ''https://splunk-s1-standalone-service.ns.svc.cluster.local:8089'' =
       ''https://splunk-s1-'' @ t @ ''-service.ns.svc.cluster.local:8089''"
proof -
  have "ResolveSplunkEndpoint (\<lambda>k. Ok (newMeta (snd k) (fst k))) (\<lambda>_. Panic []) ''ns'' sampleSplunk [] =
     Ok ''https://splunk-s1-standalone-service.ns.svc.cluster.local:8089''"
    by (simp add: sampleSplunk_defs)
  from derived_endpoint [OF _ _ _ this] show ?thesis
    by (simp add: sampleSplunk_defs metaKey_def)
qed

end
