(* ===== verification/RayStatus.thy ===== *)
theory RayStatus
  imports KubeTypes "HOL-Library.Multiset"
begin

text \<open>
  Reading the state of Ray and Weaviate (\<open>pkg/ai/raybuilder/raystatus\<close>): the snapshot of a
  RayService, the conditions derived from it, and the extraction of error summaries. The reads of
  the cluster are parameters, and so is \<open>meta.SetStatusCondition\<close>. A Go map that is ranged over
  is the list of its entries in the order of the iteration.
\<close>

section \<open>The objects read\<close>

record deploy_status =
  ds_Status :: string
  ds_Message :: string

record app_status =
  at_Status :: string
  at_Message :: string
  at_Deployments :: "(string \<times> deploy_status) list"

record service_status =
  ss_RayClusterName :: string
  ss_Applications :: "(string \<times> app_status) list option"
  ss_Endpoints :: "(string \<times> string) list option"
  ss_HeadServiceName :: string
  ss_HeadServiceIP :: string
  ss_HeadPodName :: string

record ray_service =
  rv_ObservedGeneration :: int64
  rv_Conditions :: "condition list"
  rv_ServiceStatus :: string
  rv_Active :: service_status
  rv_Pending :: service_status

record ray_cluster =
  rc_Conditions :: "condition list"
  rc_State :: string

record container_status =
  cs_Name :: string
  cs_Waiting :: "(string \<times> string) option"
  cs_Terminated :: "(int32 \<times> string) option"
  cs_RestartCount :: int32
  cs_Ready :: bool

record pod =
  pod_Name :: string
  pod_Phase :: string
  pod_Reason :: string
  pod_Message :: string
  pod_Conditions :: "condition list"
  pod_InitStatuses :: "container_status list"
  pod_Statuses :: "container_status list"

record stateful_set =
  sts_Replicas :: "int32 option"
  sts_ReadyReplicas :: int32
  sts_Conditions :: "condition list"

text \<open>The number of addresses in each subset of an Endpoints object.\<close>

type_synonym endpoints = "nat list"

record ray_reads =
  rr_service :: "nname \<Rightarrow> ray_service res"
  rr_cluster :: "nname \<Rightarrow> ray_cluster res"
  rr_endpoints :: "nname \<Rightarrow> endpoints res"
  rr_pods :: "string \<Rightarrow> (string \<times> string) list \<Rightarrow> pod list res"
  rr_statefulSet :: "nname \<Rightarrow> stateful_set res"
  rr_statefulSets :: "string \<Rightarrow> (string \<times> string) list \<Rightarrow> stateful_set list res"
  rr_k8sService :: "nname \<Rightarrow> service res"

section \<open>Endpoints and ports\<close>

definition lowerIndex :: "(string \<times> string) list \<Rightarrow> smap" where
  "lowerIndex m = fold (\<lambda>(k, v) idx. fmupd (toLower k) v idx) m fmempty"

fun firstKey :: "smap \<Rightarrow> string list \<Rightarrow> string" where
  "firstKey idx [] = ''''"
| "firstKey idx (k # ks) =
     (case fmlookup idx (toLower k) of
        Some v \<Rightarrow> if v \<noteq> '''' then v else firstKey idx ks
      | None \<Rightarrow> firstKey idx ks)"

definition getEndpointURL :: "(string \<times> string) list option \<Rightarrow> string list \<Rightarrow> string" where
  "getEndpointURL m keys = (case m of None \<Rightarrow> '''' | Some es \<Rightarrow> firstKey (lowerIndex es) keys)"

definition portOf :: "string \<Rightarrow> int32 option" where
  "portOf p =
     (case atoi p of
        Some n \<Rightarrow> if 0 < n \<and> n \<le> 65535 then Some (word_of_int n) else None
      | None \<Rightarrow> None)"

definition hostPortPort :: "string \<Rightarrow> int32 option" where
  "hostPortPort s = (case splitHostPort s of Some (h, p) \<Rightarrow> portOf p | None \<Rightarrow> None)"

definition urlPort :: "url \<Rightarrow> int32 option" where
  "urlPort u =
     (case hostPortPort (u_Host u) of
        Some n \<Rightarrow> Some n
      | None \<Rightarrow>
          if u_Scheme u = '''' \<and> u_Host u = '''' \<and> contains (u_Path u) '':'' then hostPortPort (u_Path u)
          else None)"

definition parsePort :: "string \<Rightarrow> int32" where
  "parsePort s =
     (if s = '''' then 0
      else case (case urlParse s of Some u \<Rightarrow> urlPort u | None \<Rightarrow> None) of
        Some n \<Rightarrow> n
      | None \<Rightarrow> (case hostPortPort s of Some n \<Rightarrow> n | None \<Rightarrow> 0))"

section \<open>The snapshot\<close>

record RaySnapshot =
  sn_ServiceReady :: bool
  sn_UpgradeInProgress :: bool
  sn_ServiceStatusRunning :: bool
  sn_ActiveClusterName :: string
  sn_ObservedGeneration :: int64
  sn_HeadPodReady :: bool
  sn_DesiredWorkerReplicas :: int32
  sn_AvailableWorkerReplicas :: int32
  sn_ServeServiceName :: string
  sn_ServeServiceHasBackend :: bool
  sn_HeadServiceName :: string
  sn_HeadPodName :: string
  sn_HeadServiceIP :: string
  sn_EndpointMap :: "(string \<times> string) list option"
  sn_DashboardURL :: string
  sn_ServeURL :: string
  sn_DashboardPort :: int32
  sn_ServePort :: int32

definition newSnapshot :: "string \<Rightarrow> RaySnapshot" where
  "newSnapshot name =
     \<lparr>sn_ServiceReady = False, sn_UpgradeInProgress = False, sn_ServiceStatusRunning = False,
      sn_ActiveClusterName = '''', sn_ObservedGeneration = 0, sn_HeadPodReady = False,
      sn_DesiredWorkerReplicas = 0, sn_AvailableWorkerReplicas = 0,
      sn_ServeServiceName = name @ ''-serve-svc'', sn_ServeServiceHasBackend = False,
      sn_HeadServiceName = name @ ''-head-svc'', sn_HeadPodName = '''', sn_HeadServiceIP = '''',
      sn_EndpointMap = None, sn_DashboardURL = '''', sn_ServeURL = '''', sn_DashboardPort = 0,
      sn_ServePort = 0\<rparr>"

fun readConditions :: "condition list \<Rightarrow> RaySnapshot \<Rightarrow> RaySnapshot" where
  "readConditions [] sn = sn"
| "readConditions (c # cs) sn =
     readConditions cs
       (if c_Type c = ''Ready'' then sn\<lparr>sn_ServiceReady := (c_Status c = ConditionTrue)\<rparr>
        else if c_Type c = ''UpgradeInProgress''
          then sn\<lparr>sn_UpgradeInProgress := (c_Status c = ConditionTrue)\<rparr>
        else sn)"

text \<open>Everything that is read off the RayService; the head pod and the workers are not.\<close>

definition serviceSnapshot :: "string \<Rightarrow> ray_service \<Rightarrow> RaySnapshot" where
  "serviceSnapshot name rs =
     (let act = rv_Active rs;
          sn = (newSnapshot name)\<lparr>sn_ObservedGeneration := rv_ObservedGeneration rs\<rparr>;
          sn = readConditions (rv_Conditions rs) sn;
          serve = getEndpointURL (ss_Endpoints act) [''Serve'', ''serve'', ''SERVE'', ''RayServe'', ''rayserve''];
          dash = getEndpointURL (ss_Endpoints act) [''Dashboard'', ''dashboard''];
          sn = sn\<lparr>sn_ServiceStatusRunning := (rv_ServiceStatus rs = ''Running''),
                  sn_ActiveClusterName := ss_RayClusterName act,
                  sn_EndpointMap := ss_Endpoints act,
                  sn_ServeURL := serve, sn_DashboardURL := dash,
                  sn_ServePort := parsePort serve, sn_DashboardPort := parsePort dash\<rparr>;
          sn = (if ss_HeadServiceName act \<noteq> ''''
                then sn\<lparr>sn_HeadServiceName := ss_HeadServiceName act,
                        sn_HeadServiceIP := ss_HeadServiceIP act,
                        sn_HeadPodName := ss_HeadPodName act\<rparr> else sn)
      in if sn_ActiveClusterName sn = ''''
         then sn\<lparr>sn_ActiveClusterName := name @ ''-raycluster''\<rparr> else sn)"

definition CollectRaySnapshot :: "ray_reads \<Rightarrow> string \<Rightarrow> string \<Rightarrow> RaySnapshot res" where
  "CollectRaySnapshot r ns name =
     bindR (rr_service r (ns, name)) (\<lambda>rs.
       let sn = serviceSnapshot name rs
       in case rr_endpoints r (ns, sn_ServeServiceName sn) of
            Ok subsets \<Rightarrow> Ok (sn\<lparr>sn_ServeServiceHasBackend := list_ex (\<lambda>n. n > 0) subsets\<rparr>)
          | Err _ \<Rightarrow> Ok sn
          | Panic p \<Rightarrow> Panic p)"

definition isPodReady :: "pod \<Rightarrow> bool" where
  "isPodReady p = list_ex (\<lambda>c. c_Type c = ''Ready'' \<and> c_Status c = ConditionTrue) (pod_Conditions p)"

definition checkHeadPodReady :: "ray_reads \<Rightarrow> string \<Rightarrow> string \<Rightarrow> bool res" where
  "checkHeadPodReady r ns clusterName =
     bindR (rr_pods r ns [(''ray.io/cluster'', clusterName), (''ray.io/node-type'', ''head'')])
       (\<lambda>ps. Ok (list_ex isPodReady ps))"

fun addReplicas :: "int32 \<times> int32 \<Rightarrow> stateful_set list \<Rightarrow> int32 \<times> int32" where
  "addReplicas acc [] = acc"
| "addReplicas (desired, available) (s # ss) =
     addReplicas (case sts_Replicas s of Some n \<Rightarrow> desired + n | None \<Rightarrow> desired,
                  available + sts_ReadyReplicas s) ss"

definition sumWorkerReplicas :: "ray_reads \<Rightarrow> string \<Rightarrow> string \<Rightarrow> (int32 \<times> int32) res" where
  "sumWorkerReplicas r ns clusterName =
     bindR (rr_statefulSets r ns [(''ray.io/cluster'', clusterName), (''ray.io/node-type'', ''worker'')])
       (\<lambda>ss. Ok (addReplicas (0, 0) ss))"

section \<open>Conditions\<close>

type_synonym set_condition = "condition list \<Rightarrow> condition \<Rightarrow> condition list"

definition findCond :: "string \<Rightarrow> condition list \<Rightarrow> condition option" where
  "findCond t cs = find (\<lambda>c. c_Type c = t) cs"

text \<open>
  \<open>meta.SetStatusCondition\<close> by its documentation: the condition of that type has the status,
  reason and message given, and conditions of other types are as before.
\<close>

definition setConditionDocs :: "set_condition \<Rightarrow> bool" where
  "setConditionDocs setC \<longleftrightarrow>
     (\<forall>cs c t. case findCond t (setC cs c) of
        Some d \<Rightarrow> if t = c_Type c
                  then c_Status d = c_Status c \<and> c_Reason d = c_Reason c \<and> c_Message d = c_Message c
                  else findCond t cs = Some d
      | None \<Rightarrow> t \<noteq> c_Type c \<and> findCond t cs = None)"

definition boolStatus :: "bool \<Rightarrow> string" where
  "boolStatus b = (if b then ConditionTrue else ConditionFalse)"

definition mkCond :: "nat \<Rightarrow> string \<Rightarrow> string \<Rightarrow> string \<Rightarrow> bool \<Rightarrow> condition" where
  "mkCond now t reason msg b =
     \<lparr>c_Type = t, c_Status = boolStatus b, c_Reason = reason, c_Message = msg, c_LastTransitionTime = now\<rparr>"

definition rsReady :: "RaySnapshot \<Rightarrow> bool" where
  "rsReady sn = (sn_ServiceReady sn \<or> sn_ServiceStatusRunning sn)"

definition clusterReady :: "RaySnapshot \<Rightarrow> bool" where
  "clusterReady sn = (sn_HeadPodReady sn \<and> sn_DesiredWorkerReplicas sn = sn_AvailableWorkerReplicas sn)"

definition platformReady :: "RaySnapshot \<Rightarrow> bool" where
  "platformReady sn = (rsReady sn \<and> clusterReady sn \<and> sn_ServeServiceHasBackend sn)"

text \<open>The UTF-8 bytes of the sign for \<open>and\<close> in a message.\<close>

definition andSign :: string where
  "andSign = [CHR 0xE2, CHR 0x88, CHR 0xA7]"

definition normalizedConditions :: "nat \<Rightarrow> RaySnapshot \<Rightarrow> condition list" where
  "normalizedConditions now sn =
     [mkCond now ''RayServiceReady'' (if rsReady sn then ''Ready'' else ''NotReady'')
        (''Ready='' @ boolText (rsReady sn) @ '' UpgradeInProgress='' @ boolText (sn_UpgradeInProgress sn))
        (rsReady sn),
      mkCond now ''RayServiceUpgradeInProgress'' (if sn_UpgradeInProgress sn then ''Upgrading'' else ''Idle'')
        ''Zero-downtime upgrade status as reported by KubeRay'' (sn_UpgradeInProgress sn),
      mkCond now ''RayClusterReady'' (if clusterReady sn then ''AllPodsReady'' else ''PodsNotReady'')
        (''workers '' @ itoa (sint (sn_AvailableWorkerReplicas sn)) @ ''/'' @
         itoa (sint (sn_DesiredWorkerReplicas sn)) @ '' headReady='' @ boolText (sn_HeadPodReady sn))
        (clusterReady sn),
      mkCond now ''RayServeRouteReady''
        (if sn_ServeServiceHasBackend sn then ''EndpointsAvailable'' else ''NoEndpoints'')
        (''service='' @ sn_ServeServiceName sn @ '' endpointsBacked='' @ boolText (sn_ServeServiceHasBackend sn))
        (sn_ServeServiceHasBackend sn),
      mkCond now ''Ready'' (if platformReady sn then ''AllHealthy'' else ''Degraded'')
        (''Composite of RayServiceReady '' @ andSign @ '' RayClusterReady '' @ andSign @ '' RayServeRouteReady'')
        (platformReady sn)]"

definition ApplyNormalizedConditions ::
  "set_condition \<Rightarrow> nat \<Rightarrow> condition list \<Rightarrow> RaySnapshot \<Rightarrow> condition list" where
  "ApplyNormalizedConditions setC now conds sn = foldl setC conds (normalizedConditions now sn)"

section \<open>Error extraction\<close>

definition truncateText :: "string \<Rightarrow> nat \<Rightarrow> string" where
  "truncateText s maxLen = (if length s \<le> maxLen then s else take maxLen s @ ''...'')"

definition newlineC :: string where
  "newlineC = [CHR 0x0A]"

definition boundedFrom :: "string \<Rightarrow> nat \<Rightarrow> string" where
  "boundedFrom full idx =
     (let rest = drop idx full
      in case indexOf rest newlineC of
           Some n \<Rightarrow> if n < 200 then take n rest
                     else if length rest > 200 then take 200 rest @ ''...'' else rest
         | None \<Rightarrow> if length rest > 200 then take 200 rest @ ''...'' else rest)"

definition unboundedFrom :: "string \<Rightarrow> nat \<Rightarrow> string" where
  "unboundedFrom full idx =
     (let rest = drop idx full
      in case indexOf rest newlineC of
           Some n \<Rightarrow> if n < 200 then take n rest else rest
         | None \<Rightarrow> rest)"

fun meaningfulLine :: "string list \<Rightarrow> string option" where
  "meaningfulLine [] = None"
| "meaningfulLine (l # ls) =
     (let line = trimSpace l
      in if length line > 20 \<and> \<not> hasPrefix line ''File '' \<and> \<not> hasPrefix line ''  '' \<and>
            \<not> hasPrefix line ''Traceback''
         then Some (if length line > 300 then take 300 line @ ''...'' else line)
         else meaningfulLine ls)"

definition extractConciseError :: "string \<Rightarrow> string" where
  "extractConciseError full =
     (case indexOf full ''ValidationError:'' of
        Some i \<Rightarrow> boundedFrom full i
      | None \<Rightarrow>
          (case indexOf full ''RuntimeError:'' of
             Some i \<Rightarrow> boundedFrom full i
           | None \<Rightarrow>
               (case indexOf full ''FileNotFoundError:'' of
                  Some i \<Rightarrow> unboundedFrom full i
                | None \<Rightarrow>
                    (case meaningfulLine (splitC (CHR 0x0A) full) of
                       Some l \<Rightarrow> l
                     | None \<Rightarrow> truncateText full 300))))"

definition containerError :: "container_status \<Rightarrow> string option" where
  "containerError cs =
     (case cs_Waiting cs of
        Some (reason, msg) \<Rightarrow>
          if reason \<noteq> ''''
          then Some (''Container '' @ cs_Name cs @ '' waiting: '' @ (if msg = '''' then reason else msg))
          else None
      | None \<Rightarrow> None)"

definition containerExit :: "container_status \<Rightarrow> string option" where
  "containerExit cs =
     (case cs_Terminated cs of
        Some (code, reason) \<Rightarrow>
          if code \<noteq> 0
          then Some (''Container '' @ cs_Name cs @ '' terminated: exit code '' @ itoa (sint code) @ '' - '' @ reason)
          else None
      | None \<Rightarrow> None)"

fun firstContainerError :: "container_status list \<Rightarrow> string" where
  "firstContainerError [] = ''''"
| "firstContainerError (cs # css) =
     (case containerError cs of
        Some m \<Rightarrow> m
      | None \<Rightarrow>
          (case containerExit cs of
             Some m \<Rightarrow> m
           | None \<Rightarrow>
               if sint (cs_RestartCount cs) > 0 \<and> \<not> cs_Ready cs
               then ''Container '' @ cs_Name cs @ '': '' @ itoa (sint (cs_RestartCount cs)) @ '' restarts, not ready''
               else firstContainerError css))"

definition condText :: "condition \<Rightarrow> string" where
  "condText c = c_Type c @ '': '' @ c_Reason c @ '' - '' @ c_Message c"

fun podConditionError :: "condition list \<Rightarrow> string option" where
  "podConditionError [] = None"
| "podConditionError (c # cs) =
     (if c_Status c = ConditionFalse \<and> c_Type c \<noteq> ''PodScheduled'' \<and> c_Message c \<noteq> ''''
      then Some (condText c) else podConditionError cs)"

definition extractPodError :: "pod \<Rightarrow> string" where
  "extractPodError p =
     (if pod_Phase p = ''Failed'' then ''Pod failed: '' @ pod_Reason p @ '' - '' @ pod_Message p
      else case podConditionError (pod_Conditions p) of
        Some m \<Rightarrow> m
      | None \<Rightarrow> firstContainerError (pod_InitStatuses p @ pod_Statuses p))"

record RayErrorDetails =
  ed_HasError :: bool
  ed_ServiceErrors :: "string list"
  ed_ClusterErrors :: "string list"
  ed_PodErrors :: "string list"
  ed_ApplicationErrors :: smap
  ed_Summary :: string

definition noRayErrors :: RayErrorDetails where
  "noRayErrors = \<lparr>ed_HasError = False, ed_ServiceErrors = [], ed_ClusterErrors = [], ed_PodErrors = [],
                  ed_ApplicationErrors = fmempty, ed_Summary = ''''\<rparr>"

fun falseConditions :: "condition list \<Rightarrow> string list" where
  "falseConditions [] = []"
| "falseConditions (c # cs) =
     (if c_Status c = ''False'' \<and> c_Message c \<noteq> '''' then condText c # falseConditions cs else falseConditions cs)"

definition addServiceErrors :: "string list \<Rightarrow> RayErrorDetails \<Rightarrow> RayErrorDetails" where
  "addServiceErrors es d = d\<lparr>ed_HasError := ed_HasError d \<or> es \<noteq> [], ed_ServiceErrors := ed_ServiceErrors d @ es\<rparr>"

definition addClusterErrors :: "string list \<Rightarrow> RayErrorDetails \<Rightarrow> RayErrorDetails" where
  "addClusterErrors es d = d\<lparr>ed_HasError := ed_HasError d \<or> es \<noteq> [], ed_ClusterErrors := ed_ClusterErrors d @ es\<rparr>"

definition addPodErrors :: "string list \<Rightarrow> RayErrorDetails \<Rightarrow> RayErrorDetails" where
  "addPodErrors es d = d\<lparr>ed_HasError := ed_HasError d \<or> es \<noteq> [], ed_PodErrors := ed_PodErrors d @ es\<rparr>"

definition addAppError :: "string \<Rightarrow> string \<Rightarrow> RayErrorDetails \<Rightarrow> RayErrorDetails" where
  "addAppError k m d = d\<lparr>ed_HasError := True, ed_ApplicationErrors := fmupd k m (ed_ApplicationErrors d)\<rparr>"

definition bracketText :: "string \<Rightarrow> string \<Rightarrow> string \<Rightarrow> string" where
  "bracketText prefix status msg = ''['' @ prefix @ ''] '' @ status @ '': '' @ msg"

fun checkDeployments :: "string \<Rightarrow> string \<Rightarrow> (string \<times> deploy_status) list \<Rightarrow> RayErrorDetails \<Rightarrow> RayErrorDetails" where
  "checkDeployments prefix appName [] d = d"
| "checkDeployments prefix appName ((n, s) # rest) d =
     checkDeployments prefix appName rest
       (if ds_Status s \<noteq> ''HEALTHY'' \<and> ds_Message s \<noteq> ''''
        then addAppError (appName @ '':'' @ n) (bracketText prefix (ds_Status s) (extractConciseError (ds_Message s))) d
        else d)"

fun checkAppStatuses :: "string \<Rightarrow> (string \<times> app_status) list \<Rightarrow> RayErrorDetails \<Rightarrow> RayErrorDetails" where
  "checkAppStatuses prefix [] d = d"
| "checkAppStatuses prefix ((n, s) # rest) d =
     checkAppStatuses prefix rest
       (checkDeployments prefix n (at_Deployments s)
          (if at_Status s \<noteq> ''RUNNING'' \<and> at_Message s \<noteq> ''''
           then addAppError n (bracketText prefix (at_Status s) (extractConciseError (at_Message s))) d
           else d))"

definition checkApps :: "string \<Rightarrow> (string \<times> app_status) list option \<Rightarrow> RayErrorDetails \<Rightarrow> RayErrorDetails" where
  "checkApps prefix apps d = (case apps of Some as \<Rightarrow> checkAppStatuses prefix as d | None \<Rightarrow> d)"

definition clusterErrors :: "ray_cluster \<Rightarrow> string list" where
  "clusterErrors rc =
     falseConditions (rc_Conditions rc) @
     (if rc_State rc \<noteq> ''ready'' then [''Cluster state: '' @ rc_State rc @ '' (expected: ready)''] else [])"

fun podErrors :: "pod list \<Rightarrow> string list" where
  "podErrors [] = []"
| "podErrors (p # ps) =
     (if extractPodError p \<noteq> '''' then (pod_Name p @ '': '' @ extractPodError p) # podErrors ps else podErrors ps)"

text \<open>
  The summary. \<open>firstOf\<close> is the entry that a range over the map of application errors yields
  first.
\<close>

definition raySummary :: "(smap \<Rightarrow> (string \<times> string) option) \<Rightarrow> RayErrorDetails \<Rightarrow> string" where
  "raySummary firstOf d =
     (let svc = (case ed_ServiceErrors d of e # _ \<Rightarrow> [''RayService: '' @ e] | [] \<Rightarrow> []);
          app = (case firstOf (ed_ApplicationErrors d) of
                   Some (a, e) \<Rightarrow> [''App '' @ a @ '': '' @ truncateText e 100] | None \<Rightarrow> []);
          cl = (case ed_ClusterErrors d of e # _ \<Rightarrow> [''Cluster: '' @ e] | [] \<Rightarrow> []);
          parts = svc @ app @ cl;
          pods = (if ed_PodErrors d \<noteq> [] \<and> length parts < 2
                  then [''Pods: '' @ itoa (int (length (ed_PodErrors d))) @ '' errors''] else [])
      in joinS (parts @ pods) ''; '')"

text \<open>What is collected once the RayService has been read.\<close>

definition gatherRayErrors :: "ray_reads \<Rightarrow> string \<Rightarrow> string \<Rightarrow> ray_service \<Rightarrow> RayErrorDetails" where
  "gatherRayErrors r ns name rs =
     (let d = addServiceErrors (falseConditions (rv_Conditions rs)) noRayErrors;
          d = checkApps ''active'' (ss_Applications (rv_Active rs)) d;
          d = checkApps ''pending'' (ss_Applications (rv_Pending rs)) d;
          clusterName = (if ss_RayClusterName (rv_Active rs) = '''' then name @ ''-raycluster''
                         else ss_RayClusterName (rv_Active rs));
          d = (case rr_cluster r (ns, clusterName) of
                 Ok rc \<Rightarrow> addClusterErrors (clusterErrors rc) d | _ \<Rightarrow> d)
      in case rr_pods r ns [(''ray.io/cluster'', clusterName)] of
           Ok ps \<Rightarrow> addPodErrors (podErrors ps) d | _ \<Rightarrow> d)"

definition ExtractRayErrors ::
  "(smap \<Rightarrow> (string \<times> string) option) \<Rightarrow> ray_reads \<Rightarrow> string \<Rightarrow> string \<Rightarrow> RayErrorDetails res" where
  "ExtractRayErrors firstOf r ns name =
     (case rr_service r (ns, name) of
        Panic p \<Rightarrow> Panic p
      | Err e \<Rightarrow> Ok (noRayErrors\<lparr>ed_HasError := True,
                       ed_ServiceErrors := [''Failed to get RayService: '' @ errText e],
                       ed_Summary := ''RayService not found: '' @ errText e\<rparr>)
      | Ok rs \<Rightarrow>
          (let d = gatherRayErrors r ns name rs
           in Ok (if ed_HasError d then d\<lparr>ed_Summary := raySummary firstOf d\<rparr> else d)))"

record WeaviateErrorDetails =
  wd_HasError :: bool
  wd_StatefulSetError :: string
  wd_PodErrors :: "string list"
  wd_ServiceError :: string
  wd_Summary :: string

fun stsConditionErrors :: "condition list \<Rightarrow> WeaviateErrorDetails \<Rightarrow> WeaviateErrorDetails" where
  "stsConditionErrors [] d = d"
| "stsConditionErrors (c # cs) d =
     stsConditionErrors cs
       (if c_Status c = ConditionFalse \<and> c_Message c \<noteq> ''''
        then d\<lparr>wd_HasError := True,
               wd_StatefulSetError :=
                 wd_StatefulSetError d @ (if wd_StatefulSetError d \<noteq> '''' then ''; '' else '''') @
                 c_Type c @ '': '' @ c_Message c\<rparr>
        else d)"

definition weaviateSummary :: "WeaviateErrorDetails \<Rightarrow> string" where
  "weaviateSummary d =
     joinS ((if wd_StatefulSetError d \<noteq> '''' then [wd_StatefulSetError d] else [])
        @ (if wd_PodErrors d \<noteq> [] then [itoa (int (length (wd_PodErrors d))) @ '' pod error(s)''] else [])
        @ (if wd_ServiceError d \<noteq> '''' then [wd_ServiceError d] else [])) ''; ''"

text \<open>\<open>*sts.Spec.Replicas\<close> dereferences a pointer that may be nil.\<close>

definition ExtractWeaviateErrors :: "ray_reads \<Rightarrow> string \<Rightarrow> string \<Rightarrow> WeaviateErrorDetails res" where
  "ExtractWeaviateErrors r ns name =
     (let weaviateName = name @ ''-weaviate'';
          d0 = \<lparr>wd_HasError = False, wd_StatefulSetError = '''', wd_PodErrors = [], wd_ServiceError = '''', wd_Summary = ''''\<rparr>
      in case rr_statefulSet r (ns, weaviateName) of
           Panic p \<Rightarrow> Panic p
         | Err e \<Rightarrow> Ok (d0\<lparr>wd_HasError := True,
                          wd_StatefulSetError := ''StatefulSet not found: '' @ errText e,
                          wd_Summary := ''StatefulSet not found: '' @ errText e\<rparr>)
         | Ok sts \<Rightarrow>
             (case sts_Replicas sts of
                None \<Rightarrow> Panic ''invalid memory address or nil pointer dereference''
              | Some replicas \<Rightarrow>
                  (let d = (if sts_ReadyReplicas sts \<noteq> replicas
                            then d0\<lparr>wd_HasError := True,
                                    wd_StatefulSetError := ''Ready replicas '' @ itoa (sint (sts_ReadyReplicas sts)) @
                                      ''/'' @ itoa (sint replicas)\<rparr> else d0);
                       d = stsConditionErrors (sts_Conditions sts) d;
                       d = (case rr_pods r ns [(''app'', ''weaviate'')] of
                              Ok ps \<Rightarrow> d\<lparr>wd_HasError := wd_HasError d \<or> podErrors ps \<noteq> [],
                                        wd_PodErrors := podErrors ps\<rparr> | _ \<Rightarrow> d);
                       d = (case rr_k8sService r (ns, weaviateName) of
                              Err e \<Rightarrow> d\<lparr>wd_HasError := True,
                                        wd_ServiceError := ''Service not found: '' @ errText e\<rparr> | _ \<Rightarrow> d)
                   in Ok (if wd_HasError d then d\<lparr>wd_Summary := weaviateSummary d\<rparr> else d))))"


section \<open>Lemmas\<close>

lemma truncateText_length: "length (truncateText s n) \<le> n + 3"
  by (simp add: truncateText_def)

lemma boundedFrom_length: "length (boundedFrom full i) \<le> 203"
  by (auto simp: boundedFrom_def Let_def split: option.split)

lemma meaningfulLine_length: "meaningfulLine ls = Some l \<Longrightarrow> length l \<le> 303"
  by (induction ls) (auto simp: Let_def split: if_splits)

lemma portOf_range: "portOf p = Some n \<Longrightarrow> 0 < sint n \<and> sint n \<le> 65535"
  by (auto simp: portOf_def int_word_sint split: option.splits if_splits)

lemma hostPortPort_range: "hostPortPort s = Some n \<Longrightarrow> 0 < sint n \<and> sint n \<le> 65535"
  by (auto simp: hostPortPort_def portOf_range split: option.splits)

lemma urlPort_range: "urlPort u = Some n \<Longrightarrow> 0 < sint n \<and> sint n \<le> 65535"
  by (auto simp: urlPort_def dest: hostPortPort_range split: option.splits if_splits)

lemma lowerIndex_lookup_fold:
  "fmlookup (fold (\<lambda>(k, v) idx. fmupd (toLower k) v idx) m idx) k =
     (case map_of (rev (map (\<lambda>(k, v). (toLower k, v)) m)) k of Some v \<Rightarrow> Some v | None \<Rightarrow> fmlookup idx k)"
proof (induction m arbitrary: idx)
  case (Cons e m)
  then show ?case
    by (cases e) (auto simp: map_add_def split: option.splits)
qed simp

lemma lowerIndex_lookup:
  assumes "distinct (map (toLower \<circ> fst) m)"
  shows "fmlookup (lowerIndex m) k = map_of (map (\<lambda>(k, v). (toLower k, v)) m) k"
proof -
  have "distinct (map fst (map (\<lambda>(k, v). (toLower k, v)) m))"
    using assms by (simp add: comp_def case_prod_beta)
  then show ?thesis
    by (auto simp: lowerIndex_def lowerIndex_lookup_fold map_of_rev split: option.splits)
qed

lemma firstKey_cong: "(\<And>k. fmlookup a k = fmlookup b k) \<Longrightarrow> firstKey a ks = firstKey b ks"
  by (induction ks) (auto split: option.splits)

lemma addReplicas_sum:
  "addReplicas (a, b) ss =
     (a + (\<Sum>s \<leftarrow> ss. case sts_Replicas s of Some n \<Rightarrow> n | None \<Rightarrow> 0), b + (\<Sum>s \<leftarrow> ss. sts_ReadyReplicas s))"
  by (induction ss arbitrary: a b) (auto split: option.splits)

lemma readConditions_head:
  "sn_HeadPodReady (readConditions cs sn) = sn_HeadPodReady sn"
  "sn_DesiredWorkerReplicas (readConditions cs sn) = sn_DesiredWorkerReplicas sn"
  "sn_AvailableWorkerReplicas (readConditions cs sn) = sn_AvailableWorkerReplicas sn"
  "sn_ServeServiceName (readConditions cs sn) = sn_ServeServiceName sn"
  by (induction cs arbitrary: sn) auto

lemma serviceSnapshot_head: "\<not> sn_HeadPodReady (serviceSnapshot name rs)"
  by (simp add: serviceSnapshot_def Let_def readConditions_head newSnapshot_def)

lemma CollectRaySnapshot_head:
  assumes "CollectRaySnapshot r ns name = Ok sn"
  shows "\<not> sn_HeadPodReady sn"
proof -
  obtain rs where "(case rr_endpoints r (ns, sn_ServeServiceName (serviceSnapshot name rs)) of
      Ok subsets \<Rightarrow> Ok ((serviceSnapshot name rs)\<lparr>sn_ServeServiceHasBackend := list_ex (\<lambda>n. n > 0) subsets\<rparr>)
    | Err _ \<Rightarrow> Ok (serviceSnapshot name rs)
    | Panic p \<Rightarrow> Panic p) = Ok sn"
    using assms by (auto simp: CollectRaySnapshot_def bindR_Ok_iff Let_def)
  then show ?thesis
    by (cases "rr_endpoints r (ns, sn_ServeServiceName (serviceSnapshot name rs))")
       (auto simp: serviceSnapshot_head)
qed

text \<open>Setting a list of conditions of distinct types one after the other.\<close>

lemma findCond_setC_other:
  assumes "setConditionDocs setC" and "t \<noteq> c_Type c"
  shows "findCond t (setC cs c) = findCond t cs"
proof -
  from assms(1) have "case findCond t (setC cs c) of
      Some d \<Rightarrow> if t = c_Type c
                then c_Status d = c_Status c \<and> c_Reason d = c_Reason c \<and> c_Message d = c_Message c
                else findCond t cs = Some d
    | None \<Rightarrow> t \<noteq> c_Type c \<and> findCond t cs = None"
    unfolding setConditionDocs_def by blast
  with assms(2) show ?thesis by (auto split: option.splits)
qed

lemma findCond_setC_same:
  assumes "setConditionDocs setC"
  shows "\<exists>d. findCond (c_Type c) (setC cs c) = Some d \<and>
     c_Status d = c_Status c \<and> c_Reason d = c_Reason c \<and> c_Message d = c_Message c"
proof -
  from assms have "case findCond (c_Type c) (setC cs c) of
      Some d \<Rightarrow> if c_Type c = c_Type c
                then c_Status d = c_Status c \<and> c_Reason d = c_Reason c \<and> c_Message d = c_Message c
                else findCond (c_Type c) cs = Some d
    | None \<Rightarrow> c_Type c \<noteq> c_Type c \<and> findCond (c_Type c) cs = None"
    unfolding setConditionDocs_def by blast
  then show ?thesis by (auto split: option.splits)
qed

lemma foldl_setC_other:
  "setConditionDocs setC \<Longrightarrow> t \<notin> c_Type ` set news \<Longrightarrow> findCond t (foldl setC cs news) = findCond t cs"
  by (induction news arbitrary: cs) (auto simp: findCond_setC_other)

lemma foldl_setC:
  assumes "setConditionDocs setC" and "distinct (map c_Type news)" and "c \<in> set news"
  shows "\<exists>d. findCond (c_Type c) (foldl setC cs news) = Some d \<and>
     c_Status d = c_Status c \<and> c_Reason d = c_Reason c \<and> c_Message d = c_Message c"
  using assms(2,3)
proof (induction news arbitrary: cs)
  case (Cons n news)
  show ?case
  proof (cases "c = n")
    case True
    then show ?thesis
      using Cons.prems(1) findCond_setC_same [OF assms(1), of n cs]
      by (simp add: foldl_setC_other [OF assms(1)])
  next
    case False
    then show ?thesis using Cons by simp
  qed
qed simp

lemma normalized_distinct: "distinct (map c_Type (normalizedConditions now sn))"
  by (simp add: normalizedConditions_def mkCond_def)

lemma foldl_setC_status:
  assumes "setConditionDocs setC" and "distinct (map c_Type news)" and "c \<in> set news"
  shows "map_option c_Status (findCond (c_Type c) (foldl setC cs news)) = Some (c_Status c)"
  using foldl_setC [OF assms] by auto

section \<open>Properties\<close>

text \<open>
  The conditions derived from a snapshot are its readings: the five condition types carry
  their rollups (Ready exactly when service, cluster and route are ready), every other condition
  is left alone.
\<close>

theorem normalized_conditions_correct:
  assumes "setConditionDocs setC"
  shows "map_option c_Status (findCond ''RayServiceReady'' (ApplyNormalizedConditions setC now cs sn)) =
       Some (boolStatus (rsReady sn)) \<and>
     map_option c_Status (findCond ''RayClusterReady'' (ApplyNormalizedConditions setC now cs sn)) =
       Some (boolStatus (clusterReady sn)) \<and>
     map_option c_Status (findCond ''RayServeRouteReady'' (ApplyNormalizedConditions setC now cs sn)) =
       Some (boolStatus (sn_ServeServiceHasBackend sn)) \<and>
     map_option c_Status (findCond ''Ready'' (ApplyNormalizedConditions setC now cs sn)) =
       Some (boolStatus (rsReady sn \<and> clusterReady sn \<and> sn_ServeServiceHasBackend sn)) \<and>
     findCond ''IngressReady'' (ApplyNormalizedConditions setC now cs sn) = findCond ''IngressReady'' cs"
proof -
  note status = foldl_setC_status [OF assms normalized_distinct, of _ now sn cs]
  show ?thesis
    using status [of "normalizedConditions now sn ! 0"] status [of "normalizedConditions now sn ! 2"]
      status [of "normalizedConditions now sn ! 3"] status [of "normalizedConditions now sn ! 4"]
      foldl_setC_other [OF assms, of "''IngressReady''" "normalizedConditions now sn" cs]
    by (simp add: ApplyNormalizedConditions_def)
       (simp add: normalizedConditions_def mkCond_def platformReady_def)
qed


text \<open>
  The snapshot that the collector returns never reports a ready head pod, whatever the
  cluster holds, so the conditions written from it always have RayClusterReady and Ready False.
\<close>

theorem collected_never_ready:
  assumes "setConditionDocs setC" and "CollectRaySnapshot r ns name = Ok sn"
  shows "map_option c_Status (findCond ''RayClusterReady'' (ApplyNormalizedConditions setC now cs sn)) = Some ''False'' \<and>
     map_option c_Status (findCond ''Ready'' (ApplyNormalizedConditions setC now cs sn)) = Some ''False''"
proof -
  have "boolStatus (clusterReady sn) = ''False''" "boolStatus (platformReady sn) = ''False''"
    using CollectRaySnapshot_head [OF assms(2)] by (simp_all add: boolStatus_def clusterReady_def platformReady_def)
  then show ?thesis
    using foldl_setC_status [OF assms(1) normalized_distinct, of "normalizedConditions now sn ! 2" now sn cs]
      foldl_setC_status [OF assms(1) normalized_distinct, of "normalizedConditions now sn ! 4" now sn cs]
    by (simp add: ApplyNormalizedConditions_def) (simp add: normalizedConditions_def mkCond_def)
qed

text \<open>
  A port parsed from an endpoint is zero or between 1 and 65535, as a signed 32-bit number.
\<close>

theorem parsePort_range:
  "parsePort s = 0 \<or> (0 < sint (parsePort s) \<and> sint (parsePort s) \<le> 65535)"
  by (auto simp: parsePort_def dest: urlPort_range hostPortPort_range split: option.splits)

text \<open>
  A lookup of an endpoint does not depend on the order in which Go ranges over the map, and
  its keys are compared without regard to case, as long as no two keys of the map differ in case
  only.
\<close>

theorem endpoint_lookup_order_independent:
  assumes "distinct (map (toLower \<circ> fst) es)" and "distinct (map (toLower \<circ> fst) fs)"
    and "set es = set fs"
  shows "getEndpointURL (Some es) keys = getEndpointURL (Some fs) keys \<and>
     getEndpointURL (Some es) (map toLower keys) = getEndpointURL (Some es) keys"
proof
  have low: "toLower (toLower k) = toLower k" for k
    by (simp add: toLower_idem)
  have "firstKey idx (map toLower ks) = firstKey idx ks" for idx ks
    by (induction ks) (auto simp: low split: option.splits)
  then show "getEndpointURL (Some es) (map toLower keys) = getEndpointURL (Some es) keys"
    by (simp add: getEndpointURL_def)
  let ?low = "map (\<lambda>(k, v). (toLower k, v))"
  have "distinct (map fst (?low es))" "distinct (map fst (?low fs))" "set (?low es) = set (?low fs)"
    using assms by (simp_all add: comp_def case_prod_beta)
  then have "map_of (?low es) = map_of (?low fs)"
    by (metis map_of_eqI map_of_inject_set)
  then have "fmlookup (lowerIndex es) k = fmlookup (lowerIndex fs) k" for k
    using assms by (simp add: lowerIndex_lookup)
  then show "getEndpointURL (Some es) keys = getEndpointURL (Some fs) keys"
    by (auto simp: getEndpointURL_def intro: firstKey_cong)
qed

text \<open>
  C37: an extracted error message is at most 303 bytes long unless it takes the
  FileNotFoundError branch, whose result has no bound at all.
\<close>

theorem concise_error_bound:
  "(length (extractConciseError e) \<le> 303 \<or>
    (contains e ''FileNotFoundError:'' \<and> \<not> contains e ''ValidationError:'' \<and> \<not> contains e ''RuntimeError:'')) \<and>
   (\<exists>e. length (extractConciseError e) > n)"
proof
  have b: "length (boundedFrom e i) \<le> 303" for i
    using boundedFrom_length [of e i] by simp
  have t: "length (truncateText e 300) \<le> 303"
    using truncateText_length [of e 300] by simp
  show "length (extractConciseError e) \<le> 303 \<or>
    (contains e ''FileNotFoundError:'' \<and> \<not> contains e ''ValidationError:'' \<and> \<not> contains e ''RuntimeError:'')"
    using b t by (auto simp: extractConciseError_def contains_def dest: meaningfulLine_length split: option.splits)
  let ?e = "''FileNotFoundError:'' @ replicate n (CHR ''x'')"
  have absent: "indexOf (replicate n (CHR ''x'')) (c # p) = None" if "c \<noteq> CHR ''x''" for n c p
    using that by (induction n) (auto simp: hasPrefix_def)
  have "extractConciseError ?e = ?e"
    by (simp add: extractConciseError_def unboundedFrom_def newlineC_def absent hasPrefix_def)
  then show "\<exists>e. length (extractConciseError e) > n"
    by (intro exI [of _ ?e]) simp
qed

text \<open>A pod without an error: not failed, no failing condition but scheduling, no failing container.\<close>

definition containerOk :: "container_status \<Rightarrow> bool" where
  "containerOk cs \<longleftrightarrow>
     (case cs_Waiting cs of Some (reason, _) \<Rightarrow> reason = '''' | None \<Rightarrow> True) \<and>
     (case cs_Terminated cs of Some (code, _) \<Rightarrow> code = 0 | None \<Rightarrow> True) \<and>
     (sint (cs_RestartCount cs) \<le> 0 \<or> cs_Ready cs)"

definition podOk :: "pod \<Rightarrow> bool" where
  "podOk p \<longleftrightarrow>
     pod_Phase p \<noteq> ''Failed'' \<and>
     list_all (\<lambda>c. c_Status c \<noteq> ''False'' \<or> c_Type c = ''PodScheduled'' \<or> c_Message c = '''') (pod_Conditions p) \<and>
     list_all containerOk (pod_InitStatuses p) \<and> list_all containerOk (pod_Statuses p)"

lemma podConditionError_None:
  "podConditionError cs = None \<longleftrightarrow>
     list_all (\<lambda>c. c_Status c \<noteq> ''False'' \<or> c_Type c = ''PodScheduled'' \<or> c_Message c = '''') cs"
  by (induction cs) auto

lemma podConditionError_nonempty: "podConditionError cs = Some m \<Longrightarrow> m \<noteq> ''''"
  by (induction cs) (auto simp: condText_def split: if_splits)

lemma containerErrors_ok:
  "containerOk cs \<longleftrightarrow>
     containerError cs = None \<and> containerExit cs = None \<and> (sint (cs_RestartCount cs) \<le> 0 \<or> cs_Ready cs)"
  by (auto simp: containerOk_def containerError_def containerExit_def split: option.splits if_splits)

lemma containerErrors_nonempty:
  "containerError cs = Some m \<Longrightarrow> m \<noteq> ''''" "containerExit cs = Some m \<Longrightarrow> m \<noteq> ''''"
  by (auto simp: containerError_def containerExit_def split: option.splits if_splits)

lemma firstContainerError_Nil: "firstContainerError css = '''' \<longleftrightarrow> list_all containerOk css"
  by (induction css) (auto simp: containerErrors_ok dest: containerErrors_nonempty split: option.splits)

lemma extractPodError_Nil: "extractPodError p = '''' \<longleftrightarrow> podOk p"
  unfolding podOk_def podConditionError_None [symmetric]
  by (auto simp: extractPodError_def firstContainerError_Nil dest: podConditionError_nonempty
      split: option.splits)

lemma podErrors_Nil: "podErrors ps = [] \<longleftrightarrow> list_all podOk ps"
  by (induction ps) (auto simp: extractPodError_Nil)

definition detailsOk :: "RayErrorDetails \<Rightarrow> bool" where
  "detailsOk d \<longleftrightarrow>
     ed_HasError d = (ed_ServiceErrors d \<noteq> [] \<or> ed_ClusterErrors d \<noteq> [] \<or> ed_PodErrors d \<noteq> [] \<or>
                      ed_ApplicationErrors d \<noteq> fmempty)"

lemma fmupd_nonempty: "fmupd k v m \<noteq> fmempty"
  by (metis fmempty_lookup fmupd_lookup option.distinct(1))

lemma detailsOk_steps:
  "detailsOk noRayErrors"
  "detailsOk d \<Longrightarrow> detailsOk (addServiceErrors es d)"
  "detailsOk d \<Longrightarrow> detailsOk (addClusterErrors es d)"
  "detailsOk d \<Longrightarrow> detailsOk (addPodErrors es d)"
  "detailsOk (addAppError k m d)"
  by (auto simp: detailsOk_def noRayErrors_def addServiceErrors_def addClusterErrors_def
      addPodErrors_def addAppError_def fmupd_nonempty)

lemma checkDeployments_ok: "detailsOk d \<Longrightarrow> detailsOk (checkDeployments prefix a ds d)"
  by (induction prefix a ds d rule: checkDeployments.induct) (auto simp: detailsOk_steps)

lemma checkAppStatuses_ok: "detailsOk d \<Longrightarrow> detailsOk (checkAppStatuses prefix as d)"
  by (induction prefix as d rule: checkAppStatuses.induct) (simp_all add: detailsOk_steps checkDeployments_ok)

lemma checkApps_ok: "detailsOk d \<Longrightarrow> detailsOk (checkApps prefix as d)"
  by (simp add: checkApps_def checkAppStatuses_ok split: option.split)

lemma joinS_nonempty: "xs \<noteq> [] \<Longrightarrow> hd xs \<noteq> '''' \<Longrightarrow> joinS xs sep \<noteq> ''''"
  by (cases xs; cases "tl xs") auto

lemma raySummary_nonempty:
  assumes "detailsOk d" and "ed_HasError d" and "\<And>m. m \<noteq> fmempty \<Longrightarrow> firstOf m \<noteq> None"
  shows "raySummary firstOf d \<noteq> ''''"
  using assms(1,2) assms(3) [of "ed_ApplicationErrors d"]
  unfolding raySummary_def Let_def
  by (intro joinS_nonempty) (auto simp: detailsOk_def split: list.splits option.splits)


lemma detailsOk_update: "detailsOk d \<Longrightarrow> detailsOk (d\<lparr>ed_Summary := t\<rparr>)"
  by (simp add: detailsOk_def)

lemma summary_steps:
  "ed_Summary noRayErrors = ''''" "ed_Summary (addServiceErrors es d) = ed_Summary d"
  "ed_Summary (addClusterErrors es d) = ed_Summary d" "ed_Summary (addPodErrors es d) = ed_Summary d"
  by (simp_all add: noRayErrors_def addServiceErrors_def addClusterErrors_def addPodErrors_def)

lemma checkDeployments_summary: "ed_Summary (checkDeployments prefix a ds d) = ed_Summary d"
  by (induction prefix a ds d rule: checkDeployments.induct) (auto simp: addAppError_def)

lemma checkAppStatuses_summary: "ed_Summary (checkAppStatuses prefix as d) = ed_Summary d"
  by (induction prefix as d rule: checkAppStatuses.induct) (simp_all add: checkDeployments_summary addAppError_def)

lemma checkApps_summary: "ed_Summary (checkApps prefix as d) = ed_Summary d"
  by (simp add: checkApps_def checkAppStatuses_summary split: option.split)

lemma gatherRayErrors_ok:
  "detailsOk (gatherRayErrors r ns name rs) \<and> ed_Summary (gatherRayErrors r ns name rs) = ''''"
  unfolding gatherRayErrors_def Let_def
  by (simp add: detailsOk_steps checkApps_ok summary_steps checkApps_summary split: res.split)

text \<open>
  The extracted Ray errors are consistent: \<open>HasError\<close> is set exactly when one of the four
  lists of errors is not empty, and exactly then the summary has text; this for every order in
  which Go ranges over the application errors.
\<close>

theorem ray_errors_consistent:
  assumes "\<And>m. m \<noteq> fmempty \<Longrightarrow> firstOf m \<noteq> None"
    and "ExtractRayErrors firstOf r ns name = Ok d"
  shows "ed_HasError d = (ed_ServiceErrors d \<noteq> [] \<or> ed_ClusterErrors d \<noteq> [] \<or> ed_PodErrors d \<noteq> [] \<or>
       ed_ApplicationErrors d \<noteq> fmempty) \<and>
     ed_HasError d = (ed_Summary d \<noteq> [])"
proof -
  have final: "detailsOk (if ed_HasError e then e\<lparr>ed_Summary := raySummary firstOf e\<rparr> else e) \<and>
      ed_HasError (if ed_HasError e then e\<lparr>ed_Summary := raySummary firstOf e\<rparr> else e) =
      (ed_Summary (if ed_HasError e then e\<lparr>ed_Summary := raySummary firstOf e\<rparr> else e) \<noteq> [])"
    if "detailsOk e" "ed_Summary e = []" for e
    using that raySummary_nonempty [OF that(1) _ assms(1)] by (auto simp: detailsOk_update)
  have "detailsOk d \<and> ed_HasError d = (ed_Summary d \<noteq> [])"
  proof (cases "rr_service r (ns, name)")
    case (Ok rs)
    define e where "e = gatherRayErrors r ns name rs"
    have e: "detailsOk e" "ed_Summary e = []"
      using gatherRayErrors_ok by (simp_all add: e_def)
    have "d = (if ed_HasError e then e\<lparr>ed_Summary := raySummary firstOf e\<rparr> else e)"
      using assms(2) Ok by (auto simp: ExtractRayErrors_def Let_def e_def)
    then show ?thesis using final [OF e] by simp
  next
    case (Err err)
    then show ?thesis
      using assms(2) by (auto simp: ExtractRayErrors_def detailsOk_def noRayErrors_def)
  next
    case (Panic p)
    then show ?thesis using assms(2) by (simp add: ExtractRayErrors_def)
  qed
  then show ?thesis unfolding detailsOk_def by blast
qed

text \<open>
  A pod yields no error exactly when it has not failed, has no failing condition with a
  message (a pending scheduling aside), and each of its containers, init containers included, is
  not waiting for a reason, has not exited with an error and is ready if it was ever restarted.
\<close>

theorem pod_error_iff:
  "(extractPodError p = []) = podOk p \<and> (podErrors ps = []) = list_all podOk ps"
  by (simp add: extractPodError_Nil podErrors_Nil)

text \<open>
  The worker replicas of a cluster are the sums over its stateful sets in 32-bit arithmetic,
  whatever the order of the list.
\<close>

theorem worker_replicas_sum:
  assumes "rr_statefulSets r ns [(''ray.io/cluster'', c), (''ray.io/node-type'', ''worker'')] = Ok ss"
    and "mset ts = mset ss"
  shows "sumWorkerReplicas r ns c = Ok (addReplicas (0, 0) ts) \<and>
     sumWorkerReplicas r ns c =
       Ok (word_of_int (\<Sum>s \<leftarrow> ss. case sts_Replicas s of Some n \<Rightarrow> sint n | None \<Rightarrow> 0),
           word_of_int (\<Sum>s \<leftarrow> ss. sint (sts_ReadyReplicas s)))"
proof -
  have perm: "(\<Sum>s \<leftarrow> ts. g s) = (\<Sum>s \<leftarrow> ss. g s)" for g :: "stateful_set \<Rightarrow> int32"
    using assms(2) by (metis mset_map sum_mset_sum_list)
  have word1: "word_of_int (\<Sum>s \<leftarrow> xs. case sts_Replicas s of Some n \<Rightarrow> sint n | None \<Rightarrow> 0) =
      (\<Sum>s \<leftarrow> xs. case sts_Replicas s of Some n \<Rightarrow> n | None \<Rightarrow> (0 :: int32))" for xs
    by (induction xs) (auto split: option.splits)
  have word2: "word_of_int (\<Sum>s \<leftarrow> xs. sint (sts_ReadyReplicas s)) =
      (\<Sum>s \<leftarrow> xs. sts_ReadyReplicas s)" for xs
    by (induction xs) simp_all
  show ?thesis
    using assms(1) by (simp add: sumWorkerReplicas_def addReplicas_sum perm word1 word2)
qed

section \<open>Examples\<close>

text \<open>A setter of conditions that behaves as documented.\<close>

definition putCondition :: set_condition where
  "putCondition cs c =
     (if list_ex (\<lambda>d. c_Type d = c_Type c) cs then map (\<lambda>d. if c_Type d = c_Type c then c else d) cs
      else cs @ [c])"

lemma find_append: "find P (xs @ ys) = (case find P xs of Some x \<Rightarrow> Some x | None \<Rightarrow> find P ys)"
  by (induction xs) auto

lemma find_put_other: "t \<noteq> c_Type c \<Longrightarrow>
   find (\<lambda>d. c_Type d = t) (map (\<lambda>d. if c_Type d = c_Type c then c else d) cs) = find (\<lambda>d. c_Type d = t) cs"
  by (induction cs) auto

lemma find_put_same: "list_ex (\<lambda>d. c_Type d = c_Type c) cs \<Longrightarrow>
   find (\<lambda>d. c_Type d = c_Type c) (map (\<lambda>d. if c_Type d = c_Type c then c else d) cs) = Some c"
  by (induction cs) auto

lemma putCondition_other: "t \<noteq> c_Type c \<Longrightarrow> findCond t (putCondition cs c) = findCond t cs"
  by (auto simp: findCond_def putCondition_def find_put_other find_append split: option.split)

lemma putCondition_same: "findCond (c_Type c) (putCondition cs c) = Some c"
proof (cases "list_ex (\<lambda>d. c_Type d = c_Type c) cs")
  case True
  then show ?thesis by (simp add: findCond_def putCondition_def find_put_same)
next
  case False
  then have "find (\<lambda>d. c_Type d = c_Type c) cs = None"
    by (auto simp: find_None_iff list_ex_iff)
  then show ?thesis using False by (simp add: findCond_def putCondition_def find_append)
qed

lemma putCondition_docs: "setConditionDocs putCondition"
  unfolding setConditionDocs_def
proof (intro allI)
  fix cs c t
  show "case findCond t (putCondition cs c) of
      Some d \<Rightarrow> if t = c_Type c
                then c_Status d = c_Status c \<and> c_Reason d = c_Reason c \<and> c_Message d = c_Message c
                else findCond t cs = Some d
    | None \<Rightarrow> t \<noteq> c_Type c \<and> findCond t cs = None"
    by (cases "t = c_Type c") (auto simp: putCondition_same putCondition_other split: option.split)
qed

definition idleService :: service_status where
  "idleService = \<lparr>ss_RayClusterName = [], ss_Applications = None, ss_Endpoints = None,
     ss_HeadServiceName = [], ss_HeadServiceIP = [], ss_HeadPodName = []\<rparr>"

definition sampleReads :: ray_reads where
  "sampleReads = \<lparr>
     rr_service = \<lambda>_. Ok \<lparr>rv_ObservedGeneration = 1, rv_Conditions = [], rv_ServiceStatus = ''Running'',
        rv_Active = idleService, rv_Pending = idleService\<rparr>,
     rr_cluster = \<lambda>_. Ok \<lparr>rc_Conditions = [], rc_State = ''suspended''\<rparr>,
     rr_endpoints = \<lambda>_. Ok [1], rr_pods = \<lambda>_ _. Ok [], rr_statefulSet = \<lambda>_. Err (ApiErr NotFound []),
     rr_statefulSets = \<lambda>_ _. Ok [\<lparr>sts_Replicas = Some 2, sts_ReadyReplicas = 1, sts_Conditions = []\<rparr>,
        \<lparr>sts_Replicas = None, sts_ReadyReplicas = 1, sts_Conditions = []\<rparr>],
     rr_k8sService = \<lambda>_. Err (ApiErr NotFound [])\<rparr>"

lemma sampleSnapshot: "\<exists>sn. CollectRaySnapshot sampleReads ''ns'' ''p'' = Ok sn"
  by (simp add: CollectRaySnapshot_def sampleReads_def Let_def)

theorem normalized_conditions_correct_witness:
  "map_option c_Status (findCond ''Ready'' (ApplyNormalizedConditions putCondition 0 []
     ((newSnapshot ''p'')\<lparr>sn_ServiceReady := True, sn_HeadPodReady := True, sn_ServeServiceHasBackend := True\<rparr>))) =
   Some ''True''"
  using normalized_conditions_correct [OF putCondition_docs, where sn = "(newSnapshot ''p'')\<lparr>
     sn_ServiceReady := True, sn_HeadPodReady := True, sn_ServeServiceHasBackend := True\<rparr>" and now = 0 and cs = "[]"]
  by (simp add: rsReady_def clusterReady_def newSnapshot_def boolStatus_def)

theorem collected_never_ready_witness:
  "\<exists>sn. CollectRaySnapshot sampleReads ''ns'' ''p'' = Ok sn \<and>
     map_option c_Status (findCond ''Ready'' (ApplyNormalizedConditions putCondition 0 [] sn)) = Some ''False''"
  using collected_never_ready [OF putCondition_docs] sampleSnapshot by blast

theorem endpoint_lookup_order_independent_witness:
  "getEndpointURL (Some [(''Serve'', ''u''), (''dash'', ''v'')]) [''SERVE''] =
   getEndpointURL (Some [(''dash'', ''v''), (''Serve'', ''u'')]) [''SERVE'']"
proof -
  have "distinct (map (toLower \<circ> fst) [(''Serve'', ''u''), (''dash'', ''v'')])"
    "distinct (map (toLower \<circ> fst) [(''dash'', ''v''), (''Serve'', ''u'')])"
    by (simp_all add: toLower_def)
  from endpoint_lookup_order_independent [OF this] show ?thesis by auto
qed

theorem ray_errors_consistent_witness:
  "\<exists>d. ExtractRayErrors (\<lambda>m. if m = fmempty then None else Some ([], [])) sampleReads ''ns'' ''p'' = Ok d \<and>
     ed_HasError d \<and> ed_Summary d \<noteq> []"
proof -
  have first: "m \<noteq> fmempty \<Longrightarrow> (if m = fmempty then None else Some ([], [])) \<noteq> None"
    for m :: smap
    by simp
  obtain d where d: "ExtractRayErrors (\<lambda>m. if m = fmempty then None else Some ([], [])) sampleReads ''ns'' ''p'' = Ok d"
    "ed_ClusterErrors d \<noteq> []"
    by (simp add: ExtractRayErrors_def sampleReads_def Let_def gatherRayErrors_def checkApps_def idleService_def
        addServiceErrors_def addClusterErrors_def addPodErrors_def noRayErrors_def clusterErrors_def)
  show ?thesis
    using ray_errors_consistent [OF _ d(1)] d by auto
qed

theorem worker_replicas_sum_witness:
  "sumWorkerReplicas sampleReads ''ns'' ''c'' = Ok (2, 2)"
  using worker_replicas_sum [of sampleReads "''ns''" "''c''"
      "[\<lparr>sts_Replicas = Some 2, sts_ReadyReplicas = 1, sts_Conditions = []\<rparr>,
        \<lparr>sts_Replicas = None, sts_ReadyReplicas = 1, sts_Conditions = []\<rparr>]", OF _ refl]
  by (simp add: sampleReads_def)

end
