(* ===== verification/Workloads.thy ===== *)
theory Workloads
  imports KubeTypes
begin

text \<open>
  Pods and the objects that carry them: deployments, stateful sets and jobs, with the certificate
  and the service monitor that the reconcilers write beside them. A label selector is the map of
  its \<open>MatchLabels\<close>; protocols, probes' schemes and life-cycle hooks that every use sets to the
  same constant are left out.
\<close>

section \<open>Pods\<close>

datatype env_source =
    SecretKeyRef string string
  | ConfigMapKeyRef string string

record env_var =
  en_Name :: string
  en_Value :: string
  en_ValueFrom :: "env_source option"

definition envVar :: "string \<Rightarrow> string \<Rightarrow> env_var" where
  "envVar n v = \<lparr>en_Name = n, en_Value = v, en_ValueFrom = None\<rparr>"

definition envFromSource :: "string \<Rightarrow> env_source \<Rightarrow> env_var" where
  "envFromSource n src = \<lparr>en_Name = n, en_Value = [], en_ValueFrom = Some src\<rparr>"

lemma envVar_simps [simp]: "en_Name (envVar n v) = n" "en_Value (envVar n v) = v"
  "en_ValueFrom (envVar n v) = None" "en_Name (envFromSource n src) = n"
  "en_ValueFrom (envFromSource n src) = Some src"
  by (simp_all add: envVar_def envFromSource_def)

record container_port =
  cp_Name :: string
  cp_Port :: int32

record volume_mount =
  vm_Name :: string
  vm_MountPath :: string
  vm_ReadOnly :: bool

datatype volume_source =
    VolConfigMap string
  | VolSecret string
  | VolClaim string
  | VolEmptyDir

record volume =
  vo_Name :: string
  vo_Source :: volume_source

record probe =
  pr_Path :: string
  pr_Port :: int32
  pr_InitialDelaySeconds :: int32
  pr_PeriodSeconds :: int32
  pr_FailureThreshold :: int32

record container =
  co_Name :: string
  co_Image :: string
  co_PullPolicy :: string
  co_Command :: "string list"
  co_Args :: "string list"
  co_Ports :: "container_port list"
  co_Mounts :: "volume_mount list"
  co_Resources :: resource_requirements
  co_Env :: "env_var list"
  co_EnvFrom :: "string list"
  co_Liveness :: "probe option"
  co_Readiness :: "probe option"
  co_Startup :: "probe option"
  co_PreStop :: "string list"

definition zeroContainer :: container where
  "zeroContainer =
     \<lparr>co_Name = [], co_Image = [], co_PullPolicy = [], co_Command = [], co_Args = [],
      co_Ports = [], co_Mounts = [], co_Resources = \<lparr>rr_Requests = None, rr_Limits = None\<rparr>,
      co_Env = [], co_EnvFrom = [], co_Liveness = None, co_Readiness = None, co_Startup = None,
      co_PreStop = []\<rparr>"

record pod_spec =
  ps_RestartPolicy :: string
  ps_ServiceAccountName :: string
  ps_Containers :: "container list"
  ps_Volumes :: "volume list"
  ps_NodeSelector :: "smap option"
  ps_Tolerations :: "toleration list"
  ps_Affinity :: "affinity option"
  ps_ImagePullSecrets :: "string list"

definition zeroPodSpec :: pod_spec where
  "zeroPodSpec =
     \<lparr>ps_RestartPolicy = [], ps_ServiceAccountName = [], ps_Containers = [], ps_Volumes = [],
      ps_NodeSelector = None, ps_Tolerations = [], ps_Affinity = None, ps_ImagePullSecrets = []\<rparr>"

record pod_template =
  pt_Labels :: "smap option"
  pt_Annotations :: "smap option"
  pt_Spec :: pod_spec

definition zeroPodTemplate :: pod_template where
  "zeroPodTemplate = \<lparr>pt_Labels = None, pt_Annotations = None, pt_Spec = zeroPodSpec\<rparr>"

section \<open>Workloads\<close>

record deployment =
  dp_Meta :: objmeta
  dp_Replicas :: "int32 option"
  dp_Selector :: "smap option"
  dp_Template :: pod_template

definition newDeployment :: "string \<Rightarrow> string \<Rightarrow> deployment" where
  "newDeployment n ns =
     \<lparr>dp_Meta = newMeta n ns, dp_Replicas = None, dp_Selector = None, dp_Template = zeroPodTemplate\<rparr>"

record claim_template =
  ct_Name :: string
  ct_AccessModes :: "string list"
  ct_Size :: string
  ct_StorageClassName :: "string option"

record statefulset =
  sf_Meta :: objmeta
  sf_Replicas :: "int32 option"
  sf_Selector :: "smap option"
  sf_ServiceName :: string
  sf_Template :: pod_template
  sf_Claims :: "claim_template list"
  sf_ReadyReplicas :: int32

definition newStatefulSet :: "string \<Rightarrow> string \<Rightarrow> statefulset" where
  "newStatefulSet n ns =
     \<lparr>sf_Meta = newMeta n ns, sf_Replicas = None, sf_Selector = None, sf_ServiceName = [],
      sf_Template = zeroPodTemplate, sf_Claims = [], sf_ReadyReplicas = 0\<rparr>"

record job =
  jb_Meta :: objmeta
  jb_Template :: pod_template
  jb_Conditions :: "(string \<times> string) list"

record service_account =
  sa_Meta :: objmeta

record certificate =
  ce_Meta :: objmeta
  ce_SecretName :: string
  ce_IssuerRef :: issuer_ref
  ce_DNSNames :: "string list"
  ce_Usages :: "string list"
  ce_Conditions :: "(string \<times> string) list"

record service_monitor =
  sm_Meta :: objmeta
  sm_Selector :: smap
  sm_Endpoints :: "(string \<times> string \<times> string) list"

definition depKey :: "deployment \<Rightarrow> nname" where "depKey d = metaKey (dp_Meta d)"
definition stsKey :: "statefulset \<Rightarrow> nname" where "stsKey d = metaKey (sf_Meta d)"
definition jobKey :: "job \<Rightarrow> nname" where "jobKey d = metaKey (jb_Meta d)"
definition certKey :: "certificate \<Rightarrow> nname" where "certKey d = metaKey (ce_Meta d)"
definition svcKey :: "service \<Rightarrow> nname" where "svcKey d = metaKey (svc_Meta d)"

lemmas key_defs = depKey_def stsKey_def jobKey_def certKey_def svcKey_def cmKey_def metaKey_def

section \<open>Owner references\<close>

text \<open>
  \<open>controllerutil.SetControllerReference\<close> and \<open>SetOwnerReference\<close> are given by their effect on
  the object's metadata; by their documentation they only add an owner reference to the owner.
\<close>

type_synonym set_owner = "objmeta \<Rightarrow> objmeta \<Rightarrow> objmeta res"

definition setOwnerDocs :: "set_owner \<Rightarrow> bool" where
  "setOwnerDocs f \<longleftrightarrow>
     (\<forall>owner m m'. f owner m = Ok m' \<longrightarrow>
        m' = m\<lparr>om_OwnerReferences := om_OwnerReferences m'\<rparr> \<and>
        list_ex (\<lambda>r. ow_UID r = om_UID owner) (om_OwnerReferences m'))"

definition hasOwnerReference :: "objmeta \<Rightarrow> objmeta \<Rightarrow> bool" where
  "hasOwnerReference m owner = list_ex (\<lambda>r. ow_UID r = om_UID owner) (om_OwnerReferences m)"

lemma setOwnerDocsD:
  assumes "setOwnerDocs f" and "f owner m = Ok m'"
  shows "metaKey m' = metaKey m" "hasOwnerReference m' owner" "om_Labels m' = om_Labels m"
    "om_Annotations m' = om_Annotations m" "om_UID m' = om_UID m"
proof -
  have eq: "m' = m\<lparr>om_OwnerReferences := om_OwnerReferences m'\<rparr>"
    and own: "list_ex (\<lambda>r. ow_UID r = om_UID owner) (om_OwnerReferences m')"
    using assms unfolding setOwnerDocs_def by blast+
  show "hasOwnerReference m' owner" using own by (simp add: hasOwnerReference_def)
  show "metaKey m' = metaKey m" by (subst eq) (simp add: metaKey_def)
  show "om_Labels m' = om_Labels m" by (subst eq) simp
  show "om_Annotations m' = om_Annotations m" by (subst eq) simp
  show "om_UID m' = om_UID m" by (subst eq) simp
qed

text \<open>An implementation that behaves so, for the examples.\<close>

definition addOwner :: set_owner where
  "addOwner owner m = Ok (m\<lparr>om_OwnerReferences := om_OwnerReferences m @
     [\<lparr>ow_APIVersion = [], ow_Kind = [], ow_Name = om_Name owner, ow_UID = om_UID owner,
       ow_Controller = True\<rparr>]\<rparr>)"

lemma addOwner_docs: "setOwnerDocs addOwner"
  by (auto simp: setOwnerDocs_def addOwner_def)

section \<open>Maps built by ranging over another\<close>

text \<open>
  \<open>for k, v := range src { dst[k] = v }\<close>, also with a guard that skips keys. The result does not
  depend on the order of the range.
\<close>

definition overlay :: "smap \<Rightarrow> smap option \<Rightarrow> smap" where
  "overlay dst src = dst ++\<^sub>f entries src"

definition overlayIf :: "(string \<Rightarrow> bool) \<Rightarrow> smap \<Rightarrow> smap option \<Rightarrow> smap" where
  "overlayIf keep dst src = dst ++\<^sub>f fmfilter keep (entries src)"

lemma overlay_lookup:
  "fmlookup (overlay dst src) k =
     (case fmlookup (entries src) k of Some v \<Rightarrow> Some v | None \<Rightarrow> fmlookup dst k)"
  by (auto simp: overlay_def fmlookup_dom_iff split: option.splits)

lemma overlayIf_lookup:
  "fmlookup (overlayIf keep dst src) k =
     (case (if keep k then fmlookup (entries src) k else None) of
        Some v \<Rightarrow> Some v | None \<Rightarrow> fmlookup dst k)"
  by (auto simp: overlayIf_def fmlookup_dom_iff split: option.splits)

section \<open>Calls that report their failure\<close>

text \<open>
  The pattern \<open>if err := call(); err != nil { record an event; return a wrapped error }\<close>.
\<close>

definition onErr ::
  "(gerr \<Rightarrow> ('w, 'c, unit) act) \<Rightarrow> (gerr \<Rightarrow> gerr) \<Rightarrow> ('w, 'c, 'a) act \<Rightarrow> ('w, 'c, 'a) act" where
  "onErr h f m = tryA m (\<lambda>r. case r of
     Ok x \<Rightarrow> retA x
   | Err e \<Rightarrow> thenA (h e) (failA (f e))
   | Panic p \<Rightarrow> panicA p)"

definition warnA :: "string \<Rightarrow> string \<Rightarrow> ('w, 'c, unit) act" where
  "warnA reason msg = emitA EventWarning reason msg"

definition noteA :: "string \<Rightarrow> string \<Rightarrow> ('w, 'c, unit) act" where
  "noteA reason msg = emitA EventNormal reason msg"

definition getA :: "('w, 'o) client \<Rightarrow> nname \<Rightarrow> ('w, 'c, 'o) act" where
  "getA c k = readA (\<lambda>w. cGet c w k)"

definition createA :: "('w, 'o) client \<Rightarrow> 'o \<Rightarrow> ('w, 'c, 'o) act" where
  "createA c x = callA (\<lambda>w. cCreate c w x)"

definition updateA :: "('w, 'o) client \<Rightarrow> 'o \<Rightarrow> ('w, 'c, 'o) act" where
  "updateA c x = callA (\<lambda>w. cUpdate c w x)"

definition upsertA :: "('w, 'o) client \<Rightarrow> 'o \<Rightarrow> ('o \<Rightarrow> 'o res) \<Rightarrow> ('w, 'c, 'o) act" where
  "upsertA c x f = callA (\<lambda>w. cCreateOrUpdate c w x f)"

lemmas call_defs = getA_def createA_def updateA_def upsertA_def

text \<open>A call whose result object the code does not use afterwards.\<close>

definition dropA :: "('w, 'c, 'a) act \<Rightarrow> ('w, 'c, unit) act" where
  "dropA m = bindA m (\<lambda>_. retA ())"

lemma onErr_Ok_iff: "onErr h f m s = (Ok y, t) \<longleftrightarrow> m s = (Ok y, t)"
  by (auto simp: onErr_def tryA_def thenA_def bindA_def failA_def retA_def panicA_def
      split: prod.splits res.splits)

lemma dropA_Ok_iff: "dropA m s = (Ok y, t) \<longleftrightarrow> (\<exists>x. m s = (Ok x, t))"
  by (auto simp: dropA_def bindA_Ok_iff retA_def)

text \<open>Successful calls, seen from the cluster.\<close>

lemma readA_Ok_iff: "readA f s = (Ok x, t) \<longleftrightarrow> f (rs_world s) = Ok x \<and> t = s"
  by (auto simp: readA_def)

lemma callA_Ok_iff:
  "callA f s = (Ok x, t) \<longleftrightarrow> (\<exists>w. f (rs_world s) = (w, Ok x) \<and> t = s\<lparr>rs_world := w\<rparr>)"
  by (auto simp: callA_def split: prod.splits)

lemma liftA_Ok_iff: "liftA r s = (Ok x, t) \<longleftrightarrow> r = Ok x \<and> t = s"
  by (auto simp: liftA_def)

lemma getCR_Ok_iff: "getCR s = (Ok x, t) \<longleftrightarrow> x = rs_cr s \<and> t = s"
  by (auto simp: getCR_def)

lemma modCR_Ok_iff: "modCR f s = (Ok (), t) \<longleftrightarrow> t = s\<lparr>rs_cr := f (rs_cr s)\<rparr>"
  by (auto simp: modCR_def)

lemma retA_Ok_iff: "retA x s = (Ok y, t) \<longleftrightarrow> y = x \<and> t = s"
  by (auto simp: retA_def)

lemma failA_Ok_iff: "failA e s = (Ok y, t) \<longleftrightarrow> False"
  by (simp add: failA_def)

lemma emitA_Ok_iff: "emitA ty r m s = (Ok (), t) \<longleftrightarrow>
  t = s\<lparr>rs_events := rs_events s @ [\<lparr>ev_type = ty, ev_reason = r, ev_message = m\<rparr>]\<rparr>"
  by (auto simp: emitA_def)

lemmas act_Ok_iff =
  bindA_Ok_iff thenA_Ok_iff onErr_Ok_iff dropA_Ok_iff readA_Ok_iff callA_Ok_iff liftA_Ok_iff
  getCR_Ok_iff modCR_Ok_iff retA_Ok_iff failA_Ok_iff emitA_Ok_iff

section \<open>Status updates\<close>

text \<open>
  By the client's documentation, a successful status update is visible to a read of the same key,
  with the status as it was sent and the same key.
\<close>

definition statusVisible :: "('o \<Rightarrow> nname) \<Rightarrow> ('o \<Rightarrow> 'u) \<Rightarrow> ('w, 'o) client \<Rightarrow> bool" where
  "statusVisible key st c \<longleftrightarrow>
     (\<forall>w x w' y. cStatusUpdate c w x = (w', Ok y) \<longrightarrow>
        cGet c w' (key x) = Ok y \<and> key y = key x \<and> st y = st x)"

lemma memClient_status: "statusVisible key st (memClient key sel)"
  by (auto simp: statusVisible_def memClient_def memUpdate_def memGet_def find_map_replace
      split: if_splits)

end
