(* ===== verification/RayBuilder.thy ===== *)
theory RayBuilder
  imports ApiTypes Workloads Events RayStatus
begin

text \<open>
  The builder of the Ray cluster (\<open>pkg/ai/raybuilder/builder.go\<close>): the cluster specification with
  its head and worker groups, the RayService and the config map beside it, the autoscaler's RBAC,
  and the roll-up of Ray's state into the conditions of the platform. The YAML decoders, the
  template engine, \<open>resource.Quantity.String\<close> and the order of each range over a map are
  parameters, and so is the retry on conflicts. The builder's \<open>b.ai\<close> and the argument \<open>p\<close> of its methods are the same object.
\<close>

section \<open>Data\<close>

record ApplicationParams =
  pa_ArtifactBucketName :: string
  pa_CloudProvider :: string
  pa_Replicas :: "(string, int32) fmap"

text \<open>A map that the code ranges over is the list of its entries in the order of the range.\<close>

record InstanceDetail =
  id_Tier :: string
  id_GPUsPerPod :: int32
  id_Env :: "(string \<times> string) list"
  id_Resources :: resource_requirements

type_synonym WorkerConfigs = "(string, InstanceDetail list) fmap"

record FeatureConfig =
  fc_ApplicationScale :: "(string \<times> int32) list"
  fc_InstanceScale :: "(string, (string \<times> int32) list) fmap"

record WorkerGroupSpec =
  gr_GroupName :: string
  gr_Replicas :: int32
  gr_RayStartParams :: smap
  gr_Template :: pod_template

record HeadGroup =
  hd_RayStartParams :: smap
  hd_Service :: objmeta
  hd_Template :: pod_template

record RayClusterSpec =
  cl_RayVersion :: string
  cl_EnableInTreeAutoscaling :: bool
  cl_Head :: HeadGroup
  cl_Workers :: "WorkerGroupSpec list"

record rayservice =
  ry_Meta :: objmeta
  ry_Cluster :: "RayClusterSpec option"
  ry_ServeConfigV2 :: string

definition rayKey :: "rayservice \<Rightarrow> nname" where
  "rayKey r = metaKey (ry_Meta r)"

definition newRayService :: "string \<Rightarrow> string \<Rightarrow> rayservice" where
  "newRayService n ns = \<lparr>ry_Meta = newMeta n ns, ry_Cluster = None, ry_ServeConfigV2 = []\<rparr>"

record role =
  ro_Meta :: objmeta
  ro_Rules :: "(string list \<times> string list \<times> string list) list"

record role_binding =
  rb_Meta :: objmeta
  rb_RoleRef :: "string \<times> string \<times> string"
  rb_Subjects :: "(string \<times> string \<times> string) list"

text \<open>
  \<open>retry.RetryOnConflict\<close> runs a closure again while it reports a conflict. The object that the
  closure changes is passed from run to run, and a run gives it back with the closure's error.
\<close>

type_synonym ('w, 'c, 'o) attempt = "'o \<Rightarrow> ('w, 'c, 'o \<times> gerr option) act"

inductive attempts ::
  "('w, 'c, 'o) attempt \<Rightarrow> 'o \<Rightarrow> ('w, 'c) rstate \<Rightarrow> ('o \<times> gerr option) res \<Rightarrow> ('w, 'c) rstate \<Rightarrow> bool"
  for f x s where
  first: "f x s = (q, t) \<Longrightarrow> attempts f x s q t"
| again: "attempts f x s (Ok (y, Some e)) u \<Longrightarrow> f y u = (q, t) \<Longrightarrow> attempts f x s q t"

text \<open>
  By its documentation the state it leaves is that of the last run, and it returns nil only if that
  run did.
\<close>

definition retryDocs :: "(('w, 'c, 'o) attempt \<Rightarrow> 'o \<Rightarrow> ('w, 'c, unit) act) \<Rightarrow> bool" where
  "retryDocs retry \<longleftrightarrow> (\<forall>f x s r t. retry f x s = (r, t) \<longrightarrow>
     (\<exists>q. attempts f x s q t \<and> (r = Ok () \<longrightarrow> (\<exists>y. q = Ok (y, None)))))"

record 'w rayDeps =
  rd_getenv :: "string \<Rightarrow> string"
  rd_readFile :: "string \<Rightarrow> string res"
  rd_setRef :: set_owner
  rd_setOwner :: set_owner
  rd_retry :: "('w, AIPlatform, rayservice) attempt \<Rightarrow> rayservice \<Rightarrow> ('w, AIPlatform, unit) act"
  rd_rayservices :: "('w, rayservice) client"
  rd_configmaps :: "('w, configmap) client"
  rd_roles :: "('w, role) client"
  rd_bindings :: "('w, role_binding) client"
  rd_reads :: "'w \<Rightarrow> ray_reads"
  rd_parseInstances :: "string \<Rightarrow> WorkerConfigs res"
  rd_parseFeature :: "string \<Rightarrow> FeatureConfig res"
  rd_parseTemplate :: "string \<Rightarrow> (ApplicationParams \<Rightarrow> string res) res"
  rd_urlErr :: "string \<Rightarrow> gerr"
  rd_quantityText :: "string \<Rightarrow> string"
  rd_range :: "nat \<Rightarrow> smap \<Rightarrow> (string \<times> string) list"
  rd_setCondition :: set_condition
  rd_now :: nat

type_synonym ('w, 'a) plat = "('w, AIPlatform, 'a) act"

abbreviation plName :: "AIPlatform \<Rightarrow> string" where "plName p \<equiv> om_Name (p_Meta p)"
abbreviation plNamespace :: "AIPlatform \<Rightarrow> string" where "plNamespace p \<equiv> om_Namespace (p_Meta p)"

definition nilDeref :: string where
  "nilDeref = ''runtime error: invalid memory address or nil pointer dereference''"

section \<open>Annotations and labels\<close>

definition userKey :: "string \<Rightarrow> bool" where
  "userKey k \<longleftrightarrow> \<not> contains k ''last-applied-configuration''"

definition rayAnnotations :: "AIPlatform \<Rightarrow> smap \<Rightarrow> smap" where
  "rayAnnotations p m =
     (let m = overlayIf userKey m (om_Annotations (p_Meta p));
          m = m ++\<^sub>f fmap_of_list [(''prometheus.io/path'', ''/metrics''), (''prometheus.io/port'', ''8080''),
                (''prometheus.io/scheme'', ''http''), (''ray.io/overwrite-container-cmd'', ''true'')]
      in if sd_Otel (ap_Sidecars (p_Spec p))
         then m ++\<^sub>f fmap_of_list [(''sidecar.opentelemetry.io/inject'', plName p @ ''-otel-coll''),
                                (''sidecar.opentelemetry.io/auto-instrument'', ''true'')]
         else m)"

definition buildHeadAnnotationsAndLabels :: "AIPlatform \<Rightarrow> smap \<times> smap" where
  "buildHeadAnnotationsAndLabels p =
     (rayAnnotations p fmempty, overlayIf userKey fmempty (om_Labels (p_Meta p)))"

definition buildWorkerAnnotationsAndLabels :: "AIPlatform \<Rightarrow> InstanceDetail \<Rightarrow> smap \<times> smap" where
  "buildWorkerAnnotationsAndLabels p cfg =
     (let tier = fmap_of_list [(''gpu-tier'', id_Tier cfg)]
      in (rayAnnotations p tier, overlayIf userKey tier (om_Labels (p_Meta p))))"

section \<open>Pod templates\<close>

definition SetImageRegistry :: "(string \<Rightarrow> string) \<Rightarrow> string \<Rightarrow> string \<Rightarrow> string" where
  "SetImageRegistry getenv key defaultValue = (if getenv key \<noteq> [] then getenv key else defaultValue)"

definition headResources :: resource_requirements where
  "headResources =
     \<lparr>rr_Requests = Some (fmap_of_list [(''cpu'', ''1''), (''memory'', ''2Gi''),
        (''ephemeral-storage'', ''5Gi''), (''nvidia.com/gpu'', ''0'')]),
      rr_Limits = Some (fmap_of_list [(''cpu'', ''4''), (''memory'', ''8Gi''),
        (''ephemeral-storage'', ''10Gi''), (''nvidia.com/gpu'', ''0'')])\<rparr>"

definition rayLogsMount :: volume_mount where
  "rayLogsMount = \<lparr>vm_Name = ''ray-logs'', vm_MountPath = ''/tmp/ray'', vm_ReadOnly = False\<rparr>"

definition bashCommand :: "string list" where
  "bashCommand = [''/bin/bash'', ''-lc'', ''--'']"

definition rayStop :: "string list" where
  "rayStop = [''/bin/sh'', ''-c'', ''ray stop'']"

definition makeHeadTemplate :: "'w rayDeps \<Rightarrow> AIPlatform \<Rightarrow> pod_template res" where
  "makeHeadTemplate d p =
     (case ap_CPUSchedulingSpec (p_Spec p) of
        None \<Rightarrow> Panic nilDeref
      | Some sched \<Rightarrow>
          Ok (zeroPodTemplate\<lparr>pt_Spec := zeroPodSpec\<lparr>
            ps_Containers := [zeroContainer\<lparr>
              co_Name := ''ray-head'',
              co_Image := SetImageRegistry (rd_getenv d) ''RELATED_IMAGE_RAY_HEAD''
                            (im_RayHeadGroupImage (ap_Images (p_Spec p))),
              co_PullPolicy := ''Always'',
              co_Args := [''ulimit -n 65536; echo head; $KUBERAY_GEN_RAY_START_CMD''],
              co_Command := bashCommand,
              co_Env := [envVar ''DEFAULT_GPU_TYPE'' (ap_DefaultAcceleratorType (p_Spec p)),
                         envVar ''CLUSTER_NAME'' ''ai-platform-models''],
              co_PreStop := rayStop,
              co_Ports := [\<lparr>cp_Name = ''gcs-server'', cp_Port = 6379\<rparr>, \<lparr>cp_Name = ''dashboard'', cp_Port = 8265\<rparr>,
                           \<lparr>cp_Name = ''client'', cp_Port = 10001\<rparr>, \<lparr>cp_Name = ''serve'', cp_Port = 8000\<rparr>],
              co_Resources := headResources,
              co_Mounts := [rayLogsMount]\<rparr>],
            ps_NodeSelector := ss_NodeSelector sched,
            ps_Tolerations := ss_Tolerations sched,
            ps_Affinity := ss_Affinity sched,
            ps_ServiceAccountName := ap_ServiceAccountName (p_Spec p),
            ps_ImagePullSecrets := im_ImagePullSecrets (ap_Images (p_Spec p))\<rparr>\<rparr>))"

text \<open>Overriding the first variable of that name, or appending one: the inner loop with \<open>break\<close>.\<close>

fun setEnv :: "string \<Rightarrow> string \<Rightarrow> env_var list \<Rightarrow> env_var list" where
  "setEnv key value [] = [envVar key value]"
| "setEnv key value (e # es) =
     (if en_Name e = key then e\<lparr>en_Value := value\<rparr> # es else e # setEnv key value es)"

definition combineEnv :: "env_var list \<Rightarrow> (string \<times> string) list \<Rightarrow> env_var list" where
  "combineEnv defaults cfg = foldl (\<lambda>es (k, v). setEnv k v es) defaults cfg"

definition workerDefaultEnv :: "'w rayDeps \<Rightarrow> AIPlatform \<Rightarrow> env_var list" where
  "workerDefaultEnv d p =
     [envVar ''DEFAULT_GPU_TYPE'' (ap_DefaultAcceleratorType (p_Spec p)),
      envVar ''RAY_HEAD_SERVICE_HOST''
        (plName p @ ''-head-svc.'' @ plNamespace p @ ''.svc.'' @ rd_getenv d ''CLUSTER_DOMAIN''),
      envVar ''SERVICE_NAME'' (plName p),
      envVar ''SERVICE_INTERNAL_NAME'' (plName p),
      envVar ''USE_SYSTEM_PERMISSIONS'' ''true'',
      envVar ''GPG_PUBLICKEY_PATH'' ''kv-splunk/al-platform.ray-worker-sa/gpgkey'',
      envVar ''GPU_TYPE'' (ap_DefaultAcceleratorType (p_Spec p))]"

text \<open>The characters that a literal cannot hold: quotes, backslash, newline, tab.\<close>

definition rayCommand :: "string \<Rightarrow> string" where
  "rayCommand tier =
     (let nl = [CHR 0x0A]; q = [CHR 0x22]; a = [CHR 0x27]; b = [CHR 0x5C]; tab = [CHR 0x09]
      in ''echo '' @ tier @ '' worker;'' @ nl @
         ''        ulimit -n 65536;'' @ nl @
         ''    '' @ tab @ ''export PATH='' @ q @ ''/home/ray/anaconda3/bin:$PATH'' @ q @ '';'' @ nl @
         ''        KUBERAY_GEN_RAY_START_CMD=$(echo $KUBERAY_GEN_RAY_START_CMD | sed -e '' @
           a @ ''s/'' @ q @ ''{/{/g'' @ a @ '' -e '' @ a @ ''s/}'' @ q @ ''/}/g'' @ a @ '' -e '' @
           a @ ''s/'' @ b @ b @ b @ q @ ''/'' @ q @ ''/g'' @ a @ '');'' @ nl @
         ''        $KUBERAY_GEN_RAY_START_CMD;'')"

text \<open>
  The volumes are empty when the loop looks for \<open>ray-logs\<close>, so the volume is always added. The
  scheduling pointer is dereferenced before the worker group's.
\<close>

definition makeWorkerTemplate :: "'w rayDeps \<Rightarrow> AIPlatform \<Rightarrow> InstanceDetail \<Rightarrow> pod_template res" where
  "makeWorkerTemplate d p cfg =
     (case (ap_GPUSchedulingSpec (p_Spec p), ap_WorkerGroupConfig (p_Spec p)) of
        (Some sched, Some wg) \<Rightarrow>
          Ok (zeroPodTemplate\<lparr>pt_Spec := zeroPodSpec\<lparr>
            ps_Affinity := ss_Affinity sched,
            ps_Tolerations := ss_Tolerations sched,
            ps_NodeSelector := ss_NodeSelector sched,
            ps_ServiceAccountName := wg_ServiceAccountName wg,
            ps_Containers := [zeroContainer\<lparr>
              co_Name := ''ray-worker'',
              co_Image := SetImageRegistry (rd_getenv d) ''RELATED_IMAGE_RAY_WORKER'' (wg_ImageRegistry wg),
              co_PullPolicy := ''Always'',
              co_Command := bashCommand,
              co_Args := [rayCommand (id_Tier cfg)],
              co_Env := combineEnv (workerDefaultEnv d p) (id_Env cfg),
              co_PreStop := rayStop,
              co_Resources := id_Resources cfg,
              co_Mounts := [rayLogsMount],
              co_Ports := [\<lparr>cp_Name = ''metrics'', cp_Port = 8080\<rparr>]\<rparr>],
            ps_ImagePullSecrets := im_ImagePullSecrets (ap_Images (p_Spec p)),
            ps_Volumes := [\<lparr>vo_Name = ''ray-logs'', vo_Source = VolEmptyDir\<rparr>]\<rparr>\<rparr>)
      | _ \<Rightarrow> Panic nilDeref)"

section \<open>The cluster\<close>

definition addScale :: "(string, int32) fmap \<Rightarrow> (string \<times> int32) list \<Rightarrow> (string, int32) fmap" where
  "addScale m xs = foldl (\<lambda>m (k, v).
     fmupd k (case fmlookup m k of Some old \<Rightarrow> old + v | None \<Rightarrow> v) m) m xs"

fun instanceScale :: "'w rayDeps \<Rightarrow> string \<Rightarrow> FeatureSpec list \<Rightarrow> (string, int32) fmap \<Rightarrow> (string, int32) fmap res" where
  "instanceScale d accel [] m = Ok m"
| "instanceScale d accel (f # fs) m =
     (let fileName = pathJoin [''features'', fs_Name f @ ''.yaml'']
      in case rd_readFile d fileName of
           Err e \<Rightarrow> Err (Errorf (''failed to read feature YAML file '' @ fs_Name f @ '': '' @ errText e))
         | Panic x \<Rightarrow> Panic x
         | Ok y \<Rightarrow>
             (case rd_parseFeature d y of
                Err e \<Rightarrow> Err (Errorf (''failed to parse feature YAML file '' @ fileName @ '': '' @ errText e))
              | Panic x \<Rightarrow> Panic x
              | Ok fc \<Rightarrow> instanceScale d accel fs
                  (addScale m (case fmlookup (fc_InstanceScale fc) accel of Some xs \<Rightarrow> xs | None \<Rightarrow> []))))"

definition startResources :: "string \<Rightarrow> int32 \<Rightarrow> string" where
  "startResources accel gpus =
     (let q = [CHR 0x22]; bq = [CHR 0x5C, CHR 0x22]
      in q @ ''{'' @ bq @ ''accelerator_type:'' @ accel @ bq @ '':1,'' @
         bq @ ''gpu_count:'' @ itoa (sint gpus) @ bq @ '':1}'' @ q)"

definition cpuLimitText :: "'w rayDeps \<Rightarrow> InstanceDetail \<Rightarrow> string" where
  "cpuLimitText d cfg =
     (case fmlookup (entries (rr_Limits (id_Resources cfg))) ''cpu'' of
        Some q \<Rightarrow> rd_quantityText d q | None \<Rightarrow> ''0'')"

text \<open>A tier without a scale reads the zero of the map: no replicas.\<close>

definition workerGroup ::
  "'w rayDeps \<Rightarrow> AIPlatform \<Rightarrow> (string, int32) fmap \<Rightarrow> InstanceDetail \<Rightarrow> WorkerGroupSpec res" where
  "workerGroup d p scale cfg =
     (case buildWorkerAnnotationsAndLabels p cfg of (annotations, labels) \<Rightarrow>
        bindR (makeWorkerTemplate d p cfg) (\<lambda>tpl.
          Ok \<lparr>gr_GroupName = id_Tier cfg,
              gr_Replicas = (case fmlookup scale (id_Tier cfg) of Some n \<Rightarrow> n | None \<Rightarrow> 0),
              gr_RayStartParams = fmap_of_list [(''num-cpus'', cpuLimitText d cfg),
                (''resources'', startResources (ap_DefaultAcceleratorType (p_Spec p)) (id_GPUsPerPod cfg))],
              gr_Template = \<lparr>pt_Labels = Some labels, pt_Annotations = Some annotations, pt_Spec = pt_Spec tpl\<rparr>\<rparr>))"

fun workerGroups ::
  "'w rayDeps \<Rightarrow> AIPlatform \<Rightarrow> (string, int32) fmap \<Rightarrow> InstanceDetail list \<Rightarrow> WorkerGroupSpec list res" where
  "workerGroups d p scale [] = Ok []"
| "workerGroups d p scale (cfg # cfgs) =
     bindR (workerGroup d p scale cfg) (\<lambda>g. bindR (workerGroups d p scale cfgs) (\<lambda>gs. Ok (g # gs)))"

definition buildClusterConfig :: "'w rayDeps \<Rightarrow> AIPlatform \<Rightarrow> RayClusterSpec res" where
  "buildClusterConfig d p =
     (case buildHeadAnnotationsAndLabels p of (annotations, labels) \<Rightarrow>
      bindR (makeHeadTemplate d p) (\<lambda>tpl.
      let yamlErr = (\<lambda>e. Errorf (''error reading YAML file: '' @ errText e));
          accel = ap_DefaultAcceleratorType (p_Spec p);
          instanceFile = (if rd_getenv d ''INSTANCE_FILE'' = [] then ''instance.yaml''
                          else rd_getenv d ''INSTANCE_FILE'')
      in
      bindR (mapErr yamlErr (rd_readFile d instanceFile)) (\<lambda>file.
      bindR (mapErr yamlErr (rd_parseInstances d file)) (\<lambda>instanceMap.
      bindR (instanceScale d accel (ap_Features (p_Spec p)) fmempty) (\<lambda>scale.
      bindR (workerGroups d p scale
               (case fmlookup instanceMap accel of Some cfgs \<Rightarrow> cfgs | None \<Rightarrow> [])) (\<lambda>workers.
        Ok \<lparr>cl_RayVersion = rd_getenv d ''RAY_VERSION'', cl_EnableInTreeAutoscaling = True,
            cl_Head =
              \<lparr>hd_RayStartParams = fmap_of_list [(''dashboard-host'', ''0.0.0.0''), (''num-cpus'', ''0'')],
               hd_Service = (newMeta (plName p @ ''-head-svc'') (plNamespace p))
                 \<lparr>om_Annotations := Some annotations, om_Labels := Some labels\<rparr>,
               hd_Template = tpl\<lparr>pt_Annotations := Some annotations, pt_Labels := Some labels\<rparr>\<rparr>,
            cl_Workers = workers\<rparr>))))))"

definition Build :: "'w rayDeps \<Rightarrow> AIPlatform \<Rightarrow> rayservice res" where
  "Build d p =
     bindR (mapErr (Wrapf ''failed to build cluster config: '') (buildClusterConfig d p)) (\<lambda>c.
       Ok \<lparr>ry_Meta = (newMeta (plName p) (plNamespace p))\<lparr>om_Annotations := om_Annotations (p_Meta p),
                                                         om_Labels := om_Labels (p_Meta p)\<rparr>,
           ry_Cluster = Some c, ry_ServeConfigV2 = []\<rparr>)"

text \<open>Templates carry no creation time in the model, so only the head service is left to clean.\<close>

definition cleanServiceMetadata :: "objmeta \<Rightarrow> objmeta" where
  "cleanServiceMetadata m = m\<lparr>om_CreationTimestamp := 0, om_DeletionTimestamp := None,
     om_DeletionGracePeriodSeconds := None, om_UID := [], om_ResourceVersion := [],
     om_Generation := 0, om_SelfLink := [], om_ManagedFields := []\<rparr>"

definition cleanRayServiceSpec :: "RayClusterSpec \<Rightarrow> RayClusterSpec" where
  "cleanRayServiceSpec c =
     c\<lparr>cl_Head := (cl_Head c)\<lparr>hd_Service := cleanServiceMetadata (hd_Service (cl_Head c))\<rparr>\<rparr>"

section \<open>ReconcileRayService\<close>

definition cloudProvider :: "string \<Rightarrow> string" where
  "cloudProvider scheme =
     (if scheme = ''s3'' then ''aws'' else if scheme = ''gs'' then ''gcp'' else ''azure'')"

text \<open>
  A feature whose file cannot be read or parsed is skipped. The product wraps around, and the
  last feature to name an application wins.
\<close>

definition featureMultiplier :: "FeatureSpec \<Rightarrow> int32" where
  "featureMultiplier f = (case fs_ScaleFactor f of Some n \<Rightarrow> n | None \<Rightarrow> 1)"

definition addReplicaProducts ::
  "FeatureSpec \<Rightarrow> FeatureConfig \<Rightarrow> (string, int32) fmap \<Rightarrow> (string, int32) fmap" where
  "addReplicaProducts f fc m =
     foldl (\<lambda>m (app, base). fmupd app (base * featureMultiplier f) m) m (fc_ApplicationScale fc)"

fun replicasMap :: "'w rayDeps \<Rightarrow> FeatureSpec list \<Rightarrow> (string, int32) fmap \<Rightarrow> (string, int32) fmap" where
  "replicasMap d [] m = m"
| "replicasMap d (f # fs) m =
     replicasMap d fs
       (case rd_readFile d (pathJoin [''features'', fs_Name f @ ''.yaml'']) of
          Ok y \<Rightarrow> (case rd_parseFeature d y of Ok fc \<Rightarrow> addReplicaProducts f fc m | _ \<Rightarrow> m)
        | _ \<Rightarrow> m)"

text \<open>The error of \<open>SetOwnerReference\<close> is dropped: the object is then written as it was.\<close>

definition withOwner :: "'w rayDeps \<Rightarrow> AIPlatform \<Rightarrow> rayservice \<Rightarrow> rayservice" where
  "withOwner d p r =
     (case rd_setOwner d (p_Meta p) (ry_Meta r) of Ok m \<Rightarrow> r\<lparr>ry_Meta := m\<rparr> | _ \<Rightarrow> r)"

definition asResult :: "'o \<Rightarrow> ('w, 'c, unit) act \<Rightarrow> ('w, 'c, 'o \<times> gerr option) act" where
  "asResult x m = tryA m (\<lambda>r. case r of
     Ok _ \<Rightarrow> retA (x, None) | Err e \<Rightarrow> retA (x, Some e) | Panic p \<Rightarrow> panicA p)"

definition writeRayService ::
  "'w rayDeps \<Rightarrow> AIPlatform \<Rightarrow> RayClusterSpec \<Rightarrow> string \<Rightarrow> rayservice \<Rightarrow> ('w, rayservice \<times> gerr option) plat" where
  "writeRayService d p c conf fresh =
     tryA (getA (rd_rayservices d) (rayKey fresh)) (\<lambda>current. case current of
       Ok cur \<Rightarrow>
         asResult fresh (dropA (updateA (rd_rayservices d)
           (withOwner d p (cur\<lparr>ry_Cluster := Some c, ry_ServeConfigV2 := conf\<rparr>))))
     | Panic x \<Rightarrow> panicA x
     | Err e \<Rightarrow>
         if isNotFound e then
           thenA (noteA ''RayServiceCreating'' ''Creating RayService resource'')
             (asResult (withOwner d p fresh)
               (thenA (dropA (createA (rd_rayservices d) (withOwner d p fresh)))
                  (noteA ''RayServiceCreated'' ''RayService resource created successfully'')))
         else
           thenA (warnA ''ReconcileFailed'' (''Failed to reconcile RayService '' @ errText e))
             (retA (fresh, Some e)))"

definition serveDebugMap :: "'w rayDeps \<Rightarrow> AIPlatform \<Rightarrow> string \<Rightarrow> string \<Rightarrow> string \<Rightarrow> configmap \<Rightarrow> configmap res" where
  "serveDebugMap d p conf provider bucket cm =
     bindR (rd_setRef d (p_Meta p) (cm_Meta cm)) (\<lambda>m.
       Ok \<lparr>cm_Meta = m, cm_Data = Some (entries (cm_Data cm) ++\<^sub>f fmap_of_list
         [(''serve-config.yaml'', conf), (''cloud-provider'', provider), (''artifact-bucket'', bucket)])\<rparr>)"

text \<open>The serve configuration: the template of the application file filled in.\<close>

definition renderServeConfig :: "'w rayDeps \<Rightarrow> AIPlatform \<Rightarrow> url \<Rightarrow> string res" where
  "renderServeConfig d p u =
     (let file = (if rd_getenv d ''APPLICATION_FILE'' = [] then ''applications.yaml''
                  else rd_getenv d ''APPLICATION_FILE'')
      in bindR (rd_readFile d file) (\<lambda>text.
         bindR (rd_parseTemplate d text) (\<lambda>execute.
           execute \<lparr>pa_ArtifactBucketName = u_Host u, pa_CloudProvider = cloudProvider (u_Scheme u),
                    pa_Replicas = replicasMap d (ap_Features (p_Spec p)) fmempty\<rparr>)))"

definition ReconcileRayService :: "'w rayDeps \<Rightarrow> ('w, unit) plat" where
  "ReconcileRayService d = bindA getCR (\<lambda>p.
     bindA (liftA (Build d p)) (\<lambda>rs.
     bindA (liftA (case urlParse (os_Path (ap_ObjectStorage (p_Spec p))) of
                     Some u \<Rightarrow> Ok u | None \<Rightarrow> Err (rd_urlErr d (os_Path (ap_ObjectStorage (p_Spec p)))))) (\<lambda>u.
     bindA (liftA (renderServeConfig d p u)) (\<lambda>conf.
     tryA (getA (rd_rayservices d) (plNamespace p, plName p)) (\<lambda>found.
       let empty = newRayService (plName p) (plNamespace p);
           rayService = (case found of
               Ok cur \<Rightarrow> cur
             | Err e \<Rightarrow> (if isNotFound e
                 then (case buildHeadAnnotationsAndLabels p of (annotations, labels) \<Rightarrow>
                   empty\<lparr>ry_Meta := (ry_Meta empty)\<lparr>om_Annotations := Some annotations, om_Labels := Some labels\<rparr>\<rparr>)
                 else empty)
             | Panic x \<Rightarrow> empty)
       in tryA (dropA (upsertA (rd_configmaps d)
                 \<lparr>cm_Meta = newMeta (plName p @ ''-serve-config'') (plNamespace p), cm_Data = None\<rparr>
                 (serveDebugMap d p conf (cloudProvider (u_Scheme u)) (u_Host u)))) (\<lambda>_.
            case ry_Cluster rs of
              Some c \<Rightarrow>
                (let c' = cleanRayServiceSpec c
                 in rd_retry d (writeRayService d p c' conf)
                      (rayService\<lparr>ry_Cluster := Some c', ry_ServeConfigV2 := conf\<rparr>))
            | None \<Rightarrow> panicA nilDeref))))))"

section \<open>Autoscaler RBAC\<close>

definition autoscalerRules :: "(string list \<times> string list \<times> string list) list" where
  "autoscalerRules =
     [([''ray.io''], [''rayclusters'', ''rayservices'', ''rayjobs''],
       [''get'', ''list'', ''watch'', ''patch'', ''update'', ''delete''])]"

definition mutateRole :: "'w rayDeps \<Rightarrow> AIPlatform \<Rightarrow> role \<Rightarrow> role res" where
  "mutateRole d p r = bindR (rd_setOwner d (p_Meta p) (ro_Meta r)) (\<lambda>m.
     Ok \<lparr>ro_Meta = m, ro_Rules = autoscalerRules\<rparr>)"

definition mutateBinding :: "'w rayDeps \<Rightarrow> AIPlatform \<Rightarrow> string \<Rightarrow> role_binding \<Rightarrow> role_binding res" where
  "mutateBinding d p saName b = bindR (rd_setOwner d (p_Meta p) (rb_Meta b)) (\<lambda>m.
     Ok \<lparr>rb_Meta = m,
         rb_RoleRef = (if snd (snd (rb_RoleRef b)) = []
                       then (''rbac.authorization.k8s.io'', ''Role'', ''ray-autoscaler'') else rb_RoleRef b),
         rb_Subjects = [(''ServiceAccount'', saName, plNamespace p)]\<rparr>)"

definition ReconcileRayAutoscalerRBAC :: "'w rayDeps \<Rightarrow> ('w, unit) plat" where
  "ReconcileRayAutoscalerRBAC d = bindA getCR (\<lambda>p.
     let saName = ap_ServiceAccountName (p_Spec p)
     in whenA (saName \<noteq> [])
       (thenA (wrapA (Wrapf ''failed to create/update Role: '')
                 (dropA (upsertA (rd_roles d)
                    \<lparr>ro_Meta = newMeta ''ray-autoscaler'' (plNamespace p), ro_Rules = []\<rparr> (mutateRole d p))))
          (wrapA (Wrapf ''failed to create/update RoleBinding: '')
             (dropA (upsertA (rd_bindings d)
                \<lparr>rb_Meta = newMeta (''ray-autoscaler-binding-'' @ plNamespace p @ ''-'' @ saName) (plNamespace p),
                 rb_RoleRef = ([], [], []), rb_Subjects = []\<rparr> (mutateBinding d p saName))))))"


section \<open>Rolling up the state of Ray\<close>

definition setConds :: "'w rayDeps \<Rightarrow> condition list \<Rightarrow> ('w, unit) plat" where
  "setConds d cs = modCR (\<lambda>p. p\<lparr>p_Status := (p_Status p)\<lparr>
     aps_Conditions := foldl (rd_setCondition d) (aps_Conditions (p_Status p)) cs\<rparr>\<rparr>)"

text \<open>
  An event on a change of the condition \<open>t\<close>, and then the condition: the previous status is read
  before it is overwritten.
\<close>

definition transition ::
  "'w rayDeps \<Rightarrow> string \<Rightarrow> bool \<Rightarrow> string \<times> string \<Rightarrow> string \<times> string \<Rightarrow> condition \<Rightarrow> ('w, unit) plat" where
  "transition d t ready up down c = bindA getCR (\<lambda>p.
     let prev = firstStatus (aps_Conditions (p_Status p)) t
     in thenA (if ready \<and> prev \<noteq> ConditionTrue then noteA (fst up) (snd up)
               else whenA (\<not> ready \<and> prev = ConditionTrue) (warnA (fst down) (snd down)))
          (setConds d [c]))"

definition snapshotFailed :: "'w rayDeps \<Rightarrow> gerr \<Rightarrow> ('w, unit) plat" where
  "snapshotFailed d e =
     (let msg = ''Failed to collect Ray snapshot: '' @ errText e
      in thenA (setConds d [mkCond (rd_now d) ''RayServiceReady'' ''RayServiceFetchError'' msg False,
                            mkCond (rd_now d) ''Ready'' ''RayUnhealthy'' msg False])
          (thenA (warnA ''RayServiceError'' (''Failed to get Ray status: '' @ errText e)) (failA e)))"

text \<open>The events for Ray errors. Site 0 is the range inside the summary, 1 to 3 those here.\<close>

definition firstEntry :: "'w rayDeps \<Rightarrow> nat \<Rightarrow> smap \<Rightarrow> (string \<times> string) option" where
  "firstEntry d site m = (case rd_range d site m of [] \<Rightarrow> None | x # _ \<Rightarrow> Some x)"

definition rayErrorEvents :: "'w rayDeps \<Rightarrow> RayErrorDetails \<Rightarrow> ('w, unit) plat" where
  "rayErrorEvents d e =
     whenA (ed_HasError e)
       (thenA (warnA ''RayComponentErrors'' (ed_Summary e))
         (let apps = ed_ApplicationErrors e; n = size (fmdom apps)
          in if n = 1 then
               (case firstEntry d 1 apps of
                  Some (a, m) \<Rightarrow> warnA ''RayApplicationError'' (''Application '' @ a @ '': '' @ m)
                | None \<Rightarrow> retA ())
             else whenA (n > 1)
               (warnA ''RayApplicationErrors''
                  (itoa (int n) @ '' applications failing: '' @ sliceText (map fst (take 3 (rd_range d 2 apps))) @
                   '' (see logs for details)''))))"

definition serviceMessage :: "RaySnapshot \<Rightarrow> RayErrorDetails \<Rightarrow> string" where
  "serviceMessage sn e =
     (case (if \<not> rsReady sn \<and> ed_HasError e then ed_ServiceErrors e else []) of
        m # _ \<Rightarrow> m
      | [] \<Rightarrow> ''UpgradeInProgress='' @ boolText (sn_UpgradeInProgress sn))"

definition clusterMessage :: "RaySnapshot \<Rightarrow> RayErrorDetails \<Rightarrow> string" where
  "clusterMessage sn e =
     (let base = ''workers '' @ itoa (sint (sn_AvailableWorkerReplicas sn)) @ ''/'' @
            itoa (sint (sn_DesiredWorkerReplicas sn)) @ '' headReady='' @ boolText (sn_HeadPodReady sn)
      in case (if \<not> clusterReady sn \<and> ed_HasError e then ed_ClusterErrors e else []) of
           m # _ \<Rightarrow> base @ ''; '' @ m
         | [] \<Rightarrow> base)"

definition serveMessage :: "'w rayDeps \<Rightarrow> RaySnapshot \<Rightarrow> RayErrorDetails \<Rightarrow> string" where
  "serveMessage d sn e =
     (let base = ''service='' @ sn_ServeServiceName sn @ '' backed='' @ boolText (sn_ServeServiceHasBackend sn)
      in case (if \<not> sn_ServeServiceHasBackend sn \<and> ed_HasError e
               then firstEntry d 3 (ed_ApplicationErrors e) else None) of
           Some (_, m) \<Rightarrow> base @ ''; '' @ m
         | None \<Rightarrow> base)"

definition rollupReady :: "RaySnapshot \<Rightarrow> bool \<Rightarrow> bool" where
  "rollupReady sn weaviateReady \<longleftrightarrow> platformReady sn \<and> weaviateReady"

definition failedComponents :: "RaySnapshot \<Rightarrow> bool \<Rightarrow> string list" where
  "failedComponents sn weaviateReady =
     (if rsReady sn then [] else [''RayService'']) @
     (if clusterReady sn then [] else [''RayCluster'']) @
     (if sn_ServeServiceHasBackend sn then [] else [''RayServe'']) @
     (if weaviateReady then [] else [''Weaviate''])"

definition recordSnapshot :: "RaySnapshot \<Rightarrow> AIPlatformStatus \<Rightarrow> AIPlatformStatus" where
  "recordSnapshot sn st =
     (if sn_HeadServiceName sn \<noteq> [] then st\<lparr>aps_RayServiceName := sn_HeadServiceName sn\<rparr> else st)
       \<lparr>aps_RayServiceStatus := (if rsReady sn then ''Running'' else ''Pending'')\<rparr>"

definition rayTransitions :: "'w rayDeps \<Rightarrow> RaySnapshot \<Rightarrow> RayErrorDetails \<Rightarrow> ('w, unit) plat" where
  "rayTransitions d sn e =
     (let now = rd_now d; keys = map fst (case sn_EndpointMap sn of Some m \<Rightarrow> m | None \<Rightarrow> [])
      in
      thenA (transition d ''RayServiceReady'' (rsReady sn)
               (''RayServiceReady'', ''RayService is ready and running'')
               (''RayServiceNotReady'', serviceMessage sn e)
               (mkCond now ''RayServiceReady'' (if rsReady sn then ''Ready'' else ''NotReady'')
                  (serviceMessage sn e) (rsReady sn)))
      (thenA (setConds d
         [mkCond now ''RayServiceUpgradeInProgress'' (if sn_UpgradeInProgress sn then ''Upgrading'' else ''Idle'')
            ''Zero-downtime upgrade status as reported by KubeRay'' (sn_UpgradeInProgress sn),
          mkCond now ''RayEndpointsDiscovered'' (if keys \<noteq> [] then ''Found'' else ''Missing'')
            (''keys='' @ sliceText keys) (keys \<noteq> [])])
      (thenA (transition d ''RayClusterReady'' (clusterReady sn)
               (''RayClusterReady'', ''Ray cluster pods are ready'')
               (''RayClusterNotReady'', clusterMessage sn e)
               (mkCond now ''RayClusterReady'' (if clusterReady sn then ''AllPodsReady'' else ''PodsNotReady'')
                  (clusterMessage sn e) (clusterReady sn)))
      (transition d ''RayServeRouteReady'' (sn_ServeServiceHasBackend sn)
               (''RayServeReady'', ''Ray Serve applications are ready'')
               (''RayServeNotReady'', serveMessage d sn e)
               (mkCond now ''RayServeRouteReady''
                  (if sn_ServeServiceHasBackend sn then ''EndpointsAvailable'' else ''NoEndpoints'')
                  (serveMessage d sn e) (sn_ServeServiceHasBackend sn))))))"

definition rollup :: "'w rayDeps \<Rightarrow> RaySnapshot \<Rightarrow> WeaviateErrorDetails \<Rightarrow> ('w, unit) plat" where
  "rollup d sn we =
     (let now = rd_now d; ready = \<not> wd_HasError we; all = rollupReady sn ready;
          msg = (if all then ''All components healthy: Ray, RayServe, and Weaviate''
                 else ''Degraded components: '' @ sliceText (failedComponents sn ready))
      in
      thenA (transition d ''WeaviateDatabaseReady'' ready
               (''WeaviateReady'', ''Weaviate database is ready'')
               (''WeaviateNotReady'', wd_Summary we)
               (mkCond now ''WeaviateDatabaseReady'' (if ready then ''Ready'' else ''NotReady'')
                  (if ready then ''Weaviate database is running'' else wd_Summary we) ready))
      (transition d ''Ready'' all
               (''PlatformReady'', ''AI Platform is fully ready'')
               (''PlatformDegraded'', ''Platform degraded: '' @ msg)
               (mkCond now ''Ready'' (if all then ''AllHealthy'' else ''Degraded'') msg all)))"

definition BuilderApplyConditions :: "'w rayDeps \<Rightarrow> ('w, unit) plat" where
  "BuilderApplyConditions d s =
     (let p = rs_cr s; reads = rd_reads d (rs_world s); ns = plNamespace p; name = plName p
      in case CollectRaySnapshot reads ns name of
           Panic x \<Rightarrow> (Panic x, s)
         | Err e \<Rightarrow> snapshotFailed d e s
         | Ok sn \<Rightarrow>
             (case ExtractRayErrors (firstEntry d 0) reads ns name of
                Ok e \<Rightarrow>
                  thenA (rayErrorEvents d e)
                  (thenA (modCR (\<lambda>p. p\<lparr>p_Status := recordSnapshot sn (p_Status p)\<rparr>))
                  (thenA (rayTransitions d sn e)
                  (bindA (liftA (ExtractWeaviateErrors reads ns name)) (rollup d sn)))) s
              | Err e \<Rightarrow> (Err e, s)
              | Panic x \<Rightarrow> (Panic x, s)))"


end
