(* ===== verification/Sidecars.thy ===== *)
theory Sidecars
  imports RayBuilder
begin

text \<open>
  The sidecars of a platform (\<open>pkg/ai/sidecars\<close>): the Envoy and OpenTelemetry config maps, the
  collector, the Prometheus rule and the pod monitors. The last three are unstructured objects;
  their specifications are built from typed Go maps and slices, which matters when they are
  compared with what the API server returns. The YAML and JSON codecs are parameters. The builder's
  \<open>s.ai\<close> and the argument \<open>p\<close> of its methods are the same object.
\<close>

section \<open>Unstructured objects\<close>

text \<open>
  A Go \<open>interface{}\<close>. The constructors from \<open>UMaps\<close> on are the types \<open>[]map[string]interface{}\<close>,
  \<open>[]string\<close> and \<open>map[string]string\<close>, which a JSON decoder never produces.
\<close>

datatype uval =
    UStr string | UBool bool | UInt int
  | UMap "(string, uval) fmap"
  | UList "uval list"
  | UMaps "(string, uval) fmap list"
  | UStrings "string list"
  | UStringMap "(string, string) fmap"

abbreviation umap :: "(string \<times> uval) list \<Rightarrow> uval" where
  "umap kvs \<equiv> UMap (fmap_of_list kvs)"

abbreviation umaps :: "(string \<times> uval) list list \<Rightarrow> uval" where
  "umaps ms \<equiv> UMaps (map fmap_of_list ms)"

abbreviation ustrings :: "(string \<times> string) list \<Rightarrow> uval" where
  "ustrings kvs \<equiv> UStringMap (fmap_of_list kvs)"

record unstructured =
  un_Meta :: objmeta
  un_Spec :: "uval option"

definition unKey :: "unstructured \<Rightarrow> nname" where
  "unKey u = metaKey (un_Meta u)"

definition newUnstructured :: "string \<Rightarrow> string \<Rightarrow> unstructured" where
  "newUnstructured n ns = \<lparr>un_Meta = newMeta n ns, un_Spec = None\<rparr>"

record 'w sidecarDeps =
  si_configmaps :: "('w, configmap) client"
  si_collectors :: "('w, unstructured) client"
  si_monitors :: "('w, unstructured) client"
  si_rules :: "('w, unstructured) client"
  si_secret :: "'w \<Rightarrow> nname \<Rightarrow> secret res"
  si_setRef :: set_owner
  si_setOwner :: set_owner
  si_lookupEnv :: "string \<Rightarrow> string option"
  si_marshal :: "uval \<Rightarrow> string res"
  si_yamlToJSON :: "string \<Rightarrow> string res"
  si_unmarshal :: "string \<Rightarrow> (string, uval) fmap res"

text \<open>
  A Go raw string: the literals of this theory write a backquote, which it cannot hold, for a
  double quote, and a caret for an apostrophe.
\<close>

definition raw :: "string \<Rightarrow> string" where
  "raw s = map (\<lambda>c. if c = CHR 0x60 then CHR 0x22 else if c = CHR 0x5E then CHR 0x27 else c) s"

section \<open>Envoy\<close>

definition envoyLines :: "string list" where
  "envoyLines =
    ['''',
     ''    static_resources:'',
     ''      clusters:'',
     ''        - name: sais_backend'',
     ''          connect_timeout: 0.25s'',
     ''          type: STRICT_DNS'',
     ''          lb_policy: ROUND_ROBIN'',
     ''          load_assignment:'',
     ''            cluster_name: sais_backend'',
     ''            endpoints:'',
     ''              - lb_endpoints:'',
     ''                  - endpoint:'',
     ''                      address:'',
     ''                        socket_address:'',
     ''                          address: 127.0.0.1  # Backend service address'',
     ''                          port_value: 8080  # Backend service port'',
     '''',
     ''      listeners:'',
     ''        - name: listener_0'',
     ''          address:'',
     ''            socket_address: { address: 0.0.0.0, port_value: 10000 }'',
     ''          filter_chains:'',
     ''            - filters:'',
     ''                - name: envoy.filters.network.http_connection_manager'',
     ''                  typed_config:'',
     ''                    `@type`: type.googleapis.com/envoy.extensions.filters.network.http_connection_manager.v3.HttpConnectionManager'',
     ''                    codec_type: AUTO'',
     ''                    stat_prefix: ingress_http'',
     ''                    route_config:'',
     ''                      name: local_route'',
     ''                      virtual_hosts:'',
     ''                        - name: local_service'',
     ''                          domains: [`*`]'',
     ''                          routes:'',
     ''                            - match: { prefix: `/` }'',
     ''                              route:'',
     ''                                cluster: sais_backend'',
     ''                                timeout: 0s'',
     ''                            - match: { prefix: `/testtenant` }'',
     ''                              route:'',
     ''                                cluster: sais_backend'',
     ''                                timeout: 0s'',
     ''                              typed_per_filter_config:'',
     ''                                envoy.filters.http.lua:'',
     ''                                  `@type`: type.googleapis.com/envoy.extensions.filters.http.lua.v3.LuaPerRoute'',
     ''                                  source_code:'',
     ''                                    inline_string: |'',
     ''                                      function envoy_on_request(request_handle)'',
     ''                                        -- Log request info'',
     ''                                        local authorizationHeader = request_handle:headers():get(`Authorization`)'',
     '''',
     ''                                        -- Check if the Authorization header is missing'',
     ''                                        if authorizationHeader == nil or authorizationHeader == `` then'',
     ''                                          request_handle:logErr(`Authorization header is missing`)'',
     ''                                          -- Send a 400 Bad Request response using correct syntax'',
     ''                                          request_handle:respond('',
     ''                                            { [`:status`] = `400`, [`content-type`] = `text/plain` },'',
     ''                                            `Bad Request: Authorization header is missing`'',
     ''                                          )'',
     ''                                          return'',
     ''                                        end'',
     '''',
     ''                                        -- Extract pass4SymmKey by removing the ^Splunk ^ prefix'',
     ''                                        local prefix = `Splunk `'',
     ''                                        if string.sub(authorizationHeader, 1, string.len(prefix)) == prefix then'',
     ''                                          local pass4SymmKeyHeader = string.sub(authorizationHeader, string.len(prefix) + 1)'',
     ''                                          local pass4SymmKeyEnv = os.getenv(`PASS4SYMMKEY`)'',
     '''',
     ''                                          -- Compare the extracted key with the expected key'',
     ''                                          if pass4SymmKeyHeader ~= pass4SymmKeyEnv then'',
     ''                                            request_handle:logErr(`Invalid pass4SymmKey`)'',
     ''                                            -- Send a 401 Unauthorized response using correct syntax'',
     ''                                            request_handle:respond('',
     ''                                              { [`:status`] = `401`, [`content-type`] = `text/plain` },'',
     ''                                              `Unauthorized: Invalid pass4SymmKey`'',
     ''                                            )'',
     ''                                            return'',
     ''                                          end'',
     ''                                        else'',
     ''                                          request_handle:logErr(`Invalid Authorization header format`)'',
     ''                                          -- Send a 400 Bad Request response using correct syntax'',
     ''                                          request_handle:respond('',
     ''                                            { [`:status`] = `400`, [`content-type`] = `text/plain` },'',
     ''                                            `Bad Request: Invalid Authorization header format`'',
     ''                                          )'',
     ''                                          return'',
     ''                                        end'',
     ''                                      end'',
     '''',
     ''                                      function envoy_on_response(response_handle)'',
     ''                                        -- Log when the response is sent back from /testtenant'',
     ''                                        response_handle:logInfo(`Goodbye from /testtenant.`)'',
     ''                                      end'',
     '''',
     ''                    http_filters:'',
     ''                      - name: envoy.filters.http.lua'',
     ''                        typed_config:'',
     ''                          `@type`: type.googleapis.com/envoy.extensions.filters.http.lua.v3.Lua'',
     ''                          default_source_code:'',
     ''                            inline_string: |'',
     ''                              function envoy_on_request(request_handle)'',
     ''                                -- Check if the request is from sais_service (you can use custom headers to identify)'',
     ''                                local serviceName = request_handle:headers():get(`X-Service-Name`)'',
     ''                                if serviceName == `sais_service` then'',
     ''                                  -- Add the pass4SymmKey to the Authorization header'',
     ''                                  local pass4SymmKeyEnv = os.getenv(`PASS4SYMMKEY`)'',
     ''                                  if pass4SymmKeyEnv then'',
     ''                                    local authorizationHeader = `Splunk ` .. pass4SymmKeyEnv'',
     ''                                    request_handle:headers():add(`Authorization`, authorizationHeader)'',
     ''                                    request_handle:logInfo(`Authorization header added to request from sais_service`)'',
     ''                                  else'',
     ''                                    request_handle:logErr(`pass4SymmKey environment variable is not set`)'',
     ''                                  end'',
     ''                                end'',
     ''                              end'',
     ''                          source_codes:'',
     ''                            hello.lua:'',
     ''                              inline_string: |'',
     ''                                function envoy_on_request(request_handle)'',
     ''                                  request_handle:logInfo(`Hello World.`)'',
     ''                                end'',
     ''                            bye.lua:'',
     ''                              inline_string: |'',
     ''                                function envoy_on_response(response_handle)'',
     ''                                  response_handle:logInfo(`Bye Bye.`)'',
     ''                                end'',
     ''                      - name: envoy.filters.http.router'',
     ''                        typed_config:'',
     ''                          `@type`: type.googleapis.com/envoy.extensions.filters.http.router.v3.Router'',
     '''']"

definition renderEnvoyConf :: string where
  "renderEnvoyConf = raw (concat (map (\<lambda>l. l @ [CHR 0x0A]) envoyLines))"

text \<open>A config map that exists is updated when its data differ; its owner is left as it is.\<close>

definition createOrUpdateSidecarMap :: "'w sidecarDeps \<Rightarrow> string \<Rightarrow> smap \<Rightarrow> ('w, unit) plat" where
  "createOrUpdateSidecarMap d name data = bindA getCR (\<lambda>p.
     bindA (liftA (si_setRef d (p_Meta p) (newMeta name (plNamespace p)))) (\<lambda>m.
     tryA (getA (si_configmaps d) (plNamespace p, name)) (\<lambda>r. case r of
       Err e \<Rightarrow> if isNotFound e then dropA (createA (si_configmaps d) \<lparr>cm_Meta = m, cm_Data = Some data\<rparr>)
               else failA e
     | Panic x \<Rightarrow> panicA x
     | Ok found \<Rightarrow>
         whenA (cm_Data found \<noteq> Some data) (dropA (updateA (si_configmaps d) (found\<lparr>cm_Data := Some data\<rparr>))))))"

definition reconcileEnvoyConfig :: "'w sidecarDeps \<Rightarrow> ('w, unit) plat" where
  "reconcileEnvoyConfig d = bindA getCR (\<lambda>p.
     whenA (sd_Envoy (ap_Sidecars (p_Spec p)))
       (createOrUpdateSidecarMap d (plName p @ ''-envoy-config'')
          (fmap_of_list [(''envoy.yaml'', renderEnvoyConf)])))"

section \<open>OpenTelemetry\<close>

definition splunkExporter :: "string \<Rightarrow> string \<Rightarrow> string \<Rightarrow> uval" where
  "splunkExporter token endpoint metricsIndex = umap
     [(''token'', UStr token), (''endpoint'', UStr endpoint), (''source'', UStr ''otel''),
      (''sourcetype'', UStr ''otel''), (''index'', UStr metricsIndex),
      (''disable_compression'', UBool False), (''timeout'', UStr ''10s''),
      (''tls'', umap [(''insecure_skip_verify'', UBool True)]),
      (''splunk_app_name'', UStr ''OpenTelemetry-Collector Splunk Exporter''),
      (''splunk_app_version'', UStr ''v0.0.1''),
      (''heartbeat'', umap [(''interval'', UStr ''30s'')]),
      (''telemetry'', umap
        [(''enabled'', UBool True),
         (''extra_attributes'', umap [(''custom_key'', UStr ''custom_value''),
                                      (''dataset_name'', UStr ''SplunkCloudBeaverStack'')]),
         (''override_metrics_names'', umap
           [(''otelcol_exporter_splunkhec_heartbeats_failed'', UStr ''app_heartbeats_failed_total''),
            (''otelcol_exporter_splunkhec_heartbeats_sent'', UStr ''app_heartbeats_success_total'')])])]"

definition prometheusReceiver :: "string \<Rightarrow> uval" where
  "prometheusReceiver name = umap [(''config'', umap [(''scrape_configs'', umaps
     [[(''job_name'', UStr (name @ ''-job'')), (''scrape_interval'', UStr ''30s''),
       (''metrics_path'', UStr ''/metrics''),
       (''static_configs'', umaps [[(''targets'', UStrings [''localhost:8080'']),
          (''labels'', ustrings [(''pod'', ''${POD_NAME}''), (''namespace'', ''${NAMESPACE}'')])]])]])])]"

definition otelService :: uval where
  "otelService = umap
     [(''pipelines'', umap [(''metrics'', umap
         [(''exporters'', UStrings [''splunk_hec'']), (''processors'', UStrings [''batch'']),
          (''receivers'', UStrings [''prometheus''])])]),
      (''telemetry'', umap [(''metrics'', umap [(''readers'', umaps
         [[(''pull'', umap [(''exporter'', umap [(''prometheus'',
              umap [(''host'', UStr ''0.0.0.0''), (''port'', UInt 8888)])])])]])])])]"

definition otelError :: "string \<Rightarrow> uval" where
  "otelError msg = umap [(''error'', UStr msg)]"

text \<open>A failure to read the token is not an error: it becomes the configuration.\<close>

definition renderOtelConf :: "'w sidecarDeps \<Rightarrow> 'w \<Rightarrow> AIPlatform \<Rightarrow> uval res" where
  "renderOtelConf d w p =
     (let cfg = ap_SplunkConfiguration (p_Spec p); secretName = sr_Name (sc_SecretRef cfg)
      in case si_secret d w (plNamespace p, secretName) of
           Err e \<Rightarrow> Ok (otelError (''loading secret '' @ quote secretName @ '': '' @ errText e))
         | Panic x \<Rightarrow> Panic x
         | Ok sec \<Rightarrow>
             (case fmlookup (sec_Data sec) ''hec_token'' of
                None \<Rightarrow> Ok (otelError ''hec_token field not found in secret'')
              | Some token \<Rightarrow> Ok (umap
                  [(''exporters'', umap [(''splunk_hec'', splunkExporter token
                      (sc_Endpoint cfg @ ''/services/collector'')
                      (case si_lookupEnv d ''SPLUNK_METRICS_INDEX_NAME'' of Some n \<Rightarrow> n | None \<Rightarrow> ''_metrics''))]),
                   (''processors'', umap [(''batch'', umap [])]),
                   (''receivers'', umap [(''prometheus'', prometheusReceiver (plName p))]),
                   (''service'', otelService)])))"

definition mutateOtelMap :: "'w sidecarDeps \<Rightarrow> 'w \<Rightarrow> AIPlatform \<Rightarrow> configmap \<Rightarrow> configmap res" where
  "mutateOtelMap d w p cm =
     (let old = entries (cm_Data cm)
      in bindR (if fmlookup old ''otel-config.yaml'' = None
                then bindR (renderOtelConf d w p) (\<lambda>content.
                     bindR (mapErr (Wrapf ''marshaling otel config: '') (si_marshal d content)) (\<lambda>yaml.
                       Ok (fmupd ''otel-config.yaml'' yaml old)))
                else Ok old) (\<lambda>data.
         bindR (si_setOwner d (p_Meta p) (cm_Meta cm)) (\<lambda>m.
           Ok \<lparr>cm_Meta = m, cm_Data = Some data\<rparr>)))"

definition otelMapName :: "AIPlatform \<Rightarrow> string" where
  "otelMapName p = plName p @ ''-otel-config''"

definition reconcileOtelConfigMap :: "'w sidecarDeps \<Rightarrow> ('w, unit) plat" where
  "reconcileOtelConfigMap d = bindA getCR (\<lambda>p. bindA (readA Ok) (\<lambda>w.
     wrapA (Wrapf ''create/update otel-config ConfigMap: '')
       (dropA (upsertA (si_configmaps d)
          \<lparr>cm_Meta = newMeta (otelMapName p) (plNamespace p), cm_Data = None\<rparr> (mutateOtelMap d w p)))))"

definition collectorEnv :: "AIPlatform \<Rightarrow> uval" where
  "collectorEnv p =
     (let field = (\<lambda>path. umap [(''fieldRef'', umap [(''fieldPath'', UStr path)])])
      in umaps
     [[(''name'', UStr ''SPLUNK_ACCESS_TOKEN''),
       (''valueFrom'', umap [(''secretKeyRef'', umap
          [(''name'', UStr (sr_Name (sc_SecretRef (ap_SplunkConfiguration (p_Spec p))))), (''key'', UStr ''hec_token'')])])],
      [(''name'', UStr ''POD_NAME''), (''valueFrom'', field ''metadata.name'')],
      [(''name'', UStr ''NAMESPACE''), (''valueFrom'', field ''metadata.namespace'')],
      [(''name'', UStr ''CLUSTER_NAME''), (''value'', UStr (ap_ClusterDomain (p_Spec p)))]])"

definition collectorSpec :: "AIPlatform \<Rightarrow> (string, uval) fmap \<Rightarrow> uval" where
  "collectorSpec p cfg = umap
     [(''mode'', UStr ''sidecar''), (''image'', UStr ''otel/opentelemetry-collector-contrib:0.122.1''),
      (''env'', collectorEnv p), (''config'', UMap cfg)]"

definition mutateCollector :: "'w sidecarDeps \<Rightarrow> AIPlatform \<Rightarrow> uval \<Rightarrow> unstructured \<Rightarrow> unstructured res" where
  "mutateCollector d p spec u =
     (let m = (un_Meta u)\<lparr>om_Labels := Some (fmap_of_list [(''app'', plName p @ ''-ray'')])\<rparr>;
          m = (if om_Finalizers m = []
               then m\<lparr>om_Finalizers := [''opentelemetrycollector.opentelemetry.io/finalizer'']\<rparr> else m)
      in bindR (si_setOwner d (p_Meta p) m) (\<lambda>m. Ok \<lparr>un_Meta = m, un_Spec = Some spec\<rparr>))"

definition reconcileOpenTelemetryCollector :: "'w sidecarDeps \<Rightarrow> ('w, unit) plat" where
  "reconcileOpenTelemetryCollector d = bindA getCR (\<lambda>p.
     whenA (sd_Otel (ap_Sidecars (p_Spec p)))
       (thenA (wrapA (Wrapf ''reconcile otel configmap: '') (reconcileOtelConfigMap d))
       (bindA (wrapA (Wrapf (''get ConfigMap '' @ quote (otelMapName p) @ '': ''))
                 (getA (si_configmaps d) (plNamespace p, otelMapName p))) (\<lambda>cm.
        bindA (liftA (mapErr (Wrapf ''yaml to json conversion: '')
                 (si_yamlToJSON d (mget (entries (cm_Data cm)) ''otel-config.yaml'')))) (\<lambda>json.
        bindA (liftA (mapErr (Wrapf ''json unmarshal: '') (si_unmarshal d json))) (\<lambda>cfg.
        wrapA (Wrapf ''create/update OpenTelemetryCollector: '')
          (dropA (upsertA (si_collectors d) (newUnstructured (plName p @ ''-otel-coll'') (plNamespace p))
             (mutateCollector d p (collectorSpec p cfg))))))))))"

section \<open>Monitoring\<close>

definition ownedSpec :: "'w sidecarDeps \<Rightarrow> AIPlatform \<Rightarrow> uval \<Rightarrow> unstructured \<Rightarrow> unstructured res" where
  "ownedSpec d p spec u =
     bindR (si_setOwner d (p_Meta p) (un_Meta u)) (\<lambda>m. Ok \<lparr>un_Meta = m, un_Spec = Some spec\<rparr>)"

definition clusterRelabeling :: "(string \<times> uval) list" where
  "clusterRelabeling = [(''sourceLabels'', UStrings [''__meta_kubernetes_pod_label_ray_io_cluster'']),
     (''targetLabel'', UStr ''ray_io_cluster'')]"

definition headEndpoint :: "string \<Rightarrow> (string \<times> uval) list" where
  "headEndpoint port = [(''port'', UStr port),
     (''relabelings'', umaps [(''action'', UStr ''replace'') # clusterRelabeling])]"

definition monitorOf :: "AIPlatform \<Rightarrow> string \<Rightarrow> string \<Rightarrow> (string \<times> uval) list list \<Rightarrow> uval" where
  "monitorOf p jobLabel node endpoints = umap
     [(''jobLabel'', UStr jobLabel),
      (''namespaceSelector'', umap [(''matchNames'', UStrings [plNamespace p])]),
      (''selector'', umap [(''matchLabels'', ustrings [(''app'', plName p), (''ray.io/node-type'', node)])]),
      (''podMetricsEndpoints'', umaps endpoints)]"

definition headMonitorSpec :: "AIPlatform \<Rightarrow> uval" where
  "headMonitorSpec p = monitorOf p ''ray-head'' ''head''
     [headEndpoint ''metrics'', headEndpoint ''as-metrics'', headEndpoint ''dash-metrics'']"

definition workerMonitorSpec :: "AIPlatform \<Rightarrow> uval" where
  "workerMonitorSpec p = monitorOf p ''ray-workers'' ''worker''
     [[(''port'', UStr ''metrics''), (''relabelings'', umaps [clusterRelabeling])]]"

definition reconcilePodMonitor :: "'w sidecarDeps \<Rightarrow> ('w, unit) plat" where
  "reconcilePodMonitor d = bindA getCR (\<lambda>p.
     whenA (sd_PrometheusOperator (ap_Sidecars (p_Spec p)))
       (thenA (wrapA (Wrapf ''failed to reconcile head PodMonitor: '')
                 (dropA (upsertA (si_monitors d) (newUnstructured (plName p @ ''-ray-head-monitor'') (plNamespace p))
                    (ownedSpec d p (headMonitorSpec p)))))
          (wrapA (Wrapf ''failed to reconcile worker PodMonitor: '')
             (dropA (upsertA (si_monitors d) (newUnstructured (plName p @ ''-ray-workers-monitor'') (plNamespace p))
                (ownedSpec d p (workerMonitorSpec p)))))))"

definition recordedPods :: "AIPlatform \<Rightarrow> string" where
  "recordedPods p = raw (''kube_pod_status_phase{namespace=^'') @ plNamespace p @
     raw (''^, pod=~`.*worker.*`} * on(pod, namespace) group_left(created_by_name) kube_pod_info{created_by_name=~^'')
     @ plName p @ raw ''.*^}''"

definition recordedRestarts :: "AIPlatform \<Rightarrow> string" where
  "recordedRestarts p = raw (''kube_pod_container_status_restarts_total{container=~`autoscaler|istio-proxy|ray-head|ray-worker`, namespace=^'')
     @ plNamespace p @
     raw (''^} * on(pod, namespace) group_left(created_by_name) kube_pod_info{created_by_name=~^'') @ plName p @ raw ''.*^}''"

definition recordedActors :: "AIPlatform \<Rightarrow> string" where
  "recordedActors p = raw (''sum(ray_actors{namespace=^'') @ plNamespace p @ raw (''^, app=^'') @ plName p @
     raw (''^}) by (Name, State, app, namespace)'')"

definition headNodeDown :: "AIPlatform \<Rightarrow> string" where
  "headNodeDown p = raw (''up{app=^'') @ plName p @ raw (''^, namespace=^'') @ plNamespace p @
     raw (''^, ray_io_node_type=`head`} == 0'')"

definition ruleSpec :: "AIPlatform \<Rightarrow> uval" where
  "ruleSpec p = umap [(''groups'', umaps [[(''name'', UStr (plName p @ ''.rules'')),
     (''rules'', umaps
       [[(''record'', UStr ''ray:kube_pod_status_phase''), (''expr'', UStr (recordedPods p))],
        [(''record'', UStr ''ray:kube_pod_container_status_restarts_total''), (''expr'', UStr (recordedRestarts p))],
        [(''record'', UStr ''ray:ray_actors:sum''), (''expr'', UStr (recordedActors p))],
        [(''alert'', UStr ''HeadNodeDown''), (''expr'', UStr (headNodeDown p)), (''for'', UStr ''5m''),
         (''annotations'', umap
            [(''summary'', UStr (''Head node for RayService '' @ plName p @ '' in '' @ plNamespace p @ '' is down'')),
             (''description'', UStr (''Head node for RayService '' @ plName p @ '' in '' @ plNamespace p @
                '' has been down for 5 mins''))]),
         (''labels'', umap [(''namespace'', UStr (plNamespace p)), (''severity'', UStr ''critical'')])]])]])]"

text \<open>There is no test of the sidecar settings here.\<close>

definition reconcilePrometheusRule :: "'w sidecarDeps \<Rightarrow> ('w, unit) plat" where
  "reconcilePrometheusRule d = bindA getCR (\<lambda>p.
     dropA (upsertA (si_rules d) (newUnstructured (plName p @ ''-alerts'') (plNamespace p)) (ownedSpec d p (ruleSpec p))))"

definition SidecarsReconcile :: "'w sidecarDeps \<Rightarrow> ('w, unit) plat" where
  "SidecarsReconcile d =
     thenA (reconcileEnvoyConfig d)
    (thenA (reconcileOpenTelemetryCollector d)
    (thenA (reconcilePrometheusRule d)
       (reconcilePodMonitor d)))"

end
