(* ===== verification/Stages.thy ===== *)
theory Stages
  imports Workloads
begin

text \<open>
  The stage loop that the platform reconciler (\<open>pkg/ai/reconciler.go\<close>) and both feature
  reconcilers (\<open>pkg/ai/features/saia/impl.go\<close>, \<open>pkg/ai/features/seca/seca.go\<close>) run: every stage
  leaves one condition, the first error ends the loop, and a final \<open>Ready\<close> condition follows the
  last stage. The locale \<open>staged\<close> states what a reader of the published conditions may rely on;
  each reconciler interprets it on its own list of stages.
\<close>

section \<open>The loop\<close>

type_synonym ('w, 'c) stage = "string \<times> ('w, 'c, unit) act"

text \<open>\<open>clock i\<close> is the time that the \<open>i\<close>-th condition of a run is stamped with.\<close>

definition stageCond :: "nat \<Rightarrow> string \<Rightarrow> gerr option \<Rightarrow> condition" where
  "stageCond now name err =
     (case err of
        None \<Rightarrow> \<lparr>c_Type = name @ ''Ready'', c_Status = ConditionTrue, c_Reason = ''Reconciled'',
                 c_Message = ''stage succeeded'', c_LastTransitionTime = now\<rparr>
      | Some e \<Rightarrow> \<lparr>c_Type = name @ ''Ready'', c_Status = ConditionFalse, c_Reason = ''Error'',
                   c_Message = errText e, c_LastTransitionTime = now\<rparr>)"

definition readyCond :: "nat \<Rightarrow> condition" where
  "readyCond now = \<lparr>c_Type = ''Ready'', c_Status = ConditionTrue, c_Reason = ''AllReconciled'',
                    c_Message = ''all stages completed successfully'', c_LastTransitionTime = now\<rparr>"

text \<open>
  The outcome, the conditions gathered and the state. A stage that panics leaves no condition;
  the deferred status update of the caller still runs on what was gathered before.
\<close>

fun runStages ::
  "(nat \<Rightarrow> nat) \<Rightarrow> ('w, 'c) stage list \<Rightarrow> condition list \<Rightarrow> ('w, 'c) rstate \<Rightarrow>
   unit res \<times> condition list \<times> ('w, 'c) rstate" where
  "runStages clock [] cs s = (Ok (), cs @ [readyCond (clock (length cs))], s)"
| "runStages clock (st # rest) cs s =
     (case snd st s of
        (Ok _, t) \<Rightarrow> runStages clock rest (cs @ [stageCond (clock (length cs)) (fst st) None]) t
      | (Err e, t) \<Rightarrow> (Err e, cs @ [stageCond (clock (length cs)) (fst st) (Some e)], t)
      | (Panic p, t) \<Rightarrow> (Panic p, cs, t))"

text \<open>\<open>common.IsConditionTrue\<close>, how one reconciler reads the conditions of another.\<close>

definition IsConditionTrue :: "condition list \<Rightarrow> string \<Rightarrow> bool" where
  "IsConditionTrue cs t = list_ex (\<lambda>c. c_Type c = t \<and> c_Status c = ConditionTrue) cs"

section \<open>What a run reports\<close>

text \<open>The conditions of the first \<open>k\<close> stages, all successful.\<close>

definition stagesDone :: "(nat \<Rightarrow> nat) \<Rightarrow> string list \<Rightarrow> nat \<Rightarrow> condition list" where
  "stagesDone clock names k = map (\<lambda>i. stageCond (clock i) (names ! i) None) [0..<k]"

text \<open>
  The specification of the loop: the conditions name a prefix of the stages, all True, followed by
  \<open>Ready\<close> when every stage succeeded, or by the failed stage with the error's text.
\<close>

definition stageReport :: "(nat \<Rightarrow> nat) \<Rightarrow> string list \<Rightarrow> unit res \<Rightarrow> condition list \<Rightarrow> bool" where
  "stageReport clock names r cs \<longleftrightarrow>
     (case r of
        Ok _ \<Rightarrow> cs = stagesDone clock names (length names) @ [readyCond (clock (length names))]
      | Err e \<Rightarrow> (\<exists>k < length names.
          cs = stagesDone clock names k @ [stageCond (clock k) (names ! k) (Some e)])
      | Panic p \<Rightarrow> (\<exists>k < length names. cs = stagesDone clock names k))"

lemma stagesDone_length [simp]: "length (stagesDone clock names k) = k"
  by (simp add: stagesDone_def)

lemma stagesDone_Suc:
  "stagesDone clock names (Suc k) = stagesDone clock names k @ [stageCond (clock k) (names ! k) None]"
  by (simp add: stagesDone_def)

lemma runStages_report_from:
  assumes "runStages clock rest cs s = (r, cs', t)"
    and "before @ map fst rest = names" and "cs = stagesDone clock names (length before)"
  shows "stageReport clock names r cs'"
  using assms
proof (induction rest arbitrary: cs s before)
  case Nil
  then show ?case by (auto simp: stageReport_def)
next
  case (Cons st rest)
  have here: "names ! length before = fst st" "length before < length names"
    using Cons.prems(2) by (auto simp: nth_append simp flip: Cons.prems(2))
  obtain q u where q: "snd st s = (q, u)" by fastforce
  show ?case
  proof (cases q)
    case (Ok x)
    have "runStages clock rest (stagesDone clock names (length (before @ [fst st]))) u = (r, cs', t)"
      using Cons.prems q Ok here by (simp add: stagesDone_Suc)
    then show ?thesis
      using Cons.IH [of _ u "before @ [fst st]"] Cons.prems(2) by simp
  next
    case (Err e)
    then have "cs' = stagesDone clock names (length before) @
        [stageCond (clock (length before)) (names ! length before) (Some e)]" "r = Err e"
      using Cons.prems q here by simp_all
    then show ?thesis
      using here(2) unfolding stageReport_def by auto
  next
    case (Panic p)
    then have "cs' = stagesDone clock names (length before)" "r = Panic p"
      using Cons.prems q by simp_all
    then show ?thesis
      using here(2) unfolding stageReport_def by auto
  qed
qed

lemma runStages_report:
  "runStages clock sts [] s = (r, cs, t) \<Longrightarrow> stageReport clock (map fst sts) r cs"
  by (rule runStages_report_from [where before = "[]"]) (simp_all add: stagesDone_def)

text \<open>The state and the outcome are those of running the stages in sequence.\<close>

fun inSequence :: "('w, 'c) stage list \<Rightarrow> ('w, 'c, unit) act" where
  "inSequence [] = retA ()"
| "inSequence (st # rest) = thenA (snd st) (inSequence rest)"

lemma runStages_sequence:
  "runStages clock sts cs s = (r, cs', t) \<Longrightarrow> inSequence sts s = (r, t)"
proof (induction sts arbitrary: cs s)
  case Nil
  then show ?case by (simp add: retA_def)
next
  case (Cons st rest)
  then show ?case
    by (cases "snd st s"; cases "fst (snd st s)") (auto simp: thenA_def bindA_def)
qed

text \<open>What every stage keeps of the state, the whole run keeps.\<close>

lemma runStages_keeps:
  assumes "runStages clock sts cs s = (r, cs', t)"
    and "\<And>n m s r t. (n, m) \<in> set sts \<Longrightarrow> P s \<Longrightarrow> m s = (r, t) \<Longrightarrow> P t" and "P s"
  shows "P t"
  using assms
proof (induction sts arbitrary: cs s)
  case (Cons st rest)
  obtain q u where q: "snd st s = (q, u)" by fastforce
  then have "P u" using Cons.prems(2) [of "fst st" "snd st" s q u] Cons.prems(3) by simp
  show ?case
  proof (cases q)
    case (Ok x)
    have step: "runStages clock rest (cs @ [stageCond (clock (length cs)) (fst st) None]) u = (r, cs', t)"
      using Cons.prems(1) q Ok by simp
    show ?thesis
      by (rule Cons.IH [OF step _ \<open>P u\<close>]) (metis Cons.prems(2) list.set_intros(2))
  qed (use Cons.prems(1) q \<open>P u\<close> in auto)
qed simp

text \<open>Stages that find nothing to do.\<close>

lemma runStages_quiet:
  "(\<And>n m. (n, m) \<in> set sts \<Longrightarrow> m s = (Ok (), s)) \<Longrightarrow>
   \<exists>cs'. runStages clock (sts @ rest) cs s = runStages clock rest cs' s \<and> length cs' = length cs + length sts"
proof (induction sts arbitrary: cs)
  case Nil
  show ?case by (rule exI [of _ cs]) simp
next
  case (Cons st sts)
  have "snd st s = (Ok (), s)"
    using Cons.prems [of "fst st" "snd st"] by simp
  moreover have "m s = (Ok (), s)" if "(n, m) \<in> set sts" for n m
    using Cons.prems [of n m] that by simp
  ultimately show ?case
    using Cons.IH [of "cs @ [stageCond (clock (length cs)) (fst st) None]"] by simp
qed

section \<open>What actions keep of the resource\<close>

text \<open>
  An action keeps \<open>Q\<close> when the resource in memory satisfies \<open>Q\<close> afterwards, whatever the outcome,
  if it did before. The rules follow the structure of an action.
\<close>

named_theorems keeps_intros

definition keepsCR :: "('c \<Rightarrow> bool) \<Rightarrow> ('w, 'c, 'a) act \<Rightarrow> bool" where
  "keepsCR Q m \<longleftrightarrow> (\<forall>s r t. Q (rs_cr s) \<longrightarrow> m s = (r, t) \<longrightarrow> Q (rs_cr t))"

lemma keepsCR_D: "keepsCR Q m \<Longrightarrow> Q (rs_cr s) \<Longrightarrow> m s = (r, t) \<Longrightarrow> Q (rs_cr t)"
  unfolding keepsCR_def by blast

lemma keeps_basic [keeps_intros]:
  "keepsCR Q (retA x)" "keepsCR Q (failA e)" "keepsCR Q (panicA p)" "keepsCR Q (liftA r)"
  "keepsCR Q (emitA ty rs ms)" "keepsCR Q (readA f)" "keepsCR Q (callA g)"
  by (auto simp: keepsCR_def act_defs panicA_def split: prod.splits)

lemma keeps_calls [keeps_intros]:
  "keepsCR Q (warnA rs ms)" "keepsCR Q (noteA rs ms)" "keepsCR Q (getA c k)"
  "keepsCR Q (createA c x)" "keepsCR Q (updateA c x)" "keepsCR Q (upsertA c x f)"
  by (simp_all add: warnA_def noteA_def call_defs keeps_basic)

lemma keeps_getCR [keeps_intros]:
  "(\<And>x. Q x \<Longrightarrow> keepsCR Q (f x)) \<Longrightarrow> keepsCR Q (bindA getCR f)"
  by (auto simp: keepsCR_def bindA_def getCR_def)

lemma keeps_bind [keeps_intros]:
  assumes "keepsCR Q m" and "\<And>x. keepsCR Q (f x)"
  shows "keepsCR Q (bindA m f)"
  unfolding keepsCR_def
proof (intro allI impI)
  fix s r t assume s: "Q (rs_cr s)" and run: "bindA m f s = (r, t)"
  obtain q u where q: "m s = (q, u)" by fastforce
  then have "Q (rs_cr u)" using keepsCR_D [OF assms(1) s] by blast
  then show "Q (rs_cr t)"
    using run q keepsCR_D [OF assms(2)] by (cases q) (auto simp: bindA_def)
qed

lemma keeps_then [keeps_intros]: "keepsCR Q m \<Longrightarrow> keepsCR Q k \<Longrightarrow> keepsCR Q (thenA m k)"
  by (simp add: thenA_def keeps_bind)

lemma keeps_try [keeps_intros]:
  assumes "keepsCR Q m" and "\<And>r. keepsCR Q (f r)"
  shows "keepsCR Q (tryA m f)"
  unfolding keepsCR_def
proof (intro allI impI)
  fix s r t assume s: "Q (rs_cr s)" and run: "tryA m f s = (r, t)"
  obtain q u where q: "m s = (q, u)" by fastforce
  then have "Q (rs_cr u)" using keepsCR_D [OF assms(1) s] by blast
  then show "Q (rs_cr t)"
    using run q keepsCR_D [OF assms(2)] by (cases q) (auto simp: tryA_def)
qed

lemma keeps_when [keeps_intros]: "(b \<Longrightarrow> keepsCR Q m) \<Longrightarrow> keepsCR Q (whenA b m)"
  by (simp add: whenA_def keeps_basic)

lemma keeps_wrap [keeps_intros]: "keepsCR Q m \<Longrightarrow> keepsCR Q (wrapA f m)"
  unfolding keepsCR_def wrapA_def by (auto split: prod.splits)

lemma keeps_drop [keeps_intros]: "keepsCR Q m \<Longrightarrow> keepsCR Q (dropA m)"
  by (simp add: dropA_def keeps_bind keeps_basic)

lemma keeps_onErr [keeps_intros]:
  "keepsCR Q m \<Longrightarrow> (\<And>e. keepsCR Q (h e)) \<Longrightarrow> keepsCR Q (onErr h f m)"
  unfolding onErr_def by (intro keeps_try) (auto intro: keeps_basic keeps_then split: res.split)

lemma keeps_modCR [keeps_intros]: "(\<And>x. Q x \<Longrightarrow> Q (f x)) \<Longrightarrow> keepsCR Q (modCR f)"
  by (auto simp: keepsCR_def modCR_def)

lemma keeps_if [keeps_intros]:
  "(b \<Longrightarrow> keepsCR Q m) \<Longrightarrow> (\<not> b \<Longrightarrow> keepsCR Q k) \<Longrightarrow> keepsCR Q (if b then m else k)"
  by simp

lemma keeps_res [keeps_intros]:
  "(\<And>x. r = Ok x \<Longrightarrow> keepsCR Q (f x)) \<Longrightarrow> (\<And>e. r = Err e \<Longrightarrow> keepsCR Q (g e)) \<Longrightarrow>
   (\<And>p. r = Panic p \<Longrightarrow> keepsCR Q (h p)) \<Longrightarrow>
   keepsCR Q (case r of Ok x \<Rightarrow> f x | Err e \<Rightarrow> g e | Panic p \<Rightarrow> h p)"
  by (cases r) simp_all

lemma keeps_prod [keeps_intros]:
  "(\<And>x y. p = (x, y) \<Longrightarrow> keepsCR Q (f x y)) \<Longrightarrow> keepsCR Q (case p of (x, y) \<Rightarrow> f x y)"
  by (cases p) simp

lemma runStages_keepsCR:
  assumes "runStages clock sts cs s = (r, cs', t)"
    and "\<And>n m. (n, m) \<in> set sts \<Longrightarrow> keepsCR Q m" and "Q (rs_cr s)"
  shows "Q (rs_cr t)"
  using assms(1) _ assms(3)
proof (rule runStages_keeps)
  show "Q (rs_cr t)" if "(n, m) \<in> set sts" "Q (rs_cr s)" "m s = (r, t)" for n m s r t
    using keepsCR_D [OF assms(2)] that by blast
qed

text \<open>
  A stage that cannot succeed on resources with \<open>Q\<close> ends every run that reaches it; if it always
  panics it leaves no condition either.
\<close>

lemma runStages_blocked:
  assumes "runStages clock (pre @ (n, m) # post) cs s = (r, cs', t)"
    and "\<And>st. st \<in> set pre \<Longrightarrow> keepsCR Q (snd st)" and "Q (rs_cr s)"
    and fails: "\<And>w. Q (rs_cr w) \<Longrightarrow> fst (m w) \<noteq> Ok ()" and keeps: "keepsCR Q m"
  shows "r \<noteq> Ok () \<and> length cs' \<le> Suc (length cs + length pre) \<and> Q (rs_cr t) \<and>
    (\<forall>p. r = Panic p \<longrightarrow> length cs' \<le> length cs + length pre) \<and>
    ((\<forall>w. Q (rs_cr w) \<longrightarrow> (\<exists>p w'. m w = (Panic p, w'))) \<longrightarrow> length cs' \<le> length cs + length pre)"
  using assms(1-3)
proof (induction pre arbitrary: cs s)
  case Nil
  obtain q u where q: "m s = (q, u)" by fastforce
  have "Q (rs_cr u)"
    using keepsCR_D [OF keeps Nil.prems(3) q] .
  then show ?case
    using Nil.prems(1,3) q fails [OF Nil.prems(3)] by (cases q) auto
next
  case (Cons st pre)
  obtain q u where q: "snd st s = (q, u)" by fastforce
  have "keepsCR Q (snd st)"
    using Cons.prems(2) by simp
  then have Q: "Q (rs_cr u)" using keepsCR_D q Cons.prems(3) by blast
  show ?case
  proof (cases q)
    case (Ok x)
    have step: "runStages clock (pre @ (n, m) # post)
        (cs @ [stageCond (clock (length cs)) (fst st) None]) u = (r, cs', t)"
      using Cons.prems(1) q Ok by simp
    have keeps: "keepsCR Q (snd st')" if "st' \<in> set pre" for st'
      using Cons.prems(2) that by simp
    show ?thesis
      using Cons.IH [OF step keeps Q] by simp
  qed (use Cons.prems(1) q Q in auto)
qed

section \<open>Clients for examples\<close>

text \<open>A client that refuses every call, and one whose cluster always holds the same object.\<close>

definition offline :: "'w \<Rightarrow> 'w \<times> 'a res" where
  "offline w = (w, Err (ApiErr OtherAPI ''unavailable''))"

definition offClient :: "('w, 'o) client" where
  "offClient =
     \<lparr>cGet = \<lambda>w _. snd (offline w), cList = \<lambda>w _. snd (offline w), cCreate = \<lambda>w _. offline w,
      cUpdate = \<lambda>w _. offline w, cStatusUpdate = \<lambda>w _. offline w, cDelete = \<lambda>w _. offline w,
      cCreateOrUpdate = \<lambda>w _ _. offline w\<rparr>"

definition constClient :: "'o \<Rightarrow> ('w, 'o) client" where
  "constClient x =
     \<lparr>cGet = \<lambda>_ _. Ok x, cList = \<lambda>_ _. Ok [x], cCreate = \<lambda>w o1. (w, Ok o1),
      cUpdate = \<lambda>w o1. (w, Ok o1), cStatusUpdate = \<lambda>w o1. (w, Ok o1), cDelete = \<lambda>w _. (w, Ok ()),
      cCreateOrUpdate = \<lambda>w o1 f. (w, f x)\<rparr>"

section \<open>Reading the conditions\<close>

text \<open>A list of stages with distinct, non-empty names.\<close>

locale staged =
  fixes names :: "string list"
  assumes names_distinct: "distinct names"
    and names_nonempty: "[] \<notin> set names"
begin

lemma stage_type_not_Ready: "n \<in> set names \<Longrightarrow> n @ ''Ready'' \<noteq> ''Ready''"
  using names_nonempty by auto

lemma done_types: "k \<le> length names \<Longrightarrow>
  map c_Type (stagesDone clock names k) = map (\<lambda>n. n @ ''Ready'') (take k names)"
  by (rule nth_equalityI) (simp_all add: stagesDone_def stageCond_def)

lemma report_types:
  assumes "stageReport clock names r cs"
  shows "\<exists>k \<le> length names. map c_Type cs = map (\<lambda>n. n @ ''Ready'') (take k names) \<or>
     r = Ok () \<and> map c_Type cs = map (\<lambda>n. n @ ''Ready'') names @ [''Ready'']"
proof (cases r)
  case (Ok x)
  then show ?thesis
    using assms done_types [of "length names" clock]
    by (auto simp: stageReport_def readyCond_def)
next
  case (Err e)
  then obtain k where k: "k < length names"
      "cs = stagesDone clock names k @ [stageCond (clock k) (names ! k) (Some e)]"
    using assms by (auto simp: stageReport_def)
  then have "map c_Type cs = map (\<lambda>n. n @ ''Ready'') (take (Suc k) names)"
    using done_types [of k clock] by (simp add: stageCond_def take_Suc_conv_app_nth)
  then show ?thesis using k(1) by (meson Suc_leI)
next
  case (Panic p)
  then obtain k where "k < length names" "cs = stagesDone clock names k"
    using assms by (auto simp: stageReport_def)
  then show ?thesis
    using done_types [of k clock] by (intro exI [of _ k]) simp
qed

text \<open>No condition type occurs twice, so a lookup by type has one answer.\<close>

lemma types_distinct: "distinct (map (\<lambda>n. n @ ''Ready'') names @ [''Ready''])"
  using names_distinct names_nonempty by (auto simp: distinct_map inj_on_def)

lemma report_distinct:
  assumes "stageReport clock names r cs"
  shows "distinct (map c_Type cs)"
proof -
  have "distinct (map (\<lambda>n. n @ ''Ready'') (take k names))" for k
    using types_distinct distinct_take [of "map (\<lambda>n. n @ ''Ready'') names" k]
    by (simp add: take_map)
  then show ?thesis using report_types [OF assms] types_distinct by metis
qed

text \<open>\<open>Ready\<close> is published exactly when every stage returned.\<close>

lemma report_ready:
  assumes "stageReport clock names r cs"
  shows "IsConditionTrue cs ''Ready'' \<longleftrightarrow> r = Ok ()"
proof
  assume "IsConditionTrue cs ''Ready''"
  then have "''Ready'' \<in> set (map c_Type cs)"
    by (force simp: IsConditionTrue_def list_ex_iff)
  moreover have "''Ready'' \<notin> set (map (\<lambda>n. n @ ''Ready'') (take k names))" for k
    using names_nonempty by (auto dest: in_set_takeD)
  ultimately show "r = Ok ()"
    using report_types [OF assms] by metis
next
  assume "r = Ok ()"
  then show "IsConditionTrue cs ''Ready''"
    using assms by (simp add: stageReport_def IsConditionTrue_def readyCond_def)
qed

text \<open>The condition of a stage is True exactly when that stage and all before it returned.\<close>

lemma done_true:
  assumes "i < length names" "k \<le> length names"
  shows "IsConditionTrue (stagesDone clock names k) (names ! i @ ''Ready'') \<longleftrightarrow> i < k"
proof -
  have "names ! j = names ! i \<longleftrightarrow> j = i" if "j < k" for j
    using that assms names_distinct by (auto simp: nth_eq_iff_index_eq)
  then show ?thesis
    by (auto simp: IsConditionTrue_def stagesDone_def list_ex_iff stageCond_def)
qed

lemma report_true_iff:
  assumes "stageReport clock names r cs" and i: "i < length names"
  shows "IsConditionTrue cs (names ! i @ ''Ready'') \<longleftrightarrow>
     (r = Ok () \<or> (case r of Panic p \<Rightarrow> i < length cs | _ \<Rightarrow> Suc i < length cs))"
proof -
  have split: "IsConditionTrue (xs @ ys) t \<longleftrightarrow> IsConditionTrue xs t \<or> IsConditionTrue ys t" for xs ys t
    by (simp add: IsConditionTrue_def)
  show ?thesis
  proof (cases r)
    case (Ok x)
    then show ?thesis
      using assms done_true [OF i, of "length names"] by (simp add: stageReport_def split)
  next
    case (Err e)
    then obtain k where k: "k < length names"
        "cs = stagesDone clock names k @ [stageCond (clock k) (names ! k) (Some e)]"
      using assms by (auto simp: stageReport_def)
    moreover have "\<not> IsConditionTrue [stageCond (clock k) (names ! k) (Some e)] t" for t
      by (simp add: IsConditionTrue_def stageCond_def)
    ultimately show ?thesis
      using done_true [OF i, of k] Err by (simp add: split)
  next
    case (Panic p)
    then obtain k where "k < length names" "cs = stagesDone clock names k"
      using assms by (auto simp: stageReport_def)
    then show ?thesis
      using done_true [OF i, of k] Panic by simp
  qed
qed

end

end
