(* ===== verification/Platform.thy ===== *)
theory Platform
  imports Sidecars Stages SplunkUtils
begin

text \<open>
  The platform reconciler (\<open>pkg/ai/reconciler.go\<close> with \<open>validate_defaults.go\<close>, \<open>ingress.go\<close>,
  \<open>weaviate.go\<close> and \<open>certificate.go\<close>): its eleven stages on the AIPlatform in memory and the status
  update deferred to the end. The sidecar stage is that of the theory \<open>Sidecars\<close>.
\<close>

section \<open>What the reconciler is given\<close>

record ingress_path =
  gp_Path :: string
  gp_PathType :: string
  gp_ServiceName :: string
  gp_ServicePort :: int32

record ingress_rule =
  gl_Host :: string
  gl_Paths :: "ingress_path list"

text \<open>The load balancer's entries are pairs of an IP and a host name, each possibly empty.\<close>

record ingress =
  ig_Meta :: objmeta
  ig_ClassName :: "string option"
  ig_Rules :: "ingress_rule list"
  ig_TLS :: "IngressTLS list"
  ig_Addresses :: "(string \<times> string) list"

record 'w platDeps =
  pd_ray :: "'w rayDeps"
  pd_sidecars :: "'w sidecarDeps"
  pd_readFile :: "string \<Rightarrow> string res"
  pd_platforms :: "('w, AIPlatform) client"
  pd_services :: "('w, AIService) client"
  pd_ingresses :: "('w, ingress) client"
  pd_statefulsets :: "('w, statefulset) client"
  pd_accounts :: "('w, service_account) client"
  pd_svcs :: "('w, service) client"
  pd_certs :: "('w, certificate) client"
  pd_secrets :: "('w, secret) client"
  pd_standalones :: "'w \<Rightarrow> nname \<Rightarrow> objmeta res"
  pd_indexers :: "'w \<Rightarrow> nname \<Rightarrow> objmeta res"
  pd_removeCondition :: "condition list \<Rightarrow> string \<Rightarrow> condition list"
  pd_validQuantity :: "string \<Rightarrow> bool"

abbreviation pd_setRef :: "'w platDeps \<Rightarrow> set_owner" where
  "pd_setRef d \<equiv> rd_setRef (pd_ray d)"

abbreviation pd_getenv :: "'w platDeps \<Rightarrow> string \<Rightarrow> string" where
  "pd_getenv d \<equiv> rd_getenv (pd_ray d)"

definition igKey :: "ingress \<Rightarrow> nname" where "igKey i = metaKey (ig_Meta i)"
definition platKey :: "AIPlatform \<Rightarrow> nname" where "platKey p = metaKey (p_Meta p)"

definition modStatus :: "(AIPlatformStatus \<Rightarrow> AIPlatformStatus) \<Rightarrow> ('w, unit) plat" where
  "modStatus f = modCR (\<lambda>p. p\<lparr>p_Status := f (p_Status p)\<rparr>)"

section \<open>Validate\<close>

definition defaultScheduling :: SchedulingSpec where
  "defaultScheduling = \<lparr>ss_NodeSelector = Some fmempty, ss_Tolerations = [], ss_Affinity = Some []\<rparr>"

definition fillScheduling :: "AIPlatformSpec \<Rightarrow> AIPlatformSpec" where
  "fillScheduling sp =
     sp\<lparr>ap_CPUSchedulingSpec := (case ap_CPUSchedulingSpec sp of None \<Rightarrow> Some defaultScheduling | Some x \<Rightarrow> Some x),
        ap_GPUSchedulingSpec := (case ap_GPUSchedulingSpec sp of None \<Rightarrow> Some defaultScheduling | Some x \<Rightarrow> Some x)\<rparr>"

definition enrichPlatform :: "'w platDeps \<Rightarrow> ('w, unit) plat" where
  "enrichPlatform d s =
     (let p = rs_cr s; w = rs_world s; cfg = ap_SplunkConfiguration (p_Spec p);
          resolver = (if sc_SecretSource cfg = SecretSourceVault
                      then VaultGetHECToken (pd_readFile d)
                      else KubernetesGetHECToken (cGet (pd_secrets d) w))
      in case ValidateAndEnrichSplunkConfig (pd_standalones d w) (pd_indexers d w) (plNamespace p)
                (ap_ClusterDomain (p_Spec p)) cfg resolver of
           (cfg', r) \<Rightarrow>
             (r, s\<lparr>rs_cr := p\<lparr>p_Spec := (p_Spec p)\<lparr>ap_SplunkConfiguration := cfg'\<rparr>\<rparr>\<rparr>))"

definition validate :: "'w platDeps \<Rightarrow> ('w, unit) plat" where
  "validate d = bindA getCR (\<lambda>p.
     if os_Path (ap_ObjectStorage (p_Spec p)) = [] then failA (Errorf ''object storage is required'')
     else thenA (modCR (\<lambda>p. p\<lparr>p_Spec := fillScheduling (p_Spec p)\<rparr>)) (enrichPlatform d))"

section \<open>Weaviate\<close>

definition weaviateName :: "AIPlatform \<Rightarrow> string" where
  "weaviateName p = plName p @ ''-weaviate''"

definition weaviateResources :: resource_requirements where
  "weaviateResources =
     \<lparr>rr_Requests = Some (fmap_of_list [(''cpu'', ''2''), (''memory'', ''4Gi'')]),
      rr_Limits = Some (fmap_of_list [(''cpu'', ''2''), (''memory'', ''4Gi'')])\<rparr>"

definition weaviateContainer :: "string \<Rightarrow> container" where
  "weaviateContainer img = zeroContainer\<lparr>
     co_Name := ''weaviate'', co_Image := img, co_Resources := weaviateResources,
     co_Mounts := [\<lparr>vm_Name = ''weaviate-data'', vm_MountPath = ''/var/lib/weaviate'', vm_ReadOnly = False\<rparr>],
     co_Ports := [\<lparr>cp_Name = ''http'', cp_Port = 8080\<rparr>],
     co_Env := [envVar ''PERSISTENCE_DATA_PATH'' ''/var/lib/weaviate'']\<rparr>"

text \<open>\<open>resource.MustParse\<close> panics on a size that is not a quantity.\<close>

definition weaviateClaim :: "'w platDeps \<Rightarrow> VectorDBStorageSpec \<Rightarrow> claim_template list res" where
  "weaviateClaim d v =
     (if vs_PVCName v \<noteq> [] then Ok []
      else (let size = (if vs_Size v = [] then ''50Gi'' else vs_Size v)
            in if pd_validQuantity d size
               then Ok [\<lparr>ct_Name = ''weaviate-data'', ct_AccessModes = [''ReadWriteOnce''], ct_Size = size,
                         ct_StorageClassName = (if vs_StorageClassName v \<noteq> [] then Some (vs_StorageClassName v) else None)\<rparr>]
               else Panic (''cannot parse '' @ quote size)))"

definition weaviatePod :: "AIPlatform \<Rightarrow> string \<Rightarrow> SchedulingSpec \<Rightarrow> pod_template \<Rightarrow> pod_template" where
  "weaviatePod p img sched t =
     t\<lparr>pt_Labels := Some (fmap_of_list [(''app'', weaviateName p)]),
       pt_Spec := (pt_Spec t)\<lparr>
         ps_ServiceAccountName := weaviateName p,
         ps_Affinity := ss_Affinity sched, ps_Tolerations := ss_Tolerations sched,
         ps_NodeSelector := ss_NodeSelector sched,
         ps_ImagePullSecrets := im_ImagePullSecrets (ap_Images (p_Spec p)),
         ps_Volumes := (let claim = vs_PVCName (st_VectorDB (ap_Storage (p_Spec p)))
           in if claim \<noteq> [] then [\<lparr>vo_Name = ''weaviate-data'', vo_Source = VolClaim claim\<rparr>]
              else ps_Volumes (pt_Spec t)),
         ps_Containers := [weaviateContainer img]\<rparr>\<rparr>"

text \<open>A stateful set that exists has a UID: its selector, service name and claims stay.\<close>

definition mutateWeaviate :: "'w platDeps \<Rightarrow> AIPlatform \<Rightarrow> string \<Rightarrow> statefulset \<Rightarrow> statefulset res" where
  "mutateWeaviate d p img sts =
     (case ap_CPUSchedulingSpec (p_Spec p) of
        None \<Rightarrow> Panic nilDeref
      | Some sched \<Rightarrow>
          bindR (weaviateClaim d (st_VectorDB (ap_Storage (p_Spec p)))) (\<lambda>claims.
            let fresh = (om_UID (sf_Meta sts) = [])
            in Ok (sts\<lparr>sf_Selector := (if fresh then Some (fmap_of_list [(''app'', weaviateName p)]) else sf_Selector sts),
                       sf_ServiceName := (if fresh then weaviateName p else sf_ServiceName sts),
                       sf_Replicas := Some 1,
                       sf_Template := weaviatePod p img sched (sf_Template sts),
                       sf_Claims := (if fresh then claims else sf_Claims sts)\<rparr>)))"

definition mutateWeaviateService :: "AIPlatform \<Rightarrow> service \<Rightarrow> service res" where
  "mutateWeaviateService p svc = Ok (svc\<lparr>
     svc_Selector := fmap_of_list [(''app'', weaviateName p)],
     svc_Ports := [\<lparr>sp_Name = ''http'', sp_Port = 80, sp_TargetPort = 8080, sp_NodePort = 0\<rparr>]\<rparr>)"

definition ownedMeta :: "'w platDeps \<Rightarrow> AIPlatform \<Rightarrow> string \<Rightarrow> ('w, objmeta) plat" where
  "ownedMeta d p name = liftA (pd_setRef d (p_Meta p) (newMeta name (plNamespace p)))"

text \<open>The writes after the look whether the stateful set exists; \<open>missing\<close> asks for the events.\<close>

definition weaviateWrites :: "'w platDeps \<Rightarrow> AIPlatform \<Rightarrow> string \<Rightarrow> objmeta \<Rightarrow> bool \<Rightarrow> ('w, unit) plat" where
  "weaviateWrites d p img stsMeta missing =
     thenA (whenA missing (noteA ''WeaviateCreating'' ''Creating Weaviate StatefulSet''))
     (thenA (onErr (\<lambda>e. warnA ''WeaviateCreationFailed'' (''Failed to create/update Weaviate: '' @ errText e)) id
               (dropA (upsertA (pd_statefulsets d)
                  ((newStatefulSet (weaviateName p) (plNamespace p))\<lparr>sf_Meta := stsMeta\<rparr>) (mutateWeaviate d p img))))
     (thenA (whenA missing (noteA ''WeaviateCreated'' ''Weaviate StatefulSet created successfully''))
     (bindA (ownedMeta d p (weaviateName p)) (\<lambda>svcMeta.
        dropA (upsertA (pd_svcs d) (zeroService\<lparr>svc_Meta := svcMeta\<rparr>) (mutateWeaviateService p))))))"

definition ReconcileWeaviateDatabase :: "'w platDeps \<Rightarrow> ('w, unit) plat" where
  "ReconcileWeaviateDatabase d = bindA getCR (\<lambda>p.
     let img = pd_getenv d ''RELATED_IMAGE_WEAVIATE''; name = weaviateName p;
         noImage = ''RELATED_IMAGE_WEAVIATE environment variable is required''
     in if img = [] then thenA (warnA ''WeaviateConfigError'' noImage) (failA (Errorf noImage))
        else
          bindA (ownedMeta d p name) (\<lambda>saMeta.
          thenA (dropA (upsertA (pd_accounts d) \<lparr>sa_Meta = saMeta\<rparr> Ok))
          (bindA (ownedMeta d p name) (\<lambda>stsMeta.
          tryA (getA (pd_statefulsets d) (plNamespace p, name)) (\<lambda>found.
            weaviateWrites d p img stsMeta (case found of Err e \<Rightarrow> isNotFound e | _ \<Rightarrow> False))))))"

definition ReconcileWeaviateDatabaseStatus :: "'w platDeps \<Rightarrow> ('w, unit) plat" where
  "ReconcileWeaviateDatabaseStatus d = bindA getCR (\<lambda>p.
     bindA (getA (pd_statefulsets d) (plNamespace p, weaviateName p)) (\<lambda>sts.
       case sf_Replicas sts of
         None \<Rightarrow> panicA nilDeref
       | Some n \<Rightarrow>
           (let ready = (sf_ReadyReplicas sts = n)
            in thenA (setConds (pd_ray d) [mkCond (rd_now (pd_ray d)) ''WeaviateReady''
                        (if ready then ''WeaviateReady'' else ''WeaviateNotReady'')
                        (if ready then ''Weaviate database is ready'' else ''Weaviate database is not ready'') ready])
                 (modStatus (\<lambda>st. st\<lparr>aps_VectorDbServiceName := weaviateName p\<rparr>)))))"

section \<open>Ingress\<close>

definition parsePathType :: "string \<Rightarrow> string" where
  "parsePathType t =
     (if t = ''Exact'' then ''Exact'' else if t = ''Prefix'' then ''Prefix''
      else if t = ''ImplementationSpecific'' then ''ImplementationSpecific'' else ''Prefix'')"

text \<open>Which service a path goes to.\<close>

definition ingressBackend :: "AIPlatform \<Rightarrow> string \<Rightarrow> string \<times> int32" where
  "ingressBackend p path =
     (if path = ''/dashboard'' \<or> path = ''/dashboard/*'' then (plName p @ ''-head-svc'', 8265)
      else if path = ''/weaviate'' \<or> path = ''/weaviate/*'' then (aps_VectorDbServiceName (p_Status p), 80)
      else (aps_RayServiceName (p_Status p), 8000))"

definition ingressRules :: "AIPlatform \<Rightarrow> IngressHost list \<Rightarrow> ingress_rule list" where
  "ingressRules p hosts =
     map (\<lambda>h. \<lparr>gl_Host = ih_Host h,
               gl_Paths = map (\<lambda>x. \<lparr>gp_Path = ip_Path x, gp_PathType = parsePathType (ip_PathType x),
                                    gp_ServiceName = fst (ingressBackend p (ip_Path x)),
                                    gp_ServicePort = snd (ingressBackend p (ip_Path x))\<rparr>) (ih_Paths h)\<rparr>) hosts"

definition mutateIngress :: "AIPlatform \<Rightarrow> IngressSpec \<Rightarrow> ingress \<Rightarrow> ingress res" where
  "mutateIngress p sp ing = Ok (ing\<lparr>
     ig_ClassName := (if in_ClassName sp \<noteq> [] then Some (in_ClassName sp) else None),
     ig_Rules := ingressRules p (in_Hosts sp), ig_TLS := in_TLS sp\<rparr>)"

definition ingressAddresses :: "(string \<times> string) list \<Rightarrow> string list" where
  "ingressAddresses xs =
     concat (map (\<lambda>(ip, host). if ip \<noteq> [] then [ip] else if host \<noteq> [] then [host] else []) xs)"

definition ingressState :: "ingress \<Rightarrow> bool \<times> string" where
  "ingressState ing =
     (if ig_Addresses ing = [] then (False, ''Waiting for Ingress controller to assign address'')
      else if ingressAddresses (ig_Addresses ing) \<noteq> []
      then (True, ''Ingress ready with address(es): '' @ joinS (ingressAddresses (ig_Addresses ing)) '', '')
      else (False, ''Ingress has LoadBalancer entry but no address yet''))"

definition ingressEnabled :: "AIPlatform \<Rightarrow> IngressSpec option" where
  "ingressEnabled p = (case ap_Ingress (p_Spec p) of Some i \<Rightarrow> if in_Enabled i then Some i else None | None \<Rightarrow> None)"

definition UpdateIngressStatus :: "'w platDeps \<Rightarrow> ('w, unit) plat" where
  "UpdateIngressStatus d = bindA getCR (\<lambda>p.
     case ingressEnabled p of
       None \<Rightarrow> modStatus (\<lambda>st. st\<lparr>aps_Conditions := pd_removeCondition d (aps_Conditions st) ''IngressReady''\<rparr>)
     | Some _ \<Rightarrow>
         tryA (getA (pd_ingresses d) (plNamespace p, plName p)) (\<lambda>found. case found of
           Panic x \<Rightarrow> panicA x
         | Err e \<Rightarrow>
             if isNotFound e then
               setConds (pd_ray d) [mkCond (rd_now (pd_ray d)) ''IngressReady'' ''IngressNotFound''
                 ''Ingress resource not found'' False]
             else failA e
         | Ok ing \<Rightarrow>
             (case ingressState ing of (ready, msg) \<Rightarrow>
               transition (pd_ray d) ''IngressReady'' ready (''IngressReady'', msg) (''IngressNotReady'', msg)
                 (mkCond (rd_now (pd_ray d)) ''IngressReady''
                    (if ready then ''AddressAssigned'' else ''AddressPending'') msg ready))))"

definition ReconcileIngress :: "'w platDeps \<Rightarrow> ('w, unit) plat" where
  "ReconcileIngress d = bindA getCR (\<lambda>p.
     let key = (plNamespace p, plName p)
     in case ingressEnabled p of
       None \<Rightarrow>
         tryA (callA (\<lambda>w. cDelete (pd_ingresses d) w key)) (\<lambda>r. case r of
           Ok _ \<Rightarrow> retA ()
         | Panic x \<Rightarrow> panicA x
         | Err e \<Rightarrow> if isNotFound e then retA () else failA (Wrapf ''failed to delete Ingress: '' e))
     | Some sp \<Rightarrow>
         tryA (getA (pd_ingresses d) key) (\<lambda>found.
         let missing = (case found of Err e \<Rightarrow> isNotFound e | _ \<Rightarrow> False)
         in
         thenA (whenA missing (noteA ''IngressCreating'' ''Creating Ingress resource''))
         (bindA (liftA (pd_setRef d (p_Meta p)
                   ((newMeta (plName p) (plNamespace p))\<lparr>om_Annotations := in_Annotations sp\<rparr>))) (\<lambda>m.
         thenA (onErr (\<lambda>e. warnA ''IngressCreationFailed'' (''Failed to create/update Ingress: '' @ errText e))
                  (Wrapf ''failed to create/update Ingress: '')
                  (dropA (upsertA (pd_ingresses d)
                     \<lparr>ig_Meta = m, ig_ClassName = None, ig_Rules = [], ig_TLS = [], ig_Addresses = []\<rparr>
                     (mutateIngress p sp))))
         (thenA (whenA missing (noteA ''IngressCreated'' ''Ingress resource created successfully''))
            (UpdateIngressStatus d))))))"

section \<open>Certificate\<close>

text \<open>Not a stage of the loop.\<close>

definition reconcilePlatformCertificate :: "'w platDeps \<Rightarrow> ('w, unit) plat" where
  "reconcilePlatformCertificate d = bindA getCR (\<lambda>p.
     let certName = plName p @ ''-tls''
     in dropA (upsertA (pd_certs d)
          \<lparr>ce_Meta = newMeta certName (plNamespace p), ce_SecretName = [], ce_IssuerRef = \<lparr>ir_Name = [], ir_Kind = []\<rparr>,
           ce_DNSNames = [], ce_Usages = [], ce_Conditions = []\<rparr>
          (\<lambda>c. bindR (rd_setOwner (pd_ray d) (p_Meta p) (ce_Meta c)) (\<lambda>m.
             Ok (c\<lparr>ce_Meta := m, ce_SecretName := certName @ ''-secret'',
                   ce_IssuerRef := \<lparr>ir_Name = ap_CertificateRef (p_Spec p), ir_Kind = ''ClusterIssuer''\<rparr>,
                   ce_DNSNames := [plName p @ ''.'' @ plNamespace p @ ''.svc.'' @ ap_ClusterDomain (p_Spec p)],
                   ce_Usages := []\<rparr>)))))"

section \<open>Features\<close>

definition buildAIService :: "AIPlatform \<Rightarrow> FeatureSpec \<Rightarrow> string \<Rightarrow> AIService" where
  "buildAIService p f name = zeroAIService\<lparr>
     s_Meta := (newMeta name (plNamespace p))\<lparr>om_Labels := Some (fmap_of_list
       [(''aiplatform'', plName p), (''feature'', fs_Name f)])\<rparr>,
     s_Spec := zeroServiceSpec\<lparr>
       as_Feature := f, as_Version := fs_Version f,
       as_AIPlatformRef := \<lparr>ref_APIVersion = ''ai.splunk.com/v1'', ref_Kind = ''AIPlatform'',
         ref_Name = plName p, ref_Namespace = plNamespace p\<rparr>,
       as_ServiceAccountName := fs_ServiceAccountName f,
       as_TaskVolume := ap_ObjectStorage (p_Spec p),
       as_SplunkConfiguration := ap_SplunkConfiguration (p_Spec p),
       as_VectorDbUrl := aps_VectorDbServiceName (p_Status p),
       as_Replicas := 1,
       as_Metrics := \<lparr>mc_Enabled = True, mc_Path = ''/metrics'', mc_Port = 8080\<rparr>,
       as_MTLS := ap_MTLS (p_Spec p),
       as_ImagePullSecrets := im_ImagePullSecrets (ap_Images (p_Spec p))\<rparr>\<rparr>"

definition serviceNameFor :: "AIPlatform \<Rightarrow> FeatureSpec \<Rightarrow> string" where
  "serviceNameFor p f = plName p @ ''-'' @ fs_Name f"

definition mutateService :: "'w platDeps \<Rightarrow> AIPlatform \<Rightarrow> FeatureSpec \<Rightarrow> AIService \<Rightarrow> AIService res" where
  "mutateService d p f svc = bindR (pd_setRef d (p_Meta p) (s_Meta svc)) (\<lambda>m.
     let built = buildAIService p f (serviceNameFor p f)
     in Ok (svc\<lparr>s_Meta := m\<lparr>om_Labels := Some (overlay (entries (om_Labels m)) (om_Labels (s_Meta built))),
                           om_Annotations := Some (overlay (entries (om_Annotations m)) (om_Annotations (s_Meta built)))\<rparr>,
               s_Spec := s_Spec built\<rparr>))"

fun writeServices :: "'w platDeps \<Rightarrow> AIPlatform \<Rightarrow> FeatureSpec list \<Rightarrow> ('w, unit) plat" where
  "writeServices d p [] = retA ()"
| "writeServices d p (f # fs) =
     thenA (dropA (upsertA (pd_services d)
              (zeroAIService\<lparr>s_Meta := newMeta (serviceNameFor p f) (plNamespace p)\<rparr>) (mutateService d p f)))
       (writeServices d p fs)"

definition listChildren :: "'w platDeps \<Rightarrow> AIPlatform \<Rightarrow> ('w, AIService list) plat" where
  "listChildren d p = readA (\<lambda>w. cList (pd_services d) w
     \<lparr>lo_Namespace = plNamespace p, lo_Labels = fmempty, lo_Controller = Some (plName p)\<rparr>)"

text \<open>\<open>client.IgnoreNotFound\<close>: a child that is already gone is not an error.\<close>

fun pruneServices :: "'w platDeps \<Rightarrow> string list \<Rightarrow> AIService list \<Rightarrow> ('w, unit) plat" where
  "pruneServices d desired [] = retA ()"
| "pruneServices d desired (c # cs) =
     (if om_Name (s_Meta c) \<in> set desired then pruneServices d desired cs
      else tryA (callA (\<lambda>w. cDelete (pd_services d) w (metaKey (s_Meta c)))) (\<lambda>r. case r of
        Ok _ \<Rightarrow> pruneServices d desired cs
      | Panic x \<Rightarrow> panicA x
      | Err e \<Rightarrow> if isNotFound e then pruneServices d desired cs else failA e))"

definition ReconcileFeatures :: "'w platDeps \<Rightarrow> ('w, unit) plat" where
  "ReconcileFeatures d = bindA getCR (\<lambda>p.
     thenA (writeServices d p (ap_Features (p_Spec p)))
       (bindA (listChildren d p) (\<lambda>children.
          pruneServices d (map (serviceNameFor p) (ap_Features (p_Spec p))) children)))"

text \<open>The first failed condition of the first child that has one.\<close>

definition failedCond :: "condition \<Rightarrow> bool" where
  "failedCond c \<longleftrightarrow> c_Status c = ConditionFalse \<and> c_Reason c = ''Error''"

fun firstFailure :: "AIService list \<Rightarrow> (AIService \<times> condition) option" where
  "firstFailure [] = None"
| "firstFailure (s # ss) =
     (case find failedCond (ass_Conditions (s_Status s)) of
        Some c \<Rightarrow> Some (s, c)
      | None \<Rightarrow> firstFailure ss)"

definition CheckAIServiceStatus :: "'w platDeps \<Rightarrow> ('w, unit) plat" where
  "CheckAIServiceStatus d = bindA getCR (\<lambda>p.
     bindA (wrapA (Wrapf ''failed to list AIService children: '') (listChildren d p)) (\<lambda>children.
       case firstFailure children of
         None \<Rightarrow> retA ()
       | Some (s, c) \<Rightarrow> failA (Errorf (''AIService '' @ om_Name (s_Meta s) @ '' has failed condition '' @
                                  c_Type c @ '': '' @ c_Message c))))"

section \<open>Reconcile\<close>

definition platformStages :: "'w platDeps \<Rightarrow> ('w, AIPlatform) stage list" where
  "platformStages d =
     [(''Validate'', validate d),
      (''Sidecars'', SidecarsReconcile (pd_sidecars d)),
      (''rayAutoscalerRBAC'', ReconcileRayAutoscalerRBAC (pd_ray d)),
      (''RayService'', ReconcileRayService (pd_ray d)),
      (''WeaviateDatabase'', ReconcileWeaviateDatabase d),
      (''Ingress'', ReconcileIngress d),
      (''RayServiceStatus'', BuilderApplyConditions (pd_ray d)),
      (''WeaviateDatabaseStatus'', ReconcileWeaviateDatabaseStatus d),
      (''IngressStatus'', UpdateIngressStatus d),
      (''AIService'', ReconcileFeatures d),
      (''AIServiceStatus'', CheckAIServiceStatus d)]"

definition platformStageNames :: "string list" where
  "platformStageNames = [''Validate'', ''Sidecars'', ''rayAutoscalerRBAC'', ''RayService'', ''WeaviateDatabase'',
     ''Ingress'', ''RayServiceStatus'', ''WeaviateDatabaseStatus'', ''IngressStatus'', ''AIService'',
     ''AIServiceStatus'']"

text \<open>
  The deferred function: the latest object is read and gets the status of the one in memory with
  the conditions of this run in place of those that the stages set; when the read fails nothing is
  published. The object in memory stays as it is.
\<close>

definition publishedStatus :: "condition list \<Rightarrow> AIPlatform \<Rightarrow> AIPlatformStatus" where
  "publishedStatus cs p = (p_Status p)\<lparr>aps_Conditions := cs, aps_ObservedGeneration := om_Generation (p_Meta p)\<rparr>"

definition publishPlatform ::
  "('w, AIPlatform) client \<Rightarrow> condition list \<Rightarrow> ('w, AIPlatform) rstate \<Rightarrow> ('w, AIPlatform) rstate" where
  "publishPlatform c cs s =
     (case cGet c (rs_world s) (platKey (rs_cr s)) of
        Ok latest \<Rightarrow>
          s\<lparr>rs_world := fst (cStatusUpdate c (rs_world s) (latest\<lparr>p_Status := publishedStatus cs (rs_cr s)\<rparr>))\<rparr>
      | _ \<Rightarrow> s)"

definition PlatformReconcile :: "'w platDeps \<Rightarrow> (nat \<Rightarrow> nat) \<Rightarrow> ('w, unit) plat" where
  "PlatformReconcile d clock s =
     (case runStages clock (platformStages d) [] s of
        (r, cs, t) \<Rightarrow> (r, publishPlatform (pd_platforms d) cs t))"


end
