(* ===== verification/Saia.thy ===== *)
theory Saia
  imports SplunkUtils Workloads Stages "HOL-Library.List_Lexorder" "HOL-Library.Char_ord"
begin

text \<open>
  The SAIA feature (\<open>pkg/ai/features/saia/impl.go\<close>): the nine stages that turn an AIService into
  its service account, config maps, certificate, schema job, deployment, service and service
  monitor. The API client of every kind of object, the environment, the vault file system and
  \<open>SetControllerReference\<close> are parameters; the AIService is the \<open>rs_cr\<close> of the state.
\<close>

section \<open>What the reconciler is given\<close>

record 'w saiaDeps =
  sa_getenv :: "string \<Rightarrow> string"
  sa_readFile :: "string \<Rightarrow> string res"
  sa_setRef :: set_owner
  sa_platforms :: "('w, AIPlatform) client"
  sa_services :: "('w, AIService) client"
  sa_accounts :: "('w, service_account) client"
  sa_configmaps :: "('w, configmap) client"
  sa_certs :: "('w, certificate) client"
  sa_jobs :: "('w, job) client"
  sa_deployments :: "('w, deployment) client"
  sa_svcs :: "('w, service) client"
  sa_monitors :: "('w, service_monitor) client"
  sa_secrets :: "('w, secret) client"
  sa_standalones :: "'w \<Rightarrow> nname \<Rightarrow> objmeta res"
  sa_indexers :: "'w \<Rightarrow> nname \<Rightarrow> objmeta res"

type_synonym ('w, 'a) saia = "('w, AIService, 'a) act"

abbreviation aiName :: "AIService \<Rightarrow> string" where "aiName ai \<equiv> om_Name (s_Meta ai)"
abbreviation aiNamespace :: "AIService \<Rightarrow> string" where "aiNamespace ai \<equiv> om_Namespace (s_Meta ai)"

definition modSpec :: "(AIServiceSpec \<Rightarrow> AIServiceSpec) \<Rightarrow> ('w, unit) saia" where
  "modSpec f = modCR (\<lambda>ai. ai\<lparr>s_Spec := f (s_Spec ai)\<rparr>)"

definition invalidSpec :: "string \<Rightarrow> ('w, unit) saia" where
  "invalidSpec msg = warnA ''InvalidSpec'' msg"

section \<open>Helpers\<close>

definition cleanServiceTemplate :: "service \<Rightarrow> service" where
  "cleanServiceTemplate t =
     t\<lparr>svc_Meta := (svc_Meta t)\<lparr>om_CreationTimestamp := 0, om_DeletionTimestamp := None,
         om_DeletionGracePeriodSeconds := None, om_UID := [], om_ResourceVersion := [],
         om_Generation := 0, om_SelfLink := [], om_ManagedFields := []\<rparr>,
       svc_Status := []\<rparr>"

fun stripFirst :: "string list \<Rightarrow> string \<Rightarrow> string" where
  "stripFirst [] path = path"
| "stripFirst (p # ps) path = (if hasPrefix path p then trimPrefix path p else stripFirst ps path)"

definition extractBucketName :: "string \<Rightarrow> string" where
  "extractBucketName path =
     (let rest = stripFirst [''s3://'', ''minio://'', ''gs://'', ''azure://''] path
      in case indexOf rest ''/'' of
           Some idx \<Rightarrow> if idx > 0 then take idx rest else rest
         | None \<Rightarrow> rest)"

definition operatorTLS :: "AIService \<Rightarrow> bool" where
  "operatorTLS ai \<longleftrightarrow>
     mt_Enabled (as_MTLS (s_Spec ai)) \<and> mt_Termination (as_MTLS (s_Spec ai)) = ''operator''"

section \<open>Validation\<close>

definition getAIPlatform :: "'w saiaDeps \<Rightarrow> object_ref \<Rightarrow> ('w, AIPlatform) saia" where
  "getAIPlatform d ref = getA (sa_platforms d) (ref_Namespace ref, ref_Name ref)"

definition validateAIPlatformReady :: "AIPlatform \<Rightarrow> unit res" where
  "validateAIPlatformReady p =
     (if \<not> IsConditionTrue (aps_Conditions (p_Status p)) ''RayServiceStatusReady''
      then Err (Errorf ''RayService is not ready'')
      else if aps_RayServiceName (p_Status p) = []
      then Err (Errorf ''RayServiceName not populated in AIPlatform status'')
      else Ok ())"

definition validateVectorDatabaseReady :: "AIPlatform \<Rightarrow> unit res" where
  "validateVectorDatabaseReady p =
     (if \<not> IsConditionTrue (aps_Conditions (p_Status p)) ''WeaviateDatabaseStatusReady''
      then Err (Errorf ''vector database is not ready'')
      else if aps_VectorDbServiceName (p_Status p) = []
      then Err (Errorf ''VectorDbServiceName not populated in AIPlatform status'')
      else Ok ())"

definition fillURLs :: "AIPlatform \<Rightarrow> AIServiceSpec \<Rightarrow> AIServiceSpec" where
  "fillURLs p sp =
     (let clusterDomain = (if as_ClusterDomain sp = [] then ''cluster.local'' else as_ClusterDomain sp);
          ns = ref_Namespace (as_AIPlatformRef sp)
      in sp\<lparr>as_AIPlatformUrl :=
             (if as_AIPlatformUrl sp = []
              then aps_RayServiceName (p_Status p) @ ''.'' @ ns @ ''.svc.'' @ clusterDomain @ '':8000''
              else as_AIPlatformUrl sp),
            as_VectorDbUrl :=
             (if as_VectorDbUrl sp = []
              then aps_VectorDbServiceName (p_Status p) @ ''.'' @ ns @ ''.svc.'' @ clusterDomain
              else as_VectorDbUrl sp)\<rparr>)"

definition resolvePlatform :: "'w saiaDeps \<Rightarrow> ('w, unit) saia" where
  "resolvePlatform d = bindA getCR (\<lambda>ai.
     whenA (ref_Name (as_AIPlatformRef (s_Spec ai)) \<noteq> [])
       (bindA (onErr (\<lambda>_. invalidSpec ''fetching AIPlatform failed'') (Wrapf ''fetching AIPlatform: '')
                 (getAIPlatform d (as_AIPlatformRef (s_Spec ai))))
          (\<lambda>p. thenA (liftA (mapErr (Wrapf ''AIPlatform infrastructure not ready: '')
                                (validateAIPlatformReady p)))
              (thenA (liftA (mapErr (Wrapf ''vector database not ready: '')
                                (validateVectorDatabaseReady p)))
                 (modSpec (fillURLs p))))))"

definition requireURLs :: "('w, unit) saia" where
  "requireURLs = bindA getCR (\<lambda>ai.
     if as_AIPlatformUrl (s_Spec ai) = [] then
       thenA (invalidSpec ''AIPlatformUrl is not set'')
         (failA (Errorf ''AIPlatformUrl must be set (either from AIPlatformRef or explicitly)''))
     else if as_VectorDbUrl (s_Spec ai) = [] then
       thenA (invalidSpec ''VectorDbUrl is not set'')
         (failA (Errorf ''VectorDbUrl must be set (either from AIPlatformRef or explicitly)''))
     else retA ())"

text \<open>The default requests and limits, shared with the SECA feature.\<close>

definition defaultResources :: "resource_requirements \<Rightarrow> resource_requirements" where
  "defaultResources r =
     \<lparr>rr_Requests = (case rr_Requests r of
        None \<Rightarrow> Some (fmap_of_list [(''cpu'', ''500m''), (''memory'', ''1Gi'')]) | Some m \<Rightarrow> Some m),
      rr_Limits = (case rr_Limits r of
        None \<Rightarrow> Some (fmap_of_list [(''cpu'', ''1''), (''memory'', ''2Gi'')]) | Some m \<Rightarrow> Some m)\<rparr>"

definition enrichSplunk :: "'w saiaDeps \<Rightarrow> ('w, unit) saia" where
  "enrichSplunk d s =
     (let ai = rs_cr s; w = rs_world s; cfg = as_SplunkConfiguration (s_Spec ai);
          resolver = (if sc_SecretSource cfg = SecretSourceVault
                      then VaultGetHECToken (sa_readFile d)
                      else KubernetesGetHECToken (cGet (sa_secrets d) w))
      in case ValidateAndEnrichSplunkConfig (sa_standalones d w) (sa_indexers d w) (aiNamespace ai)
                (as_ClusterDomain (s_Spec ai)) cfg resolver of
           (cfg', r) \<Rightarrow>
             (r, s\<lparr>rs_cr := ai\<lparr>s_Spec := (s_Spec ai)\<lparr>as_SplunkConfiguration := cfg'\<rparr>\<rparr>\<rparr>))"

definition validateRest :: "'w saiaDeps \<Rightarrow> ('w, unit) saia" where
  "validateRest d =
     thenA (modSpec (\<lambda>sp. sp\<lparr>as_Resources := defaultResources (as_Resources sp)\<rparr>))
     (bindA getCR (\<lambda>ai.
        if os_Path (as_TaskVolume (s_Spec ai)) = [] then
          thenA (invalidSpec ''task volume path must be set'')
            (failA (Errorf ''task volume path must be set''))
        else
          thenA (whenA (as_Replicas (s_Spec ai) = 0) (modSpec (\<lambda>sp. sp\<lparr>as_Replicas := 1\<rparr>)))
            (if sc_Endpoint (as_SplunkConfiguration (s_Spec ai)) = [] \<and>
                ref_Name (sc_SplunkCustomResourceRef (as_SplunkConfiguration (s_Spec ai))) = []
             then warnA ''SplunkConfigMissing'' ''Splunk configuration is missing assuming no logging''
             else enrichSplunk d)))"

definition validateAIService :: "'w saiaDeps \<Rightarrow> ('w, unit) saia" where
  "validateAIService d =
     thenA (modSpec (\<lambda>sp. sp\<lparr>as_ServiceTemplate := cleanServiceTemplate (as_ServiceTemplate sp)\<rparr>))
       (if sa_getenv d ''RELATED_IMAGE_POST_INSTALL_HOOK'' = [] then
          thenA (invalidSpec ''RELATED_IMAGE_POST_INSTALL_HOOK must be set'')
            (failA (Errorf ''RELATED_IMAGE_POST_INSTALL_HOOK must be set''))
        else bindA getCR (\<lambda>ai.
          if ref_Name (as_AIPlatformRef (s_Spec ai)) = [] \<and> as_AIPlatformUrl (s_Spec ai) = [] then
            thenA (invalidSpec ''AIPlatformRef.Name or AIPlatformUrl must be set'')
              (failA (Errorf ''either AIPlatformRef.Name or AIPlatformUrl must be set''))
          else thenA (resolvePlatform d) (thenA requireURLs (validateRest d))))"

section \<open>Service account\<close>

text \<open>\<open>r.Update(ctx, ai)\<close>: the object in memory becomes what the server stored.\<close>

definition updateSelf :: "'w saiaDeps \<Rightarrow> ('w, unit) saia" where
  "updateSelf d = bindA getCR (\<lambda>ai. bindA (updateA (sa_services d) ai) (\<lambda>ai'. modCR (\<lambda>_. ai')))"

definition reconcileServiceAccount :: "'w saiaDeps \<Rightarrow> ('w, unit) saia" where
  "reconcileServiceAccount d = bindA getCR (\<lambda>ai.
     whenA (as_ServiceAccountName (s_Spec ai) = [])
      (thenA (modSpec (\<lambda>sp. sp\<lparr>as_ServiceTemplate := cleanServiceTemplate (as_ServiceTemplate sp),
                              as_ServiceAccountName := aiName ai @ ''-sa''\<rparr>))
      (thenA (wrapA (Wrapf ''updating SA name in spec: '') (updateSelf d))
      (bindA getCR (\<lambda>ai.
         bindA (onErr (\<lambda>_. invalidSpec ''ownerref on SA failed'') (Wrapf ''ownerref on SA: '')
                  (liftA (sa_setRef d (s_Meta ai)
                     (newMeta (as_ServiceAccountName (s_Spec ai)) (aiNamespace ai)))))
           (\<lambda>m. onErr (\<lambda>_. invalidSpec ''create/update SA failed'') (Wrapf ''create/update SA: '')
              (dropA (upsertA (sa_accounts d) \<lparr>sa_Meta = m\<rparr> Ok))))))))"

section \<open>Config maps\<close>

definition saiaDefaults :: "(string \<times> string) list" where
  "saiaDefaults =
     [(''SERVICE_NAME'', ''splunk_ai_assistant''),
      (''SERVICE_INTERNAL_NAME'', ''SAIA''),
      (''SPLUNK_ISSUERS'', ''https://splunk-splunk-standalone-standalone-service:8089''),
      (''SPLUNK_AI_ASSISTANT_SERVICE_CMP'', ''true''),
      (''ENABLE_AUTHZ'', ''false''),
      (''FEATURE_CONFIG_FILE_LOCATION'', ''/etc/config/features_config.yaml''),
      (''PLATFORM_VERSION'', ''0.3.0''),
      (''SAIA_API_VERSION'', ''0.3.1''),
      (''TELEMETRY_ENV'', ''NOTLOCAL''),
      (''LOG_LEVEL'', ''info'')]"

text \<open>The loop over the defaults, whose map Go ranges over in any order.\<close>

fun mergeDefaults :: "(string \<times> string) list \<Rightarrow> smap \<Rightarrow> bool \<Rightarrow> smap \<times> bool" where
  "mergeDefaults [] data needsUpdate = (data, needsUpdate)"
| "mergeDefaults ((k, v) # rest) data needsUpdate =
     (if fmlookup data k = None \<or> mget data k = []
      then mergeDefaults rest (fmupd k v data) True
      else mergeDefaults rest data needsUpdate)"

definition newConfigMap :: "string \<Rightarrow> string \<Rightarrow> smap option \<Rightarrow> configmap" where
  "newConfigMap n ns data = \<lparr>cm_Meta = newMeta n ns, cm_Data = data\<rparr>"

text \<open>
  \<open>reflect.DeepEqual\<close> of two maps tells a nil map from an empty one, as equality of the options.
\<close>

definition createOrUpdateConfigMap :: "'w saiaDeps \<Rightarrow> string \<Rightarrow> smap \<Rightarrow> ('w, unit) saia" where
  "createOrUpdateConfigMap d name data = bindA getCR (\<lambda>ai.
     bindA (liftA (sa_setRef d (s_Meta ai) (newMeta name (aiNamespace ai)))) (\<lambda>m.
       tryA (getA (sa_configmaps d) (aiNamespace ai, name)) (\<lambda>found. case found of
           Err e \<Rightarrow> if isNotFound e
                     then dropA (createA (sa_configmaps d) \<lparr>cm_Meta = m, cm_Data = Some data\<rparr>)
                     else failA e
         | Panic p \<Rightarrow> panicA p
         | Ok cm \<Rightarrow> if cm_Data cm \<noteq> Some data
                     then dropA (updateA (sa_configmaps d) (cm\<lparr>cm_Data := Some data\<rparr>))
                     else retA ())))"

definition reconcileSAIAConfigMap :: "'w saiaDeps \<Rightarrow> ('w, unit) saia" where
  "reconcileSAIAConfigMap d = bindA getCR (\<lambda>ai.
     let cmName = aiName ai @ ''-saia-config''
     in tryA (getA (sa_configmaps d) (aiNamespace ai, cmName)) (\<lambda>found. case found of
          Err e \<Rightarrow>
            if isNotFound e then createOrUpdateConfigMap d cmName (fmap_of_list saiaDefaults)
            else thenA (invalidSpec (''failed to retrieve ConfigMap '' @ quote cmName @ '': '' @ errText e))
                   (failA (Wrapf (''fetching SAIA ConfigMap '' @ quote cmName @ '': '') e))
        | Panic p \<Rightarrow> panicA p
        | Ok cm \<Rightarrow>
            (case mergeDefaults saiaDefaults (entries (cm_Data cm)) False of
               (data, needsUpdate) \<Rightarrow>
                 if needsUpdate then
                   bindA (wrapA (Wrapf ''ownerref on ConfigMap: '')
                            (liftA (sa_setRef d (s_Meta ai) (cm_Meta cm))))
                     (\<lambda>m. dropA (updateA (sa_configmaps d) \<lparr>cm_Meta = m, cm_Data = Some data\<rparr>))
                 else retA ())))"

definition featureDefaults :: smap where
  "featureDefaults = fmap_of_list
     [(''features_config.yaml'',
       ''customization:'' @ [CHR 0x0A] @ ''  enabled_by_default: true'' @ [CHR 0x0A])]"

definition reconcileFeatureConfigMap :: "'w saiaDeps \<Rightarrow> ('w, unit) saia" where
  "reconcileFeatureConfigMap d = bindA getCR (\<lambda>ai.
     let cmName = ''splunk-'' @ aiName ai @ ''-feature-config'';
         err = warnA ''FeatureConfigMapError'';
         setRef = (\<lambda>m.
           onErr (\<lambda>_. err (''Failed to set owner reference on ConfigMap '' @ quote cmName))
             (Wrapf (''failed to set owner reference on ConfigMap '' @ quote cmName @ '': ''))
             (liftA (sa_setRef d (s_Meta ai) m)))
     in tryA (getA (sa_configmaps d) (aiNamespace ai, cmName)) (\<lambda>found. case found of
          Ok cm \<Rightarrow>
            whenA (\<not> hasOwnerReference (cm_Meta cm) (s_Meta ai))
              (bindA (setRef (cm_Meta cm)) (\<lambda>m.
                 thenA (wrapA (Wrapf (''failed to update owner reference on ConfigMap '' @ quote cmName @ '': ''))
                          (dropA (updateA (sa_configmaps d) (cm\<lparr>cm_Meta := m\<rparr>))))
                   (noteA ''FeatureConfigMapUpdated''
                      (''Added owner reference to existing ConfigMap '' @ quote cmName))))
        | Panic p \<Rightarrow> panicA p
        | Err e \<Rightarrow>
            if \<not> isNotFound e then
              thenA (err (''Failed to retrieve ConfigMap '' @ quote cmName))
                (failA (Wrapf (''failed to get ConfigMap '' @ quote cmName @ '': '') e))
            else
              bindA (setRef (newMeta cmName (aiNamespace ai))) (\<lambda>m.
                thenA (onErr (\<lambda>_. err (''Failed to create ConfigMap '' @ quote cmName))
                         (Wrapf (''failed to create ConfigMap '' @ quote cmName @ '': ''))
                         (dropA (createA (sa_configmaps d)
                            \<lparr>cm_Meta = m, cm_Data = Some featureDefaults\<rparr>)))
                  (noteA ''FeatureConfigMapCreated''
                     (''Created feature-config ConfigMap '' @ quote cmName @ '' with default content'')))))"

section \<open>Certificate\<close>

definition certReady :: "certificate \<Rightarrow> bool" where
  "certReady c = list_ex (\<lambda>x. x = (''Ready'', ''True'')) (ce_Conditions c)"

definition certSpecFor :: "AIService \<Rightarrow> certificate \<Rightarrow> certificate" where
  "certSpecFor ai c =
     c\<lparr>ce_SecretName := mt_SecretName (as_MTLS (s_Spec ai)),
       ce_IssuerRef := mt_IssuerRef (as_MTLS (s_Spec ai)),
       ce_DNSNames := mt_DNSNames (as_MTLS (s_Spec ai)),
       ce_Usages := [''server auth'', ''client auth'']\<rparr>"

definition newCertificate :: "objmeta \<Rightarrow> certificate" where
  "newCertificate m = \<lparr>ce_Meta = m, ce_SecretName = [], ce_IssuerRef = \<lparr>ir_Name = [], ir_Kind = []\<rparr>,
                       ce_DNSNames = [], ce_Usages = [], ce_Conditions = []\<rparr>"

definition reconcileCertificate :: "'w saiaDeps \<Rightarrow> ('w, unit) saia" where
  "reconcileCertificate d = bindA getCR (\<lambda>ai.
     whenA (operatorTLS ai)
       (let name = aiName ai @ ''-tls''
        in tryA (getA (sa_certs d) (aiNamespace ai, name)) (\<lambda>found.
          let missing = (case found of Err e \<Rightarrow> isNotFound e | _ \<Rightarrow> False)
          in
          thenA (whenA missing (noteA ''MTLSCertificateCreating'' ''Creating mTLS certificate''))
          (bindA (onErr (\<lambda>_. warnA ''MTLSCertificateError'' ''Failed to set owner reference on Certificate'')
                   (Wrapf ''ownerref on Certificate: '')
                   (liftA (sa_setRef d (s_Meta ai) (newMeta name (aiNamespace ai)))))
          (\<lambda>m. bindA (onErr (\<lambda>e. warnA ''MTLSCertificateCreationFailed''
                                   (''Failed to create/update Certificate: '' @ errText e))
                        (Wrapf ''create/update Certificate: '')
                        (upsertA (sa_certs d) (certSpecFor ai (newCertificate m))
                           (\<lambda>c. Ok (certSpecFor ai c))))
          (\<lambda>cert.
            thenA (whenA missing (noteA ''MTLSCertificateCreated'' ''mTLS Certificate created successfully''))
              (if \<not> certReady cert then
                 thenA (warnA ''MTLSCertificateNotReady'' ''Waiting for cert-manager to issue certificate'')
                   (failA (Errorf (''waiting for Certificate '' @ quote (om_Name (ce_Meta cert)) @
                                   '' to become Ready'')))
               else noteA ''MTLSCertificateReady'' ''mTLS certificate issued successfully'')))))))"

section \<open>Schema job\<close>

text \<open>
  The first condition that is a completed or a failed one decides; \<open>None\<close> is a running job.
\<close>

fun jobOutcome :: "(string \<times> string) list \<Rightarrow> bool option" where
  "jobOutcome [] = None"
| "jobOutcome ((t, st) # rest) =
     (if t = ''Complete'' \<and> st = ''True'' then Some True
      else if t = ''Failed'' \<and> st = ''True'' then Some False
      else jobOutcome rest)"

definition hookJob :: "'w saiaDeps \<Rightarrow> AIService \<Rightarrow> objmeta \<Rightarrow> job" where
  "hookJob d ai m =
     \<lparr>jb_Meta = m,
      jb_Template = zeroPodTemplate\<lparr>pt_Spec := zeroPodSpec\<lparr>
        ps_RestartPolicy := ''Never'',
        ps_Containers := [zeroContainer\<lparr>
          co_Name := ''vector-db-setup-container'',
          co_Image := sa_getenv d ''RELATED_IMAGE_POST_INSTALL_HOOK'',
          co_PullPolicy := ''Always'',
          co_Env := [envVar ''VECTOR_DB_URL'' (''http://'' @ as_VectorDbUrl (s_Spec ai) @ '':80''),
                     envVar ''SPLUNK_AI_ASSISTANT_SERVICE_CMP'' ''true'']\<rparr>],
        ps_Tolerations := as_Tolerations (s_Spec ai),
        ps_Affinity := Some (as_Affinity (s_Spec ai)),
        ps_ImagePullSecrets := as_ImagePullSecrets (s_Spec ai)\<rparr>\<rparr>,
      jb_Conditions = []\<rparr>"

definition setJobId :: "string \<Rightarrow> ('w, unit) saia" where
  "setJobId j = modCR (\<lambda>ai. ai\<lparr>s_Status := (s_Status ai)\<lparr>ass_SchemaJobId := j\<rparr>\<rparr>)"

definition createHookJob :: "'w saiaDeps \<Rightarrow> ('w, unit) saia" where
  "createHookJob d = bindA getCR (\<lambda>ai.
     bindA (onErr (\<lambda>_. invalidSpec ''ownerref on Job failed'') (Wrapf ''ownerref on Job: '')
              (liftA (sa_setRef d (s_Meta ai)
                 (newMeta (aiName ai @ ''-vector-db-setup-posthook'') (aiNamespace ai)))))
     (\<lambda>m. bindA (onErr (\<lambda>_. invalidSpec ''create/update Job failed'') (Wrapf ''create/update Job: '')
                   (upsertA (sa_jobs d) (hookJob d ai m) Ok))
     (\<lambda>j. thenA (setJobId (om_Name (jb_Meta j)))
        (failA (Errorf (''created Job '' @ quote (om_Name (jb_Meta j)) @ '', waiting for completion''))))))"

definition watchHookJob :: "job \<Rightarrow> ('w, unit) saia" where
  "watchHookJob j =
     (case jobOutcome (jb_Conditions j) of
        Some True \<Rightarrow> retA ()
      | Some False \<Rightarrow>
          thenA (invalidSpec (''Job '' @ quote (om_Name (jb_Meta j)) @ '' failed''))
            (failA (Errorf (''job '' @ quote (om_Name (jb_Meta j)) @ '' failed'')))
      | None \<Rightarrow> failA (Errorf (''job '' @ quote (om_Name (jb_Meta j)) @ '' is still running'')))"

definition reconcilePostInstallHook :: "'w saiaDeps \<Rightarrow> ('w, unit) saia" where
  "reconcilePostInstallHook d = bindA getCR (\<lambda>ai.
     if as_VectorDbUrl (s_Spec ai) = [] then retA ()
     else if ass_SchemaJobId (s_Status ai) = [] then createHookJob d
     else tryA (getA (sa_jobs d) (aiNamespace ai, ass_SchemaJobId (s_Status ai))) (\<lambda>found. case found of
            Ok j \<Rightarrow> watchHookJob j
          | Panic p \<Rightarrow> panicA p
          | Err e \<Rightarrow>
              if isNotFound e then thenA (setJobId []) (createHookJob d)
              else thenA (invalidSpec ''fetching Job failed'') (failA (Wrapf ''fetching Job: '' e))))"

section \<open>Deployment\<close>

definition saiaVolumes :: "AIService \<Rightarrow> volume list" where
  "saiaVolumes ai =
     \<lparr>vo_Name = ''config-volume'',
      vo_Source = VolConfigMap (''splunk-'' @ aiName ai @ ''-feature-config'')\<rparr> #
     (if operatorTLS ai
      then [\<lparr>vo_Name = ''tls'', vo_Source = VolSecret (mt_SecretName (as_MTLS (s_Spec ai)))\<rparr>] else [])"

definition saiaMounts :: "AIService \<Rightarrow> volume_mount list" where
  "saiaMounts ai =
     \<lparr>vm_Name = ''config-volume'', vm_MountPath = ''/etc/config'', vm_ReadOnly = False\<rparr> #
     (if operatorTLS ai
      then [\<lparr>vm_Name = ''tls'', vm_MountPath = ''/etc/tls'', vm_ReadOnly = True\<rparr>] else [])"

definition saiaContainerPorts :: "AIService \<Rightarrow> container_port list" where
  "saiaContainerPorts ai =
     [\<lparr>cp_Name = ''http'', cp_Port = 8080\<rparr>, \<lparr>cp_Name = ''metrics'', cp_Port = 8088\<rparr>] @
     (if operatorTLS ai then [\<lparr>cp_Name = ''https'', cp_Port = 8443\<rparr>] else [])"

definition saiaEnv :: "AIService \<Rightarrow> env_var list" where
  "saiaEnv ai =
     (let sp = s_Spec ai; vol = as_TaskVolume sp
      in [envVar ''PLATFORM_URL'' (as_AIPlatformUrl sp),
          envVar ''VECTOR_DB_URL'' (as_VectorDbUrl sp),
          envVar ''S3_BUCKET'' (extractBucketName (os_Path vol))] @
         (if hasPrefix (os_Path vol) ''minio'' \<and> os_Endpoint vol \<noteq> []
          then [envVar ''MINIO_ENDPOINT_URL'' (os_Endpoint vol)] else []) @
         (if os_SecretRef vol \<noteq> []
          then [envFromSource ''MINIO_ACCESS_KEY'' (SecretKeyRef (os_SecretRef vol) ''s3_access_key''),
                envFromSource ''MINIO_SECRET_KEY'' (SecretKeyRef (os_SecretRef vol) ''s3_secret_key'')]
          else []) @
         (if operatorTLS ai
          then [envVar ''TLS_CERT_FILE'' ''/etc/tls/tls.crt'', envVar ''TLS_KEY_FILE'' ''/etc/tls/tls.key'']
          else [envVar ''TLS_DISABLED'' ''true'']))"

text \<open>
  \<open>sort.Slice\<close> by name is not stable; the names are distinct, so the sorted list is unique.
\<close>

definition saiaSortedEnv :: "AIService \<Rightarrow> env_var list" where
  "saiaSortedEnv ai = sort_key en_Name (saiaEnv ai)"

definition lastApplied :: string where
  "lastApplied = ''kubectl.kubernetes.io/last-applied-configuration''"

definition restartedAt :: string where
  "restartedAt = ''kubectl.kubernetes.io/restartedAt''"

definition copiedKey :: "string \<Rightarrow> bool" where
  "copiedKey k \<longleftrightarrow> k \<noteq> lastApplied \<and> k \<noteq> restartedAt"

definition saiaSelector :: "AIService \<Rightarrow> smap" where
  "saiaSelector ai = fmap_of_list [(''app'', aiName ai), (''component'', aiName ai)]"

definition saiaLabels :: "AIService \<Rightarrow> smap" where
  "saiaLabels ai =
     overlay (fmap_of_list [(''app'', aiName ai), (''component'', aiName ai), (''area'', ''ml''), (''team'', ''ml'')])
       (om_Labels (s_Meta ai))"

definition saiaAnnotations :: "AIService \<Rightarrow> smap" where
  "saiaAnnotations ai =
     overlayIf copiedKey
       (fmap_of_list [(''prometheus.io/port'', ''8088''), (''prometheus.io/path'', ''/metrics''),
                      (''prometheus.io/scheme'', ''http'')])
       (om_Annotations (s_Meta ai))"

definition healthProbe :: "int32 \<Rightarrow> probe" where
  "healthProbe delay = \<lparr>pr_Path = ''/health'', pr_Port = 8080, pr_InitialDelaySeconds = delay,
                        pr_PeriodSeconds = 30, pr_FailureThreshold = 5\<rparr>"

definition saiaContainer :: "'w saiaDeps \<Rightarrow> AIService \<Rightarrow> container" where
  "saiaContainer d ai = zeroContainer\<lparr>
     co_Name := aiName ai, co_Image := sa_getenv d ''RELATED_IMAGE_SAIA_API'', co_PullPolicy := ''Always'',
     co_Ports := saiaContainerPorts ai, co_Mounts := saiaMounts ai, co_Resources := as_Resources (s_Spec ai),
     co_Env := saiaSortedEnv ai, co_EnvFrom := [aiName ai @ ''-saia-config''],
     co_Liveness := Some (healthProbe 0), co_Readiness := Some (healthProbe 0),
     co_Startup := Some (healthProbe 10)\<rparr>"

definition mutateDeployment :: "'w saiaDeps \<Rightarrow> AIService \<Rightarrow> deployment \<Rightarrow> deployment" where
  "mutateDeployment d ai dep =
     dep\<lparr>dp_Meta := (dp_Meta dep)\<lparr>om_Labels := Some (saiaLabels ai),
                                  om_Annotations := Some (saiaAnnotations ai)\<rparr>,
         dp_Replicas := Some (as_Replicas (s_Spec ai)),
         dp_Selector := (case dp_Selector dep of None \<Rightarrow> Some (saiaSelector ai) | Some m \<Rightarrow> Some m),
         dp_Template := \<lparr>pt_Labels = Some (saiaSelector ai), pt_Annotations = Some (saiaAnnotations ai),
           pt_Spec = zeroPodSpec\<lparr>ps_ServiceAccountName := as_ServiceAccountName (s_Spec ai),
             ps_Containers := [saiaContainer d ai], ps_Volumes := saiaVolumes ai,
             ps_Affinity := Some (as_Affinity (s_Spec ai)),
             ps_Tolerations := as_Tolerations (s_Spec ai),
             ps_ImagePullSecrets := as_ImagePullSecrets (s_Spec ai)\<rparr>\<rparr>\<rparr>"

definition reconcileSAIADeployment :: "'w saiaDeps \<Rightarrow> ('w, unit) saia" where
  "reconcileSAIADeployment d = bindA getCR (\<lambda>ai.
     let name = aiName ai @ ''-saia-deployment''
     in bindA (onErr (\<lambda>_. invalidSpec ''ownerref on Deployment failed'') (Wrapf ''ownerref on Deployment: '')
                 (liftA (sa_setRef d (s_Meta ai) (newMeta name (aiNamespace ai)))))
          (\<lambda>m. onErr (\<lambda>_. invalidSpec ''create/update Deployment failed'') (Wrapf ''create/update Deployment: '')
             (dropA (upsertA (sa_deployments d) ((newDeployment name (aiNamespace ai))\<lparr>dp_Meta := m\<rparr>)
                (\<lambda>dep. Ok (mutateDeployment d ai dep))))))"

section \<open>Service and service monitor\<close>

definition svcPort :: "string \<Rightarrow> int32 \<Rightarrow> service_port" where
  "svcPort n p = \<lparr>sp_Name = n, sp_Port = p, sp_TargetPort = p, sp_NodePort = 0\<rparr>"

definition saiaPorts :: "AIService \<Rightarrow> service_port list" where
  "saiaPorts ai =
     [svcPort ''http'' 8080, svcPort ''metrics'' 8088] @
     (if operatorTLS ai then [svcPort ''https'' 8443] else [])"

text \<open>The inner loop: a later template port of the same name wins over an earlier one.\<close>

fun templateNodePort :: "service_port list \<Rightarrow> service_port \<Rightarrow> service_port" where
  "templateNodePort [] port = port"
| "templateNodePort (t # ts) port =
     templateNodePort ts
       (if sp_Name port = sp_Name t \<and> sp_NodePort t \<noteq> 0
        then port\<lparr>sp_NodePort := sp_NodePort t\<rparr> else port)"

text \<open>
  The slice \<open>svc.Spec.Ports\<close> shares its array with \<open>ports\<close>, so the node ports set through it are
  the ones the callback writes.
\<close>

definition typedPorts :: "service \<Rightarrow> AIService \<Rightarrow> string \<times> service_port list" where
  "typedPorts tpl ai =
     (if svc_Type tpl = ''LoadBalancer'' then (''LoadBalancer'', saiaPorts ai)
      else if svc_Type tpl = ''NodePort'' then (''NodePort'', map (templateNodePort (svc_Ports tpl)) (saiaPorts ai))
      else (''ClusterIP'', saiaPorts ai))"

definition reconcileSAIAService :: "'w saiaDeps \<Rightarrow> ('w, unit) saia" where
  "reconcileSAIAService d = bindA getCR (\<lambda>ai.
     let tpl = cleanServiceTemplate (as_ServiceTemplate (s_Spec ai));
         (ty, ports) = typedPorts tpl ai;
         meta = (newMeta (aiName ai @ ''-saia-service'') (aiNamespace ai))
           \<lparr>om_Labels := Some (overlay (fmap_of_list [(''app'', aiName ai)]) (om_Labels (s_Meta ai)))\<rparr>
     in if fmfilter copiedKey (entries (om_Annotations (s_Meta ai))) \<noteq> fmempty
        then panicA ''assignment to entry in nil map''
        else bindA (onErr (\<lambda>_. invalidSpec ''ownerref on Service failed'') (Wrapf ''ownerref on Service: '')
                      (liftA (sa_setRef d (s_Meta ai) meta)))
          (\<lambda>m. onErr (\<lambda>_. invalidSpec ''create/update Service failed'') (Wrapf ''create/update Service: '')
             (dropA (upsertA (sa_svcs d)
                \<lparr>svc_Meta = m, svc_Selector = saiaSelector ai, svc_Ports = ports, svc_Type = ty, svc_Status = []\<rparr>
                (\<lambda>svc. Ok (svc\<lparr>svc_Selector := saiaSelector ai, svc_Ports := ports\<rparr>))))))"

definition monitorSpec :: "AIService \<Rightarrow> service_monitor \<Rightarrow> service_monitor" where
  "monitorSpec ai sm = sm\<lparr>sm_Selector := saiaSelector ai,
     sm_Endpoints := [(''metrics'', mc_Path (as_Metrics (s_Spec ai)), ''http'')]\<rparr>"

definition reconcileServiceMonitor :: "'w saiaDeps \<Rightarrow> ('w, unit) saia" where
  "reconcileServiceMonitor d = bindA getCR (\<lambda>ai.
     whenA (mc_Enabled (as_Metrics (s_Spec ai)))
       (bindA (liftA (sa_setRef d (s_Meta ai) (newMeta (aiName ai @ ''-metrics'') (aiNamespace ai))))
          (\<lambda>m. dropA (upsertA (sa_monitors d)
             (monitorSpec ai \<lparr>sm_Meta = m, sm_Selector = fmempty, sm_Endpoints = []\<rparr>)
             (\<lambda>sm. Ok (monitorSpec ai sm))))))"

section \<open>Reconcile\<close>

definition saiaStages :: "'w saiaDeps \<Rightarrow> ('w, AIService) stage list" where
  "saiaStages d =
     [(''Validate'', validateAIService d),
      (''ServiceAccount'', reconcileServiceAccount d),
      (''SAIAConfigMap'', reconcileSAIAConfigMap d),
      (''FeatureConfigMap'', reconcileFeatureConfigMap d),
      (''Certificate'', reconcileCertificate d),
      (''PostInstallHook'', reconcilePostInstallHook d),
      (''SAIADeployment'', reconcileSAIADeployment d),
      (''SAIAService'', reconcileSAIAService d),
      (''ServiceMonitor'', reconcileServiceMonitor d)]"

definition saiaStageNames :: "string list" where
  "saiaStageNames = [''Validate'', ''ServiceAccount'', ''SAIAConfigMap'', ''FeatureConfigMap'',
     ''Certificate'', ''PostInstallHook'', ''SAIADeployment'', ''SAIAService'', ''ServiceMonitor'']"

text \<open>
  The deferred function: the status is set and sent whatever the outcome, its own error ignored.
\<close>

definition withStatus :: "condition list \<Rightarrow> AIService \<Rightarrow> AIService" where
  "withStatus cs ai =
     ai\<lparr>s_Status := (s_Status ai)\<lparr>ass_Conditions := cs,
                                  ass_ObservedGeneration := om_Generation (s_Meta ai)\<rparr>\<rparr>"

definition publishService ::
  "('w, AIService) client \<Rightarrow> condition list \<Rightarrow> ('w, AIService) rstate \<Rightarrow> ('w, AIService) rstate" where
  "publishService c cs s =
     (let ai = withStatus cs (rs_cr s)
      in case cStatusUpdate c (rs_world s) ai of
           (w, Ok ai') \<Rightarrow> s\<lparr>rs_world := w, rs_cr := ai'\<rparr>
         | (w, _) \<Rightarrow> s\<lparr>rs_world := w, rs_cr := ai\<rparr>)"

definition SaiaReconcile :: "'w saiaDeps \<Rightarrow> (nat \<Rightarrow> nat) \<Rightarrow> ('w, unit) saia" where
  "SaiaReconcile d clock s =
     (case runStages clock (saiaStages d) [] s of
        (r, cs, t) \<Rightarrow> (r, publishService (sa_services d) cs t))"

end
