(* ===== verification/Seca.thy ===== *)
theory Seca
  imports Saia
begin

text \<open>
  The SECA feature (\<open>pkg/ai/features/seca\<close>) and the registry of features
  (\<open>pkg/ai/features/registry.go\<close>). Its reconciler works on a fresh AIService and not on its
  argument, so the resource in memory of a run is the zero AIService.
\<close>

section \<open>Resources\<close>

record opaque_secret =
  os_Meta :: objmeta
  os_StringData :: smap

definition secaConfigMap :: "string \<Rightarrow> string \<Rightarrow> configmap" where
  "secaConfigMap namespace name =
     newConfigMap (name @ ''-seca-config'') namespace (Some (fmap_of_list [(''TOAD_FEATURE_ENABLED'', ''true'')]))"

definition secaSecret :: "string \<Rightarrow> string \<Rightarrow> opaque_secret" where
  "secaSecret namespace name =
     \<lparr>os_Meta = newMeta (name @ ''-seca-secret'') namespace,
      os_StringData = fmap_of_list [(''API_TOKEN'', ''replace-me'')]\<rparr>"

definition secaDeployment :: "string \<Rightarrow> string \<Rightarrow> deployment" where
  "secaDeployment namespace name =
     (let labels = fmap_of_list [(''app'', ''seca'')]
      in \<lparr>dp_Meta = (newMeta (name @ ''-seca'') namespace)\<lparr>om_Labels := Some labels\<rparr>,
          dp_Replicas = Some 1, dp_Selector = Some labels,
          dp_Template = zeroPodTemplate\<lparr>pt_Labels := Some labels,
            pt_Spec := zeroPodSpec\<lparr>ps_Containers := [zeroContainer\<lparr>
              co_Name := ''seca'', co_Image := ''docker.io/splunk/SECA:latest'',
              co_Env := [envFromSource ''TOAD_CONFIG''
                (ConfigMapKeyRef (name @ ''-seca-config'') ''TOAD_FEATURE_ENABLED'')]\<rparr>]\<rparr>\<rparr>\<rparr>)"

definition secaService :: "string \<Rightarrow> string \<Rightarrow> service" where
  "secaService namespace name =
     \<lparr>svc_Meta = newMeta (name @ ''-seca-svc'') namespace,
      svc_Selector = fmap_of_list [(''app'', ''seca'')],
      svc_Ports = [\<lparr>sp_Name = ''http'', sp_Port = 8080, sp_TargetPort = 0, sp_NodePort = 0\<rparr>],
      svc_Type = [], svc_Status = []\<rparr>"

text \<open>The list of client objects, each of its kind.\<close>

datatype seca_object =
    ObjConfigMap configmap
  | ObjSecret opaque_secret
  | ObjDeployment deployment
  | ObjService service

definition BuildResources :: "string \<Rightarrow> string \<Rightarrow> seca_object list" where
  "BuildResources namespace name =
     [ObjConfigMap (secaConfigMap namespace name), ObjSecret (secaSecret namespace name),
      ObjDeployment (secaDeployment namespace name), ObjService (secaService namespace name)]"

section \<open>Validation\<close>

definition secaPlatformURLs :: "'w saiaDeps \<Rightarrow> ('w, unit) saia" where
  "secaPlatformURLs d = bindA getCR (\<lambda>ai.
     whenA (ref_Name (as_AIPlatformRef (s_Spec ai)) \<noteq> [])
       (bindA (wrapA (Wrapf ''fetching AIPlatform: '')
                 (getA (sa_platforms d) (aiNamespace ai, ref_Name (as_AIPlatformRef (s_Spec ai)))))
          (\<lambda>plat.
            let ns = ref_Namespace (as_AIPlatformRef (s_Spec ai)) @ ''.svc.cluster.local''
            in modSpec (\<lambda>sp. sp\<lparr>
                 as_AIPlatformUrl := aps_RayServiceName (p_Status plat) @ ''.'' @ ns @ '':8000'',
                 as_VectorDbUrl := aps_VectorDbServiceName (p_Status plat) @ ''.'' @ ns\<rparr>))))"

definition secaValidate :: "'w saiaDeps \<Rightarrow> ('w, unit) saia" where
  "secaValidate d =
     (if sa_getenv d ''RELATED_IMAGE_POST_INSTALL_HOOK'' = []
      then failA (Errorf ''RELATED_IMAGE_POST_INSTALL_HOOK must be set'')
      else thenA (secaPlatformURLs d) (bindA getCR (\<lambda>ai.
        if ref_Name (as_AIPlatformRef (s_Spec ai)) = [] \<and> as_AIPlatformUrl (s_Spec ai) = []
        then failA (Errorf ''either AIPlatformRef.Name or AIPlatformUrl must be set'')
        else if as_AIPlatformUrl (s_Spec ai) = [] \<and> as_VectorDbUrl (s_Spec ai) = []
        then failA (Errorf ''either AIPlatformUrl or VectorDbUrl must be set'')
        else thenA (modSpec (\<lambda>sp. sp\<lparr>as_Resources := defaultResources (as_Resources sp)\<rparr>))
          (if os_Path (as_TaskVolume (s_Spec ai)) = []
           then failA (Errorf ''task volume path must be set'')
           else whenA (as_Replicas (s_Spec ai) = 0) (modSpec (\<lambda>sp. sp\<lparr>as_Replicas := 1\<rparr>))))))"

section \<open>Reconcile\<close>

definition secaStages :: "'w saiaDeps \<Rightarrow> ('w, AIService) stage list" where
  "secaStages d = [(''Validate'', secaValidate d)]"

definition secaStageNames :: "string list" where
  "secaStageNames = [''Validate'']"

text \<open>
  \<open>ai := &aiv1.AIService{}\<close> shadows the argument: the stages and the status update see the zero
  AIService, and the caller's object is as it was.
\<close>

definition SecaReconcile :: "'w saiaDeps \<Rightarrow> (nat \<Rightarrow> nat) \<Rightarrow> ('w, unit) saia" where
  "SecaReconcile d clock s =
     (case runStages clock (secaStages d) [] (s\<lparr>rs_cr := zeroAIService\<rparr>) of
        (r, cs, t) \<Rightarrow> (r, (publishService (sa_services d) cs t)\<lparr>rs_cr := rs_cr s\<rparr>))"

interpretation seca_stages: staged secaStageNames
  by unfold_locales (simp_all add: secaStageNames_def)

section \<open>The registry\<close>

text \<open>Both factories always succeed, so a factory is the reconciler it makes.\<close>

definition FeatureFactories :: "string \<Rightarrow> ('w saiaDeps \<Rightarrow> (nat \<Rightarrow> nat) \<Rightarrow> ('w, unit) saia) option" where
  "FeatureFactories name =
     (if name = ''saia'' then Some SaiaReconcile
      else if name = ''seca'' then Some SecaReconcile
      else None)"

text \<open>
  C35: the SECA feature cannot succeed: whatever AIService it is given, its reconcile fails in
  validation, for the missing image or for a platform reference that its fresh object never has,
  leaves the AIService untouched, and the object it sends a status for has no name.
\<close>

theorem seca_never_succeeds:
  "\<exists>msg t. SecaReconcile d clock s = (Err (Errorf msg), t) \<and>
     msg \<in> {''RELATED_IMAGE_POST_INSTALL_HOOK must be set'',
             ''either AIPlatformRef.Name or AIPlatformUrl must be set''} \<and>
     rs_cr t = rs_cr s \<and> rs_events t = rs_events s \<and>
     rs_world t = fst (cStatusUpdate (sa_services d) (rs_world s)
       (withStatus [stageCond (clock 0) ''Validate'' (Some (Errorf msg))] zeroAIService))"
proof (cases "sa_getenv d ''RELATED_IMAGE_POST_INSTALL_HOOK'' = []")
  case True
  then show ?thesis
    by (simp add: SecaReconcile_def secaStages_def secaValidate_def act_defs publishService_def Let_def
        split: prod.split res.split)
next
  case False
  have "ref_Name (as_AIPlatformRef (s_Spec zeroAIService)) = []" "as_AIPlatformUrl (s_Spec zeroAIService) = []"
    by (simp_all add: zero_defs)
  then show ?thesis
    using False
    by (simp add: SecaReconcile_def secaStages_def secaValidate_def secaPlatformURLs_def act_defs
        publishService_def Let_def split: prod.split res.split)
qed

end
