(* ===== verification/Controllers.thy ===== *)
theory Controllers
  imports Predicates Platform Seca
begin

text \<open>
  The two controllers (\<open>internal/controller/aiplatform_controller.go\<close> and
  \<open>aiservice_controller.go\<close>): the watches they set up and the reconcile entry points around the
  platform and feature reconcilers, with deletion, requeueing and the final status update. Calls to
  the telemetry package are left out. How controller-runtime combines a watch's predicates with the
  controller's event filter, and which owner reference is the controlling one, are parameters.
\<close>

section \<open>Watches\<close>

text \<open>
  An event of a watched object asks for a reconcile of the object itself (\<open>For\<close>), of its
  controlling owner (\<open>Owns\<close>), or of the objects that a map function names (\<open>Watches\<close>).
\<close>

datatype watch_target = TargetSelf | TargetOwner | TargetMapped

record 'v watch =
  wt_Kind :: kind
  wt_Target :: watch_target
  wt_Predicates :: "'v predicate list"

record 'v controller =
  cn_Name :: string
  cn_Watches :: "'v watch list"
  cn_Filter :: "'v predicate list"
  cn_MaxWorkers :: int

definition owns :: "kind \<Rightarrow> 'v predicate \<Rightarrow> 'v watch" where
  "owns k p = \<lparr>wt_Kind = k, wt_Target = TargetOwner, wt_Predicates = [p]\<rparr>"

definition specOrAnnotations :: "'v predicate" where
  "specOrAnnotations = PredOr [Funcs GenerationChangedPredicate, Funcs AnnotationChangedPredicate]"

definition eventFilter :: "'v predicate" where
  "eventFilter = PredOr [Funcs GenerationChangedPredicate, Funcs AnnotationChangedPredicate,
     Funcs LabelChangedPredicate]"

definition aiPlatformController :: "'v controller" where
  "aiPlatformController =
     \<lparr>cn_Name = ''aiplatform'',
      cn_Watches =
        [\<lparr>wt_Kind = KAIPlatform, wt_Target = TargetSelf, wt_Predicates = []\<rparr>,
         owns KAIService specOrAnnotations,
         owns KRayService LibGenerationChanged,
         owns KRayCluster LibGenerationChanged,
         owns KStatefulSet (Funcs StatefulSetChangedPredicate),
         owns KDeployment (Funcs DeploymentChangedPredicate),
         owns KService LibGenerationChanged,
         owns KServiceAccount LibGenerationChanged,
         owns KConfigMap (Funcs ConfigMapChangedPredicate),
         owns KSecret (Funcs SecretChangedPredicate),
         owns KRole LibGenerationChanged,
         owns KRoleBinding LibGenerationChanged],
      cn_Filter = [eventFilter],
      cn_MaxWorkers = TotalWorker\<rparr>"

definition aiServiceController :: "'v controller" where
  "aiServiceController =
     \<lparr>cn_Name = ''aiservice'',
      cn_Watches =
        [\<lparr>wt_Kind = KAIService, wt_Target = TargetSelf, wt_Predicates = []\<rparr>,
         owns KServiceAccount LibGenerationChanged,
         owns KConfigMap (Funcs ConfigMapChangedPredicate),
         owns KSecret (Funcs SecretChangedPredicate),
         owns KCertificate LibGenerationChanged,
         owns KJob (Funcs JobChangedPredicate),
         owns KDeployment (Funcs DeploymentChangedPredicate),
         owns KService LibGenerationChanged,
         owns KServiceMonitor LibGenerationChanged,
         \<lparr>wt_Kind = KAIPlatform, wt_Target = TargetMapped, wt_Predicates = [specOrAnnotations]\<rparr>],
      cn_Filter = [eventFilter],
      cn_MaxWorkers = TotalWorker\<rparr>"

text \<open>
  By the documentation of \<open>WithEventFilter\<close> the filter applies to every watch, and an event
  passes when all predicates accept it.
\<close>

definition builderDocs ::
  "('v predicate \<Rightarrow> 'v wevent \<Rightarrow> bool) \<Rightarrow> ('v controller \<Rightarrow> 'v watch \<Rightarrow> 'v wevent \<Rightarrow> bool) \<Rightarrow> bool" where
  "builderDocs run delivers \<longleftrightarrow>
     (\<forall>c w e. w \<in> set (cn_Watches c) \<longrightarrow>
        delivers c w e = list_all (\<lambda>p. run p e) (cn_Filter c @ wt_Predicates w))"

section \<open>Finalizers\<close>

fun containsString :: "string list \<Rightarrow> string \<Rightarrow> bool" where
  "containsString [] s = False"
| "containsString (x # xs) s = (if x = s then True else containsString xs s)"

fun removeString :: "string list \<Rightarrow> string \<Rightarrow> string list" where
  "removeString [] s = []"
| "removeString (x # xs) s = (if x \<noteq> s then x # removeString xs s else removeString xs s)"

definition aiPlatformFinalizer :: string where
  "aiPlatformFinalizer = ''ai.splunk.com/aiplatform-protect''"

definition aiServiceFinalizer :: string where
  "aiServiceFinalizer = ''ai.splunk.com/aiservice-protect''"

text \<open>\<open>ctrl.Result\<close>: the seconds of \<open>RequeueAfter\<close>; zero is no requeue.\<close>

type_synonym requeue = nat

definition noRequeue :: "('w, 'c, requeue) act" where
  "noRequeue = retA 0"

section \<open>The AIPlatform controller\<close>

text \<open>The index function on AIServices: the name of the AIPlatform that controls the object.\<close>

definition childIndex :: "(objmeta \<Rightarrow> owner_ref option) \<Rightarrow> AIService \<Rightarrow> string list" where
  "childIndex controllerOf svc =
     (case controllerOf (s_Meta svc) of
        None \<Rightarrow> []
      | Some o1 \<Rightarrow> if ow_APIVersion o1 \<noteq> ''ai.splunk.com/v1'' \<or> ow_Kind o1 \<noteq> ''AIPlatform'' then []
                  else [ow_Name o1])"

text \<open>Deletes are best effort: their errors are dropped.\<close>

fun deleteServices :: "'w platDeps \<Rightarrow> AIService list \<Rightarrow> ('w, unit) plat" where
  "deleteServices d [] = retA ()"
| "deleteServices d (x # xs) =
     tryA (callA (\<lambda>w. cDelete (pd_services d) w (metaKey (s_Meta x)))) (\<lambda>_. deleteServices d xs)"

definition finalizePlatform :: "'w platDeps \<Rightarrow> ('w, bool) plat" where
  "finalizePlatform d = bindA getCR (\<lambda>p.
     bindA (listChildren d p) (\<lambda>children.
       thenA (deleteServices d children) (retA (children = []))))"

text \<open>A fetch into a zero object; a failed one leaves it.\<close>

definition fetchA :: "('w, 'c) client \<Rightarrow> nname \<Rightarrow> 'c \<Rightarrow> ('w, 'c, unit) act" where
  "fetchA c k z = thenA (modCR (\<lambda>_. z)) (bindA (getA c k) (\<lambda>x. modCR (\<lambda>_. x)))"

definition dropFinalizer :: "string \<Rightarrow> objmeta \<Rightarrow> objmeta" where
  "dropFinalizer f m = m\<lparr>om_Finalizers := removeString (om_Finalizers m) f\<rparr>"

definition deletePlatform :: "'w platDeps \<Rightarrow> ('w, requeue) plat" where
  "deletePlatform d = bindA getCR (\<lambda>p.
     if containsString (om_Finalizers (p_Meta p)) aiPlatformFinalizer then
       bindA (finalizePlatform d) (\<lambda>fin.
         if \<not> fin then retA 5
         else thenA (modCR (\<lambda>p. p\<lparr>p_Meta := dropFinalizer aiPlatformFinalizer (p_Meta p)\<rparr>))
                (bindA getCR (\<lambda>p. thenA (dropA (updateA (pd_platforms d) p)) noRequeue)))
     else noRequeue)"

definition ReconcileAIPlatform :: "'w platDeps \<Rightarrow> (nat \<Rightarrow> nat) \<Rightarrow> nname \<Rightarrow> ('w, requeue) plat" where
  "ReconcileAIPlatform d clock key =
     tryA (fetchA (pd_platforms d) key zeroAIPlatform) (\<lambda>r. case r of
       Err e \<Rightarrow> if isNotFound e then noRequeue else failA e
     | Panic x \<Rightarrow> panicA x
     | Ok _ \<Rightarrow> bindA getCR (\<lambda>p.
         if om_DeletionTimestamp (p_Meta p) \<noteq> None then deletePlatform d
         else thenA (PlatformReconcile d clock) noRequeue))"

text \<open>Not called.\<close>

definition platformReconcileStatus :: "'w platDeps \<Rightarrow> nat \<Rightarrow> ('w, unit) plat" where
  "platformReconcileStatus d now =
     thenA (modCR (\<lambda>p. p\<lparr>p_Status := (p_Status p)\<lparr>
         aps_Conditions := [mkCond now ''Ready'' ''Reconciled'' ''All resources are up-to-date'' True],
         aps_ObservedGeneration := om_Generation (p_Meta p)\<rparr>\<rparr>))
       (bindA getCR (\<lambda>p. dropA (callA (\<lambda>w. cStatusUpdate (pd_platforms d) w p))))"

section \<open>The AIService controller\<close>

definition featureName :: "AIService \<Rightarrow> string" where
  "featureName ai = (if fs_Name (as_Feature (s_Spec ai)) = [] then ''unknown'' else fs_Name (as_Feature (s_Spec ai)))"

text \<open>
  Neither feature reconciler has a \<open>Finalize\<close> method, so the type assertion fails and nothing runs
  before the finalizer is removed.
\<close>

definition deleteAIService :: "'w saiaDeps \<Rightarrow> ('w, requeue) saia" where
  "deleteAIService d = bindA getCR (\<lambda>ai.
     if containsString (om_Finalizers (s_Meta ai)) aiServiceFinalizer then
       thenA (modCR (\<lambda>ai. ai\<lparr>s_Meta := dropFinalizer aiServiceFinalizer (s_Meta ai)\<rparr>))
         (bindA getCR (\<lambda>ai. thenA (dropA (updateA (sa_services d) ai)) noRequeue))
     else noRequeue)"

definition reconcileStatus :: "'w saiaDeps \<Rightarrow> nat \<Rightarrow> ('w, unit) saia" where
  "reconcileStatus d now =
     thenA (modCR (\<lambda>ai. ai\<lparr>s_Status := (s_Status ai)\<lparr>
         ass_ObservedGeneration := om_Generation (s_Meta ai),
         ass_Conditions := (let cs = ass_Conditions (s_Status ai)
           in if list_ex (\<lambda>c. c_Type c = ''Ready'') cs then cs
              else cs @ [mkCond now ''Ready'' ''Reconciled'' ''All resources are up-to-date'' True])\<rparr>\<rparr>))
       (bindA getCR (\<lambda>ai. dropA (callA (\<lambda>w. cStatusUpdate (sa_services d) w ai))))"

definition ReconcileAIService ::
  "'w saiaDeps \<Rightarrow> (nat \<Rightarrow> nat) \<Rightarrow> nat \<Rightarrow> nname \<Rightarrow> ('w, requeue) saia" where
  "ReconcileAIService d clock now key =
     tryA (fetchA (sa_services d) key zeroAIService) (\<lambda>r. case r of
       Err e \<Rightarrow> if isNotFound e then noRequeue else failA e
     | Panic x \<Rightarrow> panicA x
     | Ok _ \<Rightarrow> bindA getCR (\<lambda>ai.
         if om_DeletionTimestamp (s_Meta ai) \<noteq> None then deleteAIService d
         else case FeatureFactories (featureName ai) of
           None \<Rightarrow> retA 10
         | Some reconcile \<Rightarrow> thenA (reconcile d clock) (thenA (reconcileStatus d now) noRequeue)))"

text \<open>Which AIServices a change of a platform asks to reconcile; an error of the list gives none.\<close>

definition refersTo :: "AIPlatform \<Rightarrow> AIService \<Rightarrow> bool" where
  "refersTo p svc \<longleftrightarrow>
     ref_Name (as_AIPlatformRef (s_Spec svc)) = om_Name (p_Meta p) \<and>
     (ref_Namespace (as_AIPlatformRef (s_Spec svc)) = om_Namespace (p_Meta p) \<or>
      ref_Namespace (as_AIPlatformRef (s_Spec svc)) = [])"

definition findAIServicesForPlatform :: "'w saiaDeps \<Rightarrow> 'w \<Rightarrow> AIPlatform \<Rightarrow> nname list" where
  "findAIServicesForPlatform d w p =
     (case cList (sa_services d) w
          \<lparr>lo_Namespace = om_Namespace (p_Meta p), lo_Labels = fmempty, lo_Controller = None\<rparr> of
        Ok svcs \<Rightarrow> map (\<lambda>svc. metaKey (s_Meta svc)) (filter (refersTo p) svcs)
      | _ \<Rightarrow> [])"

end
