(* ===== verification/SaiaCorrect.thy ===== *)
theory SaiaCorrect
  imports Saia "HOL-Library.Multiset"
begin

text \<open>
  What the SAIA reconciler guarantees: the conditions it publishes, the gate on the platform's
  state, the merge of its config maps, the schema job, the deployment and the service.
\<close>

definition svKey :: "AIService \<Rightarrow> nname" where
  "svKey ai = metaKey (s_Meta ai)"

section \<open>The published conditions\<close>

interpretation saia_stages: staged saiaStageNames
  by unfold_locales (simp_all add: saiaStageNames_def)

lemma saiaStages_names [stage_simps]: "map fst (saiaStages d) = saiaStageNames"
  by (simp add: saiaStages_def saiaStageNames_def)

lemma publishService_conditions:
  assumes "statusVisible svKey s_Status c"
  shows "ass_Conditions (s_Status (rs_cr (publishService c cs s))) = cs"
  using assms
  by (auto simp: publishService_def Let_def statusVisible_def withStatus_def split: prod.splits res.splits)

lemma withStatus_simps [simp]:
  "svKey (withStatus cs ai) = svKey ai" "ass_Conditions (s_Status (withStatus cs ai)) = cs"
  by (simp_all add: withStatus_def svKey_def)

lemma publishService_visible:
  assumes "statusVisible svKey s_Status c"
  shows "cGet c (rs_world (publishService c cs s)) (svKey (rs_cr s)) = Ok (rs_cr (publishService c cs s)) \<or>
    (\<forall>ai. snd (cStatusUpdate c (rs_world s) (withStatus cs (rs_cr s))) \<noteq> Ok ai)"
proof (cases "cStatusUpdate c (rs_world s) (withStatus cs (rs_cr s))")
  case (Pair w q)
  then show ?thesis
    using assms unfolding statusVisible_def
    by (cases q) (auto simp: publishService_def Let_def dest!: spec)
qed

text \<open>
  C2: whatever happens in a reconcile of the feature, the conditions of the AIService afterwards
  are the report of that run: one True condition for each stage up to the first failure, then the
  failed stage with its error, or Ready when every stage succeeded; no type occurs twice and
  Ready is True exactly when the reconcile returned no error. The outcome is that of running the
  stages in sequence, and a read finds these conditions unless the status update itself failed.
\<close>

theorem saia_conditions_published:
  assumes "statusVisible svKey s_Status (sa_services d)" and run: "SaiaReconcile d clock s = (r, t)"
  shows "\<exists>u. inSequence (saiaStages d) s = (r, u) \<and>
    (let cs = ass_Conditions (s_Status (rs_cr t))
     in stageReport clock saiaStageNames r cs \<and> distinct (map c_Type cs) \<and>
        (IsConditionTrue cs ''Ready'' \<longleftrightarrow> r = Ok ()) \<and>
        (cGet (sa_services d) (rs_world t) (svKey (rs_cr u)) = Ok (rs_cr t) \<or>
         (\<forall>ai. snd (cStatusUpdate (sa_services d) (rs_world u) (withStatus cs (rs_cr u))) \<noteq> Ok ai)))"
proof -
  obtain cs u where u: "runStages clock (saiaStages d) [] s = (r, cs, u)"
      "t = publishService (sa_services d) cs u"
    using run by (auto simp: SaiaReconcile_def split: prod.splits)
  have report: "stageReport clock saiaStageNames r cs"
    using runStages_report [OF u(1)] by (simp add: stage_simps)
  have "ass_Conditions (s_Status (rs_cr t)) = cs"
    using publishService_conditions [OF assms(1)] u(2) by simp
  then show ?thesis
    using runStages_sequence [OF u(1)] report saia_stages.report_distinct [OF report]
      saia_stages.report_ready [OF report] publishService_visible [OF assms(1), of cs u] u(2)
    by (auto simp: Let_def)
qed

section \<open>What the stages keep\<close>

text \<open>
  A view of the AIService that neither its spec nor its status affects, such as its name or its
  annotations, is kept by every stage, if the server keeps it when the object is written back.
\<close>

locale meta_view =
  fixes Q :: "AIService \<Rightarrow> bool"
  assumes spec_free: "Q (ai\<lparr>s_Spec := x\<rparr>) = Q ai"
    and status_free: "Q (ai\<lparr>s_Status := y\<rparr>) = Q ai"
begin

lemma keeps_modSpec [keeps_intros]: "keepsCR Q (modSpec f)"
  by (auto simp: modSpec_def spec_free intro: keeps_intros)

lemma keeps_setJobId [keeps_intros]: "keepsCR Q (setJobId j)"
  by (auto simp: setJobId_def status_free intro: keeps_intros)

lemma keeps_invalidSpec [keeps_intros]: "keepsCR Q (invalidSpec msg)"
  by (simp add: invalidSpec_def keeps_calls)

lemma keeps_enrich [keeps_intros]: "keepsCR Q (enrichSplunk d)"
  by (auto simp: keepsCR_def enrichSplunk_def spec_free Let_def split: prod.splits)

lemma keeps_validate: "keepsCR Q (validateAIService d)"
  unfolding validateAIService_def resolvePlatform_def requireURLs_def validateRest_def getAIPlatform_def
  by (intro keeps_intros)

lemma keeps_hook: "keepsCR Q (reconcilePostInstallHook d)"
proof -
  have "keepsCR Q (createHookJob d)"
    unfolding createHookJob_def by (intro keeps_intros)
  moreover have "keepsCR Q (watchHookJob j)" for j
    unfolding watchHookJob_def by (auto split: option.split bool.split intro!: keeps_intros)
  ultimately show ?thesis
    unfolding reconcilePostInstallHook_def by (intro keeps_intros) auto
qed

lemma keeps_saia:
  assumes self: "keepsCR Q (updateSelf d)" and "(n, m) \<in> set (saiaStages d)"
  shows "keepsCR Q m"
proof -
  have "keepsCR Q (reconcileServiceAccount d)"
    unfolding reconcileServiceAccount_def by (intro keeps_intros self)
  moreover have "keepsCR Q (reconcileSAIAConfigMap d)"
    unfolding reconcileSAIAConfigMap_def createOrUpdateConfigMap_def Let_def by (intro keeps_intros)
  moreover have "keepsCR Q (reconcileFeatureConfigMap d)"
    unfolding reconcileFeatureConfigMap_def Let_def by (intro keeps_intros)
  moreover have "keepsCR Q (reconcileCertificate d)"
    unfolding reconcileCertificate_def Let_def by (intro keeps_intros)
  moreover have "keepsCR Q (reconcileSAIADeployment d)"
    unfolding reconcileSAIADeployment_def Let_def by (intro keeps_intros)
  moreover have "keepsCR Q (reconcileSAIAService d)"
    unfolding reconcileSAIAService_def Let_def by (intro keeps_intros)
  moreover have "keepsCR Q (reconcileServiceMonitor d)"
    unfolding reconcileServiceMonitor_def by (intro keeps_intros)
  ultimately show ?thesis
    using assms(2) keeps_validate [of d] keeps_hook [of d] by (auto simp: saiaStages_def)
qed

end

lemma keeps_updateSelf:
  fixes d :: "'w saiaDeps"
  assumes "writeVisible svKey u (sa_services d)"
    and "\<And>ai ai'. svKey ai' = svKey ai \<Longrightarrow> u ai' = u ai \<Longrightarrow> Q ai \<Longrightarrow> Q ai'"
  shows "keepsCR Q (updateSelf d)"
  unfolding keepsCR_def
proof (intro allI impI)
  fix s :: "('w, AIService) rstate" and r t
  assume Q: "Q (rs_cr s)" and run: "updateSelf d s = (r, t)"
  obtain w q where w: "cUpdate (sa_services d) (rs_world s) (rs_cr s) = (w, q)"
    by fastforce
  show "Q (rs_cr t)"
  proof (cases q)
    case (Ok x)
    then have "Q x"
      using assms(2) [OF writeVisibleD(2,3) [OF assms(1)] Q] w by blast
    then show ?thesis
      using run w Ok by (auto simp: updateSelf_def updateA_def act_defs)
  qed (use run w Q in \<open>auto simp: updateSelf_def updateA_def act_defs\<close>)
qed

section \<open>Annotations\<close>

definition hasAnnotations :: "smap option \<Rightarrow> AIService \<Rightarrow> bool" where
  "hasAnnotations m ai \<longleftrightarrow> om_Annotations (s_Meta ai) = m"

interpretation annotations: meta_view "hasAnnotations m" for m
  by unfold_locales (simp_all add: hasAnnotations_def)

definition hasKey :: "nname \<Rightarrow> AIService \<Rightarrow> bool" where
  "hasKey k ai \<longleftrightarrow> svKey ai = k"

interpretation identity: meta_view "hasKey k" for k
  by unfold_locales (simp_all add: hasKey_def svKey_def)

lemma keeps_annotations:
  assumes "writeVisible svKey (\<lambda>ai. om_Annotations (s_Meta ai)) (sa_services d)"
    and "(n, m) \<in> set (saiaStages d)"
  shows "keepsCR (hasAnnotations a) m"
  by (rule annotations.keeps_saia [OF keeps_updateSelf [OF assms(1)] assms(2)])
    (simp add: hasAnnotations_def)

lemma keeps_identity:
  assumes "writeVisible svKey u (sa_services d)" and "(n, m) \<in> set (saiaStages d)"
  shows "keepsCR (hasKey k) m"
  by (rule identity.keeps_saia [OF keeps_updateSelf [OF assms(1)] assms(2)]) (simp add: hasKey_def)

lemma service_stage_panics:
  assumes "fmlookup (entries (om_Annotations (s_Meta (rs_cr w)))) k = Some v" and "copiedKey k"
  shows "reconcileSAIAService d w = (Panic ''assignment to entry in nil map'', w)"
proof -
  have "fmfilter copiedKey (entries (om_Annotations (s_Meta (rs_cr w)))) \<noteq> fmempty"
    using assms by (metis fmempty_lookup fmlookup_filter option.distinct(1))
  then show ?thesis
    by (simp add: reconcileSAIAService_def Let_def bindA_def getCR_def panicA_def split: prod.split)
qed

text \<open>
  C34: an AIService that carries any annotation besides kubectl's two makes the service stage panic
  on a nil map: the reconcile never returns without failing, the stage's condition is never True
  and the service monitor stage is never reached.
\<close>

theorem saia_annotation_panics:
  assumes "writeVisible svKey (\<lambda>ai. om_Annotations (s_Meta ai)) (sa_services d)"
    and "statusVisible svKey s_Status (sa_services d)"
    and k: "fmlookup (entries (om_Annotations (s_Meta (rs_cr s)))) k = Some v" "copiedKey k"
    and run: "SaiaReconcile d clock s = (r, t)"
  shows "r \<noteq> Ok () \<and>
    \<not> IsConditionTrue (ass_Conditions (s_Status (rs_cr t))) ''SAIAServiceReady'' \<and>
    length (ass_Conditions (s_Status (rs_cr t))) \<le> 7"
proof -
  let ?Q = "hasAnnotations (om_Annotations (s_Meta (rs_cr s)))"
  obtain cs u where u: "runStages clock (saiaStages d) [] s = (r, cs, u)"
      "t = publishService (sa_services d) cs u"
    using run by (auto simp: SaiaReconcile_def split: prod.splits)
  have cs: "ass_Conditions (s_Status (rs_cr t)) = cs"
    using publishService_conditions [OF assms(2)] u(2) by simp
  have report: "stageReport clock saiaStageNames r cs"
    using runStages_report [OF u(1)] by (simp add: stage_simps)
  have panic: "\<exists>p. reconcileSAIAService d w = (Panic p, w)" if "?Q (rs_cr w)" for w
    using service_stage_panics [of w k v d] that k by (simp add: hasAnnotations_def)
  have split: "saiaStages d = take 7 (saiaStages d) @ (''SAIAService'', reconcileSAIAService d) #
      [(''ServiceMonitor'', reconcileServiceMonitor d)]"
    by (simp add: saiaStages_def)
  have run': "runStages clock (take 7 (saiaStages d) @ (''SAIAService'', reconcileSAIAService d) #
      [(''ServiceMonitor'', reconcileServiceMonitor d)]) [] s = (r, cs, u)"
    using u(1) split by simp
  have pre: "keepsCR ?Q (snd st)" if "st \<in> set (take 7 (saiaStages d))" for st
    using keeps_annotations [OF assms(1), of "fst st" "snd st"] in_set_takeD [OF that] by simp
  have here: "keepsCR ?Q (reconcileSAIAService d)"
    using keeps_annotations [OF assms(1), of "''SAIAService''"] by (simp add: saiaStages_def)
  have "r \<noteq> Ok () \<and> length cs \<le> length ([] :: condition list) + length (take 7 (saiaStages d))"
  proof -
    have "fst (reconcileSAIAService d w) \<noteq> Ok ()" if "?Q (rs_cr w)" for w
      using panic [OF that] by auto
    moreover have "?Q (rs_cr s)" by (simp add: hasAnnotations_def)
    ultimately have "r \<noteq> Ok () \<and> ((\<forall>w. ?Q (rs_cr w) \<longrightarrow> (\<exists>p w'. reconcileSAIAService d w = (Panic p, w'))) \<longrightarrow>
        length cs \<le> length ([] :: condition list) + length (take 7 (saiaStages d)))"
      using runStages_blocked [OF run', of ?Q] pre here by blast
    then show ?thesis using panic by blast
  qed
  then have "r \<noteq> Ok () \<and> length cs \<le> 7"
    by (simp add: saiaStages_def)
  moreover have "\<not> IsConditionTrue cs (saiaStageNames ! 7 @ ''Ready'')"
    using saia_stages.report_true_iff [OF report, of 7] calculation
    by (cases r) (auto simp: saiaStageNames_def)
  ultimately show ?thesis
    by (simp add: cs saiaStageNames_def)
qed

section \<open>Validation\<close>

lemma resolvePlatform_Ok:
  assumes "resolvePlatform d s = (Ok (), t)"
  defines "ref \<equiv> as_AIPlatformRef (s_Spec (rs_cr s))"
  shows "if ref_Name ref = [] then t = s
    else \<exists>p. cGet (sa_platforms d) (rs_world s) (ref_Namespace ref, ref_Name ref) = Ok p \<and>
      validateAIPlatformReady p = Ok () \<and> validateVectorDatabaseReady p = Ok () \<and>
      t = s\<lparr>rs_cr := (rs_cr s)\<lparr>s_Spec := fillURLs p (s_Spec (rs_cr s))\<rparr>\<rparr>"
  using assms
  by (auto simp: resolvePlatform_def getAIPlatform_def getA_def modSpec_def act_Ok_iff act_simps whenA_def)

lemma requireURLs_Ok:
  assumes "requireURLs s = (Ok (), t)"
  shows "t = s \<and> as_AIPlatformUrl (s_Spec (rs_cr s)) \<noteq> [] \<and> as_VectorDbUrl (s_Spec (rs_cr s)) \<noteq> []"
  using assms by (auto simp: requireURLs_def act_Ok_iff split: if_splits)

lemma enrichSplunk_Ok:
  assumes "enrichSplunk d s = (Ok (), t)"
  shows "\<exists>cfg. t = s\<lparr>rs_cr := (rs_cr s)\<lparr>s_Spec := (s_Spec (rs_cr s))\<lparr>as_SplunkConfiguration := cfg\<rparr>\<rparr>\<rparr>"
  using assms by (auto simp: enrichSplunk_def Let_def split: prod.splits)

definition validated :: "AIServiceSpec \<Rightarrow> bool" where
  "validated sp \<longleftrightarrow>
     as_AIPlatformUrl sp \<noteq> [] \<and> as_VectorDbUrl sp \<noteq> [] \<and> os_Path (as_TaskVolume sp) \<noteq> [] \<and>
     as_Replicas sp \<noteq> 0 \<and> rr_Requests (as_Resources sp) \<noteq> None \<and> rr_Limits (as_Resources sp) \<noteq> None"

lemma defaultResources_some:
  "rr_Requests (defaultResources r) \<noteq> None" "rr_Limits (defaultResources r) \<noteq> None"
  by (simp_all add: defaultResources_def split: option.split)

lemma validateRest_Ok:
  assumes "validateRest d s = (Ok (), t)"
    and "as_AIPlatformUrl (s_Spec (rs_cr s)) \<noteq> []" and "as_VectorDbUrl (s_Spec (rs_cr s)) \<noteq> []"
  shows "validated (s_Spec (rs_cr t)) \<and> rs_world t = rs_world s \<and>
    as_AIPlatformUrl (s_Spec (rs_cr t)) = as_AIPlatformUrl (s_Spec (rs_cr s)) \<and>
    as_VectorDbUrl (s_Spec (rs_cr t)) = as_VectorDbUrl (s_Spec (rs_cr s))"
  using assms defaultResources_some
  by (auto simp: validateRest_def modSpec_def warnA_def act_Ok_iff whenA_def validated_def
      dest!: enrichSplunk_Ok split: if_splits)

text \<open>
  C20: a successful validation means a usable spec (both URLs, a task volume path, replicas,
  resource requests and limits), reads the cluster only, keeps URLs the user gave, and, for a
  service that refers to a platform, that the platform had published both of its status stages as
  True with both service names, from which the missing URLs were derived.
\<close>

theorem saia_validate_gate:
  assumes run: "validateAIService d s = (Ok (), t)"
  defines "sp \<equiv> s_Spec (rs_cr s)" and "sp' \<equiv> s_Spec (rs_cr t)"
  shows "sa_getenv d ''RELATED_IMAGE_POST_INSTALL_HOOK'' \<noteq> [] \<and> validated sp' \<and> rs_world t = rs_world s \<and>
    (as_AIPlatformUrl sp \<noteq> [] \<longrightarrow> as_AIPlatformUrl sp' = as_AIPlatformUrl sp) \<and>
    (as_VectorDbUrl sp \<noteq> [] \<longrightarrow> as_VectorDbUrl sp' = as_VectorDbUrl sp) \<and>
    (ref_Name (as_AIPlatformRef sp) \<noteq> [] \<longrightarrow>
      (\<exists>p. cGet (sa_platforms d) (rs_world s)
             (ref_Namespace (as_AIPlatformRef sp), ref_Name (as_AIPlatformRef sp)) = Ok p \<and>
           IsConditionTrue (aps_Conditions (p_Status p)) ''RayServiceStatusReady'' \<and>
           IsConditionTrue (aps_Conditions (p_Status p)) ''WeaviateDatabaseStatusReady'' \<and>
           aps_RayServiceName (p_Status p) \<noteq> [] \<and> aps_VectorDbServiceName (p_Status p) \<noteq> [] \<and>
           as_AIPlatformUrl sp' = as_AIPlatformUrl (fillURLs p sp) \<and>
           as_VectorDbUrl sp' = as_VectorDbUrl (fillURLs p sp)))"
proof -
  let ?clean = "\<lambda>sp. sp\<lparr>as_ServiceTemplate := cleanServiceTemplate (as_ServiceTemplate sp)\<rparr>"
  let ?s0 = "s\<lparr>rs_cr := (rs_cr s)\<lparr>s_Spec := ?clean sp\<rparr>\<rparr>"
  have env: "sa_getenv d ''RELATED_IMAGE_POST_INSTALL_HOOK'' \<noteq> []"
    using run by (auto simp: validateAIService_def act_Ok_iff)
  obtain s1 where s1: "resolvePlatform d ?s0 = (Ok (), s1)"
      and rest: "thenA requireURLs (validateRest d) s1 = (Ok (), t)"
    using run env
    by (auto simp: validateAIService_def act_Ok_iff modSpec_def sp_def split: if_splits)
  have urls: "as_AIPlatformUrl (s_Spec (rs_cr s1)) \<noteq> []" "as_VectorDbUrl (s_Spec (rs_cr s1)) \<noteq> []"
    and tail: "validateRest d s1 = (Ok (), t)"
    using rest requireURLs_Ok by (auto simp: thenA_Ok_iff)
  have fill: "as_AIPlatformUrl (fillURLs p (?clean sp)) = as_AIPlatformUrl (fillURLs p sp)"
    "as_VectorDbUrl (fillURLs p (?clean sp)) = as_VectorDbUrl (fillURLs p sp)" for p
    by (simp_all add: fillURLs_def Let_def)
  have keep: "as_AIPlatformUrl sp \<noteq> [] \<Longrightarrow> as_AIPlatformUrl (fillURLs p sp) = as_AIPlatformUrl sp"
    "as_VectorDbUrl sp \<noteq> [] \<Longrightarrow> as_VectorDbUrl (fillURLs p sp) = as_VectorDbUrl sp" for p
    by (simp_all add: fillURLs_def Let_def)
  show ?thesis
    using env validateRest_Ok [OF tail urls] resolvePlatform_Ok [OF s1] fill keep
    by (auto simp: sp'_def validateAIPlatformReady_def validateVectorDatabaseReady_def split: if_splits)
qed


section \<open>Config maps\<close>

lemma mget_None: "fmlookup m k = None \<Longrightarrow> mget m k = []"
  by (simp add: mget_def)

lemma mergeDefaults_spec:
  assumes "distinct (map fst ds)"
  shows "fmlookup (fst (mergeDefaults ds m b)) k =
      (case map_of ds k of
         Some v \<Rightarrow> if mget m k = [] then Some v else fmlookup m k
       | None \<Rightarrow> fmlookup m k) \<and>
    snd (mergeDefaults ds m b) = (b \<or> list_ex (\<lambda>(k, v). mget m k = []) ds)"
  using assms
proof (induction ds arbitrary: m b)
  case (Cons x ds)
  obtain k' v' where x: "x = (k', v')" by fastforce
  have "k \<noteq> k'" if "(k, v) \<in> set ds" for k v
    using Cons.prems x that by force
  then have same: "list_ex (\<lambda>(k, v). mget (fmupd k' v' m) k = []) ds = list_ex (\<lambda>(k, v). mget m k = []) ds"
    unfolding list_ex_iff by (intro bex_cong) auto
  have out: "map_of ds k' = None"
    using Cons.prems x by (simp add: map_of_eq_None_iff)
  show ?case
  proof (cases "mget m k' = []")
    case True
    then have "mergeDefaults (x # ds) m b = mergeDefaults ds (fmupd k' v' m) True"
      by (simp add: x)
    then show ?thesis
      using Cons.IH [of "fmupd k' v' m" True] Cons.prems True x out
      by (auto split: option.splits)
  next
    case False
    then have "mergeDefaults (x # ds) m b = mergeDefaults ds m b"
      using mget_None [of m k'] by (auto simp: x)
    then show ?thesis
      using Cons.IH [of m b] Cons.prems False x out
      by (auto split: option.splits)
  qed
qed simp

text \<open>Go ranges over the defaults in any order; the result is the same for each.\<close>

lemma mergeDefaults_order:
  assumes "distinct (map fst ds)" and "mset ds = mset es"
  shows "mergeDefaults ds m b = mergeDefaults es m b"
proof (rule prod_eqI)
  have d: "distinct (map fst es)"
    using assms by (metis mset_eq_imp_distinct_iff mset_map)
  have "map_of ds = map_of es"
    using assms(1) d mset_eq_setD [OF assms(2)] by (simp add: map_of_inject_set)
  then show "fst (mergeDefaults ds m b) = fst (mergeDefaults es m b)"
    using mergeDefaults_spec [OF assms(1)] mergeDefaults_spec [OF d] by (intro fmap_ext) simp
  show "snd (mergeDefaults ds m b) = snd (mergeDefaults es m b)"
    using mergeDefaults_spec [OF assms(1)] mergeDefaults_spec [OF d] mset_eq_setD [OF assms(2)]
    by (simp add: list_ex_iff)
qed


lemma saiaDefaults_distinct: "distinct (map fst saiaDefaults)"
  by (simp add: saiaDefaults_def)

lemma saiaDefaults_nonempty: "map_of saiaDefaults k = Some v \<Longrightarrow> v \<noteq> []"
  by (auto simp: saiaDefaults_def split: if_splits)

abbreviation saiaConfigKey :: "AIService \<Rightarrow> nname" where
  "saiaConfigKey ai \<equiv> (aiNamespace ai, aiName ai @ ''-saia-config'')"

definition withDefaults :: "smap \<Rightarrow> string \<Rightarrow> string option" where
  "withDefaults old k =
     (case map_of saiaDefaults k of
        Some v \<Rightarrow> if mget old k = [] then Some v else fmlookup old k
      | None \<Rightarrow> fmlookup old k)"

lemma withDefaults_merge: "fmlookup (fst (mergeDefaults saiaDefaults m b)) = withDefaults m"
  using mergeDefaults_spec [OF saiaDefaults_distinct] by (simp add: withDefaults_def fun_eq_iff)

lemma withDefaults_settled:
  assumes "fmlookup m = withDefaults old"
  shows "mergeDefaults saiaDefaults m False = (m, False)"
proof -
  have full: "mget m k \<noteq> []" if "map_of saiaDefaults k = Some v" for k v
    using that assms saiaDefaults_nonempty [OF that]
    by (auto simp: mget_def withDefaults_def split: option.splits)
  have ex: "\<not> list_ex (\<lambda>(k, v). mget m k = []) saiaDefaults"
    using full saiaDefaults_distinct by (auto simp: list_ex_iff)
  have "fmlookup (fst (mergeDefaults saiaDefaults m False)) k = fmlookup m k" for k
    using full [of k] mergeDefaults_spec [OF saiaDefaults_distinct, of m False k]
    by (auto split: option.splits)
  then have "fst (mergeDefaults saiaDefaults m False) = m"
    by (intro fmap_ext) simp
  then show ?thesis
    using ex mergeDefaults_spec [OF saiaDefaults_distinct, of m False] by (metis prod.collapse)
qed

lemma saia_config_settled:
  assumes "cGet (sa_configmaps d) (rs_world s) (saiaConfigKey (rs_cr s)) = Ok cm"
    and "mergeDefaults saiaDefaults (entries (cm_Data cm)) False = (m, False)"
  shows "reconcileSAIAConfigMap d s = (Ok (), s)"
  using assms
  by (simp add: reconcileSAIAConfigMap_def Let_def bindA_def getCR_def tryA_def getA_def readA_def retA_def)

lemma cmKey_simp: "cmKey \<lparr>cm_Meta = m, cm_Data = x\<rparr> = metaKey m"
  by (simp add: cmKey_def)

definition saiaConfigWritten :: "'w saiaDeps \<Rightarrow> smap \<Rightarrow> AIService \<Rightarrow> ('w, AIService) rstate \<Rightarrow> bool" where
  "saiaConfigWritten d old ai t \<longleftrightarrow> rs_cr t = ai \<and>
     (\<exists>cm. cGet (sa_configmaps d) (rs_world t) (saiaConfigKey ai) = Ok cm \<and>
        fmlookup (entries (cm_Data cm)) = withDefaults old)"

lemma saia_config_updated:
  assumes docs: "clientDocs cmKey cm_Data (sa_configmaps d)" and own: "setOwnerDocs (sa_setRef d)"
    and run: "reconcileSAIAConfigMap d s = (Ok (), t)"
    and cm: "cGet (sa_configmaps d) (rs_world s) (saiaConfigKey (rs_cr s)) = Ok cm"
  shows "saiaConfigWritten d (entries (cm_Data cm)) (rs_cr s) t"
proof -
  have vis: "writeVisible cmKey cm_Data (sa_configmaps d)"
    using docs by (simp add: clientDocs_def)
  obtain data b where merge: "mergeDefaults saiaDefaults (entries (cm_Data cm)) False = (data, b)"
    by fastforce
  have data: "fmlookup data = withDefaults (entries (cm_Data cm))"
    using withDefaults_merge [of "entries (cm_Data cm)" False] merge by simp
  show ?thesis
  proof (cases b)
    case False
    have "list_ex (\<lambda>(k, v). mget (entries (cm_Data cm)) k = []) saiaDefaults = b"
      using mergeDefaults_spec [OF saiaDefaults_distinct, of "entries (cm_Data cm)" False] merge by simp
    then have "fmlookup (entries (cm_Data cm)) k = withDefaults (entries (cm_Data cm)) k" for k
      using False saiaDefaults_distinct
      by (auto simp: withDefaults_def list_ex_iff split: option.split dest: map_of_SomeD)
    then show ?thesis
      using run cm merge False
      by (auto simp: saiaConfigWritten_def reconcileSAIAConfigMap_def Let_def bindA_def getCR_def tryA_def getA_def
          readA_def retA_def fun_eq_iff)
  next
    case True
    obtain m w cm' where m: "sa_setRef d (s_Meta (rs_cr s)) (cm_Meta cm) = Ok m"
      and w: "cUpdate (sa_configmaps d) (rs_world s) \<lparr>cm_Meta = m, cm_Data = Some data\<rparr> = (w, Ok cm')"
        "t = s\<lparr>rs_world := w\<rparr>"
      using run cm merge True
      by (auto simp: reconcileSAIAConfigMap_def Let_def getA_def tryA_def updateA_def act_Ok_iff readA_def)
    have "metaKey m = saiaConfigKey (rs_cr s)"
      using setOwnerDocsD(1) [OF own m] clientDocs_get [OF docs cm] by (simp add: cmKey_def)
    then show ?thesis
      using writeVisibleD [OF vis disjI2 [OF w(1)]] w(2) data by (simp add: saiaConfigWritten_def cmKey_simp)
  qed
qed

lemma saia_config_created:
  assumes docs: "clientDocs cmKey cm_Data (sa_configmaps d)" and own: "setOwnerDocs (sa_setRef d)"
    and run: "reconcileSAIAConfigMap d s = (Ok (), t)"
    and missing: "cGet (sa_configmaps d) (rs_world s) (saiaConfigKey (rs_cr s)) = Err e"
  shows "saiaConfigWritten d fmempty (rs_cr s) t"
proof -
  have vis: "writeVisible cmKey cm_Data (sa_configmaps d)"
    using docs by (simp add: clientDocs_def)
  obtain m w cm' where
    m: "sa_setRef d (s_Meta (rs_cr s)) (newMeta (snd (saiaConfigKey (rs_cr s))) (fst (saiaConfigKey (rs_cr s)))) = Ok m"
    and w: "cCreate (sa_configmaps d) (rs_world s) \<lparr>cm_Meta = m, cm_Data = Some (fmap_of_list saiaDefaults)\<rparr> = (w, Ok cm')"
      "t = s\<lparr>rs_world := w\<rparr>"
    using run missing
    by (auto simp: reconcileSAIAConfigMap_def createOrUpdateConfigMap_def Let_def getA_def tryA_def
        createA_def act_Ok_iff readA_def split: if_splits)
  have "metaKey m = saiaConfigKey (rs_cr s)"
    using setOwnerDocsD(1) [OF own m] by (simp add: metaKey_def)
  moreover have "fmlookup (fmap_of_list saiaDefaults) = withDefaults fmempty"
    by (auto simp: withDefaults_def fmlookup_of_list fun_eq_iff split: option.split)
  ultimately show ?thesis
    using writeVisibleD [OF vis disjI1 [OF w(1)]] w(2) by (simp add: saiaConfigWritten_def cmKey_simp)
qed

text \<open>
  After the SAIA config map stage the config map holds every default whose key was missing or
  empty and the user's value everywhere else, whether the map existed or not; running the stage
  again changes nothing.
\<close>

theorem saia_configmap_merged:
  assumes docs: "clientDocs cmKey cm_Data (sa_configmaps d)" and own: "setOwnerDocs (sa_setRef d)"
    and run: "reconcileSAIAConfigMap d s = (Ok (), t)"
  defines "key \<equiv> (om_Namespace (s_Meta (rs_cr s)), om_Name (s_Meta (rs_cr s)) @ ''-saia-config'')"
  defines "old \<equiv> (case cGet (sa_configmaps d) (rs_world s) key of Ok c \<Rightarrow> entries (cm_Data c) | _ \<Rightarrow> fmempty)"
  shows "(\<exists>cm. cGet (sa_configmaps d) (rs_world t) key = Ok cm \<and>
      fmlookup (entries (cm_Data cm)) = withDefaults old) \<and> reconcileSAIAConfigMap d t = (Ok (), t)"
proof -
  have written: "saiaConfigWritten d old (rs_cr s) t"
  proof (cases "cGet (sa_configmaps d) (rs_world s) key")
    case (Panic p)
    then show ?thesis
      using run unfolding key_def
      by (auto simp: reconcileSAIAConfigMap_def Let_def getA_def tryA_def act_Ok_iff readA_def)
  qed (use saia_config_updated [OF docs own run] saia_config_created [OF docs own run] in
      \<open>simp_all add: old_def key_def\<close>)
  then obtain cm where cm: "rs_cr t = rs_cr s" "cGet (sa_configmaps d) (rs_world t) key = Ok cm"
      "fmlookup (entries (cm_Data cm)) = withDefaults old"
    by (auto simp: saiaConfigWritten_def key_def)
  have "reconcileSAIAConfigMap d t = (Ok (), t)"
    by (rule saia_config_settled [OF _ withDefaults_settled [OF cm(3)]])
      (use cm(1,2) in \<open>simp add: key_def\<close>)
  then show ?thesis using cm by blast
qed


section \<open>The schema job\<close>

abbreviation jobId :: "AIService \<Rightarrow> string" where
  "jobId ai \<equiv> ass_SchemaJobId (s_Status ai)"

lemma createHookJob_never_Ok: "createHookJob d s \<noteq> (Ok (), t)"
  by (auto simp: createHookJob_def act_Ok_iff)

lemma createHookJob_effect:
  assumes docs: "clientDocs jobKey u (sa_jobs d)" and own: "setOwnerDocs (sa_setRef d)"
    and run: "createHookJob d s = (r, t)"
  shows "jobId (rs_cr t) = jobId (rs_cr s) \<or>
    (\<exists>j. cGet (sa_jobs d) (rs_world t) (om_Namespace (s_Meta (rs_cr s)), jobId (rs_cr t)) = Ok j)"
proof (cases "sa_setRef d (s_Meta (rs_cr s))
    (newMeta (om_Name (s_Meta (rs_cr s)) @ ''-vector-db-setup-posthook'') (om_Namespace (s_Meta (rs_cr s))))")
  case (Ok m)
  let ?ai = "rs_cr s"
  have key: "metaKey m = (om_Namespace (s_Meta ?ai), om_Name (s_Meta ?ai) @ ''-vector-db-setup-posthook'')"
    using setOwnerDocsD(1) [OF own Ok] by (simp add: metaKey_def)
  obtain w q where q: "cCreateOrUpdate (sa_jobs d) (rs_world s) (hookJob d ?ai m) Ok = (w, q)"
    by fastforce
  show ?thesis
  proof (cases q)
    case (Ok j)
    obtain start where st: "cGet (sa_jobs d) w (jobKey (hookJob d ?ai m)) = Ok j"
      using createOrUpdate_result [OF docs _ q [unfolded Ok]] by auto
    moreover have "jobKey (hookJob d ?ai m) = metaKey m"
      by (simp add: jobKey_def hookJob_def)
    moreover have "jobKey j = metaKey m"
      using clientDocs_get [OF docs st] calculation by simp
    ultimately show ?thesis
      using run q Ok \<open>sa_setRef d _ _ = Ok m\<close> key
      by (auto simp: createHookJob_def onErr_def upsertA_def setJobId_def act_defs jobKey_def metaKey_def)
  qed (use run q Ok in \<open>auto simp: createHookJob_def onErr_def upsertA_def invalidSpec_def warnA_def
      panicA_def act_defs\<close>)
qed (use run in \<open>auto simp: createHookJob_def onErr_def invalidSpec_def warnA_def panicA_def act_defs\<close>)

definition clearJobId :: "('w, AIService) rstate \<Rightarrow> ('w, AIService) rstate" where
  "clearJobId s = s\<lparr>rs_cr := (rs_cr s)\<lparr>s_Status := (s_Status (rs_cr s))\<lparr>ass_SchemaJobId := []\<rparr>\<rparr>\<rparr>"

lemma watchHookJob_run:
  "watchHookJob j s = (r, t) \<Longrightarrow>
   (r = Ok () \<longleftrightarrow> jobOutcome (jb_Conditions j) = Some True) \<and> (r = Ok () \<longrightarrow> t = s) \<and> rs_cr t = rs_cr s"
  by (auto simp: watchHookJob_def invalidSpec_def warnA_def act_defs split: option.splits bool.splits)

text \<open>The hook stage with a vector database, by what is found of the job on record.\<close>

lemma hook_run:
  assumes run: "reconcilePostInstallHook d s = (r, t)" and url: "as_VectorDbUrl (s_Spec (rs_cr s)) \<noteq> []"
  shows "if jobId (rs_cr s) = [] then createHookJob d s = (r, t)
    else (case cGet (sa_jobs d) (rs_world s) (om_Namespace (s_Meta (rs_cr s)), jobId (rs_cr s)) of
       Ok j \<Rightarrow> watchHookJob j s = (r, t)
     | Err e \<Rightarrow> if isNotFound e then createHookJob d (clearJobId s) = (r, t)
               else r \<noteq> Ok () \<and> rs_cr t = rs_cr s
     | Panic p \<Rightarrow> r \<noteq> Ok () \<and> rs_cr t = rs_cr s)"
  using run url
  by (auto simp: reconcilePostInstallHook_def getA_def tryA_def invalidSpec_def warnA_def setJobId_def
      clearJobId_def act_defs split: res.splits)

text \<open>The Job's conditions report completion, and no failure before it.\<close>

definition completed :: "(string \<times> string) list \<Rightarrow> bool" where
  "completed cs \<longleftrightarrow> (\<exists>xs ys. cs = xs @ (''Complete'', ''True'') # ys \<and> (''Failed'', ''True'') \<notin> set xs)"

lemma completed_Nil: "\<not> completed []"
  by (simp add: completed_def)

lemma completed_Cons:
  "completed (c # cs) \<longleftrightarrow> c = (''Complete'', ''True'') \<or> c \<noteq> (''Failed'', ''True'') \<and> completed cs"
proof
  assume "completed (c # cs)"
  then show "c = (''Complete'', ''True'') \<or> c \<noteq> (''Failed'', ''True'') \<and> completed cs"
    by (auto simp: completed_def Cons_eq_append_conv)
next
  have "completed (c # cs)" if "cs = xs @ (''Complete'', ''True'') # ys" "(''Failed'', ''True'') \<notin> set (c # xs)" for xs ys
    unfolding completed_def using that by (intro exI [of _ "c # xs"] exI [of _ ys]) simp
  moreover have "completed ((''Complete'', ''True'') # cs)"
    unfolding completed_def by (intro exI [of _ "[]"] exI [of _ cs]) simp
  moreover assume "c = (''Complete'', ''True'') \<or> c \<noteq> (''Failed'', ''True'') \<and> completed cs"
  ultimately show "completed (c # cs)"
    unfolding completed_def [of cs] by auto
qed

lemma jobOutcome_completed: "jobOutcome cs = Some True \<longleftrightarrow> completed cs"
  by (induction cs rule: jobOutcome.induct) (auto simp: completed_Nil completed_Cons)

text \<open>
  C21: the schema job gates the deployment: the stage succeeds exactly when there is no vector
  database or the job on record exists and reports its completion, and no failure before that, and
  then it changes nothing. Otherwise it fails, and any job it newly puts on record exists in the cluster,
  so that the next reconcile watches that job.
\<close>

theorem schema_job_gate:
  assumes docs: "clientDocs jobKey u (sa_jobs d)" and own: "setOwnerDocs (sa_setRef d)"
    and run: "reconcilePostInstallHook d s = (r, t)"
  defines "ns \<equiv> om_Namespace (s_Meta (rs_cr s))" and "before \<equiv> ass_SchemaJobId (s_Status (rs_cr s))"
    and "after \<equiv> ass_SchemaJobId (s_Status (rs_cr t))"
  shows "(r = Ok () \<longleftrightarrow> as_VectorDbUrl (s_Spec (rs_cr s)) = [] \<or>
      before \<noteq> [] \<and> (\<exists>j. cGet (sa_jobs d) (rs_world s) (ns, before) = Ok j \<and>
                         completed (jb_Conditions j))) \<and>
    (r = Ok () \<longrightarrow> t = s) \<and>
    (after \<noteq> before \<and> after \<noteq> [] \<longrightarrow> (\<exists>j. cGet (sa_jobs d) (rs_world t) (ns, after) = Ok j))"
proof (cases "as_VectorDbUrl (s_Spec (rs_cr s)) = []")
  case True
  then show ?thesis
    using run by (auto simp: reconcilePostInstallHook_def act_defs after_def before_def)
next
  case url: False
  have create: "r \<noteq> Ok () \<and> (after = jobId (rs_cr u) \<or> (\<exists>j. cGet (sa_jobs d) (rs_world t) (ns, after) = Ok j))"
    if "createHookJob d u = (r, t)" "om_Namespace (s_Meta (rs_cr u)) = ns" for u
    using createHookJob_never_Ok [of d u t] createHookJob_effect [OF docs own that(1)] that
    by (auto simp: after_def)
  show ?thesis
  proof (cases "before = []")
    case True
    then have "createHookJob d s = (r, t)"
      using hook_run [OF run url] by (simp add: before_def)
    then show ?thesis
      using create [of s] True url by (auto simp: ns_def before_def)
  next
    case rec: False
    then show ?thesis
      using hook_run [OF run url] url create [of "clearJobId s"] watchHookJob_run [of _ s r t]
      by (auto simp: ns_def before_def after_def clearJobId_def jobOutcome_completed split: res.splits if_splits)
  qed
qed


section \<open>The deployment\<close>

lemma saiaEnv_distinct: "distinct (map en_Name (saiaEnv ai))"
  by (auto simp: saiaEnv_def Let_def)

lemma saiaSortedEnv_props:
  "sorted_wrt (<) (map en_Name (saiaSortedEnv ai)) \<and> set (saiaSortedEnv ai) = set (saiaEnv ai)"
proof -
  have "distinct (map en_Name (saiaSortedEnv ai))"
    using saiaEnv_distinct [of ai] by (simp add: saiaSortedEnv_def distinct_map)
  then show ?thesis
    by (simp add: strict_sorted_iff saiaSortedEnv_def)
qed

text \<open>An unstable sort cannot give another list.\<close>

lemma saiaSortedEnv_unique:
  assumes "mset es = mset (saiaEnv ai)" and "sorted (map en_Name es)"
  shows "es = saiaSortedEnv ai"
proof -
  have "inj_on en_Name (set (saiaEnv ai))"
    using saiaEnv_distinct [of ai] by (simp add: distinct_map)
  then show ?thesis
    using sort_key_inj_key_eq [of "saiaEnv ai" es en_Name] assms by (simp add: saiaSortedEnv_def)
qed

text \<open>
  C22: after the deployment stage the deployment runs one container whose explicit environment is
  the computed one in strictly increasing order of names, with the configured replicas, pod
  labels that match a fresh selector, and the selector an existing deployment had: the immutable
  field is set on creation only.
\<close>

theorem saia_deployment_applied:
  assumes docs: "clientDocs depKey (\<lambda>x. (dp_Replicas x, dp_Selector x, dp_Template x)) (sa_deployments d)"
    and own: "setOwnerDocs (sa_setRef d)"
    and run: "reconcileSAIADeployment d s = (Ok (), t)"
  defines "ai \<equiv> rs_cr s"
  defines "key \<equiv> (om_Namespace (s_Meta ai), om_Name (s_Meta ai) @ ''-saia-deployment'')"
  shows "\<exists>dep c. cGet (sa_deployments d) (rs_world t) key = Ok dep \<and>
      dp_Replicas dep = Some (as_Replicas (s_Spec ai)) \<and>
      dp_Selector dep = (case cGet (sa_deployments d) (rs_world s) key of
          Ok cur \<Rightarrow> (case dp_Selector cur of None \<Rightarrow> Some (saiaSelector ai) | Some m \<Rightarrow> Some m)
        | _ \<Rightarrow> Some (saiaSelector ai)) \<and>
      pt_Labels (dp_Template dep) = Some (saiaSelector ai) \<and>
      ps_Containers (pt_Spec (dp_Template dep)) = [c] \<and> co_Image c = sa_getenv d ''RELATED_IMAGE_SAIA_API'' \<and>
      sorted_wrt (<) (map en_Name (co_Env c)) \<and> set (co_Env c) = set (saiaEnv ai)"
proof -
  let ?name = "om_Name (s_Meta ai) @ ''-saia-deployment''"
  obtain m w dep where m: "sa_setRef d (s_Meta ai) (newMeta ?name (om_Namespace (s_Meta ai))) = Ok m"
    and up: "cCreateOrUpdate (sa_deployments d) (rs_world s)
        ((newDeployment ?name (om_Namespace (s_Meta ai)))\<lparr>dp_Meta := m\<rparr>) (\<lambda>dep. Ok (mutateDeployment d ai dep)) = (w, Ok dep)"
    and t: "rs_world t = w"
    using run by (auto simp: reconcileSAIADeployment_def Let_def upsertA_def act_Ok_iff ai_def)
  have key: "depKey ((newDeployment ?name (om_Namespace (s_Meta ai)))\<lparr>dp_Meta := m\<rparr>) = key"
    using setOwnerDocsD(1) [OF own m] by (simp add: depKey_def key_def metaKey_def)
  have frame: "depKey (mutateDeployment d ai x) = depKey x" for x
    by (simp add: mutateDeployment_def depKey_def metaKey_def)
  obtain start where got: "cGet (sa_deployments d) w key = Ok dep"
    and content: "(dp_Replicas dep, dp_Selector dep, dp_Template dep) =
      (dp_Replicas (mutateDeployment d ai start), dp_Selector (mutateDeployment d ai start),
       dp_Template (mutateDeployment d ai start))"
    and start: "cGet (sa_deployments d) (rs_world s) key = Ok start \<or>
      start = (newDeployment ?name (om_Namespace (s_Meta ai)))\<lparr>dp_Meta := m\<rparr> \<and>
      (\<exists>e. cGet (sa_deployments d) (rs_world s) key = Err e \<and> isNotFound e)"
    using createOrUpdate_result [OF docs _ up] frame key by auto
  show ?thesis
    using got t content start saiaSortedEnv_props [of ai]
    by (intro exI [of _ dep] exI [of _ "saiaContainer d ai"])
      (auto simp: mutateDeployment_def saiaContainer_def newDeployment_def split: option.splits)
qed

section \<open>The service\<close>

text \<open>
  After the service stage the service has the selector and the ports computed from the
  template, node ports included, but a service that existed keeps the type it had: the type that
  the template asks for is written on creation only.
\<close>

theorem saia_service_type_frozen:
  assumes docs: "clientDocs svcKey (\<lambda>x. (svc_Selector x, svc_Ports x, svc_Type x)) (sa_svcs d)"
    and own: "setOwnerDocs (sa_setRef d)"
    and run: "reconcileSAIAService d s = (Ok (), t)"
  defines "ai \<equiv> rs_cr s"
  defines "key \<equiv> (om_Namespace (s_Meta ai), om_Name (s_Meta ai) @ ''-saia-service'')"
    and "want \<equiv> typedPorts (cleanServiceTemplate (as_ServiceTemplate (s_Spec ai))) ai"
  shows "\<exists>svc. cGet (sa_svcs d) (rs_world t) key = Ok svc \<and> svc_Selector svc = saiaSelector ai \<and>
      svc_Ports svc = snd want \<and>
      svc_Type svc = (case cGet (sa_svcs d) (rs_world s) key of Ok cur \<Rightarrow> svc_Type cur | _ \<Rightarrow> fst want)"
proof -
  obtain ty ports where want: "want = (ty, ports)" by fastforce
  let ?meta = "(newMeta (om_Name (s_Meta ai) @ ''-saia-service'') (om_Namespace (s_Meta ai)))
     \<lparr>om_Labels := Some (overlay (fmap_of_list [(''app'', om_Name (s_Meta ai))]) (om_Labels (s_Meta ai)))\<rparr>"
  let ?obj = "\<lambda>m. \<lparr>svc_Meta = m, svc_Selector = saiaSelector ai, svc_Ports = ports, svc_Type = ty, svc_Status = []\<rparr>"
  let ?f = "\<lambda>svc. Ok (svc\<lparr>svc_Selector := saiaSelector ai, svc_Ports := ports\<rparr>)"
  obtain m w svc where m: "sa_setRef d (s_Meta ai) ?meta = Ok m"
    and up: "cCreateOrUpdate (sa_svcs d) (rs_world s) (?obj m) ?f = (w, Ok svc)" and t: "rs_world t = w"
    using run want
    by (auto simp: reconcileSAIAService_def Let_def upsertA_def act_Ok_iff ai_def want_def panicA_def
        split: if_splits prod.splits)
  have key: "svcKey (?obj m) = key"
    using setOwnerDocsD(1) [OF own m] by (simp add: svcKey_def key_def metaKey_def)
  obtain start where "cGet (sa_svcs d) w key = Ok svc"
    "(svc_Selector svc, svc_Ports svc, svc_Type svc) = (saiaSelector ai, ports, svc_Type start)"
    "cGet (sa_svcs d) (rs_world s) key = Ok start \<or>
      start = ?obj m \<and> (\<exists>e. cGet (sa_svcs d) (rs_world s) key = Err e \<and> isNotFound e)"
    using createOrUpdate_result [OF docs _ up] key by (auto simp: svcKey_def)
  then show ?thesis
    using t want by (auto simp: want_def)
qed


section \<open>Examples\<close>

text \<open>An AIService on which the first seven stages have nothing left to do.\<close>

definition exampleSpec :: AIServiceSpec where
  "exampleSpec = zeroServiceSpec\<lparr>as_Feature := zeroFeature\<lparr>fs_Name := ''saia''\<rparr>, as_AIPlatformUrl := ''ray'', as_VectorDbUrl := ''db'', as_Replicas := 1,
     as_TaskVolume := zeroStorage\<lparr>os_Path := ''s3://b''\<rparr>, as_ServiceAccountName := ''sa'',
     as_Resources := \<lparr>rr_Requests = Some fmempty, rr_Limits = Some fmempty\<rparr>,
     as_SplunkConfiguration := zeroSplunk\<lparr>sc_Endpoint := ''https://s:8089'', sc_Token := ''tok'',
       sc_SecretSource := ''vault'', sc_VaultFilePath := ''/v''\<rparr>\<rparr>"

definition exampleService :: "smap option \<Rightarrow> AIService" where
  "exampleService ann = zeroAIService\<lparr>s_Meta := (newMeta ''a'' ''ns'')\<lparr>om_Annotations := ann\<rparr>,
     s_Spec := exampleSpec, s_Status := (s_Status zeroAIService)\<lparr>ass_SchemaJobId := ''j''\<rparr>\<rparr>"

definition exampleConfig :: configmap where
  "exampleConfig =
     \<lparr>cm_Meta = (newMeta ''c'' ''ns'')\<lparr>om_OwnerReferences := [\<lparr>ow_APIVersion = [], ow_Kind = [],
        ow_Name = ''a'', ow_UID = [], ow_Controller = True\<rparr>]\<rparr>, cm_Data = Some (fmap_of_list saiaDefaults)\<rparr>"

definition exampleDeps :: "AIService list saiaDeps" where
  "exampleDeps =
     \<lparr>sa_getenv = \<lambda>_. ''img'', sa_readFile = \<lambda>_. Ok ''tok'', sa_setRef = addOwner, sa_platforms = offClient,
      sa_services = memClient svKey (\<lambda>_ _. True), sa_accounts = offClient,
      sa_configmaps = constClient exampleConfig, sa_certs = offClient,
      sa_jobs = constClient \<lparr>jb_Meta = newMeta ''j'' ''ns'', jb_Template = zeroPodTemplate,
                             jb_Conditions = [(''Complete'', ''True'')]\<rparr>,
      sa_deployments = constClient (newDeployment ''d'' ''ns''), sa_svcs = constClient zeroService,
      sa_monitors = offClient, sa_secrets = offClient,
      sa_standalones = \<lambda>_ _. Panic [], sa_indexers = \<lambda>_ _. Panic []\<rparr>"

definition exampleState :: "smap option \<Rightarrow> (AIService list, AIService) rstate" where
  "exampleState ann = \<lparr>rs_world = [exampleService ann], rs_events = [], rs_cr = exampleService ann\<rparr>"

lemmas example_defs = exampleSpec_def exampleService_def exampleDeps_def exampleState_def zero_defs constClient_def

lemma example_validate: "validateAIService exampleDeps (exampleState ann) = (Ok (), exampleState ann)"
  by (simp add: validateAIService_def resolvePlatform_def requireURLs_def validateRest_def enrichSplunk_def
      ValidateAndEnrichSplunkConfig_def ensureToken_def VaultGetHECToken_def trimSpace_def isSpaceC_def
      modSpec_def cleanServiceTemplate_def defaultResources_def newMeta_def Let_def act_defs example_defs)

lemma example_quiet:
  "(n, m) \<in> set (take 7 (saiaStages exampleDeps)) \<Longrightarrow> m (exampleState ann) = (Ok (), exampleState ann)"
proof -
  have merge: "mergeDefaults saiaDefaults (fmap_of_list saiaDefaults) False = (fmap_of_list saiaDefaults, False)"
    by (rule withDefaults_settled [where old = fmempty])
      (auto simp: withDefaults_def fmlookup_of_list fun_eq_iff split: option.split)
  have "reconcileServiceAccount exampleDeps (exampleState ann) = (Ok (), exampleState ann)"
    by (simp add: reconcileServiceAccount_def act_defs example_defs)
  moreover have "reconcileSAIAConfigMap exampleDeps (exampleState ann) = (Ok (), exampleState ann)"
    by (rule saia_config_settled [where cm = exampleConfig and m = "fmap_of_list saiaDefaults"])
      (simp_all add: example_defs exampleConfig_def merge)
  moreover have "reconcileFeatureConfigMap exampleDeps (exampleState ann) = (Ok (), exampleState ann)"
    by (simp add: reconcileFeatureConfigMap_def act_defs example_defs exampleConfig_def Let_def getA_def
        hasOwnerReference_def)
  moreover have "reconcileCertificate exampleDeps (exampleState ann) = (Ok (), exampleState ann)"
    by (simp add: reconcileCertificate_def operatorTLS_def act_defs example_defs)
  moreover have "reconcilePostInstallHook exampleDeps (exampleState ann) = (Ok (), exampleState ann)"
    by (simp add: reconcilePostInstallHook_def watchHookJob_def getA_def act_defs example_defs)
  moreover have "reconcileSAIADeployment exampleDeps (exampleState ann) = (Ok (), exampleState ann)"
    by (simp add: reconcileSAIADeployment_def onErr_def dropA_def upsertA_def Let_def addOwner_def act_defs
        example_defs)
  ultimately show "(n, m) \<in> set (take 7 (saiaStages exampleDeps)) \<Longrightarrow> ?thesis"
    using example_validate by (auto simp: saiaStages_def)
qed

lemma example_services:
  "writeVisible svKey u (sa_services exampleDeps)" "statusVisible svKey st (sa_services exampleDeps)"
  using memClient_docs [of svKey u "\<lambda>_ _. True"] memClient_status [of svKey st "\<lambda>_ _. True"]
  by (simp_all add: exampleDeps_def clientDocs_def)

definition exampleNote :: "smap option" where
  "exampleNote = Some (fmap_of_list [(''note'', ''x'')])"

lemma example_reconcile:
  "\<exists>cs. SaiaReconcile exampleDeps clock (exampleState ann) =
     (case runStages clock (drop 7 (saiaStages exampleDeps)) cs (exampleState ann) of
        (r, cs, t) \<Rightarrow> (r, publishService (sa_services exampleDeps) cs t)) \<and> length cs = 7"
proof -
  obtain cs where "runStages clock (take 7 (saiaStages exampleDeps) @ drop 7 (saiaStages exampleDeps)) []
        (exampleState ann) = runStages clock (drop 7 (saiaStages exampleDeps)) cs (exampleState ann)"
      "length cs = length ([] :: condition list) + length (take 7 (saiaStages exampleDeps))"
    using runStages_quiet [of "take 7 (saiaStages exampleDeps)" "exampleState ann" clock
        "drop 7 (saiaStages exampleDeps)" "[]"] example_quiet by blast
  moreover have "length (saiaStages exampleDeps) = 9"
    by (simp add: saiaStages_def)
  ultimately show ?thesis
    by (intro exI [of _ cs]) (simp add: SaiaReconcile_def)
qed

text \<open>Without an annotation every stage succeeds and the status is stored.\<close>

lemma example_succeeds:
  "\<exists>cs. SaiaReconcile exampleDeps clock (exampleState None) =
     (Ok (), \<lparr>rs_world = [withStatus cs (exampleService None)], rs_events = [],
             rs_cr = withStatus cs (exampleService None)\<rparr>)"
proof -
  have "reconcileSAIAService exampleDeps (exampleState None) = (Ok (), exampleState None)"
    by (simp add: reconcileSAIAService_def onErr_def dropA_def upsertA_def typedPorts_def addOwner_def
        cleanServiceTemplate_def Let_def act_defs example_defs cong del: fmfilter_cong)
  moreover have "reconcileServiceMonitor exampleDeps (exampleState None) = (Ok (), exampleState None)"
    by (simp add: reconcileServiceMonitor_def act_defs example_defs)
  moreover obtain cs where "SaiaReconcile exampleDeps clock (exampleState None) =
      (case runStages clock (drop 7 (saiaStages exampleDeps)) cs (exampleState None) of
        (r, cs, t) \<Rightarrow> (r, publishService (sa_services exampleDeps) cs t))"
    using example_reconcile by blast
  ultimately obtain cs where run: "SaiaReconcile exampleDeps clock (exampleState None) =
      (Ok (), publishService (sa_services exampleDeps) cs (exampleState None))"
    by (auto simp: saiaStages_def)
  have "svKey (withStatus cs (exampleService None)) = svKey (exampleService None)" by simp
  then show ?thesis
    unfolding run by (intro exI [of _ cs])
      (simp add: publishService_def exampleDeps_def exampleState_def memClient_def memUpdate_def Let_def)
qed

text \<open>With an annotation the run gets as far as the service stage and panics there.\<close>

theorem saia_annotation_panics_witness:
  "let (r, t) = SaiaReconcile exampleDeps id (exampleState exampleNote)
   in r = Panic ''assignment to entry in nil map'' \<and> r \<noteq> Ok () \<and>
      length (ass_Conditions (s_Status (rs_cr t))) \<le> 7"
proof -
  obtain r t where run: "SaiaReconcile exampleDeps id (exampleState exampleNote) = (r, t)"
    by fastforce
  have noted: "fmlookup (entries (om_Annotations (s_Meta (rs_cr (exampleState exampleNote))))) ''note'' = Some ''x''"
    by (simp add: example_defs exampleNote_def fmlookup_of_list)
  have copied: "copiedKey ''note''"
    by (simp add: copiedKey_def lastApplied_def restartedAt_def)
  have "reconcileSAIAService exampleDeps (exampleState exampleNote) =
      (Panic ''assignment to entry in nil map'', exampleState exampleNote)"
    by (rule service_stage_panics [OF noted copied])
  then have "r = Panic ''assignment to entry in nil map''"
    using example_reconcile [of id exampleNote] run by (auto simp: saiaStages_def)
  then show ?thesis
    using saia_annotation_panics [OF example_services noted copied run] run by simp
qed

theorem saia_conditions_published_witness:
  "let (r, t) = SaiaReconcile exampleDeps id (exampleState None)
   in stageReport id saiaStageNames r (ass_Conditions (s_Status (rs_cr t))) \<and>
      (IsConditionTrue (ass_Conditions (s_Status (rs_cr t))) ''Ready'' \<longleftrightarrow> r = Ok ())"
proof -
  obtain r t where run: "SaiaReconcile exampleDeps id (exampleState None) = (r, t)"
    by fastforce
  show ?thesis
    using saia_conditions_published [OF example_services(2) run] by (auto simp: run Let_def)
qed

text \<open>A cluster of one kind of object; the other kinds cannot be reached.\<close>

definition offDeps :: "'w saiaDeps" where
  "offDeps =
     \<lparr>sa_getenv = \<lambda>_. ''img'', sa_readFile = \<lambda>_. Ok ''tok'', sa_setRef = addOwner, sa_platforms = offClient,
      sa_services = offClient, sa_accounts = offClient, sa_configmaps = offClient, sa_certs = offClient,
      sa_jobs = offClient, sa_deployments = offClient, sa_svcs = offClient, sa_monitors = offClient,
      sa_secrets = offClient, sa_standalones = \<lambda>_ _. Panic [], sa_indexers = \<lambda>_ _. Panic []\<rparr>"

lemma offDeps_own: "setOwnerDocs (sa_setRef (offDeps\<lparr>sa_configmaps := a\<rparr>))"
  "setOwnerDocs (sa_setRef (offDeps\<lparr>sa_jobs := b\<rparr>))"
  "setOwnerDocs (sa_setRef (offDeps\<lparr>sa_deployments := c\<rparr>))"
  "setOwnerDocs (sa_setRef (offDeps\<lparr>sa_svcs := e\<rparr>))"
  by (simp_all add: offDeps_def addOwner_docs)

definition onService :: "'w \<Rightarrow> ('w, AIService) rstate" where
  "onService w = \<lparr>rs_world = w, rs_events = [], rs_cr = exampleService None\<rparr>"

definition readyPlatform :: AIPlatform where
  "readyPlatform = zeroAIPlatform\<lparr>p_Status := (p_Status zeroAIPlatform)\<lparr>
     aps_RayServiceName := ''ray'', aps_VectorDbServiceName := ''vdb'',
     aps_Conditions := [stageCond 0 ''RayServiceStatus'' None, stageCond 0 ''WeaviateDatabaseStatus'' None]\<rparr>\<rparr>"

definition referringService :: AIService where
  "referringService = (exampleService None)\<lparr>s_Spec := exampleSpec\<lparr>as_AIPlatformUrl := [], as_VectorDbUrl := [],
     as_AIPlatformRef := zeroObjectRef\<lparr>ref_Name := ''p'', ref_Namespace := ''ns''\<rparr>\<rparr>\<rparr>"

theorem saia_validate_gate_witness:
  "let (r, t) = validateAIService (offDeps\<lparr>sa_platforms := constClient readyPlatform\<rparr>)
         \<lparr>rs_world = (), rs_events = [], rs_cr = referringService\<rparr>
   in r = Ok () \<and> validated (s_Spec (rs_cr t)) \<and>
      as_AIPlatformUrl (s_Spec (rs_cr t)) = ''ray.ns.svc.cluster.local:8000''"
proof -
  let ?D = "offDeps\<lparr>sa_platforms := constClient readyPlatform\<rparr> :: unit saiaDeps"
  let ?S = "\<lparr>rs_world = (), rs_events = [], rs_cr = referringService\<rparr>"
  obtain t where run: "validateAIService ?D ?S = (Ok (), t)"
    and url: "as_AIPlatformUrl (s_Spec (rs_cr t)) = ''ray.ns.svc.cluster.local:8000''"
    by (simp add: validateAIService_def resolvePlatform_def requireURLs_def validateRest_def enrichSplunk_def
      ValidateAndEnrichSplunkConfig_def ensureToken_def VaultGetHECToken_def trimSpace_def isSpaceC_def
      modSpec_def cleanServiceTemplate_def defaultResources_def newMeta_def Let_def act_defs example_defs
      referringService_def readyPlatform_def getAIPlatform_def getA_def onErr_def offDeps_def fillURLs_def
      validateAIPlatformReady_def validateVectorDatabaseReady_def IsConditionTrue_def stageCond_def)
  show ?thesis
    using saia_validate_gate [OF run] run url by (simp add: Let_def)
qed

theorem saia_configmap_merged_witness:
  "let (r, t) = reconcileSAIAConfigMap (offDeps\<lparr>sa_configmaps := memClient cmKey (\<lambda>_ _. True)\<rparr>) (onService [])
   in r = Ok () \<and> (\<exists>cm. memGet cmKey (rs_world t) (''ns'', ''a-saia-config'') = Ok cm \<and>
        fmlookup (entries (cm_Data cm)) = withDefaults fmempty)"
proof -
  let ?D = "offDeps\<lparr>sa_configmaps := memClient cmKey (\<lambda>_ _. True)\<rparr> :: configmap list saiaDeps"
  have docs: "clientDocs cmKey cm_Data (sa_configmaps ?D)"
    by (simp add: memClient_docs)
  obtain t where run: "reconcileSAIAConfigMap ?D (onService []) = (Ok (), t)"
    by (simp add: reconcileSAIAConfigMap_def createOrUpdateConfigMap_def act_defs tryA_def call_defs dropA_def
        onService_def offDeps_def memClient_def memGet_def memCreate_def addOwner_def Let_def example_defs)
  show ?thesis
    using saia_configmap_merged [OF docs offDeps_own(1) run] run
    by (simp add: onService_def example_defs memClient_def memGet_def)
qed

theorem schema_job_gate_witness:
  "let (r, t) = reconcilePostInstallHook (offDeps\<lparr>sa_jobs := memClient jobKey (\<lambda>_ _. True)\<rparr>) (onService [])
   in r \<noteq> Ok () \<and> ass_SchemaJobId (s_Status (rs_cr t)) = ''a-vector-db-setup-posthook'' \<and>
      (\<exists>j. memGet jobKey (rs_world t) (''ns'', ''a-vector-db-setup-posthook'') = Ok j)"
proof -
  let ?D = "offDeps\<lparr>sa_jobs := memClient jobKey (\<lambda>_ _. True)\<rparr> :: job list saiaDeps"
  have docs: "clientDocs jobKey (\<lambda>_. ()) (sa_jobs ?D)"
    by (simp add: memClient_docs)
  obtain r t where run: "reconcilePostInstallHook ?D (onService []) = (r, t)"
    and id: "ass_SchemaJobId (s_Status (rs_cr t)) = ''a-vector-db-setup-posthook''"
    by (simp add: reconcilePostInstallHook_def createHookJob_def act_defs tryA_def call_defs onErr_def
        onService_def offDeps_def memClient_def memGet_def memCreate_def addOwner_def Let_def example_defs
        setJobId_def hookJob_def jobKey_def metaKey_def)
  show ?thesis
    using schema_job_gate [OF docs offDeps_own(2) run] run id
    by (simp add: onService_def example_defs memClient_def memGet_def)
qed


theorem saia_deployment_applied_witness:
  "let (r, t) = reconcileSAIADeployment (offDeps\<lparr>sa_deployments := memClient depKey (\<lambda>_ _. True)\<rparr>) (onService [])
   in r = Ok () \<and> (\<exists>dep. memGet depKey (rs_world t) (''ns'', ''a-saia-deployment'') = Ok dep \<and>
        dp_Replicas dep = Some 1 \<and> dp_Selector dep = Some (saiaSelector (exampleService None)))"
proof -
  let ?D = "offDeps\<lparr>sa_deployments := memClient depKey (\<lambda>_ _. True)\<rparr> :: deployment list saiaDeps"
  have docs: "clientDocs depKey (\<lambda>x. (dp_Replicas x, dp_Selector x, dp_Template x)) (sa_deployments ?D)"
    by (simp add: memClient_docs)
  obtain t where run: "reconcileSAIADeployment ?D (onService []) = (Ok (), t)"
    by (simp add: reconcileSAIADeployment_def act_defs tryA_def call_defs onErr_def dropA_def onService_def
        offDeps_def memClient_def memGet_def memCreate_def addOwner_def Let_def)
  show ?thesis
    using saia_deployment_applied [OF docs offDeps_own(3) run] run
    by (auto simp: onService_def example_defs memClient_def memGet_def)
qed

definition oldService :: service where
  "oldService = zeroService\<lparr>svc_Meta := newMeta ''a-saia-service'' ''ns'', svc_Type := ''ClusterIP''\<rparr>"

definition nodePortService :: AIService where
  "nodePortService = (exampleService None)\<lparr>s_Spec := exampleSpec\<lparr>as_ServiceTemplate :=
     zeroService\<lparr>svc_Type := ''NodePort'', svc_Ports := [(svcPort ''http'' 8080)\<lparr>sp_NodePort := 30080\<rparr>]\<rparr>\<rparr>\<rparr>"

text \<open>The template now asks for a NodePort service; the existing ClusterIP service gets the node port.\<close>

theorem saia_service_type_frozen_witness:
  "let (r, t) = reconcileSAIAService (offDeps\<lparr>sa_svcs := memClient svcKey (\<lambda>_ _. True)\<rparr>)
         \<lparr>rs_world = [oldService], rs_events = [], rs_cr = nodePortService\<rparr>
   in r = Ok () \<and> (\<exists>svc. memGet svcKey (rs_world t) (''ns'', ''a-saia-service'') = Ok svc \<and>
        svc_Type svc = ''ClusterIP'' \<and> map sp_NodePort (svc_Ports svc) = [30080, 0])"
proof -
  let ?D = "offDeps\<lparr>sa_svcs := memClient svcKey (\<lambda>_ _. True)\<rparr> :: service list saiaDeps"
  let ?S = "\<lparr>rs_world = [oldService], rs_events = [], rs_cr = nodePortService\<rparr>"
  note defs = oldService_def zeroService_def memClient_def memGet_def svcKey_def metaKey_def
  have docs: "clientDocs svcKey (\<lambda>x. (svc_Selector x, svc_Ports x, svc_Type x)) (sa_svcs ?D)"
    by (simp add: memClient_docs)
  have meta: "s_Meta nodePortService = (newMeta ''a'' ''ns'')\<lparr>om_Annotations := None\<rparr>"
    by (simp add: nodePortService_def example_defs)
  have ports: "typedPorts (cleanServiceTemplate (as_ServiceTemplate (s_Spec nodePortService))) nodePortService =
      (''NodePort'', [(svcPort ''http'' 8080)\<lparr>sp_NodePort := 30080\<rparr>, svcPort ''metrics'' 8088])"
    by (simp add: typedPorts_def cleanServiceTemplate_def saiaPorts_def operatorTLS_def svcPort_def
        nodePortService_def example_defs)
  obtain t where run: "reconcileSAIAService ?D ?S = (Ok (), t)"
    by (simp add: reconcileSAIAService_def act_defs tryA_def call_defs onErr_def dropA_def offDeps_def
        memUpdate_def addOwner_def Let_def meta ports defs cong del: fmfilter_cong)
  show ?thesis
    using saia_service_type_frozen [OF docs offDeps_own(4) run] run
    by (auto simp: meta ports defs svcPort_def)
qed


end
