(* ===== verification/Seeds.thy ===== *)
theory Seeds
  imports Stages
begin

text \<open>
  Config maps that are seeded: a \<open>CreateOrUpdate\<close> whose callback writes one entry only when it is
  missing. The OpenTelemetry map (\<open>pkg/ai/sidecars/builder.go\<close>), the instances map
  (\<open>pkg/ai/raybuilder/instance.go\<close>) and the applications map (\<open>configmap_apps.go\<close>) are written so;
  the locale states what their callbacks share, and each interprets it.
\<close>

definition seededMap :: "objmeta \<Rightarrow> string \<Rightarrow> string res \<Rightarrow> set_owner \<Rightarrow> configmap \<Rightarrow> configmap \<Rightarrow> bool" where
  "seededMap owner key produced setOwner cm cm' \<longleftrightarrow>
     (\<exists>m data. cm' = \<lparr>cm_Meta = m, cm_Data = Some data\<rparr> \<and> setOwner owner (cm_Meta cm) = Ok m \<and>
        (case fmlookup (entries (cm_Data cm)) key of
           Some _ \<Rightarrow> data = entries (cm_Data cm)
         | None \<Rightarrow> \<exists>v. produced = Ok v \<and> data = fmupd key v (entries (cm_Data cm))))"

text \<open>The entries of a stored map; none when it cannot be read.\<close>

definition storedEntries :: "('w, configmap) client \<Rightarrow> 'w \<Rightarrow> nname \<Rightarrow> smap" where
  "storedEntries c w k = (case cGet c w k of Ok cm \<Rightarrow> entries (cm_Data cm) | _ \<Rightarrow> fmempty)"

text \<open>The entry is there afterwards, the old one or else the produced one; the others are kept.\<close>

definition keptOrSeeded :: "string \<Rightarrow> string res \<Rightarrow> smap \<Rightarrow> smap \<Rightarrow> bool" where
  "keptOrSeeded key produced old new \<longleftrightarrow>
     (\<forall>k. k \<noteq> key \<longrightarrow> fmlookup new k = fmlookup old k) \<and>
     (case fmlookup old key of
        Some v \<Rightarrow> fmlookup new key = Some v
      | None \<Rightarrow> \<exists>v. produced = Ok v \<and> fmlookup new key = Some v)"

lemma seededMap_kept:
  "seededMap owner key produced so cm cm' \<Longrightarrow>
   keptOrSeeded key produced (entries (cm_Data cm)) (entries (cm_Data cm'))"
  by (cases "fmlookup (entries (cm_Data cm)) key") (auto simp: seededMap_def keptOrSeeded_def)

locale seeded =
  fixes mutate :: "configmap \<Rightarrow> configmap res"
    and owner :: objmeta and key :: string and produced :: "string res" and setOwner :: set_owner
  assumes seeds: "mutate cm = Ok cm' \<Longrightarrow> seededMap owner key produced setOwner cm cm'"
begin

lemma seeded_key:
  assumes "setOwnerDocs setOwner" and "mutate cm = Ok cm'"
  shows "cmKey cm' = cmKey cm"
  using seeds [OF assms(2)] setOwnerDocsD(1) [OF assms(1)] by (auto simp: seededMap_def cmKey_def)

lemma seeded_once:
  assumes docs: "clientDocs cmKey cm_Data c" and own: "setOwnerDocs setOwner"
    and up: "cCreateOrUpdate c w x mutate = (w', Ok y)" and empty: "cm_Data x = None"
  shows "cGet c w' (cmKey x) = Ok y \<and>
    keptOrSeeded key produced (storedEntries c w (cmKey x)) (entries (cm_Data y))"
proof -
  obtain start new where new: "mutate start = Ok new" "cGet c w' (cmKey x) = Ok y" "cm_Data y = cm_Data new"
      "cGet c w (cmKey x) = Ok start \<or> start = x \<and> (\<exists>e. cGet c w (cmKey x) = Err e \<and> isNotFound e)"
    using createOrUpdate_result [OF docs seeded_key [OF own] up] by blast
  have "entries (cm_Data start) = storedEntries c w (cmKey x)"
    using new(4) empty by (auto simp: storedEntries_def)
  then show ?thesis
    using new seededMap_kept [OF seeds [OF new(1)]] by simp
qed

end

end
