(* ===== verification/SidecarsCorrect.thy ===== *)
theory SidecarsCorrect
  imports Sidecars Seeds
begin

text \<open>
  What the sidecar stage does to the cluster, and that it leaves the platform in memory alone.
\<close>

section \<open>The platform is only read\<close>

lemma keeps_sidecars: "keepsCR Q (SidecarsReconcile d)"
  unfolding SidecarsReconcile_def reconcileEnvoyConfig_def createOrUpdateSidecarMap_def
    reconcileOpenTelemetryCollector_def reconcileOtelConfigMap_def reconcilePrometheusRule_def reconcilePodMonitor_def
  by (intro keeps_intros)

section \<open>Typed values\<close>

text \<open>
  The form of a value that a JSON decoder produces: maps and slices of interfaces all the way down.
\<close>

primrec jsonForm :: "uval \<Rightarrow> bool" where
  "jsonForm (UStr s) = True"
| "jsonForm (UBool b) = True"
| "jsonForm (UInt n) = True"
| "jsonForm (UMap m) = fmpred (\<lambda>k b. b) (fmmap jsonForm m)"
| "jsonForm (UList vs) = list_all id (map jsonForm vs)"
| "jsonForm (UMaps ms) = False"
| "jsonForm (UStrings ss) = False"
| "jsonForm (UStringMap m) = False"

lemma jsonForm_field: "jsonForm (UMap m) \<Longrightarrow> fmlookup m k = Some v \<Longrightarrow> jsonForm v"
  by (fastforce simp: fmpred_iff)

text \<open>What the API server returns has been decoded.\<close>

definition decodedReads :: "('w, unstructured) client \<Rightarrow> bool" where
  "decodedReads c \<longleftrightarrow> (\<forall>w k u v. cGet c w k = Ok u \<longrightarrow> un_Spec u = Some v \<longrightarrow> jsonForm v)"

lemma umap_typed: "map_of kvs k = Some v \<Longrightarrow> \<not> jsonForm v \<Longrightarrow> \<not> jsonForm (umap kvs)"
  using jsonForm_field [of "fmap_of_list kvs" k v] by (auto simp: fmlookup_of_list)

lemma rule_typed: "\<not> jsonForm (ruleSpec p)"
  unfolding ruleSpec_def by (rule umap_typed [of _ "''groups''"], simp, simp)

lemma monitor_typed: "\<not> jsonForm (monitorOf p l n endpoints)"
  unfolding monitorOf_def by (rule umap_typed [of _ "''podMetricsEndpoints''"], simp, simp)

lemma collector_typed: "\<not> jsonForm (collectorSpec p cfg)"
  unfolding collectorSpec_def by (rule umap_typed [of _ "''env''"], simp, simp add: collectorEnv_def Let_def)

lemma typed_spec_updates:
  assumes "createOrUpdateSpec unKey c" and reads: "decodedReads c" and typed: "\<not> jsonForm spec"
    and found: "cGet c (rs_world s) (unKey x) = Ok u" and own: "si_setOwner d (p_Meta p) (un_Meta u) = Ok m"
  shows "upsertA c x (ownedSpec d p spec) s = updateA c \<lparr>un_Meta = m, un_Spec = Some spec\<rparr> s"
proof -
  have "\<lparr>un_Meta = m, un_Spec = Some spec\<rparr> \<noteq> u"
    using reads found typed unfolding decodedReads_def by (metis unstructured.select_convs(2))
  then show ?thesis
    using assms(1) found own
    by (simp add: upsertA_def updateA_def callA_def createOrUpdateSpec_def ownedSpec_def)
qed

text \<open>
  C32: the sidecar stage never settles on its Prometheus rule: whatever specification the cluster
  holds, also the one that the last reconcile wrote, the rule is updated again, because the
  specification that is built consists of typed slices and the one that is read does not.
\<close>

theorem rule_updated_every_time:
  assumes "createOrUpdateSpec unKey (si_rules d)" and "decodedReads (si_rules d)"
    and "cGet (si_rules d) (rs_world s) (plNamespace (rs_cr s), plName (rs_cr s) @ ''-alerts'') = Ok u"
    and "si_setOwner d (p_Meta (rs_cr s)) (un_Meta u) = Ok m"
  shows "reconcilePrometheusRule d s =
    dropA (updateA (si_rules d) \<lparr>un_Meta = m, un_Spec = Some (ruleSpec (rs_cr s))\<rparr>) s"
proof -
  let ?x = "newUnstructured (plName (rs_cr s) @ ''-alerts'') (plNamespace (rs_cr s))"
  have "unKey ?x = (plNamespace (rs_cr s), plName (rs_cr s) @ ''-alerts'')"
    by (simp add: unKey_def newUnstructured_def metaKey_def)
  then have "upsertA (si_rules d) ?x (ownedSpec d (rs_cr s) (ruleSpec (rs_cr s))) s =
      updateA (si_rules d) \<lparr>un_Meta = m, un_Spec = Some (ruleSpec (rs_cr s))\<rparr> s"
    using typed_spec_updates [OF assms(1,2) rule_typed _ assms(4), where x = ?x] assms(3) by simp
  then show ?thesis
    by (simp add: reconcilePrometheusRule_def bindA_def getCR_def dropA_def)
qed

section \<open>The collector's configuration\<close>

interpretation otel_seed: seeded "mutateOtelMap d w p" "p_Meta p" "''otel-config.yaml''"
    "bindR (renderOtelConf d w p) (si_marshal d)" "si_setOwner d" for d w p
  by unfold_locales
    (auto simp: mutateOtelMap_def seededMap_def bindR_Ok_iff Let_def split: if_splits option.splits)

text \<open>
  After the collector's config map stage the map holds a configuration under its key: the one
  that was there, whatever it was, or else the one rendered from the secret as it was found by this
  run, an error text if the secret could not be read or held no token. Every other key is kept. So
  user edits survive, and so does an error text once it has been stored.
\<close>

theorem otel_config_seeded_once:
  assumes docs: "clientDocs cmKey cm_Data (si_configmaps d)" and own: "setOwnerDocs (si_setOwner d)"
    and run: "reconcileOtelConfigMap d s = (Ok (), t)"
  defines "p \<equiv> rs_cr s"
  defines "old \<equiv> (case cGet (si_configmaps d) (rs_world s) (plNamespace p, otelMapName p) of
      Ok cm \<Rightarrow> entries (cm_Data cm) | _ \<Rightarrow> fmempty)"
  shows "\<exists>cm. cGet (si_configmaps d) (rs_world t) (plNamespace p, otelMapName p) = Ok cm \<and>
    (\<forall>k. k \<noteq> ''otel-config.yaml'' \<longrightarrow> fmlookup (entries (cm_Data cm)) k = fmlookup old k) \<and>
    (case fmlookup old ''otel-config.yaml'' of
       Some yaml \<Rightarrow> fmlookup (entries (cm_Data cm)) ''otel-config.yaml'' = Some yaml
     | None \<Rightarrow> \<exists>content yaml. renderOtelConf d (rs_world s) p = Ok content \<and> si_marshal d content = Ok yaml \<and>
         fmlookup (entries (cm_Data cm)) ''otel-config.yaml'' = Some yaml)"
proof -
  let ?new = "\<lparr>cm_Meta = newMeta (otelMapName p) (plNamespace p), cm_Data = None\<rparr>"
  obtain w y where up: "cCreateOrUpdate (si_configmaps d) (rs_world s) ?new (mutateOtelMap d (rs_world s) p) = (w, Ok y)"
    and t: "rs_world t = w"
    using run by (auto simp: reconcileOtelConfigMap_def upsertA_def p_def act_Ok_iff)
  have key: "cmKey ?new = (plNamespace p, otelMapName p)"
    by (simp add: cmKey_def metaKey_def)
  show ?thesis
    using otel_seed.seeded_once [OF docs own up] t
    by (intro exI [of _ y])
      (auto simp: key old_def keptOrSeeded_def storedEntries_def bindR_Ok_iff split: option.splits)
qed

section \<open>The properties at concrete runs\<close>

text \<open>An API server in memory that decodes what it returns.\<close>

primrec decode :: "uval \<Rightarrow> uval" where
  "decode (UStr s) = UStr s"
| "decode (UBool b) = UBool b"
| "decode (UInt n) = UInt n"
| "decode (UMap m) = UMap (fmmap decode m)"
| "decode (UList vs) = UList (map decode vs)"
| "decode (UMaps ms) = UList (map UMap (map (fmmap decode) ms))"
| "decode (UStrings ss) = UList (map UStr ss)"
| "decode (UStringMap m) = UMap (fmmap UStr m)"

lemma decode_form: "jsonForm (decode v)"
proof (induction v)
  case (UMap m)
  then show ?case
    by (auto simp: fmpred_iff fmlookup_ran'_iff)
next
  case (UMaps ms)
  then show ?case
    by (fastforce simp: fmpred_iff fmlookup_ran'_iff list_all_iff)
qed (auto simp: fmpred_iff list_all_iff)

definition decodeObj :: "unstructured \<Rightarrow> unstructured" where
  "decodeObj u = u\<lparr>un_Spec := map_option decode (un_Spec u)\<rparr>"

definition apiGet :: "unstructured list \<Rightarrow> nname \<Rightarrow> unstructured res" where
  "apiGet w k = bindR (memGet unKey w k) (\<lambda>u. Ok (decodeObj u))"

definition apiClient :: "(unstructured list, unstructured) client" where
  "apiClient =
     \<lparr>cGet = apiGet, cList = \<lambda>w _. Ok (map decodeObj w), cCreate = memCreate unKey, cUpdate = memUpdate unKey,
      cStatusUpdate = memUpdate unKey, cDelete = \<lambda>w k. (filter (\<lambda>x. unKey x \<noteq> k) w, Ok ()),
      cCreateOrUpdate = \<lambda>w x f.
        (case apiGet w (unKey x) of
           Ok cur \<Rightarrow> (case f cur of Ok new \<Rightarrow> if new = cur then (w, Ok cur) else memUpdate unKey w new
                     | Err e \<Rightarrow> (w, Err e) | Panic p \<Rightarrow> (w, Panic p))
         | Err e \<Rightarrow> if isNotFound e
             then (case f x of Ok new \<Rightarrow> memCreate unKey w new | Err e' \<Rightarrow> (w, Err e') | Panic p \<Rightarrow> (w, Panic p))
             else (w, Err e)
         | Panic p \<Rightarrow> (w, Panic p))\<rparr>"

lemma apiClient_docs: "createOrUpdateSpec unKey apiClient" "decodedReads apiClient"
  by (auto simp: createOrUpdateSpec_def decodedReads_def apiClient_def apiGet_def decodeObj_def decode_form bindR_Ok_iff
      split: res.split)

definition plainPlatform :: AIPlatform where
  "plainPlatform = zeroAIPlatform\<lparr>p_Meta := newMeta ''p'' ''ns''\<rparr>"

definition demoSide :: "unstructured list sidecarDeps" where
  "demoSide =
     \<lparr>si_configmaps = offClient, si_collectors = apiClient, si_monitors = apiClient, si_rules = apiClient,
      si_secret = \<lambda>_ _. Err (ApiErr NotFound ''not found''), si_setRef = addOwner, si_setOwner = addOwner,
      si_lookupEnv = \<lambda>_. None, si_marshal = \<lambda>_. Ok [], si_yamlToJSON = Ok, si_unmarshal = \<lambda>_. Ok fmempty\<rparr>"

text \<open>The rule as the last reconcile wrote it.\<close>

definition lastRule :: unstructured where
  "lastRule = \<lparr>un_Meta = newMeta ''p-alerts'' ''ns'', un_Spec = Some (ruleSpec plainPlatform)\<rparr>"

theorem rule_updated_every_time_witness:
  "let s = \<lparr>rs_world = [lastRule], rs_events = [], rs_cr = plainPlatform\<rparr>
   in \<exists>m. reconcilePrometheusRule demoSide s =
        dropA (updateA apiClient \<lparr>un_Meta = m, un_Spec = un_Spec lastRule\<rparr>) s"
proof -
  let ?S = "\<lparr>rs_world = [lastRule], rs_events = [], rs_cr = plainPlatform\<rparr>"
  have docs: "createOrUpdateSpec unKey (si_rules demoSide)" "decodedReads (si_rules demoSide)"
    by (simp_all add: demoSide_def apiClient_docs)
  have names: "plNamespace plainPlatform = ''ns''" "plName plainPlatform = ''p''"
    by (simp_all add: plainPlatform_def)
  have found: "cGet (si_rules demoSide) (rs_world ?S) (plNamespace (rs_cr ?S), plName (rs_cr ?S) @ ''-alerts'') =
      Ok (decodeObj lastRule)"
    by (simp add: names demoSide_def apiClient_def apiGet_def memGet_def lastRule_def unKey_def metaKey_def)
  obtain m where own: "si_setOwner demoSide (p_Meta (rs_cr ?S)) (un_Meta (decodeObj lastRule)) = Ok m"
    by (simp add: demoSide_def addOwner_def)
  show ?thesis
    unfolding Let_def using rule_updated_every_time [OF docs found own]
    by (intro exI [of _ m]) (simp add: lastRule_def demoSide_def)
qed

definition seedSide :: "configmap list sidecarDeps" where
  "seedSide =
     \<lparr>si_configmaps = memClient cmKey (\<lambda>_ _. True), si_collectors = offClient, si_monitors = offClient, si_rules = offClient,
      si_secret = \<lambda>_ _. Err (ApiErr NotFound ''not found''), si_setRef = addOwner, si_setOwner = addOwner,
      si_lookupEnv = \<lambda>_. None,
      si_marshal = \<lambda>v. Ok (case v of UMap m \<Rightarrow> if fmlookup m ''error'' = None then ''config'' else ''error'' | _ \<Rightarrow> []),
      si_yamlToJSON = Ok, si_unmarshal = \<lambda>_. Ok fmempty\<rparr>"

text \<open>Without the secret an error text is seeded, and from then on kept.\<close>

theorem otel_config_seeded_once_witness:
  "let (r, t) = reconcileOtelConfigMap seedSide \<lparr>rs_world = [], rs_events = [], rs_cr = plainPlatform\<rparr>
   in r = Ok () \<and> (\<exists>cm. memGet cmKey (rs_world t) (''ns'', ''p-otel-config'') = Ok cm \<and>
        fmlookup (entries (cm_Data cm)) ''otel-config.yaml'' = Some ''error'')"
proof -
  let ?S = "\<lparr>rs_world = [], rs_events = [], rs_cr = plainPlatform\<rparr>"
  have docs: "clientDocs cmKey cm_Data (si_configmaps seedSide)" "setOwnerDocs (si_setOwner seedSide)"
    by (simp_all add: seedSide_def memClient_docs addOwner_docs)
  have names: "plNamespace plainPlatform = ''ns''" "otelMapName plainPlatform = ''p-otel-config''"
    by (simp_all add: plainPlatform_def otelMapName_def)
  have reads: "cGet (si_configmaps seedSide) = memGet cmKey"
    by (simp add: seedSide_def memClient_def)
  have render: "renderOtelConf seedSide w p = Ok content \<Longrightarrow> si_marshal seedSide content = Ok y \<longleftrightarrow> y = ''error''" for w p content y
    by (auto simp: renderOtelConf_def seedSide_def otelError_def)
  have maps: "si_configmaps seedSide = memClient cmKey (\<lambda>_ _. True)"
    by (simp add: seedSide_def)
  obtain x where "mutateOtelMap seedSide [] plainPlatform
      \<lparr>cm_Meta = newMeta (otelMapName plainPlatform) (plNamespace plainPlatform), cm_Data = None\<rparr> = Ok x"
    by (simp add: mutateOtelMap_def renderOtelConf_def seedSide_def addOwner_def otelError_def Let_def)
  then have "\<exists>t. reconcileOtelConfigMap seedSide ?S = (Ok (), t)"
    by (simp add: reconcileOtelConfigMap_def maps memClient_def memGet_def memCreate_def upsertA_def dropA_def act_defs)
  then obtain t where run: "reconcileOtelConfigMap seedSide ?S = (Ok (), t)"
    by blast
  show ?thesis
    using otel_config_seeded_once [OF docs run] by (auto simp: run names reads render memGet_def)
qed

end
