(* ===== verification/PlatformCorrect.thy ===== *)
theory PlatformCorrect
  imports Platform SidecarsCorrect
begin

text \<open>
  What the platform reconciler guarantees: the status it publishes, what its ingress, feature and
  status stages leave behind, and where it cannot make progress.
\<close>

section \<open>The published status\<close>

interpretation platform_stages: staged platformStageNames
  by unfold_locales (simp_all add: platformStageNames_def)

lemma platformStages_names [stage_simps]: "map fst (platformStages d) = platformStageNames"
  by (simp add: platformStages_def platformStageNames_def)

lemma publishedStatus_conditions [simp]: "aps_Conditions (publishedStatus cs p) = cs"
  by (simp add: publishedStatus_def)

lemma platKey_status [simp]: "platKey (p\<lparr>p_Status := st\<rparr>) = platKey p"
  by (simp add: platKey_def)

lemma publishPlatform_visible:
  assumes "statusVisible platKey p_Status c" and "\<And>w k x. cGet c w k = Ok x \<Longrightarrow> platKey x = k"
    and "cGet c (rs_world s) (platKey (rs_cr s)) = Ok latest"
    and "cStatusUpdate c (rs_world s) (latest\<lparr>p_Status := publishedStatus cs (rs_cr s)\<rparr>) = (w, Ok y)"
  shows "cGet c (rs_world (publishPlatform c cs s)) (platKey (rs_cr s)) = Ok y \<and>
    p_Status y = publishedStatus cs (rs_cr s)"
proof -
  have key: "platKey latest = platKey (rs_cr s)"
    using assms(2) [OF assms(3)] .
  have "cGet c w (platKey latest) = Ok y \<and> p_Status y = publishedStatus cs (rs_cr s)"
    using assms(1,4) unfolding statusVisible_def by (metis platKey_status AIPlatform.select_convs(3) AIPlatform.surjective AIPlatform.update_convs(3))
  then show ?thesis
    using key assms(3,4) by (simp add: publishPlatform_def)
qed

text \<open>
  C1: a reconcile of the platform runs its stages in sequence and, when the latest object can be
  read and its status written, leaves exactly the report of this run as conditions: one per stage
  up to the first failure, Ready True exactly when every stage returned, each type once, the
  generation observed and the service names that the stages found.
\<close>

theorem platform_status_published:
  assumes "statusVisible platKey p_Status (pd_platforms d)"
    and "clientDocs platKey p_Spec (pd_platforms d)"
    and run: "PlatformReconcile d clock s = (r, t)"
  shows "\<exists>cs u. inSequence (platformStages d) s = (r, u) \<and> rs_cr t = rs_cr u \<and>
    stageReport clock platformStageNames r cs \<and> distinct (map c_Type cs) \<and>
    (IsConditionTrue cs ''Ready'' \<longleftrightarrow> r = Ok ()) \<and>
    (\<forall>latest w y. cGet (pd_platforms d) (rs_world u) (platKey (rs_cr u)) = Ok latest \<and>
        cStatusUpdate (pd_platforms d) (rs_world u) (latest\<lparr>p_Status := publishedStatus cs (rs_cr u)\<rparr>) = (w, Ok y) \<longrightarrow>
      cGet (pd_platforms d) (rs_world t) (platKey (rs_cr u)) = Ok y \<and>
      p_Status y = (p_Status (rs_cr u))\<lparr>aps_Conditions := cs,
                                        aps_ObservedGeneration := om_Generation (p_Meta (rs_cr u))\<rparr>)"
proof -
  obtain cs u where u: "runStages clock (platformStages d) [] s = (r, cs, u)"
      "t = publishPlatform (pd_platforms d) cs u"
    using run by (auto simp: PlatformReconcile_def split: prod.splits)
  have report: "stageReport clock platformStageNames r cs"
    using runStages_report [OF u(1)] by (simp add: stage_simps)
  have cr: "rs_cr t = rs_cr u"
    using u(2) by (simp add: publishPlatform_def split: res.split)
  have vis: "cGet (pd_platforms d) (rs_world t) (platKey (rs_cr u)) = Ok y \<and> p_Status y = publishedStatus cs (rs_cr u)"
    if "cGet (pd_platforms d) (rs_world u) (platKey (rs_cr u)) = Ok latest \<and>
      cStatusUpdate (pd_platforms d) (rs_world u) (latest\<lparr>p_Status := publishedStatus cs (rs_cr u)\<rparr>) = (w, Ok y)"
    for latest w y
    unfolding u(2)
    by (rule publishPlatform_visible [OF assms(1) clientDocs_get [OF assms(2)] conjunct1 [OF that] conjunct2 [OF that]])
  show ?thesis
  proof (intro exI conjI allI impI)
    show "inSequence (platformStages d) s = (r, u)" by (rule runStages_sequence [OF u(1)])
    show "rs_cr t = rs_cr u" by (rule cr)
    show "stageReport clock platformStageNames r cs" by (rule report)
    show "distinct (map c_Type cs)" by (rule platform_stages.report_distinct [OF report])
    show "IsConditionTrue cs ''Ready'' \<longleftrightarrow> r = Ok ()" by (rule platform_stages.report_ready [OF report])
  qed (use vis in \<open>blast, simp add: publishedStatus_def\<close>)
qed

section \<open>Children\<close>

lemma find_SomeD: "find P xs = Some x \<Longrightarrow> x \<in> set xs \<and> P x"
  by (auto simp: find_Some_iff)

lemma firstFailure_None:
  "firstFailure ss = None \<longleftrightarrow> (\<forall>s \<in> set ss. \<forall>c \<in> set (ass_Conditions (s_Status s)). \<not> failedCond c)"
proof (induction ss)
  case (Cons s ss)
  show ?case
  proof (cases "find failedCond (ass_Conditions (s_Status s))")
    case None
    then have "\<forall>c \<in> set (ass_Conditions (s_Status s)). \<not> failedCond c"
      by (simp add: find_None_iff)
    then show ?thesis using None Cons by simp
  next
    case (Some c)
    then show ?thesis using find_SomeD [OF Some] by auto
  qed
qed simp

text \<open>
  The last stage reads only, and succeeds exactly when the children can be listed and none of
  their conditions is a failed one.
\<close>

theorem child_status_gate:
  assumes "CheckAIServiceStatus d s = (r, t)"
  shows "t = s \<and> (r = Ok () \<longleftrightarrow>
    (\<exists>children. cList (pd_services d) (rs_world s)
         \<lparr>lo_Namespace = om_Namespace (p_Meta (rs_cr s)), lo_Labels = fmempty,
          lo_Controller = Some (om_Name (p_Meta (rs_cr s)))\<rparr> = Ok children \<and>
       (\<forall>x \<in> set children. \<forall>c \<in> set (ass_Conditions (s_Status x)).
          \<not> (c_Status c = ''False'' \<and> c_Reason c = ''Error''))))"
proof (cases "cList (pd_services d) (rs_world s) \<lparr>lo_Namespace = om_Namespace (p_Meta (rs_cr s)),
    lo_Labels = fmempty, lo_Controller = Some (om_Name (p_Meta (rs_cr s)))\<rparr>")
  case (Ok children)
  then show ?thesis
    using assms firstFailure_None [of children]
    by (cases "firstFailure children")
      (auto simp: CheckAIServiceStatus_def listChildren_def act_defs failedCond_def)
qed (use assms in \<open>auto simp: CheckAIServiceStatus_def listChildren_def act_defs\<close>)

section \<open>Ingress\<close>

text \<open>
  The API server's validation: the name of a backend service is required, so a stored ingress has
  none that is empty.
\<close>

definition backendsNamed :: "ingress \<Rightarrow> bool" where
  "backendsNamed i = list_all (\<lambda>r. list_all (\<lambda>x. gp_ServiceName x \<noteq> []) (gl_Paths r)) (ig_Rules i)"

definition ingressValidated :: "('w, ingress) client \<Rightarrow> bool" where
  "ingressValidated c \<longleftrightarrow>
     (\<forall>w k x. cGet c w k = Ok x \<longrightarrow> backendsNamed x) \<and>
     (\<forall>w x w' y. (cCreate c w x = (w', Ok y) \<or> cUpdate c w x = (w', Ok y)) \<longrightarrow> backendsNamed x)"

definition waitsForRay :: "IngressSpec \<Rightarrow> AIPlatform \<Rightarrow> bool" where
  "waitsForRay sp p \<longleftrightarrow> ingressEnabled p = Some sp \<and> aps_RayServiceName (p_Status p) = []"

definition routesToRay :: "IngressSpec \<Rightarrow> bool" where
  "routesToRay sp \<longleftrightarrow> (\<exists>h \<in> set (in_Hosts sp). \<exists>x \<in> set (ih_Paths h).
     ip_Path x \<notin> {''/dashboard'', ''/dashboard/*'', ''/weaviate'', ''/weaviate/*''})"

lemma mutateIngress_unnamed:
  assumes "waitsForRay sp p" and "routesToRay sp" and "mutateIngress p sp i = Ok new"
  shows "\<not> backendsNamed new"
proof -
  obtain h x where h: "h \<in> set (in_Hosts sp)" "x \<in> set (ih_Paths h)" and
      x: "ip_Path x \<notin> {''/dashboard'', ''/dashboard/*'', ''/weaviate'', ''/weaviate/*''}"
    using assms(2) by (auto simp: routesToRay_def)
  have "fst (ingressBackend p (ip_Path x)) = []"
    using x assms(1) by (simp add: ingressBackend_def waitsForRay_def)
  then show ?thesis
    using h assms(3) by (force simp: mutateIngress_def ingressRules_def backendsNamed_def list_all_iff)
qed

lemma ingress_not_written:
  assumes "createOrUpdateSpec igKey c" and valid: "ingressValidated c"
    and "waitsForRay sp p" and "routesToRay sp"
  shows "cCreateOrUpdate c w i (mutateIngress p sp) \<noteq> (w', Ok y)"
proof
  assume run: "cCreateOrUpdate c w i (mutateIngress p sp) = (w', Ok y)"
  have bad: "\<not> backendsNamed new" if "mutateIngress p sp j = Ok new" for j new
    using mutateIngress_unnamed [OF assms(3,4) that] .
  from assms(1) run show False
    by (rule createOrUpdate_writes) (use bad valid [unfolded ingressValidated_def] in \<open>blast+\<close>)
qed

lemma ingress_stage_blocked:
  assumes "createOrUpdateSpec igKey (pd_ingresses d)" and "ingressValidated (pd_ingresses d)"
    and "waitsForRay sp (rs_cr s)" and "routesToRay sp"
  shows "fst (ReconcileIngress d s) \<noteq> Ok ()"
proof
  assume "fst (ReconcileIngress d s) = Ok ()"
  then obtain t where run: "ReconcileIngress d s = (Ok (), t)"
    by (metis prod.collapse)
  have "ingressEnabled (rs_cr s) = Some sp"
    using assms(3) by (simp add: waitsForRay_def)
  then show False
    using run ingress_not_written [OF assms]
    by (auto simp: ReconcileIngress_def Let_def tryA_def act_Ok_iff upsertA_def whenA_def
        split: res.splits prod.splits if_splits)
qed


section \<open>Waiting for a name that a later stage would find\<close>

lemma waits_status: "waitsForRay sp p \<Longrightarrow> aps_RayServiceName st = [] \<Longrightarrow> waitsForRay sp (p\<lparr>p_Status := st\<rparr>)"
  by (simp add: waitsForRay_def ingressEnabled_def)

lemma waits_spec: "waitsForRay sp p \<Longrightarrow> ap_Ingress x = ap_Ingress (p_Spec p) \<Longrightarrow> waitsForRay sp (p\<lparr>p_Spec := x\<rparr>)"
  by (simp add: waitsForRay_def ingressEnabled_def)

lemma keeps_setConds [keeps_intros]: "keepsCR (waitsForRay sp) (setConds d cs)"
  unfolding setConds_def by (intro keeps_intros waits_status) (simp_all add: waitsForRay_def)

lemma keeps_transition [keeps_intros]: "keepsCR (waitsForRay sp) (transition d t b up down c)"
  unfolding transition_def Let_def by (intro keeps_intros)

lemma keeps_enrichPlatform [keeps_intros]: "keepsCR (waitsForRay sp) (enrichPlatform d)"
  by (auto simp: keepsCR_def enrichPlatform_def Let_def intro!: waits_spec split: prod.splits)

lemma keeps_platform_validate: "keepsCR (waitsForRay sp) (validate d)"
  unfolding validate_def
  by (intro keeps_intros waits_spec) (simp_all add: fillScheduling_def)

lemma keeps_asResult [keeps_intros]: "keepsCR Q m \<Longrightarrow> keepsCR Q (asResult x m)"
  unfolding asResult_def by (intro keeps_intros)

lemma keeps_writeRayService [keeps_intros]: "keepsCR Q (writeRayService d p c conf x)"
  unfolding writeRayService_def by (intro keeps_intros)

lemma keeps_attempts:
  assumes "attempts f x s q t" and "\<And>y. keepsCR Q (f y)" and "Q (rs_cr s)"
  shows "Q (rs_cr t)"
  using assms(1)
proof induction
  case (first q t)
  then show ?case using keepsCR_D [OF assms(2,3)] by blast
next
  case (again y e u q t)
  then show ?case using keepsCR_D [OF assms(2)] by blast
qed

lemma keeps_retry:
  "retryDocs (rd_retry d) \<Longrightarrow> (\<And>y. keepsCR Q (f y)) \<Longrightarrow> keepsCR Q (rd_retry d f x)"
  unfolding retryDocs_def keepsCR_def [of Q "rd_retry d f x"] using keeps_attempts by metis

lemma keeps_rbac: "keepsCR Q (ReconcileRayAutoscalerRBAC d)"
  unfolding ReconcileRayAutoscalerRBAC_def Let_def by (intro keeps_intros)

lemma keeps_rayService: "retryDocs (rd_retry d) \<Longrightarrow> keepsCR Q (ReconcileRayService d)"
  unfolding ReconcileRayService_def Let_def by (auto intro!: keeps_intros keeps_retry split: option.split)

lemma keeps_weaviate: "keepsCR Q (ReconcileWeaviateDatabase d)"
  unfolding ReconcileWeaviateDatabase_def weaviateWrites_def Let_def ownedMeta_def by (intro keeps_intros)

lemma keeps_ingress: "keepsCR (waitsForRay sp) (ReconcileIngress d)"
proof -
  have "keepsCR (waitsForRay sp) (UpdateIngressStatus d)"
    unfolding UpdateIngressStatus_def modStatus_def
    by (intro keeps_getCR) (auto intro!: keeps_intros waits_status split: option.split simp: waitsForRay_def)
  then show ?thesis
    unfolding ReconcileIngress_def Let_def
    by (intro keeps_getCR) (auto intro!: keeps_intros split: option.split)
qed

text \<open>
  C28: with an enabled ingress that has a path for the Ray service, a platform that has no Ray
  service name yet cannot make progress: the Ingress stage comes before the stage that finds the
  name, the API server refuses a backend without a name, so no reconcile returns without error, the
  name stays empty in the status that is sent, and RayServiceStatus is never reported True.
\<close>

theorem ingress_blocks_first_reconcile:
  assumes "createOrUpdateSpec igKey (pd_ingresses d)" and "ingressValidated (pd_ingresses d)"
    and "waitsForRay sp (rs_cr s)" and "routesToRay sp" and retry: "retryDocs (rd_retry (pd_ray d))"
    and run: "PlatformReconcile d clock s = (r, t)"
  shows "r \<noteq> Ok () \<and> (\<exists>cs u. t = publishPlatform (pd_platforms d) cs u \<and>
    aps_RayServiceName (publishedStatus cs (rs_cr u)) = [] \<and> waitsForRay sp (rs_cr t) \<and>
    \<not> IsConditionTrue cs ''IngressReady'' \<and> \<not> IsConditionTrue cs ''RayServiceStatusReady'')"
proof -
  let ?Q = "waitsForRay sp"
  obtain cs u where u: "runStages clock (platformStages d) [] s = (r, cs, u)"
      "t = publishPlatform (pd_platforms d) cs u"
    using run by (auto simp: PlatformReconcile_def split: prod.splits)
  have report: "stageReport clock platformStageNames r cs"
    using runStages_report [OF u(1)] by (simp add: stage_simps)
  have run': "runStages clock (take 5 (platformStages d) @ (''Ingress'', ReconcileIngress d) #
      drop 6 (platformStages d)) [] s = (r, cs, u)"
    using u(1) by (simp add: platformStages_def)
  have pre: "keepsCR ?Q (snd st)" if "st \<in> set (take 5 (platformStages d))" for st
    using that keeps_platform_validate keeps_sidecars keeps_rbac keeps_rayService [OF retry] keeps_weaviate
    by (auto simp: platformStages_def)
  have "fst (ReconcileIngress d w) \<noteq> Ok ()" if "?Q (rs_cr w)" for w
    using ingress_stage_blocked [OF assms(1,2) that assms(4)] .
  then have blocked: "r \<noteq> Ok () \<and> length cs \<le> Suc (length ([] :: condition list) + length (take 5 (platformStages d))) \<and> ?Q (rs_cr u) \<and>
      (\<forall>p. r = Panic p \<longrightarrow> length cs \<le> length ([] :: condition list) + length (take 5 (platformStages d)))"
    using runStages_blocked [OF run', of ?Q] pre keeps_ingress assms(3) by blast
  then have len: "length cs \<le> 6" "\<And>p. r = Panic p \<Longrightarrow> length cs \<le> 5"
    by (simp_all add: platformStages_def)
  have names: "platformStageNames ! 5 = ''Ingress''" "platformStageNames ! 6 = ''RayServiceStatus''"
    "length platformStageNames = 11"
    by (simp_all add: platformStageNames_def)
  have stage5: "\<not> IsConditionTrue cs ''IngressReady''"
    using platform_stages.report_true_iff [OF report, of 5] names blocked len by (cases r) auto
  have stage6: "\<not> IsConditionTrue cs ''RayServiceStatusReady''"
    using platform_stages.report_true_iff [OF report, of 6] names blocked len by (cases r) auto
  have cr: "rs_cr t = rs_cr u"
    using u(2) by (simp add: publishPlatform_def split: res.split)
  then show ?thesis
    using blocked u(2) stage5 stage6
    by (intro conjI exI [of _ cs] exI [of _ u]) (simp_all add: publishedStatus_def waitsForRay_def)
qed

text \<open>A kind that the cluster does not know: no object of it is created or updated.\<close>

definition kindMissing :: "('w, 'o) client \<Rightarrow> bool" where
  "kindMissing c \<longleftrightarrow> (\<forall>w x f w' q. cCreateOrUpdate c w x f = (w', q) \<longrightarrow> \<not> isOk q)"

text \<open>
  C25: a cluster without the Prometheus operator's resources, where no rule can be written, holds up
  every platform, also one with all sidecars switched off: the rule is reconciled unconditionally,
  so no reconcile returns without error and of all stages only Validate is ever reported True.
\<close>

theorem prometheus_required:
  assumes norules: "kindMissing (si_rules (pd_sidecars d))"
    and run: "PlatformReconcile d clock s = (r, t)"
  shows "r \<noteq> Ok () \<and> (\<exists>cs u. t = publishPlatform (pd_platforms d) cs u \<and>
    (\<forall>i \<in> {1..<11}. \<not> IsConditionTrue cs (platformStageNames ! i @ ''Ready'')))"
proof -
  obtain cs u where u: "runStages clock (platformStages d) [] s = (r, cs, u)"
      "t = publishPlatform (pd_platforms d) cs u"
    using run by (auto simp: PlatformReconcile_def split: prod.splits)
  have report: "stageReport clock platformStageNames r cs"
    using runStages_report [OF u(1)] by (simp add: stage_simps)
  have run': "runStages clock ([(''Validate'', validate d)] @ (''Sidecars'', SidecarsReconcile (pd_sidecars d)) #
      drop 2 (platformStages d)) [] s = (r, cs, u)"
    using u(1) by (simp add: platformStages_def)
  have "reconcilePrometheusRule (pd_sidecars d) v \<noteq> (Ok (), w)" for v w
    using norules by (fastforce simp: kindMissing_def reconcilePrometheusRule_def upsertA_def act_Ok_iff)
  then have "fst (SidecarsReconcile (pd_sidecars d) v) \<noteq> Ok ()" for v
    by (cases "SidecarsReconcile (pd_sidecars d) v") (auto simp: SidecarsReconcile_def act_Ok_iff)
  then have blocked: "r \<noteq> Ok () \<and> length cs \<le> 2 \<and> (\<forall>p. r = Panic p \<longrightarrow> length cs \<le> 1)"
    using runStages_blocked [OF run', of "\<lambda>_. True"] by (simp add: keepsCR_def)
  have "\<not> IsConditionTrue cs (platformStageNames ! i @ ''Ready'')" if "i \<in> {1..<11}" for i
    using platform_stages.report_true_iff [OF report, of i] that blocked
    by (cases r) (auto simp: platformStageNames_def)
  then show ?thesis
    using blocked u(2) by blast
qed

section \<open>The properties at concrete runs\<close>

text \<open>A platform reconciler whose clients refuse every call, but for those named.\<close>

definition refused :: "'a res" where
  "refused = Err (ApiErr OtherAPI ''unavailable'')"

definition offReads :: ray_reads where
  "offReads =
     \<lparr>rr_service = \<lambda>_. refused, rr_cluster = \<lambda>_. refused, rr_endpoints = \<lambda>_. refused,
      rr_pods = \<lambda>_ _. refused, rr_statefulSet = \<lambda>_. refused, rr_statefulSets = \<lambda>_ _. refused,
      rr_k8sService = \<lambda>_. refused\<rparr>"

fun isConflict :: "gerr \<Rightarrow> bool" where
  "isConflict (Errorf _) = False"
| "isConflict (Wrapf _ e) = isConflict e"
| "isConflict (ApiErr r _) = (r = Conflict)"

text \<open>An example of a retry: some more attempts after the first, the last error is the outcome.\<close>

fun retryOnConflict :: "nat \<Rightarrow> ('w, 'c, 'o) attempt \<Rightarrow> 'o \<Rightarrow> ('w, 'c, unit) act" where
  "retryOnConflict n f x s =
     (case f x s of
        (Panic p, t) \<Rightarrow> (Panic p, t)
      | (Err e, t) \<Rightarrow> (Err e, t)
      | (Ok (y, None), t) \<Rightarrow> (Ok (), t)
      | (Ok (y, Some e), t) \<Rightarrow>
          (case n of 0 \<Rightarrow> (Err e, t) | Suc m \<Rightarrow> if isConflict e then retryOnConflict m f y t else (Err e, t)))"

declare retryOnConflict.simps [simp del]

lemma attempts_Cons:
  "attempts f y u q t \<Longrightarrow> f x s = (Ok (y, Some e), u) \<Longrightarrow> attempts f x s q t"
  by (induction rule: attempts.induct) (auto intro: attempts.intros)

lemma retryOnConflict_docs: "retryDocs (retryOnConflict n)"
proof -
  have "\<exists>q. attempts f x s q t \<and> (r = Ok () \<longrightarrow> (\<exists>y. q = Ok (y, None)))"
    if "retryOnConflict n f x s = (r, t)" for f :: "('w, 'c, 'o) attempt" and x s r t
    using that
  proof (induction n f x s rule: retryOnConflict.induct)
    case (1 n f x s)
    obtain q u where q: "f x s = (q, u)" by fastforce
    have once: "attempts f x s q u"
      using q by (rule attempts.first)
    show ?case
    proof (cases "\<exists>y e m. q = Ok (y, Some e) \<and> n = Suc m \<and> isConflict e")
      case True
      then obtain y e m where y: "q = Ok (y, Some e)" "n = Suc m" "isConflict e" by blast
      then have "retryOnConflict m f y u = (r, t)"
        using 1(2) q by (simp add: retryOnConflict.simps [of "Suc m"])
      from 1(1) [OF q [symmetric] _ _ _ _ _ this] y show ?thesis
        using attempts_Cons q by metis
    next
      case False
      then have "t = u \<and> (r = Ok () \<longrightarrow> (\<exists>y. q = Ok (y, None)))"
        using 1(2) q by (auto simp: retryOnConflict.simps [of n] split: res.splits option.splits nat.splits if_splits)
      then show ?thesis using once by blast
    qed
  qed
  then show ?thesis
    unfolding retryDocs_def by blast
qed

definition offRay :: "'w rayDeps" where
  "offRay =
     \<lparr>rd_getenv = \<lambda>_. ''img'', rd_readFile = \<lambda>_. refused, rd_setRef = addOwner, rd_setOwner = addOwner, rd_retry = retryOnConflict 5,
      rd_rayservices = offClient, rd_configmaps = offClient, rd_roles = offClient, rd_bindings = offClient,
      rd_reads = \<lambda>_. offReads, rd_parseInstances = \<lambda>_. refused, rd_parseFeature = \<lambda>_. refused,
      rd_parseTemplate = \<lambda>_. refused, rd_urlErr = Errorf, rd_quantityText = id, rd_range = \<lambda>_ _. [],
      rd_setCondition = putCondition, rd_now = 0\<rparr>"

definition offSide :: "'w sidecarDeps" where
  "offSide =
     \<lparr>si_configmaps = offClient, si_collectors = offClient, si_monitors = offClient, si_rules = offClient,
      si_secret = \<lambda>_ _. refused, si_setRef = addOwner, si_setOwner = addOwner, si_lookupEnv = \<lambda>_. None,
      si_marshal = \<lambda>_. refused, si_yamlToJSON = \<lambda>_. refused, si_unmarshal = \<lambda>_. refused\<rparr>"

definition offPlat :: "'w platDeps" where
  "offPlat =
     \<lparr>pd_ray = offRay, pd_sidecars = offSide, pd_readFile = \<lambda>_. refused, pd_platforms = offClient,
      pd_services = offClient, pd_ingresses = offClient, pd_statefulsets = offClient,
      pd_accounts = offClient, pd_svcs = offClient, pd_certs = offClient, pd_secrets = offClient,
      pd_standalones = \<lambda>_ _. refused, pd_indexers = \<lambda>_ _. refused,
      pd_removeCondition = \<lambda>cs t. filter (\<lambda>c. c_Type c \<noteq> t) cs, pd_validQuantity = \<lambda>_. True\<rparr>"

lemmas off_defs = offPlat_def offSide_def offRay_def offReads_def refused_def offClient_def offline_def

lemma memClient_reads:
  "cGet (memClient key sel) = memGet key" "cList (memClient key sel) w lo = Ok (filter (sel lo) w)"
  by (simp_all add: memClient_def)

definition emptyPlatform :: AIPlatform where
  "emptyPlatform = zeroAIPlatform\<lparr>p_Meta := newMeta ''p'' ''ns''\<rparr>"

text \<open>Without an object storage the first stage fails, and only its condition is published.\<close>

theorem platform_status_published_witness:
  "let (r, t) = PlatformReconcile (offPlat\<lparr>pd_platforms := memClient platKey (\<lambda>_ _. True)\<rparr>) id
         \<lparr>rs_world = [emptyPlatform], rs_events = [], rs_cr = emptyPlatform\<rparr>
   in r \<noteq> Ok () \<and> (\<exists>y. memGet platKey (rs_world t) (''ns'', ''p'') = Ok y \<and>
        stageReport id platformStageNames r (aps_Conditions (p_Status y)) \<and>
        \<not> IsConditionTrue (aps_Conditions (p_Status y)) ''Ready'')"
proof -
  let ?D = "offPlat\<lparr>pd_platforms := memClient platKey (\<lambda>_ _. True)\<rparr> :: AIPlatform list platDeps"
  let ?S = "\<lparr>rs_world = [emptyPlatform], rs_events = [], rs_cr = emptyPlatform\<rparr>"
  let ?e = "Errorf ''object storage is required''"
  let ?cs = "[stageCond 0 ''Validate'' (Some ?e)]"
  have val: "validate ?D ?S = (Err ?e, ?S)"
    by (simp add: validate_def act_defs emptyPlatform_def zero_defs)
  have run: "PlatformReconcile ?D id ?S = (Err ?e, publishPlatform (pd_platforms ?D) ?cs ?S)"
    by (simp add: PlatformReconcile_def platformStages_def val)
  have key: "platKey emptyPlatform = (''ns'', ''p'')"
    by (simp add: emptyPlatform_def platKey_def metaKey_def zero_defs newMeta_def)
  have docs: "statusVisible platKey p_Status (pd_platforms ?D)" "clientDocs platKey p_Spec (pd_platforms ?D)"
    by (simp_all add: memClient_status memClient_docs)
  have seq: "inSequence (platformStages ?D) ?S = (Err ?e, ?S)"
    by (simp add: platformStages_def val act_defs)
  obtain cs u where u: "(Err ?e, ?S) = (Err ?e, u)"
    and cs: "stageReport id platformStageNames (Err ?e) cs" "IsConditionTrue cs ''Ready'' \<longleftrightarrow> Err ?e = Ok ()"
    and vis: "\<forall>latest w y. cGet (pd_platforms ?D) (rs_world u) (platKey (rs_cr u)) = Ok latest \<and>
        cStatusUpdate (pd_platforms ?D) (rs_world u) (latest\<lparr>p_Status := publishedStatus cs (rs_cr u)\<rparr>) = (w, Ok y) \<longrightarrow>
      cGet (pd_platforms ?D) (rs_world (publishPlatform (pd_platforms ?D) ?cs ?S)) (platKey (rs_cr u)) = Ok y \<and>
      p_Status y = (p_Status (rs_cr u))\<lparr>aps_Conditions := cs,
                                        aps_ObservedGeneration := om_Generation (p_Meta (rs_cr u))\<rparr>"
    using platform_status_published [OF docs run] unfolding seq by blast
  let ?new = "emptyPlatform\<lparr>p_Status := publishedStatus cs emptyPlatform\<rparr>"
  have "cGet (pd_platforms ?D) [emptyPlatform] (''ns'', ''p'') = Ok emptyPlatform"
    by (simp add: memClient_def memGet_def key)
  moreover have "cStatusUpdate (pd_platforms ?D) [emptyPlatform] ?new = ([?new], Ok ?new)"
    by (simp add: memClient_def memUpdate_def)
  moreover have "u = ?S" using u by simp
  ultimately have "cGet (pd_platforms ?D) (rs_world (publishPlatform (pd_platforms ?D) ?cs ?S)) (''ns'', ''p'') = Ok ?new"
    using vis [rule_format, of emptyPlatform "[?new]" ?new] by (simp add: key del: platDeps.simps)
  then show ?thesis
    using cs by (simp add: run memClient_reads)
qed

text \<open>A child with a failed stage fails the last stage.\<close>

definition failedChild :: AIService where
  "failedChild = zeroAIService\<lparr>s_Status := (s_Status zeroAIService)\<lparr>ass_Conditions :=
     [stageCond 0 ''ServiceAccount'' None, stageCond 1 ''Certificate'' (Some (Errorf ''x''))]\<rparr>\<rparr>"

theorem child_status_gate_witness:
  "let s = \<lparr>rs_world = [failedChild], rs_events = [], rs_cr = emptyPlatform\<rparr>;
       (r, t) = CheckAIServiceStatus (offPlat\<lparr>pd_services := memClient (metaKey \<circ> s_Meta) (\<lambda>_ _. True)\<rparr>) s
   in t = s \<and> r \<noteq> Ok ()"
proof -
  let ?S = "\<lparr>rs_world = [failedChild], rs_events = [], rs_cr = emptyPlatform\<rparr>"
  let ?D = "offPlat\<lparr>pd_services := memClient (metaKey \<circ> s_Meta) (\<lambda>_ _. True)\<rparr> :: AIService list platDeps"
  obtain r t where run: "CheckAIServiceStatus ?D ?S = (r, t)"
    by fastforce
  have "t = ?S \<and> r \<noteq> Ok ()"
    using child_status_gate [OF run] by (simp add: memClient_reads failedChild_def stageCond_def)
  then show ?thesis by (simp add: run Let_def)
qed

text \<open>An empty cluster whose API server checks what is written.\<close>

definition checkedClient :: "('o \<Rightarrow> bool) \<Rightarrow> ('w, 'o) client" where
  "checkedClient ok = offClient\<lparr>
     cGet := \<lambda>_ _. Err (ApiErr NotFound ''not found''),
     cCreate := \<lambda>w x. (w, if ok x then Ok x else Err (ApiErr OtherAPI ''invalid'')),
     cCreateOrUpdate := \<lambda>w x f. (w, bindR (f x) (\<lambda>y. if ok y then Ok y else Err (ApiErr OtherAPI ''invalid'')))\<rparr>"

lemma checkedClient_docs: "createOrUpdateSpec key (checkedClient ok)"
  by (auto simp: createOrUpdateSpec_def checkedClient_def split: res.split)

lemma checkedClient_calls:
  "cGet (checkedClient ok) w k \<noteq> Ok x" "cUpdate (checkedClient ok) w y \<noteq> (w', Ok x)"
  "cCreate (checkedClient ok) w y = (w', Ok x) \<longleftrightarrow> ok y \<and> w' = w \<and> x = y"
  by (auto simp: checkedClient_def offClient_def offline_def)

definition checkedIngresses :: "('w, ingress) client" where
  "checkedIngresses = checkedClient backendsNamed"

lemma checkedIngresses_docs: "createOrUpdateSpec igKey checkedIngresses" "ingressValidated checkedIngresses"
  by (auto simp: checkedIngresses_def checkedClient_docs ingressValidated_def checkedClient_calls)

definition apiIngress :: IngressSpec where
  "apiIngress = \<lparr>in_Enabled = True, in_ClassName = [], in_Annotations = None,
     in_Hosts = [\<lparr>ih_Host = ''h'', ih_Paths = [\<lparr>ip_Path = ''/api'', ip_PathType = ''Prefix''\<rparr>]\<rparr>], in_TLS = []\<rparr>"

definition exposedPlatform :: AIPlatform where
  "exposedPlatform = emptyPlatform\<lparr>p_Spec := zeroPlatformSpec\<lparr>ap_Ingress := Some apiIngress\<rparr>\<rparr>"

theorem ingress_blocks_first_reconcile_witness:
  "let (r, t) = PlatformReconcile (offPlat\<lparr>pd_ingresses := checkedIngresses\<rparr>) id
         \<lparr>rs_world = (), rs_events = [], rs_cr = exposedPlatform\<rparr>
   in r \<noteq> Ok () \<and> waitsForRay apiIngress (rs_cr t)"
proof -
  let ?D = "offPlat\<lparr>pd_ingresses := checkedIngresses\<rparr> :: unit platDeps"
  let ?S = "\<lparr>rs_world = (), rs_events = [], rs_cr = exposedPlatform\<rparr>"
  have waits: "waitsForRay apiIngress (rs_cr ?S)" "routesToRay apiIngress"
    by (simp_all add: waitsForRay_def ingressEnabled_def exposedPlatform_def emptyPlatform_def apiIngress_def
        routesToRay_def zero_defs)
  have docs: "createOrUpdateSpec igKey (pd_ingresses ?D)" "ingressValidated (pd_ingresses ?D)"
    using checkedIngresses_docs by simp_all
  have retry: "retryDocs (rd_retry (pd_ray ?D))"
    by (simp add: off_defs retryOnConflict_docs)
  obtain r t where run: "PlatformReconcile ?D id ?S = (r, t)"
    by fastforce
  show ?thesis
    using ingress_blocks_first_reconcile [OF docs waits retry run] by (auto simp: run)
qed


theorem prometheus_required_witness:
  "let (r, t) = PlatformReconcile offPlat id \<lparr>rs_world = (), rs_events = [], rs_cr = emptyPlatform\<rparr>
   in sd_PrometheusOperator (ap_Sidecars (p_Spec emptyPlatform)) = False \<and> r \<noteq> Ok ()"
proof -
  have norules: "kindMissing (si_rules (pd_sidecars (offPlat :: unit platDeps)))"
    by (simp add: kindMissing_def off_defs)
  obtain r t where run: "PlatformReconcile (offPlat :: unit platDeps) id
      \<lparr>rs_world = (), rs_events = [], rs_cr = emptyPlatform\<rparr> = (r, t)"
    by fastforce
  show ?thesis
    using prometheus_required [OF norules run] by (simp add: run) (simp add: emptyPlatform_def zero_defs)
qed

end
