(* ===== verification/ControllersCorrect.thy ===== *)
theory ControllersCorrect
  imports Controllers SaiaCorrect PlatformCorrect
begin

text \<open>
  What the controllers guarantee: which events reach a reconcile, what a reconcile of an AIService
  publishes, and when the finalizer of a platform is removed.
\<close>

section \<open>Watches\<close>

lemma builderDocsD:
  assumes "builderDocs run delivers" and "w \<in> set (cn_Watches c)"
  shows "delivers c w e = list_all (\<lambda>p. run p e) (cn_Filter c @ wt_Predicates w)"
  using assms unfolding builderDocs_def by blast

lemma controllers_filter: "c \<in> {aiPlatformController, aiServiceController} \<Longrightarrow> cn_Filter c = [eventFilter]"
  by (auto simp: aiPlatformController_def aiServiceController_def)

definition metaChanged :: "'v wobj \<Rightarrow> 'v wobj \<Rightarrow> bool" where
  "metaChanged old new \<longleftrightarrow>
     om_Generation (wo_Meta old) \<noteq> om_Generation (wo_Meta new) \<or>
     om_Annotations (wo_Meta old) \<noteq> om_Annotations (wo_Meta new) \<or>
     om_Labels (wo_Meta old) \<noteq> om_Labels (wo_Meta new)"

lemma eventFilter_update:
  assumes "predicateDocs run"
  shows "run eventFilter (UpdateEvent old new) \<longleftrightarrow> metaChanged old new"
  using predicateDocsD [OF assms]
  by (simp add: eventFilter_def GenerationChangedPredicate_def AnnotationChangedPredicate_def
      LabelChangedPredicate_def metaChanged_def)

lemma eventFilter_delete:
  assumes "predicateDocs run"
  shows "run eventFilter (DeleteEvent x unknown) \<longleftrightarrow> \<not> unknown"
  using predicateDocsD [OF assms]
  by (simp add: eventFilter_def GenerationChangedPredicate_def AnnotationChangedPredicate_def
      LabelChangedPredicate_def)

text \<open>
  C26: the event filter of both controllers applies to what they own as well: an update reaches a
  reconcile only when the object's generation, annotations or labels changed, whatever the watch's
  own predicate says, and a deletion only when its final state is known. A completed Job, edited
  data of a ConfigMap or Secret and a StatefulSet becoming ready change none of the three.
\<close>

theorem content_changes_filtered:
  assumes "predicateDocs run" and "builderDocs run delivers"
    and "c \<in> {aiPlatformController, aiServiceController}" and "w \<in> set (cn_Watches c)"
  shows "(delivers c w (UpdateEvent old new) \<longleftrightarrow>
       metaChanged old new \<and> list_all (\<lambda>p. run p (UpdateEvent old new)) (wt_Predicates w)) \<and>
     (delivers c w (DeleteEvent x unknown) \<longrightarrow> \<not> unknown)"
  using eventFilter_update [OF assms(1)] eventFilter_delete [OF assms(1)] controllers_filter [OF assms(3)]
  by (simp add: builderDocsD [OF assms(2,4)])

text \<open>The Job watch's own predicate accepts a Job that completes, and yet no reconcile follows.\<close>

definition runningJob :: "nat wobj" where
  "runningJob = \<lparr>wo_Kind = KJob, wo_Meta = newMeta ''j'' ''ns'', wo_Data = 0, wo_Spec = 0,
     wo_Status = \<lparr>ws_Phase = [], ws_Conditions = 0, ws_Rest = 0\<rparr>\<rparr>"

definition completeJob :: "nat wobj" where
  "completeJob = runningJob\<lparr>wo_Status := \<lparr>ws_Phase = [], ws_Conditions = 1, ws_Rest = 0\<rparr>\<rparr>"

theorem content_changes_filtered_witness:
  "let delivers = (\<lambda>c w e. list_all (\<lambda>p. runPredicate p e) (cn_Filter c @ wt_Predicates w));
       jobs = owns KJob (Funcs JobChangedPredicate)
   in list_all (\<lambda>p. runPredicate p (UpdateEvent runningJob completeJob)) (wt_Predicates jobs) \<and>
      \<not> delivers aiServiceController jobs (UpdateEvent runningJob completeJob)"
proof -
  let ?del = "\<lambda>c w e. list_all (\<lambda>p. runPredicate p e) (cn_Filter c @ wt_Predicates w)"
  have docs: "builderDocs (runPredicate :: nat predicate \<Rightarrow> _) ?del"
    by (simp add: builderDocs_def)
  have watch: "owns KJob (Funcs JobChangedPredicate) \<in> set (cn_Watches (aiServiceController :: nat controller))"
    by (simp add: aiServiceController_def)
  have "\<not> ?del aiServiceController (owns KJob (Funcs JobChangedPredicate)) (UpdateEvent runningJob completeJob)"
    using content_changes_filtered [OF runPredicate_docs docs _ watch, of runningJob completeJob]
    by (simp add: metaChanged_def completeJob_def)
  moreover have "list_all (\<lambda>p. runPredicate p (UpdateEvent runningJob completeJob))
      (wt_Predicates (owns KJob (Funcs JobChangedPredicate)))"
    by (simp add: owns_def JobChangedPredicate_def updateDelete_def completeJob_def runningJob_def deleting_def)
  ultimately show ?thesis by (simp add: Let_def)
qed

section \<open>Reconciling an AIService\<close>

lemma saia_run_report:
  assumes "statusVisible svKey s_Status (sa_services d)" and "writeVisible svKey u (sa_services d)"
    and run: "SaiaReconcile d clock s = (r, t)"
  shows "stageReport clock saiaStageNames r (ass_Conditions (s_Status (rs_cr t))) \<and>
    svKey (rs_cr t) = svKey (rs_cr s)"
proof -
  obtain cs v where v: "runStages clock (saiaStages d) [] s = (r, cs, v)"
      "t = publishService (sa_services d) cs v"
    using run by (auto simp: SaiaReconcile_def split: prod.splits)
  have "hasKey (svKey (rs_cr s)) (rs_cr v)"
    by (rule runStages_keepsCR [OF v(1) keeps_identity [OF assms(2)]]) (simp_all add: hasKey_def)
  moreover have "svKey (rs_cr t) = svKey (rs_cr v)"
  proof (cases "cStatusUpdate (sa_services d) (rs_world v) (withStatus cs (rs_cr v))")
    case (Pair w q)
    then show ?thesis
      using assms(1) v(2) unfolding statusVisible_def
      by (cases q) (auto simp: publishService_def Let_def dest!: spec)
  qed
  ultimately show ?thesis
    using runStages_report [OF v(1)] publishService_conditions [OF assms(1)] v(2)
    by (simp add: stage_simps hasKey_def)
qed

lemma reconcileStatus_visible:
  assumes "statusVisible svKey s_Status (sa_services d)"
    and ready: "list_ex (\<lambda>c. c_Type c = ''Ready'') (ass_Conditions (s_Status (rs_cr s)))"
    and run: "reconcileStatus d now s = (Ok (), t)"
  shows "\<exists>y. cGet (sa_services d) (rs_world t) (svKey (rs_cr s)) = Ok y \<and>
    s_Status y = (s_Status (rs_cr s))\<lparr>ass_ObservedGeneration := om_Generation (s_Meta (rs_cr s))\<rparr>"
proof -
  let ?x = "(rs_cr s)\<lparr>s_Status := (s_Status (rs_cr s))\<lparr>ass_ObservedGeneration := om_Generation (s_Meta (rs_cr s))\<rparr>\<rparr>"
  obtain y where y: "cStatusUpdate (sa_services d) (rs_world s) ?x = (rs_world t, Ok y)"
    using run ready by (auto simp: reconcileStatus_def act_Ok_iff)
  have "svKey ?x = svKey (rs_cr s)"
    by (simp add: svKey_def)
  then show ?thesis
    using y assms(1) unfolding statusVisible_def by (metis AIService.select_convs(3) AIService.surjective AIService.update_convs(3))
qed

text \<open>
  C11: a reconcile of a SAIA AIService that returns without error does not ask to be requeued, and
  leaves in the cluster an AIService whose conditions are one True condition for each of the nine
  stages followed by a single Ready True, for the generation that was reconciled: the controller's
  own status update adds nothing to the report of the feature.
\<close>

theorem saia_service_reconciled:
  assumes status: "statusVisible svKey s_Status (sa_services d)"
    and docs: "clientDocs svKey u (sa_services d)"
    and found: "cGet (sa_services d) (rs_world s) key = Ok ai"
    and alive: "om_DeletionTimestamp (s_Meta ai) = None" "fs_Name (as_Feature (s_Spec ai)) = ''saia''"
    and run: "ReconcileAIService d clock now key s = (Ok n, t)"
  shows "n = 0 \<and> (\<exists>y. cGet (sa_services d) (rs_world t) key = Ok y \<and>
    ass_Conditions (s_Status y) = stagesDone clock saiaStageNames 9 @ [readyCond (clock 9)] \<and>
    ass_ObservedGeneration (s_Status y) = om_Generation (s_Meta (rs_cr t)))"
proof -
  obtain v z where v: "SaiaReconcile d clock (s\<lparr>rs_cr := ai\<rparr>) = (Ok (), v)"
    and z: "reconcileStatus d now v = (Ok (), z)" and fin: "n = 0" "t = z"
    using run found alive
    by (auto simp: ReconcileAIService_def fetchA_def getA_def featureName_def FeatureFactories_def
        act_Ok_iff act_simps noRequeue_def act_defs split: prod.splits res.splits if_splits)
  have wv: "writeVisible svKey u (sa_services d)"
    using docs by (simp add: clientDocs_def)
  have report: "stageReport clock saiaStageNames (Ok ()) (ass_Conditions (s_Status (rs_cr v)))"
    and key: "svKey (rs_cr v) = key"
    using saia_run_report [OF status wv v] clientDocs_get [OF docs found] by simp_all
  have nine: "length saiaStageNames = 9"
    by (simp add: saiaStageNames_def)
  have cs: "ass_Conditions (s_Status (rs_cr v)) = stagesDone clock saiaStageNames 9 @ [readyCond (clock 9)]"
    using report by (simp add: stageReport_def nine)
  then have ready: "list_ex (\<lambda>c. c_Type c = ''Ready'') (ass_Conditions (s_Status (rs_cr v)))"
    by (simp add: readyCond_def)
  have "om_Generation (s_Meta (rs_cr z)) = om_Generation (s_Meta (rs_cr v))"
    using z by (auto simp: reconcileStatus_def act_Ok_iff)
  then show ?thesis
    using reconcileStatus_visible [OF status ready z] fin key cs by auto
qed

section \<open>Deleting a platform\<close>

lemma containsString_iff [simp]: "containsString xs s \<longleftrightarrow> s \<in> set xs"
  by (induction xs) auto

lemma removeString_filter [simp]: "removeString xs s = filter (\<lambda>x. x \<noteq> s) xs"
  by (induction xs) auto

lemma deleteServices_keeps:
  "deleteServices d xs s = (r, t) \<Longrightarrow> rs_cr t = rs_cr s \<and> (\<forall>e. r \<noteq> Err e)"
proof (induction xs arbitrary: s)
  case (Cons x xs)
  then show ?case
    by (fastforce simp: tryA_def callA_def split: prod.splits res.splits)
qed (auto simp: retA_def)

text \<open>
  C24: a platform that is being deleted keeps the operator's finalizer while it controls any
  AIService: the reconcile then never reports completion and does not touch the platform. When no
  child is left the one write is of the platform without that finalizer, the other finalizers kept,
  and the reconcile succeeds exactly when this write does.
\<close>

theorem platform_finalizer_waits:
  assumes found: "cGet (pd_platforms d) (rs_world s) key = Ok p"
    and "om_DeletionTimestamp (p_Meta p) \<noteq> None" and "aiPlatformFinalizer \<in> set (om_Finalizers (p_Meta p))"
    and list: "cList (pd_services d) (rs_world s) \<lparr>lo_Namespace = plNamespace p, lo_Labels = fmempty,
                 lo_Controller = Some (plName p)\<rparr> = Ok children"
    and run: "ReconcileAIPlatform d clock key s = (r, t)"
  defines "p' \<equiv> p\<lparr>p_Meta := (p_Meta p)\<lparr>om_Finalizers := filter (\<lambda>x. x \<noteq> aiPlatformFinalizer) (om_Finalizers (p_Meta p))\<rparr>\<rparr>"
  shows "if children \<noteq> [] then rs_cr t = p \<and> (r = Ok 5 \<or> (\<exists>x. r = Panic x))
    else rs_cr t = p' \<and> rs_world t = fst (cUpdate (pd_platforms d) (rs_world s) p') \<and>
         (r = Ok 0 \<longleftrightarrow> isOk (snd (cUpdate (pd_platforms d) (rs_world s) p')))"
proof -
  have start: "deletePlatform d (s\<lparr>rs_cr := p\<rparr>) = (r, t)"
    using run found assms(2)
    by (simp add: ReconcileAIPlatform_def fetchA_def getA_def act_defs)
  show ?thesis
  proof (cases "children = []")
    case True
    then show ?thesis
      using start assms(3) list
      by (cases "cUpdate (pd_platforms d) (rs_world s) p'"; cases "snd (cUpdate (pd_platforms d) (rs_world s) p')")
        (auto simp: deletePlatform_def finalizePlatform_def listChildren_def dropFinalizer_def dropA_def
          updateA_def noRequeue_def act_defs p'_def)
  next
    case False
    obtain q v where q: "deleteServices d children (s\<lparr>rs_cr := p\<rparr>) = (q, v)" by fastforce
    then show ?thesis
      using start assms(3) list False deleteServices_keeps [OF q]
      by (cases q) (auto simp: deletePlatform_def finalizePlatform_def listChildren_def act_defs)
  qed
qed


section \<open>The properties at concrete runs\<close>

theorem saia_service_reconciled_witness:
  "let (r, t) = ReconcileAIService exampleDeps id 0 (''ns'', ''a'') ((exampleState None)\<lparr>rs_cr := zeroAIService\<rparr>)
   in r = Ok 0 \<and> (\<exists>y. memGet svKey (rs_world t) (''ns'', ''a'') = Ok y \<and>
        ass_Conditions (s_Status y) = stagesDone id saiaStageNames 9 @ [readyCond (id 9)])"
proof -
  let ?S = "(exampleState None)\<lparr>rs_cr := zeroAIService\<rparr>"
  have docs: "clientDocs svKey (\<lambda>_. ()) (sa_services exampleDeps)"
    "statusVisible svKey s_Status (sa_services exampleDeps)"
    by (simp_all add: exampleDeps_def memClient_docs memClient_status)
  have key: "svKey (exampleService None) = (''ns'', ''a'')"
    by (simp add: svKey_def metaKey_def exampleService_def)
  have reads: "cGet (sa_services exampleDeps) = memGet svKey"
    by (simp add: exampleDeps_def memClient_reads)
  have found: "cGet (sa_services exampleDeps) (rs_world ?S) (''ns'', ''a'') = Ok (exampleService None)"
    by (simp add: exampleDeps_def exampleState_def memClient_def memGet_def key)
  have alive: "om_DeletionTimestamp (s_Meta (exampleService None)) = None"
    "fs_Name (as_Feature (s_Spec (exampleService None))) = ''saia''"
    by (simp_all add: exampleService_def exampleSpec_def newMeta_def)
  obtain cs where saia: "SaiaReconcile exampleDeps id (exampleState None) =
     (Ok (), \<lparr>rs_world = [withStatus cs (exampleService None)], rs_events = [],
             rs_cr = withStatus cs (exampleService None)\<rparr>)"
    using example_succeeds by blast
  have same: "(exampleState None)\<lparr>rs_cr := exampleService None\<rparr> = exampleState None"
    "rs_cr (exampleState None) = exampleService None"
    by (simp_all add: exampleState_def)
  have status: "cStatusUpdate (sa_services exampleDeps) [withStatus cs (exampleService None)]
      ((withStatus cs (exampleService None))\<lparr>s_Status := st\<rparr>) =
    ([(withStatus cs (exampleService None))\<lparr>s_Status := st\<rparr>], Ok ((withStatus cs (exampleService None))\<lparr>s_Status := st\<rparr>))" for st
    by (simp add: exampleDeps_def memClient_def memUpdate_def svKey_def)
  obtain t where run: "ReconcileAIService exampleDeps id 0 (''ns'', ''a'') ?S = (Ok 0, t)"
    by (simp add: ReconcileAIService_def fetchA_def getA_def featureName_def FeatureFactories_def
        found [simplified] alive saia same [simplified] reconcileStatus_def dropA_def noRequeue_def status act_defs)
  show ?thesis
    using saia_service_reconciled [OF docs(2,1) found alive run] reads
    unfolding run by auto
qed

text \<open>A platform being deleted while one AIService is left.\<close>

definition dyingPlatform :: AIPlatform where
  "dyingPlatform = emptyPlatform\<lparr>p_Meta := (newMeta ''p'' ''ns'')\<lparr>om_DeletionTimestamp := Some 1,
     om_Finalizers := [''x'', aiPlatformFinalizer]\<rparr>\<rparr>"

theorem platform_finalizer_waits_witness:
  "let (r, t) = ReconcileAIPlatform (offPlat\<lparr>pd_platforms := constClient dyingPlatform,
         pd_services := memClient svKey (\<lambda>_ _. True)\<rparr>) id (''ns'', ''p'')
         \<lparr>rs_world = [failedChild], rs_events = [], rs_cr = zeroAIPlatform\<rparr>
   in r = Ok 5 \<and> rs_cr t = dyingPlatform"
proof -
  let ?D = "offPlat\<lparr>pd_platforms := constClient dyingPlatform, pd_services := memClient svKey (\<lambda>_ _. True)\<rparr>
    :: AIService list platDeps"
  let ?S = "\<lparr>rs_world = [failedChild], rs_events = [], rs_cr = zeroAIPlatform\<rparr>"
  have found: "cGet (pd_platforms ?D) (rs_world ?S) (''ns'', ''p'') = Ok dyingPlatform"
    by (simp add: constClient_def)
  have dying: "om_DeletionTimestamp (p_Meta dyingPlatform) \<noteq> None"
    "aiPlatformFinalizer \<in> set (om_Finalizers (p_Meta dyingPlatform))"
    by (simp_all add: dyingPlatform_def)
  have list: "cList (pd_services ?D) (rs_world ?S) \<lparr>lo_Namespace = plNamespace dyingPlatform, lo_Labels = fmempty,
                 lo_Controller = Some (plName dyingPlatform)\<rparr> = Ok [failedChild]"
    by (simp add: memClient_reads)
  obtain r t where run: "ReconcileAIPlatform ?D id (''ns'', ''p'') ?S = (r, t)"
    by fastforce
  have "r \<noteq> Panic x" for x
    using run dying by (auto simp: ReconcileAIPlatform_def fetchA_def getA_def deletePlatform_def finalizePlatform_def
        listChildren_def constClient_def memClient_def act_defs)
  then show ?thesis
    using platform_finalizer_waits [OF found dying list run] by (auto simp: run)
qed


end
