(* ===== verification/Admission.thy ===== *)
theory Admission
  imports ApiTypes
begin

text \<open>
  What the two admission webhooks share: the objects the API server hands them, the field
  errors they collect (the constructors of \<open>k8s.io/apimachinery/.../field\<close>, kept as data), a
  webhook's answer, and the life of one object under a defaulter and a validator. The locale
  \<open>admission\<close> is the contract of controller-runtime's \<open>CustomDefaulter\<close> and
  \<open>CustomValidator\<close> as this operator uses it; both webhooks interpret it.
\<close>

section \<open>Objects and answers\<close>

datatype kobj = ObjAIPlatform AIPlatform | ObjAIService AIService | ObjOther string

primrec typeName :: "kobj \<Rightarrow> string" where
  "typeName (ObjAIPlatform _) = ''*v1.AIPlatform''"
| "typeName (ObjAIService _) = ''*v1.AIService''"
| "typeName (ObjOther t) = t"

datatype fpath = NewPath string | Child fpath string | Index fpath nat

datatype fvalue = StrVal string | IntVal int32

datatype ferr =
    Required fpath string
  | Invalid fpath fvalue string
  | NotSupported fpath string "string list"
  | Forbidden fpath string
  | Duplicate fpath string

text \<open>
  The error of a validator: a wrong object type, or the aggregate of a non-empty list of field
  errors. A validator answers with warnings and, when it rejects, an error.
\<close>

datatype verr = WrongType string | Aggregate "ferr list"

type_synonym answer = "string list \<times> verr option"

definition admitted :: "answer \<Rightarrow> bool" where
  "admitted a = (snd a = None)"

definition answerOf :: "string list \<Rightarrow> ferr list \<Rightarrow> answer" where
  "answerOf warnings errs = (if errs \<noteq> [] then (warnings, Some (Aggregate errs)) else (warnings, None))"

lemma admitted_answerOf [simp]: "admitted (answerOf w errs) \<longleftrightarrow> errs = []"
  by (simp add: admitted_def answerOf_def)

text \<open>A loop that validates the elements of a slice with their index.\<close>

fun eachIdx :: "nat \<Rightarrow> (nat \<Rightarrow> 'a \<Rightarrow> ferr list) \<Rightarrow> 'a list \<Rightarrow> ferr list" where
  "eachIdx i f [] = []"
| "eachIdx i f (x # xs) = f i x @ eachIdx (Suc i) f xs"

lemma eachIdx_Nil_iff: "eachIdx i f xs = [] \<longleftrightarrow> (\<forall>j < length xs. f (i + j) (xs ! j) = [])"
proof (induction xs arbitrary: i)
  case Nil
  then show ?case by simp
next
  case (Cons x xs)
  have split: "(\<forall>j < length (x # xs). f (i + j) ((x # xs) ! j) = []) \<longleftrightarrow>
      f i x = [] \<and> (\<forall>j < length xs. f (Suc i + j) (xs ! j) = [])"
    by (auto simp: nth_Cons less_Suc_eq_0_disj)
  show ?case
    unfolding split by (simp add: Cons.IH)
qed

lemma eachIdx_Nil_all:
  assumes "\<And>i x. f i x = [] \<longleftrightarrow> P x"
  shows "eachIdx i f xs = [] \<longleftrightarrow> list_all P xs"
  by (simp add: eachIdx_Nil_iff assms list_all_length)

section \<open>The life of an object behind its webhooks\<close>

text \<open>
  The API server runs the mutating webhook first: what is validated and stored is the defaulted
  object. \<open>history d c u a b\<close>: the object was created as \<open>a\<close> and is now stored as \<open>b\<close>.
\<close>

inductive history ::
  "('o \<Rightarrow> 'o) \<Rightarrow> ('o \<Rightarrow> answer) \<Rightarrow> ('o \<Rightarrow> 'o \<Rightarrow> answer) \<Rightarrow> 'o \<Rightarrow> 'o \<Rightarrow> bool"
  for dflt create update where
  Created: "admitted (create (dflt o1)) \<Longrightarrow> history dflt create update (dflt o1) (dflt o1)"
| Updated: "history dflt create update a b \<Longrightarrow> admitted (update b (dflt o1)) \<Longrightarrow>
     history dflt create update a (dflt o1)"

inductive_cases historyE: "history dflt create update a b"

locale admission =
  fixes dflt :: "'o \<Rightarrow> 'o"
    and create :: "'o \<Rightarrow> answer"
    and update :: "'o \<Rightarrow> 'o \<Rightarrow> answer"
    and frozen :: "'o \<Rightarrow> 'k"
  assumes dflt_idem: "dflt (dflt x) = dflt x"
    and update_creates: "admitted (update x y) \<Longrightarrow> admitted (create y)"
    and update_frozen: "admitted (update x y) \<Longrightarrow> frozen y = frozen x"
begin

lemma history_invariant:
  assumes "history dflt create update a b"
  shows "admitted (create b) \<and> dflt b = b \<and> frozen b = frozen a"
  using assms by induction (auto simp: dflt_idem dest: update_creates update_frozen)

lemma history_start:
  assumes "history dflt create update a b"
  shows "history dflt create update a a"
  using assms by induction (auto intro: history.Created)

end

end
