(* ===== verification/Webhook_Platform.thy ===== *)
theory Webhook_Platform
  imports Admission
begin

text \<open>
  The defaulting and validating webhook of \<open>AIPlatform\<close>
  (\<open>internal/webhook/v1/aiplatform_webhook.go\<close>). \<open>resource.ParseQuantity\<close> is the parameter
  \<open>pq\<close>: \<open>None\<close> when the text is a quantity, else the text of its error.
\<close>

section \<open>Defaulting\<close>

definition defaultSidecars :: "SidecarSpec \<Rightarrow> SidecarSpec" where
  "defaultSidecars s =
     (if \<not> sd_Otel s \<and> \<not> sd_PrometheusOperator s
      then s\<lparr>sd_Otel := True, sd_PrometheusOperator := True\<rparr> else s)"

definition defaultStorage :: "StorageSpec \<Rightarrow> StorageSpec" where
  "defaultStorage st =
     (if vs_Size (st_VectorDB st) = '''' \<and> vs_PVCName (st_VectorDB st) = ''''
      then st\<lparr>st_VectorDB := (st_VectorDB st)\<lparr>vs_Size := ''50Gi''\<rparr>\<rparr> else st)"

definition defaultIngress :: "IngressSpec option \<Rightarrow> IngressSpec option" where
  "defaultIngress ing =
     (case ing of
        None \<Rightarrow> None
      | Some i \<Rightarrow>
          if in_Enabled i \<and> in_ClassName i = '''' then Some (i\<lparr>in_ClassName := ''nginx''\<rparr>)
          else Some i)"

definition defaultTermination :: "MTLSConfig \<Rightarrow> MTLSConfig" where
  "defaultTermination m =
     (if mt_Enabled m \<and> mt_Termination m = '''' then m\<lparr>mt_Termination := ''operator''\<rparr> else m)"

definition defaultPlatformSpec :: "AIPlatformSpec \<Rightarrow> AIPlatformSpec" where
  "defaultPlatformSpec s = s\<lparr>
     ap_ClusterDomain := (if ap_ClusterDomain s = '''' then ''cluster.local'' else ap_ClusterDomain s),
     ap_Sidecars := defaultSidecars (ap_Sidecars s),
     ap_Storage := defaultStorage (ap_Storage s),
     ap_Ingress := defaultIngress (ap_Ingress s),
     ap_MTLS := defaultTermination (ap_MTLS s)\<rparr>"

definition defaultAIPlatform :: "AIPlatform \<Rightarrow> AIPlatform" where
  "defaultAIPlatform p = p\<lparr>p_Spec := defaultPlatformSpec (p_Spec p)\<rparr>"

text \<open>The \<open>Default\<close> method with its type assertion.\<close>

definition platformDefault :: "kobj \<Rightarrow> kobj res" where
  "platformDefault obj =
     (case obj of
        ObjAIPlatform p \<Rightarrow> Ok (ObjAIPlatform (defaultAIPlatform p))
      | _ \<Rightarrow> Err (Errorf (''expected an AIPlatform object but got '' @ typeName obj)))"

section \<open>Validation\<close>

definition validPrefixes :: "string list" where
  "validPrefixes = [''s3://'', ''gs://'', ''azure://'', ''minio://'']"

definition validateObjectStorage :: "ObjectStorageSpec \<Rightarrow> fpath \<Rightarrow> ferr list" where
  "validateObjectStorage o1 fld =
     (if os_Path o1 = '''' then [Required (Child fld ''path'') ''objectStorage.path must be specified'']
      else if \<not> list_ex (hasPrefix (os_Path o1)) validPrefixes
        then [Invalid (Child fld ''path'') (StrVal (os_Path o1))
                ''path must start with s3://, gs://, azure://, or minio://'']
        else [])
     @ (if hasPrefix (os_Path o1) ''s3://'' \<and> os_Region o1 = ''''
        then [Required (Child fld ''region'') ''region is required for S3 storage''] else [])"

definition validateSplunkConfiguration :: "SplunkConfigurationSpec \<Rightarrow> fpath \<Rightarrow> ferr list" where
  "validateSplunkConfiguration c fld =
     (let hasEndpoint = sc_Endpoint c \<noteq> '''';
          hasCRRef = ref_Name (sc_SplunkCustomResourceRef c) \<noteq> ''''
      in (if \<not> hasEndpoint \<and> \<not> hasCRRef
          then [Required fld ''SplunkConfiguration must have either Endpoint or SplunkCustomResourceRef set'']
          else [])
         @ (if hasEndpoint \<and> sr_Name (sc_SecretRef c) = ''''
            then [Required (Child (Child fld ''secretRef'') ''name'')
                    ''secretRef.name is required when using endpoint''] else []))"

definition validateStorage :: "(string \<Rightarrow> string option) \<Rightarrow> StorageSpec \<Rightarrow> fpath \<Rightarrow> ferr list" where
  "validateStorage pq st fld =
     (let v = st_VectorDB st
      in (if vs_Size v \<noteq> '''' then
            (case pq (vs_Size v) of
               Some e \<Rightarrow> [Invalid (Child (Child fld ''vectorDB'') ''size'') (StrVal (vs_Size v))
                            (''invalid size format: '' @ e)]
             | None \<Rightarrow> [])
          else [])
         @ (if vs_PVCName v \<noteq> '''' \<and> vs_Size v \<noteq> ''''
            then [Forbidden (Child fld ''vectorDB'') ''cannot specify both pvcName and size, choose one'']
            else []))"

definition validPathTypes :: "string list" where
  "validPathTypes = [''Prefix'', ''Exact'', ''ImplementationSpecific'']"

definition validateIngressPath :: "fpath \<Rightarrow> nat \<Rightarrow> IngressPath \<Rightarrow> ferr list" where
  "validateIngressPath hostPath j p =
     (let pathPath = Index (Child hostPath ''paths'') j
      in (if ip_Path p = '''' then [Required (Child pathPath ''path'') ''path must be specified''] else [])
         @ (if ip_PathType p \<notin> set validPathTypes
            then [NotSupported (Child pathPath ''pathType'') (ip_PathType p) validPathTypes] else []))"

definition validateIngressHost :: "fpath \<Rightarrow> nat \<Rightarrow> IngressHost \<Rightarrow> ferr list" where
  "validateIngressHost fld i h =
     (let hostPath = Index (Child fld ''hosts'') i
      in (if ih_Host h = '''' then [Required (Child hostPath ''host'') ''host must be specified''] else [])
         @ (if ih_Paths h = []
            then [Required (Child hostPath ''paths'') ''at least one path must be specified''] else [])
         @ eachIdx 0 (validateIngressPath hostPath) (ih_Paths h))"

definition validateIngressTLS :: "fpath \<Rightarrow> nat \<Rightarrow> IngressTLS \<Rightarrow> ferr list" where
  "validateIngressTLS fld i t =
     (let tlsPath = Index (Child fld ''tls'') i
      in (if it_Hosts t = []
          then [Required (Child tlsPath ''hosts'') ''at least one host must be specified for TLS''] else [])
         @ (if it_SecretName t = ''''
            then [Required (Child tlsPath ''secretName'') ''secretName must be specified for TLS''] else []))"

definition validateIngress :: "IngressSpec \<Rightarrow> fpath \<Rightarrow> ferr list" where
  "validateIngress ing fld =
     (if in_Enabled ing then
        (if in_Hosts ing = []
         then [Required (Child fld ''hosts'')
                 ''at least one host must be specified when ingress is enabled''] else [])
        @ eachIdx 0 (validateIngressHost fld) (in_Hosts ing)
        @ eachIdx 0 (validateIngressTLS fld) (in_TLS ing)
      else [])"

definition validateMTLS :: "MTLSConfig \<Rightarrow> string \<Rightarrow> fpath \<Rightarrow> ferr list" where
  "validateMTLS m certificateRef fld =
     (if mt_Enabled m then
        (if mt_Termination m \<noteq> '''' \<and> mt_Termination m \<noteq> ''operator'' \<and> mt_Termination m \<noteq> ''mesh''
         then [NotSupported (Child (Child fld ''mtls'') ''termination'') (mt_Termination m)
                 [''operator'', ''mesh'']] else [])
        @ (if mt_Termination m = ''operator'' \<or> mt_Termination m = '''' then
             (let hasIssuerRef = ir_Name (mt_IssuerRef m) \<noteq> ''''; hasCertRef = certificateRef \<noteq> ''''
              in if \<not> hasIssuerRef \<and> \<not> hasCertRef
                 then [Required (Child fld ''mtls'')
                         (''either mtls.issuerRef or certificateRef must be specified when MTLS '' @
                          ''is enabled with operator termination'')] else [])
           else [])
      else [])"

text \<open>The loop of \<open>validateFeatures\<close>; \<open>seen\<close> is its map \<open>featureNames\<close>.\<close>

fun validateFeaturesFrom :: "nat \<Rightarrow> string list \<Rightarrow> FeatureSpec list \<Rightarrow> fpath \<Rightarrow> ferr list" where
  "validateFeaturesFrom i seen [] fld = []"
| "validateFeaturesFrom i seen (f # fs) fld =
     (if fs_Name f = ''''
      then [Required (Child (Index fld i) ''name'') ''feature name must be specified''] else [])
     @ (if fs_Name f \<in> set seen then [Duplicate (Child (Index fld i) ''name'') (fs_Name f)] else [])
     @ (case fs_ScaleFactor f of
          Some n \<Rightarrow>
            if sint n < 1
            then [Invalid (Child (Index fld i) ''scaleFactor'') (IntVal n) ''scaleFactor must be at least 1'']
            else []
        | None \<Rightarrow> [])
     @ validateFeaturesFrom (Suc i) (fs_Name f # seen) fs fld"

definition validateFeatures :: "FeatureSpec list \<Rightarrow> fpath \<Rightarrow> ferr list" where
  "validateFeatures fs fld = validateFeaturesFrom 0 [] fs fld"

abbreviation "specPath \<equiv> NewPath ''spec''"

definition platformErrors :: "(string \<Rightarrow> string option) \<Rightarrow> AIPlatformSpec \<Rightarrow> ferr list" where
  "platformErrors pq s =
     validateObjectStorage (ap_ObjectStorage s) (Child specPath ''objectStorage'')
     @ validateSplunkConfiguration (ap_SplunkConfiguration s) (Child specPath ''splunkConfiguration'')
     @ validateStorage pq (ap_Storage s) (Child specPath ''storage'')
     @ (case ap_Ingress s of Some i \<Rightarrow> validateIngress i (Child specPath ''ingress'') | None \<Rightarrow> [])
     @ validateMTLS (ap_MTLS s) (ap_CertificateRef s) specPath
     @ validateFeatures (ap_Features s) (Child specPath ''features'')"

definition platformValidateCreate :: "(string \<Rightarrow> string option) \<Rightarrow> kobj \<Rightarrow> answer" where
  "platformValidateCreate pq obj =
     (case obj of
        ObjAIPlatform p \<Rightarrow> answerOf [] (platformErrors pq (p_Spec p))
      | _ \<Rightarrow> ([], Some (WrongType (''expected a AIPlatform object but got '' @ typeName obj))))"

definition platformImmutable :: "AIPlatformSpec \<Rightarrow> AIPlatformSpec \<Rightarrow> ferr list" where
  "platformImmutable old new =
     (if os_Path (ap_ObjectStorage old) \<noteq> os_Path (ap_ObjectStorage new)
      then [Forbidden (Child (Child specPath ''objectStorage'') ''path'') ''objectStorage.path is immutable'']
      else [])
     @ (if os_Region (ap_ObjectStorage old) \<noteq> os_Region (ap_ObjectStorage new)
        then [Forbidden (Child (Child specPath ''objectStorage'') ''region'') ''objectStorage.region is immutable'']
        else [])"

definition platformValidateUpdate :: "(string \<Rightarrow> string option) \<Rightarrow> kobj \<Rightarrow> kobj \<Rightarrow> answer" where
  "platformValidateUpdate pq oldObj newObj =
     (case newObj of
        ObjAIPlatform new \<Rightarrow>
          (case oldObj of
             ObjAIPlatform old \<Rightarrow>
               (case platformValidateCreate pq newObj of
                  (w, Some e) \<Rightarrow> (w, Some e)
                | (w, None) \<Rightarrow> answerOf w (platformImmutable (p_Spec old) (p_Spec new)))
           | _ \<Rightarrow> ([], Some (WrongType
                  (''expected a AIPlatform object for the oldObj but got '' @ typeName oldObj))))
      | _ \<Rightarrow> ([], Some (WrongType
             (''expected a AIPlatform object for the newObj but got '' @ typeName newObj))))"

definition platformValidateDelete :: "kobj \<Rightarrow> answer" where
  "platformValidateDelete obj =
     (case obj of
        ObjAIPlatform p \<Rightarrow> ([], None)
      | _ \<Rightarrow> ([], Some (WrongType (''expected a AIPlatform object but got '' @ typeName obj))))"

section \<open>What is accepted\<close>

text \<open>The declarative reading of the validator, one predicate per part of the spec.\<close>

definition wfObjectStorage :: "ObjectStorageSpec \<Rightarrow> bool" where
  "wfObjectStorage o1 \<longleftrightarrow>
     (hasPrefix (os_Path o1) ''s3://'' \<and> os_Region o1 \<noteq> '''') \<or>
     hasPrefix (os_Path o1) ''gs://'' \<or> hasPrefix (os_Path o1) ''azure://'' \<or>
     hasPrefix (os_Path o1) ''minio://''"

definition wfSplunk :: "SplunkConfigurationSpec \<Rightarrow> bool" where
  "wfSplunk c \<longleftrightarrow>
     (if sc_Endpoint c = '''' then ref_Name (sc_SplunkCustomResourceRef c) \<noteq> ''''
      else sr_Name (sc_SecretRef c) \<noteq> '''')"

definition wfVectorStorage :: "(string \<Rightarrow> string option) \<Rightarrow> StorageSpec \<Rightarrow> bool" where
  "wfVectorStorage pq st \<longleftrightarrow>
     vs_Size (st_VectorDB st) = '''' \<or>
     (pq (vs_Size (st_VectorDB st)) = None \<and> vs_PVCName (st_VectorDB st) = '''')"

definition wfIngressHost :: "IngressHost \<Rightarrow> bool" where
  "wfIngressHost h \<longleftrightarrow>
     ih_Host h \<noteq> '''' \<and> ih_Paths h \<noteq> [] \<and>
     list_all (\<lambda>p. ip_Path p \<noteq> '''' \<and> ip_PathType p \<in> set validPathTypes) (ih_Paths h)"

definition wfIngress :: "IngressSpec option \<Rightarrow> bool" where
  "wfIngress ing \<longleftrightarrow>
     (case ing of
        None \<Rightarrow> True
      | Some i \<Rightarrow> \<not> in_Enabled i \<or>
          (in_Hosts i \<noteq> [] \<and> list_all wfIngressHost (in_Hosts i) \<and>
           list_all (\<lambda>t. it_Hosts t \<noteq> [] \<and> it_SecretName t \<noteq> '''') (in_TLS i)))"

definition wfMTLS :: "MTLSConfig \<Rightarrow> string \<Rightarrow> bool" where
  "wfMTLS m cert \<longleftrightarrow>
     \<not> mt_Enabled m \<or> mt_Termination m = ''mesh'' \<or>
     (mt_Termination m \<in> {'''', ''operator''} \<and> (ir_Name (mt_IssuerRef m) \<noteq> '''' \<or> cert \<noteq> ''''))"

definition scaleOk :: "FeatureSpec \<Rightarrow> bool" where
  "scaleOk f \<longleftrightarrow> (case fs_ScaleFactor f of None \<Rightarrow> True | Some n \<Rightarrow> 1 \<le> sint n)"

definition wfFeatures :: "FeatureSpec list \<Rightarrow> bool" where
  "wfFeatures fs \<longleftrightarrow>
     list_all (\<lambda>f. fs_Name f \<noteq> '''' \<and> scaleOk f) fs \<and> distinct (map fs_Name fs)"

definition wfPlatformSpec :: "(string \<Rightarrow> string option) \<Rightarrow> AIPlatformSpec \<Rightarrow> bool" where
  "wfPlatformSpec pq s \<longleftrightarrow>
     wfObjectStorage (ap_ObjectStorage s) \<and> wfSplunk (ap_SplunkConfiguration s) \<and>
     wfVectorStorage pq (ap_Storage s) \<and> wfIngress (ap_Ingress s) \<and>
     wfMTLS (ap_MTLS s) (ap_CertificateRef s) \<and> wfFeatures (ap_Features s)"

subsection \<open>Each validator decides its predicate\<close>

lemma hasPrefix_Nil: "hasPrefix '''' p \<longleftrightarrow> p = ''''"
  by (simp add: hasPrefix_def eq_commute)

lemma hasPrefix_clash:
  "hasPrefix s (c # p) \<Longrightarrow> hasPrefix s (d # q) \<longleftrightarrow> c = d \<and> hasPrefix (tl s) q"
  by (cases s) (auto simp: hasPrefix_def)

lemma validateObjectStorage_Nil: "validateObjectStorage o1 fld = [] \<longleftrightarrow> wfObjectStorage o1"
proof (cases "hasPrefix (os_Path o1) ''s3://''")
  case True
  then show ?thesis
    by (auto simp: validateObjectStorage_def wfObjectStorage_def validPrefixes_def hasPrefix_Nil
        hasPrefix_clash [OF True])
next
  case False
  then show ?thesis
    by (auto simp: validateObjectStorage_def wfObjectStorage_def validPrefixes_def hasPrefix_Nil)
qed

lemma validateSplunk_Nil: "validateSplunkConfiguration c fld = [] \<longleftrightarrow> wfSplunk c"
  by (simp add: validateSplunkConfiguration_def wfSplunk_def Let_def)

lemma validateStorage_Nil: "validateStorage pq st fld = [] \<longleftrightarrow> wfVectorStorage pq st"
  by (auto simp: validateStorage_def wfVectorStorage_def Let_def split: option.splits)

lemma validateIngressPath_Nil:
  "validateIngressPath hp j p = [] \<longleftrightarrow> ip_Path p \<noteq> '''' \<and> ip_PathType p \<in> set validPathTypes"
  by (simp add: validateIngressPath_def Let_def)

lemma validateIngressHost_Nil: "validateIngressHost fld i h = [] \<longleftrightarrow> wfIngressHost h"
  by (simp add: validateIngressHost_def wfIngressHost_def Let_def
      eachIdx_Nil_all [OF validateIngressPath_Nil])

lemma validateIngressTLS_Nil:
  "validateIngressTLS fld i t = [] \<longleftrightarrow> it_Hosts t \<noteq> [] \<and> it_SecretName t \<noteq> ''''"
  by (simp add: validateIngressTLS_def Let_def)

lemma validateIngress_Nil:
  "(case ing of Some i \<Rightarrow> validateIngress i fld | None \<Rightarrow> []) = [] \<longleftrightarrow> wfIngress ing"
  by (cases ing) (auto simp: validateIngress_def wfIngress_def
      eachIdx_Nil_all [OF validateIngressHost_Nil] eachIdx_Nil_all [OF validateIngressTLS_Nil])

lemma validateMTLS_Nil: "validateMTLS m cert fld = [] \<longleftrightarrow> wfMTLS m cert"
  by (auto simp: validateMTLS_def wfMTLS_def Let_def)

lemma scaleErrors_Nil:
  "(case fs_ScaleFactor f of Some n \<Rightarrow> if sint n < 1 then [e n] else [] | None \<Rightarrow> []) = [] \<longleftrightarrow> scaleOk f"
  by (auto simp: scaleOk_def split: option.splits)

lemma validateFeaturesFrom_Nil:
  "validateFeaturesFrom i seen fs fld = [] \<longleftrightarrow>
     wfFeatures fs \<and> (\<forall>f \<in> set fs. fs_Name f \<notin> set seen)"
proof (induction fs arbitrary: i seen)
  case Nil
  then show ?case by (simp add: wfFeatures_def)
next
  case (Cons f fs)
  show ?case
    by (simp only: validateFeaturesFrom.simps append_is_Nil_conv scaleErrors_Nil Cons.IH)
       (auto simp: wfFeatures_def image_iff)
qed

lemma validateFeatures_Nil: "validateFeatures fs fld = [] \<longleftrightarrow> wfFeatures fs"
  by (simp add: validateFeatures_def validateFeaturesFrom_Nil)

lemmas validators_Nil =
  validateObjectStorage_Nil validateSplunk_Nil validateStorage_Nil validateIngress_Nil
  validateMTLS_Nil validateFeatures_Nil

lemma platformErrors_Nil: "platformErrors pq s = [] \<longleftrightarrow> wfPlatformSpec pq s"
  by (simp add: platformErrors_def wfPlatformSpec_def validators_Nil)

lemma platformImmutable_Nil:
  "platformImmutable old new = [] \<longleftrightarrow>
     os_Path (ap_ObjectStorage new) = os_Path (ap_ObjectStorage old) \<and>
     os_Region (ap_ObjectStorage new) = os_Region (ap_ObjectStorage old)"
  by (auto simp: platformImmutable_def)

lemma platformCreate_admitted:
  "admitted (platformValidateCreate pq (ObjAIPlatform p)) \<longleftrightarrow> wfPlatformSpec pq (p_Spec p)"
  by (simp add: platformValidateCreate_def platformErrors_Nil)

lemma platformUpdate_admitted:
  "admitted (platformValidateUpdate pq (ObjAIPlatform old) (ObjAIPlatform new)) \<longleftrightarrow>
     wfPlatformSpec pq (p_Spec new) \<and> platformImmutable (p_Spec old) (p_Spec new) = []"
  by (cases "platformErrors pq (p_Spec new) = []")
     (auto simp: platformValidateUpdate_def platformValidateCreate_def answerOf_def admitted_def
       simp flip: platformErrors_Nil)

subsection \<open>Defaulting\<close>

lemmas platform_default_defs =
  defaultAIPlatform_def defaultPlatformSpec_def defaultSidecars_def defaultStorage_def
  defaultIngress_def defaultTermination_def

lemma defaultPlatform_idem: "defaultAIPlatform (defaultAIPlatform p) = defaultAIPlatform p"
  by (cases "ap_Ingress (p_Spec p)") (auto simp: platform_default_defs)

lemma defaultStorage_wf:
  "pq ''50Gi'' = None \<Longrightarrow> wfVectorStorage pq (defaultStorage st) \<longleftrightarrow> wfVectorStorage pq st"
  by (auto simp: wfVectorStorage_def defaultStorage_def)

lemma defaultIngress_wf: "wfIngress (defaultIngress i) \<longleftrightarrow> wfIngress i"
  by (auto simp: wfIngress_def defaultIngress_def split: option.splits)

lemma defaultTermination_wf: "wfMTLS (defaultTermination m) cert \<longleftrightarrow> wfMTLS m cert"
  by (auto simp: wfMTLS_def defaultTermination_def)

lemma defaultPlatformSpec_wf:
  "pq ''50Gi'' = None \<Longrightarrow> wfPlatformSpec pq (defaultPlatformSpec s) \<longleftrightarrow> wfPlatformSpec pq s"
  by (simp add: wfPlatformSpec_def defaultPlatformSpec_def defaultStorage_wf defaultIngress_wf
      defaultTermination_wf)

interpretation platform_admission:
  admission "defaultAIPlatform"
    "\<lambda>p. platformValidateCreate pq (ObjAIPlatform p)"
    "\<lambda>old new. platformValidateUpdate pq (ObjAIPlatform old) (ObjAIPlatform new)"
    "\<lambda>p. (os_Path (ap_ObjectStorage (p_Spec p)), os_Region (ap_ObjectStorage (p_Spec p)))"
  for pq
  by unfold_locales
     (auto simp: defaultPlatform_idem platformCreate_admitted platformUpdate_admitted
       platformImmutable_Nil)


section \<open>Properties\<close>

text \<open>
  C16: the create webhook admits an AIPlatform exactly when its spec is well formed: a storage
  path of a known scheme (with a region for S3), a complete Splunk configuration, a vector
  store with at most one of size and claim, a complete ingress, an issuer or a certificate for
  operator-terminated mTLS, and named, distinct features with a scale of at least one.
\<close>

theorem platform_create_accepts_iff:
  "admitted (platformValidateCreate pq (ObjAIPlatform p)) = wfPlatformSpec pq (p_Spec p)"
  by (rule platformCreate_admitted)

lemma indexed_Suc:
  "{F j | j. j < Suc n \<and> P j} = {F 0 | u::unit. P 0} \<union> {F (Suc j) | j. j < n \<and> P (Suc j)}"
  "{G j k | j k. j < Suc n \<and> Q j k} =
     {G 0 k | k. Q 0 k} \<union> {G (Suc j) k | j k. j < n \<and> Q (Suc j) k}"
  by (auto simp: less_Suc_eq_0_disj)

lemma scaleErrors_set:
  "set (case fs_ScaleFactor f of Some n \<Rightarrow> if sint n < 1 then [e n] else [] | None \<Rightarrow> []) =
     {e n | n. fs_ScaleFactor f = Some n \<and> sint n < 1}"
  by (auto split: option.splits)

lemma validateFeaturesFrom_set:
  "set (validateFeaturesFrom i seen fs fld) =
     {Required (Child (Index fld (i + j)) ''name'') ''feature name must be specified'' | j.
        j < length fs \<and> fs_Name (fs ! j) = ''''} \<union>
     {Duplicate (Child (Index fld (i + j)) ''name'') (fs_Name (fs ! j)) | j.
        j < length fs \<and> fs_Name (fs ! j) \<in> set seen \<union> set (take j (map fs_Name fs))} \<union>
     {Invalid (Child (Index fld (i + j)) ''scaleFactor'') (IntVal n) ''scaleFactor must be at least 1'' | j n.
        j < length fs \<and> fs_ScaleFactor (fs ! j) = Some n \<and> sint n < 1}"
proof (induction fs arbitrary: i seen)
  case Nil
  then show ?case by simp
next
  case (Cons f fs)
  have one: "set (if b then [e] else []) = {e | u::unit. b}" for b and e :: ferr
    by auto
  show ?case
    by (simp only: validateFeaturesFrom.simps set_append scaleErrors_set one Cons.IH list.size
        add_0_right add_0_left nth_Cons_0 nth_Cons_Suc list.map take_Suc_Cons take_0 indexed_Suc
        list.set add_Suc_right add_Suc Un_insert_left Un_insert_right Un_empty_right plus_nat.simps One_nat_def)
       blast
qed

text \<open>
  The feature validator reports exactly one error per defect, at the index of the feature:
  an empty name, a name already used by an earlier feature, a scale factor below one (read as a
  signed 32-bit integer).
\<close>

theorem validateFeatures_reports:
  "set (validateFeatures fs fld) =
     {Required (Child (Index fld j) ''name'') ''feature name must be specified'' | j.
        j < length fs \<and> fs_Name (fs ! j) = ''''} \<union>
     {Duplicate (Child (Index fld j) ''name'') (fs_Name (fs ! j)) | j.
        j < length fs \<and> fs_Name (fs ! j) \<in> set (take j (map fs_Name fs))} \<union>
     {Invalid (Child (Index fld j) ''scaleFactor'') (IntVal n) ''scaleFactor must be at least 1'' | j n.
        j < length fs \<and> fs_ScaleFactor (fs ! j) = Some n \<and> sint n < 1}"
  by (simp add: validateFeatures_def validateFeaturesFrom_set)

text \<open>
  C14: whatever sequence of updates an AIPlatform goes through behind its webhooks, the stored
  object is well formed, is a fixed point of the defaulter, and still has the object-storage
  path and region it was created with.
\<close>

theorem platform_history_invariant:
  assumes "history defaultAIPlatform
     (\<lambda>p. platformValidateCreate pq (ObjAIPlatform p))
     (\<lambda>old new. platformValidateUpdate pq (ObjAIPlatform old) (ObjAIPlatform new)) a b"
  shows "wfPlatformSpec pq (p_Spec b) \<and> defaultAIPlatform b = b \<and>
     os_Path (ap_ObjectStorage (p_Spec b)) = os_Path (ap_ObjectStorage (p_Spec a)) \<and>
     os_Region (ap_ObjectStorage (p_Spec b)) = os_Region (ap_ObjectStorage (p_Spec a))"
  using platform_admission.history_invariant [OF assms] by (simp add: platformCreate_admitted)

text \<open>
  Defaulting is idempotent and changes no decision of the validator, provided the default
  size is a quantity; the defaulted spec has a cluster domain and, where they apply, an ingress
  class and an mTLS termination.
\<close>

theorem platform_default_correct:
  assumes "pq ''50Gi'' = None"
  shows "defaultAIPlatform (defaultAIPlatform p) = defaultAIPlatform p \<and>
     admitted (platformValidateCreate pq (ObjAIPlatform (defaultAIPlatform p))) =
       admitted (platformValidateCreate pq (ObjAIPlatform p)) \<and>
     ap_ClusterDomain (p_Spec (defaultAIPlatform p)) \<noteq> [] \<and>
     \<not> (mt_Enabled (ap_MTLS (p_Spec (defaultAIPlatform p))) \<and>
        mt_Termination (ap_MTLS (p_Spec (defaultAIPlatform p))) = []) \<and>
     \<not> (\<exists>i. ap_Ingress (p_Spec (defaultAIPlatform p)) = Some i \<and> in_Enabled i \<and> in_ClassName i = [])"
proof -
  have acc: "admitted (platformValidateCreate pq (ObjAIPlatform (defaultAIPlatform p))) =
       admitted (platformValidateCreate pq (ObjAIPlatform p))"
    by (simp add: platformCreate_admitted defaultAIPlatform_def defaultPlatformSpec_wf assms)
  show ?thesis
    unfolding acc defaultPlatform_idem
    by (auto simp: platform_default_defs split: option.splits if_splits)
qed

text \<open>
  The API server fills the schema default of \<open>storage.vectorDB.size\<close> in before any webhook
  runs, whenever \<open>vectorDB\<close> is given without it.
\<close>

definition schemaDefaultVectorDB :: "VectorDBStorageSpec \<Rightarrow> VectorDBStorageSpec" where
  "schemaDefaultVectorDB v = (if vs_Size v = [] then v\<lparr>vs_Size := ''50Gi''\<rparr> else v)"

definition schemaDefaultPlatform :: "AIPlatform \<Rightarrow> AIPlatform" where
  "schemaDefaultPlatform p = p\<lparr>p_Spec := (p_Spec p)\<lparr>ap_Storage :=
     (ap_Storage (p_Spec p))\<lparr>st_VectorDB :=
        schemaDefaultVectorDB (st_VectorDB (ap_Storage (p_Spec p)))\<rparr>\<rparr>\<rparr>"

text \<open>
  An AIPlatform that names an existing claim for the vector store and no size, as the
  documentation of the field allows, is always rejected once the schema default is filled in.
\<close>

theorem pvc_only_rejected:
  assumes "vs_PVCName (st_VectorDB (ap_Storage (p_Spec p))) \<noteq> []"
  shows "\<not> admitted (platformValidateCreate pq (ObjAIPlatform (schemaDefaultPlatform p)))"
  using assms
  by (simp add: platformCreate_admitted wfPlatformSpec_def wfVectorStorage_def
      schemaDefaultPlatform_def schemaDefaultVectorDB_def)

subsection \<open>Examples\<close>

definition samplePlatform :: AIPlatform where
  "samplePlatform = zeroAIPlatform\<lparr>p_Spec := zeroPlatformSpec\<lparr>
     ap_ObjectStorage := zeroStorage\<lparr>os_Path := ''s3://bucket/data'', os_Region := ''us-west-2''\<rparr>,
     ap_SplunkConfiguration := zeroSplunk\<lparr>sc_SplunkCustomResourceRef :=
        zeroObjectRef\<lparr>ref_Name := ''cm''\<rparr>\<rparr>,
     ap_Features := [zeroFeature\<lparr>fs_Name := ''saia''\<rparr>]\<rparr>\<rparr>"

definition samplePlatform2 :: AIPlatform where
  "samplePlatform2 = samplePlatform\<lparr>p_Spec := (p_Spec samplePlatform)\<lparr>
     ap_Features := [zeroFeature\<lparr>fs_Name := ''saia'', fs_ScaleFactor := Some 2\<rparr>]\<rparr>\<rparr>"

definition claimPlatform :: AIPlatform where
  "claimPlatform = samplePlatform\<lparr>p_Spec := (p_Spec samplePlatform)\<lparr>ap_Storage :=
     \<lparr>st_VectorDB = \<lparr>vs_PVCName = ''claim'', vs_Size = [], vs_StorageClassName = []\<rparr>\<rparr>\<rparr>\<rparr>"

lemmas samplePlatform_defs = samplePlatform_def samplePlatform2_def zero_defs

lemmas wfPlatform_defs =
  wfPlatformSpec_def wfObjectStorage_def wfSplunk_def wfVectorStorage_def wfIngress_def
  wfMTLS_def wfFeatures_def scaleOk_def hasPrefix_def

lemma samplePlatform_wf:
  "wfPlatformSpec Map.empty (p_Spec samplePlatform)" "wfPlatformSpec Map.empty (p_Spec samplePlatform2)"
  by (simp_all add: samplePlatform_defs wfPlatform_defs)

lemma samplePlatform_history:
  "history defaultAIPlatform
     (\<lambda>p. platformValidateCreate Map.empty (ObjAIPlatform p))
     (\<lambda>old new. platformValidateUpdate Map.empty (ObjAIPlatform old) (ObjAIPlatform new))
     (defaultAIPlatform samplePlatform) (defaultAIPlatform samplePlatform2)"
proof (rule history.Updated [OF history.Created])
  show "admitted (platformValidateCreate Map.empty (ObjAIPlatform (defaultAIPlatform samplePlatform)))"
    by (simp add: platformCreate_admitted defaultAIPlatform_def defaultPlatformSpec_wf samplePlatform_wf)
  show "admitted (platformValidateUpdate Map.empty (ObjAIPlatform (defaultAIPlatform samplePlatform))
          (ObjAIPlatform (defaultAIPlatform samplePlatform2)))"
    by (simp add: platformUpdate_admitted defaultAIPlatform_def defaultPlatformSpec_wf samplePlatform_wf)
       (simp add: platformImmutable_Nil defaultPlatformSpec_def samplePlatform_defs)
qed

theorem platform_history_invariant_witness:
  "wfPlatformSpec Map.empty (p_Spec (defaultAIPlatform samplePlatform2)) \<and>
   os_Path (ap_ObjectStorage (p_Spec (defaultAIPlatform samplePlatform2))) = ''s3://bucket/data''"
  using platform_history_invariant [OF samplePlatform_history]
  by (simp add: platform_default_defs samplePlatform_defs)

theorem platform_default_correct_witness:
  "admitted (platformValidateCreate Map.empty (ObjAIPlatform (defaultAIPlatform samplePlatform))) \<and>
   ap_ClusterDomain (p_Spec (defaultAIPlatform samplePlatform)) = ''cluster.local''"
  using platform_default_correct [of Map.empty samplePlatform]
  by (simp add: platformCreate_admitted samplePlatform_wf)
     (simp add: platform_default_defs samplePlatform_defs)

theorem pvc_only_rejected_witness:
  "\<not> admitted (platformValidateCreate Map.empty (ObjAIPlatform (schemaDefaultPlatform claimPlatform)))"
  using pvc_only_rejected [of claimPlatform Map.empty] by (simp add: claimPlatform_def)

end
