(* ===== verification/Webhook_Service.thy ===== *)
theory Webhook_Service
  imports Webhook_Platform
begin

text \<open>
  The defaulting and validating webhook of \<open>AIService\<close>
  (\<open>internal/webhook/v1/aiservice_webhook.go\<close>). The checks that the source has commented out
  are left out.
\<close>

section \<open>Defaulting\<close>

definition cleanServiceTemplateMetadata :: "service \<Rightarrow> service" where
  "cleanServiceTemplateMetadata t = t\<lparr>
     svc_Meta := (svc_Meta t)\<lparr>
       om_CreationTimestamp := 0, om_DeletionTimestamp := None,
       om_DeletionGracePeriodSeconds := None, om_UID := '''', om_ResourceVersion := '''',
       om_Generation := 0, om_SelfLink := '''', om_ManagedFields := []\<rparr>,
     svc_Status := ''''\<rparr>"

definition defaultMetrics :: "MetricsConfig \<Rightarrow> MetricsConfig" where
  "defaultMetrics m = m\<lparr>
     mc_Path := (if mc_Enabled m \<and> mc_Path m = '''' then ''/metrics'' else mc_Path m),
     mc_Port := (if mc_Enabled m \<and> mc_Port m = 0 then 9090 else mc_Port m)\<rparr>"

definition defaultServiceSpec :: "AIServiceSpec \<Rightarrow> AIServiceSpec" where
  "defaultServiceSpec s = s\<lparr>
     as_ServiceTemplate := cleanServiceTemplateMetadata (as_ServiceTemplate s),
     as_ClusterDomain := (if as_ClusterDomain s = '''' then ''cluster.local'' else as_ClusterDomain s),
     as_Port := (if as_Port s = 0 then 80 else as_Port s),
     as_Replicas := (if as_Replicas s = 0 then 1 else as_Replicas s),
     as_Metrics := defaultMetrics (as_Metrics s),
     as_MTLS := defaultTermination (as_MTLS s)\<rparr>"

definition defaultAIService :: "AIService \<Rightarrow> AIService" where
  "defaultAIService x = x\<lparr>s_Spec := defaultServiceSpec (s_Spec x)\<rparr>"

definition serviceDefault :: "kobj \<Rightarrow> kobj res" where
  "serviceDefault obj =
     (case obj of
        ObjAIService x \<Rightarrow> Ok (ObjAIService (defaultAIService x))
      | _ \<Rightarrow> Err (Errorf (''expected an AIService object but got '' @ typeName obj)))"

section \<open>Validation\<close>

definition validateTaskVolume :: "ObjectStorageSpec \<Rightarrow> fpath \<Rightarrow> ferr list" where
  "validateTaskVolume v fld =
     (if os_Path v = '''' then [Required (Child fld ''path'') ''taskVolume.path must be specified''] else [])"

definition validateSplunkConfigurationForService :: "SplunkConfigurationSpec \<Rightarrow> fpath \<Rightarrow> ferr list" where
  "validateSplunkConfigurationForService c fld =
     (let hasEndpoint = sc_Endpoint c \<noteq> '''';
          hasCRRef = ref_Name (sc_SplunkCustomResourceRef c) \<noteq> ''''
      in (if \<not> hasEndpoint \<and> \<not> hasCRRef
          then [Required fld ''SplunkConfiguration must have either Endpoint or SplunkCustomResourceRef set'']
          else [])
         @ (if hasEndpoint \<and> sr_Name (sc_SecretRef c) = ''''
            then [Required (Child (Child fld ''secretRef'') ''name'')
                    ''secretRef.name is required when using endpoint''] else []))"

definition validateMTLSForService :: "MTLSConfig \<Rightarrow> fpath \<Rightarrow> ferr list" where
  "validateMTLSForService m fld =
     (if mt_Enabled m then
        (if mt_Termination m \<noteq> '''' \<and> mt_Termination m \<noteq> ''operator'' \<and> mt_Termination m \<noteq> ''mesh''
         then [NotSupported (Child fld ''termination'') (mt_Termination m) [''operator'', ''mesh'']] else [])
        @ (if mt_Termination m = ''operator'' \<or> mt_Termination m = '''' then
             (if ir_Name (mt_IssuerRef m) = ''''
              then [Required (Child (Child fld ''issuerRef'') ''name'')
                      (''issuerRef.name must be specified when MTLS is enabled with '' @
                       ''operator termination'')] else [])
           else [])
        @ (if mt_DNSNames m = []
           then [Required (Child fld ''dnsNames'')
                   ''at least one DNS name must be specified when MTLS is enabled''] else [])
      else [])"

definition validateMetrics :: "MetricsConfig \<Rightarrow> fpath \<Rightarrow> ferr list" where
  "validateMetrics m fld =
     (if mc_Enabled m then
        (if sint (mc_Port m) < 1 \<or> sint (mc_Port m) > 65535
         then [Invalid (Child fld ''port'') (IntVal (mc_Port m))
                 ''metrics port must be between 1 and 65535''] else [])
        @ (if mc_Path m \<noteq> '''' \<and> \<not> hasPrefix (mc_Path m) ''/''
           then [Invalid (Child fld ''path'') (StrVal (mc_Path m)) ''metrics path must start with /'']
           else [])
      else [])"

definition serviceErrors :: "AIServiceSpec \<Rightarrow> ferr list" where
  "serviceErrors s =
     (if ref_Name (as_AIPlatformRef s) = ''''
      then [Required (Child (Child specPath ''aiPlatformRef'') ''name'')
              ''aiPlatformRef.name must be specified''] else [])
     @ (if as_VectorDbUrl s = ''''
        then [Required (Child specPath ''vectorDbUrl'') ''vectorDbUrl must be specified''] else [])
     @ validateTaskVolume (as_TaskVolume s) (Child specPath ''taskVolume'')
     @ validateSplunkConfigurationForService (as_SplunkConfiguration s) (Child specPath ''splunkConfiguration'')
     @ (if sint (as_Replicas s) < 0
        then [Invalid (Child specPath ''replicas'') (IntVal (as_Replicas s)) ''replicas must be non-negative'']
        else [])
     @ (if sint (as_Port s) < 1 \<or> sint (as_Port s) > 65535
        then [Invalid (Child specPath ''port'') (IntVal (as_Port s)) ''port must be between 1 and 65535'']
        else [])
     @ validateMTLSForService (as_MTLS s) (Child specPath ''mtls'')
     @ validateMetrics (as_Metrics s) (Child specPath ''metrics'')"

definition serviceValidateCreate :: "kobj \<Rightarrow> answer" where
  "serviceValidateCreate obj =
     (case obj of
        ObjAIService x \<Rightarrow> answerOf [] (serviceErrors (s_Spec x))
      | _ \<Rightarrow> ([], Some (WrongType (''expected a AIService object but got '' @ typeName obj))))"

definition serviceImmutable :: "AIServiceSpec \<Rightarrow> AIServiceSpec \<Rightarrow> ferr list" where
  "serviceImmutable old new =
     (if ref_Name (as_AIPlatformRef old) \<noteq> ref_Name (as_AIPlatformRef new)
      then [Forbidden (Child (Child specPath ''aiPlatformRef'') ''name'') ''aiPlatformRef.name is immutable'']
      else [])
     @ (if os_Path (as_TaskVolume old) \<noteq> os_Path (as_TaskVolume new)
        then [Forbidden (Child (Child specPath ''taskVolume'') ''path'') ''taskVolume.path is immutable'']
        else [])"

definition serviceValidateUpdate :: "kobj \<Rightarrow> kobj \<Rightarrow> answer" where
  "serviceValidateUpdate oldObj newObj =
     (case newObj of
        ObjAIService new \<Rightarrow>
          (case oldObj of
             ObjAIService old \<Rightarrow>
               (case serviceValidateCreate newObj of
                  (w, Some e) \<Rightarrow> (w, Some e)
                | (w, None) \<Rightarrow> answerOf w (serviceImmutable (s_Spec old) (s_Spec new)))
           | _ \<Rightarrow> ([], Some (WrongType
                  (''expected a AIService object for the oldObj but got '' @ typeName oldObj))))
      | _ \<Rightarrow> ([], Some (WrongType
             (''expected a AIService object for the newObj but got '' @ typeName newObj))))"

definition serviceValidateDelete :: "kobj \<Rightarrow> answer" where
  "serviceValidateDelete obj =
     (case obj of
        ObjAIService x \<Rightarrow> ([], None)
      | _ \<Rightarrow> ([], Some (WrongType (''expected a AIService object but got '' @ typeName obj))))"

section \<open>What is accepted\<close>

definition wfServiceMTLS :: "MTLSConfig \<Rightarrow> bool" where
  "wfServiceMTLS m \<longleftrightarrow>
     \<not> mt_Enabled m \<or>
     (mt_DNSNames m \<noteq> [] \<and>
      (mt_Termination m = ''mesh'' \<or>
       (mt_Termination m \<in> {'''', ''operator''} \<and> ir_Name (mt_IssuerRef m) \<noteq> '''')))"

definition wfMetrics :: "MetricsConfig \<Rightarrow> bool" where
  "wfMetrics m \<longleftrightarrow>
     \<not> mc_Enabled m \<or>
     (sint (mc_Port m) \<in> {1..65535} \<and> (mc_Path m = '''' \<or> hasPrefix (mc_Path m) ''/''))"

definition wfServiceSpec :: "AIServiceSpec \<Rightarrow> bool" where
  "wfServiceSpec s \<longleftrightarrow>
     ref_Name (as_AIPlatformRef s) \<noteq> '''' \<and> as_VectorDbUrl s \<noteq> '''' \<and>
     os_Path (as_TaskVolume s) \<noteq> '''' \<and> wfSplunk (as_SplunkConfiguration s) \<and>
     0 \<le> sint (as_Replicas s) \<and> sint (as_Port s) \<in> {1..65535} \<and>
     wfServiceMTLS (as_MTLS s) \<and> wfMetrics (as_Metrics s)"

lemma validateSplunkForService_Nil:
  "validateSplunkConfigurationForService c fld = [] \<longleftrightarrow> wfSplunk c"
  by (simp add: validateSplunkConfigurationForService_def wfSplunk_def Let_def)

lemma validateMTLSForService_Nil: "validateMTLSForService m fld = [] \<longleftrightarrow> wfServiceMTLS m"
  by (auto simp: validateMTLSForService_def wfServiceMTLS_def)

lemma validateMetrics_Nil: "validateMetrics m fld = [] \<longleftrightarrow> wfMetrics m"
  by (auto simp: validateMetrics_def wfMetrics_def)

lemma serviceErrors_Nil: "serviceErrors s = [] \<longleftrightarrow> wfServiceSpec s"
  by (auto simp: serviceErrors_def wfServiceSpec_def validateTaskVolume_def
      validateSplunkForService_Nil validateMTLSForService_Nil validateMetrics_Nil)

lemma serviceImmutable_Nil:
  "serviceImmutable old new = [] \<longleftrightarrow>
     ref_Name (as_AIPlatformRef new) = ref_Name (as_AIPlatformRef old) \<and>
     os_Path (as_TaskVolume new) = os_Path (as_TaskVolume old)"
  by (auto simp: serviceImmutable_def)

lemma serviceCreate_admitted:
  "admitted (serviceValidateCreate (ObjAIService x)) \<longleftrightarrow> wfServiceSpec (s_Spec x)"
  by (simp add: serviceValidateCreate_def serviceErrors_Nil)

lemma serviceUpdate_admitted:
  "admitted (serviceValidateUpdate (ObjAIService old) (ObjAIService new)) \<longleftrightarrow>
     wfServiceSpec (s_Spec new) \<and> serviceImmutable (s_Spec old) (s_Spec new) = []"
  by (cases "serviceErrors (s_Spec new) = []")
     (auto simp: serviceValidateUpdate_def serviceValidateCreate_def answerOf_def admitted_def
       simp flip: serviceErrors_Nil)

lemmas service_default_defs =
  defaultAIService_def defaultServiceSpec_def defaultMetrics_def defaultTermination_def
  cleanServiceTemplateMetadata_def

lemma defaultService_idem: "defaultAIService (defaultAIService x) = defaultAIService x"
  by (simp add: service_default_defs)

interpretation service_admission:
  admission "defaultAIService"
    "\<lambda>x. serviceValidateCreate (ObjAIService x)"
    "\<lambda>old new. serviceValidateUpdate (ObjAIService old) (ObjAIService new)"
    "\<lambda>x. (ref_Name (as_AIPlatformRef (s_Spec x)), os_Path (as_TaskVolume (s_Spec x)))"
  by unfold_locales
     (auto simp: defaultService_idem serviceCreate_admitted serviceUpdate_admitted
       serviceImmutable_Nil)

text \<open>
  A spec that the user may leave incomplete: what the validator asks of it before the defaulter
  has run, where a zero port and a zero metrics port stand for their defaults.
\<close>

definition wfUserServiceSpec :: "AIServiceSpec \<Rightarrow> bool" where
  "wfUserServiceSpec s \<longleftrightarrow>
     ref_Name (as_AIPlatformRef s) \<noteq> '''' \<and> as_VectorDbUrl s \<noteq> '''' \<and>
     os_Path (as_TaskVolume s) \<noteq> '''' \<and> wfSplunk (as_SplunkConfiguration s) \<and>
     0 \<le> sint (as_Replicas s) \<and> sint (as_Port s) \<in> {0..65535} \<and>
     wfServiceMTLS (as_MTLS s) \<and>
     (\<not> mc_Enabled (as_Metrics s) \<or>
      (sint (mc_Port (as_Metrics s)) \<in> {0..65535} \<and>
       (mc_Path (as_Metrics s) = '''' \<or> hasPrefix (mc_Path (as_Metrics s)) ''/'')))"

lemma sint_pos_iff: "(1::int) \<le> sint (x::int32) \<longleftrightarrow> 0 \<le> sint x \<and> x \<noteq> 0"
proof -
  have "sint x = 0 \<longleftrightarrow> x = 0"
    by (rule signed_eq_0_iff)
  then show ?thesis by arith
qed

lemma defaultServiceSpec_wf: "wfServiceSpec (defaultServiceSpec s) \<longleftrightarrow> wfUserServiceSpec s"
  by (auto simp: wfServiceSpec_def wfUserServiceSpec_def service_default_defs wfServiceMTLS_def
      wfMetrics_def sint_pos_iff hasPrefix_def)

section \<open>Properties\<close>

text \<open>
  C15: what reaches the store: after defaulting, the create webhook admits an AIService exactly
  when the user's spec names a platform, a vector store and a task volume, has a complete Splunk
  configuration, replicas that are not negative, a port and metrics port of zero (the default)
  up to 65535, a metrics path that is rooted, and a complete mTLS section.
\<close>

theorem service_create_accepts_iff:
  "admitted (serviceValidateCreate (ObjAIService (defaultAIService x))) = wfUserServiceSpec (s_Spec x)"
  by (simp add: serviceCreate_admitted defaultAIService_def defaultServiceSpec_wf)

text \<open>
  Whatever sequence of updates an AIService goes through behind its webhooks, the stored
  object is well formed, a fixed point of the defaulter, runs at least one replica, and still
  refers to the platform and the task volume it was created with.
\<close>

theorem service_history_invariant:
  assumes "history defaultAIService
     (\<lambda>x. serviceValidateCreate (ObjAIService x))
     (\<lambda>old new. serviceValidateUpdate (ObjAIService old) (ObjAIService new)) a b"
  shows "wfServiceSpec (s_Spec b) \<and> defaultAIService b = b \<and> 1 \<le> sint (as_Replicas (s_Spec b)) \<and>
     ref_Name (as_AIPlatformRef (s_Spec b)) = ref_Name (as_AIPlatformRef (s_Spec a)) \<and>
     os_Path (as_TaskVolume (s_Spec b)) = os_Path (as_TaskVolume (s_Spec a))"
proof -
  have inv: "wfServiceSpec (s_Spec b)" "defaultAIService b = b"
    and frozen: "ref_Name (as_AIPlatformRef (s_Spec b)) = ref_Name (as_AIPlatformRef (s_Spec a))"
      "os_Path (as_TaskVolume (s_Spec b)) = os_Path (as_TaskVolume (s_Spec a))"
    using service_admission.history_invariant [OF assms] by (simp_all add: serviceCreate_admitted)
  have "as_Replicas (s_Spec b) = as_Replicas (s_Spec (defaultAIService b))"
    by (simp add: inv(2))
  then have "as_Replicas (s_Spec b) \<noteq> 0"
    by (simp add: service_default_defs split: if_splits)
  then show ?thesis
    using inv frozen by (simp add: sint_pos_iff wfServiceSpec_def)
qed

definition sampleService :: AIService where
  "sampleService = zeroAIService\<lparr>s_Spec := zeroServiceSpec\<lparr>
     as_AIPlatformRef := zeroObjectRef\<lparr>ref_Name := ''platform''\<rparr>,
     as_VectorDbUrl := ''weaviate'',
     as_TaskVolume := zeroStorage\<lparr>os_Path := ''s3://bucket/tasks''\<rparr>,
     as_SplunkConfiguration := zeroSplunk\<lparr>sc_SplunkCustomResourceRef :=
        zeroObjectRef\<lparr>ref_Name := ''cm''\<rparr>\<rparr>\<rparr>\<rparr>"

lemmas sampleService_defs = sampleService_def zero_defs

lemma sampleService_wf: "wfUserServiceSpec (s_Spec sampleService)"
  by (simp add: sampleService_defs wfUserServiceSpec_def wfSplunk_def wfServiceMTLS_def)

lemma sampleService_history:
  "history defaultAIService
     (\<lambda>x. serviceValidateCreate (ObjAIService x))
     (\<lambda>old new. serviceValidateUpdate (ObjAIService old) (ObjAIService new))
     (defaultAIService sampleService) (defaultAIService sampleService)"
proof (rule history.Updated [OF history.Created])
  show "admitted (serviceValidateCreate (ObjAIService (defaultAIService sampleService)))"
    by (simp add: serviceCreate_admitted defaultAIService_def defaultServiceSpec_wf sampleService_wf)
  show "admitted (serviceValidateUpdate (ObjAIService (defaultAIService sampleService))
          (ObjAIService (defaultAIService sampleService)))"
    by (simp add: serviceUpdate_admitted serviceImmutable_Nil defaultAIService_def
        defaultServiceSpec_wf sampleService_wf)
qed

theorem service_history_invariant_witness:
  "as_Port (s_Spec (defaultAIService sampleService)) = 80 \<and>
   1 \<le> sint (as_Replicas (s_Spec (defaultAIService sampleService))) \<and>
   wfServiceSpec (s_Spec (defaultAIService sampleService))"
  using service_history_invariant [OF sampleService_history]
  by (simp add: service_default_defs sampleService_defs)

end
