(* ===== verification/RayBuilderCorrect.thy ===== *)
theory RayBuilderCorrect
  imports RayBuilder PlatformCorrect
begin

text \<open>
  What the Ray builder produces: the replicas and the environment of the worker groups, the
  RayService that ends up in the cluster, and the conditions rolled up from the state of Ray.
\<close>

section \<open>The scale of a tier\<close>

text \<open>A Go map of numbers read at a key: a missing key reads zero.\<close>

definition readScale :: "(string, int32) fmap \<Rightarrow> string \<Rightarrow> int32" where
  "readScale m k = (case fmlookup m k of Some n \<Rightarrow> n | None \<Rightarrow> 0)"

definition entrySum :: "string \<Rightarrow> (string \<times> int32) list \<Rightarrow> int32" where
  "entrySum k xs = sum_list (map snd (filter (\<lambda>e. fst e = k) xs))"

text \<open>What the file of a feature asks for on this accelerator.\<close>

definition featureScale :: "'w rayDeps \<Rightarrow> string \<Rightarrow> FeatureSpec \<Rightarrow> (string \<times> int32) list res" where
  "featureScale d accel f =
     bindR (rd_readFile d (pathJoin [''features'', fs_Name f @ ''.yaml''])) (\<lambda>y.
     bindR (rd_parseFeature d y) (\<lambda>fc.
       Ok (case fmlookup (fc_InstanceScale fc) accel of Some xs \<Rightarrow> xs | None \<Rightarrow> [])))"

lemma addScale_read: "readScale (addScale m xs) k = readScale m k + entrySum k xs"
  unfolding addScale_def
proof (induction xs arbitrary: m)
  case (Cons x xs)
  obtain a v where x: "x = (a, v)" by fastforce
  show ?case
    by (simp add: x Cons.IH) (simp add: readScale_def entrySum_def split: option.split)
qed (simp add: entrySum_def)

lemma instanceScale_sums:
  assumes "instanceScale d accel fs m = Ok m'"
  shows "\<exists>scales. list_all2 (\<lambda>f xs. featureScale d accel f = Ok xs) fs scales \<and>
    (\<forall>k. readScale m' k = readScale m k + sum_list (map (entrySum k) scales))"
  using assms
proof (induction fs arbitrary: m)
  case (Cons f fs)
  obtain y fc where y: "rd_readFile d (pathJoin [''features'', fs_Name f @ ''.yaml'']) = Ok y" "rd_parseFeature d y = Ok fc"
    using Cons.prems by (auto simp: Let_def split: res.splits)
  let ?xs = "case fmlookup (fc_InstanceScale fc) accel of Some xs \<Rightarrow> xs | None \<Rightarrow> []"
  have "instanceScale d accel fs (addScale m ?xs) = Ok m'"
    using Cons.prems y by (simp add: Let_def)
  from Cons.IH [OF this] obtain scales where
    "list_all2 (\<lambda>f xs. featureScale d accel f = Ok xs) fs scales"
    "\<forall>k. readScale m' k = readScale (addScale m ?xs) k + sum_list (map (entrySum k) scales)"
    by blast
  moreover have "featureScale d accel f = Ok ?xs"
    using y by (simp add: featureScale_def)
  ultimately show ?case
    by (intro exI [of _ "?xs # scales"]) (simp add: addScale_read add.assoc)
qed simp

section \<open>The environment of a worker\<close>

lemma setEnv_names: "en_Name ` set (setEnv k v es) = insert k (en_Name ` set es)"
  by (induction es) (auto simp: envVar_def)

definition setValue :: "string \<Rightarrow> string \<Rightarrow> env_var \<Rightarrow> env_var" where
  "setValue k v e = (if en_Name e = k then e\<lparr>en_Value := v\<rparr> else e)"

lemma setValue_name [simp]: "en_Name (setValue k v e) = en_Name e"
  by (simp add: setValue_def)

lemma setEnv_eq:
  "distinct (map en_Name es) \<Longrightarrow> setEnv k v es =
     (if k \<in> en_Name ` set es then map (setValue k v) es
      else es @ [envVar k v])"
proof (induction es)
  case (Cons e es)
  have "map (setValue k v) es = es" if "en_Name e = k"
    using Cons.prems that by (intro map_idI) (auto simp: image_iff setValue_def)
  then show ?case
    using Cons by (cases "en_Name e = k") (auto simp: setValue_def [of k v e])
qed simp

definition overrideEnv :: "(string \<times> string) list \<Rightarrow> env_var \<Rightarrow> env_var" where
  "overrideEnv cfg e = (case map_of cfg (en_Name e) of Some v \<Rightarrow> e\<lparr>en_Value := v\<rparr> | None \<Rightarrow> e)"

lemma overrideEnv_name [simp]: "en_Name (overrideEnv cfg e) = en_Name e"
  by (simp add: overrideEnv_def split: option.split)

lemma combineEnv_eq:
  assumes "distinct (map en_Name es)" and "distinct (map fst cfg)"
  shows "combineEnv es cfg = map (overrideEnv cfg) es @
    map (\<lambda>(k, v). envVar k v) (filter (\<lambda>e. fst e \<notin> en_Name ` set es) cfg)"
  using assms
proof (induction cfg arbitrary: es)
  case Nil
  then show ?case by (simp add: combineEnv_def overrideEnv_def)
next
  case (Cons x cfg)
  obtain k v where x: "x = (k, v)" by fastforce
  have fresh: "map_of cfg k = None" "filter (\<lambda>e. fst e \<notin> insert k N) cfg = filter (\<lambda>e. fst e \<notin> N) cfg" for N
    using Cons.prems(2) x by (auto simp: map_of_eq_None_iff intro!: filter_cong)
  show ?case
  proof (cases "k \<in> en_Name ` set es")
    case True
    have "overrideEnv cfg (setValue k v e) = overrideEnv (x # cfg) e" for e
      using fresh(1) by (simp add: overrideEnv_def setValue_def x)
    moreover have "combineEnv es (x # cfg) = combineEnv (map (setValue k v) es) cfg"
      using True Cons.prems(1) by (simp add: combineEnv_def x setEnv_eq)
    ultimately show ?thesis
      using Cons.IH [of "map (setValue k v) es"] Cons.prems True x by (simp add: comp_def image_image)
  next
    case False
    let ?es = "es @ [envVar k v]"
    have "combineEnv es (x # cfg) = combineEnv ?es cfg"
      using False Cons.prems(1) by (simp add: combineEnv_def x setEnv_eq)
    moreover have "distinct (map en_Name ?es)"
      using False Cons.prems(1) by (auto simp: envVar_def)
    moreover have "overrideEnv cfg e = overrideEnv (x # cfg) e" if "e \<in> set es" for e
      using False that by (auto simp: overrideEnv_def x)
    moreover have "overrideEnv cfg (envVar k v) = envVar k v"
      using fresh(1) by (simp add: overrideEnv_def envVar_def)
    ultimately show ?thesis
      using Cons.IH [of ?es] Cons.prems False fresh(2) by (simp add: x envVar_def)
  qed
qed

lemma workerDefaultEnv_distinct: "distinct (map en_Name (workerDefaultEnv d p))"
  by (simp add: workerDefaultEnv_def envVar_def)

text \<open>
  A worker's environment is the built-in variables in their order, each with the configured
  value when the instance configures it, followed by the other configured variables in the order in
  which the range over the configuration delivers them. Two ranges over the same configuration give
  the same variables, but not the same list: with two such variables the pod template depends on
  the order of the iteration.
\<close>

theorem worker_env_merged:
  assumes "distinct (map fst (id_Env cfg))" and "workerGroup d p scale cfg = Ok g"
  shows "map co_Env (ps_Containers (pt_Spec (gr_Template g))) =
    [map (overrideEnv (id_Env cfg)) (workerDefaultEnv d p) @
     map (\<lambda>(k, v). envVar k v) (filter (\<lambda>e. fst e \<notin> en_Name ` set (workerDefaultEnv d p)) (id_Env cfg))]"
proof -
  obtain tpl where tpl: "makeWorkerTemplate d p cfg = Ok tpl" "pt_Spec (gr_Template g) = pt_Spec tpl"
    using assms(2) by (auto simp: workerGroup_def bindR_Ok_iff split: prod.splits)
  then have "map co_Env (ps_Containers (pt_Spec tpl)) = [combineEnv (workerDefaultEnv d p) (id_Env cfg)]"
    by (auto simp: makeWorkerTemplate_def split: option.splits)
  then show ?thesis
    using tpl(2) combineEnv_eq [OF workerDefaultEnv_distinct assms(1)] by simp
qed

section \<open>The worker groups\<close>

lemma workerGroups_each:
  "workerGroups d p scale cfgs = Ok gs \<Longrightarrow> list_all2 (\<lambda>cfg g. workerGroup d p scale cfg = Ok g) cfgs gs"
  by (induction cfgs arbitrary: gs) (auto simp: bindR_Ok_iff)

definition readInstances :: "'w rayDeps \<Rightarrow> WorkerConfigs res" where
  "readInstances d = bindR (rd_readFile d
     (if rd_getenv d ''INSTANCE_FILE'' = [] then ''instance.yaml'' else rd_getenv d ''INSTANCE_FILE''))
     (rd_parseInstances d)"

definition instancesFor :: "WorkerConfigs \<Rightarrow> string \<Rightarrow> InstanceDetail list" where
  "instancesFor m accel = (case fmlookup m accel of Some cfgs \<Rightarrow> cfgs | None \<Rightarrow> [])"

lemma buildClusterConfig_Ok:
  assumes "buildClusterConfig d p = Ok c"
  shows "\<exists>m scale. readInstances d = Ok m \<and>
    instanceScale d (ap_DefaultAcceleratorType (p_Spec p)) (ap_Features (p_Spec p)) fmempty = Ok scale \<and>
    workerGroups d p scale (instancesFor m (ap_DefaultAcceleratorType (p_Spec p))) = Ok (cl_Workers c)"
  using assms
  by (auto simp: buildClusterConfig_def bindR_Ok_iff mapErr_eq_Ok readInstances_def instancesFor_def Let_def
      split: prod.splits res.splits)

lemma workerGroup_Ok:
  assumes "workerGroup d p scale cfg = Ok g"
  shows "gr_GroupName g = id_Tier cfg \<and> gr_Replicas g = readScale scale (id_Tier cfg) \<and>
    pt_Labels (gr_Template g) = Some (snd (buildWorkerAnnotationsAndLabels p cfg))"
  using assms by (auto simp: workerGroup_def readScale_def bindR_Ok_iff split: prod.splits)

lemma tier_label:
  "fmlookup (entries (om_Labels (p_Meta p))) ''gpu-tier'' = None \<Longrightarrow>
   fmlookup (snd (buildWorkerAnnotationsAndLabels p cfg)) ''gpu-tier'' = Some (id_Tier cfg)"
  unfolding buildWorkerAnnotationsAndLabels_def Let_def snd_conv by (simp add: overlayIf_lookup)

definition tierScale :: "(string \<times> int32) list list \<Rightarrow> string \<Rightarrow> int32" where
  "tierScale scales k = sum_list (map (entrySum k) scales)"

text \<open>
  C13: the cluster has one worker group per configured instance of the default accelerator, in the
  configured order, named after its tier; its replicas are the sum, in 32-bit arithmetic, of what
  the platform's features ask for on that tier, and its pods carry the tier as a label unless a
  label of the platform overrides it.
\<close>

theorem worker_groups_built:
  assumes "buildClusterConfig d p = Ok c"
  shows "\<exists>m scales. readInstances d = Ok m \<and>
    list_all2 (\<lambda>f xs. featureScale d (ap_DefaultAcceleratorType (p_Spec p)) f = Ok xs) (ap_Features (p_Spec p)) scales \<and>
    list_all2 (\<lambda>cfg g. gr_GroupName g = id_Tier cfg \<and> gr_Replicas g = tierScale scales (id_Tier cfg) \<and>
        (fmlookup (entries (om_Labels (p_Meta p))) ''gpu-tier'' = None \<longrightarrow>
          fmlookup (entries (pt_Labels (gr_Template g))) ''gpu-tier'' = Some (id_Tier cfg)))
      (instancesFor m (ap_DefaultAcceleratorType (p_Spec p))) (cl_Workers c)"
proof -
  let ?accel = "ap_DefaultAcceleratorType (p_Spec p)"
  obtain m scale where m: "readInstances d = Ok m"
    and scale: "instanceScale d ?accel (ap_Features (p_Spec p)) fmempty = Ok scale"
    and groups: "workerGroups d p scale (instancesFor m ?accel) = Ok (cl_Workers c)"
    using buildClusterConfig_Ok [OF assms] by blast
  obtain scales where scales: "list_all2 (\<lambda>f xs. featureScale d ?accel f = Ok xs) (ap_Features (p_Spec p)) scales"
    and read: "\<And>k. readScale scale k = tierScale scales k"
    using instanceScale_sums [OF scale] by (auto simp: readScale_def tierScale_def)
  have each: "gr_GroupName g = id_Tier cfg \<and> gr_Replicas g = tierScale scales (id_Tier cfg) \<and>
      (fmlookup (entries (om_Labels (p_Meta p))) ''gpu-tier'' = None \<longrightarrow>
          fmlookup (entries (pt_Labels (gr_Template g))) ''gpu-tier'' = Some (id_Tier cfg))"
    if "workerGroup d p scale cfg = Ok g" for cfg g
    using workerGroup_Ok [OF that] tier_label [of p cfg] by (simp add: read)
  show ?thesis
    by (intro exI [of _ m] exI [of _ scales] conjI m scales list_all2_mono [OF workerGroups_each [OF groups]] each)
qed

section \<open>Worker groups without a configuration\<close>

lemma workerGroup_panics:
  "ap_WorkerGroupConfig (p_Spec p) = None \<Longrightarrow> workerGroup d p scale cfg = Panic nilDeref"
  by (simp add: workerGroup_def makeWorkerTemplate_def split: option.split prod.split)

lemma unconfigured_workers:
  assumes "ap_WorkerGroupConfig (p_Spec p) = None"
    and "readInstances d = Ok m" "instancesFor m (ap_DefaultAcceleratorType (p_Spec p)) \<noteq> []"
  shows "buildClusterConfig d p \<noteq> Ok c"
proof
  assume "buildClusterConfig d p = Ok c"
  then obtain scale where
    "workerGroups d p scale (instancesFor m (ap_DefaultAcceleratorType (p_Spec p))) = Ok (cl_Workers c)"
    using buildClusterConfig_Ok assms(2) by fastforce
  then show False
    using assms(3) by (cases "instancesFor m (ap_DefaultAcceleratorType (p_Spec p))")
      (auto simp: bindR_Ok_iff workerGroup_panics [OF assms(1)])
qed

section \<open>The stored RayService\<close>

text \<open>
  The contract of a retried attempt: it keeps the object that the closure carries well formed, and
  an attempt without error leaves the state as wanted.
\<close>

locale retried =
  fixes attempt :: "'o \<Rightarrow> ('w, 'c, 'o \<times> gerr option) act"
    and good :: "'o \<Rightarrow> bool" and wanted :: "('w, 'c) rstate \<Rightarrow> bool"
  assumes keeps: "\<lbrakk>good x; attempt x s = (Ok (x', e), t)\<rbrakk> \<Longrightarrow> good x'"
    and succeeds: "\<lbrakk>good x; attempt x s = (Ok (x', None), t)\<rbrakk> \<Longrightarrow> wanted t"
begin

lemma attempts_wanted:
  "attempts attempt x s q t \<Longrightarrow> good x \<Longrightarrow> q = Ok (y, e) \<Longrightarrow> good y \<and> (e = None \<longrightarrow> wanted t)"
proof (induction arbitrary: y e rule: attempts.induct)
  case (first q t)
  then show ?case using keeps succeeds by blast
next
  case (again z e' u q t)
  then show ?case using keeps succeeds by blast
qed

lemma retry_wanted:
  assumes "retryDocs retry" and "good x" and "retry attempt x s = (Ok (), t)"
  shows "wanted t"
  using assms attempts_wanted unfolding retryDocs_def by metis

end

text \<open>By the documentation, a RayService reads back as it was written, under its key.\<close>

definition rayDocs :: "'w rayDeps \<Rightarrow> bool" where
  "rayDocs d \<longleftrightarrow> clientDocs rayKey (\<lambda>r. (ry_Cluster r, ry_ServeConfigV2 r)) (rd_rayservices d) \<and>
     setOwnerDocs (rd_setOwner d)"

definition rayFor :: "AIPlatform \<Rightarrow> RayClusterSpec \<Rightarrow> string \<Rightarrow> rayservice \<Rightarrow> bool" where
  "rayFor p c conf r \<longleftrightarrow>
     rayKey r = (plNamespace p, plName p) \<and> ry_Cluster r = Some c \<and> ry_ServeConfigV2 r = conf"

definition rayStored :: "'w rayDeps \<Rightarrow> AIPlatform \<Rightarrow> RayClusterSpec \<Rightarrow> string \<Rightarrow> ('w, AIPlatform) rstate \<Rightarrow> bool" where
  "rayStored d p c conf t \<longleftrightarrow> rayDocs d \<longrightarrow>
     (\<exists>r. cGet (rd_rayservices d) (rs_world t) (plNamespace p, plName p) = Ok r \<and> rayFor p c conf r)"

lemma withOwner_for:
  assumes "rayDocs d"
  shows "rayFor p c conf (withOwner d p r) = rayFor p c conf r"
proof -
  have "setOwnerDocs (rd_setOwner d)"
    using assms by (simp add: rayDocs_def)
  from setOwnerDocsD(1) [OF this] show ?thesis
    by (auto simp: withOwner_def rayFor_def rayKey_def split: res.split)
qed

lemma rayDocs_write:
  assumes "rayDocs d" and "rayFor p c conf r"
    and "cCreate (rd_rayservices d) w r = (w', Ok x) \<or> cUpdate (rd_rayservices d) w r = (w', Ok x)"
  shows "cGet (rd_rayservices d) w' (plNamespace p, plName p) = Ok x \<and> rayFor p c conf x"
proof -
  have "writeVisible rayKey (\<lambda>r. (ry_Cluster r, ry_ServeConfigV2 r)) (rd_rayservices d)"
    using assms(1) by (simp add: rayDocs_def clientDocs_def)
  from writeVisibleD [OF this assms(3)] assms(2) show ?thesis
    by (auto simp: rayFor_def)
qed

lemma rayDocs_key: "rayDocs d \<Longrightarrow> cGet (rd_rayservices d) w k = Ok r \<Longrightarrow> rayKey r = k"
  unfolding rayDocs_def clientDocs_def by blast

lemma tryA_OkE:
  assumes "tryA m f s = (Ok y, t)"
  obtains r u where "m s = (r, u)" "f r u = (Ok y, t)"
  using assms by (auto simp: tryA_def split: prod.splits res.splits)

lemma asResult_cases:
  assumes "asResult x m s = (Ok (x', e), t)"
  shows "x' = x \<and> (e = None \<longrightarrow> m s = (Ok (), t))"
proof -
  obtain q u where q: "m s = (q, u)" by fastforce
  show ?thesis
    using assms q by (cases q) (auto simp: asResult_def tryA_def retA_def panicA_def)
qed

lemma writeRayService_cases:
  assumes "writeRayService d p c conf x s = (Ok (x', e), t)"
  shows "x' \<in> {x, withOwner d p x} \<and> (e = None \<longrightarrow>
    (\<exists>w r y. (cCreate (rd_rayservices d) w r = (rs_world t, Ok y) \<or> cUpdate (rd_rayservices d) w r = (rs_world t, Ok y)) \<and>
      (r = withOwner d p x \<or> (\<exists>cur. cGet (rd_rayservices d) (rs_world s) (rayKey x) = Ok cur \<and>
         r = withOwner d p (cur\<lparr>ry_Cluster := Some c, ry_ServeConfigV2 := conf\<rparr>)))))"
proof (cases "cGet (rd_rayservices d) (rs_world s) (rayKey x)")
  case (Ok cur)
  let ?r = "withOwner d p (cur\<lparr>ry_Cluster := Some c, ry_ServeConfigV2 := conf\<rparr>)"
  have "asResult x (dropA (updateA (rd_rayservices d) ?r)) s = (Ok (x', e), t)"
    using assms Ok by (simp add: writeRayService_def tryA_def getA_def readA_def)
  from asResult_cases [OF this] have "x' = x" "e = None \<longrightarrow>
      (\<exists>y. cUpdate (rd_rayservices d) (rs_world s) ?r = (rs_world t, Ok y))"
    by (auto simp: updateA_def act_Ok_iff)
  then show ?thesis
    using Ok by blast
next
  case (Err e')
  show ?thesis
  proof (cases "isNotFound e'")
    case True
    let ?u = "s\<lparr>rs_events := rs_events s @ [\<lparr>ev_type = EventNormal, ev_reason = ''RayServiceCreating'',
        ev_message = ''Creating RayService resource''\<rparr>]\<rparr>"
    have "asResult (withOwner d p x) (thenA (dropA (createA (rd_rayservices d) (withOwner d p x)))
         (noteA ''RayServiceCreated'' ''RayService resource created successfully'')) ?u = (Ok (x', e), t)"
      using assms Err True by (simp add: writeRayService_def tryA_def getA_def readA_def noteA_def act_defs)
    from asResult_cases [OF this] have "x' = withOwner d p x" "e = None \<longrightarrow>
        (\<exists>y. cCreate (rd_rayservices d) (rs_world s) (withOwner d p x) = (rs_world t, Ok y))"
      by (auto simp: createA_def noteA_def act_Ok_iff)
    then show ?thesis
      by blast
  next
    case False
    then show ?thesis
      using assms Err by (auto simp: writeRayService_def tryA_def getA_def readA_def warnA_def act_Ok_iff)
  qed
next
  case (Panic z)
  then show ?thesis
    using assms by (simp add: writeRayService_def tryA_def getA_def readA_def panicA_def)
qed

interpretation ray_write: retried "writeRayService d p c conf" "\<lambda>r. rayDocs d \<longrightarrow> rayFor p c conf r"
  "rayStored d p c conf" for d :: "'w rayDeps" and p c conf
proof
  fix x x' e and s t :: "('w, AIPlatform) rstate"
  assume "rayDocs d \<longrightarrow> rayFor p c conf x" "writeRayService d p c conf x s = (Ok (x', e), t)"
  then show "rayDocs d \<longrightarrow> rayFor p c conf x'"
    using writeRayService_cases withOwner_for by blast
next
  fix x x' and s t :: "('w, AIPlatform) rstate"
  assume good: "rayDocs d \<longrightarrow> rayFor p c conf x" and run: "writeRayService d p c conf x s = (Ok (x', None), t)"
  obtain w r y where w: "cCreate (rd_rayservices d) w r = (rs_world t, Ok y) \<or> cUpdate (rd_rayservices d) w r = (rs_world t, Ok y)"
    and r: "r = withOwner d p x \<or> (\<exists>cur. cGet (rd_rayservices d) (rs_world s) (rayKey x) = Ok cur \<and>
         r = withOwner d p (cur\<lparr>ry_Cluster := Some c, ry_ServeConfigV2 := conf\<rparr>))"
    using writeRayService_cases [OF run] by blast
  show "rayStored d p c conf t"
    unfolding rayStored_def
  proof
    assume docs: "rayDocs d"
    then have x: "rayFor p c conf x" using good by blast
    have "rayFor p c conf (cur\<lparr>ry_Cluster := Some c, ry_ServeConfigV2 := conf\<rparr>)"
      if "cGet (rd_rayservices d) (rs_world s) (rayKey x) = Ok cur" for cur
      using rayDocs_key [OF docs that] x by (simp add: rayFor_def rayKey_def)
    then have "rayFor p c conf r"
      using r x withOwner_for [OF docs] by metis
    then show "\<exists>r. cGet (rd_rayservices d) (rs_world t) (plNamespace p, plName p) = Ok r \<and> rayFor p c conf r"
      using rayDocs_write [OF docs _ w] by blast
  qed
qed

lemma labelled_key:
  "metaKey ((newMeta n ns)\<lparr>om_Annotations := a, om_Labels := l\<rparr>) = (ns, n)" "metaKey (newMeta n ns) = (ns, n)"
  by (simp_all add: metaKey_def)

lemma ReconcileRayService_OkE:
  assumes run: "ReconcileRayService d s = (Ok (), t)"
    and found: "\<And>cur. cGet (rd_rayservices d) (rs_world s) (plNamespace (rs_cr s), plName (rs_cr s)) = Ok cur \<Longrightarrow>
      metaKey (ry_Meta cur) = (plNamespace (rs_cr s), plName (rs_cr s))"
  obtains c u conf x v where "buildClusterConfig d (rs_cr s) = Ok c"
    "urlParse (os_Path (ap_ObjectStorage (p_Spec (rs_cr s)))) = Some u" "renderServeConfig d (rs_cr s) u = Ok conf"
    "rayFor (rs_cr s) (cleanRayServiceSpec c) conf x"
    "rd_retry d (writeRayService d (rs_cr s) (cleanRayServiceSpec c) conf) x v = (Ok (), t)"
  using run
  by (auto simp: ReconcileRayService_def Build_def act_Ok_iff bindR_Ok_iff getA_def readA_def newRayService_def Let_def
      elim!: tryA_OkE split: res.splits if_splits prod.splits option.splits)
    (rule that, assumption, assumption, assumption, simp_all add: rayFor_def rayKey_def found labelled_key)+

text \<open>
  C12: when the RayService stage succeeds, the cluster holds a RayService under the platform's name
  whose cluster specification is the one built from the platform, cleaned, and whose serve
  configuration is the rendered template, also when the write had to be retried.
\<close>

theorem ray_service_written:
  assumes docs: "rayDocs d" and retry: "retryDocs (rd_retry d)" and run: "ReconcileRayService d s = (Ok (), t)"
  defines "p \<equiv> rs_cr s"
  shows "\<exists>c u conf r. buildClusterConfig d p = Ok c \<and>
    urlParse (os_Path (ap_ObjectStorage (p_Spec p))) = Some u \<and> renderServeConfig d p u = Ok conf \<and>
    cGet (rd_rayservices d) (rs_world t) (plNamespace p, plName p) = Ok r \<and>
    ry_Cluster r = Some (cleanRayServiceSpec c) \<and> ry_ServeConfigV2 r = conf"
proof -
  have found: "metaKey (ry_Meta cur) = (plNamespace (rs_cr s), plName (rs_cr s))"
    if "cGet (rd_rayservices d) (rs_world s) (plNamespace (rs_cr s), plName (rs_cr s)) = Ok cur" for cur
    using rayDocs_key [OF docs that] by (simp add: rayKey_def)
  obtain c u conf x v where c: "buildClusterConfig d p = Ok c"
    and u: "urlParse (os_Path (ap_ObjectStorage (p_Spec p))) = Some u" and conf: "renderServeConfig d p u = Ok conf"
    and x: "rayFor p (cleanRayServiceSpec c) conf x"
    and v: "rd_retry d (writeRayService d p (cleanRayServiceSpec c) conf) x v = (Ok (), t)"
    using ReconcileRayService_OkE [OF run found] unfolding p_def by blast
  let ?c = "cleanRayServiceSpec c"
  have "rayStored d p ?c conf t"
    by (rule ray_write.retry_wanted [OF retry _ v]) (use x in simp)
  then show ?thesis
    using c u conf docs by (auto simp: rayStored_def rayFor_def)
qed

section \<open>The conditions rolled up\<close>

text \<open>The resource with these conditions set on its status, in this order.\<close>

definition withConds :: "'w rayDeps \<Rightarrow> condition list \<Rightarrow> AIPlatform \<Rightarrow> AIPlatform" where
  "withConds d cs p = p\<lparr>p_Status := (p_Status p)\<lparr>
     aps_Conditions := foldl (rd_setCondition d) (aps_Conditions (p_Status p)) cs\<rparr>\<rparr>"

lemma withConds_withConds: "withConds d ds (withConds d cs p) = withConds d (cs @ ds) p"
  by (simp add: withConds_def)

text \<open>An action that always succeeds, and changes the conditions of the resource and nothing else of it.\<close>

definition writesConds :: "'w rayDeps \<Rightarrow> condition list \<Rightarrow> ('w, unit) plat \<Rightarrow> bool" where
  "writesConds d cs m \<longleftrightarrow>
     (\<forall>s. \<exists>u. m s = (Ok (), u) \<and> rs_world u = rs_world s \<and> rs_cr u = withConds d cs (rs_cr s))"

lemma writes_setConds: "writesConds d cs (setConds d cs)"
  by (simp add: writesConds_def setConds_def withConds_def modCR_def)

lemma writes_nothing: "writesConds d [] (warnA a b)" "writesConds d [] (noteA a b)" "writesConds d [] (retA ())"
  by (simp_all add: writesConds_def warnA_def noteA_def withConds_def act_defs)

lemma writes_then:
  assumes "writesConds d cs m" and "writesConds d ds k"
  shows "writesConds d (cs @ ds) (thenA m k)"
  unfolding writesConds_def
proof
  fix s
  obtain u where u: "m s = (Ok (), u)" "rs_world u = rs_world s" "rs_cr u = withConds d cs (rs_cr s)"
    using assms(1) unfolding writesConds_def by blast
  obtain v where "k u = (Ok (), v)" "rs_world v = rs_world u" "rs_cr v = withConds d ds (rs_cr u)"
    using assms(2) unfolding writesConds_def by blast
  then show "\<exists>v. thenA m k s = (Ok (), v) \<and> rs_world v = rs_world s \<and> rs_cr v = withConds d (cs @ ds) (rs_cr s)"
    using u by (simp add: thenA_def bindA_def withConds_withConds)
qed

lemma writes_transition: "writesConds d [c] (transition d t b up down c)"
proof -
  have "writesConds d ([] @ [c]) (thenA m (setConds d [c]))" if "writesConds d [] m" for m
    using writes_then [OF that writes_setConds] .
  then have "writesConds d [c] (thenA (if x then noteA y z else whenA x' (warnA y' z')) (setConds d [c]))" for x y z x' y' z'
    by (simp add: writes_nothing whenA_def)
  then show ?thesis
    unfolding transition_def Let_def writesConds_def by (simp add: bindA_def getCR_def)
qed

definition rayConds :: "'w rayDeps \<Rightarrow> RaySnapshot \<Rightarrow> RayErrorDetails \<Rightarrow> condition list" where
  "rayConds d sn e = 
     (let now = rd_now d; keys = map fst (case sn_EndpointMap sn of Some m \<Rightarrow> m | None \<Rightarrow> [])
      in [mkCond now ''RayServiceReady'' (if rsReady sn then ''Ready'' else ''NotReady'') (serviceMessage sn e) (rsReady sn),
          mkCond now ''RayServiceUpgradeInProgress'' (if sn_UpgradeInProgress sn then ''Upgrading'' else ''Idle'')
            ''Zero-downtime upgrade status as reported by KubeRay'' (sn_UpgradeInProgress sn),
          mkCond now ''RayEndpointsDiscovered'' (if keys \<noteq> [] then ''Found'' else ''Missing'')
            (''keys='' @ sliceText keys) (keys \<noteq> []),
          mkCond now ''RayClusterReady'' (if clusterReady sn then ''AllPodsReady'' else ''PodsNotReady'')
            (clusterMessage sn e) (clusterReady sn),
          mkCond now ''RayServeRouteReady''
            (if sn_ServeServiceHasBackend sn then ''EndpointsAvailable'' else ''NoEndpoints'')
            (serveMessage d sn e) (sn_ServeServiceHasBackend sn)])"

lemma writes_rayTransitions: "writesConds d (rayConds d sn e) (rayTransitions d sn e)"
proof -
  have join: "writesConds d (c # cs @ ds) (thenA m k)" if "writesConds d (c # cs) m" "writesConds d ds k" for c cs ds m k
    using writes_then [OF that] by simp
  show ?thesis
    unfolding rayTransitions_def rayConds_def Let_def
    by (rule join [where cs = "[]", simplified] join [where cs = "[x]" for x, simplified] writes_transition writes_setConds)+
qed

definition rollupConds :: "'w rayDeps \<Rightarrow> RaySnapshot \<Rightarrow> WeaviateErrorDetails \<Rightarrow> condition list" where
  "rollupConds d sn we =
     (let now = rd_now d; ready = \<not> wd_HasError we; all = rollupReady sn ready
      in [mkCond now ''WeaviateDatabaseReady'' (if ready then ''Ready'' else ''NotReady'')
            (if ready then ''Weaviate database is running'' else wd_Summary we) ready,
          mkCond now ''Ready'' (if all then ''AllHealthy'' else ''Degraded'')
            (if all then ''All components healthy: Ray, RayServe, and Weaviate''
             else ''Degraded components: '' @ sliceText (failedComponents sn ready)) all])"

lemma writes_rollup: "writesConds d (rollupConds d sn we) (rollup d sn we)"
  unfolding rollup_def rollupConds_def Let_def
  by (rule writes_then [where cs = "[x]" for x, simplified] writes_transition)+

lemma writes_rayErrorEvents: "writesConds d [] (rayErrorEvents d e)"
proof -
  have both: "writesConds d [] (thenA m k)" if "writesConds d [] m" "writesConds d [] k" for m k
    using writes_then [OF that] by simp
  show ?thesis
    by (auto simp: rayErrorEvents_def whenA_def Let_def intro!: both writes_nothing split: option.split)
qed

lemma writesConds_run:
  assumes "writesConds d cs m" and "thenA m k s = (r, t)"
  obtains u where "rs_world u = rs_world s" "rs_cr u = withConds d cs (rs_cr s)" "k u = (r, t)"
proof -
  obtain u where "m s = (Ok (), u)" "rs_world u = rs_world s" "rs_cr u = withConds d cs (rs_cr s)"
    using assms(1) unfolding writesConds_def by blast
  then show ?thesis
    using assms(2) that by (simp add: thenA_def bindA_def)
qed

lemma builder_Ok:
  assumes "BuilderApplyConditions d s = (Ok (), t)"
  shows "\<exists>sn e we. CollectRaySnapshot (rd_reads d (rs_world s)) (plNamespace (rs_cr s)) (plName (rs_cr s)) = Ok sn \<and>
    ExtractWeaviateErrors (rd_reads d (rs_world s)) (plNamespace (rs_cr s)) (plName (rs_cr s)) = Ok we \<and>
    rs_world t = rs_world s \<and>
    rs_cr t = withConds d (rayConds d sn e @ rollupConds d sn we)
      ((rs_cr s)\<lparr>p_Status := recordSnapshot sn (p_Status (rs_cr s))\<rparr>)"
proof -
  let ?reads = "rd_reads d (rs_world s)" and ?ns = "plNamespace (rs_cr s)" and ?n = "plName (rs_cr s)"
  obtain sn e where sn: "CollectRaySnapshot ?reads ?ns ?n = Ok sn"
    and run: "thenA (rayErrorEvents d e) (thenA (modCR (\<lambda>p. p\<lparr>p_Status := recordSnapshot sn (p_Status p)\<rparr>))
      (thenA (rayTransitions d sn e) (bindA (liftA (ExtractWeaviateErrors ?reads ?ns ?n)) (rollup d sn)))) s = (Ok (), t)"
    using assms by (auto simp: BuilderApplyConditions_def snapshotFailed_def act_Ok_iff Let_def split: res.splits)
  obtain u where u: "rs_world u = rs_world s" "rs_cr u = rs_cr s"
    and run: "thenA (rayTransitions d sn e) (bindA (liftA (ExtractWeaviateErrors ?reads ?ns ?n)) (rollup d sn))
      (u\<lparr>rs_cr := (rs_cr u)\<lparr>p_Status := recordSnapshot sn (p_Status (rs_cr u))\<rparr>\<rparr>) = (Ok (), t)"
    by (rule writesConds_run [OF writes_rayErrorEvents run])
      (auto simp: withConds_def thenA_def bindA_def modCR_def)
  obtain v where v: "rs_world v = rs_world s"
      "rs_cr v = withConds d (rayConds d sn e) ((rs_cr s)\<lparr>p_Status := recordSnapshot sn (p_Status (rs_cr s))\<rparr>)"
    and run: "bindA (liftA (ExtractWeaviateErrors ?reads ?ns ?n)) (rollup d sn) v = (Ok (), t)"
    by (rule writesConds_run [OF writes_rayTransitions run]) (auto simp: u)
  obtain we where we: "ExtractWeaviateErrors ?reads ?ns ?n = Ok we" and run: "rollup d sn we v = (Ok (), t)"
    using run by (auto simp: act_Ok_iff)
  show ?thesis
    using writes_rollup [of d sn we, unfolded writesConds_def, rule_format, of v] run v sn we
    by (intro exI [of _ sn] exI [of _ e] exI [of _ we]) (auto simp: withConds_withConds)
qed

definition builderTypes :: "string list" where
  "builderTypes = [''RayServiceReady'', ''RayServiceUpgradeInProgress'', ''RayEndpointsDiscovered'',
     ''RayClusterReady'', ''RayServeRouteReady'', ''WeaviateDatabaseReady'', ''Ready'']"

lemma builder_types: "map c_Type (rayConds d sn e @ rollupConds d sn we) = builderTypes"
  by (simp add: rayConds_def rollupConds_def builderTypes_def mkCond_def Let_def)

lemma builder_statuses:
  assumes docs: "setConditionDocs (rd_setCondition d)" and run: "BuilderApplyConditions d s = (Ok (), t)"
  defines "reads \<equiv> rd_reads d (rs_world s)" and "p \<equiv> rs_cr s"
    and "status \<equiv> \<lambda>ty. map_option c_Status (findCond ty (aps_Conditions (p_Status (rs_cr t))))"
  obtains sn we where "CollectRaySnapshot reads (plNamespace p) (plName p) = Ok sn"
    "ExtractWeaviateErrors reads (plNamespace p) (plName p) = Ok we"
    "status ''RayServiceReady'' = Some (boolStatus (rsReady sn))"
    "status ''RayServeRouteReady'' = Some (boolStatus (sn_ServeServiceHasBackend sn))"
    "status ''WeaviateDatabaseReady'' = Some (boolStatus (\<not> wd_HasError we))"
    "status ''RayClusterReady'' = Some (boolStatus (clusterReady sn))"
    "status ''Ready'' = Some (boolStatus (rollupReady sn (\<not> wd_HasError we)))"
    "\<And>ty. ty \<notin> set builderTypes \<Longrightarrow>
       findCond ty (aps_Conditions (p_Status (rs_cr t))) = findCond ty (aps_Conditions (p_Status p))"
    "rs_world t = rs_world s" "p_Spec (rs_cr t) = p_Spec p"
proof -
  obtain sn e we where sn: "CollectRaySnapshot reads (plNamespace p) (plName p) = Ok sn"
    and we: "ExtractWeaviateErrors reads (plNamespace p) (plName p) = Ok we"
    and t: "rs_world t = rs_world s" "rs_cr t = withConds d (rayConds d sn e @ rollupConds d sn we)
      (p\<lparr>p_Status := recordSnapshot sn (p_Status p)\<rparr>)"
    using builder_Ok [OF run] unfolding reads_def p_def by blast
  let ?cs = "rayConds d sn e @ rollupConds d sn we"
  have conds: "aps_Conditions (p_Status (rs_cr t)) = foldl (rd_setCondition d) (aps_Conditions (p_Status p)) ?cs"
    by (simp add: t(2) withConds_def recordSnapshot_def)
  have distinct: "distinct (map c_Type ?cs)"
    unfolding builder_types by (simp add: builderTypes_def)
  have read: "status (c_Type c) = Some (c_Status c)" if "c \<in> set ?cs" for c
    using foldl_setC_status [OF docs distinct that] by (simp add: status_def conds)
  have other: "findCond ty (aps_Conditions (p_Status (rs_cr t))) = findCond ty (aps_Conditions (p_Status p))"
    if "ty \<notin> set builderTypes" for ty
    unfolding conds using that builder_types [of d sn e we]
    by (intro foldl_setC_other [OF docs]) (metis set_map)
  have statuses: "status ''RayServiceReady'' = Some (boolStatus (rsReady sn))"
    "status ''RayServeRouteReady'' = Some (boolStatus (sn_ServeServiceHasBackend sn))"
    "status ''WeaviateDatabaseReady'' = Some (boolStatus (\<not> wd_HasError we))"
    "status ''RayClusterReady'' = Some (boolStatus (clusterReady sn))"
    "status ''Ready'' = Some (boolStatus (rollupReady sn (\<not> wd_HasError we)))"
    using read by (force simp: rayConds_def rollupConds_def mkCond_def Let_def)+
  have "p_Spec (rs_cr t) = p_Spec p"
    by (simp add: t(2) withConds_def)
  then show ?thesis
    using that [OF sn we statuses other t(1)] by blast
qed

text \<open>
  C30: when the builder's status stage succeeds, the conditions of the Ray service, the serve route
  and Weaviate say what was read of them, conditions of other types stay as they were, and neither
  the cluster nor the specification changes; but the Ray cluster and the platform as a whole are
  reported not ready, whatever was read, because the snapshot never sees the head pod.
\<close>

theorem builder_conditions:
  assumes docs: "setConditionDocs (rd_setCondition d)" and run: "BuilderApplyConditions d s = (Ok (), t)"
  defines "reads \<equiv> rd_reads d (rs_world s)" and "p \<equiv> rs_cr s"
    and "status \<equiv> \<lambda>ty. map_option c_Status (findCond ty (aps_Conditions (p_Status (rs_cr t))))"
  shows "\<exists>sn we. CollectRaySnapshot reads (plNamespace p) (plName p) = Ok sn \<and>
    ExtractWeaviateErrors reads (plNamespace p) (plName p) = Ok we \<and>
    status ''RayServiceReady'' = Some (boolStatus (rsReady sn)) \<and>
    status ''RayServeRouteReady'' = Some (boolStatus (sn_ServeServiceHasBackend sn)) \<and>
    status ''WeaviateDatabaseReady'' = Some (boolStatus (\<not> wd_HasError we)) \<and>
    status ''RayClusterReady'' = Some ''False'' \<and> status ''Ready'' = Some ''False'' \<and>
    (\<forall>ty. ty \<notin> set builderTypes \<longrightarrow> findCond ty (aps_Conditions (p_Status (rs_cr t))) = findCond ty (aps_Conditions (p_Status p))) \<and>
    rs_world t = rs_world s \<and> p_Spec (rs_cr t) = p_Spec p"
proof -
  obtain sn we where facts: "CollectRaySnapshot reads (plNamespace p) (plName p) = Ok sn"
    "ExtractWeaviateErrors reads (plNamespace p) (plName p) = Ok we"
    "status ''RayServiceReady'' = Some (boolStatus (rsReady sn))"
    "status ''RayServeRouteReady'' = Some (boolStatus (sn_ServeServiceHasBackend sn))"
    "status ''WeaviateDatabaseReady'' = Some (boolStatus (\<not> wd_HasError we))"
    "status ''RayClusterReady'' = Some (boolStatus (clusterReady sn))"
    "status ''Ready'' = Some (boolStatus (rollupReady sn (\<not> wd_HasError we)))"
    "\<And>ty. ty \<notin> set builderTypes \<Longrightarrow>
       findCond ty (aps_Conditions (p_Status (rs_cr t))) = findCond ty (aps_Conditions (p_Status p))"
    "rs_world t = rs_world s" "p_Spec (rs_cr t) = p_Spec p"
    using builder_statuses [OF docs run] unfolding reads_def p_def status_def by metis
  have "\<not> sn_HeadPodReady sn"
    using CollectRaySnapshot_head [OF facts(1)] .
  then show ?thesis
    using facts
    by (intro exI [of _ sn] exI [of _ we]) (simp add: clusterReady_def rollupReady_def platformReady_def boolStatus_def)
qed

section \<open>The properties at concrete runs\<close>

definition smallInstance :: "(string \<times> string) list \<Rightarrow> InstanceDetail" where
  "smallInstance env = \<lparr>id_Tier = ''t1'', id_GPUsPerPod = 1, id_Env = env,
     id_Resources = \<lparr>rr_Requests = None, rr_Limits = None\<rparr>\<rparr>"

definition smallFeature :: FeatureConfig where
  "smallFeature = \<lparr>fc_ApplicationScale = [], fc_InstanceScale = fmap_of_list [(''L40S'', [(''t1'', 2)])]\<rparr>"

definition rayPlatform :: AIPlatform where
  "rayPlatform = emptyPlatform\<lparr>p_Spec := zeroPlatformSpec\<lparr>
     ap_ObjectStorage := zeroStorage\<lparr>os_Path := ''gs://b''\<rparr>, ap_DefaultAcceleratorType := ''L40S'',
     ap_Features := [zeroFeature\<lparr>fs_Name := ''saia''\<rparr>, zeroFeature\<lparr>fs_Name := ''seca''\<rparr>],
     ap_CPUSchedulingSpec := Some defaultScheduling, ap_GPUSchedulingSpec := Some defaultScheduling,
     ap_WorkerGroupConfig := Some \<lparr>wg_ServiceAccountName = ''sa'', wg_ImageRegistry = ''img''\<rparr>\<rparr>\<rparr>"

definition rayDemo :: "rayservice list rayDeps" where
  "rayDemo = offRay\<lparr>rd_readFile := \<lambda>_. Ok [], rd_rayservices := memClient rayKey (\<lambda>_ _. True),
     rd_reads := \<lambda>_. sampleReads,
     rd_parseInstances := \<lambda>_. Ok (fmap_of_list [(''L40S'', [smallInstance []])]),
     rd_parseFeature := \<lambda>_. Ok smallFeature, rd_parseTemplate := \<lambda>_. Ok (\<lambda>_. Ok ''conf'')\<rparr>"

lemma rayDemo_sel:
  "rd_retry rayDemo = retryOnConflict 5" "rd_getenv rayDemo = (\<lambda>_. ''img'')" "rd_readFile rayDemo = (\<lambda>_. Ok [])" "rd_setOwner rayDemo = addOwner"
  "rd_rayservices rayDemo = memClient rayKey (\<lambda>_ _. True)" "rd_configmaps rayDemo = offClient"
  "rd_reads rayDemo = (\<lambda>_. sampleReads)" "rd_setCondition rayDemo = putCondition"
  "rd_parseInstances rayDemo = (\<lambda>_. Ok (fmap_of_list [(''L40S'', [smallInstance []])]))"
  "rd_parseFeature rayDemo = (\<lambda>_. Ok smallFeature)" "rd_parseTemplate rayDemo = (\<lambda>_. Ok (\<lambda>_. Ok ''conf''))"
  by (simp_all add: rayDemo_def offRay_def)

lemma rayPlatform_sel:
  "plName rayPlatform = ''p''" "plNamespace rayPlatform = ''ns''"
  "ap_DefaultAcceleratorType (p_Spec rayPlatform) = ''L40S''" "os_Path (ap_ObjectStorage (p_Spec rayPlatform)) = ''gs://b''"
  "map fs_Name (ap_Features (p_Spec rayPlatform)) = [''saia'', ''seca'']"
  "ap_CPUSchedulingSpec (p_Spec rayPlatform) = Some defaultScheduling"
  "ap_GPUSchedulingSpec (p_Spec rayPlatform) = Some defaultScheduling"
  "ap_WorkerGroupConfig (p_Spec rayPlatform) = Some \<lparr>wg_ServiceAccountName = ''sa'', wg_ImageRegistry = ''img''\<rparr>"
  by (simp_all add: rayPlatform_def emptyPlatform_def zero_defs)

lemma demo_group:
  "\<exists>g. workerGroup rayDemo rayPlatform scale cfg = Ok g"
  by (simp add: workerGroup_def makeWorkerTemplate_def rayPlatform_sel split: prod.split)

text \<open>The same two variables in two orders of the range: two different pod templates.\<close>

theorem worker_env_merged_witness:
  "\<exists>g h. workerGroup rayDemo rayPlatform fmempty (smallInstance [(''A'', ''1''), (''B'', ''2'')]) = Ok g \<and>
     workerGroup rayDemo rayPlatform fmempty (smallInstance [(''B'', ''2''), (''A'', ''1'')]) = Ok h \<and> g \<noteq> h"
proof -
  obtain g h where g: "workerGroup rayDemo rayPlatform fmempty (smallInstance [(''A'', ''1''), (''B'', ''2'')]) = Ok g"
    and h: "workerGroup rayDemo rayPlatform fmempty (smallInstance [(''B'', ''2''), (''A'', ''1'')]) = Ok h"
    using demo_group by blast
  have "map co_Env (ps_Containers (pt_Spec (gr_Template g))) \<noteq> map co_Env (ps_Containers (pt_Spec (gr_Template h)))"
    using worker_env_merged [OF _ g] worker_env_merged [OF _ h]
    by (simp add: smallInstance_def workerDefaultEnv_def envVar_def overrideEnv_def)
  then show ?thesis
    using g h by metis
qed

lemma demo_features: "\<exists>f g. ap_Features (p_Spec rayPlatform) = [f, g]"
  by (simp add: rayPlatform_def)

lemma demo_cluster: "\<exists>c. buildClusterConfig rayDemo rayPlatform = Ok c"
proof -
  obtain f g where fs: "ap_Features (p_Spec rayPlatform) = [f, g]" using demo_features by blast
  have "\<forall>scale. \<exists>g. workerGroup rayDemo rayPlatform scale (smallInstance []) = Ok g"
    using demo_group by blast
  then obtain h where h: "\<forall>scale. workerGroup rayDemo rayPlatform scale (smallInstance []) = Ok (h scale)"
    by (rule choice [THEN exE])
  then show ?thesis
    by (simp add: buildClusterConfig_def makeHeadTemplate_def rayPlatform_sel rayDemo_sel fs Let_def split: prod.split)
qed

text \<open>Two features that each want two replicas of the tier: four replicas.\<close>

theorem worker_groups_built_witness:
  "\<exists>c. buildClusterConfig rayDemo rayPlatform = Ok c \<and>
     map gr_GroupName (cl_Workers c) = [''t1''] \<and> map gr_Replicas (cl_Workers c) = [4]"
proof -
  obtain c where c: "buildClusterConfig rayDemo rayPlatform = Ok c"
    using demo_cluster by blast
  have insts: "readInstances rayDemo = Ok m \<longleftrightarrow> m = fmap_of_list [(''L40S'', [smallInstance []])]" for m
    by (auto simp: readInstances_def rayDemo_sel)
  have scale: "featureScale rayDemo ''L40S'' f = Ok xs \<longleftrightarrow> xs = [(''t1'', 2)]" for f xs
    by (auto simp: featureScale_def rayDemo_sel smallFeature_def)
  show ?thesis
    using worker_groups_built [OF c] c demo_features
    by (auto simp: insts scale rayPlatform_sel instancesFor_def smallInstance_def list_all2_Cons1 tierScale_def entrySum_def)
qed

definition rayStart :: "(rayservice list, AIPlatform) rstate" where
  "rayStart = \<lparr>rs_world = [], rs_events = [], rs_cr = rayPlatform\<rparr>"

text \<open>In an empty cluster the stage creates the RayService.\<close>

theorem ray_service_written_witness:
  "let (r, t) = ReconcileRayService rayDemo rayStart
   in r = Ok () \<and> (\<exists>x. memGet rayKey (rs_world t) (''ns'', ''p'') = Ok x \<and> ry_ServeConfigV2 x = ''conf'')"
proof -
  have docs: "rayDocs rayDemo"
    by (simp add: rayDocs_def rayDemo_sel memClient_docs addOwner_docs)
  have retry: "retryDocs (rd_retry rayDemo)"
    by (simp add: rayDemo_sel retryOnConflict_docs)
  obtain c where c: "buildClusterConfig rayDemo rayPlatform = Ok c"
    using demo_cluster by blast
  have "urlParse ''gs://b'' \<noteq> None"
    by code_simp
  then obtain u where u: "urlParse ''gs://b'' = Some u"
    by blast
  have conf: "renderServeConfig rayDemo rayPlatform v = Ok ''conf''" for v
    by (simp add: renderServeConfig_def rayDemo_sel)
  obtain a l where al: "buildHeadAnnotationsAndLabels rayPlatform = (a, l)"
    by fastforce
  define new where "new = \<lparr>ry_Meta = (newMeta ''p'' ''ns'')\<lparr>om_Annotations := Some a, om_Labels := Some l\<rparr>,
      ry_Cluster = Some (cleanRayServiceSpec c), ry_ServeConfigV2 = ''conf''\<rparr>"
  define x where "x = withOwner rayDemo rayPlatform new"
  have once: "\<exists>t. writeRayService rayDemo rayPlatform (cleanRayServiceSpec c) ''conf'' new rayStart = (Ok (x, None), t)"
    by (simp add: x_def writeRayService_def rayDemo_sel tryA_def getA_def memClient_def memGet_def memCreate_def
        asResult_def dropA_def createA_def noteA_def rayStart_def act_defs)
  have tail: "\<exists>t. retryOnConflict 5 (writeRayService rayDemo rayPlatform (cleanRayServiceSpec c) ''conf'') new rayStart = (Ok (), t)"
    using once by (auto simp: retryOnConflict.simps)
  have skip: "dropA (upsertA offClient y f) rayStart = (Err (ApiErr OtherAPI ''unavailable''), rayStart)" for y :: configmap and f
    by (simp add: rayStart_def upsertA_def dropA_def offClient_def offline_def act_defs)
  have missing: "getA (memClient rayKey (\<lambda>_ _. True)) k rayStart = (Err (ApiErr NotFound ''not found''), rayStart)" for k
    by (simp add: rayStart_def getA_def memClient_def memGet_def act_defs)
  have cr: "rs_cr rayStart = rayPlatform"
    by (simp add: rayStart_def)
  then have "ReconcileRayService rayDemo rayStart =
      retryOnConflict 5 (writeRayService rayDemo rayPlatform (cleanRayServiceSpec c) ''conf'') new rayStart"
    using c u conf by (simp add: ReconcileRayService_def Build_def bindA_def liftA_def getCR_def tryA_def rayPlatform_sel
        rayDemo_sel(1,5,6) missing skip al new_def newRayService_def Let_def)
  then have "\<exists>t. ReconcileRayService rayDemo rayStart = (Ok (), t)"
    using tail by simp
  then obtain t where run: "ReconcileRayService rayDemo rayStart = (Ok (), t)"
    by blast
  show ?thesis
    using ray_service_written [OF docs retry run]
    by (auto simp: run cr rayPlatform_sel rayDemo_sel memClient_reads conf)
qed

lemma builder_succeeds:
  fixes d :: "'w rayDeps"
  assumes "CollectRaySnapshot (rd_reads d (rs_world s)) (plNamespace (rs_cr s)) (plName (rs_cr s)) = Ok sn"
    and "ExtractRayErrors (firstEntry d 0) (rd_reads d (rs_world s)) (plNamespace (rs_cr s)) (plName (rs_cr s)) = Ok e"
    and "ExtractWeaviateErrors (rd_reads d (rs_world s)) (plNamespace (rs_cr s)) (plName (rs_cr s)) = Ok we"
  shows "\<exists>t. BuilderApplyConditions d s = (Ok (), t)"
proof -
  let ?rest = "\<lambda>v. bindA (liftA (ExtractWeaviateErrors (rd_reads d (rs_world s)) (plNamespace (rs_cr s)) (plName (rs_cr s))))
      (rollup d sn) v"
  have total: "\<exists>t. thenA m k u = (Ok (), t)" if w: "writesConds d cs m" and k: "\<And>v. \<exists>t. k v = (Ok (), t)"
    for cs and m :: "('w, unit) plat" and k u
  proof -
    obtain v where "m u = (Ok (), v)"
      using w unfolding writesConds_def by blast
    then show ?thesis
      using k [of v] by (simp add: thenA_def bindA_def)
  qed
  have "\<exists>t. ?rest v = (Ok (), t)" for v
    using writes_rollup [of d sn we, unfolded writesConds_def, rule_format, of v] assms(3)
    by (auto simp: bindA_def liftA_def)
  then have "\<exists>t. thenA (rayTransitions d sn e) ?rest u = (Ok (), t)" for u
    using total [OF writes_rayTransitions] by blast
  then have "\<exists>t. thenA (modCR f) (thenA (rayTransitions d sn e) ?rest) u = (Ok (), t)" for f u
    by (simp add: thenA_def [of "modCR f"] bindA_def modCR_def)
  then have "\<exists>t. thenA (rayErrorEvents d e) (thenA (modCR f) (thenA (rayTransitions d sn e) ?rest)) u = (Ok (), t)" for f u
    using total [OF writes_rayErrorEvents] by blast
  then show ?thesis
    by (simp add: BuilderApplyConditions_def assms(1,2) Let_def)
qed

text \<open>A running service and a ready route, but the platform is not ready.\<close>

theorem builder_conditions_witness:
  "let (r, t) = BuilderApplyConditions rayDemo rayStart
   in r = Ok () \<and> map_option c_Status (findCond ''RayServiceReady'' (aps_Conditions (p_Status (rs_cr t)))) = Some ''True'' \<and>
      map_option c_Status (findCond ''Ready'' (aps_Conditions (p_Status (rs_cr t)))) = Some ''False''"
proof -
  have docs: "setConditionDocs (rd_setCondition rayDemo)"
    by (simp add: rayDemo_sel putCondition_docs)
  have reads: "\<exists>sn. CollectRaySnapshot sampleReads ns n = Ok sn" "\<exists>we. ExtractWeaviateErrors sampleReads ns n = Ok we"
    "\<exists>e. ExtractRayErrors f sampleReads ns n = Ok e" "\<And>sn. CollectRaySnapshot sampleReads ns n = Ok sn \<Longrightarrow> rsReady sn" for ns n f
    by (auto simp: rsReady_def serviceSnapshot_def CollectRaySnapshot_def ExtractWeaviateErrors_def ExtractRayErrors_def sampleReads_def Let_def)
  obtain t where run: "BuilderApplyConditions rayDemo rayStart = (Ok (), t)"
    using builder_succeeds reads(1-3) by (metis rayDemo_sel(7))
  show ?thesis
    using builder_conditions [OF docs run] reads(4) by (auto simp: run rayDemo_sel boolStatus_def)
qed

end
