(* ===== verification/PlatformChildren.thy ===== *)
theory PlatformChildren
  imports PlatformCorrect SaiaCorrect Webhook_Service RayBuilderCorrect
begin

text \<open>
  The AIServices that a platform creates for its features: whether their own webhook admits them,
  what the feature stage leaves in the cluster, and how the two reconcilers that write the same
  object get on with each other.
\<close>

section \<open>Admission of the children\<close>

lemma resolved_endpoint:
  "ResolveSplunkEndpoint gs gi ns cfg cdom = Ok e \<Longrightarrow> e \<noteq> []"
  by (auto simp: ResolveSplunkEndpoint_def mgmtURL_def Let_def split: if_splits res.splits)

lemma enriched_config:
  assumes "ValidateAndEnrichSplunkConfig gs gi ns cdom cfg resolver = (cfg', Ok ())"
  shows "sc_Endpoint cfg' \<noteq> [] \<and> sc_SecretRef cfg' = sc_SecretRef cfg"
proof (cases "sc_Endpoint cfg = []")
  case True
  then obtain e where "ResolveSplunkEndpoint gs gi ns cfg cdom = Ok e"
      "ensureToken ns (cfg\<lparr>sc_Endpoint := e\<rparr>) resolver = (cfg', Ok ())"
    using assms by (auto simp: ValidateAndEnrichSplunkConfig_def split: res.splits if_splits)
  then show ?thesis
    using resolved_endpoint by (auto simp: ensureToken_def split: res.splits)
qed (use assms in \<open>auto simp: ValidateAndEnrichSplunkConfig_def ensureToken_def split: res.splits\<close>)

lemma validate_Ok:
  assumes "validate d s = (Ok (), t)"
  shows "\<exists>cfg. sc_Endpoint cfg \<noteq> [] \<and>
    sc_SecretRef cfg = sc_SecretRef (ap_SplunkConfiguration (p_Spec (rs_cr s))) \<and>
    rs_cr t = (rs_cr s)\<lparr>p_Spec := (fillScheduling (p_Spec (rs_cr s)))\<lparr>ap_SplunkConfiguration := cfg\<rparr>\<rparr>"
proof -
  let ?p = "(rs_cr s)\<lparr>p_Spec := fillScheduling (p_Spec (rs_cr s))\<rparr>"
  have run: "enrichPlatform d (s\<lparr>rs_cr := ?p\<rparr>) = (Ok (), t)"
    using assms by (auto simp: validate_def act_Ok_iff split: if_splits)
  then obtain cfg res where "ValidateAndEnrichSplunkConfig (pd_standalones d (rs_world s)) (pd_indexers d (rs_world s))
      (plNamespace (rs_cr s)) (ap_ClusterDomain (p_Spec (rs_cr s))) (ap_SplunkConfiguration (p_Spec (rs_cr s))) res
      = (cfg, Ok ())" "t = s\<lparr>rs_cr := ?p\<lparr>p_Spec := (p_Spec ?p)\<lparr>ap_SplunkConfiguration := cfg\<rparr>\<rparr>\<rparr>"
    by (auto simp: enrichPlatform_def fillScheduling_def Let_def split: prod.splits)
  then show ?thesis
    using enriched_config by (intro exI [of _ cfg]) auto
qed

lemma built_spec_wf:
  assumes "wfObjectStorage (ap_ObjectStorage (p_Spec p))"
  shows "wfUserServiceSpec (s_Spec (buildAIService p f n)) \<longleftrightarrow>
    plName p \<noteq> [] \<and> aps_VectorDbServiceName (p_Status p) \<noteq> [] \<and>
    wfSplunk (ap_SplunkConfiguration (p_Spec p)) \<and> wfServiceMTLS (ap_MTLS (p_Spec p))"
proof -
  have "os_Path (ap_ObjectStorage (p_Spec p)) \<noteq> []"
    using assms by (auto simp: wfObjectStorage_def hasPrefix_def)
  then show ?thesis
    by (auto simp: wfUserServiceSpec_def buildAIService_def hasPrefix_def zeroServiceSpec_def zeroAIService_def)
qed

text \<open>
  C18: a platform that its own webhook admitted and whose Validate stage succeeded gives rise to an
  AIService that the AIService webhook admits exactly when the platform has found its vector store,
  names a Splunk secret, and has DNS names and an issuer of its own if it enables operator mTLS. So
  a platform that refers to a Splunk resource without naming a secret, which is admitted, has
  children that are not: validation fills in the endpoint, and an endpoint requires a secret.
\<close>

theorem built_service_admitted_iff:
  assumes "wfPlatformSpec pq (p_Spec (rs_cr s))" and "plName (rs_cr s) \<noteq> []"
    and "validate d s = (Ok (), t)"
    and "p_Spec p = p_Spec (rs_cr t)" and "p_Meta p = p_Meta (rs_cr t)"
  shows "admitted (serviceValidateCreate (ObjAIService (defaultAIService (buildAIService p f n)))) \<longleftrightarrow>
    aps_VectorDbServiceName (p_Status p) \<noteq> [] \<and>
    sr_Name (sc_SecretRef (ap_SplunkConfiguration (p_Spec (rs_cr s)))) \<noteq> [] \<and>
    wfServiceMTLS (ap_MTLS (p_Spec (rs_cr s)))"
proof -
  obtain cfg where cfg: "sc_Endpoint cfg \<noteq> []"
      "sc_SecretRef cfg = sc_SecretRef (ap_SplunkConfiguration (p_Spec (rs_cr s)))"
      "rs_cr t = (rs_cr s)\<lparr>p_Spec := (fillScheduling (p_Spec (rs_cr s)))\<lparr>ap_SplunkConfiguration := cfg\<rparr>\<rparr>"
    using validate_Ok [OF assms(3)] by blast
  have "wfObjectStorage (ap_ObjectStorage (p_Spec p))"
    using assms(1,4) cfg(3) by (simp add: wfPlatformSpec_def fillScheduling_def)
  then show ?thesis
    using built_spec_wf [of p f n] assms(2,4,5) cfg
    by (simp add: serviceCreate_admitted defaultAIService_def defaultServiceSpec_wf wfSplunk_def fillScheduling_def)
qed

section \<open>A platform that never gets ready\<close>

text \<open>The API server behind the AIService webhooks: a successful write was admitted.\<close>

definition webhookEnforced :: "('w, AIService) client \<Rightarrow> bool" where
  "webhookEnforced c \<longleftrightarrow>
     (\<forall>w k x. cGet c w k = Ok x \<longrightarrow> wfServiceSpec (s_Spec x)) \<and>
     (\<forall>w x w' y. (cCreate c w x = (w', Ok y) \<or> cUpdate c w x = (w', Ok y)) \<longrightarrow> wfUserServiceSpec (s_Spec x))"

definition secretless :: "AIPlatform \<Rightarrow> bool" where
  "secretless p \<longleftrightarrow> ap_Features (p_Spec p) \<noteq> [] \<and>
     sr_Name (sc_SecretRef (ap_SplunkConfiguration (p_Spec p))) = [] \<and>
     sc_Endpoint (ap_SplunkConfiguration (p_Spec p)) \<noteq> []"

lemma mutateService_spec: "mutateService d p f x = Ok y \<Longrightarrow> s_Spec y = s_Spec (buildAIService p f (serviceNameFor p f))"
  by (auto simp: mutateService_def bindR_Ok_iff Let_def)

lemma secretless_rejected:
  assumes "secretless p" and "mutateService d p f x = Ok y"
  shows "\<not> wfSplunk (as_SplunkConfiguration (s_Spec y))"
  using assms(1) mutateService_spec [OF assms(2)]
  by (simp add: secretless_def wfSplunk_def buildAIService_def)

lemma secretless_features_fail:
  assumes "createOrUpdateSpec svKey (pd_services d)" and enf: "webhookEnforced (pd_services d)"
    and p: "secretless (rs_cr s)"
  shows "fst (ReconcileFeatures d s) \<noteq> Ok ()"
proof
  assume "fst (ReconcileFeatures d s) = Ok ()"
  then obtain t where run: "ReconcileFeatures d s = (Ok (), t)"
    by (metis prod.collapse)
  obtain f fs where fs: "ap_Features (p_Spec (rs_cr s)) = f # fs"
    using p by (auto simp: secretless_def neq_Nil_conv)
  obtain x0 w y where up: "cCreateOrUpdate (pd_services d) (rs_world s) x0 (mutateService d (rs_cr s) f) = (w, Ok y)"
    using run fs by (auto simp: ReconcileFeatures_def upsertA_def act_Ok_iff)
  have bad: "\<not> wfUserServiceSpec (s_Spec new) \<and> \<not> wfServiceSpec (s_Spec new)"
    if "mutateService d (rs_cr s) f x = Ok new" for x new
    using secretless_rejected [OF p that] by (simp add: wfUserServiceSpec_def wfServiceSpec_def)
  from assms(1) up show False
    by (rule createOrUpdate_writes) (use bad enf [unfolded webhookEnforced_def] in \<open>blast+\<close>)
qed

text \<open>
  A view of the platform that its status does not affect is kept by every stage after Validate.
\<close>

locale platform_view =
  fixes Q :: "AIPlatform \<Rightarrow> bool"
  assumes status_free: "Q (p\<lparr>p_Status := st\<rparr>) = Q p"
begin

lemma keeps_modStatus [keeps_intros]: "keepsCR Q (modStatus f)"
  by (auto simp: modStatus_def status_free intro: keeps_intros)

lemma view_setConds [keeps_intros]: "keepsCR Q (setConds d cs)"
  by (auto simp: setConds_def status_free intro: keeps_intros)

lemma view_transition [keeps_intros]: "keepsCR Q (transition d t b up down c)"
  unfolding transition_def Let_def by (intro keeps_intros)

lemma keeps_rollup [keeps_intros]: "keepsCR Q (rollup d sn we)"
  unfolding rollup_def Let_def by (intro keeps_intros)

lemma keeps_rayTransitions [keeps_intros]: "keepsCR Q (rayTransitions d sn e)"
  unfolding rayTransitions_def Let_def by (intro keeps_intros)

lemma keeps_rayErrorEvents [keeps_intros]: "keepsCR Q (rayErrorEvents d e)"
  unfolding rayErrorEvents_def Let_def by (auto intro!: keeps_intros split: option.split)

lemma keeps_snapshotFailed: "keepsCR Q (snapshotFailed d e)"
  unfolding snapshotFailed_def Let_def by (intro keeps_intros)

lemma keeps_builder:
  fixes d :: "'w rayDeps"
  shows "keepsCR Q (BuilderApplyConditions d)"
  unfolding keepsCR_def
proof (intro allI impI)
  fix s :: "('w, AIPlatform) rstate" and r t
  assume Q: "Q (rs_cr s)" and run: "BuilderApplyConditions d s = (r, t)"
  let ?reads = "rd_reads d (rs_world s)" and ?p = "rs_cr s"
  have rest: "keepsCR Q (thenA (rayErrorEvents d e)
      (thenA (modCR (\<lambda>p. p\<lparr>p_Status := recordSnapshot sn (p_Status p)\<rparr>))
      (thenA (rayTransitions d sn e) (bindA (liftA q) (rollup d sn)))))" for e sn q
    by (intro keeps_intros) (simp add: status_free)
  show "Q (rs_cr t)"
  proof (cases "CollectRaySnapshot ?reads (plNamespace ?p) (plName ?p)")
    case (Ok sn)
    show ?thesis
    proof (cases "ExtractRayErrors (firstEntry d 0) ?reads (plNamespace ?p) (plName ?p)")
      case ok: (Ok e)
      show ?thesis
        by (rule keepsCR_D [OF rest Q, of e sn]) (use run Ok ok in \<open>simp add: BuilderApplyConditions_def Let_def\<close>)
    qed (use run Ok Q in \<open>simp_all add: BuilderApplyConditions_def Let_def\<close>)
  next
    case (Err e)
    show ?thesis
      by (rule keepsCR_D [OF keeps_snapshotFailed Q]) (use run Err in \<open>simp add: BuilderApplyConditions_def Let_def\<close>)
  qed (use run Q in \<open>simp add: BuilderApplyConditions_def Let_def\<close>)
qed

lemma keeps_ingressStatus [keeps_intros]: "keepsCR Q (UpdateIngressStatus d)"
  unfolding UpdateIngressStatus_def by (auto intro!: keeps_intros split: option.split)

lemma view_ingress: "keepsCR Q (ReconcileIngress d)"
  unfolding ReconcileIngress_def Let_def by (auto intro!: keeps_intros split: option.split)

lemma keeps_weaviateStatus: "keepsCR Q (ReconcileWeaviateDatabaseStatus d)"
  unfolding ReconcileWeaviateDatabaseStatus_def Let_def by (auto intro!: keeps_intros split: option.split)

lemma keeps_writeServices [keeps_intros]: "keepsCR Q (writeServices d p fs)"
  by (induction fs) (auto intro!: keeps_intros)

lemma keeps_pruneServices [keeps_intros]: "keepsCR Q (pruneServices d names cs)"
  by (induction cs) (auto intro!: keeps_intros)

lemma keeps_listChildren [keeps_intros]: "keepsCR Q (listChildren d p)"
  unfolding listChildren_def by (intro keeps_intros)

lemma keeps_features: "keepsCR Q (ReconcileFeatures d)"
  unfolding ReconcileFeatures_def by (intro keeps_intros)

lemma keeps_check: "keepsCR Q (CheckAIServiceStatus d)"
  unfolding CheckAIServiceStatus_def by (auto intro!: keeps_intros split: option.split)

lemma keeps_stages:
  assumes "retryDocs (rd_retry (pd_ray d))" and "st \<in> set (tl (platformStages d))"
  shows "keepsCR Q (snd st)"
  using assms keeps_sidecars keeps_rbac keeps_rayService keeps_weaviate view_ingress keeps_builder keeps_weaviateStatus
    keeps_ingressStatus keeps_features keeps_check
  by (auto simp: platformStages_def)

end

interpretation secretless_kept: platform_view secretless
  by unfold_locales (simp add: secretless_def)

text \<open>
  A stage that cannot succeed in the platforms of a view that every earlier stage keeps: the run
  fails, and neither that stage nor a later one is reported True.
\<close>

lemma platform_run_blocked:
  assumes run: "PlatformReconcile d clock s = (r, t)"
    and names: "platformStages d = (''Validate'', validate d) # pre @ (n, m) # post"
    and keeps: "\<And>st. st \<in> set (pre @ [(n, m)]) \<Longrightarrow> keepsCR Q (snd st)"
    and valid: "\<And>u. validate d s = (Ok (), u) \<Longrightarrow> Q (rs_cr u)"
    and fails: "\<And>u. Q (rs_cr u) \<Longrightarrow> fst (m u) \<noteq> Ok ()"
  shows "r \<noteq> Ok () \<and> (\<exists>cs u. t = publishPlatform (pd_platforms d) cs u \<and>
    (\<forall>i \<in> {Suc (length pre)..<11}. \<not> IsConditionTrue cs (platformStageNames ! i @ ''Ready'')))"
proof -
  obtain cs u where u: "runStages clock (platformStages d) [] s = (r, cs, u)"
      "t = publishPlatform (pd_platforms d) cs u"
    using run by (auto simp: PlatformReconcile_def split: prod.splits)
  have report: "stageReport clock platformStageNames r cs"
    using runStages_report [OF u(1)] by (simp add: stage_simps)
  obtain q v where q: "validate d s = (q, v)" by fastforce
  have blocked: "r \<noteq> Ok () \<and> length cs \<le> Suc (Suc (length pre)) \<and> (\<forall>p. r = Panic p \<longrightarrow> length cs \<le> Suc (length pre))"
  proof (cases q)
    case (Ok x)
    then have rest: "runStages clock (pre @ (n, m) # post) [stageCond (clock 0) ''Validate'' None] v = (r, cs, u)"
      using u q names by simp
    have "Q (rs_cr v)"
      using valid q Ok by simp
    moreover have "keepsCR Q m" "\<And>st. st \<in> set pre \<Longrightarrow> keepsCR Q (snd st)"
      using keeps [of "(n, m)"] keeps by simp_all
    ultimately show ?thesis
      using runStages_blocked [OF rest, of Q] fails by auto
  qed (use u q names in auto)
  have "\<not> IsConditionTrue cs (platformStageNames ! i @ ''Ready'')" if "i \<in> {Suc (length pre)..<11}" for i
    using platform_stages.report_true_iff [OF report, of i] that blocked
    by (cases r) (auto simp: platformStageNames_def)
  then show ?thesis
    using blocked u(2) by blast
qed

text \<open>
  C19: such a platform, with at least one feature, never gets ready: behind the webhooks of both
  kinds no reconcile of it returns without error.
\<close>

theorem secretless_never_ready:
  assumes "createOrUpdateSpec svKey (pd_services d)" and "webhookEnforced (pd_services d)"
    and retry: "retryDocs (rd_retry (pd_ray d))"
    and "ap_Features (p_Spec (rs_cr s)) \<noteq> []"
    and "sr_Name (sc_SecretRef (ap_SplunkConfiguration (p_Spec (rs_cr s)))) = []"
    and run: "PlatformReconcile d clock s = (r, t)"
  shows "r \<noteq> Ok ()"
proof (rule conjunct1 [OF platform_run_blocked [OF run, where Q = secretless]])
  show "platformStages d = (''Validate'', validate d) # take 8 (tl (platformStages d)) @
      (''AIService'', ReconcileFeatures d) # [(''AIServiceStatus'', CheckAIServiceStatus d)]"
    by (simp add: platformStages_def)
  show "keepsCR secretless (snd st)"
    if "st \<in> set (take 8 (tl (platformStages d)) @ [(''AIService'', ReconcileFeatures d)])" for st
    by (rule secretless_kept.keeps_stages [OF retry]) (use that in \<open>auto simp: platformStages_def\<close>)
  show "secretless (rs_cr u)" if "validate d s = (Ok (), u)" for u
    using validate_Ok [OF that] assms(4,5) by (auto simp: secretless_def fillScheduling_def)
  show "fst (ReconcileFeatures d u) \<noteq> Ok ()" if "secretless (rs_cr u)" for u
    using secretless_features_fail [OF assms(1,2) that] .
qed


definition unconfigured :: "string \<Rightarrow> AIPlatform \<Rightarrow> bool" where
  "unconfigured accel p \<longleftrightarrow>
     ap_WorkerGroupConfig (p_Spec p) = None \<and> ap_DefaultAcceleratorType (p_Spec p) = accel"

interpretation unconfigured_kept: platform_view "unconfigured accel" for accel
  by unfold_locales (simp add: unconfigured_def)

lemma unconfigured_ray_fails:
  assumes "unconfigured accel (rs_cr u)" and "readInstances d = Ok m" "instancesFor m accel \<noteq> []"
  shows "fst (ReconcileRayService d u) \<noteq> Ok ()"
proof
  assume "fst (ReconcileRayService d u) = Ok ()"
  then obtain t where "ReconcileRayService d u = (Ok (), t)"
    by (metis prod.collapse)
  then obtain c where "buildClusterConfig d (rs_cr u) = Ok c"
    by (auto simp: ReconcileRayService_def Build_def act_Ok_iff bindR_Ok_iff)
  then show False
    using unconfigured_workers [of "rs_cr u" d m c] assms by (simp add: unconfigured_def)
qed

text \<open>
  C29: the optional worker group configuration is not optional: for a platform without one whose
  default accelerator has a configured instance no reconcile returns without error, and in the
  conditions that the run reports neither the Ray stage nor any later one, up to the status of the
  AIServices, is True.
\<close>

theorem worker_config_required:
  assumes "ap_WorkerGroupConfig (p_Spec (rs_cr s)) = None"
    and insts: "readInstances (pd_ray d) = Ok m" "instancesFor m (ap_DefaultAcceleratorType (p_Spec (rs_cr s))) \<noteq> []"
    and retry: "retryDocs (rd_retry (pd_ray d))"
    and run: "PlatformReconcile d clock s = (r, t)"
  shows "r \<noteq> Ok () \<and> (\<exists>cs u. t = publishPlatform (pd_platforms d) cs u \<and>
    (\<forall>i \<in> {3..<11}. \<not> IsConditionTrue cs (platformStageNames ! i @ ''Ready'')))"
proof -
  let ?Q = "unconfigured (ap_DefaultAcceleratorType (p_Spec (rs_cr s)))"
  let ?pre = "take 2 (tl (platformStages d))"
  have names: "platformStages d = (''Validate'', validate d) # ?pre @
      (''RayService'', ReconcileRayService (pd_ray d)) # drop 4 (platformStages d)"
    by (simp add: platformStages_def)
  have keeps: "keepsCR ?Q (snd st)"
    if "st \<in> set (?pre @ [(''RayService'', ReconcileRayService (pd_ray d))])" for st
    by (rule unconfigured_kept.keeps_stages [OF retry]) (use that in \<open>auto simp: platformStages_def\<close>)
  have valid: "?Q (rs_cr u)" if "validate d s = (Ok (), u)" for u
    using validate_Ok [OF that] assms(1) by (auto simp: unconfigured_def fillScheduling_def)
  have "length ?pre = 2"
    by (simp add: platformStages_def)
  then show ?thesis
    using platform_run_blocked [OF run names keeps valid unconfigured_ray_fails [OF _ insts]] by simp
qed


section \<open>The feature stage\<close>

text \<open>
  By the client's documentation a call touches the object it names: other keys read as before, and
  after a delete that succeeded or found nothing the object is gone or waits for its finalizers.
\<close>

definition keyFrame :: "('o \<Rightarrow> nname) \<Rightarrow> ('w, 'o) client \<Rightarrow> bool" where
  "keyFrame key c \<longleftrightarrow>
     (\<forall>w x w' q k. k \<noteq> key x \<longrightarrow> (cCreate c w x = (w', q) \<or> cUpdate c w x = (w', q)) \<longrightarrow>
        cGet c w' k = cGet c w k)"

definition goneAt :: "('w, AIService) client \<Rightarrow> 'w \<Rightarrow> nname \<Rightarrow> bool" where
  "goneAt c w k \<longleftrightarrow> (\<forall>x. cGet c w k = Ok x \<longrightarrow> om_DeletionTimestamp (s_Meta x) \<noteq> None)"

definition deleteDocs :: "('w, AIService) client \<Rightarrow> bool" where
  "deleteDocs c \<longleftrightarrow>
     (\<forall>w k w' q. cDelete c w k = (w', q) \<longrightarrow>
        (\<forall>j. j \<noteq> k \<longrightarrow> cGet c w' j = cGet c w j) \<and>
        (q = Ok () \<or> (\<exists>e. q = Err e \<and> isNotFound e) \<longrightarrow> goneAt c w' k))"

lemma keyFrameD:
  assumes "keyFrame key c" and "k \<noteq> key x"
  shows "cCreate c w x = (w', q) \<Longrightarrow> cGet c w' k = cGet c w k"
    and "cUpdate c w x = (w', q) \<Longrightarrow> cGet c w' k = cGet c w k"
  using assms unfolding keyFrame_def by blast+

lemma createOrUpdate_frame:
  assumes docs: "clientDocs key u c" and frame: "keyFrame key c"
    and keep: "\<And>x y. f x = Ok y \<Longrightarrow> key y = key x"
    and run: "cCreateOrUpdate c w o1 f = (w', Ok y)" and k: "k \<noteq> key o1"
  shows "cGet c w' k = cGet c w k"
proof (cases "cGet c w (key o1)")
  case (Ok cur)
  have cur: "key cur = key o1" using clientDocs_get [OF docs Ok] .
  obtain new where new: "f cur = Ok new" and
    res: "(if new = cur then (w, Ok cur) else cUpdate c w new) = (w', Ok y)"
    using run Ok docs by (auto simp: clientDocs_def createOrUpdateSpec_def split: res.splits)
  then show ?thesis
    using keyFrameD(2) [OF frame, of k new w w'] keep [OF new] cur k by (auto split: if_splits)
next
  case (Err e)
  obtain new where new: "f o1 = Ok new" and res: "cCreate c w new = (w', Ok y)"
    using run Err docs by (auto simp: clientDocs_def createOrUpdateSpec_def split: res.splits if_splits)
  show ?thesis
    using keyFrameD(1) [OF frame _ res] keep [OF new] k by simp
qed (use run docs in \<open>auto simp: clientDocs_def createOrUpdateSpec_def\<close>)

abbreviation childKey :: "AIPlatform \<Rightarrow> FeatureSpec \<Rightarrow> nname" where
  "childKey p f \<equiv> (plNamespace p, serviceNameFor p f)"

lemma childKey_eq: "childKey p f = childKey p g \<longleftrightarrow> fs_Name f = fs_Name g"
  by (simp add: serviceNameFor_def)

lemma mutateService_key:
  assumes "setOwnerDocs (pd_setRef d)" and "mutateService d p f x = Ok y"
  shows "svKey y = svKey x"
  using assms(2) setOwnerDocsD(1) [OF assms(1)]
  by (fastforce simp: mutateService_def bindR_Ok_iff svKey_def metaKey_def Let_def)

text \<open>
  What the API server makes of the spec that it is sent: the defaults of the resource's schema (the
  \<open>+kubebuilder:default\<close> markers of the type, each for a field that was left empty), then the
  defaulting webhook. What is read has the schema's defaults, also when it is older than they are.
\<close>

definition crdDefaults :: "AIServiceSpec \<Rightarrow> AIServiceSpec" where
  "crdDefaults s = s\<lparr>
     as_Replicas := (if as_Replicas s = 0 then 1 else as_Replicas s),
     as_Port := (if as_Port s = 0 then 80 else as_Port s),
     as_Metrics := (as_Metrics s)\<lparr>
       mc_Path := (if mc_Path (as_Metrics s) = [] then ''/metrics'' else mc_Path (as_Metrics s)),
       mc_Port := (if mc_Port (as_Metrics s) = 0 then 9090 else mc_Port (as_Metrics s))\<rparr>,
     as_MTLS := (as_MTLS s)\<lparr>
       mt_Termination := (if mt_Termination (as_MTLS s) = [] then ''operator'' else mt_Termination (as_MTLS s))\<rparr>,
     as_ClusterDomain := (if as_ClusterDomain s = [] then ''cluster.local'' else as_ClusterDomain s)\<rparr>"

definition specDefaulted :: "('w, AIService) client \<Rightarrow> bool" where
  "specDefaulted c \<longleftrightarrow>
     (\<forall>w k x. cGet c w k = Ok x \<longrightarrow> crdDefaults (s_Spec x) = s_Spec x) \<and>
     (\<forall>w x w' y. (cCreate c w x = (w', Ok y) \<or> cUpdate c w x = (w', Ok y)) \<longrightarrow>
        as_ServiceTemplate (s_Spec x) = zeroService \<longrightarrow>
        s_Spec y = defaultServiceSpec (crdDefaults (s_Spec x)))"

text \<open>What a stored AIService has of its platform and feature, and what the server fills in.\<close>

definition servesFeature :: "AIPlatform \<Rightarrow> FeatureSpec \<Rightarrow> AIService \<Rightarrow> bool" where
  "servesFeature p f x \<longleftrightarrow>
     as_Feature (s_Spec x) = f \<and> as_Version (s_Spec x) = fs_Version f \<and>
     ref_Kind (as_AIPlatformRef (s_Spec x)) = ''AIPlatform'' \<and>
     ref_Name (as_AIPlatformRef (s_Spec x)) = plName p \<and>
     ref_Namespace (as_AIPlatformRef (s_Spec x)) = plNamespace p \<and>
     as_ServiceAccountName (s_Spec x) = fs_ServiceAccountName f \<and>
     as_TaskVolume (s_Spec x) = ap_ObjectStorage (p_Spec p) \<and>
     as_SplunkConfiguration (s_Spec x) = ap_SplunkConfiguration (p_Spec p) \<and>
     as_VectorDbUrl (s_Spec x) = aps_VectorDbServiceName (p_Status p) \<and>
     as_Replicas (s_Spec x) = 1 \<and>
     as_Metrics (s_Spec x) = \<lparr>mc_Enabled = True, mc_Path = ''/metrics'', mc_Port = 8080\<rparr> \<and>
     as_ImagePullSecrets (s_Spec x) = im_ImagePullSecrets (ap_Images (p_Spec p)) \<and>
     as_MTLS (s_Spec x) = (ap_MTLS (p_Spec p))\<lparr>mt_Termination :=
       (if mt_Termination (ap_MTLS (p_Spec p)) = [] then ''operator'' else mt_Termination (ap_MTLS (p_Spec p)))\<rparr> \<and>
     as_Port (s_Spec x) = 80 \<and> as_ClusterDomain (s_Spec x) = ''cluster.local'' \<and>
     fmlookup (entries (om_Labels (s_Meta x))) ''feature'' = Some (fs_Name f) \<and>
     fmlookup (entries (om_Labels (s_Meta x))) ''aiplatform'' = Some (plName p)"

lemma mutateService_sent:
  assumes "mutateService d p f x = Ok y"
  shows "as_ServiceTemplate (s_Spec y) = zeroService \<and> crdDefaults (s_Spec y) \<noteq> s_Spec y \<and>
    (s_Spec z = defaultServiceSpec (crdDefaults (s_Spec y)) \<and> om_Labels (s_Meta z) = om_Labels (s_Meta y) \<longrightarrow>
       servesFeature p f z)"
proof -
  have spec: "s_Spec y = s_Spec (buildAIService p f (serviceNameFor p f))"
    using mutateService_spec [OF assms] .
  have labels: "fmlookup (entries (om_Labels (s_Meta y))) ''feature'' = Some (fs_Name f)"
    "fmlookup (entries (om_Labels (s_Meta y))) ''aiplatform'' = Some (plName p)"
    using assms by (auto simp: mutateService_def bindR_Ok_iff buildAIService_def overlay_lookup fmlookup_of_list Let_def)
  have port: "as_Port (s_Spec y) = 0" "as_Port (crdDefaults (s_Spec y)) = 80"
    by (simp_all add: spec buildAIService_def crdDefaults_def zero_defs)
  then have "crdDefaults (s_Spec y) \<noteq> s_Spec y"
    by force
  moreover have "as_ServiceTemplate (s_Spec y) = zeroService"
    by (simp add: spec buildAIService_def zeroServiceSpec_def zeroAIService_def)
  moreover have "servesFeature p f z"
    if "s_Spec z = defaultServiceSpec (crdDefaults (s_Spec y))" "om_Labels (s_Meta z) = om_Labels (s_Meta y)"
    unfolding servesFeature_def that spec
    using labels by (simp add: buildAIService_def crdDefaults_def defaultServiceSpec_def defaultMetrics_def
        defaultTermination_def zeroServiceSpec_def)
  ultimately show ?thesis by blast
qed

text \<open>
  The result of writing a child: the callback never finds the object as it is, since it empties what
  the schema fills, so the server takes the object and defaults it.
\<close>

lemma upsert_serves:
  assumes docs: "clientDocs svKey (\<lambda>x. om_Labels (s_Meta x)) c" and srv: "specDefaulted c"
    and own: "setOwnerDocs (pd_setRef d)"
    and up: "cCreateOrUpdate c w x (mutateService d p f) = (w', Ok y)"
  shows "cGet c w' (svKey x) = Ok y \<and> servesFeature p f y"
proof -
  have keep: "mutateService d p f a = Ok b \<Longrightarrow> svKey b = svKey a" for a b
    by (rule mutateService_key [OF own])
  obtain start z where z: "mutateService d p f start = Ok z" "cGet c w' (svKey x) = Ok y"
      "om_Labels (s_Meta y) = om_Labels (s_Meta z)"
    using createOrUpdate_result [OF docs keep up] by metis
  from docs have spec: "createOrUpdateSpec svKey c"
    by (simp add: clientDocs_def)
  from spec up obtain st new where new: "mutateService d p f st = Ok new"
      "cCreate c w new = (w', Ok y) \<or> cUpdate c w new = (w', Ok y)"
  proof (rule createOrUpdate_writes)
    fix cur
    assume "mutateService d p f cur = Ok cur" "cGet c w (svKey x) = Ok cur"
    then have False
      using mutateService_sent [of d p f cur cur] srv unfolding specDefaulted_def by blast
    then show ?thesis ..
  qed
  have "om_Labels (s_Meta y) = om_Labels (s_Meta new)"
    using docs new(2) unfolding clientDocs_def writeVisible_def by blast
  moreover have "s_Spec y = defaultServiceSpec (crdDefaults (s_Spec new))"
    using srv new mutateService_sent [OF new(1)] unfolding specDefaulted_def by blast
  ultimately show ?thesis
    using mutateService_sent [OF new(1), of y] z(2) by blast
qed

lemma writeServices_effect:
  assumes docs: "clientDocs svKey (\<lambda>x. om_Labels (s_Meta x)) (pd_services d)"
    and srv: "specDefaulted (pd_services d)"
    and frame: "keyFrame svKey (pd_services d)" and own: "setOwnerDocs (pd_setRef d)"
    and "writeServices d p fs s = (Ok (), t)" and "distinct (map fs_Name fs)"
  shows "rs_cr t = rs_cr s \<and>
    (\<forall>f \<in> set fs. \<exists>x. cGet (pd_services d) (rs_world t) (childKey p f) = Ok x \<and> servesFeature p f x) \<and>
    (\<forall>k. k \<notin> childKey p ` set fs \<longrightarrow> cGet (pd_services d) (rs_world t) k = cGet (pd_services d) (rs_world s) k)"
  using assms(5,6)
proof (induction fs arbitrary: s)
  case (Cons f fs)
  let ?c = "pd_services d"
  let ?new = "zeroAIService\<lparr>s_Meta := newMeta (serviceNameFor p f) (plNamespace p)\<rparr>"
  obtain w y where up: "cCreateOrUpdate ?c (rs_world s) ?new (mutateService d p f) = (w, Ok y)"
    and rest: "writeServices d p fs (s\<lparr>rs_world := w\<rparr>) = (Ok (), t)"
    using Cons.prems(1) by (auto simp: upsertA_def act_Ok_iff)
  have key: "svKey ?new = childKey p f"
    by (simp add: svKey_def metaKey_def)
  have written: "cGet ?c w (childKey p f) = Ok y" and serves: "servesFeature p f y"
    using upsert_serves [OF docs srv own up] key by simp_all
  have others: "cGet ?c w k = cGet ?c (rs_world s) k" if "k \<noteq> childKey p f" for k
    using createOrUpdate_frame [OF docs frame mutateService_key [OF own] up] that key by simp
  have IH: "rs_cr t = rs_cr s"
    "\<forall>g \<in> set fs. \<exists>x. cGet ?c (rs_world t) (childKey p g) = Ok x \<and> servesFeature p g x"
    "\<And>k. k \<notin> childKey p ` set fs \<Longrightarrow> cGet ?c (rs_world t) k = cGet ?c w k"
    using Cons.IH [OF rest] Cons.prems(2) by (simp_all del: split_paired_All)
  have "childKey p f \<notin> childKey p ` set fs"
    using Cons.prems(2) by (auto simp: serviceNameFor_def)
  then have "cGet ?c (rs_world t) (childKey p f) = Ok y"
    using IH(3) written by simp
  then show ?case
    using IH serves others by simp
qed (simp add: retA_def)

lemma goneAt_keep:
  assumes "deleteDocs c" and "cDelete c w k = (w', q)" and "goneAt c w j"
    and "q = Ok () \<or> (\<exists>e. q = Err e \<and> isNotFound e)"
  shows "goneAt c w' j"
proof (cases "j = k")
  case True
  then show ?thesis using assms unfolding deleteDocs_def by blast
next
  case False
  then have "cGet c w' j = cGet c w j"
    using assms(1,2) unfolding deleteDocs_def by blast
  then show ?thesis using assms(3) by (simp add: goneAt_def)
qed

lemma pruneServices_effect:
  assumes docs: "deleteDocs (pd_services d)" and "pruneServices d desired cs s = (Ok (), t)"
  shows "rs_cr t = rs_cr s \<and>
    (\<forall>x \<in> set cs. om_Name (s_Meta x) \<notin> set desired \<longrightarrow> goneAt (pd_services d) (rs_world t) (svKey x)) \<and>
    (\<forall>k. goneAt (pd_services d) (rs_world s) k \<longrightarrow> goneAt (pd_services d) (rs_world t) k) \<and>
    (\<forall>k. snd k \<in> set desired \<longrightarrow> cGet (pd_services d) (rs_world t) k = cGet (pd_services d) (rs_world s) k)"
  using assms(2)
proof (induction cs arbitrary: s)
  case (Cons x cs)
  let ?c = "pd_services d"
  show ?case
  proof (cases "om_Name (s_Meta x) \<in> set desired")
    case True
    then show ?thesis using Cons by simp
  next
    case False
    obtain w q where q: "cDelete ?c (rs_world s) (svKey x) = (w, q)"
      by fastforce
    have ok: "q = Ok () \<or> (\<exists>e. q = Err e \<and> isNotFound e)"
      and rest: "pruneServices d desired cs (s\<lparr>rs_world := w\<rparr>) = (Ok (), t)"
      using Cons.prems q False
      by (cases q; auto simp: svKey_def tryA_def callA_def panicA_def failA_def split: if_splits)+
    have here: "goneAt ?c w (svKey x)" "\<And>j. j \<noteq> svKey x \<Longrightarrow> cGet ?c w j = cGet ?c (rs_world s) j"
      using docs q ok unfolding deleteDocs_def by blast+
    have "snd k \<in> set desired \<Longrightarrow> k \<noteq> svKey x" for k
      using False by (auto simp: svKey_def metaKey_def)
    then show ?thesis
      using Cons.IH [OF rest] here goneAt_keep [OF docs q _ ok] False
      by (auto simp del: split_paired_All)
  qed
qed (simp add: retA_def)

text \<open>
  C10: when the feature stage succeeds, every feature of the platform is served by an AIService under
  its name, as the API server stores it, with the defaults of the resource's schema and of the webhook:
  feature, version, reference to the platform, service account, storage, Splunk configuration,
  vector store, replicas, metrics, pull secrets and mTLS are those of the platform and the feature,
  the defaulted port, cluster domain and termination are filled in, and the labels name both. And of
  the platform's children that were listed after the writes, every one that no feature names any
  more is gone, or marked for deletion.
\<close>

theorem features_converge:
  assumes docs: "clientDocs svKey (\<lambda>x. om_Labels (s_Meta x)) (pd_services d)"
    and srv: "specDefaulted (pd_services d)"
    and frame: "keyFrame svKey (pd_services d)" and dels: "deleteDocs (pd_services d)"
    and own: "setOwnerDocs (pd_setRef d)"
    and run: "ReconcileFeatures d s = (Ok (), t)"
  defines "p \<equiv> rs_cr s"
  assumes "distinct (map fs_Name (ap_Features (p_Spec p)))"
  shows "rs_cr t = p \<and>
    (\<forall>f \<in> set (ap_Features (p_Spec p)).
       \<exists>x. cGet (pd_services d) (rs_world t) (childKey p f) = Ok x \<and> servesFeature p f x) \<and>
    (\<exists>u children. writeServices d p (ap_Features (p_Spec p)) s = (Ok (), u) \<and>
       listChildren d p u = (Ok children, u) \<and>
       (\<forall>x \<in> set children. om_Name (s_Meta x) \<notin> serviceNameFor p ` set (ap_Features (p_Spec p)) \<longrightarrow>
          goneAt (pd_services d) (rs_world t) (svKey x)))"
proof -
  let ?fs = "ap_Features (p_Spec p)"
  obtain u children where u: "writeServices d p ?fs s = (Ok (), u)"
    and list: "listChildren d p u = (Ok children, u)"
    and prune: "pruneServices d (map (serviceNameFor p) ?fs) children u = (Ok (), t)"
    using run by (auto simp: ReconcileFeatures_def p_def listChildren_def act_Ok_iff)
  show ?thesis
    using writeServices_effect [OF docs srv frame own u assms(8)] pruneServices_effect [OF dels prune] u list
    by (intro conjI exI [of _ u] exI [of _ children]) (simp_all add: p_def)
qed

section \<open>Two writers of one object\<close>

lemma account_stage_sets:
  assumes vis: "writeVisible svKey s_Spec (sa_services d)" and run: "reconcileServiceAccount d s = (Ok (), t)"
  shows "as_ServiceAccountName (s_Spec (rs_cr t)) \<noteq> []"
proof (cases "as_ServiceAccountName (s_Spec (rs_cr s)) = []")
  case False
  then show ?thesis
    using run by (auto simp: reconcileServiceAccount_def act_Ok_iff whenA_def)
next
  case True
  let ?x = "(rs_cr s)\<lparr>s_Spec := (s_Spec (rs_cr s))\<lparr>
      as_ServiceTemplate := cleanServiceTemplate (as_ServiceTemplate (s_Spec (rs_cr s))),
      as_ServiceAccountName := om_Name (s_Meta (rs_cr s)) @ ''-sa''\<rparr>\<rparr>"
  obtain w y where y: "cUpdate (sa_services d) (rs_world s) ?x = (w, Ok y)" "rs_cr t = y"
    using run True
    by (auto simp: reconcileServiceAccount_def updateSelf_def call_defs modSpec_def act_Ok_iff whenA_def)
  show ?thesis
    using writeVisibleD(3) [OF vis] y by fastforce
qed

text \<open>
  C31: for a feature that names no service account, the platform and the SAIA reconciler never
  settle: the AIService that SAIA's service account stage leaves is one that the platform's next
  reconcile changes, and the AIService that the platform writes is one that SAIA's stage changes
  or fails on.
\<close>

theorem service_account_tug_of_war:
  assumes vis: "writeVisible svKey s_Spec (sa_services sd)" and f: "fs_ServiceAccountName f = []"
  shows "(reconcileServiceAccount sd s = (Ok (), t) \<longrightarrow> mutateService d p f (rs_cr t) \<noteq> Ok (rs_cr t)) \<and>
    (mutateService d p f x = Ok y \<and> rs_cr s = y \<longrightarrow> reconcileServiceAccount sd s \<noteq> (Ok (), s))"
proof -
  have "as_ServiceAccountName (s_Spec y) = []" if "mutateService d p f x = Ok y" for x y
    using mutateService_spec [OF that] f by (simp add: buildAIService_def)
  then show ?thesis
    using account_stage_sets [OF vis] by metis
qed

section \<open>Who waits for whom\<close>

lemma first_eight:
  assumes "stageReport clock platformStageNames r cs"
  shows "(\<forall>i < 8. IsConditionTrue cs (platformStageNames ! i @ ''Ready'')) \<longleftrightarrow>
    IsConditionTrue cs ''RayServiceStatusReady'' \<and> IsConditionTrue cs ''WeaviateDatabaseStatusReady''"
proof -
  have names: "length platformStageNames = 11" "platformStageNames ! 6 = ''RayServiceStatus''"
    "platformStageNames ! 7 = ''WeaviateDatabaseStatus''"
    by (simp_all add: platformStageNames_def)
  have iff: "IsConditionTrue cs (platformStageNames ! i @ ''Ready'') \<longleftrightarrow>
     (r = Ok () \<or> (case r of Panic p \<Rightarrow> i < length cs | _ \<Rightarrow> Suc i < length cs))" if "i < 11" for i
    using platform_stages.report_true_iff [OF assms, of i] that names(1) by simp
  have "IsConditionTrue cs (platformStageNames ! i @ ''Ready'')"
    if "IsConditionTrue cs (platformStageNames ! 7 @ ''Ready'')" "i < 8" for i
    using that iff [of 7] iff [of i] by (cases r) auto
  moreover have "(6::nat) < 8" "(7::nat) < 8"
    by simp_all
  ultimately have "(\<forall>i < 8. IsConditionTrue cs (platformStageNames ! i @ ''Ready'')) \<longleftrightarrow>
      IsConditionTrue cs (platformStageNames ! 6 @ ''Ready'') \<and> IsConditionTrue cs (platformStageNames ! 7 @ ''Ready'')"
    by blast
  then show ?thesis
    by (simp add: names)
qed

text \<open>
  C27: what an AIService waits for is the platform's first eight stages and the two service names,
  whatever the rest of the platform's run did: a platform held up in its ninth stage or later, in
  particular by a child that has not succeeded yet, does not hold up its children.
\<close>

theorem saia_gate_iff:
  assumes "stageReport clock platformStageNames r (aps_Conditions (p_Status p))"
  shows "validateAIPlatformReady p = Ok () \<and> validateVectorDatabaseReady p = Ok () \<longleftrightarrow>
    aps_RayServiceName (p_Status p) \<noteq> [] \<and> aps_VectorDbServiceName (p_Status p) \<noteq> [] \<and>
    (\<forall>i < 8. IsConditionTrue (aps_Conditions (p_Status p)) (platformStageNames ! i @ ''Ready''))"
  by (auto simp: first_eight [OF assms] validateAIPlatformReady_def validateVectorDatabaseReady_def)

section \<open>Weaviate\<close>

text \<open>Writes of one kind of object leave the reads of another kind.\<close>

definition kindsApart :: "('w, 'a) client \<Rightarrow> ('w, 'b) client \<Rightarrow> bool" where
  "kindsApart c e \<longleftrightarrow> (\<forall>w x f w' q k. cCreateOrUpdate c w x f = (w', q) \<longrightarrow> cGet e w' k = cGet e w k)"

lemma kindsApartD: "kindsApart c e \<Longrightarrow> cCreateOrUpdate c w x f = (w', q) \<Longrightarrow> cGet e w' k = cGet e w k"
  unfolding kindsApart_def by blast

lemma mutateWeaviate_Ok:
  assumes "mutateWeaviate d p img x = Ok y"
  shows "stsKey y = stsKey x \<and> sf_Replicas y = Some 1 \<and>
    pt_Labels (sf_Template y) = Some (fmap_of_list [(''app'', weaviateName p)]) \<and>
    ps_Containers (pt_Spec (sf_Template y)) = [weaviateContainer img] \<and>
    (if om_UID (sf_Meta x) = []
     then sf_Selector y = pt_Labels (sf_Template y) \<and> sf_ServiceName y = weaviateName p \<and>
       (sf_Claims y = [] \<longleftrightarrow> vs_PVCName (st_VectorDB (ap_Storage (p_Spec p))) \<noteq> [])
     else sf_Selector y = sf_Selector x \<and> sf_ServiceName y = sf_ServiceName x \<and> sf_Claims y = sf_Claims x) \<and>
    (vs_PVCName (st_VectorDB (ap_Storage (p_Spec p))) \<noteq> [] \<longrightarrow>
       ps_Volumes (pt_Spec (sf_Template y)) =
         [\<lparr>vo_Name = ''weaviate-data'', vo_Source = VolClaim (vs_PVCName (st_VectorDB (ap_Storage (p_Spec p))))\<rparr>])"
proof -
  obtain sched claims where sched: "ap_CPUSchedulingSpec (p_Spec p) = Some sched"
    and claims: "weaviateClaim d (st_VectorDB (ap_Storage (p_Spec p))) = Ok claims"
    and y: "y = x\<lparr>sf_Selector := (if om_UID (sf_Meta x) = [] then Some (fmap_of_list [(''app'', weaviateName p)]) else sf_Selector x),
                 sf_ServiceName := (if om_UID (sf_Meta x) = [] then weaviateName p else sf_ServiceName x),
                 sf_Replicas := Some 1, sf_Template := weaviatePod p img sched (sf_Template x),
                 sf_Claims := (if om_UID (sf_Meta x) = [] then claims else sf_Claims x)\<rparr>"
    using assms by (auto simp: mutateWeaviate_def bindR_Ok_iff Let_def split: option.splits)
  have "claims = [] \<longleftrightarrow> vs_PVCName (st_VectorDB (ap_Storage (p_Spec p))) \<noteq> []"
    using claims by (auto simp: weaviateClaim_def Let_def split: if_splits)
  then show ?thesis
    by (simp add: y stsKey_def weaviatePod_def Let_def)
qed

lemma weaviate_stored:
  assumes docs: "clientDocs stsKey u (pd_statefulsets d)" and own: "setOwnerDocs (pd_setRef d)"
    and apart: "kindsApart (pd_accounts d) (pd_statefulsets d)" "kindsApart (pd_svcs d) (pd_statefulsets d)"
    and run: "ReconcileWeaviateDatabase d s = (Ok (), t)"
  defines "p \<equiv> rs_cr s" and "c \<equiv> pd_statefulsets d"
  defines "k \<equiv> (plNamespace p, weaviateName p)"
  obtains start new y where "mutateWeaviate d p (pd_getenv d ''RELATED_IMAGE_WEAVIATE'') start = Ok new"
    "cGet c (rs_world t) k = Ok y" "u y = u new"
    "cGet c (rs_world s) k = Ok start \<or> om_UID (sf_Meta start) = [] \<and> (\<exists>e. cGet c (rs_world s) k = Err e \<and> isNotFound e)"
proof -
  let ?img = "pd_getenv d ''RELATED_IMAGE_WEAVIATE''"
  obtain m1 m2 w1 x1 where m2: "pd_setRef d (p_Meta p) (newMeta (weaviateName p) (plNamespace p)) = Ok m2"
    and w1: "cCreateOrUpdate (pd_accounts d) (rs_world s) \<lparr>sa_Meta = m1\<rparr> Ok = (w1, Ok x1)"
    and rest: "tryA (getA c k) (\<lambda>found. weaviateWrites d p ?img m2 (case found of Err e \<Rightarrow> isNotFound e | _ \<Rightarrow> False))
      (s\<lparr>rs_world := w1\<rparr>) = (Ok (), t)"
    using run
    by (auto simp: ReconcileWeaviateDatabase_def ownedMeta_def upsertA_def warnA_def p_def c_def k_def bindA_Ok_iff
        thenA_Ok_iff dropA_Ok_iff callA_Ok_iff liftA_Ok_iff getCR_Ok_iff failA_Ok_iff Let_def
        split: if_splits)
  obtain b where writes: "weaviateWrites d p ?img m2 b (s\<lparr>rs_world := w1\<rparr>) = (Ok (), t)"
    using rest by (auto simp: tryA_def getA_def readA_def split: res.splits)
  let ?new = "(newStatefulSet (weaviateName p) (plNamespace p))\<lparr>sf_Meta := m2\<rparr>"
  obtain m3 w2 w3 y x3 where w2: "cCreateOrUpdate c w1 ?new (mutateWeaviate d p ?img) = (w2, Ok y)"
    and w3: "cCreateOrUpdate (pd_svcs d) w2 (zeroService\<lparr>svc_Meta := m3\<rparr>) (mutateWeaviateService p) = (w3, Ok x3)"
    and t: "rs_world t = w3"
    using writes
    by (auto simp: weaviateWrites_def upsertA_def noteA_def ownedMeta_def act_Ok_iff whenA_def c_def split: if_splits)
  have key: "stsKey ?new = k"
    using setOwnerDocsD(1) [OF own m2] by (simp add: stsKey_def metaKey_def k_def)
  have keep: "mutateWeaviate d p ?img x = Ok z \<Longrightarrow> stsKey z = stsKey x" for x z
    using mutateWeaviate_Ok by blast
  obtain start new where new: "mutateWeaviate d p ?img start = Ok new" "cGet c w2 k = Ok y" "u y = u new"
      "cGet c w1 k = Ok start \<or> start = ?new \<and> (\<exists>e. cGet c w1 k = Err e \<and> isNotFound e)"
    using createOrUpdate_result [OF docs [folded c_def] keep w2] unfolding key by blast
  have "cGet c (rs_world t) k = Ok y"
    using kindsApartD [OF apart(2) w3] new(2) t by (simp add: c_def)
  moreover have "cGet c w1 k = cGet c (rs_world s) k"
    using kindsApartD [OF apart(1) w1] by (simp add: c_def)
  moreover have "om_UID m2 = []"
    using setOwnerDocsD(5) [OF own m2] by simp
  ultimately show thesis
    using new(1,3,4) by (intro that [of start new y]) auto
qed


section \<open>The properties at concrete runs\<close>

definition referringSplunk :: SplunkConfigurationSpec where
  "referringSplunk = zeroSplunk\<lparr>
     sc_SplunkCustomResourceRef := zeroObjectRef\<lparr>ref_Kind := ''Standalone'', ref_Name := ''s''\<rparr>,
     sc_SecretSource := ''vault'', sc_VaultFilePath := ''/v''\<rparr>"

definition saiaFeature :: FeatureSpec where
  "saiaFeature = zeroFeature\<lparr>fs_Name := ''saia''\<rparr>"

text \<open>A platform with a Splunk resource, a token from a vault file and one feature.\<close>

definition referringPlatform :: AIPlatform where
  "referringPlatform = emptyPlatform\<lparr>p_Spec := zeroPlatformSpec\<lparr>
     ap_ObjectStorage := zeroStorage\<lparr>os_Path := ''gs://b''\<rparr>, ap_SplunkConfiguration := referringSplunk,
     ap_Features := [saiaFeature]\<rparr>\<rparr>"

lemmas referring_defs = referringPlatform_def referringSplunk_def saiaFeature_def emptyPlatform_def zero_defs

definition splunkPlat :: "'w platDeps" where
  "splunkPlat = offPlat\<lparr>pd_standalones := \<lambda>_ _. Ok (newMeta ''s'' ''ns''), pd_readFile := \<lambda>_. Ok ''tok''\<rparr>"

lemma referring_wf: "wfPlatformSpec (\<lambda>_. None) (p_Spec referringPlatform)"
  by (simp add: wfPlatformSpec_def wfObjectStorage_def wfSplunk_def wfVectorStorage_def wfIngress_def wfMTLS_def
      wfFeatures_def scaleOk_def hasPrefix_def referring_defs)

definition resolvedSplunk :: SplunkConfigurationSpec where
  "resolvedSplunk = referringSplunk\<lparr>
     sc_Endpoint := mgmtURL ''standalone'' [] (newMeta ''s'' ''ns''), sc_Token := ''tok''\<rparr>"

lemma referring_resolved:
  "ValidateAndEnrichSplunkConfig (\<lambda>_. Ok (newMeta ''s'' ''ns'')) gi ns [] referringSplunk
     (VaultGetHECToken (\<lambda>_. Ok ''tok'')) = (resolvedSplunk, Ok ())"
proof -
  have "ResolveSplunkEndpoint (\<lambda>_. Ok (newMeta ''s'' ''ns'')) gi ns referringSplunk [] =
      Ok (mgmtURL ''standalone'' [] (newMeta ''s'' ''ns''))"
    by (simp add: ResolveSplunkEndpoint_def referringSplunk_def zero_defs Let_def)
  moreover have "VaultGetHECToken (\<lambda>_. Ok ''tok'') ns cfg = Ok ''tok''" if "sc_VaultFilePath cfg = ''/v''" for cfg
    using that by (simp add: VaultGetHECToken_def trimSpace_def isSpaceC_def)
  ultimately show ?thesis
    by (simp add: ValidateAndEnrichSplunkConfig_def ensureToken_def resolvedSplunk_def referringSplunk_def zero_defs)
qed

lemma referring_validates:
  "validate splunkPlat (s\<lparr>rs_cr := referringPlatform\<rparr>) =
     (Ok (), s\<lparr>rs_cr := referringPlatform\<lparr>p_Spec := (fillScheduling (p_Spec referringPlatform))
        \<lparr>ap_SplunkConfiguration := resolvedSplunk\<rparr>\<rparr>\<rparr>)"
proof -
  have spec: "ap_SplunkConfiguration (p_Spec referringPlatform) = referringSplunk" 
    "ap_ClusterDomain (p_Spec referringPlatform) = []" "sc_SecretSource referringSplunk = SecretSourceVault"
    "os_Path (ap_ObjectStorage (p_Spec referringPlatform)) \<noteq> []"
    by (simp_all add: referring_defs)
  have deps: "pd_standalones splunkPlat = (\<lambda>_ _. Ok (newMeta ''s'' ''ns''))" "pd_readFile splunkPlat = (\<lambda>_. Ok ''tok'')"
    by (simp_all add: splunkPlat_def)
  show ?thesis
    by (simp add: validate_def act_defs enrichPlatform_def fillScheduling_def spec deps referring_resolved Let_def)
qed

text \<open>The platform is admitted; its AIService is not, although the vector store is there.\<close>

theorem built_service_admitted_iff_witness:
  "let (r, t) = validate splunkPlat \<lparr>rs_world = (), rs_events = [], rs_cr = referringPlatform\<rparr>;
       p = (rs_cr t)\<lparr>p_Status := (p_Status (rs_cr t))\<lparr>aps_VectorDbServiceName := ''p-weaviate''\<rparr>\<rparr>
   in r = Ok () \<and> admitted (platformValidateCreate (\<lambda>_. None) (ObjAIPlatform referringPlatform)) \<and>
      \<not> admitted (serviceValidateCreate (ObjAIService (defaultAIService (buildAIService p saiaFeature ''p-saia''))))"
proof -
  let ?S = "\<lparr>rs_world = (), rs_events = [], rs_cr = referringPlatform\<rparr>"
  obtain t where run: "validate splunkPlat ?S = (Ok (), t)"
    using referring_validates [of ?S] by simp
  have wf: "wfPlatformSpec (\<lambda>_. None) (p_Spec (rs_cr ?S))" "plName (rs_cr ?S) \<noteq> []"
    using referring_wf by (simp_all add: referring_defs)
  let ?p = "(rs_cr t)\<lparr>p_Status := (p_Status (rs_cr t))\<lparr>aps_VectorDbServiceName := ''p-weaviate''\<rparr>\<rparr>"
  have "\<not> admitted (serviceValidateCreate (ObjAIService (defaultAIService (buildAIService ?p saiaFeature ''p-saia''))))"
    using built_service_admitted_iff [OF wf run, of ?p saiaFeature "''p-saia''"] by (simp add: referring_defs)
  then show ?thesis
    using referring_wf by (simp add: run Let_def platformCreate_admitted)
qed

definition checkedServices :: "('w, AIService) client" where
  "checkedServices = checkedClient (\<lambda>x. wfUserServiceSpec (s_Spec x))"

theorem secretless_never_ready_witness:
  "let (r, t) = PlatformReconcile (splunkPlat\<lparr>pd_services := checkedServices\<rparr>) id
         \<lparr>rs_world = (), rs_events = [], rs_cr = referringPlatform\<rparr>
   in r \<noteq> Ok ()"
proof -
  let ?D = "splunkPlat\<lparr>pd_services := checkedServices\<rparr> :: unit platDeps"
  let ?S = "\<lparr>rs_world = (), rs_events = [], rs_cr = referringPlatform\<rparr>"
  have docs: "createOrUpdateSpec svKey (pd_services ?D)" "webhookEnforced (pd_services ?D)"
    by (simp_all add: checkedServices_def checkedClient_docs webhookEnforced_def checkedClient_calls)
  have retry: "retryDocs (rd_retry (pd_ray ?D))"
    by (simp add: splunkPlat_def off_defs retryOnConflict_docs)
  have spec: "ap_Features (p_Spec (rs_cr ?S)) \<noteq> []"
    "sr_Name (sc_SecretRef (ap_SplunkConfiguration (p_Spec (rs_cr ?S)))) = []"
    by (simp_all add: referring_defs)
  obtain r t where run: "PlatformReconcile ?D id ?S = (r, t)"
    by fastforce
  show ?thesis
    using secretless_never_ready [OF docs retry spec run] by (simp add: run)
qed


lemma memClient_frame: "keyFrame key (memClient key sel)"
proof -
  have "find (\<lambda>z. key z = k) (map (\<lambda>z. if key z = key x then x else z) w) = find (\<lambda>z. key z = k) w"
    if "k \<noteq> key x" for k x and w
    using that by (induction w) auto
  moreover have "find (\<lambda>z. key z = k) (w @ [x]) = find (\<lambda>z. key z = k) w" if "k \<noteq> key x" for k x w
    using that by (induction w) auto
  ultimately show ?thesis
    by (auto simp: keyFrame_def memClient_def memCreate_def memUpdate_def memGet_def split: if_splits)
qed

lemma memClient_deletes: "deleteDocs (memClient svKey sel)"
proof -
  have other: "find (\<lambda>z. svKey z = j) (filter (\<lambda>x. svKey x \<noteq> k) w) = find (\<lambda>z. svKey z = j) w"
    if "j \<noteq> k" for j k and w :: "AIService list"
    using that by (induction w) auto
  have none: "find (\<lambda>z. svKey z = k) (filter (\<lambda>x. svKey x \<noteq> k) w) = None" for k and w :: "AIService list"
    by (induction w) auto
  show ?thesis
    by (auto simp: deleteDocs_def goneAt_def memClient_def memGet_def other none)
qed

definition oldChild :: AIService where
  "oldChild = zeroAIService\<lparr>s_Meta := newMeta ''p-old'' ''ns''\<rparr>"

definition featurePlatform :: AIPlatform where
  "featurePlatform = emptyPlatform\<lparr>p_Spec := zeroPlatformSpec\<lparr>ap_Features := [saiaFeature]\<rparr>\<rparr>"

text \<open>
  An API server in memory that fills in defaults: what is read, and what a write returns, is the
  stored object after \<open>g\<close>.
\<close>

definition defaultingClient :: "('o \<Rightarrow> nname) \<Rightarrow> ('o \<Rightarrow> 'o) \<Rightarrow> ('o list, 'o) client" where
  "defaultingClient key g =
     \<lparr>cGet = \<lambda>w k. bindR (memGet key w k) (\<lambda>x. Ok (g x)),
      cList = \<lambda>w lo. Ok (map g w),
      cCreate = \<lambda>w x. memCreate key w (g x), cUpdate = \<lambda>w x. memUpdate key w (g x),
      cStatusUpdate = \<lambda>w x. memUpdate key w (g x),
      cDelete = \<lambda>w k. (filter (\<lambda>x. key x \<noteq> k) w, Ok ()),
      cCreateOrUpdate = \<lambda>w x f.
        (case memGet key w (key x) of
           Ok cur \<Rightarrow>
             (case f (g cur) of
                Ok new \<Rightarrow> if new = g cur then (w, Ok (g cur)) else memUpdate key w (g new)
              | Err e \<Rightarrow> (w, Err e)
              | Panic p \<Rightarrow> (w, Panic p))
         | Err e \<Rightarrow>
             (case f x of
                Ok new \<Rightarrow> memCreate key w (g new)
              | Err e' \<Rightarrow> (w, Err e')
              | Panic p \<Rightarrow> (w, Panic p))
         | Panic p \<Rightarrow> (w, Panic p))\<rparr>"

lemma mem_write:
  "memCreate key w x = (w', Ok y) \<Longrightarrow> y = x \<and> memGet key w' (key x) = Ok x"
  "memUpdate key w x = (w', Ok y) \<Longrightarrow> y = x \<and> memGet key w' (key x) = Ok x"
  by (auto simp: memCreate_def memUpdate_def memGet_def find_append_new find_map_replace split: if_splits)

lemma memGet_cases: "(\<exists>x. memGet key w k = Ok x) \<or> memGet key w k = Err (ApiErr NotFound ''not found'')"
  by (auto simp: memGet_def split: option.split)

lemma memGet_key: "memGet key w k = Ok x \<Longrightarrow> key x = k"
  by (auto simp: memGet_def find_Some_iff split: option.splits)

lemma defaultingClient_docs:
  assumes "\<And>x. key (g x) = key x" and "\<And>x. g (g x) = g x" and "\<And>x. u (g x) = u x"
  shows "clientDocs key u (defaultingClient key g)"
  unfolding clientDocs_def
proof (intro conjI allI impI)
  show "writeVisible key u (defaultingClient key g)"
    unfolding writeVisible_def defaultingClient_def
    using assms by (auto dest!: mem_write)
  show "createOrUpdateSpec key (defaultingClient key g)"
    unfolding createOrUpdateSpec_def
  proof (intro allI)
    fix w o1 f
    show "cCreateOrUpdate (defaultingClient key g) w o1 f =
        (case cGet (defaultingClient key g) w (key o1) of
           Ok cur \<Rightarrow> (case f cur of
                Ok new \<Rightarrow> if new = cur then (w, Ok cur) else cUpdate (defaultingClient key g) w new
              | Err e \<Rightarrow> (w, Err e) | Panic p \<Rightarrow> (w, Panic p))
         | Err e \<Rightarrow> if isNotFound e then (case f o1 of
                Ok new \<Rightarrow> cCreate (defaultingClient key g) w new
              | Err e' \<Rightarrow> (w, Err e') | Panic p \<Rightarrow> (w, Panic p)) else (w, Err e)
         | Panic p \<Rightarrow> (w, Panic p))"
      using memGet_cases [of key w "key o1"] by (auto simp: defaultingClient_def split: res.split)
  qed
  show "key x = k" if "cGet (defaultingClient key g) w k = Ok x" for w k x
    using that assms(1) by (auto simp: defaultingClient_def bindR_Ok_iff dest: memGet_key)
qed

lemma defaultingClient_frame:
  assumes "\<And>x. key (g x) = key x"
  shows "keyFrame key (defaultingClient key g)"
  using memClient_frame [of key "\<lambda>_ _. True"] assms
  unfolding keyFrame_def by (simp add: memClient_def defaultingClient_def) metis

definition storedForm :: "AIService \<Rightarrow> AIService" where
  "storedForm x = x\<lparr>s_Spec := defaultServiceSpec (crdDefaults (s_Spec x))\<rparr>"

lemma storedForm_keeps: "svKey (storedForm x) = svKey x" "s_Meta (storedForm x) = s_Meta x"
  by (simp_all add: storedForm_def svKey_def)

lemma storedForm_fixed: "crdDefaults (s_Spec (storedForm x)) = s_Spec (storedForm x)" "storedForm (storedForm x) = storedForm x"
  by (simp_all add: storedForm_def crdDefaults_def defaultServiceSpec_def defaultMetrics_def defaultTermination_def
      cleanServiceTemplateMetadata_def)

definition featurePlat :: "AIService list platDeps" where
  "featurePlat = offPlat\<lparr>pd_services := defaultingClient svKey storedForm\<rparr>"

lemma featurePlat_sel: "pd_services featurePlat = defaultingClient svKey storedForm" "pd_setRef featurePlat = addOwner"
  by (simp_all add: featurePlat_def off_defs)

lemma featurePlat_docs:
  "clientDocs svKey (\<lambda>x. om_Labels (s_Meta x)) (pd_services featurePlat)"
  "specDefaulted (pd_services featurePlat)"
  "keyFrame svKey (pd_services featurePlat)" "deleteDocs (pd_services featurePlat)"
proof -
  show "clientDocs svKey (\<lambda>x. om_Labels (s_Meta x)) (pd_services featurePlat)"
    unfolding featurePlat_sel by (rule defaultingClient_docs) (simp_all add: storedForm_keeps storedForm_fixed)
  show "specDefaulted (pd_services featurePlat)"
    by (auto simp: specDefaulted_def featurePlat_sel defaultingClient_def bindR_Ok_iff storedForm_fixed dest!: mem_write)
       (simp_all add: storedForm_def)
  show "keyFrame svKey (pd_services featurePlat)"
    unfolding featurePlat_sel by (rule defaultingClient_frame) (simp add: storedForm_keeps)
  have "deleteDocs (memClient svKey (\<lambda>_ _. True))"
    by (rule memClient_deletes)
  then show "deleteDocs (pd_services featurePlat)"
    by (simp add: deleteDocs_def goneAt_def featurePlat_sel defaultingClient_def memClient_def bindR_Ok_iff)
       (metis storedForm_keeps(2))
qed

text \<open>The child of the removed feature goes, the one of the new feature comes, with the server's defaults.\<close>

theorem features_converge_witness:
  "let (r, t) = ReconcileFeatures featurePlat \<lparr>rs_world = [oldChild], rs_events = [], rs_cr = featurePlatform\<rparr>
   in r = Ok () \<and> (\<exists>x. cGet (pd_services featurePlat) (rs_world t) (''ns'', ''p-saia'') = Ok x \<and>
        as_Port (s_Spec x) = 80 \<and> fmlookup (entries (om_Labels (s_Meta x))) ''feature'' = Some ''saia'')"
proof -
  let ?S = "\<lparr>rs_world = [oldChild], rs_events = [], rs_cr = featurePlatform\<rparr>"
  have own: "setOwnerDocs (pd_setRef featurePlat)"
    by (simp add: featurePlat_sel addOwner_docs)
  have feats: "ap_Features (p_Spec featurePlatform) = [saiaFeature]" "plNamespace featurePlatform = ''ns''"
      "serviceNameFor featurePlatform saiaFeature = ''p-saia''" "fs_Name saiaFeature = ''saia''"
    by (simp_all add: featurePlatform_def serviceNameFor_def saiaFeature_def emptyPlatform_def zero_defs)
  let ?new = "zeroAIService\<lparr>s_Meta := newMeta ''p-saia'' ''ns''\<rparr>"
  obtain y where y: "mutateService featurePlat featurePlatform saiaFeature ?new = Ok y" "svKey y = (''ns'', ''p-saia'')"
    by (simp add: mutateService_def addOwner_def featurePlat_sel svKey_def metaKey_def Let_def)
  let ?y = "storedForm y"
  have keys: "svKey oldChild = (''ns'', ''p-old'')" "svKey ?new = (''ns'', ''p-saia'')" "svKey ?y = (''ns'', ''p-saia'')"
      "om_Name (s_Meta ?y) = ''p-saia''" "om_Name (s_Meta (storedForm oldChild)) = ''p-old''"
      "metaKey (s_Meta (storedForm oldChild)) = (''ns'', ''p-old'')" "metaKey (s_Meta ?y) = (''ns'', ''p-saia'')"
    using y(2) by (simp_all add: oldChild_def svKey_def metaKey_def storedForm_keeps)
  have "writeServices featurePlat featurePlatform [saiaFeature] ?S = (Ok (), ?S\<lparr>rs_world := [oldChild, ?y]\<rparr>)"
    using y keys by (simp add: featurePlat_sel feats upsertA_def dropA_def defaultingClient_def memGet_def memCreate_def act_defs)
  moreover have "pruneServices featurePlat [''p-saia''] [storedForm oldChild, ?y] (?S\<lparr>rs_world := [oldChild, ?y]\<rparr>) =
      (Ok (), ?S\<lparr>rs_world := [?y]\<rparr>)"
    using keys y(2) by (simp add: featurePlat_sel tryA_def defaultingClient_def act_defs)
  ultimately have run: "ReconcileFeatures featurePlat ?S = (Ok (), ?S\<lparr>rs_world := [?y]\<rparr>)"
    by (simp add: feats ReconcileFeatures_def listChildren_def featurePlat_sel defaultingClient_def act_defs storedForm_fixed)
  have "distinct (map fs_Name (ap_Features (p_Spec featurePlatform)))"
    by (simp add: feats)
  then show ?thesis
    using features_converge [OF featurePlat_docs(1-4) own run, THEN conjunct2, THEN conjunct1]
    by (simp add: feats run servesFeature_def) blast
qed

definition unnamedAccount :: "AIService list saiaDeps" where
  "unnamedAccount = offDeps\<lparr>sa_services := memClient svKey (\<lambda>_ _. True), sa_accounts := constClient \<lparr>sa_Meta = newMeta ''a'' ''ns''\<rparr>\<rparr>"

text \<open>SAIA fills in the service account; the platform takes it out again.\<close>

theorem service_account_tug_of_war_witness:
  "let s = \<lparr>rs_world = [oldChild], rs_events = [], rs_cr = oldChild\<rparr>;
       (r, t) = reconcileServiceAccount unnamedAccount s
   in r = Ok () \<and> mutateService offPlat emptyPlatform saiaFeature (rs_cr t) \<noteq> Ok (rs_cr t)"
proof -
  let ?S = "\<lparr>rs_world = [oldChild], rs_events = [], rs_cr = oldChild\<rparr>"
  have vis: "writeVisible svKey s_Spec (sa_services unnamedAccount)"
    using memClient_docs [of svKey s_Spec "\<lambda>_ _. True"] by (simp add: unnamedAccount_def clientDocs_def)
  have f: "fs_ServiceAccountName saiaFeature = []"
    by (simp add: saiaFeature_def zero_defs)
  obtain t where run: "reconcileServiceAccount unnamedAccount ?S = (Ok (), t)"
    by (simp add: reconcileServiceAccount_def unnamedAccount_def offDeps_def updateSelf_def updateA_def modSpec_def whenA_def onErr_def dropA_def
        oldChild_def zero_defs memClient_def memUpdate_def svKey_def metaKey_def addOwner_def constClient_def
        upsertA_def Let_def act_defs)
  show ?thesis
    using service_account_tug_of_war [OF vis f, of ?S t offPlat emptyPlatform, THEN conjunct1] run by (simp add: Let_def)
qed

definition heldUp :: AIPlatform where
  "heldUp = emptyPlatform\<lparr>p_Status := (p_Status emptyPlatform)\<lparr>
     aps_RayServiceName := ''p-ray'', aps_VectorDbServiceName := ''p-weaviate'',
     aps_Conditions := stagesDone id platformStageNames 10 @
       [stageCond 10 ''AIServiceStatus'' (Some (Errorf ''waiting''))]\<rparr>\<rparr>"

text \<open>A platform that waits for its children does not hold them up.\<close>

theorem saia_gate_iff_witness:
  "validateAIPlatformReady heldUp = Ok () \<and> validateVectorDatabaseReady heldUp = Ok ()"
proof -
  have report: "stageReport id platformStageNames (Err (Errorf ''waiting'')) (aps_Conditions (p_Status heldUp))"
    by (auto simp: stageReport_def heldUp_def platformStageNames_def intro: exI [of _ 10])
  have "IsConditionTrue (aps_Conditions (p_Status heldUp)) (platformStageNames ! i @ ''Ready'')" if "i < 8" for i
    using platform_stages.report_true_iff [OF report, of i] that
    by (simp add: heldUp_def platformStageNames_def)
  then show ?thesis
    using saia_gate_iff [OF report] by (simp add: heldUp_def)
qed

definition weaviatePlat :: "statefulset list platDeps" where
  "weaviatePlat = offPlat\<lparr>pd_accounts := constClient \<lparr>sa_Meta = newMeta ''a'' ''ns''\<rparr>,
     pd_statefulsets := memClient stsKey (\<lambda>_ _. True), pd_svcs := constClient zeroService\<rparr>"

lemma weaviatePlat_sel:
  "pd_accounts weaviatePlat = constClient \<lparr>sa_Meta = newMeta ''a'' ''ns''\<rparr>"
  "pd_statefulsets weaviatePlat = memClient stsKey (\<lambda>_ _. True)" "pd_svcs weaviatePlat = constClient zeroService"
  "pd_setRef weaviatePlat = addOwner" "pd_getenv weaviatePlat = (\<lambda>_. ''img'')" "pd_validQuantity weaviatePlat = (\<lambda>_. True)"
  by (simp_all add: weaviatePlat_def off_defs)

definition scheduledPlatform :: AIPlatform where
  "scheduledPlatform = emptyPlatform\<lparr>p_Spec := zeroPlatformSpec\<lparr>
     ap_CPUSchedulingSpec := Some defaultScheduling\<rparr>\<rparr>"



definition unconfiguredPlatform :: AIPlatform where
  "unconfiguredPlatform = rayPlatform\<lparr>p_Spec := (p_Spec rayPlatform)\<lparr>ap_WorkerGroupConfig := None\<rparr>\<rparr>"

theorem worker_config_required_witness:
  "let (r, t) = PlatformReconcile (offPlat\<lparr>pd_ray := rayDemo\<rparr>) id
         \<lparr>rs_world = [], rs_events = [], rs_cr = unconfiguredPlatform\<rparr>
   in r \<noteq> Ok () \<and> (\<exists>cs u. t = publishPlatform (pd_platforms (offPlat\<lparr>pd_ray := rayDemo\<rparr>)) cs u \<and>
        \<not> IsConditionTrue cs ''RayServiceReady'')"
proof -
  let ?D = "offPlat\<lparr>pd_ray := rayDemo\<rparr>"
  let ?S = "\<lparr>rs_world = [], rs_events = [], rs_cr = unconfiguredPlatform\<rparr>"
  have none: "ap_WorkerGroupConfig (p_Spec (rs_cr ?S)) = None"
    and accel: "ap_DefaultAcceleratorType (p_Spec (rs_cr ?S)) = ''L40S''"
    by (simp_all add: unconfiguredPlatform_def rayPlatform_sel)
  have insts: "readInstances (pd_ray ?D) = Ok (fmap_of_list [(''L40S'', [smallInstance []])])"
    by (simp add: readInstances_def rayDemo_sel)
  have some: "instancesFor (fmap_of_list [(''L40S'', [smallInstance []])]) (ap_DefaultAcceleratorType (p_Spec (rs_cr ?S))) \<noteq> []"
    by (simp only: accel) (simp add: instancesFor_def)
  have retry: "retryDocs (rd_retry (pd_ray ?D))"
    by (simp add: rayDemo_sel retryOnConflict_docs)
  obtain r t where run: "PlatformReconcile ?D id ?S = (r, t)"
    by fastforce
  have "platformStageNames ! 3 = ''RayService''"
    by (simp add: platformStageNames_def)
  then show ?thesis
    using worker_config_required [OF none insts some retry run] by (force simp: run)
qed

end
