(* ===== verification/Frames.thy ===== *)
theory Frames
  imports Stages
begin

text \<open>
  What an action may do to the cluster, as a relation between the worlds before and after: the
  rules follow the structure of an action, as those of \<open>keepsCR\<close> do for the object in memory. The
  locale \<open>world_order\<close> asks the relation to be reflexive and transitive.
\<close>

definition moves :: "('w \<Rightarrow> 'w \<Rightarrow> bool) \<Rightarrow> ('w, 'c, 'a) act \<Rightarrow> bool" where
  "moves R m \<longleftrightarrow> (\<forall>s. R (rs_world s) (rs_world (snd (m s))))"

text \<open>Every call that changes objects of a kind is within the relation.\<close>

definition within :: "('w \<Rightarrow> 'w \<Rightarrow> bool) \<Rightarrow> ('w, 'o) client \<Rightarrow> bool" where
  "within R c \<longleftrightarrow>
     (\<forall>w x f k. R w (fst (cCreate c w x)) \<and> R w (fst (cUpdate c w x)) \<and> R w (fst (cStatusUpdate c w x)) \<and>
        R w (fst (cDelete c w k)) \<and> R w (fst (cCreateOrUpdate c w x f)))"

named_theorems moves_intros

lemma moves_D: "moves R m \<Longrightarrow> m s = (r, t) \<Longrightarrow> R (rs_world s) (rs_world t)"
  unfolding moves_def by (metis snd_conv)

locale world_order =
  fixes R :: "'w \<Rightarrow> 'w \<Rightarrow> bool"
  assumes R_refl: "R w w" and R_trans: "R u v \<Longrightarrow> R v w \<Longrightarrow> R u w"
begin

lemma moves_call: "(\<And>w. R w (fst (f w))) \<Longrightarrow> moves R (callA f)"
  by (auto simp: moves_def callA_def split: prod.splits) (metis fst_conv)

lemma moves_basic [moves_intros]:
  "moves R (retA x)" "moves R (failA e)" "moves R (panicA p)" "moves R (liftA r)" "moves R getCR"
  "moves R (emitA ty rs ms)" "moves R (readA f)" "moves R (modCR g)" "moves R (getA c k)"
  "moves R (warnA rs ms)" "moves R (noteA rs ms)"
  by (simp_all add: moves_def act_defs panicA_def getA_def warnA_def noteA_def R_refl)

lemma moves_writes [moves_intros]:
  assumes "within R c"
  shows "moves R (createA c x)" "moves R (updateA c x)" "moves R (upsertA c x f)"
    "moves R (callA (\<lambda>w. cDelete c w k))" "moves R (callA (\<lambda>w. cStatusUpdate c w x))"
  using assms unfolding createA_def updateA_def upsertA_def within_def by (blast intro: moves_call)+

lemma moves_bind [moves_intros]:
  assumes "moves R m" and "\<And>x. moves R (f x)"
  shows "moves R (bindA m f)"
  unfolding moves_def
proof
  fix s
  obtain q u where q: "m s = (q, u)" by fastforce
  then have "R (rs_world s) (rs_world u)"
    using moves_D [OF assms(1)] by blast
  moreover have "R (rs_world u) (rs_world (snd (f x u)))" for x
    using assms(2) by (simp add: moves_def)
  ultimately show "R (rs_world s) (rs_world (snd (bindA m f s)))"
    using q R_trans by (cases q) (auto simp: bindA_def)
qed

lemma moves_try [moves_intros]:
  assumes "moves R m" and "\<And>r. moves R (f r)"
  shows "moves R (tryA m f)"
  unfolding moves_def
proof
  fix s
  obtain q u where q: "m s = (q, u)" by fastforce
  then have "R (rs_world s) (rs_world u)"
    using moves_D [OF assms(1)] by blast
  moreover have "R (rs_world u) (rs_world (snd (f x u)))" for x
    using assms(2) by (simp add: moves_def)
  ultimately show "R (rs_world s) (rs_world (snd (tryA m f s)))"
    using q R_trans by (cases q) (auto simp: tryA_def)
qed

lemma moves_then [moves_intros]: "moves R m \<Longrightarrow> moves R k \<Longrightarrow> moves R (thenA m k)"
  by (simp add: thenA_def moves_bind)

lemma moves_when [moves_intros]: "(b \<Longrightarrow> moves R m) \<Longrightarrow> moves R (whenA b m)"
  by (simp add: whenA_def moves_basic)

lemma moves_wrap [moves_intros]: "moves R m \<Longrightarrow> moves R (wrapA f m)"
  unfolding moves_def wrapA_def by (auto split: prod.splits) (metis snd_conv)

lemma moves_drop [moves_intros]: "moves R m \<Longrightarrow> moves R (dropA m)"
  by (simp add: dropA_def moves_bind moves_basic)

lemma moves_onErr [moves_intros]:
  "moves R m \<Longrightarrow> (\<And>e. moves R (h e)) \<Longrightarrow> moves R (onErr h f m)"
  unfolding onErr_def by (intro moves_try) (auto intro: moves_basic moves_then split: res.split)

lemma moves_if [moves_intros]:
  "(b \<Longrightarrow> moves R m) \<Longrightarrow> (\<not> b \<Longrightarrow> moves R k) \<Longrightarrow> moves R (if b then m else k)"
  by simp

lemma moves_res [moves_intros]:
  "(\<And>x. r = Ok x \<Longrightarrow> moves R (f x)) \<Longrightarrow> (\<And>e. r = Err e \<Longrightarrow> moves R (g e)) \<Longrightarrow>
   (\<And>p. r = Panic p \<Longrightarrow> moves R (h p)) \<Longrightarrow>
   moves R (case r of Ok x \<Rightarrow> f x | Err e \<Rightarrow> g e | Panic p \<Rightarrow> h p)"
  by (cases r) simp_all

lemma moves_option [moves_intros]:
  "(x = None \<Longrightarrow> moves R m) \<Longrightarrow> (\<And>y. x = Some y \<Longrightarrow> moves R (f y)) \<Longrightarrow>
   moves R (case x of None \<Rightarrow> m | Some y \<Rightarrow> f y)"
  by (cases x) simp_all

lemma moves_bool [moves_intros]:
  "moves R m \<Longrightarrow> moves R k \<Longrightarrow> moves R (case b of True \<Rightarrow> m | False \<Rightarrow> k)"
  by (cases b) simp_all

lemma moves_prod [moves_intros]:
  "(\<And>x y. p = (x, y) \<Longrightarrow> moves R (f x y)) \<Longrightarrow> moves R (case p of (x, y) \<Rightarrow> f x y)"
  by (cases p) simp

text \<open>A step that only looks at the world moves nothing.\<close>

lemma moves_still: "(\<And>s. rs_world (snd (m s)) = rs_world s) \<Longrightarrow> moves R m"
  by (simp add: moves_def R_refl)

text \<open>An action that is chosen by looking at the state.\<close>

lemma moves_state:
  assumes "\<And>s. \<exists>k. moves R k \<and> m s = k s"
  shows "moves R m"
  using assms unfolding moves_def by metis

lemma moves_stages:
  assumes "runStages clock sts cs s = (r, cs', t)" and "\<And>st. st \<in> set sts \<Longrightarrow> moves R (snd st)"
  shows "R (rs_world s) (rs_world t)"
  using assms
proof (induction sts arbitrary: cs s)
  case Nil
  then show ?case by (simp add: R_refl)
next
  case (Cons st sts)
  obtain q u where q: "snd st s = (q, u)" by fastforce
  have step: "R (rs_world s) (rs_world u)"
    using moves_D [where m = "snd st" and s = s and t = u and r = q and R = R] q Cons.prems(2) by simp
  show ?case
  proof (cases q)
    case (Ok x)
    have "R (rs_world u) (rs_world t)"
      by (rule Cons.IH) (use Cons.prems q Ok in simp_all)
    then show ?thesis
      using step R_trans by blast
  qed (use Cons.prems q step in auto)
qed

end

end
