(* ===== verification/System.thy ===== *)
theory System
  imports ControllersCorrect PlatformChildren Frames
begin

text \<open>
  The two controllers as one system over one cluster: a step is a reconcile of either controller or
  anything that other parties do without inventing the status of a platform. What the stored
  statuses of the platforms say in every reachable world is an invariant of the steps, and with it
  the gate of an AIService means what it is meant to.
\<close>

section \<open>What the reconcilers do to the cluster\<close>

definition platformWrites :: "('w \<Rightarrow> 'w \<Rightarrow> bool) \<Rightarrow> 'w platDeps \<Rightarrow> bool" where
  "platformWrites R d \<longleftrightarrow>
     within R (pd_services d) \<and> within R (pd_ingresses d) \<and> within R (pd_statefulsets d) \<and>
     within R (pd_accounts d) \<and> within R (pd_svcs d) \<and> within R (pd_certs d) \<and>
     within R (rd_rayservices (pd_ray d)) \<and> within R (rd_configmaps (pd_ray d)) \<and>
     within R (rd_roles (pd_ray d)) \<and> within R (rd_bindings (pd_ray d)) \<and>
     within R (si_configmaps (pd_sidecars d)) \<and> within R (si_collectors (pd_sidecars d)) \<and>
     within R (si_monitors (pd_sidecars d)) \<and> within R (si_rules (pd_sidecars d))"

definition serviceWrites :: "('w \<Rightarrow> 'w \<Rightarrow> bool) \<Rightarrow> 'w saiaDeps \<Rightarrow> bool" where
  "serviceWrites R d \<longleftrightarrow>
     within R (sa_services d) \<and> within R (sa_accounts d) \<and> within R (sa_configmaps d) \<and> within R (sa_certs d) \<and>
     within R (sa_jobs d) \<and> within R (sa_deployments d) \<and> within R (sa_svcs d) \<and> within R (sa_monitors d)"

context world_order
begin

lemma moves_attempts:
  assumes "attempts f x s q t" and "\<And>y. moves R (f y)"
  shows "R (rs_world s) (rs_world t)"
  using assms(1)
proof induction
  case (first q t)
  then show ?case using moves_D [OF assms(2)] by blast
next
  case (again y e u q t)
  then show ?case using moves_D [OF assms(2)] R_trans by blast
qed

lemma moves_retry:
  assumes "retryDocs (rd_retry d)" and "\<And>y. moves R (f y)"
  shows "moves R (rd_retry d f x)"
  unfolding moves_def
proof
  fix s
  obtain r t where run: "rd_retry d f x s = (r, t)" by fastforce
  then obtain q where "attempts f x s q t"
    using assms(1) unfolding retryDocs_def by blast
  then show "R (rs_world s) (rs_world (snd (rd_retry d f x s)))"
    using moves_attempts [OF _ assms(2)] run by simp
qed

lemma moves_sidecars:
  assumes "platformWrites R d"
  shows "moves R (SidecarsReconcile (pd_sidecars d))"
  unfolding SidecarsReconcile_def reconcileEnvoyConfig_def createOrUpdateSidecarMap_def
    reconcileOpenTelemetryCollector_def reconcileOtelConfigMap_def reconcilePrometheusRule_def reconcilePodMonitor_def
  using assms by (intro moves_intros) (simp_all add: platformWrites_def)

lemma moves_rbac:
  assumes "platformWrites R d"
  shows "moves R (ReconcileRayAutoscalerRBAC (pd_ray d))"
  unfolding ReconcileRayAutoscalerRBAC_def Let_def
  using assms by (intro moves_intros) (simp_all add: platformWrites_def)

lemma moves_asResult [moves_intros]: "moves R m \<Longrightarrow> moves R (asResult x m)"
  unfolding asResult_def by (intro moves_intros)

lemma moves_rayService:
  assumes "platformWrites R d" and retry: "retryDocs (rd_retry (pd_ray d))"
  shows "moves R (ReconcileRayService (pd_ray d))"
proof -
  have "moves R (writeRayService (pd_ray d) p c conf x)" for p c conf x
    unfolding writeRayService_def
    using assms(1) by (intro moves_intros) (simp_all add: platformWrites_def)
  then show ?thesis
    unfolding ReconcileRayService_def Let_def
    using assms(1) by (intro moves_intros moves_retry [OF retry]) (simp_all add: platformWrites_def)
qed

lemma moves_weaviate:
  assumes "platformWrites R d"
  shows "moves R (ReconcileWeaviateDatabase d)"
  unfolding ReconcileWeaviateDatabase_def weaviateWrites_def ownedMeta_def Let_def
  using assms by (intro moves_intros) (simp_all add: platformWrites_def)

lemma moves_setConds [moves_intros]: "moves R (setConds d cs)"
  unfolding setConds_def by (intro moves_intros)

lemma moves_transition [moves_intros]: "moves R (transition d t b up down c)"
  unfolding transition_def Let_def by (intro moves_intros)

lemma moves_ingressStatus [moves_intros]: "moves R (UpdateIngressStatus d)"
  unfolding UpdateIngressStatus_def modStatus_def by (intro moves_intros)

lemma moves_ingress:
  assumes "platformWrites R d"
  shows "moves R (ReconcileIngress d)"
  unfolding ReconcileIngress_def Let_def
  using assms by (intro moves_intros) (simp_all add: platformWrites_def)

lemma moves_builder: "moves R (BuilderApplyConditions d)"
proof (rule moves_state)
  fix s :: "('w, AIPlatform) rstate"
  let ?k = "\<lambda>e sn q. thenA (rayErrorEvents d e)
      (thenA (modCR (\<lambda>p. p\<lparr>p_Status := recordSnapshot sn (p_Status p)\<rparr>))
      (thenA (rayTransitions d sn e) (bindA (liftA q) (rollup d sn))))"
  have "moves R (rayErrorEvents d e)" "moves R (rayTransitions d sn e)" "moves R (rollup d sn we)" for e sn we
    unfolding rayErrorEvents_def rayTransitions_def rollup_def Let_def by (intro moves_intros)+
  then have rest: "moves R (?k e sn q)" for e sn q
    by (intro moves_intros)
  have failed: "moves R (snapshotFailed d e)" for e
    unfolding snapshotFailed_def Let_def by (intro moves_intros)
  show "\<exists>k. moves R k \<and> BuilderApplyConditions d s = k s"
  proof (cases "CollectRaySnapshot (rd_reads d (rs_world s)) (plNamespace (rs_cr s)) (plName (rs_cr s))")
    case (Ok sn)
    show ?thesis
    proof (cases "ExtractRayErrors (firstEntry d 0) (rd_reads d (rs_world s)) (plNamespace (rs_cr s)) (plName (rs_cr s))")
      case ok: (Ok e)
      show ?thesis
        by (intro exI conjI) (rule rest, simp add: BuilderApplyConditions_def Let_def Ok ok)
    next
      case (Err e)
      show ?thesis
        by (intro exI [of _ "failA e"] conjI moves_basic) (simp add: BuilderApplyConditions_def Let_def Ok Err failA_def)
    next
      case (Panic x)
      show ?thesis
        by (intro exI [of _ "panicA x"] conjI moves_basic) (simp add: BuilderApplyConditions_def Let_def Ok Panic panicA_def)
    qed
  next
    case (Err e)
    show ?thesis
      by (intro exI [of _ "snapshotFailed d e"] conjI failed) (simp add: BuilderApplyConditions_def Let_def Err)
  next
    case (Panic x)
    show ?thesis
      by (intro exI [of _ "panicA x"] conjI moves_basic) (simp add: BuilderApplyConditions_def Let_def Panic panicA_def)
  qed
qed

lemma moves_weaviateStatus: "moves R (ReconcileWeaviateDatabaseStatus d)"
  unfolding ReconcileWeaviateDatabaseStatus_def modStatus_def Let_def by (intro moves_intros)

lemma moves_writeServices:
  assumes "platformWrites R d"
  shows "moves R (writeServices d p fs)"
proof (induction fs)
  case (Cons f fs)
  then show ?case
    using assms by (auto simp: platformWrites_def intro!: moves_intros)
qed (simp add: moves_basic)

lemma moves_pruneServices:
  assumes "platformWrites R d"
  shows "moves R (pruneServices d names cs)"
proof (induction cs)
  case (Cons c cs)
  then show ?case
    using assms by (auto simp: platformWrites_def intro!: moves_intros)
qed (simp add: moves_basic)

lemma moves_features:
  assumes "platformWrites R d"
  shows "moves R (ReconcileFeatures d)"
  unfolding ReconcileFeatures_def listChildren_def Let_def
  by (intro moves_intros moves_writeServices moves_pruneServices assms)

lemma moves_check: "moves R (CheckAIServiceStatus d)"
  unfolding CheckAIServiceStatus_def listChildren_def by (auto intro!: moves_intros split: option.split)

lemma moves_platform_validate: "moves R (validate d)"
proof -
  have "moves R (enrichPlatform d)"
    by (rule moves_still) (simp add: enrichPlatform_def Let_def split: prod.split)
  then show ?thesis
    unfolding validate_def by (intro moves_intros)
qed

lemma moves_platformStages:
  assumes "platformWrites R d" and "retryDocs (rd_retry (pd_ray d))" and "st \<in> set (platformStages d)"
  shows "moves R (snd st)"
  using assms(3) moves_platform_validate moves_sidecars [OF assms(1)] moves_rbac [OF assms(1)]
    moves_rayService [OF assms(1,2)] moves_weaviate [OF assms(1)] moves_ingress [OF assms(1)] moves_builder
    moves_weaviateStatus moves_ingressStatus moves_features [OF assms(1)] moves_check
  by (auto simp: platformStages_def)

lemma moves_saia_validate: "moves R (validateAIService d)"
proof -
  have "moves R (enrichSplunk d)"
    by (rule moves_still) (simp add: enrichSplunk_def Let_def split: prod.split)
  then show ?thesis
    unfolding validateAIService_def resolvePlatform_def requireURLs_def validateRest_def getAIPlatform_def
      invalidSpec_def modSpec_def
    by (intro moves_intros)
qed

lemmas saia_moves_defs = invalidSpec_def modSpec_def updateSelf_def Let_def

lemma moves_serviceAccount:
  "within R (sa_services d) \<Longrightarrow> within R (sa_accounts d) \<Longrightarrow> moves R (reconcileServiceAccount d)"
  unfolding reconcileServiceAccount_def saia_moves_defs by (intro moves_intros)

lemma moves_configMap: "within R (sa_configmaps d) \<Longrightarrow> moves R (reconcileSAIAConfigMap d)"
  unfolding reconcileSAIAConfigMap_def createOrUpdateConfigMap_def saia_moves_defs by (intro moves_intros)

lemma moves_featureConfigMap: "within R (sa_configmaps d) \<Longrightarrow> moves R (reconcileFeatureConfigMap d)"
  unfolding reconcileFeatureConfigMap_def saia_moves_defs by (intro moves_intros)

lemma moves_certificate: "within R (sa_certs d) \<Longrightarrow> moves R (reconcileCertificate d)"
  unfolding reconcileCertificate_def saia_moves_defs by (intro moves_intros)

lemma moves_hook: "within R (sa_jobs d) \<Longrightarrow> moves R (reconcilePostInstallHook d)"
  unfolding reconcilePostInstallHook_def createHookJob_def watchHookJob_def saia_moves_defs setJobId_def
  by (intro moves_intros)

lemma moves_deployment: "within R (sa_deployments d) \<Longrightarrow> moves R (reconcileSAIADeployment d)"
  unfolding reconcileSAIADeployment_def saia_moves_defs by (intro moves_intros)

lemma moves_service: "within R (sa_svcs d) \<Longrightarrow> moves R (reconcileSAIAService d)"
  unfolding reconcileSAIAService_def saia_moves_defs by (intro moves_intros)

lemma moves_monitor: "within R (sa_monitors d) \<Longrightarrow> moves R (reconcileServiceMonitor d)"
  unfolding reconcileServiceMonitor_def saia_moves_defs by (intro moves_intros)

lemmas moves_saia_stages = moves_serviceAccount moves_configMap moves_featureConfigMap moves_certificate moves_hook
  moves_deployment moves_service moves_monitor

lemma moves_saiaStages:
  assumes "serviceWrites R d" and "st \<in> set (saiaStages d)"
  shows "moves R (snd st)"
  using assms moves_saia_validate [of d] moves_saia_stages [of d] by (auto simp: saiaStages_def serviceWrites_def)

lemma moves_publishService:
  "within R c \<Longrightarrow> R (rs_world s) (rs_world (publishService c cs s))"
  by (cases "cStatusUpdate c (rs_world s) (withStatus cs (rs_cr s))"; cases "snd (cStatusUpdate c (rs_world s) (withStatus cs (rs_cr s)))")
    (auto simp: publishService_def Let_def within_def split: res.splits dest!: spec [where x = "rs_world s"] spec [where x = "withStatus cs (rs_cr s)"])

lemma moves_saia:
  assumes "serviceWrites R d"
  shows "moves R (SaiaReconcile d clock)"
  unfolding moves_def
proof
  fix s
  obtain r cs t where run: "runStages clock (saiaStages d) [] s = (r, cs, t)"
    by (metis prod_cases3)
  have "R (rs_world s) (rs_world t)"
    using moves_stages [OF run] moves_saiaStages [OF assms] by blast
  then show "R (rs_world s) (rs_world (snd (SaiaReconcile d clock s)))"
    using moves_publishService [of "sa_services d" t cs] assms R_trans
    by (auto simp: SaiaReconcile_def run serviceWrites_def)
qed

lemma moves_seca:
  assumes "serviceWrites R d"
  shows "moves R (SecaReconcile d clock)"
  unfolding moves_def
proof
  fix s
  obtain r cs t where run: "runStages clock (secaStages d) [] (s\<lparr>rs_cr := zeroAIService\<rparr>) = (r, cs, t)"
    by (metis prod_cases3)
  have "moves R (secaValidate d)"
    unfolding secaValidate_def secaPlatformURLs_def modSpec_def Let_def by (intro moves_intros)
  then have "R (rs_world s) (rs_world t)"
    using moves_stages [OF run] by (auto simp: secaStages_def)
  then show "R (rs_world s) (rs_world (snd (SecaReconcile d clock s)))"
    using moves_publishService [of "sa_services d" t cs] assms R_trans
    by (auto simp: SecaReconcile_def run serviceWrites_def)
qed

lemma moves_fetch: "moves R (fetchA c k z)"
  unfolding fetchA_def by (intro moves_intros)

lemma moves_aiservice:
  assumes w: "serviceWrites R d"
  shows "moves R (ReconcileAIService d clock now key)"
proof -
  have svc: "within R (sa_services d)"
    using w by (simp add: serviceWrites_def)
  have delete: "moves R (deleteAIService d)"
    unfolding deleteAIService_def noRequeue_def using svc by (intro moves_intros)
  have status: "moves R (reconcileStatus d n)" for n
    unfolding reconcileStatus_def using svc by (intro moves_intros)
  have "moves R (run d clock)" if "FeatureFactories name = Some run" for name run
    using that moves_saia [OF w] moves_seca [OF w] by (auto simp: FeatureFactories_def split: if_splits)
  then show ?thesis
    unfolding ReconcileAIService_def noRequeue_def
    by (intro moves_intros moves_fetch delete status) auto
qed

end

section \<open>The reports of the platforms\<close>

text \<open>A status that some run has published: the API server starts an object without conditions.\<close>

definition reported :: "('w, AIPlatform) client \<Rightarrow> 'w \<Rightarrow> nname \<Rightarrow> AIPlatformStatus \<Rightarrow> bool" where
  "reported c w k st \<longleftrightarrow> (\<exists>p. cGet c w k = Ok p \<and> p_Status p = st \<and> aps_Conditions st \<noteq> [])"

definition noNewReport :: "('w, AIPlatform) client \<Rightarrow> 'w \<Rightarrow> 'w \<Rightarrow> bool" where
  "noNewReport c w w' \<longleftrightarrow> (\<forall>k st. reported c w' k st \<longrightarrow> reported c w k st)"

interpretation reports: world_order "noNewReport c" for c
  by unfold_locales (auto simp: noNewReport_def)

text \<open>
  The status of a platform changes through its status subresource only: no write of another kind
  and no update of the platform itself makes a new report, and a status update makes the one it
  sends.
\<close>

definition systemDocs :: "'w platDeps \<Rightarrow> 'w saiaDeps \<Rightarrow> bool" where
  "systemDocs d sd \<longleftrightarrow>
     platformWrites (noNewReport (pd_platforms d)) d \<and> serviceWrites (noNewReport (pd_platforms d)) sd \<and>
     retryDocs (rd_retry (pd_ray d)) \<and> sa_platforms sd = pd_platforms d \<and>
     (\<forall>w x. noNewReport (pd_platforms d) w (fst (cUpdate (pd_platforms d) w x))) \<and>
     (\<forall>w x k st. reported (pd_platforms d) (fst (cStatusUpdate (pd_platforms d) w x)) k st \<longrightarrow>
        reported (pd_platforms d) w k st \<or> k = platKey x \<and> st = p_Status x)"

text \<open>A step of the system: a reconcile of either controller, or a move of somebody else.\<close>

inductive sys_step :: "'w platDeps \<Rightarrow> 'w saiaDeps \<Rightarrow> 'w \<Rightarrow> 'w \<Rightarrow> bool" for d sd where
  others: "noNewReport (pd_platforms d) w w' \<Longrightarrow> sys_step d sd w w'"
| platform: "ReconcileAIPlatform d clock key \<lparr>rs_world = w, rs_events = [], rs_cr = p\<rparr> = (r, t) \<Longrightarrow>
    sys_step d sd w (rs_world t)"
| service: "ReconcileAIService sd clock now key \<lparr>rs_world = w, rs_events = [], rs_cr = ai\<rparr> = (q, u) \<Longrightarrow>
    sys_step d sd w (rs_world u)"

inductive_cases sys_stepE: "sys_step d sd w w'"

inductive reachable :: "'w platDeps \<Rightarrow> 'w saiaDeps \<Rightarrow> 'w \<Rightarrow> bool" for d sd where
  initial: "(\<And>k st. \<not> reported (pd_platforms d) w k st) \<Longrightarrow> reachable d sd w"
| further: "reachable d sd w \<Longrightarrow> sys_step d sd w w' \<Longrightarrow> reachable d sd w'"

lemma platform_step_reports:
  assumes docs: "systemDocs d sd" and run: "ReconcileAIPlatform d clock key s = (r, t)"
    and new: "reported (pd_platforms d) (rs_world t) k st"
  shows "reported (pd_platforms d) (rs_world s) k st \<or> (\<exists>q. stageReport clock platformStageNames q (aps_Conditions st))"
proof -
  let ?R = "noNewReport (pd_platforms d)"
  have writes: "platformWrites ?R d" and retry: "retryDocs (rd_retry (pd_ray d))"
    and update: "\<And>w x. ?R w (fst (cUpdate (pd_platforms d) w x))"
    and sent: "\<And>w x k st. reported (pd_platforms d) (fst (cStatusUpdate (pd_platforms d) w x)) k st \<Longrightarrow>
        reported (pd_platforms d) w k st \<or> st = p_Status x"
    using docs unfolding systemDocs_def by blast+
  have old: ?thesis if "?R (rs_world s) (rs_world t)"
    using that new unfolding noNewReport_def by blast
  obtain q v where q: "fetchA (pd_platforms d) key zeroAIPlatform s = (q, v)" by fastforce
  have v: "rs_world v = rs_world s"
    using q by (auto simp: fetchA_def getA_def act_defs split: res.splits)
  have update': "moves ?R (updateA (pd_platforms d) x)" for x
    unfolding updateA_def by (intro reports.moves_call update)
  have "moves ?R (deleteServices d xs)" for xs
    using writes by (induction xs) (auto simp: platformWrites_def intro!: moves_intros)
  then have delete: "moves ?R (deletePlatform d)"
    unfolding deletePlatform_def finalizePlatform_def listChildren_def noRequeue_def
    by (intro moves_intros update')
  show ?thesis
  proof (cases "q = Ok () \<and> om_DeletionTimestamp (p_Meta (rs_cr v)) = None")
    case True
    obtain x cs u where u: "runStages clock (platformStages d) [] v = (x, cs, u)"
      by (metis prod_cases3)
    have still: "?R (rs_world s) (rs_world u)"
      using reports.moves_stages [OF u] reports.moves_platformStages [OF writes retry] v by metis
    have t: "rs_world t = rs_world (publishPlatform (pd_platforms d) cs u)"
      using run q True u
      by (auto simp: ReconcileAIPlatform_def tryA_def PlatformReconcile_def noRequeue_def act_defs split: res.splits)
    have "reported (pd_platforms d) (rs_world u) k st \<or> aps_Conditions st = cs"
    proof (cases "cGet (pd_platforms d) (rs_world u) (platKey (rs_cr u))")
      case (Ok x)
      let ?x = "x\<lparr>p_Status := publishedStatus cs (rs_cr u)\<rparr>"
      have "reported (pd_platforms d) (fst (cStatusUpdate (pd_platforms d) (rs_world u) ?x)) k st"
        using new Ok by (simp add: t publishPlatform_def)
      then have "reported (pd_platforms d) (rs_world u) k st \<or> st = p_Status ?x"
        using sent by blast
      then show ?thesis by (auto simp: publishedStatus_def)
    qed (use new in \<open>simp_all add: t publishPlatform_def\<close>)
    then show ?thesis
      using still runStages_report [OF u] unfolding noNewReport_def platformStages_names by blast
  next
    case False
    then have "t = v \<or> deletePlatform d v = (r, t)"
      using run q by (cases q) (auto simp: ReconcileAIPlatform_def tryA_def noRequeue_def act_defs split: if_splits)
    then show ?thesis
      using old v moves_D [OF delete] reports.R_refl by metis
  qed
qed

lemma service_step_reports:
  assumes "systemDocs d sd" and "ReconcileAIService sd clock now key s = (r, t)"
  shows "noNewReport (pd_platforms d) (rs_world s) (rs_world t)"
  using moves_D [OF reports.moves_aiservice assms(2)] assms(1) by (simp add: systemDocs_def)

lemma step_honest:
  assumes docs: "systemDocs d sd" and step: "sys_step d sd w w'"
    and new: "reported (pd_platforms d) w' k st"
  shows "reported (pd_platforms d) w k st \<or> (\<exists>clock r. stageReport clock platformStageNames r (aps_Conditions st))"
  using step
proof cases
  case others
  then show ?thesis using new unfolding noNewReport_def by blast
next
  case (platform clock key p r t)
  have "reported (pd_platforms d) (rs_world t) k st"
    using new platform(1) by simp
  from platform_step_reports [OF docs platform(2) this] show ?thesis
    unfolding rstate.select_convs by blast
next
  case (service clock now key ai q u)
  have "reported (pd_platforms d) (rs_world u) k st"
    using new service(1) by simp
  with service_step_reports [OF docs service(2)] show ?thesis
    unfolding noNewReport_def rstate.select_convs by blast
qed

lemma reachable_honest:
  assumes "reachable d sd w" and docs: "systemDocs d sd" and "reported (pd_platforms d) w k st"
  shows "\<exists>clock r. stageReport clock platformStageNames r (aps_Conditions st)"
  using assms(1,3)
proof (induction arbitrary: k st)
  case (further w w')
  then show ?case using step_honest [OF docs further.hyps(2) further.prems] by blast
qed blast

text \<open>
  C3: whatever the two controllers, the users and other controllers do, in whatever order, in every
  reachable world the conditions of every AIPlatform are none or those of one single run: a prefix of
  the stages, all True but possibly the last, each type once, and Ready only after all of them.
\<close>

theorem platforms_report_runs:
  assumes "systemDocs d sd" and "reachable d sd w" and "cGet (pd_platforms d) w k = Ok p"
  defines "cs \<equiv> aps_Conditions (p_Status p)"
  shows "cs = [] \<or> (\<exists>clock r. stageReport clock platformStageNames r cs \<and>
    (IsConditionTrue cs ''Ready'' \<longleftrightarrow> r = Ok ())) \<and> distinct (map c_Type cs)"
proof (cases "cs = []")
  case False
  then have "reported (pd_platforms d) w k (p_Status p)"
    using assms(3) by (simp add: reported_def cs_def)
  then obtain clock r where report: "stageReport clock platformStageNames r cs"
    using reachable_honest [OF assms(2,1)] unfolding cs_def by blast
  then show ?thesis
    using platform_stages.report_ready [OF report] platform_stages.report_distinct [OF report] by blast
qed simp

section \<open>What an AIService can rely on\<close>

lemma validate_platform:
  assumes "validateAIService d s = (Ok (), t)"
  defines "ref \<equiv> as_AIPlatformRef (s_Spec (rs_cr s))"
  assumes "ref_Name ref \<noteq> []"
  shows "\<exists>p. cGet (sa_platforms d) (rs_world s) (ref_Namespace ref, ref_Name ref) = Ok p \<and>
    validateAIPlatformReady p = Ok () \<and> validateVectorDatabaseReady p = Ok ()"
proof -
  let ?s = "s\<lparr>rs_cr := (rs_cr s)\<lparr>s_Spec := (s_Spec (rs_cr s))\<lparr>as_ServiceTemplate :=
    cleanServiceTemplate (as_ServiceTemplate (s_Spec (rs_cr s)))\<rparr>\<rparr>\<rparr>"
  obtain u where "resolvePlatform d ?s = (Ok (), u)"
    using assms(1) by (auto simp: validateAIService_def act_Ok_iff modSpec_def split: if_splits)
  from resolvePlatform_Ok [OF this] show ?thesis
    using assms(3) by (auto simp: ref_def)
qed

lemma stage_true_validated:
  assumes run: "runStages clock (saiaStages d) [] s = (r, cs, t)" and "i < 9"
    and true: "IsConditionTrue cs (saiaStageNames ! i @ ''Ready'')"
  shows "\<exists>u. validateAIService d s = (Ok (), u)"
proof -
  obtain q u where q: "validateAIService d s = (q, u)" by fastforce
  show ?thesis
  proof (cases q)
    case (Err e)
    then have "cs = [stageCond (clock 0) ''Validate'' (Some e)]"
      using run q by (simp add: saiaStages_def)
    then show ?thesis using true by (simp add: IsConditionTrue_def stageCond_def)
  next
    case (Panic x)
    then have "cs = []"
      using run q by (simp add: saiaStages_def)
    then show ?thesis using true by (simp add: IsConditionTrue_def)
  qed (use q in auto)
qed

lemma reconcileStatus_stage:
  assumes "reconcileStatus d now v = (r, t)" and "n \<noteq> []"
  shows "IsConditionTrue (ass_Conditions (s_Status (rs_cr t))) (n @ ''Ready'') =
    IsConditionTrue (ass_Conditions (s_Status (rs_cr v))) (n @ ''Ready'')"
  using assms
  by (auto simp: reconcileStatus_def act_defs dropA_def IsConditionTrue_def mkCond_def Let_def
      split: prod.splits res.splits if_splits)

lemma saia_run_validated:
  assumes status: "statusVisible svKey s_Status (sa_services d)"
    and found: "cGet (sa_services d) (rs_world s) key = Ok ai"
    and alive: "om_DeletionTimestamp (s_Meta ai) = None" "fs_Name (as_Feature (s_Spec ai)) = ''saia''"
    and run: "ReconcileAIService d clock now key s = (r, t)"
    and "i < 9" and true: "IsConditionTrue (ass_Conditions (s_Status (rs_cr t))) (saiaStageNames ! i @ ''Ready'')"
  shows "\<exists>u. validateAIService d (s\<lparr>rs_cr := ai\<rparr>) = (Ok (), u)"
proof -
  obtain q v where v: "SaiaReconcile d clock (s\<lparr>rs_cr := ai\<rparr>) = (q, v)" by fastforce
  obtain x cs u where u: "runStages clock (saiaStages d) [] (s\<lparr>rs_cr := ai\<rparr>) = (x, cs, u)"
    by (metis prod_cases3)
  have "rs_cr t = rs_cr v \<or> (\<exists>r. reconcileStatus d now v = (r, t))"
    using run found alive v
    by (cases q) (auto simp: ReconcileAIService_def fetchA_def getA_def featureName_def FeatureFactories_def
        noRequeue_def act_defs split: prod.splits res.splits)
  moreover have "saiaStageNames ! i \<noteq> []"
    using \<open>i < 9\<close> saia_stages.names_nonempty nth_mem [of i saiaStageNames] by (auto simp: saiaStageNames_def)
  ultimately have "IsConditionTrue (ass_Conditions (s_Status (rs_cr v))) (saiaStageNames ! i @ ''Ready'')"
    using true reconcileStatus_stage by metis
  moreover have "ass_Conditions (s_Status (rs_cr v)) = cs"
    using v u publishService_conditions [OF status] by (auto simp: SaiaReconcile_def)
  ultimately show ?thesis
    using stage_true_validated [OF u \<open>i < 9\<close>] by simp
qed

text \<open>
  C4: no stage of an AIService that refers to a platform is ever reported True before the platform is
  there with its first eight stages done: when a reconcile in any reachable world leaves some stage of
  the AIService True, then in that world the platform's status names both services and reports Validate
  to WeaviateDatabaseStatus as True.
\<close>

theorem service_follows_platform:
  assumes docs: "systemDocs d sd" and status: "statusVisible svKey s_Status (sa_services sd)"
    and reach: "reachable d sd (rs_world s)"
    and found: "cGet (sa_services sd) (rs_world s) key = Ok ai"
    and alive: "om_DeletionTimestamp (s_Meta ai) = None" "fs_Name (as_Feature (s_Spec ai)) = ''saia''"
    and ref: "ref_Name (as_AIPlatformRef (s_Spec ai)) \<noteq> []"
    and run: "ReconcileAIService sd clock now key s = (r, t)"
  shows "(\<exists>i < 9. IsConditionTrue (ass_Conditions (s_Status (rs_cr t))) (saiaStageNames ! i @ ''Ready'')) \<longrightarrow>
    (\<exists>p. cGet (pd_platforms d) (rs_world s)
           (ref_Namespace (as_AIPlatformRef (s_Spec ai)), ref_Name (as_AIPlatformRef (s_Spec ai))) = Ok p \<and>
       aps_RayServiceName (p_Status p) \<noteq> [] \<and> aps_VectorDbServiceName (p_Status p) \<noteq> [] \<and>
       (\<forall>i < 8. IsConditionTrue (aps_Conditions (p_Status p)) (platformStageNames ! i @ ''Ready'')))"
proof
  assume "\<exists>i < 9. IsConditionTrue (ass_Conditions (s_Status (rs_cr t))) (saiaStageNames ! i @ ''Ready'')"
  then obtain u where "validateAIService sd (s\<lparr>rs_cr := ai\<rparr>) = (Ok (), u)"
    using saia_run_validated [OF status found alive run] by blast
  from validate_platform [OF this] ref obtain p where p: "cGet (sa_platforms sd) (rs_world s)
        (ref_Namespace (as_AIPlatformRef (s_Spec ai)), ref_Name (as_AIPlatformRef (s_Spec ai))) = Ok p"
      "validateAIPlatformReady p = Ok ()" "validateVectorDatabaseReady p = Ok ()"
    by auto
  have same: "sa_platforms sd = pd_platforms d"
    using docs by (simp add: systemDocs_def)
  have true: "IsConditionTrue (aps_Conditions (p_Status p)) ''RayServiceStatusReady''"
      "IsConditionTrue (aps_Conditions (p_Status p)) ''WeaviateDatabaseStatusReady''"
      "aps_RayServiceName (p_Status p) \<noteq> []" "aps_VectorDbServiceName (p_Status p) \<noteq> []"
    using p(2,3) by (auto simp: validateAIPlatformReady_def validateVectorDatabaseReady_def split: if_splits)
  then have "aps_Conditions (p_Status p) \<noteq> []"
    by (auto simp: IsConditionTrue_def)
  then obtain clock' r' where "stageReport clock' platformStageNames r' (aps_Conditions (p_Status p))"
    using reachable_honest [OF reach docs, of _ "p_Status p"] p(1) same unfolding reported_def by metis
  then show "\<exists>p. cGet (pd_platforms d) (rs_world s)
           (ref_Namespace (as_AIPlatformRef (s_Spec ai)), ref_Name (as_AIPlatformRef (s_Spec ai))) = Ok p \<and>
       aps_RayServiceName (p_Status p) \<noteq> [] \<and> aps_VectorDbServiceName (p_Status p) \<noteq> [] \<and>
       (\<forall>i < 8. IsConditionTrue (aps_Conditions (p_Status p)) (platformStageNames ! i @ ''Ready''))"
    using first_eight true p(1) same by metis
qed

section \<open>A platform in memory\<close>

text \<open>The store of the platforms with the status as a subresource: an update keeps the stored one.\<close>

definition keepStatus :: "AIPlatform list \<Rightarrow> AIPlatform \<Rightarrow> AIPlatform" where
  "keepStatus w x = (case find (\<lambda>y. platKey y = platKey x) w of
     Some old \<Rightarrow> x\<lparr>p_Status := p_Status old\<rparr> | None \<Rightarrow> x)"

definition subresourceClient :: "(AIPlatform list, AIPlatform) client" where
  "subresourceClient = (memClient platKey (\<lambda>_ _. True))
     \<lparr>cUpdate := \<lambda>w x. memUpdate platKey w (keepStatus w x)\<rparr>"

definition memSystem :: "AIPlatform list platDeps" where
  "memSystem = offPlat\<lparr>pd_platforms := subresourceClient\<rparr>"

definition memServices :: "AIService \<Rightarrow> AIPlatform list saiaDeps" where
  "memServices ai = offDeps\<lparr>sa_platforms := subresourceClient, sa_services := offClient\<lparr>cGet := \<lambda>_ _. Ok ai\<rparr>\<rparr>"

lemma offClient_within: "world_order R \<Longrightarrow> within R (offClient\<lparr>cGet := g\<rparr>)" "world_order R \<Longrightarrow> within R offClient"
  by (simp_all add: within_def offClient_def offline_def world_order.R_refl)

lemma find_replaced:
  "find (\<lambda>y. key y = k) (map (\<lambda>y. if key y = key x then x else y) w) =
     (if k = key x then (if find (\<lambda>y. key y = k) w = None then None else Some x) else find (\<lambda>y. key y = k) w)"
  by (induction w) auto

lemma memUpdate_get:
  "memGet key (fst (memUpdate key w x)) k =
     (if k = key x \<and> find (\<lambda>y. key y = k) w \<noteq> None then Ok x else memGet key w k)"
  by (cases "find (\<lambda>y. key y = key x) w") (simp_all add: memUpdate_def memGet_def find_replaced)

lemma memSystem_docs: "systemDocs memSystem (memServices ai)"
proof -
  have get: "cGet subresourceClient = memGet platKey"
    "cStatusUpdate subresourceClient = memUpdate platKey"
    by (simp_all add: subresourceClient_def memClient_def)
  have key: "platKey (keepStatus w x) = platKey x" for w x
    by (simp add: keepStatus_def platKey_def split: option.split)
  have kept: "\<exists>y. memGet platKey w k = Ok y \<and> p_Status y = p_Status p"
    if "memGet platKey (fst (memUpdate platKey w (keepStatus w x))) k = Ok p" for w x k p
    using that unfolding memUpdate_get key
    by (auto simp: keepStatus_def memGet_def split: if_splits option.splits)
  then have update: "noNewReport subresourceClient w (fst (cUpdate subresourceClient w x))" for w x
    unfolding noNewReport_def reported_def get using kept [of w x] by (auto simp: subresourceClient_def)
  have sent: "reported subresourceClient (fst (cStatusUpdate subresourceClient w x)) k st \<Longrightarrow>
      reported subresourceClient w k st \<or> k = platKey x \<and> st = p_Status x" for w x k st
    unfolding reported_def get memUpdate_get by (cases "k = platKey x") (simp_all split: if_splits)
  show ?thesis
    unfolding systemDocs_def platformWrites_def serviceWrites_def memSystem_def memServices_def
    using update sent
    by (simp add: offPlat_def offSide_def offRay_def offDeps_def offClient_within reports.world_order_axioms
        retryOnConflict_docs)
qed

lemma memSystem_initial: "reachable memSystem (memServices ai) [emptyPlatform]"
  by (rule initial) (auto simp: reported_def memSystem_def subresourceClient_def memClient_def memGet_def
      emptyPlatform_def zero_defs split: if_splits)

text \<open>After one run the platform without an object storage reports its failed stage.\<close>

theorem platforms_report_runs_witness:
  "let (r, t) = ReconcileAIPlatform memSystem id (''ns'', ''p'')
         \<lparr>rs_world = [emptyPlatform], rs_events = [], rs_cr = zeroAIPlatform\<rparr>;
       cs = [stageCond 0 ''Validate'' (Some (Errorf ''object storage is required''))]
   in \<exists>p. memGet platKey (rs_world t) (''ns'', ''p'') = Ok p \<and> aps_Conditions (p_Status p) = cs \<and>
        (\<exists>clock r. stageReport clock platformStageNames r cs \<and> (IsConditionTrue cs ''Ready'' \<longleftrightarrow> r = Ok ()))"
proof -
  let ?S = "\<lparr>rs_world = [emptyPlatform], rs_events = [], rs_cr = zeroAIPlatform\<rparr>"
  let ?cs = "[stageCond 0 ''Validate'' (Some (Errorf ''object storage is required''))]"
  obtain r t where run: "ReconcileAIPlatform memSystem id (''ns'', ''p'') ?S = (r, t)" by fastforce
  have key: "platKey emptyPlatform = (''ns'', ''p'')"
    by (simp add: emptyPlatform_def platKey_def metaKey_def zero_defs newMeta_def)
  let ?S' = "\<lparr>rs_world = [emptyPlatform], rs_events = [], rs_cr = emptyPlatform\<rparr>"
  have val: "validate memSystem ?S' = (Err (Errorf ''object storage is required''), ?S')"
    by (simp add: validate_def act_defs emptyPlatform_def zero_defs)
  have alive: "om_DeletionTimestamp (p_Meta emptyPlatform) = None"
    by (simp add: emptyPlatform_def newMeta_def)
  have get: "cGet (pd_platforms memSystem) = memGet platKey"
    by (simp add: memSystem_def subresourceClient_def memClient_def)
  have status: "cStatusUpdate (pd_platforms memSystem) = memUpdate platKey"
    by (simp add: memSystem_def subresourceClient_def memClient_def)
  let ?p = "emptyPlatform\<lparr>p_Status := publishedStatus ?cs emptyPlatform\<rparr>"
  have fetch: "fetchA (pd_platforms memSystem) (''ns'', ''p'') zeroAIPlatform ?S = (Ok (), ?S')"
    by (simp add: fetchA_def getA_def act_defs get memGet_def key)
  have "rs_world t = fst (memUpdate platKey [emptyPlatform] ?p)"
    using run
    by (auto simp: ReconcileAIPlatform_def tryA_def fetch PlatformReconcile_def platformStages_def val alive act_defs
        publishPlatform_def get status memGet_def key)
  then have p: "memGet platKey (rs_world t) (''ns'', ''p'') = Ok ?p"
    using key by (simp add: memUpdate_get platKey_def)
  have reach: "reachable memSystem (memServices (exampleService None)) (rs_world t)"
    using run by (intro further [OF memSystem_initial] platform)
  from platforms_report_runs [OF memSystem_docs reach, of "(''ns'', ''p'')" ?p] p
  show ?thesis
    by (simp add: run get)
qed

text \<open>In the first world no stage of a service that names the platform is reported True.\<close>

theorem service_follows_platform_witness:
  "let (r, t) = ReconcileAIService (memServices referringService) id 0 (''ns'', ''a'')
         \<lparr>rs_world = [emptyPlatform], rs_events = [], rs_cr = zeroAIService\<rparr>
   in \<forall>i < 9. \<not> IsConditionTrue (ass_Conditions (s_Status (rs_cr t))) (saiaStageNames ! i @ ''Ready'')"
proof -
  let ?S = "\<lparr>rs_world = [emptyPlatform], rs_events = [], rs_cr = zeroAIService\<rparr>"
  obtain r t where run: "ReconcileAIService (memServices referringService) id 0 (''ns'', ''a'') ?S = (r, t)"
    by fastforce
  have found: "cGet (sa_services (memServices referringService)) (rs_world ?S) (''ns'', ''a'') = Ok referringService"
    by (simp add: memServices_def)
  have status: "statusVisible svKey s_Status (sa_services (memServices referringService))"
    by (simp add: memServices_def statusVisible_def offClient_def offline_def)
  have alive: "om_DeletionTimestamp (s_Meta referringService) = None"
    "fs_Name (as_Feature (s_Spec referringService)) = ''saia''"
    "ref_Name (as_AIPlatformRef (s_Spec referringService)) \<noteq> []"
    by (simp_all add: referringService_def exampleService_def exampleSpec_def newMeta_def)
  have none: "aps_RayServiceName (p_Status p) = []" if "cGet (pd_platforms memSystem) [emptyPlatform] k = Ok p" for k p
    using that by (auto simp: memSystem_def subresourceClient_def memClient_def memGet_def emptyPlatform_def
        zero_defs split: if_splits)
  show ?thesis
    using service_follows_platform [OF memSystem_docs status _ found alive run] memSystem_initial none
    by (auto simp: run)
qed


end
