(* ===== verification/Deletion.thy ===== *)
theory Deletion
  imports ControllersCorrect Frames
begin

text \<open>
  The deletion of a platform and of the AIServices it controls, as a protocol of both controllers:
  the platform's reconcile deletes its children and waits for them, the reconcile of a child that
  is being deleted removes the operator's finalizer from it. A measure on what the API server holds
  shows that the protocol comes to an end, and what it has then done.
\<close>

section \<open>What the API server holds\<close>

text \<open>Of an object that may be deleted: its key, whether its deletion has begun, its finalizers.\<close>

type_synonym held = "nname \<times> bool \<times> string list"

definition heldOf :: "objmeta \<Rightarrow> held" where
  "heldOf m = (metaKey m, om_DeletionTimestamp m \<noteq> None, om_Finalizers m)"

text \<open>
  By the documentation of finalizers, deleting an object that has none removes it and deleting one
  that has some marks it; an update changes its finalizers, and removes it when it is marked and
  the last of them is gone.
\<close>

fun afterDelete :: "nname \<Rightarrow> held list \<Rightarrow> held list" where
  "afterDelete k [] = []"
| "afterDelete k ((n, dying, fs) # hs) =
     (if n \<noteq> k then [(n, dying, fs)] else if fs = [] then [] else [(n, True, fs)]) @ afterDelete k hs"

fun afterUpdate :: "nname \<Rightarrow> string list \<Rightarrow> held list \<Rightarrow> held list" where
  "afterUpdate k new [] = []"
| "afterUpdate k new ((n, dying, fs) # hs) =
     (if n \<noteq> k then [(n, dying, fs)] else if dying \<and> new = [] then [] else [(n, dying, new)]) @ afterUpdate k new hs"

text \<open>What is still to be done: an object to remove, its deletion to begin, its finalizers.\<close>

fun pending :: "held list \<Rightarrow> nat" where
  "pending [] = 0"
| "pending ((n, dying, fs) # hs) = Suc ((if dying then 0 else 1) + length fs) + pending hs"

lemma pending_append [simp]: "pending (xs @ ys) = pending xs + pending ys"
  by (induction xs rule: pending.induct) simp_all

lemma pending_delete: "afterDelete k hs = hs \<or> pending (afterDelete k hs) < pending hs"
  by (induction k hs rule: afterDelete.induct) auto

lemma update_other: "k \<notin> fst ` set hs \<Longrightarrow> afterUpdate k new hs = hs"
  by (induction k new hs rule: afterUpdate.induct) auto

lemma pending_update:
  assumes "(k, dying, fs) \<in> set hs" and "distinct (map fst hs)" and "length new < length fs"
  shows "pending (afterUpdate k new hs) < pending hs"
  using assms
proof (induction k new hs rule: afterUpdate.induct)
  case (2 k new n d gs hs)
  show ?case
  proof (cases "n = k")
    case True
    then have "k \<notin> fst ` set hs" "d = dying" "gs = fs"
      using 2 by (auto simp: image_iff)
    then show ?thesis
      using True 2 by (simp add: update_other)
  qed (use 2 in auto)
qed simp

lemma delete_length: "length (afterDelete k hs) \<le> length hs"
  by (induction k hs rule: afterDelete.induct) auto

lemma delete_fixed:
  assumes "afterDelete k hs = hs" and "(k, dying, fs) \<in> set hs"
  shows "dying \<and> fs \<noteq> []"
  using assms
proof (induction k hs rule: afterDelete.induct)
  case (2 k n d gs hs)
  then show ?case
    using delete_length [of k hs] by (auto split: if_splits)
qed simp

lemma delete_dying:
  "(\<forall>h \<in> set hs. fst h = k \<longrightarrow> fst (snd h)) \<Longrightarrow> (\<forall>h \<in> set (afterUpdate n new hs). fst h = k \<longrightarrow> fst (snd h))"
  by (induction n new hs rule: afterUpdate.induct) auto

lemma delete_keys: "fst ` set (afterDelete k hs) \<subseteq> fst ` set hs"
  by (induction k hs rule: afterDelete.induct) auto

lemma update_keys: "fst ` set (afterUpdate k new hs) \<subseteq> fst ` set hs"
  by (induction k new hs rule: afterUpdate.induct) auto

lemma delete_distinct: "distinct (map fst hs) \<Longrightarrow> distinct (map fst (afterDelete k hs))"
proof (induction k hs rule: afterDelete.induct)
  case (2 k n dying fs hs)
  then have "n \<notin> fst ` set (afterDelete k hs)" "distinct (map fst (afterDelete k hs))"
    using subsetD [OF delete_keys, of n k hs] by auto
  then show ?case by (cases "n = k") auto
qed simp

lemma update_distinct: "distinct (map fst hs) \<Longrightarrow> distinct (map fst (afterUpdate k new hs))"
proof (induction k new hs rule: afterUpdate.induct)
  case (2 k new n dying fs hs)
  then have "n \<notin> fst ` set (afterUpdate k new hs)" "distinct (map fst (afterUpdate k new hs))"
    using subsetD [OF update_keys, of n k new hs] by auto
  then show ?case by (cases "n = k") auto
qed simp

section \<open>The documentation of the API server\<close>

definition storeDocs :: "('o \<Rightarrow> objmeta) \<Rightarrow> ('w \<Rightarrow> held list) \<Rightarrow> ('w, 'o) client \<Rightarrow> bool" where
  "storeDocs meta held c \<longleftrightarrow>
     (\<forall>w k x. cGet c w k = Ok x \<longrightarrow> metaKey (meta x) = k \<and> (k \<in> fst ` set (held w) \<longrightarrow> heldOf (meta x) \<in> set (held w))) \<and>
     (\<forall>w k. held (fst (cDelete c w k)) = held w \<or> held (fst (cDelete c w k)) = afterDelete k (held w)) \<and>
     (\<forall>w x. held (fst (cUpdate c w x)) = held w \<or>
        held (fst (cUpdate c w x)) = afterUpdate (metaKey (meta x)) (om_Finalizers (meta x)) (held w))"

text \<open>A server that answers: nothing is refused.\<close>

definition answers :: "('o \<Rightarrow> objmeta) \<Rightarrow> ('w \<Rightarrow> held list) \<Rightarrow> ('w, 'o) client \<Rightarrow> bool" where
  "answers meta held c \<longleftrightarrow>
     (\<forall>w k. k \<in> fst ` set (held w) \<longrightarrow> isOk (cGet c w k)) \<and>
     (\<forall>w lo. isOk (cList c w lo)) \<and>
     (\<forall>w k. isOk (snd (cDelete c w k)) \<and> held (fst (cDelete c w k)) = afterDelete k (held w)) \<and>
     (\<forall>w x. held (fst (cUpdate c w x)) = afterUpdate (metaKey (meta x)) (om_Finalizers (meta x)) (held w))"

text \<open>
  For the platform with key \<open>K\<close>: \<open>kids\<close> are the AIServices it controls, which are what the index
  lists; \<open>plats\<close> are the platforms. Writes of one kind leave the other.
\<close>

definition deletionDocs ::
  "'w platDeps \<Rightarrow> 'w saiaDeps \<Rightarrow> nname \<Rightarrow> ('w \<Rightarrow> held list) \<Rightarrow> ('w \<Rightarrow> held list) \<Rightarrow> bool" where
  "deletionDocs d sd K kids plats \<longleftrightarrow>
     sa_services sd = pd_services d \<and>
     storeDocs s_Meta kids (pd_services d) \<and> storeDocs p_Meta plats (pd_platforms d) \<and>
     (\<forall>w k x. cGet (pd_platforms d) w k = Ok x \<longrightarrow> k \<in> fst ` set (plats w)) \<and>
     (\<forall>w xs. cList (pd_services d) w \<lparr>lo_Namespace = fst K, lo_Labels = fmempty, lo_Controller = Some (snd K)\<rparr> = Ok xs \<longrightarrow>
        map (heldOf \<circ> s_Meta) xs = kids w) \<and>
     (\<forall>w k x. plats (fst (cDelete (pd_services d) w k)) = plats w \<and> plats (fst (cUpdate (pd_services d) w x)) = plats w) \<and>
     (\<forall>w x. kids (fst (cUpdate (pd_platforms d) w x)) = kids w)"

section \<open>Steps of the protocol\<close>

text \<open>A reconcile of the platform, or of a child whose deletion has begun.\<close>

inductive deletion_step ::
  "'w platDeps \<Rightarrow> 'w saiaDeps \<Rightarrow> nname \<Rightarrow> ('w \<Rightarrow> held list) \<Rightarrow> 'w \<Rightarrow> 'w \<Rightarrow> bool" for d sd K kids where
  platform: "ReconcileAIPlatform d clock K \<lparr>rs_world = w, rs_events = [], rs_cr = p\<rparr> = (r, t) \<Longrightarrow>
    deletion_step d sd K kids w (rs_world t)"
| child: "(k, True, fs) \<in> set (kids w) \<Longrightarrow>
    ReconcileAIService sd clock now k \<lparr>rs_world = w, rs_events = [], rs_cr = ai\<rparr> = (q, u) \<Longrightarrow>
    deletion_step d sd K kids w (rs_world u)"

inductive_cases deletion_stepE: "deletion_step d sd K kids w w'"

text \<open>The platform is marked, and the server holds one object per key.\<close>

definition beingDeleted :: "('w \<Rightarrow> held list) \<Rightarrow> ('w \<Rightarrow> held list) \<Rightarrow> nname \<Rightarrow> 'w \<Rightarrow> bool" where
  "beingDeleted kids plats K w \<longleftrightarrow>
     (\<forall>h \<in> set (plats w). fst h = K \<longrightarrow> fst (snd h)) \<and>
     distinct (map fst (kids w)) \<and> distinct (map fst (plats w))"

definition settled :: "('w \<Rightarrow> 'w \<Rightarrow> bool) \<Rightarrow> ('w \<Rightarrow> held list) \<Rightarrow> ('w \<Rightarrow> held list) \<Rightarrow> 'w \<Rightarrow> bool" where
  "settled step kids plats w \<longleftrightarrow> (\<forall>w'. step w w' \<longrightarrow> kids w' = kids w \<and> plats w' = plats w)"

text \<open>An order on the worlds that the writes of the protocol respect.\<close>

definition shrinks :: "('w \<Rightarrow> held list) \<Rightarrow> ('w \<Rightarrow> held list) \<Rightarrow> 'w \<Rightarrow> 'w \<Rightarrow> bool" where
  "shrinks kids plats w w' \<longleftrightarrow>
     plats w' = plats w \<and> (kids w' = kids w \<or> pending (kids w') < pending (kids w)) \<and>
     (distinct (map fst (kids w)) \<longrightarrow> distinct (map fst (kids w')))"

interpretation shrinking: world_order "shrinks kids plats" for kids plats :: "'w \<Rightarrow> held list"
  by unfold_locales (auto simp: shrinks_def)

section \<open>A reconcile of a child\<close>

lemma heldOf_eq: "heldOf m = (k, dying, fs) \<longleftrightarrow> metaKey m = k \<and> (om_DeletionTimestamp m \<noteq> None) = dying \<and> om_Finalizers m = fs"
  by (auto simp: heldOf_def)

lemma storeDocsD:
  assumes "storeDocs meta held c"
  shows "cGet c w k = Ok x \<Longrightarrow> metaKey (meta x) = k"
    and "cGet c w k = Ok x \<Longrightarrow> k \<in> fst ` set (held w) \<Longrightarrow> heldOf (meta x) \<in> set (held w)"
    and "held (fst (cDelete c w k)) = held w \<or> held (fst (cDelete c w k)) = afterDelete k (held w)"
    and "held (fst (cUpdate c w x)) = held w \<or>
        held (fst (cUpdate c w x)) = afterUpdate (metaKey (meta x)) (om_Finalizers (meta x)) (held w)"
  using assms unfolding storeDocs_def by blast+

lemma answersD:
  assumes "answers meta held c"
  shows "k \<in> fst ` set (held w) \<Longrightarrow> isOk (cGet c w k)" and "isOk (cList c w lo)"
    and "isOk (snd (cDelete c w k))" and "held (fst (cDelete c w k)) = afterDelete k (held w)"
    and "held (fst (cUpdate c w x)) = afterUpdate (metaKey (meta x)) (om_Finalizers (meta x)) (held w)"
  using assms unfolding answers_def by blast+

lemma storeDocs_get:
  assumes "storeDocs meta held c" and "(k, dying, fs) \<in> set (held w)" and "cGet c w k = Ok x"
    and "distinct (map fst (held w))"
  shows "heldOf (meta x) = (k, dying, fs)"
proof -
  have "k \<in> fst ` set (held w)"
    using assms(2) by force
  then have "heldOf (meta x) \<in> set (held w)" "fst (heldOf (meta x)) = k"
    using storeDocsD [OF assms(1)] assms(3) by (simp_all add: heldOf_def)
  then show ?thesis
    using assms(2,4) by (metis distinct_map fst_conv inj_onD)
qed

lemma delete_service_run:
  assumes found: "cGet (sa_services sd) w k = Ok x" and dying: "om_DeletionTimestamp (s_Meta x) \<noteq> None"
    and run: "ReconcileAIService sd clock now k \<lparr>rs_world = w, rs_events = [], rs_cr = ai\<rparr> = (r, t)"
  shows "rs_world t = (if aiServiceFinalizer \<in> set (om_Finalizers (s_Meta x))
    then fst (cUpdate (sa_services sd) w (x\<lparr>s_Meta := dropFinalizer aiServiceFinalizer (s_Meta x)\<rparr>)) else w)"
proof -
  have "deleteAIService sd \<lparr>rs_world = w, rs_events = [], rs_cr = x\<rparr> = (r, t)"
    using run found dying by (simp add: ReconcileAIService_def fetchA_def getA_def act_defs)
  then show ?thesis
    by (auto simp: deleteAIService_def updateA_def dropA_def noRequeue_def act_defs split: if_splits prod.splits res.splits)
qed

lemma child_step:
  assumes docs: "deletionDocs d sd K kids plats" and kid: "(k, True, fs) \<in> set (kids w)"
    and one: "distinct (map fst (kids w))"
    and run: "ReconcileAIService sd clock now k \<lparr>rs_world = w, rs_events = [], rs_cr = ai\<rparr> = (r, t)"
  defines "lifted \<equiv> afterUpdate k (filter (\<lambda>f. f \<noteq> aiServiceFinalizer) fs) (kids w)"
  shows "plats (rs_world t) = plats w \<and>
    (kids (rs_world t) = kids w \<or> aiServiceFinalizer \<in> set fs \<and> kids (rs_world t) = lifted) \<and>
    (answers s_Meta kids (pd_services d) \<and> aiServiceFinalizer \<in> set fs \<longrightarrow> kids (rs_world t) = lifted)"
proof -
  have same: "sa_services sd = pd_services d" and store: "storeDocs s_Meta kids (pd_services d)"
    using docs by (simp_all add: deletionDocs_def)
  have known: "k \<in> fst ` set (kids w)"
    using kid by force
  show ?thesis
  proof (cases "cGet (sa_services sd) w k")
    case (Ok x)
    have x: "metaKey (s_Meta x) = k" "om_DeletionTimestamp (s_Meta x) \<noteq> None" "om_Finalizers (s_Meta x) = fs"
      using storeDocs_get [OF store kid _ one] Ok same by (simp_all add: heldOf_def)
    let ?y = "x\<lparr>s_Meta := dropFinalizer aiServiceFinalizer (s_Meta x)\<rparr>"
    have y: "metaKey (s_Meta ?y) = k" "om_Finalizers (s_Meta ?y) = filter (\<lambda>f. f \<noteq> aiServiceFinalizer) fs"
      using x by (simp_all add: dropFinalizer_def metaKey_def)
    have world: "rs_world t = (if aiServiceFinalizer \<in> set fs then fst (cUpdate (pd_services d) w ?y) else w)"
      using delete_service_run [OF Ok x(2) run] x(3) same by simp
    have "kids (fst (cUpdate (pd_services d) w ?y)) = kids w \<or> kids (fst (cUpdate (pd_services d) w ?y)) = lifted"
      using storeDocsD(4) [OF store, of w ?y] unfolding y lifted_def .
    moreover have "plats (fst (cUpdate (pd_services d) w ?y)) = plats w"
      using docs unfolding deletionDocs_def by blast
    moreover have "kids (fst (cUpdate (pd_services d) w ?y)) = lifted" if "answers s_Meta kids (pd_services d)"
      using answersD(5) [OF that, of w ?y] unfolding y lifted_def .
    ultimately show ?thesis
      using world by (cases "aiServiceFinalizer \<in> set fs") simp_all
  next
    case (Err e)
    then have "rs_world t = w"
      using run by (auto simp: ReconcileAIService_def fetchA_def getA_def noRequeue_def act_defs split: if_splits)
    moreover have "\<not> answers s_Meta kids (pd_services d)"
      using Err same answersD(1) [of s_Meta kids "pd_services d" k w] known by auto
    ultimately show ?thesis by simp
  next
    case (Panic p)
    then have "rs_world t = w"
      using run by (auto simp: ReconcileAIService_def fetchA_def getA_def act_defs)
    moreover have "\<not> answers s_Meta kids (pd_services d)"
      using Panic same answersD(1) [of s_Meta kids "pd_services d" k w] known by auto
    ultimately show ?thesis by simp
  qed
qed

section \<open>A reconcile of the platform\<close>

lemma deleteServices_shrinks:
  assumes docs: "deletionDocs d sd K kids plats"
  shows "moves (shrinks kids plats) (deleteServices d xs)"
proof (induction xs)
  case (Cons x xs)
  have "shrinks kids plats w (fst (cDelete (pd_services d) w k))" for w k
  proof -
    have "storeDocs s_Meta kids (pd_services d)" "plats (fst (cDelete (pd_services d) w k)) = plats w"
      using docs unfolding deletionDocs_def by blast+
    then show ?thesis
      using storeDocsD(3) [of s_Meta kids "pd_services d" w k] pending_delete [of k "kids w"]
        delete_distinct [of "kids w" k]
      by (auto simp: shrinks_def)
  qed
  then show ?case
    using Cons by (simp add: moves_intros shrinking.moves_call)
qed (simp add: moves_intros)

text \<open>With a server that answers, every child that is listed is deleted.\<close>

lemma deleteServices_deletes:
  assumes docs: "deletionDocs d sd K kids plats" and live: "answers s_Meta kids (pd_services d)"
    and run: "deleteServices d xs s = (r, t)" and "kids (rs_world t) = kids (rs_world s)" and "x \<in> set xs"
  shows "afterDelete (metaKey (s_Meta x)) (kids (rs_world s)) = kids (rs_world s)"
  using run assms(4,5)
proof (induction xs arbitrary: s)
  case (Cons y ys)
  let ?w = "fst (cDelete (pd_services d) (rs_world s) (metaKey (s_Meta y)))"
  have gone: "isOk (snd (cDelete (pd_services d) (rs_world s) (metaKey (s_Meta y))))"
    "kids ?w = afterDelete (metaKey (s_Meta y)) (kids (rs_world s))"
    by (rule answersD [OF live])+
  have rest: "deleteServices d ys (s\<lparr>rs_world := ?w\<rparr>) = (r, t)"
    using Cons.prems(1) gone(1) by (auto simp: act_defs split: prod.splits res.splits)
  have "shrinks kids plats ?w (rs_world t)"
    using moves_D [OF deleteServices_shrinks [OF docs] rest] by simp
  then have "kids ?w = kids (rs_world s)"
    using gone(2) pending_delete [of "metaKey (s_Meta y)" "kids (rs_world s)"] Cons.prems(2)
    by (auto simp: shrinks_def)
  then show ?case
    using Cons.IH [OF rest] Cons.prems gone(2) by auto
qed simp

lemma delete_platform_run:
  assumes found: "cGet (pd_platforms d) w K = Ok p" and dying: "om_DeletionTimestamp (p_Meta p) \<noteq> None"
    and key: "metaKey (p_Meta p) = K"
    and run: "ReconcileAIPlatform d clock K \<lparr>rs_world = w, rs_events = [], rs_cr = z\<rparr> = (r, t)"
  defines "y \<equiv> p\<lparr>p_Meta := dropFinalizer aiPlatformFinalizer (p_Meta p)\<rparr>"
    and "xs \<equiv> cList (pd_services d) w \<lparr>lo_Namespace = fst K, lo_Labels = fmempty, lo_Controller = Some (snd K)\<rparr>"
  shows "if aiPlatformFinalizer \<notin> set (om_Finalizers (p_Meta p)) \<or> \<not> isOk xs then rs_world t = w
    else if xs = Ok [] then rs_world t = fst (cUpdate (pd_platforms d) w y)
    else \<exists>cs q u. xs = Ok cs \<and> deleteServices d cs \<lparr>rs_world = w, rs_events = [], rs_cr = p\<rparr> = (q, u) \<and> rs_world t = rs_world u"
proof -
  let ?s = "\<lparr>rs_world = w, rs_events = [], rs_cr = p\<rparr>"
  have start: "deletePlatform d ?s = (r, t)"
    using run found dying by (simp add: ReconcileAIPlatform_def fetchA_def getA_def act_defs)
  have list: "listChildren d p ?s = (xs, ?s)"
    using key by (auto simp: listChildren_def metaKey_def readA_def xs_def)
  show ?thesis
  proof (cases "aiPlatformFinalizer \<in> set (om_Finalizers (p_Meta p)) \<and> isOk xs")
    case False
    then show ?thesis
      using start list
      by (cases xs) (auto simp: deletePlatform_def finalizePlatform_def noRequeue_def act_defs split: if_splits)
  next
    case True
    then obtain cs where cs: "xs = Ok cs"
      by (auto simp: isOk_iff)
    obtain q u where q: "deleteServices d cs ?s = (q, u)" by fastforce
    show ?thesis
    proof (cases cs)
      case Nil
      then show ?thesis
        using start True list cs unfolding y_def
        by (auto simp: deletePlatform_def finalizePlatform_def updateA_def dropA_def noRequeue_def act_defs
            split: prod.splits res.splits)
    next
      case (Cons c rest)
      then have "rs_world t = rs_world u"
        using start True list cs q
        by (cases q) (auto simp: deletePlatform_def finalizePlatform_def act_defs simp del: deleteServices.simps)
      then show ?thesis
        using True cs q Cons by auto
    qed
  qed
qed

lemma platform_absent:
  assumes "\<And>p. cGet (pd_platforms d) w K \<noteq> Ok p"
    and run: "ReconcileAIPlatform d clock K \<lparr>rs_world = w, rs_events = [], rs_cr = z\<rparr> = (r, t)"
  shows "rs_world t = w"
  using assms
  by (cases "cGet (pd_platforms d) w K") (auto simp: ReconcileAIPlatform_def fetchA_def getA_def noRequeue_def act_defs split: if_splits)

lemma platform_step:
  assumes docs: "deletionDocs d sd K kids plats" and dying: "beingDeleted kids plats K w"
    and run: "ReconcileAIPlatform d clock K \<lparr>rs_world = w, rs_events = [], rs_cr = z\<rparr> = (r, t)"
  shows "shrinks kids plats w (rs_world t) \<or>
    (\<exists>fs. (K, True, fs) \<in> set (plats w) \<and> aiPlatformFinalizer \<in> set fs \<and> kids (rs_world t) = kids w \<and>
       plats (rs_world t) = afterUpdate K (filter (\<lambda>f. f \<noteq> aiPlatformFinalizer) fs) (plats w))"
proof (cases "\<exists>p. cGet (pd_platforms d) w K = Ok p")
  case False
  then have "rs_world t = w"
    using platform_absent [OF _ run] by blast
  then show ?thesis by (simp add: shrinks_def)
next
  case True
  then obtain p where p: "cGet (pd_platforms d) w K = Ok p" by blast
  have store: "storeDocs p_Meta plats (pd_platforms d)" and known: "K \<in> fst ` set (plats w)"
    using docs p unfolding deletionDocs_def by blast+
  let ?fs = "om_Finalizers (p_Meta p)" and ?y = "p\<lparr>p_Meta := dropFinalizer aiPlatformFinalizer (p_Meta p)\<rparr>"
  have held: "heldOf (p_Meta p) \<in> set (plats w)" and key: "metaKey (p_Meta p) = K"
    using storeDocsD [OF store] p known by blast+
  then have mark: "om_DeletionTimestamp (p_Meta p) \<noteq> None"
    using dying by (force simp: beingDeleted_def heldOf_def)
  have y: "metaKey (p_Meta ?y) = K" "om_Finalizers (p_Meta ?y) = filter (\<lambda>f. f \<noteq> aiPlatformFinalizer) ?fs"
    using key by (simp_all add: dropFinalizer_def metaKey_def)
  have stay: "kids (fst (cUpdate (pd_platforms d) w ?y)) = kids w"
    using docs unfolding deletionDocs_def by blast
  have upd: "plats (fst (cUpdate (pd_platforms d) w ?y)) = plats w \<or>
      plats (fst (cUpdate (pd_platforms d) w ?y)) = afterUpdate K (filter (\<lambda>f. f \<noteq> aiPlatformFinalizer) ?fs) (plats w)"
    using storeDocsD(4) [OF store, of w ?y] unfolding y .
  have entry: "(K, True, ?fs) \<in> set (plats w)"
    using held key mark by (simp add: heldOf_def)
  have children: "shrinks kids plats w (rs_world u)"
    if "deleteServices d cs \<lparr>rs_world = w, rs_events = [], rs_cr = p\<rparr> = (q, u)" for cs q u
    using moves_D [OF deleteServices_shrinks [OF docs] that] by simp
  have still: "shrinks kids plats w w"
    by (simp add: shrinks_def)
  have "rs_world t = w \<or> (aiPlatformFinalizer \<in> set ?fs \<and> rs_world t = fst (cUpdate (pd_platforms d) w ?y)) \<or>
      (\<exists>cs q u. deleteServices d cs \<lparr>rs_world = w, rs_events = [], rs_cr = p\<rparr> = (q, u) \<and> rs_world t = rs_world u)"
    using delete_platform_run [OF p mark key run] by (auto split: if_splits)
  then show ?thesis
  proof (elim disjE exE conjE)
    assume "rs_world t = w"
    then show ?thesis using still by simp
  next
    assume fin: "aiPlatformFinalizer \<in> set ?fs" and t: "rs_world t = fst (cUpdate (pd_platforms d) w ?y)"
    from upd show ?thesis
    proof
      assume "plats (fst (cUpdate (pd_platforms d) w ?y)) = plats w"
      then show ?thesis using stay by (simp add: shrinks_def t)
    qed (use fin stay entry t in \<open>simp, blast\<close>)
  next
    fix cs q u
    assume "deleteServices d cs \<lparr>rs_world = w, rs_events = [], rs_cr = p\<rparr> = (q, u)" and t: "rs_world t = rs_world u"
    then show ?thesis using children unfolding t by blast
  qed
qed

text \<open>With a server that answers, a platform that waits has children, all marked and all held.\<close>

lemma platform_step_answers:
  assumes docs: "deletionDocs d sd K kids plats"
    and live: "answers s_Meta kids (pd_services d)" "answers p_Meta plats (pd_platforms d)"
    and entry: "(K, True, fs) \<in> set (plats w)" and fin: "aiPlatformFinalizer \<in> set fs"
    and one: "distinct (map fst (plats w))"
    and run: "ReconcileAIPlatform d clock K \<lparr>rs_world = w, rs_events = [], rs_cr = z\<rparr> = (r, t)"
  shows "(kids w = [] \<longrightarrow> plats (rs_world t) = afterUpdate K (filter (\<lambda>f. f \<noteq> aiPlatformFinalizer) fs) (plats w)) \<and>
    (kids (rs_world t) = kids w \<longrightarrow> (\<forall>(n, dying, gs) \<in> set (kids w). dying \<and> gs \<noteq> []))"
proof -
  have store: "storeDocs p_Meta plats (pd_platforms d)"
    using docs unfolding deletionDocs_def by blast
  have "K \<in> fst ` set (plats w)"
    using entry by force
  then obtain p where p: "cGet (pd_platforms d) w K = Ok p"
    using answersD(1) [OF live(2), of K w] by (auto simp: isOk_iff)
  let ?y = "p\<lparr>p_Meta := dropFinalizer aiPlatformFinalizer (p_Meta p)\<rparr>"
  have held: "metaKey (p_Meta p) = K" "om_DeletionTimestamp (p_Meta p) \<noteq> None" "om_Finalizers (p_Meta p) = fs"
    using storeDocs_get [OF store entry p one] by (simp_all add: heldOf_eq)
  have y: "metaKey (p_Meta ?y) = K" "om_Finalizers (p_Meta ?y) = filter (\<lambda>f. f \<noteq> aiPlatformFinalizer) fs"
    using held by (simp_all add: dropFinalizer_def metaKey_def)
  obtain cs where cs: "cList (pd_services d) w \<lparr>lo_Namespace = fst K, lo_Labels = fmempty, lo_Controller = Some (snd K)\<rparr> = Ok cs"
    using answersD(2) [OF live(1), of w] unfolding isOk_iff by metis
  moreover have "\<forall>w xs. cList (pd_services d) w \<lparr>lo_Namespace = fst K, lo_Labels = fmempty, lo_Controller = Some (snd K)\<rparr> =
      Ok xs \<longrightarrow> map (heldOf \<circ> s_Meta) xs = kids w"
    using docs unfolding deletionDocs_def by (elim conjE)
  ultimately have kids: "kids w = map (heldOf \<circ> s_Meta) cs" by simp
  note outcome = delete_platform_run [OF p held(2,1) run]
  show ?thesis
  proof (cases "cs = []")
    case True
    then show ?thesis
      using outcome held(3) fin cs kids answersD(5) [OF live(2), of w ?y] y by simp
  next
    case False
    then obtain q u where q: "deleteServices d cs \<lparr>rs_world = w, rs_events = [], rs_cr = p\<rparr> = (q, u)"
      and t: "rs_world t = rs_world u"
      using outcome held(3) fin cs by auto
    have "dying \<and> gs \<noteq> []" if "kids (rs_world t) = kids w" and h: "(n, dying, gs) \<in> set (kids w)" for n dying gs
    proof -
      obtain x where x: "x \<in> set cs" "heldOf (s_Meta x) = (n, dying, gs)"
        using h kids by auto
      have "afterDelete (metaKey (s_Meta x)) (kids w) = kids w"
        using deleteServices_deletes [OF docs live(1) q _ x(1)] that(1) t by simp
      then show ?thesis
        using x(2) by (intro delete_fixed [OF _ h]) (simp add: heldOf_eq)
    qed
    moreover have "kids w \<noteq> []"
      using False kids by simp
    ultimately show ?thesis by blast
  qed
qed

lemma deletion_shrinks:
  assumes docs: "deletionDocs d sd K kids plats" and "beingDeleted kids plats K w" and "deletion_step d sd K kids w w'"
  shows "(kids w' = kids w \<and> plats w' = plats w) \<or>
      pending (kids w') + pending (plats w') < pending (kids w) + pending (plats w)"
    and "beingDeleted kids plats K w'"
proof -
  have one: "distinct (map fst (kids w))" "distinct (map fst (plats w))"
    using assms(2) by (simp_all add: beingDeleted_def)
  have fewer: "length (filter (\<lambda>f. f \<noteq> x) fs) < length fs" if "x \<in> set fs" for x :: string and fs
    using that length_filter_less [of x fs "\<lambda>f. f \<noteq> x"] by simp
  have "((kids w' = kids w \<and> plats w' = plats w) \<or>
      pending (kids w') + pending (plats w') < pending (kids w) + pending (plats w)) \<and> beingDeleted kids plats K w'"
    using assms(3)
  proof cases
    case (platform clock p r t)
    from platform_step [OF docs assms(2) platform(2)] show ?thesis
    proof (elim disjE exE conjE)
      fix fs
      assume entry: "(K, True, fs) \<in> set (plats w)" "aiPlatformFinalizer \<in> set fs"
        and new: "kids (rs_world t) = kids w"
          "plats (rs_world t) = afterUpdate K (filter (\<lambda>f. f \<noteq> aiPlatformFinalizer) fs) (plats w)"
      have "pending (plats (rs_world t)) < pending (plats w)"
        unfolding new(2) by (rule pending_update [OF entry(1) one(2) fewer [OF entry(2)]])
      then show ?thesis
        using assms(2) delete_dying [of "plats w" K] update_distinct unfolding platform(1) new beingDeleted_def by simp
    qed (use assms(2) platform(1) in \<open>auto simp: shrinks_def beingDeleted_def\<close>)
  next
    case (child k fs clock now ai q u)
    have "pending (afterUpdate k (filter (\<lambda>f. f \<noteq> aiServiceFinalizer) fs) (kids w)) < pending (kids w)"
      if "aiServiceFinalizer \<in> set fs"
      by (rule pending_update [OF child(2) one(1) fewer [OF that]])
    then show ?thesis
      using child_step [OF docs child(2) one(1) child(3)] assms(2) update_distinct [OF one(1), of k]
      unfolding child(1) beingDeleted_def by auto
  qed
  then show "(kids w' = kids w \<and> plats w' = plats w) \<or>
      pending (kids w') + pending (plats w') < pending (kids w) + pending (plats w)"
    and "beingDeleted kids plats K w'"
    by blast+
qed

lemma settled_held:
  assumes docs: "deletionDocs d sd K kids plats"
    and live: "answers s_Meta kids (pd_services d)" "answers p_Meta plats (pd_platforms d)"
    and marked: "beingDeleted kids plats K w" and settled: "settled (deletion_step d sd K kids) kids plats w"
    and entry: "(K, True, fs) \<in> set (plats w)" and fin: "aiPlatformFinalizer \<in> set fs"
  shows "kids w \<noteq> [] \<and> (\<forall>(n, dying, gs) \<in> set (kids w). dying \<and> (\<exists>f \<in> set gs. f \<noteq> aiServiceFinalizer))"
proof -
  have one: "distinct (map fst (kids w))" "distinct (map fst (plats w))"
    using marked by (simp_all add: beingDeleted_def)
  obtain r t where run: "ReconcileAIPlatform d id K \<lparr>rs_world = w, rs_events = [], rs_cr = zeroAIPlatform\<rparr> = (r, t)"
    by fastforce
  have same: "kids (rs_world t) = kids w" "plats (rs_world t) = plats w"
    using settled deletion_step.platform [OF run] unfolding settled_def by blast+
  note waits = platform_step_answers [OF docs live entry fin one(2) run]
  have "pending (afterUpdate K (filter (\<lambda>f. f \<noteq> aiPlatformFinalizer) fs) (plats w)) < pending (plats w)"
    using length_filter_less [OF fin, of "\<lambda>f. f \<noteq> aiPlatformFinalizer"]
    by (intro pending_update [OF entry one(2)]) simp
  then have some: "kids w \<noteq> []"
    using waits same(2) by auto
  have "dying \<and> (\<exists>f \<in> set gs. f \<noteq> aiServiceFinalizer)" if h: "(n, dying, gs) \<in> set (kids w)" for n dying gs
  proof -
    have held: "dying" "gs \<noteq> []"
      using waits same(1) h by auto
    obtain q u where child: "ReconcileAIService sd id 0 n \<lparr>rs_world = w, rs_events = [], rs_cr = zeroAIService\<rparr> = (q, u)"
      by fastforce
    have h': "(n, True, gs) \<in> set (kids w)"
      using h held(1) by simp
    have left: "kids (rs_world u) = kids w"
      using settled deletion_step.child [where kids = kids and w = w, OF h' child] unfolding settled_def by blast
    have "pending (afterUpdate n (filter (\<lambda>f. f \<noteq> aiServiceFinalizer) gs) (kids w)) < pending (kids w)"
      if "aiServiceFinalizer \<in> set gs"
      using length_filter_less [OF that, of "\<lambda>f. f \<noteq> aiServiceFinalizer"]
      by (intro pending_update [OF h' one(1)]) simp
    then have "aiServiceFinalizer \<notin> set gs"
      using child_step [OF docs h' one(1) child] live(1) left by auto
    then show ?thesis
      using held by (cases gs) auto
  qed
  then show ?thesis using some by blast
qed

section \<open>Termination\<close>

text \<open>
  C17: the deletion of a platform comes to an end: whatever the order in which the platform and its
  marked children are reconciled, and whatever calls fail, what the API server holds changes only
  finitely often. With a server that answers it ends only when the platform has lost the operator's
  finalizer, or when every AIService that it still controls is marked and held by a finalizer of
  somebody else.
\<close>

theorem deletion_terminates:
  assumes "deletionDocs d sd K kids plats"
  defines "step \<equiv> deletion_step d sd K kids"
  shows "wf {(w', w). beingDeleted kids plats K w \<and> step w w' \<and> (kids w', plats w') \<noteq> (kids w, plats w)} \<and>
    (\<forall>w w'. beingDeleted kids plats K w \<and> step w w' \<longrightarrow> beingDeleted kids plats K w') \<and>
    (answers s_Meta kids (pd_services d) \<and> answers p_Meta plats (pd_platforms d) \<longrightarrow>
      (\<forall>w fs. beingDeleted kids plats K w \<and> settled step kids plats w \<and> (K, True, fs) \<in> set (plats w) \<and> aiPlatformFinalizer \<in> set fs \<longrightarrow>
        kids w \<noteq> [] \<and> (\<forall>(n, dying, gs) \<in> set (kids w). dying \<and> (\<exists>f \<in> set gs. f \<noteq> aiServiceFinalizer))))"
proof (intro conjI)
  show "wf {(w', w). beingDeleted kids plats K w \<and> step w w' \<and> (kids w', plats w') \<noteq> (kids w, plats w)}"
    by (intro wf_subset [OF wf_measure [of "\<lambda>w. pending (kids w) + pending (plats w)"]])
      (auto simp: step_def dest: deletion_shrinks(1) [OF assms(1)])
  show "\<forall>w w'. beingDeleted kids plats K w \<and> step w w' \<longrightarrow> beingDeleted kids plats K w'"
    using deletion_shrinks(2) [OF assms(1)] unfolding step_def by blast
  show "answers s_Meta kids (pd_services d) \<and> answers p_Meta plats (pd_platforms d) \<longrightarrow>
      (\<forall>w fs. beingDeleted kids plats K w \<and> settled step kids plats w \<and> (K, True, fs) \<in> set (plats w) \<and> aiPlatformFinalizer \<in> set fs \<longrightarrow>
        kids w \<noteq> [] \<and> (\<forall>(n, dying, gs) \<in> set (kids w). dying \<and> (\<exists>f \<in> set gs. f \<noteq> aiServiceFinalizer)))"
    unfolding step_def by (intro impI allI) (elim conjE, rule settled_held [OF assms(1)])
qed

section \<open>A server with finalizers in memory\<close>

definition markMeta :: "objmeta \<Rightarrow> objmeta" where
  "markMeta m = m\<lparr>om_DeletionTimestamp := Some (case om_DeletionTimestamp m of None \<Rightarrow> 1 | Some t \<Rightarrow> t)\<rparr>"

definition keepMark :: "objmeta \<Rightarrow> objmeta \<Rightarrow> objmeta" where
  "keepMark old new = new\<lparr>om_DeletionTimestamp := om_DeletionTimestamp old\<rparr>"

definition storeDelete ::
  "('o \<Rightarrow> objmeta) \<Rightarrow> ((objmeta \<Rightarrow> objmeta) \<Rightarrow> 'o \<Rightarrow> 'o) \<Rightarrow> nname \<Rightarrow> 'o list \<Rightarrow> 'o list" where
  "storeDelete meta onMeta k xs = concat (map (\<lambda>x.
     if metaKey (meta x) \<noteq> k then [x] else if om_Finalizers (meta x) = [] then [] else [onMeta markMeta x]) xs)"

definition storeUpdate ::
  "('o \<Rightarrow> objmeta) \<Rightarrow> ((objmeta \<Rightarrow> objmeta) \<Rightarrow> 'o \<Rightarrow> 'o) \<Rightarrow> 'o \<Rightarrow> 'o list \<Rightarrow> 'o list" where
  "storeUpdate meta onMeta x xs = concat (map (\<lambda>y.
     if metaKey (meta y) \<noteq> metaKey (meta x) then [y]
     else if om_DeletionTimestamp (meta y) \<noteq> None \<and> om_Finalizers (meta x) = [] then []
     else [onMeta (keepMark (meta y)) x]) xs)"

lemma store_held:
  assumes "\<And>f x. meta (onMeta f x) = f (meta x)"
  shows "map (heldOf \<circ> meta) (storeDelete meta onMeta k xs) = afterDelete k (map (heldOf \<circ> meta) xs)"
    and "map (heldOf \<circ> meta) (storeUpdate meta onMeta x xs) =
      afterUpdate (metaKey (meta x)) (om_Finalizers (meta x)) (map (heldOf \<circ> meta) xs)"
  by (induction xs) (auto simp: storeDelete_def storeUpdate_def heldOf_def markMeta_def keepMark_def metaKey_def assms)

definition serviceStore :: "(AIService list \<times> AIPlatform list, AIService) client" where
  "serviceStore = offClient
     \<lparr>cGet := \<lambda>w. memGet (metaKey \<circ> s_Meta) (fst w), cList := \<lambda>w _. Ok (fst w),
      cDelete := \<lambda>w k. ((storeDelete s_Meta s_Meta_update k (fst w), snd w), Ok ()),
      cUpdate := \<lambda>w x. ((storeUpdate s_Meta s_Meta_update x (fst w), snd w), Ok x)\<rparr>"

definition platformStore :: "(AIService list \<times> AIPlatform list, AIPlatform) client" where
  "platformStore = offClient
     \<lparr>cGet := \<lambda>w. memGet (metaKey \<circ> p_Meta) (snd w), cList := \<lambda>w _. Ok (snd w),
      cDelete := \<lambda>w k. ((fst w, storeDelete p_Meta p_Meta_update k (snd w)), Ok ()),
      cUpdate := \<lambda>w x. ((fst w, storeUpdate p_Meta p_Meta_update x (snd w)), Ok x)\<rparr>"

definition storePlat :: "(AIService list \<times> AIPlatform list) platDeps" where
  "storePlat = offPlat\<lparr>pd_services := serviceStore, pd_platforms := platformStore\<rparr>"

definition storeSaia :: "(AIService list \<times> AIPlatform list) saiaDeps" where
  "storeSaia = offDeps\<lparr>sa_services := serviceStore, sa_platforms := platformStore\<rparr>"

definition heldServices :: "AIService list \<times> AIPlatform list \<Rightarrow> held list" where
  "heldServices w = map (heldOf \<circ> s_Meta) (fst w)"

definition heldPlatforms :: "AIService list \<times> AIPlatform list \<Rightarrow> held list" where
  "heldPlatforms w = map (heldOf \<circ> p_Meta) (snd w)"

lemma memGet_held:
  assumes "memGet (metaKey \<circ> meta) xs k = Ok x"
  shows "metaKey (meta x) = k" "heldOf (meta x) \<in> set (map (heldOf \<circ> meta) xs)" "k \<in> fst ` set (map (heldOf \<circ> meta) xs)"
proof -
  have x: "x \<in> set xs \<and> metaKey (meta x) = k"
    using assms by (auto simp: memGet_def find_Some_iff split: option.splits)
  then show "metaKey (meta x) = k" "heldOf (meta x) \<in> set (map (heldOf \<circ> meta) xs)" by auto
  then show "k \<in> fst ` set (map (heldOf \<circ> meta) xs)"
    unfolding heldOf_def by force
qed

lemma memGet_known: "k \<in> fst ` set (map (heldOf \<circ> meta) xs) \<Longrightarrow> isOk (memGet (metaKey \<circ> meta) xs k)"
  by (cases "find (\<lambda>x. metaKey (meta x) = k) xs") (auto simp: memGet_def find_None_iff heldOf_def)

lemma store_docs: "deletionDocs storePlat storeSaia K heldServices heldPlatforms"
proof -
  have "storeDocs s_Meta heldServices serviceStore" "storeDocs p_Meta heldPlatforms platformStore"
    unfolding storeDocs_def
    by (auto simp: serviceStore_def platformStore_def heldServices_def heldPlatforms_def store_held dest: memGet_held)
  moreover have "k \<in> fst ` set (heldPlatforms w)" if "cGet platformStore w k = Ok x" for w k x
    unfolding heldPlatforms_def
    by (rule memGet_held(3)) (use that in \<open>simp add: platformStore_def\<close>)
  ultimately show ?thesis
    unfolding deletionDocs_def
    by (simp add: storePlat_def storeSaia_def) (simp add: serviceStore_def platformStore_def heldServices_def heldPlatforms_def)
qed

lemma store_answers: "answers s_Meta heldServices serviceStore" "answers p_Meta heldPlatforms platformStore"
  unfolding answers_def
  by (auto simp: serviceStore_def platformStore_def heldServices_def heldPlatforms_def store_held memGet_known)

text \<open>A marked platform that waits for a child without finalizers is not settled.\<close>

theorem deletion_terminates_witness:
  "let step = deletion_step storePlat storeSaia (''ns'', ''p'') heldServices;
       w = ([failedChild], [dyingPlatform])
   in wf {(w2, w1). beingDeleted heldServices heldPlatforms (''ns'', ''p'') w1 \<and> step w1 w2 \<and>
          (heldServices w2, heldPlatforms w2) \<noteq> (heldServices w1, heldPlatforms w1)} \<and>
      beingDeleted heldServices heldPlatforms (''ns'', ''p'') w \<and> \<not> settled step heldServices heldPlatforms w"
proof -
  let ?w = "([failedChild], [dyingPlatform])"
  have plat: "heldPlatforms ?w = [((''ns'', ''p''), True, [''x'', aiPlatformFinalizer])]"
    by (simp add: heldPlatforms_def heldOf_def dyingPlatform_def newMeta_def metaKey_def)
  have kid: "heldServices ?w = [(([], []), False, [])]"
    by (simp add: heldServices_def heldOf_def failedChild_def zero_defs newMeta_def metaKey_def)
  have marked: "beingDeleted heldServices heldPlatforms (''ns'', ''p'') ?w"
    by (simp add: beingDeleted_def plat kid)
  have live: "answers s_Meta heldServices (pd_services storePlat) \<and> answers p_Meta heldPlatforms (pd_platforms storePlat)"
    by (simp add: storePlat_def store_answers)
  have "\<not> settled (deletion_step storePlat storeSaia (''ns'', ''p'') heldServices) heldServices heldPlatforms ?w"
    using deletion_terminates [OF store_docs [of "(''ns'', ''p'')"], THEN conjunct2, THEN conjunct2,
        THEN mp, OF live, rule_format, of ?w "[''x'', aiPlatformFinalizer]"] marked plat kid
    by auto
  then show ?thesis
    using deletion_terminates [OF store_docs [of "(''ns'', ''p'')"], THEN conjunct1] marked by (simp add: Let_def)
qed

end
