(* ===== verification/Answers.thy ===== *)
theory Answers
  imports System
begin

text \<open>
  What a reconcile may ask of its surroundings to get through: owner references that can be set, an
  API server that answers reads and accepts the objects that are sent to it, and kinds that are
  kept apart. Nothing here says what the server makes of an object that it accepts, so it may fill
  in defaults.
\<close>

section \<open>A part of the cluster that is as before\<close>

definition sameBy :: "('w \<Rightarrow> 'r) \<Rightarrow> 'w \<Rightarrow> 'w \<Rightarrow> bool" where
  "sameBy g w w' \<longleftrightarrow> g w' = g w"

interpretation untouched: world_order "sameBy g" for g
  by unfold_locales (simp_all add: sameBy_def)

lemma within_part: "within (sameBy g) c \<Longrightarrow> (\<And>w w'. g w' = g w \<Longrightarrow> h w' = h w) \<Longrightarrow> within (sameBy h) c"
  unfolding within_def sameBy_def by blast

section \<open>Owner references\<close>

text \<open>
  \<open>SetOwnerReference\<close> refuses an object of another namespace, \<open>SetControllerReference\<close> also one that
  another object controls (its \<open>AlreadyOwnedError\<close>). Neither panics.
\<close>

definition unclaimed :: "objmeta \<Rightarrow> objmeta \<Rightarrow> bool" where
  "unclaimed owner m \<longleftrightarrow> (\<forall>r \<in> set (om_OwnerReferences m). ow_Controller r \<longrightarrow> ow_UID r = om_UID owner \<and> ow_Name r = om_Name owner)"

definition ownerDocs :: "set_owner \<Rightarrow> bool" where
  "ownerDocs f \<longleftrightarrow> setOwnerDocs f \<and> (\<forall>owner m x. f owner m \<noteq> Panic x) \<and>
     (\<forall>owner m. om_Namespace m = om_Namespace owner \<longrightarrow> isOk (f owner m))"

definition controllerDocs :: "set_owner \<Rightarrow> bool" where
  "controllerDocs f \<longleftrightarrow> setOwnerDocs f \<and> (\<forall>owner m x. f owner m \<noteq> Panic x) \<and>
     (\<forall>owner m. om_Namespace m = om_Namespace owner \<longrightarrow> unclaimed owner m \<longrightarrow> isOk (f owner m))"

lemma ownerDocs_set:
  assumes "ownerDocs f" and "om_Namespace m = om_Namespace owner"
  obtains m' where "f owner m = Ok m'" "metaKey m' = metaKey m"
proof -
  obtain m' where "f owner m = Ok m'"
    using assms unfolding ownerDocs_def isOk_iff by blast
  moreover have "setOwnerDocs f"
    using assms(1) by (simp add: ownerDocs_def)
  ultimately show ?thesis
    using that setOwnerDocsD(1) by blast
qed

lemma controllerDocs_set:
  assumes "controllerDocs f" and "om_Namespace m = om_Namespace owner" and "unclaimed owner m"
  obtains m' where "f owner m = Ok m'" "metaKey m' = metaKey m"
proof -
  obtain m' where "f owner m = Ok m'"
    using assms unfolding controllerDocs_def isOk_iff by blast
  moreover have "setOwnerDocs f"
    using assms(1) by (simp add: controllerDocs_def)
  ultimately show ?thesis
    using that setOwnerDocsD(1) by blast
qed

text \<open>An object that the run makes anew has no owner yet.\<close>

lemma newMeta_unclaimed: "unclaimed owner (newMeta n ns)" "unclaimed owner ((newMeta n ns)\<lparr>om_Labels := l\<rparr>)"
  by (simp_all add: unclaimed_def newMeta_def)

lemma controllerDocs_new:
  assumes "controllerDocs f"
  obtains m where "f owner (newMeta n (om_Namespace owner)) = Ok m" "metaKey m = (om_Namespace owner, n)"
  by (rule controllerDocs_set [OF assms, of "newMeta n (om_Namespace owner)" owner])
    (simp_all add: newMeta_unclaimed metaKey_def)

section \<open>An API server that answers\<close>

text \<open>
  Every read finds the object or reports that there is none; and what \<open>CreateOrUpdate\<close> sends for the
  object \<open>x\<close>, the callback's result on the object that is there or on \<open>x\<close> itself, is accepted.
\<close>

definition replies :: "('w, 'o) client \<Rightarrow> bool" where
  "replies c \<longleftrightarrow> (\<forall>w k. isOk (cGet c w k) \<or> (\<exists>e. cGet c w k = Err e \<and> isNotFound e))"

definition accepts :: "('o \<Rightarrow> nname) \<Rightarrow> ('w, 'o) client \<Rightarrow> 'o \<Rightarrow> ('o \<Rightarrow> 'o res) \<Rightarrow> bool" where
  "accepts key c x f \<longleftrightarrow>
     (\<forall>w cur new. cGet c w (key x) = Ok cur \<longrightarrow> f cur = Ok new \<longrightarrow> isOk (snd (cUpdate c w new))) \<and>
     (\<forall>w new. \<not> isOk (cGet c w (key x)) \<longrightarrow> f x = Ok new \<longrightarrow> isOk (snd (cCreate c w new)))"

abbreviation keysKept :: "('o \<Rightarrow> nname) \<Rightarrow> ('w, 'o) client \<Rightarrow> bool" where
  "keysKept key c \<equiv> clientDocs key (\<lambda>_. ()) c"

lemma replies_get:
  assumes "replies c"
  obtains x where "cGet c w k = Ok x" | e where "cGet c w k = Err e" "isNotFound e"
  using assms unfolding replies_def isOk_iff by metis

lemma accepts_update:
  assumes "accepts key c x f" and "cGet c w (key x) = Ok cur" and "f cur = Ok new"
  obtains w' y where "cUpdate c w new = (w', Ok y)"
  using assms unfolding accepts_def isOk_iff by (metis prod.collapse)

lemma accepts_create:
  assumes "accepts key c x f" and "cGet c w (key x) = Err e" and "f x = Ok new"
  obtains w' y where "cCreate c w new = (w', Ok y)"
proof -
  have "\<not> isOk (cGet c w (key x))"
    using assms(2) by simp
  then have "isOk (snd (cCreate c w new))"
    using assms(1,3) unfolding accepts_def by blast
  then show ?thesis
    using that unfolding isOk_iff by (metis prod.collapse)
qed

text \<open>So a \<open>CreateOrUpdate\<close> whose callback succeeds on what it is given succeeds.\<close>

lemma upsert_accepted:
  assumes docs: "keysKept key c" and ans: "replies c" and acc: "accepts key c x f"
    and stored: "\<And>cur. cGet c w (key x) = Ok cur \<Longrightarrow> key cur = key x \<Longrightarrow> \<exists>y. f cur = Ok y \<and> key y = key x"
    and fresh: "\<exists>y. f x = Ok y \<and> key y = key x"
  shows "\<exists>w' y. cCreateOrUpdate c w x f = (w', Ok y) \<and> key y = key x"
proof -
  have spec: "createOrUpdateSpec key c" and vis: "writeVisible key (\<lambda>_. ()) c"
    using docs by (simp_all add: clientDocs_def)
  show ?thesis
  proof (rule replies_get [OF ans, of w "key x"])
    fix cur assume cur: "cGet c w (key x) = Ok cur"
    have key: "key cur = key x"
      using clientDocs_get [OF docs cur] .
    obtain new where new: "f cur = Ok new" "key new = key x"
      using stored [OF cur key] by blast
    obtain w' y where up: "cUpdate c w new = (w', Ok y)"
      by (rule accepts_update [OF acc cur new(1)])
    then have "key y = key new"
      using writeVisibleD(2) [OF vis] by blast
    then show ?thesis
      using spec cur new up key unfolding createOrUpdateSpec_def by (cases "new = cur") auto
  next
    fix e assume e: "cGet c w (key x) = Err e" "isNotFound e"
    obtain new where new: "f x = Ok new" "key new = key x"
      using fresh by blast
    obtain w' y where up: "cCreate c w new = (w', Ok y)"
      by (rule accepts_create [OF acc e(1) new(1)])
    then have "key y = key new"
      using writeVisibleD(2) [OF vis] by blast
    then show ?thesis
      using spec e new up unfolding createOrUpdateSpec_def by auto
  qed
qed

section \<open>A cluster of several kinds\<close>

text \<open>The client of one kind, where the cluster keeps the kinds apart.\<close>

definition through :: "('v \<Rightarrow> 'w \<Rightarrow> 'w) \<Rightarrow> 'w \<Rightarrow> 'v \<times> 'a \<Rightarrow> 'w \<times> 'a" where
  "through put w r = (put (fst r) w, snd r)"

definition fieldClient :: "('w \<Rightarrow> 'v) \<Rightarrow> ('v \<Rightarrow> 'w \<Rightarrow> 'w) \<Rightarrow> ('v, 'o) client \<Rightarrow> ('w, 'o) client" where
  "fieldClient get put c =
     \<lparr>cGet = \<lambda>w. cGet c (get w), cList = \<lambda>w. cList c (get w),
      cCreate = \<lambda>w x. through put w (cCreate c (get w) x), cUpdate = \<lambda>w x. through put w (cUpdate c (get w) x),
      cStatusUpdate = \<lambda>w x. through put w (cStatusUpdate c (get w) x),
      cDelete = \<lambda>w k. through put w (cDelete c (get w) k),
      cCreateOrUpdate = \<lambda>w x f. through put w (cCreateOrUpdate c (get w) x f)\<rparr>"

lemma fieldClient_docs:
  assumes "\<And>v w. get (put v w) = v" "\<And>w. put (get w) w = w" and docs: "clientDocs key u c"
  shows "clientDocs key u (fieldClient get put c)"
  unfolding clientDocs_def
proof (intro conjI)
  have vis: "writeVisible key u c" and spec: "createOrUpdateSpec key c"
    using docs by (simp_all add: clientDocs_def)
  show "writeVisible key u (fieldClient get put c)"
    unfolding writeVisible_def
  proof (intro allI impI)
    fix w x w' y
    assume "cCreate (fieldClient get put c) w x = (w', Ok y) \<or> cUpdate (fieldClient get put c) w x = (w', Ok y)"
    then obtain v where "cCreate c (get w) x = (v, Ok y) \<or> cUpdate c (get w) x = (v, Ok y)" "w' = put v w"
      by (fastforce simp: fieldClient_def through_def prod_eq_iff)
    with writeVisibleD [OF vis this(1)] show "cGet (fieldClient get put c) w' (key x) = Ok y \<and> key y = key x \<and> u y = u x"
      using assms(1) by (simp add: fieldClient_def)
  qed
  show "createOrUpdateSpec key (fieldClient get put c)"
    using spec assms(2) unfolding createOrUpdateSpec_def
    by (simp add: fieldClient_def through_def split: res.split)
  show "\<forall>w k x. cGet (fieldClient get put c) w k = Ok x \<longrightarrow> key x = k"
    using docs by (simp add: fieldClient_def clientDocs_def)
qed

lemma fieldClient_frame:
  "(\<And>v w. get (put v w) = v) \<Longrightarrow> keyFrame key c \<Longrightarrow> keyFrame key (fieldClient get put c)"
  unfolding keyFrame_def by (fastforce simp: fieldClient_def through_def prod_eq_iff)

lemma fieldClient_within:
  "(\<And>v w. g (put v w) = g w) \<Longrightarrow> within (sameBy g) (fieldClient get put c)"
  by (simp add: within_def sameBy_def fieldClient_def through_def)

lemma client_gets:
  "cGet offClient w = (\<lambda>_. Err (ApiErr OtherAPI ''unavailable''))" "cGet (fieldClient get put c) w = cGet c (get w)"
  "cList (fieldClient get put c) w = cList c (get w)"
  by (simp_all add: offClient_def offline_def fieldClient_def)

lemma fieldClient_replies: "replies c \<Longrightarrow> replies (fieldClient get put c)"
  by (simp add: replies_def client_gets)

lemma fieldClient_accepts: "accepts key c x f \<Longrightarrow> accepts key (fieldClient get put c) x f"
  by (simp add: accepts_def fieldClient_def through_def)

section \<open>Servers in memory\<close>

lemma memClient_replies: "replies (memClient key sel)"
  unfolding replies_def isOk_iff using memGet_cases by (force simp: memClient_def)

lemma mem_accepts:
  "isOk (memGet key w (key x)) \<Longrightarrow> isOk (snd (memUpdate key w x))"
  "\<not> isOk (memGet key w (key x)) \<Longrightarrow> isOk (snd (memCreate key w x))"
  by (auto simp: memGet_def memUpdate_def memCreate_def split: option.splits)

lemma memClient_accepts:
  assumes "\<And>y z. f y = Ok z \<Longrightarrow> key z = key y"
  shows "accepts key (memClient key sel) x f"
  unfolding accepts_def memClient_def client.select_convs
proof (intro conjI allI impI)
  fix w cur new assume "memGet key w (key x) = Ok cur" "f cur = Ok new"
  then show "isOk (snd (memUpdate key w new))"
    using assms [of cur new] memGet_key [of key w "key x" cur] mem_accepts(1) [of key w new] by simp
next
  fix w new assume "\<not> isOk (memGet key w (key x))" "f x = Ok new"
  then show "isOk (snd (memCreate key w new))"
    using assms [of x new] mem_accepts(2) [of key w new] by simp
qed

lemma defaultingClient_replies: "replies (defaultingClient key g)"
  unfolding replies_def
proof (intro allI)
  fix w k
  show "isOk (cGet (defaultingClient key g) w k) \<or> (\<exists>e. cGet (defaultingClient key g) w k = Err e \<and> isNotFound e)"
    using memGet_cases [of key w k] by (auto simp: defaultingClient_def)
qed

lemma defaultingClient_accepts:
  assumes "\<And>y z. f y = Ok z \<Longrightarrow> key z = key y" and "\<And>y. key (g y) = key y"
  shows "accepts key (defaultingClient key g) x f"
  unfolding accepts_def defaultingClient_def client.select_convs
proof (intro conjI allI impI)
  fix w cur new assume "bindR (memGet key w (key x)) (\<lambda>x. Ok (g x)) = Ok cur" "f cur = Ok new"
  then obtain y where "memGet key w (key x) = Ok y" "f (g y) = Ok new"
    by (auto simp: bindR_Ok_iff)
  then show "isOk (snd (memUpdate key w (g new)))"
    using assms(1) [of "g y" new] assms(2) memGet_key [of key w "key x" y] mem_accepts(1) [of key w "g new"] by simp
next
  fix w new assume "\<not> isOk (bindR (memGet key w (key x)) (\<lambda>x. Ok (g x)))" "f x = Ok new"
  then show "isOk (snd (memCreate key w (g new)))"
    using assms(1) [of x new] assms(2) mem_accepts(2) [of key w "g new"] memGet_cases [of key w "key x"] by auto
qed

text \<open>Setters that refuse what the documented ones refuse.\<close>

definition ownerRef :: "objmeta \<Rightarrow> bool \<Rightarrow> owner_ref" where
  "ownerRef owner b = \<lparr>ow_APIVersion = [], ow_Kind = [], ow_Name = om_Name owner, ow_UID = om_UID owner, ow_Controller = b\<rparr>"

definition ownIn :: "bool \<Rightarrow> set_owner" where
  "ownIn b owner m =
     (if om_Namespace m \<noteq> om_Namespace owner then Err (Errorf ''cross-namespace owner references are disallowed'')
      else if b \<and> \<not> unclaimed owner m then Err (Errorf ''already owned by another controller'')
      else Ok (m\<lparr>om_OwnerReferences :=
             filter (\<lambda>r. ow_UID r \<noteq> om_UID owner) (om_OwnerReferences m) @ [ownerRef owner b]\<rparr>))"

lemma ownIn_docs: "setOwnerDocs (ownIn b)" "ownerDocs (ownIn False)" "controllerDocs (ownIn True)"
  by (auto simp: setOwnerDocs_def ownerDocs_def controllerDocs_def ownIn_def ownerRef_def)

end
