(* ===== verification/Progress.thy ===== *)
theory Progress
  imports Answers
begin

text \<open>
  What a reconcile of the SAIA feature can be waiting for. When the API server answers, accepts what
  the run sends and nobody else controls the config maps, no stage of a service whose spec validation
  accepts fails on its own: a run succeeds, or it names the certificate or the schema job that has
  to be ready first.
\<close>

section \<open>What the stages read of the object\<close>

text \<open>The status matters for the job on record only.\<close>

abbreviation "stat st ai \<equiv> ai\<lparr>s_Status := st\<rparr>"

lemma status_tls [simp]: "operatorTLS (stat st ai) = operatorTLS ai"
  by (simp add: operatorTLS_def)

lemma status_pod [simp]:
  "saiaEnv (stat st ai) = saiaEnv ai" "saiaVolumes (stat st ai) = saiaVolumes ai" "saiaMounts (stat st ai) = saiaMounts ai"
  "saiaContainerPorts (stat st ai) = saiaContainerPorts ai" "saiaPorts (stat st ai) = saiaPorts ai"
  "saiaSelector (stat st ai) = saiaSelector ai" "saiaLabels (stat st ai) = saiaLabels ai"
  "saiaAnnotations (stat st ai) = saiaAnnotations ai"
  by (simp_all add: saiaEnv_def saiaVolumes_def saiaMounts_def saiaContainerPorts_def saiaPorts_def saiaSelector_def
      saiaLabels_def saiaAnnotations_def Let_def)

lemma status_irrelevant [simp]:
  "mutateDeployment d (stat st ai) = mutateDeployment d ai"
  "typedPorts tpl (stat st ai) = typedPorts tpl ai"
  "monitorSpec (stat st ai) = monitorSpec ai"
  "certSpecFor (stat st ai) = certSpecFor ai"
  by (simp_all add: fun_eq_iff mutateDeployment_def typedPorts_def monitorSpec_def certSpecFor_def saiaContainer_def
      saiaSortedEnv_def split: option.split)

section \<open>Validation again\<close>

text \<open>With the same reads an action that succeeded does the same to the object again.\<close>

definition repeats ::
  "('w, AIService, unit) act \<Rightarrow> ('w, AIService) rstate \<Rightarrow> ('w, AIService) rstate \<Rightarrow> 'w \<Rightarrow> bool" where
  "repeats m s t w \<longleftrightarrow>
     (\<forall>st es. \<exists>es'. m \<lparr>rs_world = w, rs_events = es, rs_cr = stat st (rs_cr s)\<rparr> =
        (Ok (), \<lparr>rs_world = w, rs_events = es', rs_cr = stat st (rs_cr t)\<rparr>))"

lemma repeatsI:
  "(\<And>st es. \<exists>es'. m \<lparr>rs_world = w, rs_events = es, rs_cr = stat st (rs_cr s)\<rparr> =
      (Ok (), \<lparr>rs_world = w, rs_events = es', rs_cr = stat st (rs_cr t)\<rparr>)) \<Longrightarrow> repeats m s t w"
  by (simp add: repeats_def)

lemma repeats_then:
  assumes "repeats m s u w" and "repeats k u t w"
  shows "repeats (thenA m k) s t w"
proof (rule repeatsI)
  fix st es
  obtain es1 where "m \<lparr>rs_world = w, rs_events = es, rs_cr = stat st (rs_cr s)\<rparr> =
      (Ok (), \<lparr>rs_world = w, rs_events = es1, rs_cr = stat st (rs_cr u)\<rparr>)"
    using assms(1) unfolding repeats_def by blast
  moreover obtain es2 where "k \<lparr>rs_world = w, rs_events = es1, rs_cr = stat st (rs_cr u)\<rparr> =
      (Ok (), \<lparr>rs_world = w, rs_events = es2, rs_cr = stat st (rs_cr t)\<rparr>)"
    using assms(2) unfolding repeats_def by blast
  ultimately show "\<exists>es'. thenA m k \<lparr>rs_world = w, rs_events = es, rs_cr = stat st (rs_cr s)\<rparr> =
      (Ok (), \<lparr>rs_world = w, rs_events = es', rs_cr = stat st (rs_cr t)\<rparr>)"
    by (simp add: act_defs)
qed

lemma repeats_modSpec: "modSpec f s = (Ok (), t) \<Longrightarrow> repeats (modSpec f) s t w"
  by (auto intro!: repeatsI simp: modSpec_def modCR_def)

definition sameReads :: "'w saiaDeps \<Rightarrow> 'w \<Rightarrow> 'w \<Rightarrow> bool" where
  "sameReads d w w' \<longleftrightarrow>
     cGet (sa_platforms d) w' = cGet (sa_platforms d) w \<and> cGet (sa_secrets d) w' = cGet (sa_secrets d) w \<and>
     sa_standalones d w' = sa_standalones d w \<and> sa_indexers d w' = sa_indexers d w"

lemma repeats_resolve:
  assumes "resolvePlatform d s = (Ok (), t)" and "sameReads d (rs_world s) w"
  shows "repeats (resolvePlatform d) s t w"
proof (cases "ref_Name (as_AIPlatformRef (s_Spec (rs_cr s))) = []")
  case True
  then have "t = s" using resolvePlatform_Ok [OF assms(1)] by simp
  then show ?thesis
    using True by (auto intro!: repeatsI simp: resolvePlatform_def act_defs)
next
  case False
  then obtain p where "cGet (sa_platforms d) (rs_world s)
      (ref_Namespace (as_AIPlatformRef (s_Spec (rs_cr s))), ref_Name (as_AIPlatformRef (s_Spec (rs_cr s)))) = Ok p"
    "validateAIPlatformReady p = Ok ()" "validateVectorDatabaseReady p = Ok ()"
    "t = s\<lparr>rs_cr := (rs_cr s)\<lparr>s_Spec := fillURLs p (s_Spec (rs_cr s))\<rparr>\<rparr>"
    using resolvePlatform_Ok [OF assms(1)] by auto
  then show ?thesis
    using False assms(2)
    by (auto intro!: repeatsI simp: resolvePlatform_def getAIPlatform_def getA_def onErr_def modSpec_def sameReads_def act_defs)
qed

lemma repeats_require:
  assumes "requireURLs s = (Ok (), t)"
  shows "repeats requireURLs s t w"
  using requireURLs_Ok [OF assms] by (auto intro!: repeatsI simp: requireURLs_def act_defs)

lemma repeats_enrich:
  assumes "enrichSplunk d s = (Ok (), t)" and "sameReads d (rs_world s) w"
  shows "repeats (enrichSplunk d) s t w"
proof -
  have "cGet (sa_secrets d) w = cGet (sa_secrets d) (rs_world s)" "sa_standalones d w = sa_standalones d (rs_world s)"
    "sa_indexers d w = sa_indexers d (rs_world s)"
    using assms(2) by (simp_all add: sameReads_def)
  then show ?thesis
    using assms(1) by (auto intro!: repeatsI simp: enrichSplunk_def Let_def split: prod.splits)
qed

lemma repeats_rest:
  assumes run: "validateRest d s = (Ok (), t)" and "sameReads d (rs_world s) w"
  shows "repeats (validateRest d) s t w"
proof -
  let ?f = "\<lambda>sp. sp\<lparr>as_Resources := defaultResources (as_Resources sp)\<rparr>"
  let ?silent = "\<lambda>s. sc_Endpoint (as_SplunkConfiguration (s_Spec (rs_cr s))) = [] \<and>
      ref_Name (sc_SplunkCustomResourceRef (as_SplunkConfiguration (s_Spec (rs_cr s)))) = []"
  let ?g = "whenA (as_Replicas (s_Spec (rs_cr s)) = 0) (modSpec (\<lambda>sp. sp\<lparr>as_Replicas := 1\<rparr>))"
  let ?h = "if ?silent s then warnA ''SplunkConfigMissing'' ''Splunk configuration is missing assuming no logging''
      else enrichSplunk d"
  obtain u v where u: "modSpec ?f s = (Ok (), u)" and path: "os_Path (as_TaskVolume (s_Spec (rs_cr s))) \<noteq> []"
    and v: "?g u = (Ok (), v)" and h: "?h v = (Ok (), t)"
    using run by (auto simp: validateRest_def modSpec_def act_Ok_iff split: if_splits)
  have u': "u = s\<lparr>rs_cr := (rs_cr s)\<lparr>s_Spec := ?f (s_Spec (rs_cr s))\<rparr>\<rparr>"
    using u by (simp add: modSpec_def modCR_def)
  have world: "rs_world v = rs_world s"
    using v u' by (auto simp: whenA_def modSpec_def act_defs split: if_splits)
  have "repeats ?g u v w"
  proof (cases "as_Replicas (s_Spec (rs_cr s)) = 0")
    case True
    then show ?thesis using repeats_modSpec v by (simp add: whenA_def)
  qed (use v in \<open>simp add: whenA_def retA_def repeats_def\<close>)
  moreover have "repeats ?h v t w"
  proof (cases "?silent s")
    case True
    then show ?thesis using h by (auto simp: warnA_def emitA_def repeats_def)
  next
    case False
    have rich: "enrichSplunk d v = (Ok (), t)" using h False by (simp only: if_False)
    have "repeats (enrichSplunk d) v t w"
      by (rule repeats_enrich [OF rich]) (simp add: world assms(2))
    then show ?thesis
      using False by (simp only: if_False)
  qed
  ultimately have "repeats (thenA (modSpec ?f) (thenA ?g ?h)) s t w"
    by (intro repeats_then) (rule repeats_modSpec [OF u])
  moreover have "validateRest d \<lparr>rs_world = w, rs_events = es, rs_cr = stat st (rs_cr s)\<rparr> =
      thenA (modSpec ?f) (thenA ?g ?h) \<lparr>rs_world = w, rs_events = es, rs_cr = stat st (rs_cr s)\<rparr>" for st es
    using path by (simp add: validateRest_def modSpec_def act_defs)
  ultimately show ?thesis
    by (simp add: repeats_def)
qed

lemma repeats_validate:
  assumes run: "validateAIService d s = (Ok (), t)" and "sameReads d (rs_world s) w"
  shows "repeats (validateAIService d) s t w"
proof -
  let ?f = "\<lambda>sp. sp\<lparr>as_ServiceTemplate := cleanServiceTemplate (as_ServiceTemplate sp)\<rparr>"
  obtain u v x where env: "sa_getenv d ''RELATED_IMAGE_POST_INSTALL_HOOK'' \<noteq> []"
    and u: "modSpec ?f s = (Ok (), u)"
    and target: "\<not> (ref_Name (as_AIPlatformRef (s_Spec (rs_cr s))) = [] \<and> as_AIPlatformUrl (s_Spec (rs_cr s)) = [])"
    and v: "resolvePlatform d u = (Ok (), v)" and x: "requireURLs v = (Ok (), x)" and t: "validateRest d x = (Ok (), t)"
    using run by (auto simp: validateAIService_def modSpec_def act_Ok_iff split: if_splits)
  have worlds: "rs_world u = rs_world s" "rs_world v = rs_world u" "x = v"
    using u resolvePlatform_Ok [OF v] requireURLs_Ok [OF x] by (auto simp: modSpec_def modCR_def split: if_splits)
  have "repeats (thenA (modSpec ?f) (thenA (resolvePlatform d) (thenA requireURLs (validateRest d)))) s t w"
    using assms(2) worlds
    by (intro repeats_then [OF repeats_modSpec [OF u]] repeats_then [OF repeats_resolve [OF v]]
        repeats_then [OF repeats_require [OF x]] repeats_rest [OF t]) simp_all
  moreover have "validateAIService d \<lparr>rs_world = w, rs_events = es, rs_cr = stat st (rs_cr s)\<rparr> =
      thenA (modSpec ?f) (thenA (resolvePlatform d) (thenA requireURLs (validateRest d)))
        \<lparr>rs_world = w, rs_events = es, rs_cr = stat st (rs_cr s)\<rparr>" for st es
    using env target by (auto simp: validateAIService_def modSpec_def act_defs)
  ultimately show ?thesis
    by (simp add: repeats_def)
qed


lemma validate_facts:
  assumes run: "validateAIService d s = (Ok (), t)"
  shows "rs_world t = rs_world s \<and> as_VectorDbUrl (s_Spec (rs_cr t)) \<noteq> [] \<and>
    as_ServiceAccountName (s_Spec (rs_cr t)) = as_ServiceAccountName (s_Spec (rs_cr s)) \<and>
    s_Status (rs_cr t) = s_Status (rs_cr s) \<and> s_Meta (rs_cr t) = s_Meta (rs_cr s) \<and>
    as_MTLS (s_Spec (rs_cr t)) = as_MTLS (s_Spec (rs_cr s))"
proof -
  let ?Q = "\<lambda>ai. as_ServiceAccountName (s_Spec ai) = as_ServiceAccountName (s_Spec (rs_cr s)) \<and>
    s_Status ai = s_Status (rs_cr s) \<and> s_Meta ai = s_Meta (rs_cr s) \<and> as_MTLS (s_Spec ai) = as_MTLS (s_Spec (rs_cr s))"
  have "keepsCR ?Q (enrichSplunk d)"
    by (auto simp: keepsCR_def enrichSplunk_def Let_def split: prod.splits)
  then have "keepsCR ?Q (validateAIService d)"
    unfolding validateAIService_def resolvePlatform_def requireURLs_def validateRest_def getAIPlatform_def modSpec_def
      invalidSpec_def
    by (intro keeps_intros) (simp_all add: fillURLs_def Let_def)
  then have "?Q (rs_cr t)"
    using keepsCR_D run by blast
  moreover obtain v where "requireURLs v = (Ok (), v)" "validateRest d v = (Ok (), t)"
    using run requireURLs_Ok by (fastforce simp: validateAIService_def act_Ok_iff split: if_splits)
  then have "as_VectorDbUrl (s_Spec (rs_cr t)) \<noteq> []"
    using validateRest_Ok requireURLs_Ok unfolding validated_def by blast
  moreover have "rs_world t = rs_world s"
  proof -
    have "world_order (\<lambda>w w'. w' = w)"
      by unfold_locales auto
    then show ?thesis
      using moves_D [OF world_order.moves_saia_validate run] by blast
  qed
  ultimately show ?thesis by blast
qed

section \<open>The cluster of a run\<close>

text \<open>What a run reads, and that a call on one kind leaves what is read of the others.\<close>

definition references ::
  "'w saiaDeps \<Rightarrow> 'w \<Rightarrow> (nname \<Rightarrow> AIPlatform res) \<times> (nname \<Rightarrow> secret res) \<times> (nname \<Rightarrow> objmeta res) \<times> (nname \<Rightarrow> objmeta res)" where
  "references d w = (cGet (sa_platforms d) w, cGet (sa_secrets d) w, sa_standalones d w, sa_indexers d w)"

definition kindsSeparate :: "'w saiaDeps \<Rightarrow> bool" where
  "kindsSeparate d \<longleftrightarrow>
     (let config = cGet (sa_configmaps d); certs = cGet (sa_certs d); jobs = cGet (sa_jobs d);
          deps = cGet (sa_deployments d); svcs = cGet (sa_svcs d); mons = cGet (sa_monitors d); refs = references d
      in within (sameBy (\<lambda>w. (refs w, certs w, jobs w, deps w, svcs w, mons w))) (sa_configmaps d) \<and>
         within (sameBy (\<lambda>w. (refs w, config w, jobs w, deps w, svcs w, mons w))) (sa_certs d) \<and>
         within (sameBy (\<lambda>w. (refs w, config w, certs w, jobs w, svcs w, mons w))) (sa_deployments d) \<and>
         within (sameBy (\<lambda>w. (refs w, config w, certs w, jobs w, deps w, mons w))) (sa_svcs d) \<and>
         within (sameBy (\<lambda>w. (refs w, config w, certs w, jobs w, deps w, svcs w))) (sa_monitors d) \<and>
         within (sameBy (\<lambda>w. (refs w, config w, certs w, jobs w, deps w, svcs w, mons w))) (sa_services d))"

lemma sameReads_references: "sameReads d w w' \<longleftrightarrow> references d w' = references d w"
  by (auto simp: sameReads_def references_def)

definition monKey :: "service_monitor \<Rightarrow> nname" where
  "monKey x = metaKey (sm_Meta x)"

definition featureConfigKey :: "AIService \<Rightarrow> nname" where
  "featureConfigKey ai = (aiNamespace ai, ''splunk-'' @ aiName ai @ ''-feature-config'')"

lemma configKeys_apart: "saiaConfigKey ai \<noteq> featureConfigKey ai"
proof
  assume "saiaConfigKey ai = featureConfigKey ai"
  then have "length (aiName ai @ ''-saia-config'') = length (''splunk-'' @ aiName ai @ ''-feature-config'')"
    by (simp add: featureConfigKey_def)
  then show False by simp
qed

text \<open>Only the issuer writes the conditions of a certificate: the API server ignores those of an update.\<close>

definition conditionsKept :: "('w, certificate) client \<Rightarrow> bool" where
  "conditionsKept c \<longleftrightarrow>
     (\<forall>w x w' y old. cUpdate c w x = (w', Ok y) \<longrightarrow> cGet c w (certKey x) = Ok old \<longrightarrow>
        ce_Conditions x = ce_Conditions old \<longrightarrow> ce_Conditions y = ce_Conditions old) \<and>
     (\<forall>w x w' y. cCreate c w x = (w', Ok y) \<longrightarrow> ce_Conditions x = [] \<longrightarrow> ce_Conditions y = [])"

text \<open>What the stages make of the two config maps when they write them.\<close>

definition saiaConfigChange :: "'w saiaDeps \<Rightarrow> AIService \<Rightarrow> configmap \<Rightarrow> configmap res" where
  "saiaConfigChange d ai cm = bindR (sa_setRef d (s_Meta ai) (cm_Meta cm)) (\<lambda>m.
     Ok \<lparr>cm_Meta = m, cm_Data = Some (fst (mergeDefaults saiaDefaults (entries (cm_Data cm)) False))\<rparr>)"

definition featureConfigChange :: "'w saiaDeps \<Rightarrow> AIService \<Rightarrow> configmap \<Rightarrow> configmap res" where
  "featureConfigChange d ai cm = bindR (sa_setRef d (s_Meta ai) (cm_Meta cm)) (\<lambda>m. Ok (cm\<lparr>cm_Meta := m\<rparr>))"

text \<open>The objects that a run sends for a validated service are accepted, with the owner set.\<close>

abbreviation owned :: "'w saiaDeps \<Rightarrow> AIService \<Rightarrow> string \<Rightarrow> objmeta \<Rightarrow> bool" where
  "owned d ai n m \<equiv> sa_setRef d (s_Meta ai) (newMeta n (aiNamespace ai)) = Ok m"

definition serviceMeta :: "AIService \<Rightarrow> objmeta" where
  "serviceMeta ai = (newMeta (aiName ai @ ''-saia-service'') (aiNamespace ai))
     \<lparr>om_Labels := Some (overlay (fmap_of_list [(''app'', aiName ai)]) (om_Labels (s_Meta ai)))\<rparr>"

definition runAccepted :: "'w saiaDeps \<Rightarrow> AIService \<Rightarrow> bool" where
  "runAccepted d ai \<longleftrightarrow>
     accepts cmKey (sa_configmaps d) \<lparr>cm_Meta = newMeta (aiName ai @ ''-saia-config'') (aiNamespace ai), cm_Data = None\<rparr>
       (saiaConfigChange d ai) \<and>
     accepts cmKey (sa_configmaps d)
       \<lparr>cm_Meta = newMeta (snd (featureConfigKey ai)) (aiNamespace ai), cm_Data = Some featureDefaults\<rparr>
       (featureConfigChange d ai) \<and>
     (\<forall>m. operatorTLS ai \<longrightarrow> owned d ai (aiName ai @ ''-tls'') m \<longrightarrow>
        accepts certKey (sa_certs d) (certSpecFor ai (newCertificate m)) (\<lambda>c. Ok (certSpecFor ai c))) \<and>
     (\<forall>m. owned d ai (aiName ai @ ''-vector-db-setup-posthook'') m \<longrightarrow>
        accepts jobKey (sa_jobs d) (hookJob d ai m) Ok) \<and>
     (\<forall>m. owned d ai (aiName ai @ ''-saia-deployment'') m \<longrightarrow>
        accepts depKey (sa_deployments d) ((newDeployment (aiName ai @ ''-saia-deployment'') (aiNamespace ai))\<lparr>dp_Meta := m\<rparr>)
          (\<lambda>dep. Ok (mutateDeployment d ai dep))) \<and>
     (\<forall>m ty ports. sa_setRef d (s_Meta ai) (serviceMeta ai) = Ok m \<longrightarrow>
        typedPorts (cleanServiceTemplate (as_ServiceTemplate (s_Spec ai))) ai = (ty, ports) \<longrightarrow>
        accepts svcKey (sa_svcs d)
          \<lparr>svc_Meta = m, svc_Selector = saiaSelector ai, svc_Ports = ports, svc_Type = ty, svc_Status = []\<rparr>
          (\<lambda>svc. Ok (svc\<lparr>svc_Selector := saiaSelector ai, svc_Ports := ports\<rparr>))) \<and>
     (\<forall>m. mc_Enabled (as_Metrics (s_Spec ai)) \<longrightarrow> owned d ai (aiName ai @ ''-metrics'') m \<longrightarrow>
        accepts monKey (sa_monitors d) (monitorSpec ai \<lparr>sm_Meta = m, sm_Selector = fmempty, sm_Endpoints = []\<rparr>)
          (\<lambda>sm. Ok (monitorSpec ai sm)))"

definition progressDocs :: "'w saiaDeps \<Rightarrow> bool" where
  "progressDocs d \<longleftrightarrow>
     controllerDocs (sa_setRef d) \<and> kindsSeparate d \<and>
     keysKept cmKey (sa_configmaps d) \<and> keysKept certKey (sa_certs d) \<and> keysKept jobKey (sa_jobs d) \<and>
     keysKept depKey (sa_deployments d) \<and> keysKept svcKey (sa_svcs d) \<and> keysKept monKey (sa_monitors d) \<and>
     replies (sa_configmaps d) \<and> replies (sa_certs d) \<and> replies (sa_jobs d) \<and>
     replies (sa_deployments d) \<and> replies (sa_svcs d) \<and> replies (sa_monitors d) \<and>
     keyFrame cmKey (sa_configmaps d) \<and> conditionsKept (sa_certs d)"

text \<open>No config map of the service's two names is controlled by another object.\<close>

definition freeAt :: "'w saiaDeps \<Rightarrow> 'w \<Rightarrow> AIService \<Rightarrow> nname \<Rightarrow> bool" where
  "freeAt d w ai k \<longleftrightarrow> (\<forall>cm. cGet (sa_configmaps d) w k = Ok cm \<longrightarrow> unclaimed (s_Meta ai) (cm_Meta cm))"

definition configsFree :: "'w saiaDeps \<Rightarrow> 'w \<Rightarrow> AIService \<Rightarrow> bool" where
  "configsFree d w ai \<longleftrightarrow> freeAt d w ai (saiaConfigKey ai) \<and> freeAt d w ai (featureConfigKey ai)"

lemma progressD:
  assumes "progressDocs d"
  shows "controllerDocs (sa_setRef d)" "kindsSeparate d" "setOwnerDocs (sa_setRef d)"
    "keysKept cmKey (sa_configmaps d)" "keysKept certKey (sa_certs d)" "keysKept jobKey (sa_jobs d)"
    "keysKept depKey (sa_deployments d)" "keysKept svcKey (sa_svcs d)" "keysKept monKey (sa_monitors d)"
    "replies (sa_configmaps d)" "replies (sa_certs d)" "replies (sa_jobs d)"
    "replies (sa_deployments d)" "replies (sa_svcs d)" "replies (sa_monitors d)"
    "keyFrame cmKey (sa_configmaps d)" "conditionsKept (sa_certs d)"
  using assms by (simp_all add: progressDocs_def controllerDocs_def)

lemma progress_owner:
  assumes "progressDocs d"
  obtains m where "owned d ai n m" "metaKey m = (aiNamespace ai, n)"
  using controllerDocs_new [OF progressD(1) [OF assms], of "s_Meta ai" n] by blast

text \<open>The stages after validation leave the object in memory as it is, but for the job that it names.\<close>

lemma stages_keep:
  "keepsCR Q (reconcileSAIAConfigMap d)" "keepsCR Q (reconcileFeatureConfigMap d)" "keepsCR Q (reconcileCertificate d)"
  "keepsCR Q (reconcileSAIADeployment d)" "keepsCR Q (reconcileSAIAService d)" "keepsCR Q (reconcileServiceMonitor d)"
  unfolding reconcileSAIAConfigMap_def createOrUpdateConfigMap_def reconcileFeatureConfigMap_def reconcileCertificate_def
    reconcileSAIADeployment_def reconcileSAIAService_def reconcileServiceMonitor_def invalidSpec_def Let_def
  by (intro keeps_intros)+

lemma keeps_same: "(\<And>Q. keepsCR Q m) \<Longrightarrow> m s = (r, t) \<Longrightarrow> rs_cr t = rs_cr s"
  using keepsCR_D [of "\<lambda>c. c = rs_cr s" m s r t] by blast

lemmas stage_cr =
  keeps_same [OF stages_keep(1)] keeps_same [OF stages_keep(2)] keeps_same [OF stages_keep(3)]
  keeps_same [OF stages_keep(4)] keeps_same [OF stages_keep(5)] keeps_same [OF stages_keep(6)]

section \<open>The stages that cannot fail\<close>

lemma deployment_goes:
  assumes prog: "progressDocs d" and acc: "runAccepted d (rs_cr s)"
  shows "\<exists>t. reconcileSAIADeployment d s = (Ok (), t)"
proof -
  let ?ai = "rs_cr s"
  obtain m where m: "owned d ?ai (aiName ?ai @ ''-saia-deployment'') m"
    using progress_owner [OF prog] by blast
  let ?x = "(newDeployment (aiName ?ai @ ''-saia-deployment'') (aiNamespace ?ai))\<lparr>dp_Meta := m\<rparr>"
  have "accepts depKey (sa_deployments d) ?x (\<lambda>dep. Ok (mutateDeployment d ?ai dep))"
    using acc m by (simp add: runAccepted_def)
  from upsert_accepted [OF progressD(7,13) [OF prog] this, of "rs_world s"]
  have "\<exists>w' y. cCreateOrUpdate (sa_deployments d) (rs_world s) ?x (\<lambda>dep. Ok (mutateDeployment d ?ai dep)) = (w', Ok y)"
    by (fastforce simp: mutateDeployment_def depKey_def metaKey_def)
  then show ?thesis
    using m by (auto simp: reconcileSAIADeployment_def Let_def upsertA_def act_defs onErr_def dropA_def)
qed

lemma service_goes:
  assumes prog: "progressDocs d" and acc: "runAccepted d (rs_cr s)"
    and none: "fmfilter copiedKey (entries (om_Annotations (s_Meta (rs_cr s)))) = fmempty"
  shows "\<exists>t. reconcileSAIAService d s = (Ok (), t)"
proof -
  let ?ai = "rs_cr s"
  obtain ty ports where ports: "typedPorts (cleanServiceTemplate (as_ServiceTemplate (s_Spec ?ai))) ?ai = (ty, ports)"
    by fastforce
  obtain m where m: "sa_setRef d (s_Meta ?ai) (serviceMeta ?ai) = Ok m"
    using controllerDocs_set [OF progressD(1) [OF prog], of "serviceMeta ?ai" "s_Meta ?ai"]
    by (auto simp: serviceMeta_def newMeta_unclaimed)
  let ?x = "\<lparr>svc_Meta = m, svc_Selector = saiaSelector ?ai, svc_Ports = ports, svc_Type = ty, svc_Status = []\<rparr>"
  have "accepts svcKey (sa_svcs d) ?x (\<lambda>svc. Ok (svc\<lparr>svc_Selector := saiaSelector ?ai, svc_Ports := ports\<rparr>))"
    using acc m ports by (simp add: runAccepted_def)
  from upsert_accepted [OF progressD(8,14) [OF prog] this, of "rs_world s"]
  have "\<exists>w' y. cCreateOrUpdate (sa_svcs d) (rs_world s) ?x
      (\<lambda>svc. Ok (svc\<lparr>svc_Selector := saiaSelector ?ai, svc_Ports := ports\<rparr>)) = (w', Ok y)"
    by (auto simp: svcKey_def)
  then show ?thesis
    using m none ports
    by (auto simp: reconcileSAIAService_def serviceMeta_def Let_def upsertA_def act_defs onErr_def dropA_def)
qed

lemma monitor_goes:
  assumes prog: "progressDocs d" and acc: "runAccepted d (rs_cr s)"
  shows "\<exists>t. reconcileServiceMonitor d s = (Ok (), t)"
proof (cases "mc_Enabled (as_Metrics (s_Spec (rs_cr s)))")
  case True
  let ?ai = "rs_cr s"
  obtain m where m: "owned d ?ai (aiName ?ai @ ''-metrics'') m"
    using progress_owner [OF prog] by blast
  let ?x = "monitorSpec ?ai \<lparr>sm_Meta = m, sm_Selector = fmempty, sm_Endpoints = []\<rparr>"
  have "accepts monKey (sa_monitors d) ?x (\<lambda>sm. Ok (monitorSpec ?ai sm))"
    using acc m True by (simp add: runAccepted_def)
  from upsert_accepted [OF progressD(9,15) [OF prog] this, of "rs_world s"]
  have "\<exists>w' y. cCreateOrUpdate (sa_monitors d) (rs_world s) ?x (\<lambda>sm. Ok (monitorSpec ?ai sm)) = (w', Ok y)"
    by (auto simp: monKey_def monitorSpec_def)
  then show ?thesis
    using m True by (auto simp: reconcileServiceMonitor_def upsertA_def act_defs dropA_def)
qed (simp add: reconcileServiceMonitor_def act_defs)

lemma stored_free:
  assumes prog: "progressDocs d" and free: "freeAt d w ai k" and k: "fst k = aiNamespace ai"
    and cm: "cGet (sa_configmaps d) w k = Ok cm"
  obtains m where "sa_setRef d (s_Meta ai) (cm_Meta cm) = Ok m"
proof -
  have "cmKey cm = k"
    using clientDocs_get [OF progressD(4) [OF prog] cm] .
  then have "om_Namespace (cm_Meta cm) = om_Namespace (s_Meta ai)"
    using k by (auto simp: cmKey_def metaKey_def)
  moreover have "unclaimed (s_Meta ai) (cm_Meta cm)"
    using free cm unfolding freeAt_def by blast
  ultimately show ?thesis
    using controllerDocs_set [OF progressD(1) [OF prog]] that by blast
qed

lemma merged_new: "fst (mergeDefaults saiaDefaults fmempty False) = fmap_of_list saiaDefaults"
  by (rule fmap_ext) (simp add: withDefaults_merge withDefaults_def mget_def fmlookup_of_list split: option.split)

lemma configMap_goes:
  assumes prog: "progressDocs d" and acc: "runAccepted d (rs_cr s)" and free: "freeAt d (rs_world s) (rs_cr s) (saiaConfigKey (rs_cr s))"
  shows "\<exists>t. reconcileSAIAConfigMap d s = (Ok (), t)"
proof -
  let ?ai = "rs_cr s" and ?c = "sa_configmaps d"
  let ?k = "saiaConfigKey ?ai"
  let ?x = "\<lparr>cm_Meta = newMeta (aiName ?ai @ ''-saia-config'') (aiNamespace ?ai), cm_Data = None\<rparr>"
  have acc: "accepts cmKey ?c ?x (saiaConfigChange d ?ai)" and x: "cmKey ?x = ?k"
    using acc by (simp_all add: runAccepted_def cmKey_def metaKey_def)
  show ?thesis
  proof (rule replies_get [OF progressD(10) [OF prog], of "rs_world s" ?k])
    fix cm assume cm: "cGet ?c (rs_world s) ?k = Ok cm"
    obtain m where m: "sa_setRef d (s_Meta ?ai) (cm_Meta cm) = Ok m"
      using stored_free [OF prog free _ cm] by (auto simp: featureConfigKey_def)
    obtain data b where b: "mergeDefaults saiaDefaults (entries (cm_Data cm)) False = (data, b)" by fastforce
    obtain w' y where "cUpdate ?c (rs_world s) \<lparr>cm_Meta = m, cm_Data = Some data\<rparr> = (w', Ok y)"
      using accepts_update [OF acc, of "rs_world s" cm] cm m b unfolding x by (auto simp: saiaConfigChange_def)
    then show ?thesis
      using cm m b by (cases b) (auto simp: reconcileSAIAConfigMap_def Let_def getA_def updateA_def dropA_def act_defs)
  next
    fix e assume e: "cGet ?c (rs_world s) ?k = Err e" "isNotFound e"
    obtain m where m: "owned d ?ai (aiName ?ai @ ''-saia-config'') m"
      using progress_owner [OF prog] by blast
    obtain w' y where "cCreate ?c (rs_world s) \<lparr>cm_Meta = m, cm_Data = Some (fmap_of_list saiaDefaults)\<rparr> = (w', Ok y)"
      using accepts_create [OF acc, of "rs_world s" e] e m unfolding x by (auto simp: saiaConfigChange_def merged_new)
    then show ?thesis
      using e m by (auto simp: reconcileSAIAConfigMap_def createOrUpdateConfigMap_def Let_def getA_def createA_def dropA_def act_defs)
  qed
qed

text \<open>The stage writes the one config map that it is named for.\<close>

lemma configMap_frame:
  assumes prog: "progressDocs d" and run: "reconcileSAIAConfigMap d s = (Ok (), t)" and k: "k \<noteq> saiaConfigKey (rs_cr s)"
  shows "cGet (sa_configmaps d) (rs_world t) k = cGet (sa_configmaps d) (rs_world s) k"
proof -
  let ?ai = "rs_cr s" and ?c = "sa_configmaps d"
  note frame = keyFrameD [OF progressD(16) [OF prog]]
  have key: "metaKey m' = metaKey m" if "sa_setRef d (s_Meta ?ai) m = Ok m'" for m m'
    by (rule setOwnerDocsD(1) [OF progressD(3) [OF prog] that])
  show ?thesis
  proof (cases "cGet ?c (rs_world s) (saiaConfigKey ?ai)")
    case (Ok cm)
    have cm: "metaKey (cm_Meta cm) = saiaConfigKey ?ai"
      using clientDocs_get [OF progressD(4) [OF prog] Ok] by (simp add: cmKey_def)
    obtain data b where b: "mergeDefaults saiaDefaults (entries (cm_Data cm)) False = (data, b)" by fastforce
    show ?thesis
    proof (cases b)
      case True
      then obtain m w y where "sa_setRef d (s_Meta ?ai) (cm_Meta cm) = Ok m"
        "cUpdate ?c (rs_world s) \<lparr>cm_Meta = m, cm_Data = Some data\<rparr> = (w, y)" "rs_world t = w"
        using run Ok b by (auto simp: reconcileSAIAConfigMap_def Let_def tryA_def getA_def readA_def updateA_def act_Ok_iff)
      then show ?thesis
        using frame(2) [of k "\<lparr>cm_Meta = m, cm_Data = Some data\<rparr>"] key cm k by (simp add: cmKey_def)
    qed (use run Ok b in \<open>auto simp: reconcileSAIAConfigMap_def Let_def tryA_def getA_def readA_def act_Ok_iff\<close>)
  next
    case (Err e)
    then obtain m w y where "owned d ?ai (aiName ?ai @ ''-saia-config'') m"
      "cCreate ?c (rs_world s) \<lparr>cm_Meta = m, cm_Data = Some (fmap_of_list saiaDefaults)\<rparr> = (w, y)" "rs_world t = w"
      using run by (auto simp: reconcileSAIAConfigMap_def createOrUpdateConfigMap_def Let_def tryA_def getA_def readA_def
          createA_def act_Ok_iff split: if_splits)
    then show ?thesis
      using frame(1) [of k "\<lparr>cm_Meta = m, cm_Data = Some (fmap_of_list saiaDefaults)\<rparr>"] key k
      by (fastforce simp: cmKey_def metaKey_def)
  qed (use run in \<open>auto simp: reconcileSAIAConfigMap_def Let_def tryA_def getA_def readA_def act_Ok_iff\<close>)
qed

lemma featureConfigMap_goes:
  assumes prog: "progressDocs d" and acc: "runAccepted d (rs_cr s)" and free: "freeAt d (rs_world s) (rs_cr s) (featureConfigKey (rs_cr s))"
  shows "\<exists>t. reconcileFeatureConfigMap d s = (Ok (), t)"
proof -
  let ?ai = "rs_cr s" and ?c = "sa_configmaps d"
  let ?k = "featureConfigKey ?ai"
  let ?x = "\<lparr>cm_Meta = newMeta (snd ?k) (aiNamespace ?ai), cm_Data = Some featureDefaults\<rparr>"
  note defs = reconcileFeatureConfigMap_def featureConfigKey_def Let_def getA_def noteA_def onErr_def dropA_def act_defs
  have acc: "accepts cmKey ?c ?x (featureConfigChange d ?ai)" and x: "cmKey ?x = ?k"
    using acc by (simp_all add: runAccepted_def cmKey_def metaKey_def featureConfigKey_def)
  show ?thesis
  proof (rule replies_get [OF progressD(10) [OF prog], of "rs_world s" ?k])
    fix cm assume cm: "cGet ?c (rs_world s) ?k = Ok cm"
    obtain m where m: "sa_setRef d (s_Meta ?ai) (cm_Meta cm) = Ok m"
      using stored_free [OF prog free _ cm] by (auto simp: featureConfigKey_def)
    obtain w' y where "cUpdate ?c (rs_world s) (cm\<lparr>cm_Meta := m\<rparr>) = (w', Ok y)"
      using accepts_update [OF acc, of "rs_world s" cm] cm m unfolding x by (auto simp: featureConfigChange_def)
    then show ?thesis
      using cm m by (auto simp: defs updateA_def)
  next
    fix e assume e: "cGet ?c (rs_world s) ?k = Err e" "isNotFound e"
    obtain m where m: "owned d ?ai (snd ?k) m"
      using progress_owner [OF prog] by blast
    obtain w' y where "cCreate ?c (rs_world s) \<lparr>cm_Meta = m, cm_Data = Some featureDefaults\<rparr> = (w', Ok y)"
      using accepts_create [OF acc, of "rs_world s" e] e m unfolding x by (auto simp: featureConfigChange_def)
    then show ?thesis
      using e m by (auto simp: defs createA_def)
  qed
qed

section \<open>The certificate\<close>

lemma upsert_conditions:
  assumes spec: "createOrUpdateSpec certKey c" and key: "\<And>k. isOk (cGet c w k) \<Longrightarrow> \<forall>x. cGet c w k = Ok x \<longrightarrow> certKey x = k"
    and kept: "conditionsKept c" and run: "cCreateOrUpdate c w x (\<lambda>c. Ok (certSpecFor ai c)) = (w', Ok y)"
    and fresh: "ce_Conditions x = []"
  shows "ce_Conditions y = (case cGet c w (certKey x) of Ok old \<Rightarrow> ce_Conditions old | _ \<Rightarrow> [])"
proof (cases "cGet c w (certKey x)")
  case (Ok cur)
  have "certKey (certSpecFor ai cur) = certKey x"
    using key [of "certKey x"] Ok by (simp add: certSpecFor_def certKey_def)
  then show ?thesis
    using run spec kept Ok unfolding createOrUpdateSpec_def conditionsKept_def
    by (auto simp: certSpecFor_def split: if_splits)
next
  case (Err e)
  then show ?thesis
    using run spec kept fresh unfolding createOrUpdateSpec_def conditionsKept_def
    by (auto simp: certSpecFor_def split: if_splits)
next
  case (Panic p)
  then show ?thesis
    using run spec unfolding createOrUpdateSpec_def by auto
qed

text \<open>An operator-terminated service whose certificate has not been issued.\<close>

definition certPending :: "'w saiaDeps \<Rightarrow> 'w \<Rightarrow> AIService \<Rightarrow> bool" where
  "certPending d w ai \<longleftrightarrow> operatorTLS ai \<and>
     \<not> (case cGet (sa_certs d) w (aiNamespace ai, aiName ai @ ''-tls'') of Ok c \<Rightarrow> certReady c | _ \<Rightarrow> False)"

definition certWait :: "AIService \<Rightarrow> gerr" where
  "certWait ai = Errorf (''waiting for Certificate '' @ quote (aiName ai @ ''-tls'') @ '' to become Ready'')"

lemma certificate_outcome:
  assumes prog: "progressDocs d" and acc: "runAccepted d (rs_cr s)"
  shows "\<exists>t. reconcileCertificate d s =
    (if certPending d (rs_world s) (rs_cr s) then Err (certWait (rs_cr s)) else Ok (), t)"
proof (cases "operatorTLS (rs_cr s)")
  case True
  let ?ai = "rs_cr s" and ?c = "sa_certs d" and ?w = "rs_world s"
  let ?n = "aiName ?ai @ ''-tls''"
  obtain m where m: "owned d ?ai ?n m" "metaKey m = (aiNamespace ?ai, ?n)"
    using progress_owner [OF prog] by blast
  let ?x = "certSpecFor ?ai (newCertificate m)"
  have x: "certKey ?x = (aiNamespace ?ai, ?n)"
    using m(2) by (simp add: certKey_def certSpecFor_def newCertificate_def)
  have "accepts certKey ?c ?x (\<lambda>c. Ok (certSpecFor ?ai c))"
    using acc m True by (simp add: runAccepted_def)
  from upsert_accepted [OF progressD(5,11) [OF prog] this, of ?w]
  obtain w' y where up: "cCreateOrUpdate ?c ?w ?x (\<lambda>c. Ok (certSpecFor ?ai c)) = (w', Ok y)"
    and y: "certKey y = certKey ?x"
    by (auto simp: certSpecFor_def certKey_def)
  have name: "om_Name (ce_Meta y) = ?n"
    using y x by (simp add: certKey_def metaKey_def)
  have "ce_Conditions y = (case cGet ?c ?w (certKey ?x) of Ok old \<Rightarrow> ce_Conditions old | _ \<Rightarrow> [])"
    by (rule upsert_conditions [OF _ _ progressD(17) [OF prog] up])
      (use progressD(5) [OF prog] in \<open>auto simp: clientDocs_def certSpecFor_def newCertificate_def\<close>)
  then have ready: "certReady y \<longleftrightarrow> \<not> certPending d ?w ?ai"
    using True unfolding x certPending_def certReady_def by (simp split: res.split)
  obtain r where r: "cGet ?c ?w (aiNamespace ?ai, ?n) = r" "\<And>p. r \<noteq> Panic p"
    using replies_get [OF progressD(11) [OF prog]] by (metis res.distinct(3) res.distinct(5))
  show ?thesis
    using m up r name ready True
    by (cases r) (auto simp: reconcileCertificate_def upsertA_def getA_def noteA_def warnA_def onErr_def act_defs Let_def certWait_def)
qed (simp add: reconcileCertificate_def certPending_def act_defs)

section \<open>The schema job\<close>

text \<open>What the hook stage waits for, by the job on record.\<close>

definition jobWait :: "'w saiaDeps \<Rightarrow> 'w \<Rightarrow> AIService \<Rightarrow> gerr option" where
  "jobWait d w ai =
     (let new = Errorf (''created Job '' @ quote (aiName ai @ ''-vector-db-setup-posthook'') @ '', waiting for completion'')
      in if jobId ai = [] then Some new
         else case cGet (sa_jobs d) w (aiNamespace ai, jobId ai) of
                Ok j \<Rightarrow>
                  (case jobOutcome (jb_Conditions j) of
                     Some True \<Rightarrow> None
                   | Some False \<Rightarrow> Some (Errorf (''job '' @ quote (jobId ai) @ '' failed''))
                   | None \<Rightarrow> Some (Errorf (''job '' @ quote (jobId ai) @ '' is still running'')))
              | _ \<Rightarrow> Some new)"

text \<open>The AIService in memory names a job that is in the cluster.\<close>

definition onRecord :: "'w saiaDeps \<Rightarrow> AIService \<Rightarrow> ('w, AIService) rstate \<Rightarrow> bool" where
  "onRecord d ai t \<longleftrightarrow> jobId (rs_cr t) = aiName ai @ ''-vector-db-setup-posthook'' \<and>
     isOk (cGet (sa_jobs d) (rs_world t) (aiNamespace ai, jobId (rs_cr t)))"

lemma createHookJob_outcome:
  assumes prog: "progressDocs d" and acc: "runAccepted d (rs_cr s)"
  shows "\<exists>t. createHookJob d s =
    (Err (Errorf (''created Job '' @ quote (aiName (rs_cr s) @ ''-vector-db-setup-posthook'') @ '', waiting for completion'')), t) \<and>
    onRecord d (rs_cr s) t"
proof -
  let ?ai = "rs_cr s"
  let ?n = "aiName ?ai @ ''-vector-db-setup-posthook''"
  obtain m where m: "owned d ?ai ?n m" "metaKey m = (aiNamespace ?ai, ?n)"
    using progress_owner [OF prog] by blast
  note docs = progressD(6) [OF prog]
  have "accepts jobKey (sa_jobs d) (hookJob d ?ai m) Ok"
    using acc m by (simp add: runAccepted_def)
  from upsert_accepted [OF docs progressD(12) [OF prog] this, of "rs_world s"]
  obtain w' y where up: "cCreateOrUpdate (sa_jobs d) (rs_world s) (hookJob d ?ai m) Ok = (w', Ok y)"
    and y: "jobKey y = jobKey (hookJob d ?ai m)" by auto
  have key: "jobKey (hookJob d ?ai m) = (aiNamespace ?ai, ?n)"
    using m(2) by (simp add: jobKey_def hookJob_def)
  have "om_Name (jb_Meta y) = ?n"
    using y key by (simp add: jobKey_def metaKey_def)
  moreover have "cGet (sa_jobs d) w' (aiNamespace ?ai, ?n) = Ok y"
    using createOrUpdate_result [OF docs _ up] key by auto
  ultimately show ?thesis
    using m up by (simp add: createHookJob_def onErr_def upsertA_def setJobId_def act_defs onRecord_def)
qed

text \<open>What is accepted does not depend on the job that the status names.\<close>

lemma status_accepted [simp]: "runAccepted d (stat st ai) = runAccepted d ai"
proof -
  have "hookJob d (stat st ai) = hookJob d ai" "saiaConfigChange d (stat st ai) = saiaConfigChange d ai"
    "featureConfigChange d (stat st ai) = featureConfigChange d ai" "serviceMeta (stat st ai) = serviceMeta ai"
    "featureConfigKey (stat st ai) = featureConfigKey ai"
    by (simp_all add: fun_eq_iff hookJob_def saiaConfigChange_def featureConfigChange_def serviceMeta_def featureConfigKey_def)
  then show ?thesis
    by (simp add: runAccepted_def)
qed

lemma hook_outcome:
  assumes prog: "progressDocs d" and acc: "runAccepted d (rs_cr s)" and url: "as_VectorDbUrl (s_Spec (rs_cr s)) \<noteq> []"
  shows "\<exists>t. reconcilePostInstallHook d s = (case jobWait d (rs_world s) (rs_cr s) of None \<Rightarrow> Ok () | Some e \<Rightarrow> Err e, t) \<and>
    (jobId (rs_cr s) = [] \<longrightarrow> onRecord d (rs_cr s) t)"
proof -
  let ?ai = "rs_cr s"
  obtain r t where run: "reconcilePostInstallHook d s = (r, t)" by fastforce
  note hook = hook_run [OF run url]
  show ?thesis
  proof (cases "jobId ?ai = []")
    case True
    then show ?thesis
      using hook run createHookJob_outcome [OF prog acc] by (auto simp: jobWait_def)
  next
    case False
    show ?thesis
    proof (rule replies_get [OF progressD(12) [OF prog], of "rs_world s" "(aiNamespace ?ai, jobId ?ai)"])
      fix j assume j: "cGet (sa_jobs d) (rs_world s) (aiNamespace ?ai, jobId ?ai) = Ok j"
      then have "om_Name (jb_Meta j) = jobId ?ai"
        using clientDocs_get [OF progressD(6) [OF prog] j] by (simp add: jobKey_def metaKey_def)
      then show ?thesis
        using hook run False j
        by (auto simp: jobWait_def watchHookJob_def invalidSpec_def warnA_def act_defs split: option.splits bool.splits)
    next
      fix e assume e: "cGet (sa_jobs d) (rs_world s) (aiNamespace ?ai, jobId ?ai) = Err e" "isNotFound e"
      have "runAccepted d (rs_cr (clearJobId s))"
        using acc by (simp add: clearJobId_def)
      then show ?thesis
        using hook run False e createHookJob_outcome [OF prog, of "clearJobId s"]
        by (auto simp: jobWait_def clearJobId_def)
    qed
  qed
qed

lemma hook_settles:
  assumes run: "reconcilePostInstallHook d s = (Ok (), t)" and url: "as_VectorDbUrl (s_Spec (rs_cr s)) \<noteq> []"
    and id: "ass_SchemaJobId st = jobId (rs_cr s)" and same: "cGet (sa_jobs d) w = cGet (sa_jobs d) (rs_world t)"
  shows "t = s \<and> reconcilePostInstallHook d \<lparr>rs_world = w, rs_events = es, rs_cr = stat st (rs_cr s)\<rparr> =
    (Ok (), \<lparr>rs_world = w, rs_events = es, rs_cr = stat st (rs_cr s)\<rparr>)"
proof -
  note hook = hook_run [OF run url]
  have known: "jobId (rs_cr s) \<noteq> []"
    using hook createHookJob_never_Ok by (auto split: if_splits)
  then obtain j where j: "cGet (sa_jobs d) (rs_world s) (aiNamespace (rs_cr s), jobId (rs_cr s)) = Ok j"
    and watch: "watchHookJob j s = (Ok (), t)"
    using hook createHookJob_never_Ok by (auto split: res.splits if_splits)
  have "t = s" "jobOutcome (jb_Conditions j) = Some True"
    using watchHookJob_run [OF watch] by simp_all
  then show ?thesis
    using j known url id same
    by (auto simp: reconcilePostInstallHook_def watchHookJob_def getA_def act_defs)
qed

section \<open>The whole run\<close>

definition saiaWait :: "'w saiaDeps \<Rightarrow> 'w \<Rightarrow> AIService \<Rightarrow> gerr option" where
  "saiaWait d w ai = (if certPending d w ai then Some (certWait ai) else jobWait d w ai)"

lemma serviceAccount_named:
  assumes "as_ServiceAccountName (s_Spec (rs_cr s)) \<noteq> []"
  shows "reconcileServiceAccount d s = (Ok (), s)"
  using assms by (simp add: reconcileServiceAccount_def act_defs)

text \<open>What the first stages leave: the config maps are written, the certificates and the jobs are not.\<close>

lemma configs_written:
  assumes prog: "progressDocs d" and acc: "runAccepted d (rs_cr s)" and free: "configsFree d (rs_world s) (rs_cr s)"
  obtains t u where "reconcileSAIAConfigMap d s = (Ok (), t)" "reconcileFeatureConfigMap d t = (Ok (), u)"
    "rs_cr u = rs_cr s" "cGet (sa_certs d) (rs_world u) = cGet (sa_certs d) (rs_world s)"
    "cGet (sa_jobs d) (rs_world u) = cGet (sa_jobs d) (rs_world s)"
proof -
  obtain t where t: "reconcileSAIAConfigMap d s = (Ok (), t)"
    using configMap_goes [OF prog acc] free by (auto simp: configsFree_def)
  have cr: "rs_cr t = rs_cr s"
    by (rule stage_cr(1) [OF t])
  have "freeAt d (rs_world t) (rs_cr t) (featureConfigKey (rs_cr t))"
    using free configMap_frame [OF prog t configKeys_apart [symmetric]] by (simp add: cr configsFree_def freeAt_def)
  then obtain u where u: "reconcileFeatureConfigMap d t = (Ok (), u)"
    using featureConfigMap_goes [OF prog, of t] acc cr by auto
  have sep: "within (sameBy (\<lambda>w. (cGet (sa_certs d) w, cGet (sa_jobs d) w))) (sa_configmaps d)"
    using progressD(2) [OF prog] unfolding kindsSeparate_def Let_def by (auto elim: within_part)
  have still: "cGet (sa_certs d) (rs_world u) = cGet (sa_certs d) (rs_world s)"
    "cGet (sa_jobs d) (rs_world u) = cGet (sa_jobs d) (rs_world s)"
    using moves_D [OF untouched.moves_configMap [OF sep] t] moves_D [OF untouched.moves_featureConfigMap [OF sep] u]
    by (simp_all add: sameBy_def)
  show ?thesis
    by (rule that [OF t u]) (use stage_cr(2) [OF u] cr still in simp_all)
qed

lemma saia_outcome:
  assumes prog: "progressDocs d"
    and name: "as_ServiceAccountName (s_Spec (rs_cr s)) \<noteq> []" and valid: "validateAIService d s = (Ok (), s1)"
    and acc: "runAccepted d (rs_cr s1)" and free: "configsFree d (rs_world s) (rs_cr s)"
    and none: "fmfilter copiedKey (entries (om_Annotations (s_Meta (rs_cr s)))) = fmempty"
  shows "\<exists>t. inSequence (saiaStages d) s = (case saiaWait d (rs_world s) (rs_cr s) of None \<Rightarrow> Ok () | Some e \<Rightarrow> Err e, t) \<and>
    (\<not> certPending d (rs_world s) (rs_cr s) \<and> jobId (rs_cr s) = [] \<longrightarrow> onRecord d (rs_cr s) t)"
proof -
  note facts = validate_facts [OF valid]
  have account: "reconcileServiceAccount d s1 = (Ok (), s1)"
    by (rule serviceAccount_named) (simp add: facts name)
  have "configsFree d (rs_world s1) (rs_cr s1)"
    using free facts by (simp add: configsFree_def freeAt_def featureConfigKey_def)
  then obtain s2 s3 where s2: "reconcileSAIAConfigMap d s1 = (Ok (), s2)" and s3: "reconcileFeatureConfigMap d s2 = (Ok (), s3)"
    and cr3: "rs_cr s3 = rs_cr s1" and reads: "cGet (sa_certs d) (rs_world s3) = cGet (sa_certs d) (rs_world s)"
      "cGet (sa_jobs d) (rs_world s3) = cGet (sa_jobs d) (rs_world s)"
    using configs_written [OF prog acc] facts by metis
  have same: "certPending d (rs_world s3) (rs_cr s3) = certPending d (rs_world s) (rs_cr s)"
    "certWait (rs_cr s3) = certWait (rs_cr s)"
    using facts reads cr3 by (simp_all add: certPending_def certWait_def operatorTLS_def)
  obtain s4 where s4: "reconcileCertificate d s3 =
      (if certPending d (rs_world s) (rs_cr s) then Err (certWait (rs_cr s)) else Ok (), s4)"
    using certificate_outcome [OF prog, of s3] acc cr3 same by auto
  have cr4: "rs_cr s4 = rs_cr s1"
    using stage_cr(3) [OF s4] cr3 by simp
  note stages = saiaStages_def thenA_def bindA_def valid account s2 s3 s4
  show ?thesis
  proof (cases "certPending d (rs_world s) (rs_cr s)")
    case True
    then show ?thesis
      by (simp add: stages saiaWait_def)
  next
    case False
    have "within (sameBy (cGet (sa_jobs d))) (sa_certs d)"
      using progressD(2) [OF prog] unfolding kindsSeparate_def Let_def by (auto elim: within_part)
    from moves_D [OF untouched.moves_certificate [OF this] s4]
    have "cGet (sa_jobs d) (rs_world s4) = cGet (sa_jobs d) (rs_world s)"
      using reads by (simp add: sameBy_def)
    moreover have "s_Meta (rs_cr s4) = s_Meta (rs_cr s)" "s_Status (rs_cr s4) = s_Status (rs_cr s)"
      using cr4 facts by simp_all
    ultimately have job: "jobWait d (rs_world s4) (rs_cr s4) = jobWait d (rs_world s) (rs_cr s)"
      by (simp only: jobWait_def)
    obtain s5 where s5: "reconcilePostInstallHook d s4 =
        (case jobWait d (rs_world s) (rs_cr s) of None \<Rightarrow> Ok () | Some e \<Rightarrow> Err e, s5)"
      and named: "jobId (rs_cr s) = [] \<longrightarrow> onRecord d (rs_cr s) s5"
      using hook_outcome [OF prog, of s4] acc cr4 facts job by (auto simp: onRecord_def)
    show ?thesis
    proof (cases "jobWait d (rs_world s) (rs_cr s)")
      case (Some e)
      then show ?thesis
        using False s5 named by (simp add: stages saiaWait_def)
    next
      case None
      have "s5 = s4"
        using hook_settles [of d s4 s5 "s_Status (rs_cr s4)" "rs_world s5"] s5 None cr4 facts by simp
      obtain s6 where s6: "reconcileSAIADeployment d s4 = (Ok (), s6)"
        using deployment_goes [OF prog, of s4] acc cr4 by auto
      have cr6: "rs_cr s6 = rs_cr s1"
        using stage_cr(4) [OF s6] cr4 by simp
      have meta6: "s_Meta (rs_cr s6) = s_Meta (rs_cr s)"
        using cr6 facts by simp
      have "fmfilter copiedKey (entries (om_Annotations (s_Meta (rs_cr s6)))) = fmempty"
        unfolding meta6 by (rule none)
      then obtain s7 where s7: "reconcileSAIAService d s6 = (Ok (), s7)"
        using service_goes [OF prog, of s6] acc cr6 by auto
      have cr7: "rs_cr s7 = rs_cr s1"
        using stage_cr(5) [OF s7] cr6 by simp
      obtain s8 where s8: "reconcileServiceMonitor d s7 = (Ok (), s8)"
        using monitor_goes [OF prog, of s7] acc cr7 by auto
      show ?thesis
        using False None s5 \<open>s5 = s4\<close> by (auto simp: stages s6 s7 s8 saiaWait_def retA_def jobWait_def)
    qed
  qed
qed

text \<open>
  C5: the runs of the SAIA feature of a service that validation accepts, that names its service
  account and has no annotation that is copied (with one the service stage panics), where its two
  config maps are not controlled by another object, the API server answers and accepts what the run
  sends, whatever defaults it fills in, and writes to one kind leave the others. Such a run never
  panics and fails for two reasons only: the certificate of an operator-terminated service has not been
  issued, or the schema job is new, running or failed. The outcome is exactly the one that \<open>saiaWait\<close>
  reads off the cluster as it was before the run, and the AIService is reported ready exactly when
  there is nothing to wait for.
\<close>

theorem saia_waits_only:
  assumes prog: "progressDocs d" and status: "statusVisible svKey s_Status (sa_services d)"
    and name: "as_ServiceAccountName (s_Spec (rs_cr s)) \<noteq> []" and valid: "validateAIService d s = (Ok (), s1)"
    and none: "fmfilter copiedKey (entries (om_Annotations (s_Meta (rs_cr s)))) = fmempty"
    and acc: "runAccepted d (rs_cr s1)" and free: "configsFree d (rs_world s) (rs_cr s)"
    and run: "SaiaReconcile d clock s = (r, t)"
  shows "r = (case saiaWait d (rs_world s) (rs_cr s) of None \<Rightarrow> Ok () | Some e \<Rightarrow> Err e) \<and>
    (IsConditionTrue (ass_Conditions (s_Status (rs_cr t))) ''Ready'' \<longleftrightarrow> saiaWait d (rs_world s) (rs_cr s) = None)"
proof -
  obtain cs u where u: "runStages clock (saiaStages d) [] s = (r, cs, u)" "t = publishService (sa_services d) cs u"
    using run by (auto simp: SaiaReconcile_def split: prod.splits)
  have r: "r = (case saiaWait d (rs_world s) (rs_cr s) of None \<Rightarrow> Ok () | Some e \<Rightarrow> Err e)"
    using runStages_sequence [OF u(1)] saia_outcome [OF prog name valid acc free none] by auto
  have "stageReport clock saiaStageNames r cs"
    using runStages_report [OF u(1)] by (simp add: stage_simps)
  then have "IsConditionTrue cs ''Ready'' \<longleftrightarrow> r = Ok ()"
    by (rule saia_stages.report_ready)
  moreover have "ass_Conditions (s_Status (rs_cr t)) = cs"
    using publishService_conditions [OF status] u(2) by simp
  ultimately show ?thesis
    using r by (auto split: option.splits)
qed


lemma publishService_job:
  assumes "statusVisible svKey s_Status c"
  shows "jobId (rs_cr (publishService c cs s)) = jobId (rs_cr s)"
  using assms
  by (auto simp: publishService_def Let_def statusVisible_def withStatus_def split: prod.splits res.splits)

lemma status_meta: "s_Meta (stat st ai) = s_Meta ai"
  by simp

lemma publishService_other:
  "kindsSeparate d \<Longrightarrow> cGet (sa_jobs d) (rs_world (publishService (sa_services d) cs s)) = cGet (sa_jobs d) (rs_world s)"
  using untouched.moves_publishService [of "cGet (sa_jobs d)" "sa_services d" s cs] within_part [where h = "cGet (sa_jobs d)"]
  unfolding kindsSeparate_def Let_def by (fastforce simp: sameBy_def [of "cGet (sa_jobs d)" "rs_world s"])

text \<open>
  C6: such a service (validated, with a named service account, no copied annotation and config maps
  that no other object controls, behind an API server that answers and accepts what is sent), whose
  certificate is issued if it terminates TLS itself, gets to Ready in two runs. The first run of a
  service without a schema job leaves a job in the cluster and its name in the status of the
  AIService; once that job has completed, with the certificate still there and the same references
  to validate against, the next run succeeds and reports Ready, whatever else has happened to the
  cluster in between.
\<close>

theorem saia_becomes_ready:
  assumes prog: "progressDocs d" and status: "statusVisible svKey s_Status (sa_services d)"
    and name: "as_ServiceAccountName (s_Spec (rs_cr s)) \<noteq> []" and valid: "validateAIService d s = (Ok (), s1)"
    and none: "fmfilter copiedKey (entries (om_Annotations (s_Meta (rs_cr s)))) = fmempty"
    and acc: "runAccepted d (rs_cr s1)" and free: "configsFree d (rs_world s) (rs_cr s)"
    and fresh: "ass_SchemaJobId (s_Status (rs_cr s)) = []" "\<not> certPending d (rs_world s) (rs_cr s)"
    and run: "SaiaReconcile d clock s = (r, t)" and st: "ass_SchemaJobId st = ass_SchemaJobId (s_Status (rs_cr t))"
    and later: "references d w = references d (rs_world s)" "\<not> certPending d w (rs_cr s)"
      "cGet (sa_jobs d) w (aiNamespace (rs_cr s), ass_SchemaJobId st) = Ok j" "completed (jb_Conditions j)"
      "configsFree d w (rs_cr s)"
  shows "r \<noteq> Ok () \<and> isOk (cGet (sa_jobs d) (rs_world t) (aiNamespace (rs_cr s), ass_SchemaJobId st)) \<and>
    (\<exists>v. SaiaReconcile d clock' \<lparr>rs_world = w, rs_events = es, rs_cr = (rs_cr s)\<lparr>s_Status := st\<rparr>\<rparr> = (Ok (), v) \<and>
         IsConditionTrue (ass_Conditions (s_Status (rs_cr v))) ''Ready'')"
proof -
  obtain cs u where u: "runStages clock (saiaStages d) [] s = (r, cs, u)" "t = publishService (sa_services d) cs u"
    using run by (auto simp: SaiaReconcile_def split: prod.splits)
  have wait: "saiaWait d (rs_world s) (rs_cr s) \<noteq> None"
    using fresh by (simp add: saiaWait_def jobWait_def)
  then have first: "r \<noteq> Ok ()" and named: "onRecord d (rs_cr s) u"
    using runStages_sequence [OF u(1)] saia_outcome [OF prog name valid acc free none] fresh by auto
  have job: "ass_SchemaJobId st = jobId (rs_cr u)"
    using publishService_job [OF status] st u(2) by simp
  have "cGet (sa_jobs d) (rs_world t) = cGet (sa_jobs d) (rs_world u)"
    using publishService_other [OF progressD(2) [OF prog]] u(2) by simp
  then have there: "isOk (cGet (sa_jobs d) (rs_world t) (aiNamespace (rs_cr s), ass_SchemaJobId st))"
    using named unfolding job onRecord_def by metis
  let ?s = "\<lparr>rs_world = w, rs_events = es, rs_cr = stat st (rs_cr s)\<rparr>"
  have "repeats (validateAIService d) s s1 w"
    by (rule repeats_validate [OF valid]) (simp add: sameReads_references later(1))
  then obtain s1' where valid': "validateAIService d ?s = (Ok (), s1')" "rs_cr s1' = stat st (rs_cr s1)"
    unfolding repeats_def by fastforce
  have later': "runAccepted d (rs_cr s1')" "configsFree d (rs_world ?s) (rs_cr ?s)"
    using acc valid'(2) later(5) by (simp_all add: configsFree_def freeAt_def featureConfigKey_def)
  obtain q cs' v where v: "runStages clock' (saiaStages d) [] ?s = (q, cs', v)"
    by (metis prod_cases3)
  have "ass_SchemaJobId st \<noteq> []"
    using named job by (simp add: onRecord_def)
  then have "saiaWait d w (stat st (rs_cr s)) = None"
    using later(2-4) by (simp add: saiaWait_def jobWait_def certPending_def jobOutcome_completed [THEN iffD2])
  moreover have "fmfilter copiedKey (entries (om_Annotations (s_Meta (rs_cr ?s)))) = fmempty"
    unfolding rstate.select_convs status_meta by (rule none)
  ultimately have "q = Ok ()"
    using runStages_sequence [OF v] saia_outcome [OF prog _ valid'(1) later'] name by auto
  moreover have "stageReport clock' saiaStageNames q cs'"
    using runStages_report [OF v] by (simp add: stage_simps)
  ultimately have "IsConditionTrue cs' ''Ready''"
    using saia_stages.report_ready by blast
  then show ?thesis
    using first there v \<open>q = Ok ()\<close> publishService_conditions [OF status, of cs' v] by (simp add: SaiaReconcile_def)
qed


section \<open>A cluster in memory\<close>

record kinds =
  k_AIServices :: "AIService list"
  k_ConfigMaps :: "configmap list"
  k_Deployments :: "deployment list"
  k_Services :: "service list"
  k_Jobs :: "job list"
  k_Certs :: "certificate list"
  k_Monitors :: "service_monitor list"

text \<open>The API server fills in the restart policy of a pod template that leaves it out.\<close>

definition defaultRestart :: "deployment \<Rightarrow> deployment" where
  "defaultRestart x = (if ps_RestartPolicy (pt_Spec (dp_Template x)) = []
     then x\<lparr>dp_Template := (dp_Template x)\<lparr>pt_Spec := (pt_Spec (dp_Template x))\<lparr>ps_RestartPolicy := ''Always''\<rparr>\<rparr>\<rparr> else x)"

lemma defaultRestart_keeps: "dp_Meta (defaultRestart x) = dp_Meta x" "depKey (defaultRestart x) = depKey x"
  "dp_Selector (defaultRestart x) = dp_Selector x" "defaultRestart (defaultRestart x) = defaultRestart x"
  by (simp_all add: defaultRestart_def depKey_def)

definition fullDeps :: "kinds saiaDeps" where
  "fullDeps = offDeps
     \<lparr>sa_setRef := ownIn True,
      sa_services := fieldClient k_AIServices (\<lambda>v. k_AIServices_update (\<lambda>_. v)) (memClient svKey (\<lambda>_ _. True)),
      sa_configmaps := fieldClient k_ConfigMaps (\<lambda>v. k_ConfigMaps_update (\<lambda>_. v)) (memClient cmKey (\<lambda>_ _. True)),
      sa_deployments := fieldClient k_Deployments (\<lambda>v. k_Deployments_update (\<lambda>_. v)) (defaultingClient depKey defaultRestart),
      sa_svcs := fieldClient k_Services (\<lambda>v. k_Services_update (\<lambda>_. v)) (memClient svcKey (\<lambda>_ _. True)),
      sa_jobs := fieldClient k_Jobs (\<lambda>v. k_Jobs_update (\<lambda>_. v)) (memClient jobKey (\<lambda>_ _. True)),
      sa_certs := fieldClient k_Certs (\<lambda>v. k_Certs_update (\<lambda>_. v)) (memClient certKey (\<lambda>_ _. True)),
      sa_monitors := fieldClient k_Monitors (\<lambda>v. k_Monitors_update (\<lambda>_. v)) (memClient monKey (\<lambda>_ _. True))\<rparr>"

lemma fullDeps_sel:
  "sa_setRef fullDeps = ownIn True" "sa_platforms fullDeps = offClient" "sa_secrets fullDeps = offClient"
  "sa_standalones fullDeps = (\<lambda>_ _. Panic [])" "sa_indexers fullDeps = (\<lambda>_ _. Panic [])"
  "sa_services fullDeps = fieldClient k_AIServices (\<lambda>v. k_AIServices_update (\<lambda>_. v)) (memClient svKey (\<lambda>_ _. True))"
  "sa_configmaps fullDeps = fieldClient k_ConfigMaps (\<lambda>v. k_ConfigMaps_update (\<lambda>_. v)) (memClient cmKey (\<lambda>_ _. True))"
  "sa_deployments fullDeps = fieldClient k_Deployments (\<lambda>v. k_Deployments_update (\<lambda>_. v)) (defaultingClient depKey defaultRestart)"
  "sa_svcs fullDeps = fieldClient k_Services (\<lambda>v. k_Services_update (\<lambda>_. v)) (memClient svcKey (\<lambda>_ _. True))"
  "sa_jobs fullDeps = fieldClient k_Jobs (\<lambda>v. k_Jobs_update (\<lambda>_. v)) (memClient jobKey (\<lambda>_ _. True))"
  "sa_certs fullDeps = fieldClient k_Certs (\<lambda>v. k_Certs_update (\<lambda>_. v)) (memClient certKey (\<lambda>_ _. True))"
  "sa_monitors fullDeps = fieldClient k_Monitors (\<lambda>v. k_Monitors_update (\<lambda>_. v)) (memClient monKey (\<lambda>_ _. True))"
  by (simp_all add: fullDeps_def offDeps_def)

lemma memClient_conditions: "conditionsKept (fieldClient get put (memClient certKey sel))"
  unfolding conditionsKept_def
  by (auto simp: fieldClient_def through_def memClient_def memUpdate_def memCreate_def split: if_splits)

lemma fullDeps_separate: "kindsSeparate fullDeps"
  unfolding kindsSeparate_def Let_def references_def
  by (simp add: fullDeps_sel fieldClient_within client_gets)

lemma fullDeps_progress: "progressDocs fullDeps"
  unfolding progressDocs_def
  by (simp add: fullDeps_separate)
    (simp add: fullDeps_sel ownIn_docs fieldClient_replies memClient_replies defaultingClient_replies fieldClient_docs
      memClient_docs defaultingClient_docs defaultRestart_keeps memClient_conditions fieldClient_frame memClient_frame)

lemma fullDeps_accepts: "runAccepted fullDeps ai"
proof -
  have owner: "metaKey m' = metaKey m" if "ownIn True o' m = Ok m'" for o' m m'
    using setOwnerDocsD(1) [OF ownIn_docs(1) that] .
  have config: "accepts cmKey (memClient cmKey sel) x (saiaConfigChange fullDeps ai)" for sel x
    by (rule memClient_accepts) (auto simp: saiaConfigChange_def bindR_Ok_iff cmKey_def fullDeps_sel dest: owner)
  have feature: "accepts cmKey (memClient cmKey sel) x (featureConfigChange fullDeps ai)" for sel x
    by (rule memClient_accepts) (auto simp: featureConfigChange_def bindR_Ok_iff cmKey_def fullDeps_sel dest: owner)
  have dep: "accepts depKey (defaultingClient depKey defaultRestart) x (\<lambda>dep. Ok (mutateDeployment fullDeps ai dep))" for x
    by (rule defaultingClient_accepts) (auto simp: mutateDeployment_def depKey_def metaKey_def defaultRestart_keeps)
  have kept: "accepts key (memClient key sel) x (\<lambda>y. Ok (g y))" if "\<And>y. key (g y) = key y"
    for key :: "'o \<Rightarrow> nname" and sel x g
    by (rule memClient_accepts) (use that in auto)
  have plain: "accepts certKey (memClient certKey sel) x1 (\<lambda>c. Ok (certSpecFor ai c))"
    "accepts svcKey (memClient svcKey sel') x2 (\<lambda>svc. Ok (svc\<lparr>svc_Selector := saiaSelector ai, svc_Ports := ports\<rparr>))"
    "accepts monKey (memClient monKey sel'') x3 (\<lambda>sm. Ok (monitorSpec ai sm))"
    "accepts jobKey (memClient jobKey sel3) x4 Ok" for sel sel' sel'' sel3 x1 x2 x3 x4 ports
    by (rule kept; simp add: certSpecFor_def certKey_def svcKey_def monitorSpec_def monKey_def)+
  show ?thesis
    unfolding runAccepted_def fullDeps_sel
    by (intro conjI allI impI fieldClient_accepts config feature dep plain)
qed

lemma fullDeps_free: "configsFree fullDeps w ai \<longleftrightarrow>
    (\<forall>k \<in> {saiaConfigKey ai, featureConfigKey ai}. \<forall>cm.
       memGet cmKey (k_ConfigMaps w) k = Ok cm \<longrightarrow> unclaimed (s_Meta ai) (cm_Meta cm))"
  by (simp add: configsFree_def freeAt_def fullDeps_sel client_gets memClient_def)

lemma fullDeps_status: "statusVisible svKey s_Status (sa_services fullDeps)"
  using memClient_status [of svKey s_Status "\<lambda>_ _. True"]
  by (fastforce simp: statusVisible_def fullDeps_sel fieldClient_def through_def prod_eq_iff)

text \<open>A service that has not been reconciled, in an empty cluster.\<close>

definition freshService :: AIService where
  "freshService = (exampleService None)\<lparr>s_Status := s_Status zeroAIService\<rparr>"

definition freshState :: "(kinds, AIService) rstate" where
  "freshState = \<lparr>rs_world = \<lparr>k_AIServices = [freshService], k_ConfigMaps = [], k_Deployments = [], k_Services = [],
     k_Jobs = [], k_Certs = [], k_Monitors = []\<rparr>, rs_events = [], rs_cr = freshService\<rparr>"

lemma fresh_validate: "validateAIService fullDeps freshState = (Ok (), freshState)"
  by (simp add: validateAIService_def resolvePlatform_def requireURLs_def validateRest_def enrichSplunk_def
      ValidateAndEnrichSplunkConfig_def ensureToken_def VaultGetHECToken_def trimSpace_def isSpaceC_def
      modSpec_def cleanServiceTemplate_def defaultResources_def newMeta_def Let_def act_defs fullDeps_def offDeps_def exampleSpec_def exampleService_def zero_defs
      freshState_def freshService_def)

lemma fresh_facts:
  "as_ServiceAccountName (s_Spec (rs_cr freshState)) \<noteq> []" "jobId (rs_cr freshState) = []"
  "fmfilter copiedKey (entries (om_Annotations (s_Meta (rs_cr freshState)))) = fmempty"
  "\<not> certPending d w (rs_cr freshState)"
  by (simp_all add: freshState_def freshService_def exampleService_def exampleSpec_def zero_defs certPending_def operatorTLS_def
      cong del: fmfilter_cong)

lemma fresh_free: "configsFree fullDeps (rs_world freshState) ai"
  by (simp add: fullDeps_free freshState_def memGet_def)

text \<open>Its first run waits for the job it has created.\<close>

theorem saia_waits_only_witness:
  "\<exists>t. SaiaReconcile fullDeps id freshState =
     (Err (Errorf (''created Job '' @ quote ''a-vector-db-setup-posthook'' @ '', waiting for completion'')), t)"
proof -
  obtain r t where run: "SaiaReconcile fullDeps id freshState = (r, t)" by fastforce
  have "aiName (rs_cr freshState) = ''a''"
    by (simp add: freshState_def freshService_def exampleService_def newMeta_def)
  then have "saiaWait fullDeps (rs_world freshState) (rs_cr freshState) =
      Some (Errorf (''created Job '' @ quote ''a-vector-db-setup-posthook'' @ '', waiting for completion''))"
    by (simp add: saiaWait_def jobWait_def fresh_facts)
  then show ?thesis
    using saia_waits_only [OF fullDeps_progress fullDeps_status fresh_facts(1) fresh_validate fresh_facts(3)
        fullDeps_accepts fresh_free run] run by simp
qed

text \<open>And the run after the job's completion reports Ready, also when someone has deleted the config maps.\<close>

theorem saia_becomes_ready_witness:
  "let (r, t) = SaiaReconcile fullDeps id freshState; st = s_Status (rs_cr t);
       j = \<lparr>jb_Meta = newMeta (ass_SchemaJobId st) ''ns'', jb_Template = zeroPodTemplate,
            jb_Conditions = [(''Complete'', ''True'')]\<rparr>
   in r \<noteq> Ok () \<and>
      (\<exists>v. SaiaReconcile fullDeps id \<lparr>rs_world = (rs_world t)\<lparr>k_Jobs := [j], k_ConfigMaps := []\<rparr>, rs_events = [],
                                    rs_cr = freshService\<lparr>s_Status := st\<rparr>\<rparr> = (Ok (), v) \<and>
           IsConditionTrue (ass_Conditions (s_Status (rs_cr v))) ''Ready'')"
proof -
  obtain r t where run: "SaiaReconcile fullDeps id freshState = (r, t)" by fastforce
  let ?st = "s_Status (rs_cr t)"
  let ?j = "\<lparr>jb_Meta = newMeta (ass_SchemaJobId ?st) ''ns'', jb_Template = zeroPodTemplate,
             jb_Conditions = [(''Complete'', ''True'')]\<rparr>"
  let ?w = "(rs_world t)\<lparr>k_Jobs := [?j], k_ConfigMaps := []\<rparr>"
  have refs: "references fullDeps ?w = references fullDeps (rs_world freshState)"
    by (simp add: references_def fullDeps_sel client_gets)
  have "aiNamespace (rs_cr freshState) = ''ns''"
    by (simp add: freshState_def freshService_def exampleService_def newMeta_def)
  then have j: "cGet (sa_jobs fullDeps) ?w (aiNamespace (rs_cr freshState), ass_SchemaJobId ?st) = Ok ?j"
    by (simp add: fullDeps_sel client_gets memClient_def memGet_def jobKey_def metaKey_def newMeta_def)
  have free: "configsFree fullDeps ?w (rs_cr freshState)"
    by (simp add: fullDeps_free memGet_def)
  have "rs_cr freshState = freshService"
    by (simp add: freshState_def)
  then show ?thesis
    using saia_becomes_ready [OF fullDeps_progress fullDeps_status fresh_facts(1) fresh_validate fresh_facts(3)
        fullDeps_accepts fresh_free fresh_facts(2,4) run refl refs fresh_facts(4) j _ free, of id "[]"] run
    by (simp add: completed_Cons)
qed

end
