(* ===== verification/Settling.thy ===== *)
theory Settling
  imports Progress
begin

text \<open>
  A reconcile of the SAIA feature that has succeeded and runs again: it succeeds again, and what the
  cluster holds of the kinds that it writes keeps its content. The second run is not silent: the
  callbacks put back fields that the API server fills in, such as the defaults of a pod template, so
  an update is sent that comes to nothing.
\<close>

section \<open>The same object written twice\<close>

text \<open>
  The content \<open>v\<close> is what the server once made of the content \<open>n\<close>; a server whose defaults are
  functions of what it is sent, and which keeps what it allocated itself when the field is left out,
  makes nothing new of an object when the same content is sent again.
\<close>

definition storedFrom :: "('w, 'o) client \<Rightarrow> ('o \<Rightarrow> 'u) \<Rightarrow> 'u \<Rightarrow> 'u \<Rightarrow> bool" where
  "storedFrom c u n v \<longleftrightarrow>
     (\<exists>w x w' y. (cCreate c w x = (w', Ok y) \<or> cUpdate c w x = (w', Ok y)) \<and> u x = n \<and> u y = v)"

definition resendStable :: "('o \<Rightarrow> nname) \<Rightarrow> ('o \<Rightarrow> 'u) \<Rightarrow> ('w, 'o) client \<Rightarrow> bool" where
  "resendStable key u c \<longleftrightarrow>
     (\<forall>w x w' y old. cUpdate c w x = (w', Ok y) \<longrightarrow> cGet c w (key x) = Ok old \<longrightarrow>
        storedFrom c u (u x) (u old) \<longrightarrow> u y = u old)"

text \<open>The objects of a kind read the same but for what \<open>u\<close> leaves out.\<close>

definition sameContent :: "('w, 'o) client \<Rightarrow> ('o \<Rightarrow> 'u) \<Rightarrow> 'w \<Rightarrow> 'w \<Rightarrow> bool" where
  "sameContent c u w w' \<longleftrightarrow> (\<forall>k. map_res u (cGet c w' k) = map_res u (cGet c w k))"

lemma sameContent_trans:
  "sameContent c u w1 w2 \<Longrightarrow> cGet c w3 = cGet c w2 \<Longrightarrow> sameContent c u w1 w3"
  "cGet c w2 = cGet c w1 \<Longrightarrow> sameContent c u w2 w3 \<Longrightarrow> sameContent c u w1 w3"
  by (simp_all add: sameContent_def)

lemma upsert_again:
  assumes docs: "keysKept key c" and frame: "keyFrame key c" and stable: "resendStable key u c"
    and keep: "\<And>a b. f a = Ok b \<Longrightarrow> key b = key a"
    and idem: "\<And>start new y new'. f start = Ok new \<Longrightarrow> storedFrom c u (u new) (u y) \<Longrightarrow> f y = Ok new' \<Longrightarrow> u new' = u new"
    and first: "cCreateOrUpdate c w x f = (w1, Ok y)" and same: "cGet c w2 (key x) = cGet c w1 (key x)"
    and again: "cCreateOrUpdate c w2 x f = (w3, Ok z)"
  shows "sameContent c u w2 w3"
  unfolding sameContent_def
proof
  fix k
  have spec: "createOrUpdateSpec key c" and vis: "writeVisible key (\<lambda>_. ()) c"
    using docs by (simp_all add: clientDocs_def)
  show "map_res u (cGet c w3 k) = map_res u (cGet c w2 k)"
  proof (cases "k = key x")
    case False
    then show ?thesis
      using createOrUpdate_frame [OF docs frame keep again] by simp
  next
    case True
    have y: "cGet c w1 (key x) = Ok y"
      by (rule createOrUpdate_result [OF docs keep first])
    then have got: "cGet c w2 (key x) = Ok y" "key y = key x"
      using same clientDocs_get [OF docs y] by simp_all
    then have run: "(case f y of Ok new \<Rightarrow> if new = y then (w2, Ok y) else cUpdate c w2 new
        | Err e \<Rightarrow> (w2, Err e) | Panic p \<Rightarrow> (w2, Panic p)) = (w3, Ok z)"
      using spec again unfolding createOrUpdateSpec_def by auto
    then obtain new' where new': "f y = Ok new'" "new' = y \<and> w3 = w2 \<or> cUpdate c w2 new' = (w3, Ok z)"
      by (auto split: res.splits if_splits)
    show ?thesis
    proof (cases "new' = y \<and> w3 = w2")
      case False
      then have up: "cUpdate c w2 new' = (w3, Ok z)"
        using new' by blast
      have key: "key new' = key x"
        using keep [OF new'(1)] got(2) by simp
      have "u z = u y"
        using spec first
      proof (rule createOrUpdate_writes)
        fix start new
        assume new: "f start = Ok new" "cCreate c w new = (w1, Ok y) \<or> cUpdate c w new = (w1, Ok y)"
        then have from_new: "storedFrom c u (u new) (u y)"
          unfolding storedFrom_def by blast
        have "u new' = u new"
          by (rule idem [OF new(1) from_new new'(1)])
        then show ?thesis
          using stable up got(1) key from_new unfolding resendStable_def by fastforce
      next
        fix cur assume "f cur = Ok cur" "y = cur"
        then have "new' = y"
          using new'(1) by simp
        then have "w3 = w2"
          using run new'(1) by simp
        then show ?thesis
          using False \<open>new' = y\<close> by blast
      qed
      moreover have "cGet c w3 (key x) = Ok z"
        using writeVisibleD(1) [OF vis, of w2 new' w3 z] up key by simp
      ultimately show ?thesis
        using True got by simp
    qed (use True in simp)
  qed
qed

section \<open>Each stage again\<close>

definition deploymentContent :: "deployment \<Rightarrow> smap option \<times> smap option \<times> int32 option \<times> smap option \<times> pod_template" where
  "deploymentContent x = (om_Labels (dp_Meta x), om_Annotations (dp_Meta x), dp_Replicas x, dp_Selector x, dp_Template x)"

definition certificateContent :: "certificate \<Rightarrow> string \<times> issuer_ref \<times> string list \<times> string list" where
  "certificateContent x = (ce_SecretName x, ce_IssuerRef x, ce_DNSNames x, ce_Usages x)"

definition serviceContent :: "service \<Rightarrow> smap \<times> service_port list" where
  "serviceContent x = (svc_Selector x, svc_Ports x)"

definition monitorContent :: "service_monitor \<Rightarrow> smap \<times> (string \<times> string \<times> string) list" where
  "monitorContent x = (sm_Selector x, sm_Endpoints x)"

text \<open>
  What is asked of the API server besides \<open>progressDocs\<close>: data and owners of a config map are stored
  as they are sent, so is the selector of a deployment, and the other kinds settle. A write of an
  object leaves the others of its kind.
\<close>

definition settleDocs :: "'w saiaDeps \<Rightarrow> bool" where
  "settleDocs d \<longleftrightarrow>
     clientDocs cmKey (\<lambda>x. (cm_Data x, om_OwnerReferences (cm_Meta x))) (sa_configmaps d) \<and>
     clientDocs depKey dp_Selector (sa_deployments d) \<and>
     keyFrame certKey (sa_certs d) \<and> keyFrame depKey (sa_deployments d) \<and>
     keyFrame svcKey (sa_svcs d) \<and> keyFrame monKey (sa_monitors d) \<and>
     resendStable certKey certificateContent (sa_certs d) \<and> resendStable depKey deploymentContent (sa_deployments d) \<and>
     resendStable svcKey serviceContent (sa_svcs d) \<and> resendStable monKey monitorContent (sa_monitors d)"

lemma settleD:
  assumes "settleDocs d"
  shows "clientDocs cmKey (\<lambda>x. (cm_Data x, om_OwnerReferences (cm_Meta x))) (sa_configmaps d)"
    "clientDocs depKey dp_Selector (sa_deployments d)"
    "keyFrame certKey (sa_certs d)" "keyFrame depKey (sa_deployments d)"
    "keyFrame svcKey (sa_svcs d)" "keyFrame monKey (sa_monitors d)"
    "resendStable certKey certificateContent (sa_certs d)" "resendStable depKey deploymentContent (sa_deployments d)"
    "resendStable svcKey serviceContent (sa_svcs d)" "resendStable monKey monitorContent (sa_monitors d)"
  using assms by (simp_all add: settleDocs_def)

lemma deployment_again:
  assumes prog: "progressDocs d" and docs: "settleDocs d"
    and run: "reconcileSAIADeployment d s = (Ok (), t)" and same: "cGet (sa_deployments d) (rs_world a) = cGet (sa_deployments d) (rs_world t)"
    and again: "reconcileSAIADeployment d a = (Ok (), v)" and now: "rs_cr a = stat st (rs_cr s)"
  shows "sameContent (sa_deployments d) deploymentContent (rs_world a) (rs_world v)"
proof -
  let ?ai = "rs_cr s" and ?c = "sa_deployments d"
  let ?x = "\<lambda>m. (newDeployment (aiName ?ai @ ''-saia-deployment'') (aiNamespace ?ai))\<lparr>dp_Meta := m\<rparr>"
    and ?f = "\<lambda>dep. Ok (mutateDeployment d ?ai dep)"
  obtain m w1 y where m: "owned d ?ai (aiName ?ai @ ''-saia-deployment'') m"
    and up: "cCreateOrUpdate ?c (rs_world s) (?x m) ?f = (w1, Ok y)" and t: "rs_world t = w1"
    using run by (auto simp: reconcileSAIADeployment_def Let_def upsertA_def act_Ok_iff)
  obtain w3 z where up2: "cCreateOrUpdate ?c (rs_world a) (?x m) ?f = (w3, Ok z)" and v: "rs_world v = w3"
    using again now m by (auto simp: reconcileSAIADeployment_def Let_def upsertA_def act_Ok_iff)
  have "sameContent ?c deploymentContent (rs_world a) w3"
  proof (rule upsert_again [OF progressD(7) [OF prog] settleD(4,8) [OF docs] _ _ up _ up2])
    show "depKey y = depKey x" if "?f x = Ok y" for x y
      using that by (auto simp: mutateDeployment_def depKey_def metaKey_def)
    show "cGet ?c (rs_world a) (depKey (?x m)) = cGet ?c w1 (depKey (?x m))"
      by (simp add: same t)
    fix start new y new'
    assume new: "?f start = Ok new" "?f y = Ok new'" and stored: "storedFrom ?c deploymentContent (deploymentContent new) (deploymentContent y)"
    have "dp_Selector y = dp_Selector new"
      using stored settleD(2) [OF docs] unfolding storedFrom_def clientDocs_def writeVisible_def deploymentContent_def by fastforce
    then show "deploymentContent new' = deploymentContent new"
      using new by (auto simp: mutateDeployment_def deploymentContent_def split: option.splits)
  qed
  then show ?thesis
    using v by simp
qed

lemma service_again:
  assumes prog: "progressDocs d" and docs: "settleDocs d"
    and run: "reconcileSAIAService d s = (Ok (), t)" and same: "cGet (sa_svcs d) (rs_world a) = cGet (sa_svcs d) (rs_world t)"
    and again: "reconcileSAIAService d a = (Ok (), v)" and now: "rs_cr a = stat st (rs_cr s)"
  shows "sameContent (sa_svcs d) serviceContent (rs_world a) (rs_world v)"
proof -
  let ?ai = "rs_cr s" and ?c = "sa_svcs d"
  obtain ty ports where ports: "typedPorts (cleanServiceTemplate (as_ServiceTemplate (s_Spec ?ai))) ?ai = (ty, ports)"
    by fastforce
  let ?x = "\<lambda>m. \<lparr>svc_Meta = m, svc_Selector = saiaSelector ?ai, svc_Ports = ports, svc_Type = ty, svc_Status = []\<rparr>"
    and ?f = "\<lambda>svc. Ok (svc\<lparr>svc_Selector := saiaSelector ?ai, svc_Ports := ports\<rparr>)"
  obtain m w1 y where m: "sa_setRef d (s_Meta ?ai) (serviceMeta ?ai) = Ok m"
    and up: "cCreateOrUpdate ?c (rs_world s) (?x m) ?f = (w1, Ok y)" and t: "rs_world t = w1"
    using run ports
    by (auto simp: reconcileSAIAService_def serviceMeta_def panicA_def Let_def upsertA_def act_Ok_iff split: if_splits)
  obtain w3 z where up2: "cCreateOrUpdate ?c (rs_world a) (?x m) ?f = (w3, Ok z)" and v: "rs_world v = w3"
    using again now ports m
    by (auto simp: reconcileSAIAService_def serviceMeta_def panicA_def Let_def upsertA_def act_Ok_iff split: if_splits)
  have "sameContent ?c serviceContent (rs_world a) w3"
    by (rule upsert_again [OF progressD(8) [OF prog] settleD(5,9) [OF docs] _ _ up _ up2])
      (auto simp: svcKey_def serviceContent_def same t)
  then show ?thesis
    using v by simp
qed

lemma monitor_again:
  assumes prog: "progressDocs d" and docs: "settleDocs d"
    and run: "reconcileServiceMonitor d s = (Ok (), t)" and same: "cGet (sa_monitors d) (rs_world a) = cGet (sa_monitors d) (rs_world t)"
    and again: "reconcileServiceMonitor d a = (Ok (), v)" and now: "rs_cr a = stat st (rs_cr s)"
  shows "sameContent (sa_monitors d) monitorContent (rs_world a) (rs_world v)"
proof (cases "mc_Enabled (as_Metrics (s_Spec (rs_cr s)))")
  case True
  let ?ai = "rs_cr s" and ?c = "sa_monitors d"
  let ?x = "\<lambda>m. monitorSpec ?ai \<lparr>sm_Meta = m, sm_Selector = fmempty, sm_Endpoints = []\<rparr>"
    and ?f = "\<lambda>sm. Ok (monitorSpec ?ai sm)"
  obtain m w1 y where m: "owned d ?ai (aiName ?ai @ ''-metrics'') m"
    and up: "cCreateOrUpdate ?c (rs_world s) (?x m) ?f = (w1, Ok y)" and t: "rs_world t = w1"
    using run True by (auto simp: reconcileServiceMonitor_def whenA_def upsertA_def act_Ok_iff)
  obtain w3 z where up2: "cCreateOrUpdate ?c (rs_world a) (?x m) ?f = (w3, Ok z)" and v: "rs_world v = w3"
    using again now True m by (auto simp: reconcileServiceMonitor_def whenA_def upsertA_def act_Ok_iff)
  have "sameContent ?c monitorContent (rs_world a) w3"
    by (rule upsert_again [OF progressD(9) [OF prog] settleD(6,10) [OF docs] _ _ up _ up2])
      (auto simp: monitorSpec_def monKey_def monitorContent_def same t)
  then show ?thesis
    using v by simp
qed (use again now in \<open>auto simp: reconcileServiceMonitor_def act_Ok_iff whenA_def sameContent_def\<close>)

lemma certificate_again:
  assumes prog: "progressDocs d" and docs: "settleDocs d"
    and run: "reconcileCertificate d s = (Ok (), t)" and same: "cGet (sa_certs d) (rs_world a) = cGet (sa_certs d) (rs_world t)"
    and again: "reconcileCertificate d a = (Ok (), v)" and now: "rs_cr a = stat st (rs_cr s)"
  shows "sameContent (sa_certs d) certificateContent (rs_world a) (rs_world v)"
proof (cases "operatorTLS (rs_cr s)")
  case True
  let ?ai = "rs_cr s" and ?c = "sa_certs d"
  let ?x = "\<lambda>m. certSpecFor ?ai (newCertificate m)" and ?f = "\<lambda>c. Ok (certSpecFor ?ai c)"
  obtain m w1 y where m: "owned d ?ai (aiName ?ai @ ''-tls'') m"
    and up: "cCreateOrUpdate ?c (rs_world s) (?x m) ?f = (w1, Ok y)" and t: "rs_world t = w1"
    using run True
    by (auto simp: reconcileCertificate_def whenA_def tryA_def getA_def readA_def warnA_def noteA_def upsertA_def Let_def
        act_Ok_iff split: res.splits if_splits)
  obtain w3 z where up2: "cCreateOrUpdate ?c (rs_world a) (?x m) ?f = (w3, Ok z)" and v: "rs_world v = w3"
    using again now True m
    by (auto simp: reconcileCertificate_def whenA_def tryA_def getA_def readA_def warnA_def noteA_def upsertA_def Let_def
        act_Ok_iff split: res.splits if_splits)
  have "sameContent ?c certificateContent (rs_world a) w3"
    by (rule upsert_again [OF progressD(5) [OF prog] settleD(3,7) [OF docs] _ _ up _ up2])
      (auto simp: certSpecFor_def certKey_def certificateContent_def same t)
  then show ?thesis
    using v by simp
qed (use again now in \<open>auto simp: reconcileCertificate_def act_Ok_iff whenA_def sameContent_def\<close>)

lemma certificate_issued:
  assumes prog: "progressDocs d" and run: "reconcileCertificate d s = (Ok (), t)"
  shows "\<not> certPending d (rs_world t) (rs_cr s)"
proof (cases "operatorTLS (rs_cr s)")
  case True
  let ?ai = "rs_cr s"
  obtain m w1 y where m: "owned d ?ai (aiName ?ai @ ''-tls'') m"
    and up: "cCreateOrUpdate (sa_certs d) (rs_world s) (certSpecFor ?ai (newCertificate m)) (\<lambda>c. Ok (certSpecFor ?ai c)) = (w1, Ok y)"
    and y: "certReady y" "rs_world t = w1"
    using run True
    by (auto simp: reconcileCertificate_def whenA_def tryA_def getA_def readA_def warnA_def noteA_def upsertA_def Let_def
        act_Ok_iff split: res.splits if_splits)
  have "metaKey m = (aiNamespace ?ai, aiName ?ai @ ''-tls'')"
    using setOwnerDocsD(1) [OF progressD(3) [OF prog] m] by (simp add: metaKey_def)
  moreover have "cGet (sa_certs d) w1 (certKey (certSpecFor ?ai (newCertificate m))) = Ok y"
    by (rule createOrUpdate_result [OF progressD(5) [OF prog] _ up]) (auto simp: certSpecFor_def certKey_def)
  ultimately show ?thesis
    using y by (simp add: certPending_def certKey_def certSpecFor_def newCertificate_def)
qed (simp add: certPending_def)

section \<open>The stages with nothing to do\<close>

lemma clientDocs_weaken:
  assumes "clientDocs key u c" and "\<And>x y. u x = u y \<Longrightarrow> v x = v y"
  shows "clientDocs key v c"
  using assms unfolding clientDocs_def writeVisible_def by blast

definition quiet :: "('w, 'c, unit) act \<Rightarrow> 'w \<Rightarrow> 'c \<Rightarrow> bool" where
  "quiet m w c \<longleftrightarrow> (\<forall>es. m \<lparr>rs_world = w, rs_events = es, rs_cr = c\<rparr> = (Ok (), \<lparr>rs_world = w, rs_events = es, rs_cr = c\<rparr>))"

text \<open>The config maps are written until they have the defaults and the owner.\<close>

lemma configMap_settles:
  assumes docs: "clientDocs cmKey cm_Data (sa_configmaps d)" and own: "setOwnerDocs (sa_setRef d)"
    and run: "reconcileSAIAConfigMap d s = (Ok (), t)"
    and same: "cGet (sa_configmaps d) w (saiaConfigKey (rs_cr s)) = cGet (sa_configmaps d) (rs_world t) (saiaConfigKey (rs_cr s))"
  shows "rs_cr t = rs_cr s \<and> quiet (reconcileSAIAConfigMap d) w (stat st (rs_cr s))"
proof -
  obtain old where written: "saiaConfigWritten d old (rs_cr s) t"
  proof (cases "cGet (sa_configmaps d) (rs_world s) (saiaConfigKey (rs_cr s))")
    case (Ok cm)
    then show ?thesis using that saia_config_updated [OF docs own run] by blast
  next
    case (Err e)
    then show ?thesis using that saia_config_created [OF docs own run] by blast
  next
    case (Panic p)
    then show ?thesis
      using run by (simp add: reconcileSAIAConfigMap_def Let_def tryA_def getA_def readA_def bindA_def getCR_def)
  qed
  then obtain cm where cm: "cGet (sa_configmaps d) w (saiaConfigKey (rs_cr s)) = Ok cm"
    "fmlookup (entries (cm_Data cm)) = withDefaults old" and cr: "rs_cr t = rs_cr s"
    using same by (auto simp: saiaConfigWritten_def)
  have "reconcileSAIAConfigMap d \<lparr>rs_world = w, rs_events = es, rs_cr = stat st (rs_cr s)\<rparr> =
      (Ok (), \<lparr>rs_world = w, rs_events = es, rs_cr = stat st (rs_cr s)\<rparr>)" for es
    by (rule saia_config_settled [OF _ withDefaults_settled [OF cm(2)]]) (simp add: cm(1))
  then show ?thesis
    using cr by (simp add: quiet_def)
qed

lemma featureConfigMap_owned:
  assumes docs: "clientDocs cmKey (\<lambda>x. om_OwnerReferences (cm_Meta x)) (sa_configmaps d)" and own: "setOwnerDocs (sa_setRef d)"
    and frame: "keyFrame cmKey (sa_configmaps d)" and run: "reconcileFeatureConfigMap d s = (Ok (), t)"
  shows "rs_cr t = rs_cr s \<and> (\<exists>cm. cGet (sa_configmaps d) (rs_world t) (featureConfigKey (rs_cr s)) = Ok cm \<and>
    hasOwnerReference (cm_Meta cm) (s_Meta (rs_cr s))) \<and>
    (k \<noteq> featureConfigKey (rs_cr s) \<longrightarrow> cGet (sa_configmaps d) (rs_world t) k = cGet (sa_configmaps d) (rs_world s) k)"
proof -
  let ?k = "featureConfigKey (rs_cr s)" and ?ai = "rs_cr s"
  have vis: "writeVisible cmKey (\<lambda>x. om_OwnerReferences (cm_Meta x)) (sa_configmaps d)"
    using docs by (simp add: clientDocs_def)
  have written: "cGet (sa_configmaps d) w ?k = Ok y \<and> hasOwnerReference (cm_Meta y) (s_Meta ?ai) \<and>
      (k \<noteq> ?k \<longrightarrow> cGet (sa_configmaps d) w k = cGet (sa_configmaps d) v k)"
    if "cCreate (sa_configmaps d) v x = (w, Ok y) \<or> cUpdate (sa_configmaps d) v x = (w, Ok y)"
      "sa_setRef d (s_Meta ?ai) m = Ok (cm_Meta x)" "metaKey m = ?k" for v x w y m
    using writeVisibleD [OF vis that(1)] setOwnerDocsD(1,2) [OF own that(2)] that(1,3) keyFrameD [OF frame, of k x]
    by (auto simp: cmKey_def hasOwnerReference_def)
  show ?thesis
  proof (cases "cGet (sa_configmaps d) (rs_world s) ?k")
    case (Ok cm)
    have key: "metaKey (cm_Meta cm) = ?k"
      using clientDocs_get [OF docs Ok] by (simp add: cmKey_def)
    show ?thesis
    proof (cases "hasOwnerReference (cm_Meta cm) (s_Meta ?ai)")
      case True
      then show ?thesis
        using run Ok by (auto simp: reconcileFeatureConfigMap_def featureConfigKey_def Let_def tryA_def getA_def readA_def
            whenA_def act_Ok_iff)
    next
      case False
      then obtain m w y where "sa_setRef d (s_Meta ?ai) (cm_Meta cm) = Ok m"
        "cUpdate (sa_configmaps d) (rs_world s) (cm\<lparr>cm_Meta := m\<rparr>) = (w, Ok y)" "rs_world t = w" "rs_cr t = ?ai"
        using run Ok by (auto simp: reconcileFeatureConfigMap_def featureConfigKey_def Let_def tryA_def getA_def readA_def
            whenA_def noteA_def updateA_def act_Ok_iff)
      then show ?thesis
        using written [of "rs_world s" "cm\<lparr>cm_Meta := m\<rparr>" w y "cm_Meta cm"] key by auto
    qed
  next
    case (Err e)
    then obtain m w y where "sa_setRef d (s_Meta ?ai) (newMeta (snd ?k) (fst ?k)) = Ok m"
      "cCreate (sa_configmaps d) (rs_world s) \<lparr>cm_Meta = m, cm_Data = Some featureDefaults\<rparr> = (w, Ok y)"
      "rs_world t = w" "rs_cr t = ?ai"
      using run by (auto simp: reconcileFeatureConfigMap_def featureConfigKey_def Let_def tryA_def getA_def readA_def
          noteA_def createA_def act_Ok_iff split: if_splits)
    then show ?thesis
      using written [of "rs_world s" "\<lparr>cm_Meta = m, cm_Data = Some featureDefaults\<rparr>" w y "newMeta (snd ?k) (fst ?k)"]
      by (auto simp: metaKey_def)
  next
    case (Panic p)
    then show ?thesis
      using run by (simp add: reconcileFeatureConfigMap_def featureConfigKey_def Let_def tryA_def getA_def readA_def
          bindA_def getCR_def panicA_def)
  qed
qed

lemma featureConfigMap_settles:
  assumes docs: "clientDocs cmKey (\<lambda>x. om_OwnerReferences (cm_Meta x)) (sa_configmaps d)" and own: "setOwnerDocs (sa_setRef d)"
    and frame: "keyFrame cmKey (sa_configmaps d)"
    and run: "reconcileFeatureConfigMap d s = (Ok (), t)" and same: "cGet (sa_configmaps d) w = cGet (sa_configmaps d) (rs_world t)"
  shows "rs_cr t = rs_cr s \<and> quiet (reconcileFeatureConfigMap d) w (stat st (rs_cr s))"
proof -
  obtain cm where "cGet (sa_configmaps d) (rs_world t) (featureConfigKey (rs_cr s)) = Ok cm"
    "hasOwnerReference (cm_Meta cm) (s_Meta (rs_cr s))" "rs_cr t = rs_cr s"
    using featureConfigMap_owned [OF docs own frame run, of undefined] by blast
  then show ?thesis
    using same by (auto simp: quiet_def reconcileFeatureConfigMap_def featureConfigKey_def Let_def getA_def act_defs)
qed

section \<open>One run after another\<close>

lemma saia_run_steps:
  assumes run: "runStages clock (saiaStages d) [] s = (Ok (), cs, t)"
    and name: "as_ServiceAccountName (s_Spec (rs_cr s)) \<noteq> []"
  obtains s1 s2 s3 s4 s6 s7 where "validateAIService d s = (Ok (), s1)" "reconcileSAIAConfigMap d s1 = (Ok (), s2)"
    "reconcileFeatureConfigMap d s2 = (Ok (), s3)" "reconcileCertificate d s3 = (Ok (), s4)"
    "reconcilePostInstallHook d s4 = (Ok (), s4)" "reconcileSAIADeployment d s4 = (Ok (), s6)"
    "reconcileSAIAService d s6 = (Ok (), s7)" "reconcileServiceMonitor d s7 = (Ok (), t)"
    "rs_cr s2 = rs_cr s1" "rs_cr s3 = rs_cr s1" "rs_cr s4 = rs_cr s1" "rs_cr s6 = rs_cr s1" "rs_cr s7 = rs_cr s1" "rs_cr t = rs_cr s1"
proof -
  obtain s1 where s1: "validateAIService d s = (Ok (), s1)"
    and rest: "inSequence (tl (saiaStages d)) s1 = (Ok (), t)"
    using runStages_sequence [OF run] by (auto simp: saiaStages_def thenA_Ok_iff)
  note facts = validate_facts [OF s1]
  have "reconcileServiceAccount d s1 = (Ok (), s1)"
    using serviceAccount_named facts name by metis
  then obtain s2 s3 s4 s5 s6 s7 where s: "reconcileSAIAConfigMap d s1 = (Ok (), s2)" "reconcileFeatureConfigMap d s2 = (Ok (), s3)"
    "reconcileCertificate d s3 = (Ok (), s4)" "reconcilePostInstallHook d s4 = (Ok (), s5)"
    "reconcileSAIADeployment d s5 = (Ok (), s6)" "reconcileSAIAService d s6 = (Ok (), s7)" "reconcileServiceMonitor d s7 = (Ok (), t)"
    using rest by (auto simp: saiaStages_def thenA_Ok_iff retA_def)
  have cr: "rs_cr s2 = rs_cr s1" "rs_cr s3 = rs_cr s2" "rs_cr s4 = rs_cr s3" "rs_cr s6 = rs_cr s5" "rs_cr s7 = rs_cr s6"
    "rs_cr t = rs_cr s7"
    using stage_cr(1) [OF s(1)] stage_cr(2) [OF s(2)] stage_cr(3) [OF s(3)] stage_cr(4) [OF s(5)] stage_cr(5) [OF s(6)]
      stage_cr(6) [OF s(7)] by simp_all
  have "s5 = s4"
    using hook_settles [OF s(4), of "s_Status (rs_cr s4)" "rs_world s5"] cr facts by simp
  then show ?thesis
    using that [OF s1 s(1-3)] s(4-7) cr by simp
qed

text \<open>What the cluster holds of the kinds that the stages write, and what they read, up to defaults.\<close>

definition runContent :: "'w saiaDeps \<Rightarrow> 'w \<Rightarrow> 'w \<Rightarrow> bool" where
  "runContent d w w' \<longleftrightarrow>
     cGet (sa_configmaps d) w' = cGet (sa_configmaps d) w \<and> cGet (sa_jobs d) w' = cGet (sa_jobs d) w \<and>
     sameContent (sa_certs d) certificateContent w w' \<and> sameContent (sa_deployments d) deploymentContent w w' \<and>
     sameContent (sa_svcs d) serviceContent w w' \<and> sameContent (sa_monitors d) monitorContent w w'"

definition allReads where
  "allReads d w = (references d w, cGet (sa_configmaps d) w, cGet (sa_certs d) w, cGet (sa_jobs d) w,
     cGet (sa_deployments d) w, cGet (sa_svcs d) w, cGet (sa_monitors d) w)"

lemma publishService_reads:
  "kindsSeparate d \<Longrightarrow> allReads d (rs_world (publishService (sa_services d) cs s)) = allReads d (rs_world s)"
  using untouched.moves_publishService [of "allReads d" "sa_services d" s cs]
  unfolding kindsSeparate_def Let_def by (simp add: allReads_def [abs_def] sameBy_def [where w = "rs_world s"])

lemma stage_reads:
  assumes sep: "kindsSeparate d"
  shows
    "reconcileSAIAConfigMap d s = (r, t) \<Longrightarrow> references d (rs_world t) = references d (rs_world s)"
    "reconcileFeatureConfigMap d s = (r, t) \<Longrightarrow> references d (rs_world t) = references d (rs_world s)"
    "reconcileCertificate d s = (r, t) \<Longrightarrow>
       sameBy (\<lambda>w. (references d w, cGet (sa_configmaps d) w, cGet (sa_jobs d) w, cGet (sa_deployments d) w,
         cGet (sa_svcs d) w, cGet (sa_monitors d) w)) (rs_world s) (rs_world t)"
    "reconcileSAIADeployment d s = (r, t) \<Longrightarrow>
       sameBy (\<lambda>w. (references d w, cGet (sa_configmaps d) w, cGet (sa_certs d) w, cGet (sa_jobs d) w,
         cGet (sa_svcs d) w, cGet (sa_monitors d) w)) (rs_world s) (rs_world t)"
    "reconcileSAIAService d s = (r, t) \<Longrightarrow>
       sameBy (\<lambda>w. (references d w, cGet (sa_configmaps d) w, cGet (sa_certs d) w, cGet (sa_jobs d) w,
         cGet (sa_deployments d) w, cGet (sa_monitors d) w)) (rs_world s) (rs_world t)"
    "reconcileServiceMonitor d s = (r, t) \<Longrightarrow>
       sameBy (\<lambda>w. (references d w, cGet (sa_configmaps d) w, cGet (sa_certs d) w, cGet (sa_jobs d) w,
         cGet (sa_deployments d) w, cGet (sa_svcs d) w)) (rs_world s) (rs_world t)"
proof -
  note sep' = sep [unfolded kindsSeparate_def Let_def]
  have "within (sameBy (references d)) (sa_configmaps d)"
    using sep' by (auto elim: within_part)
  then show "reconcileSAIAConfigMap d s = (r, t) \<Longrightarrow> references d (rs_world t) = references d (rs_world s)"
    and "reconcileFeatureConfigMap d s = (r, t) \<Longrightarrow> references d (rs_world t) = references d (rs_world s)"
    using moves_D [OF untouched.moves_configMap] moves_D [OF untouched.moves_featureConfigMap]
    by (metis sameBy_def)+
  show "reconcileCertificate d s = (r, t) \<Longrightarrow>
       sameBy (\<lambda>w. (references d w, cGet (sa_configmaps d) w, cGet (sa_jobs d) w, cGet (sa_deployments d) w,
         cGet (sa_svcs d) w, cGet (sa_monitors d) w)) (rs_world s) (rs_world t)"
    by (rule moves_D [OF untouched.moves_certificate]) (use sep' in blast)
  show "reconcileSAIADeployment d s = (r, t) \<Longrightarrow>
       sameBy (\<lambda>w. (references d w, cGet (sa_configmaps d) w, cGet (sa_certs d) w, cGet (sa_jobs d) w,
         cGet (sa_svcs d) w, cGet (sa_monitors d) w)) (rs_world s) (rs_world t)"
    by (rule moves_D [OF untouched.moves_deployment]) (use sep' in blast)
  show "reconcileSAIAService d s = (r, t) \<Longrightarrow>
       sameBy (\<lambda>w. (references d w, cGet (sa_configmaps d) w, cGet (sa_certs d) w, cGet (sa_jobs d) w,
         cGet (sa_deployments d) w, cGet (sa_monitors d) w)) (rs_world s) (rs_world t)"
    by (rule moves_D [OF untouched.moves_service]) (use sep' in blast)
  show "reconcileServiceMonitor d s = (r, t) \<Longrightarrow>
       sameBy (\<lambda>w. (references d w, cGet (sa_configmaps d) w, cGet (sa_certs d) w, cGet (sa_jobs d) w,
         cGet (sa_deployments d) w, cGet (sa_svcs d) w)) (rs_world s) (rs_world t)"
    by (rule moves_D [OF untouched.moves_monitor]) (use sep' in blast)
qed

lemma service_uncopied:
  "reconcileSAIAService d s = (Ok (), t) \<Longrightarrow> fmfilter copiedKey (entries (om_Annotations (s_Meta (rs_cr s)))) = fmempty"
  by (auto simp: reconcileSAIAService_def Let_def panicA_def act_Ok_iff split: if_splits prod.splits)

lemma saia_runs_again:
  assumes prog: "progressDocs d" and docs: "settleDocs d"
    and run: "runStages clock (saiaStages d) [] s = (Ok (), cs, t)"
    and name: "as_ServiceAccountName (s_Spec (rs_cr s)) \<noteq> []"
    and valid: "validateAIService d s = (Ok (), s1)" and acc: "runAccepted d (rs_cr s1)"
    and after: "allReads d w = allReads d (rs_world t)" and id: "ass_SchemaJobId st = jobId (rs_cr s)"
  obtains cs' v where "runStages clock' (saiaStages d) [] \<lparr>rs_world = w, rs_events = es, rs_cr = stat st (rs_cr s)\<rparr> = (Ok (), cs', v)"
    "runContent d w (rs_world v)"
proof -
  obtain s2 s3 s4 s6 s7 where s2: "reconcileSAIAConfigMap d s1 = (Ok (), s2)" and s3: "reconcileFeatureConfigMap d s2 = (Ok (), s3)"
    and s4: "reconcileCertificate d s3 = (Ok (), s4)" and s5: "reconcilePostInstallHook d s4 = (Ok (), s4)"
    and s6: "reconcileSAIADeployment d s4 = (Ok (), s6)" and s7: "reconcileSAIAService d s6 = (Ok (), s7)"
    and s8: "reconcileServiceMonitor d s7 = (Ok (), t)"
    and cr: "rs_cr s2 = rs_cr s1" "rs_cr s3 = rs_cr s1" "rs_cr s4 = rs_cr s1" "rs_cr s6 = rs_cr s1" "rs_cr s7 = rs_cr s1"
    by (rule saia_run_steps [OF run name]) (use valid in auto)
  note facts = validate_facts [OF valid] and sep = progressD(2) [OF prog]
  note first = stage_reads(1) [OF sep s2] stage_reads(2) [OF sep s3] stage_reads(3) [OF sep s4, unfolded sameBy_def]
    stage_reads(4) [OF sep s6, unfolded sameBy_def] stage_reads(5) [OF sep s7, unfolded sameBy_def]
    stage_reads(6) [OF sep s8, unfolded sameBy_def] after [unfolded allReads_def]
  have refs: "sameReads d (rs_world s) w"
    unfolding sameReads_references using first facts by simp
  have reads: "cGet (sa_configmaps d) w = cGet (sa_configmaps d) (rs_world s3)" "cGet (sa_certs d) w = cGet (sa_certs d) (rs_world s4)"
    "cGet (sa_jobs d) w = cGet (sa_jobs d) (rs_world s4)" "cGet (sa_deployments d) w = cGet (sa_deployments d) (rs_world s6)"
    "cGet (sa_svcs d) w = cGet (sa_svcs d) (rs_world s7)" "cGet (sa_monitors d) w = cGet (sa_monitors d) (rs_world t)"
    using first by simp_all
  let ?c = "stat st (rs_cr s1)"
  have own: "setOwnerDocs (sa_setRef d)" and frame: "keyFrame cmKey (sa_configmaps d)"
    by (rule progressD(3,16) [OF prog])+
  have data: "clientDocs cmKey cm_Data (sa_configmaps d)"
    and owner: "clientDocs cmKey (\<lambda>x. om_OwnerReferences (cm_Meta x)) (sa_configmaps d)"
    using settleD(1) [OF docs] by (auto elim: clientDocs_weaken)
  obtain es1 where a1: "validateAIService d \<lparr>rs_world = w, rs_events = es, rs_cr = stat st (rs_cr s)\<rparr> =
      (Ok (), \<lparr>rs_world = w, rs_events = es1, rs_cr = ?c\<rparr>)"
    using repeats_validate [OF valid refs] unfolding repeats_def by blast
  let ?a1 = "\<lparr>rs_world = w, rs_events = es1, rs_cr = ?c\<rparr>"
  have account: "reconcileServiceAccount d ?a1 = (Ok (), ?a1)"
    by (rule serviceAccount_named) (simp add: facts name)
  have "cGet (sa_configmaps d) (rs_world s3) (saiaConfigKey (rs_cr s2)) =
      cGet (sa_configmaps d) (rs_world s2) (saiaConfigKey (rs_cr s2))"
    using featureConfigMap_owned [OF owner own frame s3] configKeys_apart by blast
  with reads(1) have a2: "reconcileSAIAConfigMap d ?a1 = (Ok (), ?a1)"
    using configMap_settles [OF data own s2, of w st] cr by (simp add: quiet_def)
  have a3: "reconcileFeatureConfigMap d ?a1 = (Ok (), ?a1)"
    using featureConfigMap_settles [OF owner own frame s3 reads(1), of st] cr by (simp add: quiet_def)
  have "\<not> certPending d w ?c"
    using certificate_issued [OF prog s4] reads(2) cr by (simp add: certPending_def)
  then obtain a4 where a4: "reconcileCertificate d ?a1 = (Ok (), a4)"
    using certificate_outcome [OF prog, of ?a1] acc by auto
  have cr4: "rs_cr a4 = ?c"
    using stage_cr(3) [OF a4] by simp
  note now4 = stage_reads(3) [OF sep a4, unfolded sameBy_def]
  have certs: "sameContent (sa_certs d) certificateContent w (rs_world a4)"
    by (rule certificate_again [OF prog docs s4 _ a4, simplified]) (use reads(2) cr in simp_all)
  have a4_eq: "a4 = \<lparr>rs_world = rs_world a4, rs_events = rs_events a4, rs_cr = ?c\<rparr>"
    using cr4 by (cases a4) simp
  have a5: "reconcilePostInstallHook d a4 = (Ok (), a4)"
    using hook_settles [OF s5, of st "rs_world a4" "rs_events a4"] facts id cr now4 reads(3) a4_eq by simp
  obtain a6 where a6: "reconcileSAIADeployment d a4 = (Ok (), a6)"
    using deployment_goes [OF prog, of a4] acc cr4 by auto
  have cr6: "rs_cr a6 = ?c"
    using stage_cr(4) [OF a6] cr4 by simp
  note now6 = stage_reads(4) [OF sep a6, unfolded sameBy_def]
  have deps: "sameContent (sa_deployments d) deploymentContent (rs_world a4) (rs_world a6)"
    by (rule deployment_again [OF prog docs s6 _ a6]) (use cr4 cr now4 reads(4) in simp_all)
  have meta6: "s_Meta (rs_cr a6) = s_Meta (rs_cr s6)"
    using cr6 cr by simp
  have "fmfilter copiedKey (entries (om_Annotations (s_Meta (rs_cr a6)))) = fmempty"
    unfolding meta6 by (rule service_uncopied [OF s7])
  then obtain a7 where a7: "reconcileSAIAService d a6 = (Ok (), a7)"
    using service_goes [OF prog, of a6] acc cr6 by auto
  have cr7: "rs_cr a7 = ?c"
    using stage_cr(5) [OF a7] cr6 by simp
  note now7 = stage_reads(5) [OF sep a7, unfolded sameBy_def]
  have svcs: "sameContent (sa_svcs d) serviceContent (rs_world a6) (rs_world a7)"
    by (rule service_again [OF prog docs s7 _ a7]) (use cr6 cr now4 now6 reads(5) in simp_all)
  obtain a8 where a8: "reconcileServiceMonitor d a7 = (Ok (), a8)"
    using monitor_goes [OF prog, of a7] acc cr7 by auto
  note now8 = stage_reads(6) [OF sep a8, unfolded sameBy_def]
  have mons: "sameContent (sa_monitors d) monitorContent (rs_world a7) (rs_world a8)"
    by (rule monitor_again [OF prog docs s8 _ a8]) (use cr7 cr now4 now6 now7 reads(6) in simp_all)
  have stages: "inSequence (saiaStages d) \<lparr>rs_world = w, rs_events = es, rs_cr = stat st (rs_cr s)\<rparr> = (Ok (), a8)"
    by (simp add: saiaStages_def thenA_def bindA_def a1 account a2 a3 a4 a5 a6 a7 a8 retA_def)
  obtain q cs' v where v: "runStages clock' (saiaStages d) [] \<lparr>rs_world = w, rs_events = es, rs_cr = stat st (rs_cr s)\<rparr> = (q, cs', v)"
    by (metis prod_cases3)
  have "q = Ok ()" "v = a8"
    using runStages_sequence [OF v] stages by simp_all
  moreover have "runContent d w (rs_world a8)"
    using certs deps svcs mons now4 now6 now7 now8 unfolding runContent_def sameContent_def by simp
  ultimately show ?thesis
    using that v by blast
qed

text \<open>
  C9: a reconcile of the SAIA feature that has succeeded, for a validated service that names its
  service account, succeeds when it runs again, with the AIService as it was (whatever status it has been given that still names the same schema job) in the
  cluster that the first run left, and changes nothing: it reports Ready, every config map and job
  reads as before, and so do the content of every certificate, deployment, service and monitor, for
  an API server that may fill in defaults (\<open>settleDocs\<close>: the same content sent again is stored as
  it was) and accepts what the run sends.
\<close>

theorem saia_reconcile_settles:
  assumes docs: "progressDocs d" "settleDocs d" and status: "statusVisible svKey s_Status (sa_services d)"
    and name: "as_ServiceAccountName (s_Spec (rs_cr s)) \<noteq> []"
    and valid: "validateAIService d s = (Ok (), s1)" and acc: "runAccepted d (rs_cr s1)"
    and run: "SaiaReconcile d clock s = (Ok (), t)" and id: "ass_SchemaJobId st = jobId (rs_cr s)"
  shows "\<exists>v. SaiaReconcile d clock' (t\<lparr>rs_cr := stat st (rs_cr s)\<rparr>) = (Ok (), v) \<and>
    IsConditionTrue (ass_Conditions (s_Status (rs_cr v))) ''Ready'' \<and> runContent d (rs_world t) (rs_world v)"
proof -
  obtain cs u where u: "runStages clock (saiaStages d) [] s = (Ok (), cs, u)"
    "t = publishService (sa_services d) cs u"
    using run by (auto simp: SaiaReconcile_def split: prod.splits)
  note sep = progressD(2) [OF docs(1)]
  have same: "allReads d (rs_world t) = allReads d (rs_world u)"
    using publishService_reads [OF sep] u(2) by simp
  obtain cs' v where v: "runStages clock' (saiaStages d) [] (t\<lparr>rs_cr := stat st (rs_cr s)\<rparr>) = (Ok (), cs', v)"
    "runContent d (rs_world t) (rs_world v)"
    by (rule saia_runs_again [OF docs u(1) name valid acc same id, of clock' "rs_events t"]) (cases t, auto)
  have report: "stageReport clock' saiaStageNames (Ok ()) cs'"
    using runStages_report [OF v(1)] by (simp add: stage_simps)
  have kept: "allReads d (rs_world (publishService (sa_services d) cs' v)) = allReads d (rs_world v)"
    by (rule publishService_reads [OF sep])
  have "runContent d (rs_world t) (rs_world (publishService (sa_services d) cs' v))"
    using v(2) kept by (simp add: runContent_def allReads_def sameContent_def)
  moreover have "SaiaReconcile d clock' (t\<lparr>rs_cr := stat st (rs_cr s)\<rparr>) = (Ok (), publishService (sa_services d) cs' v)"
    by (simp add: SaiaReconcile_def v(1))
  ultimately show ?thesis
    using saia_stages.report_ready [OF report] publishService_conditions [OF status] by (intro exI conjI) auto
qed

section \<open>The cluster in memory\<close>

lemma field_write:
  "cCreate (fieldClient get put c) w x = (w', r) \<longleftrightarrow> (\<exists>v. cCreate c (get w) x = (v, r) \<and> w' = put v w)"
  "cUpdate (fieldClient get put c) w x = (w', r) \<longleftrightarrow> (\<exists>v. cUpdate c (get w) x = (v, r) \<and> w' = put v w)"
  by (auto simp: fieldClient_def through_def prod_eq_iff)

lemma fieldClient_stable:
  assumes stable: "resendStable key u c"
  shows "resendStable key u (fieldClient get put c)"
  unfolding resendStable_def
proof (intro allI impI)
  fix w x w' y old
  assume up: "cUpdate (fieldClient get put c) w x = (w', Ok y)" and old: "cGet (fieldClient get put c) w (key x) = Ok old"
    and sf: "storedFrom (fieldClient get put c) u (u x) (u old)"
  obtain v where "cUpdate c (get w) x = (v, Ok y)"
    using up by (auto simp: field_write)
  moreover have "storedFrom c u (u x) (u old)"
    using sf unfolding storedFrom_def field_write by blast
  moreover have "cGet c (get w) (key x) = Ok old"
    using old by (simp add: client_gets)
  ultimately show "u y = u old"
    using stable unfolding resendStable_def by blast
qed

lemma defaultingClient_stable:
  assumes "\<And>x y. u x = u y \<Longrightarrow> u (g x) = u (g y)"
  shows "resendStable key u (defaultingClient key g)"
  unfolding resendStable_def
proof (intro allI impI)
  fix w x w' y old
  assume up: "cUpdate (defaultingClient key g) w x = (w', Ok y)"
    and sf: "storedFrom (defaultingClient key g) u (u x) (u old)"
  have y: "y = g x"
    using up by (auto simp: defaultingClient_def dest: mem_write)
  obtain x0 y0 where "u x0 = u x" "u y0 = u old" "y0 = g x0"
    using sf unfolding storedFrom_def defaultingClient_def by (auto dest: mem_write)
  then show "u y = u old"
    using assms y by metis
qed

lemma memClient_stable: "resendStable key u (memClient key sel)"
  unfolding resendStable_def storedFrom_def memClient_def by (auto dest!: mem_write)

lemma fullDeps_settle: "settleDocs fullDeps"
proof -
  have "resendStable depKey deploymentContent (defaultingClient depKey defaultRestart)"
    by (rule defaultingClient_stable) (auto simp: deploymentContent_def defaultRestart_def)
  then show ?thesis
    unfolding settleDocs_def fullDeps_sel
    by (simp add: fieldClient_docs memClient_docs defaultingClient_docs defaultRestart_keeps fieldClient_stable memClient_stable
        fieldClient_frame memClient_frame defaultingClient_frame)
qed

text \<open>A service whose schema job has completed, and that has nothing in the cluster yet.\<close>

definition readyStart :: "(kinds, AIService) rstate" where
  "readyStart = (freshState\<lparr>rs_cr := stat (ass_SchemaJobId_update (\<lambda>_. ''j'') (s_Status freshService)) freshService\<rparr>)
     \<lparr>rs_world := (rs_world freshState)\<lparr>k_Jobs := [\<lparr>jb_Meta = newMeta ''j'' ''ns'', jb_Template = zeroPodTemplate,
        jb_Conditions = [(''Complete'', ''True'')]\<rparr>]\<rparr>\<rparr>"

lemma readyStart_validate: "\<exists>s1. validateAIService fullDeps readyStart = (Ok (), s1)"
proof -
  have "sameReads fullDeps (rs_world freshState) (rs_world readyStart)"
    by (simp add: sameReads_def fullDeps_sel client_gets)
  from repeats_validate [OF fresh_validate this]
  show ?thesis
    unfolding repeats_def by (fastforce simp: readyStart_def freshState_def)
qed

text \<open>
  Two runs, the first of which creates the deployment; the second finds it with the restart policy
  that the server has filled in.
\<close>

theorem saia_reconcile_settles_witness:
  "\<exists>t v. SaiaReconcile fullDeps id readyStart = (Ok (), t) \<and>
     SaiaReconcile fullDeps id (t\<lparr>rs_cr := rs_cr readyStart\<rparr>) = (Ok (), v) \<and>
     IsConditionTrue (ass_Conditions (s_Status (rs_cr v))) ''Ready'' \<and> runContent fullDeps (rs_world t) (rs_world v)"
proof -
  obtain s1 where valid: "validateAIService fullDeps readyStart = (Ok (), s1)"
    using readyStart_validate by blast
  have cr: "rs_cr readyStart = stat (ass_SchemaJobId_update (\<lambda>_. ''j'') (s_Status freshService)) freshService"
    by (simp add: readyStart_def)
  have name: "as_ServiceAccountName (s_Spec (rs_cr readyStart)) \<noteq> []"
    using fresh_facts(1) by (simp add: cr freshState_def)
  have meta: "s_Meta (rs_cr readyStart) = s_Meta (rs_cr freshState)"
    by (simp add: cr freshState_def)
  have none: "fmfilter copiedKey (entries (om_Annotations (s_Meta (rs_cr readyStart)))) = fmempty"
    unfolding meta by (rule fresh_facts(3))
  have free: "configsFree fullDeps (rs_world readyStart) (rs_cr readyStart)"
    by (simp add: fullDeps_free readyStart_def freshState_def memGet_def)
  have ns: "aiNamespace freshService = ''ns''" "operatorTLS freshService = False"
    by (simp_all add: freshService_def exampleService_def newMeta_def operatorTLS_def exampleSpec_def zero_defs)
  have "saiaWait fullDeps (rs_world readyStart) (rs_cr readyStart) = None"
    by (simp add: saiaWait_def certPending_def jobWait_def cr ns fullDeps_sel client_gets memClient_def memGet_def readyStart_def
        jobKey_def metaKey_def newMeta_def)
  then obtain u where "inSequence (saiaStages fullDeps) readyStart = (Ok (), u)"
    using saia_outcome [OF fullDeps_progress name valid fullDeps_accepts free none] by auto
  moreover obtain r cs u' where stages: "runStages id (saiaStages fullDeps) [] readyStart = (r, cs, u')"
    by (metis prod_cases3)
  ultimately have "r = Ok ()"
    using runStages_sequence [OF stages] by simp
  then obtain t where run: "SaiaReconcile fullDeps id readyStart = (Ok (), t)"
    by (simp add: SaiaReconcile_def stages)
  have again: "stat (s_Status (rs_cr readyStart)) (rs_cr readyStart) = rs_cr readyStart"
    by simp
  show ?thesis
    using saia_reconcile_settles [OF fullDeps_progress fullDeps_settle fullDeps_status name valid fullDeps_accepts run refl,
        of id] run unfolding again by blast
qed

end
