(* ===== verification/PlatformSteps.thy ===== *)
theory PlatformSteps
  imports Answers
begin

text \<open>
  The stages of a platform that write, one by one: with an API server that answers and accepts what
  they send, and a configuration that can be rendered, the sidecars, the role of the autoscaler and
  the RayService go through.
\<close>

section \<open>Actions that succeed\<close>

text \<open>With the object \<open>p\<close> in memory the action succeeds, and leaves it there.\<close>

definition goes :: "'c \<Rightarrow> ('w, 'c, 'a) act \<Rightarrow> bool" where
  "goes p m \<longleftrightarrow> (\<forall>s. rs_cr s = p \<longrightarrow> (\<exists>x t. m s = (Ok x, t) \<and> rs_cr t = p))"

named_theorems goes_intros

lemma goes_D:
  assumes "goes p m" and "rs_cr s = p"
  obtains x t where "m s = (Ok x, t)" "rs_cr t = p"
  using assms unfolding goes_def by blast

lemma goes_basic [goes_intros]:
  "goes p (retA x)" "goes p (noteA r m)" "goes p (warnA r m)" "goes p getCR"
  by (simp_all add: goes_def act_defs noteA_def warnA_def)

lemma goes_bind [goes_intros]: "goes p m \<Longrightarrow> (\<And>x. goes p (f x)) \<Longrightarrow> goes p (bindA m f)"
  unfolding goes_def bindA_def by fastforce

lemma goes_then [goes_intros]: "goes p m \<Longrightarrow> goes p k \<Longrightarrow> goes p (thenA m k)"
  by (simp add: thenA_def goes_bind)

lemma goes_getCR [goes_intros]: "goes p (f p) \<Longrightarrow> goes p (bindA getCR f)"
  by (simp add: goes_def bindA_def getCR_def)

lemma goes_lift [goes_intros]: "isOk r \<Longrightarrow> goes p (liftA r)"
  unfolding isOk_iff by (auto simp: goes_def liftA_def)

lemma goes_lift_bind [goes_intros]: "isOk r \<Longrightarrow> (\<And>x. r = Ok x \<Longrightarrow> goes p (f x)) \<Longrightarrow> goes p (bindA (liftA r) f)"
  unfolding isOk_iff by (auto simp: goes_def bindA_def liftA_def)

lemma goes_when [goes_intros]: "(b \<Longrightarrow> goes p m) \<Longrightarrow> goes p (whenA b m)"
  by (simp add: whenA_def goes_basic)

lemma goes_drop [goes_intros]: "goes p m \<Longrightarrow> goes p (dropA m)"
  by (simp add: dropA_def goes_bind goes_basic)

lemma goes_wrap [goes_intros]: "goes p m \<Longrightarrow> goes p (wrapA f m)"
  unfolding goes_def wrapA_def by fastforce

lemma goes_onErr [goes_intros]: "goes p m \<Longrightarrow> goes p (onErr h f m)"
  unfolding goes_def using onErr_Ok_iff by metis

text \<open>An action whose error the code drops has only to return.\<close>

definition calm :: "'c \<Rightarrow> ('w, 'c, 'a) act \<Rightarrow> bool" where
  "calm p m \<longleftrightarrow> (\<forall>s. rs_cr s = p \<longrightarrow> (\<forall>q. fst (m s) \<noteq> Panic q) \<and> rs_cr (snd (m s)) = p)"

lemma goes_try:
  fixes p :: 'c and m :: "('w, 'c, 'a) act"
  assumes "calm p m" and "\<And>r. goes p (f r)"
  shows "goes p (tryA m f)"
  unfolding goes_def
proof (intro allI impI)
  fix s :: "('w, 'c) rstate"
  assume s: "rs_cr s = p"
  obtain r u where m: "m s = (r, u)" by fastforce
  have "rs_cr u = p" "\<And>q. r \<noteq> Panic q"
    using assms(1) [unfolded calm_def, rule_format, OF s] m by simp_all
  then show "\<exists>x t. tryA m f s = (Ok x, t) \<and> rs_cr t = p"
    using assms(2) [of r] m by (cases r) (auto simp: goes_def tryA_def)
qed

lemma goes_upsert:
  fixes c :: "('w, 'o) client" and p :: 'c
  assumes "keysKept key c" and "replies c" and "accepts key c x f"
    and f: "\<And>cur. key cur = key x \<Longrightarrow> \<exists>y. f cur = Ok y \<and> key y = key x"
  shows "goes p (upsertA c x f)"
  unfolding goes_def
proof (intro allI impI)
  fix s :: "('w, 'c) rstate"
  assume "rs_cr s = p"
  moreover obtain w' y where "cCreateOrUpdate c (rs_world s) x f = (w', Ok y)"
    using upsert_accepted [OF assms(1-3), of "rs_world s"] f by blast
  ultimately show "\<exists>y t. upsertA c x f s = (Ok y, t) \<and> rs_cr t = p"
    by (simp add: upsertA_def callA_def)
qed

lemma goes_fetch:
  fixes c :: "('w, 'o) client" and p :: 'c
  assumes "replies c" and "\<And>w x. cGet c w k = Ok x \<Longrightarrow> goes p (f (Ok x))" and "\<And>e. isNotFound e \<Longrightarrow> goes p (f (Err e))"
  shows "goes p (tryA (getA c k) f)"
  unfolding goes_def
proof (intro allI impI)
  fix s :: "('w, 'c) rstate"
  assume s: "rs_cr s = p"
  show "\<exists>y t. tryA (getA c k) f s = (Ok y, t) \<and> rs_cr t = p"
  proof (rule replies_get [OF assms(1), of "rs_world s" k])
    fix x assume "cGet c (rs_world s) k = Ok x"
    then show ?thesis
      using assms(2) [of "rs_world s" x] s by (simp add: goes_def tryA_def getA_def readA_def)
  next
    fix e assume "cGet c (rs_world s) k = Err e" "isNotFound e"
    then show ?thesis
      using assms(3) [of e] s by (simp add: goes_def tryA_def getA_def readA_def)
  qed
qed

text \<open>Calls that return, if only an error.\<close>

definition neverPanics :: "('w, 'o) client \<Rightarrow> bool" where
  "neverPanics c \<longleftrightarrow> (\<forall>w x q. snd (cCreate c w x) \<noteq> Panic q \<and> snd (cUpdate c w x) \<noteq> Panic q)"

lemma calm_upsert:
  fixes c :: "('w, 'o) client" and p :: 'c
  assumes docs: "keysKept key c" and ans: "replies c" and quiet: "neverPanics c" and f: "\<And>x q. f x \<noteq> Panic q"
  shows "calm p (upsertA c x f)"
proof -
  have spec: "createOrUpdateSpec key c"
    using docs by (simp add: clientDocs_def)
  have "snd (cCreateOrUpdate c w x f) \<noteq> Panic q" for w q
  proof (rule replies_get [OF ans, of w "key x"])
    fix cur assume cur: "cGet c w (key x) = Ok cur"
    then show ?thesis
      using spec quiet f [of cur] by (cases "f cur") (auto simp: createOrUpdateSpec_def neverPanics_def)
  next
    fix e assume "cGet c w (key x) = Err e" "isNotFound e"
    then show ?thesis
      using spec quiet f [of x] by (cases "f x") (auto simp: createOrUpdateSpec_def neverPanics_def)
  qed
  then show ?thesis
    by (auto simp: calm_def upsertA_def callA_def prod_eq_iff split: prod.split)
qed

lemma calm_drop: "calm p m \<Longrightarrow> calm p (dropA m)"
  unfolding calm_def dropA_def bindA_def retA_def by (auto split: prod.split res.split)

section \<open>Sidecars\<close>

text \<open>The configuration of the collector as the stage reads it back.\<close>

definition otelConfig :: "'w sidecarDeps \<Rightarrow> string \<Rightarrow> (string, uval) fmap res" where
  "otelConfig d yaml = bindR (si_yamlToJSON d yaml) (si_unmarshal d)"

definition sidecarsServe :: "'w sidecarDeps \<Rightarrow> bool" where
  "sidecarsServe d \<longleftrightarrow>
     controllerDocs (si_setRef d) \<and> ownerDocs (si_setOwner d) \<and>
     replies (si_configmaps d) \<and> clientDocs cmKey cm_Data (si_configmaps d) \<and> keyFrame cmKey (si_configmaps d) \<and>
     replies (si_collectors d) \<and> keysKept unKey (si_collectors d) \<and>
     replies (si_monitors d) \<and> keysKept unKey (si_monitors d) \<and>
     replies (si_rules d) \<and> keysKept unKey (si_rules d)"

text \<open>The codecs take what the stage renders, and what the config map holds already.\<close>

definition otelRendered :: "'w sidecarDeps \<Rightarrow> AIPlatform \<Rightarrow> bool" where
  "otelRendered d p \<longleftrightarrow> (\<forall>w. \<exists>yaml. bindR (renderOtelConf d w p) (si_marshal d) = Ok yaml \<and> isOk (otelConfig d yaml))"

abbreviation otelText :: "configmap \<Rightarrow> string option" where
  "otelText cm \<equiv> fmlookup (entries (cm_Data cm)) ''otel-config.yaml''"

definition otelStored :: "'w sidecarDeps \<Rightarrow> 'w \<Rightarrow> AIPlatform \<Rightarrow> bool" where
  "otelStored d w p \<longleftrightarrow>
     (\<forall>cm yaml. cGet (si_configmaps d) w (plNamespace p, otelMapName p) = Ok cm \<longrightarrow> otelText cm = Some yaml \<longrightarrow>
        isOk (otelConfig d yaml))"

text \<open>What the stage sends for the platform \<open>p\<close> is accepted.\<close>

abbreviation envoyData :: smap where
  "envoyData \<equiv> fmap_of_list [(''envoy.yaml'', renderEnvoyConf)]"

definition envoyAccepted :: "'w sidecarDeps \<Rightarrow> AIPlatform \<Rightarrow> bool" where
  "envoyAccepted d p \<longleftrightarrow>
     (\<forall>m. si_setRef d (p_Meta p) (newMeta (plName p @ ''-envoy-config'') (plNamespace p)) = Ok m \<longrightarrow>
        accepts cmKey (si_configmaps d) \<lparr>cm_Meta = m, cm_Data = Some envoyData\<rparr>
          (\<lambda>cm. Ok (cm\<lparr>cm_Data := Some envoyData\<rparr>)))"

definition otelAccepted :: "'w sidecarDeps \<Rightarrow> AIPlatform \<Rightarrow> bool" where
  "otelAccepted d p \<longleftrightarrow>
     (\<forall>w. accepts cmKey (si_configmaps d) \<lparr>cm_Meta = newMeta (otelMapName p) (plNamespace p), cm_Data = None\<rparr>
        (mutateOtelMap d w p)) \<and>
     (\<forall>yaml cfg. otelConfig d yaml = Ok cfg \<longrightarrow>
        accepts unKey (si_collectors d) (newUnstructured (plName p @ ''-otel-coll'') (plNamespace p))
          (mutateCollector d p (collectorSpec p cfg)))"

definition monitorsAccepted :: "'w sidecarDeps \<Rightarrow> AIPlatform \<Rightarrow> bool" where
  "monitorsAccepted d p \<longleftrightarrow>
     accepts unKey (si_monitors d) (newUnstructured (plName p @ ''-ray-head-monitor'') (plNamespace p))
       (ownedSpec d p (headMonitorSpec p)) \<and>
     accepts unKey (si_monitors d) (newUnstructured (plName p @ ''-ray-workers-monitor'') (plNamespace p))
       (ownedSpec d p (workerMonitorSpec p))"

definition sidecarsAccepted :: "'w sidecarDeps \<Rightarrow> AIPlatform \<Rightarrow> bool" where
  "sidecarsAccepted d p \<longleftrightarrow>
     (sd_Envoy (ap_Sidecars (p_Spec p)) \<longrightarrow> envoyAccepted d p) \<and>
     (sd_Otel (ap_Sidecars (p_Spec p)) \<longrightarrow> otelAccepted d p) \<and>
     accepts unKey (si_rules d) (newUnstructured (plName p @ ''-alerts'') (plNamespace p)) (ownedSpec d p (ruleSpec p)) \<and>
     (sd_PrometheusOperator (ap_Sidecars (p_Spec p)) \<longrightarrow> monitorsAccepted d p)"

lemma sidecarsD:
  assumes "sidecarsServe d"
  shows "controllerDocs (si_setRef d)" "ownerDocs (si_setOwner d)" "replies (si_configmaps d)"
    "clientDocs cmKey cm_Data (si_configmaps d)" "keyFrame cmKey (si_configmaps d)" "keysKept cmKey (si_configmaps d)"
    "replies (si_collectors d)" "keysKept unKey (si_collectors d)" "replies (si_monitors d)" "keysKept unKey (si_monitors d)"
    "replies (si_rules d)" "keysKept unKey (si_rules d)"
  using assms by (auto simp: sidecarsServe_def clientDocs_def writeVisible_def)

text \<open>An object of the platform's namespace can be given its owner.\<close>

lemma sidecar_owner:
  assumes "sidecarsServe d" and "om_Namespace m = plNamespace p"
  obtains m' where "si_setOwner d (p_Meta p) m = Ok m'" "metaKey m' = metaKey m"
  using ownerDocs_set [OF sidecarsD(2) [OF assms(1)] assms(2)] by blast

text \<open>The Envoy map, with which the other config maps stay as they are.\<close>

lemma sidecarMap_goes:
  fixes d :: "'w sidecarDeps"
  assumes docs: "sidecarsServe d"
    and acc: "\<And>m. si_setRef d (p_Meta p) (newMeta name (plNamespace p)) = Ok m \<Longrightarrow>
      accepts cmKey (si_configmaps d) \<lparr>cm_Meta = m, cm_Data = Some data\<rparr> (\<lambda>cm. Ok (cm\<lparr>cm_Data := Some data\<rparr>))"
    and p: "rs_cr s = p" and k: "k \<noteq> (plNamespace p, name)"
  shows "\<exists>t. createOrUpdateSidecarMap d name data s = (Ok (), t) \<and> rs_cr t = p \<and>
    cGet (si_configmaps d) (rs_world t) k = cGet (si_configmaps d) (rs_world s) k"
proof -
  let ?k = "(plNamespace p, name)" and ?c = "si_configmaps d"
  note defs = createOrUpdateSidecarMap_def tryA_def getA_def updateA_def createA_def dropA_def act_defs p
  obtain m where m: "si_setRef d (p_Meta p) (newMeta name (plNamespace p)) = Ok m" "metaKey m = ?k"
    by (rule controllerDocs_new [OF sidecarsD(1) [OF docs], of "p_Meta p" name])
  let ?x = "\<lparr>cm_Meta = m, cm_Data = Some data\<rparr>"
  have key: "cmKey ?x = ?k"
    using m by (simp add: cmKey_def)
  note frame = keyFrameD [OF sidecarsD(5) [OF docs]]
  show ?thesis
  proof (rule replies_get [OF sidecarsD(3) [OF docs], of "rs_world s" ?k])
    fix cm assume cm: "cGet ?c (rs_world s) ?k = Ok cm"
    let ?y = "cm\<lparr>cm_Data := Some data\<rparr>"
    obtain w' y where up: "cUpdate ?c (rs_world s) ?y = (w', Ok y)"
      by (rule accepts_update [OF acc [OF m(1)], of "rs_world s" cm]) (simp_all add: key cm)
    moreover have "k \<noteq> cmKey ?y"
      using clientDocs_get [OF sidecarsD(6) [OF docs] cm] k by (simp add: cmKey_def)
    ultimately show ?thesis
      using cm m frame(2) [of k ?y] by (cases "cm_Data cm = Some data") (auto simp: defs)
  next
    fix e assume e: "cGet ?c (rs_world s) ?k = Err e" "isNotFound e"
    obtain w' y where "cCreate ?c (rs_world s) ?x = (w', Ok y)"
      by (rule accepts_create [OF acc [OF m(1)], of "rs_world s" e ?x]) (simp_all add: key e)
    then show ?thesis
      using e m key k frame(1) [of k ?x] by (auto simp: defs)
  qed
qed

lemma envoy_goes:
  assumes docs: "sidecarsServe d" and acc: "sidecarsAccepted d p" and p: "rs_cr s = p"
  shows "\<exists>t. reconcileEnvoyConfig d s = (Ok (), t) \<and> rs_cr t = p \<and>
    (otelStored d (rs_world s) p \<longrightarrow> otelStored d (rs_world t) p)"
proof (cases "sd_Envoy (ap_Sidecars (p_Spec p))")
  case True
  have "accepts cmKey (si_configmaps d) \<lparr>cm_Meta = m, cm_Data = Some envoyData\<rparr> (\<lambda>cm. Ok (cm\<lparr>cm_Data := Some envoyData\<rparr>))"
    if "si_setRef d (p_Meta p) (newMeta (plName p @ ''-envoy-config'') (plNamespace p)) = Ok m" for m
    using True acc that unfolding sidecarsAccepted_def envoyAccepted_def by blast
  from sidecarMap_goes [OF docs this p, where k = "(plNamespace p, otelMapName p)" and name = "plName p @ ''-envoy-config''"]
  have "\<exists>t. createOrUpdateSidecarMap d (plName p @ ''-envoy-config'') envoyData s = (Ok (), t) \<and> rs_cr t = p \<and>
      (otelStored d (rs_world s) p \<longrightarrow> otelStored d (rs_world t) p)"
    by (auto simp: otelMapName_def otelStored_def)
  then show ?thesis
    using True p by (simp add: reconcileEnvoyConfig_def act_defs)
qed (use p in \<open>simp add: reconcileEnvoyConfig_def act_defs\<close>)

lemma mutateOtelMap_goes:
  assumes docs: "sidecarsServe d" and rendered: "otelRendered d p" and ns: "om_Namespace (cm_Meta x) = plNamespace p"
    and old: "\<And>yaml. otelText x = Some yaml \<Longrightarrow> isOk (otelConfig d yaml)"
  shows "\<exists>y yaml. mutateOtelMap d w p x = Ok y \<and> cmKey y = cmKey x \<and> otelText y = Some yaml \<and> isOk (otelConfig d yaml)"
proof -
  obtain m where m: "si_setOwner d (p_Meta p) (cm_Meta x) = Ok m" "metaKey m = metaKey (cm_Meta x)"
    by (rule sidecar_owner [OF docs ns])
  show ?thesis
  proof (cases "otelText x")
    case None
    obtain content yaml where "renderOtelConf d w p = Ok content" "si_marshal d content = Ok yaml" "isOk (otelConfig d yaml)"
      using rendered unfolding otelRendered_def bindR_Ok_iff by blast
    then show ?thesis
      using None m by (simp add: mutateOtelMap_def Let_def cmKey_def)
  next
    case (Some yaml)
    then show ?thesis
      using m old by (simp add: mutateOtelMap_def Let_def cmKey_def)
  qed
qed

lemma otel_goes:
  assumes docs: "sidecarsServe d" and acc: "sidecarsAccepted d p" and p: "rs_cr s = p" and stored: "otelStored d (rs_world s) p"
    and on: "sd_Otel (ap_Sidecars (p_Spec p))" and rendered: "otelRendered d p"
  shows "\<exists>t. reconcileOpenTelemetryCollector d s = (Ok (), t) \<and> rs_cr t = p"
proof -
  let ?c = "si_configmaps d" and ?k = "(plNamespace p, otelMapName p)" and ?f = "mutateOtelMap d (rs_world s) p"
  let ?x = "\<lparr>cm_Meta = newMeta (otelMapName p) (plNamespace p), cm_Data = None\<rparr>"
  have key: "cmKey ?x = ?k"
    by (simp add: cmKey_def metaKey_def)
  have sent: "\<exists>y yaml. ?f cm = Ok y \<and> cmKey y = ?k \<and> otelText y = Some yaml \<and> isOk (otelConfig d yaml)"
    if "cGet ?c (rs_world s) ?k = Ok cm \<or> cm = ?x" "cmKey cm = ?k" for cm
  proof -
    have "otelText cm = Some yaml \<Longrightarrow> isOk (otelConfig d yaml)" for yaml
      using that(1) stored unfolding otelStored_def by (auto simp: entries_def)
    then show ?thesis
      using mutateOtelMap_goes [OF docs rendered, of cm "rs_world s"] that(2) by (simp add: cmKey_def metaKey_def)
  qed
  have "accepts cmKey ?c ?x ?f"
    using acc on by (simp add: sidecarsAccepted_def otelAccepted_def)
  from upsert_accepted [OF sidecarsD(6,3) [OF docs] this, of "rs_world s", unfolded key]
  obtain w y where up: "cCreateOrUpdate ?c (rs_world s) ?x ?f = (w, Ok y)"
    using sent key by blast
  have keep: "cmKey v = cmKey u" if "?f u = Ok v" for u v
    using that setOwnerDocsD(1) [of "si_setOwner d" "p_Meta p" "cm_Meta u"] sidecarsD(2) [OF docs]
    by (auto simp: mutateOtelMap_def Let_def bindR_Ok_iff cmKey_def ownerDocs_def)
  obtain start new where new: "?f start = Ok new" "cGet ?c w ?k = Ok y" "cm_Data y = cm_Data new"
      "cGet ?c (rs_world s) ?k = Ok start \<or> start = ?x"
    by (rule createOrUpdate_result [OF sidecarsD(4) [OF docs] keep up]) (auto simp: key)
  have "cmKey start = ?k"
    using new(4) key clientDocs_get [OF sidecarsD(6) [OF docs]] by blast
  then obtain yaml where "otelText new = Some yaml" "isOk (otelConfig d yaml)"
    using sent [OF new(4)] new(1) by auto
  then obtain json cfg where cfg: "si_yamlToJSON d (mget (entries (cm_Data y)) ''otel-config.yaml'') = Ok json"
      "si_unmarshal d json = Ok cfg" "otelConfig d yaml = Ok cfg"
    using new(3) by (auto simp: otelConfig_def isOk_iff bindR_Ok_iff mget_def)
  let ?u = "newUnstructured (plName p @ ''-otel-coll'') (plNamespace p)"
  have ukey: "unKey ?u = (plNamespace p, plName p @ ''-otel-coll'')"
    by (simp add: newUnstructured_def unKey_def metaKey_def)
  have total: "\<exists>v. mutateCollector d p spec z = Ok v \<and> unKey v = unKey ?u" if "unKey z = unKey ?u" for z spec
  proof -
    let ?m = "(un_Meta z)\<lparr>om_Labels := Some (fmap_of_list [(''app'', plName p @ ''-ray'')])\<rparr>"
    let ?n = "if om_Finalizers ?m = [] then ?m\<lparr>om_Finalizers := [''opentelemetrycollector.opentelemetry.io/finalizer'']\<rparr> else ?m"
    have "om_Namespace ?n = plNamespace p"
      using that ukey by (simp add: unKey_def metaKey_def)
    from sidecar_owner [OF docs this] obtain m where "si_setOwner d (p_Meta p) ?n = Ok m" "metaKey m = metaKey ?n" .
    then show ?thesis
      using that by (simp add: mutateCollector_def Let_def unKey_def metaKey_def split: if_splits)
  qed
  have "accepts unKey (si_collectors d) ?u (mutateCollector d p (collectorSpec p cfg))"
    using acc on cfg(3) unfolding sidecarsAccepted_def otelAccepted_def by blast
  from upsert_accepted [OF sidecarsD(8,7) [OF docs] this, of w]
  obtain w' y' where "cCreateOrUpdate (si_collectors d) w ?u (mutateCollector d p (collectorSpec p cfg)) = (w', Ok y')"
    using total [of _ "collectorSpec p cfg"] by metis
  then show ?thesis
    using on p up new(2) cfg(1,2)
    by (simp add: reconcileOpenTelemetryCollector_def reconcileOtelConfigMap_def upsertA_def getA_def dropA_def act_defs)
qed

lemma monitors_go:
  assumes docs: "sidecarsServe d" and acc: "sidecarsAccepted d p"
  shows "goes p (thenA (reconcilePrometheusRule d) (reconcilePodMonitor d))"
proof -
  have owned: "\<exists>y. ownedSpec d p spec x = Ok y \<and> unKey y = unKey (newUnstructured n (plNamespace p))"
    if "unKey x = unKey (newUnstructured n (plNamespace p))" for x spec n
  proof -
    have "om_Namespace (un_Meta x) = plNamespace p"
      using that by (simp add: newUnstructured_def unKey_def metaKey_def)
    from sidecar_owner [OF docs this] obtain m where "si_setOwner d (p_Meta p) (un_Meta x) = Ok m" "metaKey m = metaKey (un_Meta x)" .
    then show ?thesis
      using that by (simp add: ownedSpec_def unKey_def)
  qed
  have "goes p (upsertA c (newUnstructured n (plNamespace p)) (ownedSpec d p spec))"
    if "keysKept unKey c" "replies c" "accepts unKey c (newUnstructured n (plNamespace p)) (ownedSpec d p spec)" for c n spec
    by (rule goes_upsert [OF that]) (rule owned)
  then show ?thesis
    using acc sidecarsD [OF docs] unfolding reconcilePrometheusRule_def reconcilePodMonitor_def
    by (auto intro!: goes_intros simp: sidecarsAccepted_def monitorsAccepted_def)
qed

lemma sidecars_go:
  assumes docs: "sidecarsServe d" and acc: "sidecarsAccepted d p" and p: "rs_cr s = p"
    and otel: "sd_Otel (ap_Sidecars (p_Spec p)) \<longrightarrow> otelRendered d p \<and> otelStored d (rs_world s) p"
  shows "\<exists>t. SidecarsReconcile d s = (Ok (), t) \<and> rs_cr t = p"
proof -
  obtain t where t: "reconcileEnvoyConfig d s = (Ok (), t)" "rs_cr t = p" "otelStored d (rs_world s) p \<longrightarrow> otelStored d (rs_world t) p"
    using envoy_goes [OF docs acc p] by blast
  obtain u where u: "reconcileOpenTelemetryCollector d t = (Ok (), u)" "rs_cr u = p"
  proof (cases "sd_Otel (ap_Sidecars (p_Spec p))")
    case True
    then show thesis
      using otel_goes [OF docs acc t(2)] t(3) otel that by blast
  qed (use t(2) that in \<open>simp add: reconcileOpenTelemetryCollector_def act_defs\<close>)
  obtain v where "thenA (reconcilePrometheusRule d) (reconcilePodMonitor d) u = (Ok (), v)" "rs_cr v = p"
    using goes_D [OF monitors_go [OF docs acc] u(2)] by (metis unit.exhaust)
  then show ?thesis
    using t(1) u(1) by (simp add: SidecarsReconcile_def thenA_def [of "reconcileEnvoyConfig d"]
        thenA_def [of "reconcileOpenTelemetryCollector d"] bindA_def)
qed

section \<open>Ray\<close>

text \<open>\<open>RetryOnConflict\<close> returns nil once its closure has.\<close>

definition retryReturns :: "(('w, 'c, 'o) attempt \<Rightarrow> 'o \<Rightarrow> ('w, 'c, unit) act) \<Rightarrow> bool" where
  "retryReturns retry \<longleftrightarrow> (\<forall>f x s y t. f x s = (Ok (y, None), t) \<longrightarrow> retry f x s = (Ok (), t))"

abbreviation roKey :: "role \<Rightarrow> nname" where "roKey x \<equiv> metaKey (ro_Meta x)"
abbreviation rbKey :: "role_binding \<Rightarrow> nname" where "rbKey x \<equiv> metaKey (rb_Meta x)"

definition rayServes :: "'w rayDeps \<Rightarrow> bool" where
  "rayServes d \<longleftrightarrow>
     controllerDocs (rd_setRef d) \<and> ownerDocs (rd_setOwner d) \<and> retryDocs (rd_retry d) \<and> retryReturns (rd_retry d) \<and>
     replies (rd_rayservices d) \<and> keysKept rayKey (rd_rayservices d) \<and>
     replies (rd_configmaps d) \<and> keysKept cmKey (rd_configmaps d) \<and> neverPanics (rd_configmaps d) \<and>
     replies (rd_roles d) \<and> keysKept roKey (rd_roles d) \<and> replies (rd_bindings d) \<and> keysKept rbKey (rd_bindings d)"

lemma rayD:
  assumes "rayServes d"
  shows "controllerDocs (rd_setRef d)" "ownerDocs (rd_setOwner d)" "retryDocs (rd_retry d)" "retryReturns (rd_retry d)"
    "replies (rd_rayservices d)" "keysKept rayKey (rd_rayservices d)"
    "replies (rd_configmaps d)" "keysKept cmKey (rd_configmaps d)" "neverPanics (rd_configmaps d)"
    "replies (rd_roles d)" "keysKept roKey (rd_roles d)" "replies (rd_bindings d)" "keysKept rbKey (rd_bindings d)"
  using assms by (simp_all add: rayServes_def)

text \<open>What the two stages send for the platform \<open>p\<close> is accepted.\<close>

definition rbacAccepted :: "'w rayDeps \<Rightarrow> AIPlatform \<Rightarrow> bool" where
  "rbacAccepted d p \<longleftrightarrow>
     (let name = ap_ServiceAccountName (p_Spec p)
      in accepts roKey (rd_roles d) \<lparr>ro_Meta = newMeta ''ray-autoscaler'' (plNamespace p), ro_Rules = []\<rparr> (mutateRole d p) \<and>
         accepts rbKey (rd_bindings d)
           \<lparr>rb_Meta = newMeta (''ray-autoscaler-binding-'' @ plNamespace p @ ''-'' @ name) (plNamespace p),
            rb_RoleRef = ([], [], []), rb_Subjects = []\<rparr> (mutateBinding d p name))"

definition rayAccepted :: "'w rayDeps \<Rightarrow> AIPlatform \<Rightarrow> bool" where
  "rayAccepted d p \<longleftrightarrow>
     (\<forall>c u conf x. buildClusterConfig d p = Ok c \<longrightarrow> urlParse (os_Path (ap_ObjectStorage (p_Spec p))) = Some u \<longrightarrow>
        renderServeConfig d p u = Ok conf \<longrightarrow> rayFor p (cleanRayServiceSpec c) conf x \<longrightarrow>
        accepts rayKey (rd_rayservices d) x
          (\<lambda>cur. Ok (withOwner d p (cur\<lparr>ry_Cluster := Some (cleanRayServiceSpec c), ry_ServeConfigV2 := conf\<rparr>))))"

lemma rbac_goes:
  assumes docs: "rayServes d" and acc: "ap_ServiceAccountName (p_Spec p) \<noteq> [] \<Longrightarrow> rbacAccepted d p"
  shows "goes p (ReconcileRayAutoscalerRBAC d)"
proof -
  have owner: "\<exists>m'. rd_setOwner d (p_Meta p) m = Ok m' \<and> metaKey m' = metaKey m" if "metaKey m = (plNamespace p, n)" for m n
    by (rule ownerDocs_set [OF rayD(2) [OF docs], of m "p_Meta p"]) (use that in \<open>simp_all add: metaKey_def\<close>)
  let ?name = "ap_ServiceAccountName (p_Spec p)"
  let ?role = "\<lparr>ro_Meta = newMeta ''ray-autoscaler'' (plNamespace p), ro_Rules = []\<rparr>"
  let ?binding = "\<lparr>rb_Meta = newMeta (''ray-autoscaler-binding-'' @ plNamespace p @ ''-'' @ ?name) (plNamespace p),
      rb_RoleRef = ([], [], []), rb_Subjects = []\<rparr>"
  have "\<exists>y. mutateRole d p x = Ok y \<and> roKey y = roKey ?role" if "roKey x = roKey ?role" for x
    using owner [of "ro_Meta x"] that by (auto simp: mutateRole_def labelled_key)
  then have role: "goes p (upsertA (rd_roles d) ?role (mutateRole d p))" if "?name \<noteq> []"
    using acc [OF that] by (intro goes_upsert [OF rayD(11,10) [OF docs]]) (simp_all add: rbacAccepted_def Let_def)
  have "\<exists>y. mutateBinding d p ?name x = Ok y \<and> rbKey y = rbKey ?binding" if "rbKey x = rbKey ?binding" for x
    using owner [of "rb_Meta x"] that by (auto simp: mutateBinding_def labelled_key)
  then have binding: "goes p (upsertA (rd_bindings d) ?binding (mutateBinding d p ?name))" if "?name \<noteq> []"
    using acc [OF that] by (intro goes_upsert [OF rayD(13,12) [OF docs]]) (simp_all add: rbacAccepted_def Let_def)
  show ?thesis
    unfolding ReconcileRayAutoscalerRBAC_def Let_def by (intro goes_intros role binding)
qed

text \<open>What the Ray cluster is built from, and the serve configuration rendered with, is there.\<close>

definition rayConfigured :: "'w rayDeps \<Rightarrow> AIPlatform \<Rightarrow> bool" where
  "rayConfigured d p \<longleftrightarrow> isOk (Build d p) \<and>
     (case urlParse (os_Path (ap_ObjectStorage (p_Spec p))) of
        None \<Rightarrow> False | Some u \<Rightarrow> isOk (renderServeConfig d p u))"

lemma withOwner_key: "rayServes d \<Longrightarrow> rayKey (withOwner d p r) = rayKey r"
  using setOwnerDocsD(1) [of "rd_setOwner d" "p_Meta p" "ry_Meta r"] rayD(2) [of d]
  by (auto simp: withOwner_def rayKey_def ownerDocs_def split: res.split)

lemma rayWrite_succeeds:
  assumes docs: "rayServes d" and x: "rayFor p c conf x"
    and acc: "accepts rayKey (rd_rayservices d) x (\<lambda>cur. Ok (withOwner d p (cur\<lparr>ry_Cluster := Some c, ry_ServeConfigV2 := conf\<rparr>)))"
  shows "\<exists>y w es. writeRayService d p c conf x s = (Ok (y, None), s\<lparr>rs_world := w, rs_events := es\<rparr>) \<and>
    isOk (cGet (rd_rayservices d) w (plNamespace p, plName p))"
proof -
  let ?c = "rd_rayservices d" and ?f = "\<lambda>cur. withOwner d p (cur\<lparr>ry_Cluster := Some c, ry_ServeConfigV2 := conf\<rparr>)"
  have key: "rayKey x = (plNamespace p, plName p)" and same: "x\<lparr>ry_Cluster := Some c, ry_ServeConfigV2 := conf\<rparr> = x"
    using x by (auto simp: rayFor_def)
  have vis: "writeVisible rayKey (\<lambda>_. ()) ?c"
    using rayD(6) [OF docs] by (simp add: clientDocs_def)
  note defs = writeRayService_def asResult_def tryA_def call_defs dropA_def noteA_def act_defs
  show ?thesis
  proof (rule replies_get [OF rayD(5) [OF docs], of "rs_world s" "rayKey x"])
    fix cur assume cur: "cGet ?c (rs_world s) (rayKey x) = Ok cur"
    obtain w' y where up: "cUpdate ?c (rs_world s) (?f cur) = (w', Ok y)"
      by (rule accepts_update [OF acc cur]) simp
    have "rayKey (?f cur) = rayKey x"
      using withOwner_key [OF docs] clientDocs_get [OF rayD(6) [OF docs] cur] by (simp add: rayKey_def)
    then have "isOk (cGet ?c w' (plNamespace p, plName p))"
      using writeVisibleD(1) [OF vis disjI2 [OF up]] key by simp
    then show ?thesis
      using cur up by (intro exI [of _ x] exI [of _ w'] exI [of _ "rs_events s"]) (simp add: defs)
  next
    fix e assume e: "cGet ?c (rs_world s) (rayKey x) = Err e" "isNotFound e"
    obtain w' y where new: "cCreate ?c (rs_world s) (withOwner d p x) = (w', Ok y)"
      by (rule accepts_create [OF acc e(1)]) (simp add: same)
    have "isOk (cGet ?c w' (plNamespace p, plName p))"
      using writeVisibleD(1) [OF vis disjI1 [OF new]] withOwner_key [OF docs] key by simp
    then show ?thesis
      using e new by (cases s) (simp add: defs)
  qed
qed

lemma retried_write:
  assumes docs: "rayServes d" and x: "rayFor p c conf x"
    and acc: "accepts rayKey (rd_rayservices d) x (\<lambda>cur. Ok (withOwner d p (cur\<lparr>ry_Cluster := Some c, ry_ServeConfigV2 := conf\<rparr>)))"
  shows "\<exists>w es. rd_retry d (writeRayService d p c conf) x s = (Ok (), s\<lparr>rs_world := w, rs_events := es\<rparr>) \<and>
    isOk (cGet (rd_rayservices d) w (plNamespace p, plName p))"
  using rayWrite_succeeds [OF assms, of s] rayD(4) [OF docs] unfolding retryReturns_def by metis

lemma rayService_goes:
  fixes d :: "'w rayDeps"
  assumes docs: "rayServes d" and conf: "rayConfigured d p" and acc: "rayAccepted d p"
  shows "goes p (ReconcileRayService d)"
proof -
  obtain u yaml where u: "urlParse (os_Path (ap_ObjectStorage (p_Spec p))) = Some u" "renderServeConfig d p u = Ok yaml"
    using conf by (auto simp: rayConfigured_def isOk_iff split: option.splits)
  obtain c rs where c: "buildClusterConfig d p = Ok c" "Build d p = Ok rs" "ry_Cluster rs = Some c"
    using conf by (auto simp: rayConfigured_def Build_def bindR_Ok_iff isOk_iff)
  let ?c = "cleanRayServiceSpec c"
  have debug: "calm p (dropA (upsertA (rd_configmaps d) m (serveDebugMap d p conf prov bucket)))" for m conf prov bucket
  proof (intro calm_drop calm_upsert [OF rayD(8,7,9) [OF docs]])
    have "\<forall>owner m q. rd_setRef d owner m \<noteq> Panic q"
      using rayD(1) [OF docs] by (simp add: controllerDocs_def)
    then show "serveDebugMap d p conf prov bucket x \<noteq> Panic q" for x q
      by (cases "rd_setRef d (p_Meta p) (cm_Meta x)") (auto simp: serveDebugMap_def)
  qed
  have retried: "goes p (rd_retry d (writeRayService d p ?c yaml) (x\<lparr>ry_Cluster := Some ?c, ry_ServeConfigV2 := yaml\<rparr>))"
    if "rayKey x = (plNamespace p, plName p)" for x
    unfolding goes_def
  proof (intro allI impI)
    fix s :: "('w, AIPlatform) rstate"
    assume p: "rs_cr s = p"
    let ?x = "x\<lparr>ry_Cluster := Some ?c, ry_ServeConfigV2 := yaml\<rparr>"
    have x: "rayFor p ?c yaml ?x"
      using that by (simp add: rayFor_def rayKey_def)
    from acc c(1) u x have "accepts rayKey (rd_rayservices d) ?x
        (\<lambda>cur. Ok (withOwner d p (cur\<lparr>ry_Cluster := Some ?c, ry_ServeConfigV2 := yaml\<rparr>)))"
      unfolding rayAccepted_def by blast
    from retried_write [OF docs x this, of s]
    show "\<exists>r t. rd_retry d (writeRayService d p ?c yaml) ?x s = (Ok r, t) \<and> rs_cr t = p"
      using p by auto
  qed
  have key: "rayKey cur = (plNamespace p, plName p)"
    if "cGet (rd_rayservices d) w (plNamespace p, plName p) = Ok cur" for w cur
    using clientDocs_get [OF rayD(6) [OF docs] that] .
  obtain a l where labels: "buildHeadAnnotationsAndLabels p = (a, l)" by fastforce
  have new: "rayKey (newRayService (plName p) (plNamespace p)\<lparr>ry_Meta := (newMeta (plName p) (plNamespace p))
      \<lparr>om_Annotations := Some a, om_Labels := Some l\<rparr>\<rparr>) = (plNamespace p, plName p)"
    by (simp add: rayKey_def labelled_key)
  have rest: "goes p (tryA (dropA (upsertA (rd_configmaps d) m (serveDebugMap d p conf prov bucket))) (\<lambda>_. case ry_Cluster rs of
      None \<Rightarrow> panicA nilDeref
    | Some c \<Rightarrow> rd_retry d (writeRayService d p (cleanRayServiceSpec c) yaml)
        (x\<lparr>ry_Cluster := Some (cleanRayServiceSpec c), ry_ServeConfigV2 := yaml\<rparr>)))"
    if x: "rayKey x = (plNamespace p, plName p)" for x m conf prov bucket
    using retried [OF x] c(3) by (auto intro!: goes_try [OF debug])
  show ?thesis
    unfolding ReconcileRayService_def Let_def
    using c(2) u rest key new
    by (auto intro!: goes_getCR goes_lift_bind goes_fetch [OF rayD(5) [OF docs]] simp: labels newRayService_def)
qed

lemma rayService_present:
  assumes docs: "rayServes d" and acc: "rayAccepted d (rs_cr s)" and run: "ReconcileRayService d s = (Ok (), t)"
  shows "isOk (cGet (rd_rayservices d) (rs_world t) (plNamespace (rs_cr s), plName (rs_cr s)))"
proof -
  have found: "metaKey (ry_Meta cur) = (plNamespace (rs_cr s), plName (rs_cr s))"
    if "cGet (rd_rayservices d) (rs_world s) (plNamespace (rs_cr s), plName (rs_cr s)) = Ok cur" for cur
    using clientDocs_get [OF rayD(6) [OF docs] that] by (simp add: rayKey_def)
  obtain c u conf x v where c: "buildClusterConfig d (rs_cr s) = Ok c"
    "urlParse (os_Path (ap_ObjectStorage (p_Spec (rs_cr s)))) = Some u" "renderServeConfig d (rs_cr s) u = Ok conf"
    and x: "rayFor (rs_cr s) (cleanRayServiceSpec c) conf x"
    and v: "rd_retry d (writeRayService d (rs_cr s) (cleanRayServiceSpec c) conf) x v = (Ok (), t)"
    by (rule ReconcileRayService_OkE [OF run found])
  have "accepts rayKey (rd_rayservices d) x
      (\<lambda>cur. Ok (withOwner d (rs_cr s) (cur\<lparr>ry_Cluster := Some (cleanRayServiceSpec c), ry_ServeConfigV2 := conf\<rparr>)))"
    using acc c x unfolding rayAccepted_def by blast
  from retried_write [OF docs x this, of v] show ?thesis
    using v by auto
qed

end
