(* ===== verification/PlatformProgress.thy ===== *)
theory PlatformProgress
  imports PlatformSteps
begin

text \<open>
  What a reconcile of the platform can be waiting for. When the API server answers and accepts what
  the run sends, the configuration of the operator can be rendered and nobody else controls the
  children's names, the first ten stages succeed and the outcome is that of the last one, the status
  of the children; and since the children wait for the first eight stages only, one run of the
  platform opens their gate.
\<close>

section \<open>What is read of Ray\<close>

text \<open>
  What is read of Ray's state: nothing panics, a RayService that is there is found, and a stateful
  set has its number of replicas, which the API server sets when it is left out.
\<close>

definition readsAnswer :: "'w rayDeps \<Rightarrow> bool" where
  "readsAnswer d \<longleftrightarrow>
     (\<forall>w k. (isOk (cGet (rd_rayservices d) w k) \<longrightarrow> isOk (rr_service (rd_reads d w) k)) \<and>
        (\<forall>x. rr_endpoints (rd_reads d w) k \<noteq> Panic x \<and> rr_statefulSet (rd_reads d w) k \<noteq> Panic x) \<and>
        (\<forall>x. rr_statefulSet (rd_reads d w) k = Ok x \<longrightarrow> sts_Replicas x \<noteq> None))"

lemma snapshot_collected:
  assumes reads: "readsAnswer d" and ray: "isOk (cGet (rd_rayservices d) w (ns, n))"
  obtains sn e we where "CollectRaySnapshot (rd_reads d w) ns n = Ok sn" "sn_HeadServiceName sn \<noteq> []"
    "ExtractRayErrors (firstEntry d 0) (rd_reads d w) ns n = Ok e" "ExtractWeaviateErrors (rd_reads d w) ns n = Ok we"
proof -
  let ?r = "rd_reads d w"
  obtain rs where rs: "rr_service ?r (ns, n) = Ok rs"
    using assms unfolding readsAnswer_def isOk_iff by blast
  have head: "sn_HeadServiceName (readConditions cs sn) = sn_HeadServiceName sn" for cs sn
    by (induction cs arbitrary: sn) auto
  have "sn_HeadServiceName (serviceSnapshot n rs) \<noteq> []"
    by (simp add: serviceSnapshot_def newSnapshot_def head Let_def)
  then have "\<exists>sn. CollectRaySnapshot ?r ns n = Ok sn \<and> sn_HeadServiceName sn \<noteq> []"
    using reads unfolding readsAnswer_def
    by (cases "rr_endpoints ?r (ns, sn_ServeServiceName (serviceSnapshot n rs))")
      (auto simp: CollectRaySnapshot_def rs Let_def)
  moreover have "\<exists>e. ExtractRayErrors (firstEntry d 0) ?r ns n = Ok e"
    by (simp add: ExtractRayErrors_def rs Let_def)
  moreover have "\<exists>we. ExtractWeaviateErrors ?r ns n = Ok we"
    using reads by (cases "rr_statefulSet ?r (ns, n @ ''-weaviate'')")
      (auto simp: readsAnswer_def ExtractWeaviateErrors_def Let_def split: option.split)
  ultimately show thesis
    using that rs by blast
qed

section \<open>The stages of the platform\<close>

definition deletesServe :: "('w, 'o) client \<Rightarrow> bool" where
  "deletesServe c \<longleftrightarrow> (\<forall>w k. isOk (snd (cDelete c w k)) \<or> (\<exists>e. snd (cDelete c w k) = Err e \<and> isNotFound e))"

abbreviation saKey :: "service_account \<Rightarrow> nname" where "saKey x \<equiv> metaKey (sa_Meta x)"

definition platformServes :: "'w platDeps \<Rightarrow> bool" where
  "platformServes d \<longleftrightarrow>
     sidecarsServe (pd_sidecars d) \<and> rayServes (pd_ray d) \<and> readsAnswer (pd_ray d) \<and>
     replies (pd_accounts d) \<and> keysKept saKey (pd_accounts d) \<and>
     replies (pd_statefulsets d) \<and> clientDocs stsKey sf_Replicas (pd_statefulsets d) \<and>
     replies (pd_svcs d) \<and> keysKept svcKey (pd_svcs d) \<and>
     replies (pd_services d) \<and> keysKept svKey (pd_services d) \<and> keyFrame svKey (pd_services d) \<and>
     (\<forall>w lo. isOk (cList (pd_services d) w lo)) \<and> deletesServe (pd_services d) \<and> deletesServe (pd_ingresses d)"

lemma platformD:
  assumes "platformServes d"
  shows "sidecarsServe (pd_sidecars d)" "rayServes (pd_ray d)" "readsAnswer (pd_ray d)" "controllerDocs (pd_setRef d)"
    "replies (pd_accounts d)" "keysKept saKey (pd_accounts d)"
    "replies (pd_statefulsets d)" "clientDocs stsKey sf_Replicas (pd_statefulsets d)" "keysKept stsKey (pd_statefulsets d)"
    "replies (pd_svcs d)" "keysKept svcKey (pd_svcs d)"
    "replies (pd_services d)" "keysKept svKey (pd_services d)" "keyFrame svKey (pd_services d)"
    "deletesServe (pd_services d)" "deletesServe (pd_ingresses d)" "retryDocs (rd_retry (pd_ray d))"
    "setOwnerDocs (pd_setRef d)"
  using assms by (auto simp: platformServes_def rayServes_def controllerDocs_def clientDocs_def writeVisible_def)

text \<open>
  What the operator's files and the spec must provide. The feature names are distinct, which the
  platform's webhook sees to; an ingress that is enabled fails the first run.
\<close>

definition platformConfigured :: "'w platDeps \<Rightarrow> AIPlatform \<Rightarrow> bool" where
  "platformConfigured d p \<longleftrightarrow>
     rayConfigured (pd_ray d) p \<and> pd_getenv d ''RELATED_IMAGE_WEAVIATE'' \<noteq> [] \<and>
     isOk (weaviateClaim d (st_VectorDB (ap_Storage (p_Spec p)))) \<and>
     (sd_Otel (ap_Sidecars (p_Spec p)) \<longrightarrow> otelRendered (pd_sidecars d) p) \<and> ingressEnabled p = None \<and>
     distinct (map fs_Name (ap_Features (p_Spec p)))"

text \<open>The status that the feature stage finds has the name of the database.\<close>

definition withDatabase :: "AIPlatform \<Rightarrow> AIPlatform" where
  "withDatabase p = p\<lparr>p_Status := (p_Status p)\<lparr>aps_VectorDbServiceName := weaviateName p\<rparr>\<rparr>"

abbreviation newChild :: "AIPlatform \<Rightarrow> FeatureSpec \<Rightarrow> AIService" where
  "newChild p f \<equiv> zeroAIService\<lparr>s_Meta := newMeta (serviceNameFor p f) (plNamespace p)\<rparr>"

abbreviation weaviateOwned :: "'w platDeps \<Rightarrow> AIPlatform \<Rightarrow> objmeta \<Rightarrow> bool" where
  "weaviateOwned d p m \<equiv> pd_setRef d (p_Meta p) (newMeta (weaviateName p) (plNamespace p)) = Ok m"

definition weaviateAccepted :: "'w platDeps \<Rightarrow> AIPlatform \<Rightarrow> bool" where
  "weaviateAccepted d p \<longleftrightarrow>
     (\<forall>m. weaviateOwned d p m \<longrightarrow>
        accepts saKey (pd_accounts d) \<lparr>sa_Meta = m\<rparr> Ok \<and>
        accepts stsKey (pd_statefulsets d) ((newStatefulSet (weaviateName p) (plNamespace p))\<lparr>sf_Meta := m\<rparr>)
          (mutateWeaviate d p (pd_getenv d ''RELATED_IMAGE_WEAVIATE'')) \<and>
        accepts svcKey (pd_svcs d) (zeroService\<lparr>svc_Meta := m\<rparr>) (mutateWeaviateService p))"

definition platformAccepted :: "'w platDeps \<Rightarrow> AIPlatform \<Rightarrow> bool" where
  "platformAccepted d p \<longleftrightarrow>
     sidecarsAccepted (pd_sidecars d) p \<and>
     (ap_ServiceAccountName (p_Spec p) \<noteq> [] \<longrightarrow> rbacAccepted (pd_ray d) p) \<and>
     rayAccepted (pd_ray d) p \<and> weaviateAccepted d p \<and>
     (\<forall>f \<in> set (ap_Features (p_Spec p)).
        accepts svKey (pd_services d) (newChild p f) (mutateService d (withDatabase p) f))"

text \<open>
  What the cluster must not hold already: an AIService of a child's name that somebody else controls,
  and a configuration of the collector that cannot be read.
\<close>

definition childrenFree :: "'w platDeps \<Rightarrow> 'w \<Rightarrow> AIPlatform \<Rightarrow> bool" where
  "childrenFree d w p \<longleftrightarrow>
     (\<forall>f \<in> set (ap_Features (p_Spec p)). \<forall>x. cGet (pd_services d) w (childKey p f) = Ok x \<longrightarrow> unclaimed (p_Meta p) (s_Meta x))"

definition clusterFree :: "'w platDeps \<Rightarrow> 'w \<Rightarrow> AIPlatform \<Rightarrow> bool" where
  "clusterFree d w p \<longleftrightarrow> childrenFree d w p \<and> (sd_Otel (ap_Sidecars (p_Spec p)) \<longrightarrow> otelStored (pd_sidecars d) w p)"

text \<open>
  The kinds that are written after a RayService or a stateful set, and before it is read; the
  AIServices, which only the last stages write; and the platform itself.
\<close>

definition platformSeparate :: "'w platDeps \<Rightarrow> bool" where
  "platformSeparate d \<longleftrightarrow>
     (let ray = sameBy (cGet (rd_rayservices (pd_ray d))); sts = sameBy (cGet (pd_statefulsets d))
      in within ray (pd_accounts d) \<and> within ray (pd_statefulsets d) \<and> within ray (pd_svcs d) \<and> within ray (pd_ingresses d) \<and>
         within sts (pd_accounts d) \<and> within sts (pd_svcs d) \<and> within sts (pd_ingresses d) \<and>
         within (sameBy (cList (pd_services d))) (pd_platforms d) \<and>
         platformWrites (sameBy (cGet (pd_services d))) (d\<lparr>pd_services := offClient\<rparr>) \<and>
         platformWrites (sameBy (cGet (pd_platforms d))) d)"

lemma upsert_all:
  assumes "keysKept key c" and "replies c" and "accepts key c x f" and "\<And>z. \<exists>y. f z = Ok y \<and> key y = key z"
  shows "goes p (upsertA c x f)"
  using assms(4) by (intro goes_upsert [OF assms(1-3)]) metis

lemma weaviate_goes:
  assumes docs: "platformServes d" and conf: "platformConfigured d p" and acc: "weaviateAccepted d p"
  shows "goes p (ReconcileWeaviateDatabase d)"
proof -
  let ?img = "pd_getenv d ''RELATED_IMAGE_WEAVIATE''"
  obtain claims where claims: "weaviateClaim d (st_VectorDB (ap_Storage (p_Spec p))) = Ok claims"
    using conf unfolding platformConfigured_def isOk_iff by blast
  have "isOk (Build (pd_ray d) p)" and img: "?img \<noteq> []"
    using conf by (simp_all add: platformConfigured_def rayConfigured_def)
  then obtain sched where sched: "ap_CPUSchedulingSpec (p_Spec p) = Some sched"
    by (cases "ap_CPUSchedulingSpec (p_Spec p)")
      (auto simp: Build_def buildClusterConfig_def makeHeadTemplate_def split: prod.splits)
  obtain m where m: "weaviateOwned d p m"
    using controllerDocs_new [OF platformD(4) [OF docs], of "p_Meta p" "weaviateName p"] by blast
  have owned: "bindA (ownedMeta d p (weaviateName p)) k = k m" for k
    by (simp add: ownedMeta_def m act_defs fun_eq_iff)
  have acc: "accepts saKey (pd_accounts d) \<lparr>sa_Meta = m\<rparr> Ok"
    "accepts stsKey (pd_statefulsets d) ((newStatefulSet (weaviateName p) (plNamespace p))\<lparr>sf_Meta := m\<rparr>) (mutateWeaviate d p ?img)"
    "accepts svcKey (pd_svcs d) (zeroService\<lparr>svc_Meta := m\<rparr>) (mutateWeaviateService p)"
    using acc m by (auto simp: weaviateAccepted_def)
  have account: "goes p (upsertA (pd_accounts d) \<lparr>sa_Meta = m\<rparr> Ok)"
    by (rule upsert_all [OF platformD(6,5) [OF docs] acc(1)]) simp
  have "goes p (upsertA (pd_statefulsets d) ((newStatefulSet (weaviateName p) (plNamespace p))\<lparr>sf_Meta := m\<rparr>) (mutateWeaviate d p ?img))"
    by (rule upsert_all [OF platformD(9,7) [OF docs] acc(2)])
      (use claims sched in \<open>simp add: mutateWeaviate_def Let_def stsKey_def\<close>)
  moreover have "goes p (upsertA (pd_svcs d) (zeroService\<lparr>svc_Meta := m\<rparr>) (mutateWeaviateService p))"
    by (rule upsert_all [OF platformD(11,10) [OF docs] acc(3)]) (simp add: mutateWeaviateService_def svcKey_def)
  ultimately have writes: "goes p (weaviateWrites d p ?img m b)" for b
    unfolding weaviateWrites_def owned by (auto intro!: goes_intros)
  show ?thesis
    using img unfolding ReconcileWeaviateDatabase_def Let_def
    by (intro goes_getCR) (auto intro!: goes_intros goes_fetch [OF platformD(7) [OF docs]] account writes simp: owned)
qed

lemma deletesServe_cases:
  assumes "deletesServe c"
  obtains w' where "cDelete c w k = (w', Ok ())" | w' e where "cDelete c w k = (w', Err e)" "isNotFound e"
  using assms unfolding deletesServe_def isOk_iff by (cases "cDelete c w k") (metis snd_conv unit.exhaust)

lemma ingress_off_goes:
  fixes d :: "'w platDeps"
  assumes docs: "deletesServe (pd_ingresses d)" and off: "ingressEnabled p = None"
  shows "goes p (ReconcileIngress d)"
  unfolding goes_def
proof (intro allI impI)
  fix s :: "('w, AIPlatform) rstate"
  assume "rs_cr s = p"
  then show "\<exists>x t. ReconcileIngress d s = (Ok x, t) \<and> rs_cr t = p"
    using off by (auto simp: ReconcileIngress_def act_defs Let_def
        intro: deletesServe_cases [OF docs, of "rs_world s" "(plNamespace p, plName p)"])
qed

lemma pruneServices_goes:
  fixes d :: "'w platDeps"
  assumes docs: "deletesServe (pd_services d)"
  shows "goes p (pruneServices d names cs)"
proof (induction cs)
  case (Cons x cs)
  have "\<exists>r t. tryA (callA (\<lambda>w. cDelete (pd_services d) w k)) (\<lambda>r. case r of Ok _ \<Rightarrow> pruneServices d names cs
      | Panic x \<Rightarrow> panicA x | Err e \<Rightarrow> if isNotFound e then pruneServices d names cs else failA e) s = (Ok r, t) \<and> rs_cr t = p"
    if "rs_cr s = p" for k and s :: "('w, AIPlatform) rstate"
  proof -
    have "\<exists>t. pruneServices d names cs (s\<lparr>rs_world := w'\<rparr>) = (Ok (), t) \<and> rs_cr t = p" for w'
      using Cons.IH [unfolded goes_def, rule_format, of "s\<lparr>rs_world := w'\<rparr>"] that by simp
    then show ?thesis
      by (auto simp: tryA_def callA_def intro: deletesServe_cases [OF docs, of "rs_world s" k])
  qed
  then show ?case
    using Cons.IH by (simp add: goes_def)
qed (simp add: goes_basic)

text \<open>The same platform but for its status, with its two services named.\<close>

definition servicesNamed :: "AIPlatform \<Rightarrow> AIPlatform \<Rightarrow> bool" where
  "servicesNamed p q \<longleftrightarrow> p_Meta q = p_Meta p \<and> p_Spec q = p_Spec p \<and>
     aps_RayServiceName (p_Status q) \<noteq> [] \<and> aps_VectorDbServiceName (p_Status q) = weaviateName p"

lemma named_same:
  assumes "servicesNamed p q"
  shows "mutateService d q f = mutateService d (withDatabase p) f" "newChild q f = newChild p f" "childKey q f = childKey p f"
  using assms by (simp_all add: fun_eq_iff servicesNamed_def mutateService_def buildAIService_def serviceNameFor_def withDatabase_def)

lemma mutateService_goes:
  assumes docs: "platformServes d" and key: "svKey x = childKey p f" and free: "unclaimed (p_Meta p) (s_Meta x)"
  shows "\<exists>y. mutateService d (withDatabase p) f x = Ok y \<and> svKey y = svKey x"
proof -
  have "om_Namespace (s_Meta x) = om_Namespace (p_Meta p)"
    using key by (simp add: svKey_def metaKey_def)
  then obtain m where "pd_setRef d (p_Meta p) (s_Meta x) = Ok m" "metaKey m = metaKey (s_Meta x)"
    by (rule controllerDocs_set [OF platformD(4) [OF docs] _ free])
  then show ?thesis
    by (simp add: mutateService_def withDatabase_def svKey_def metaKey_def Let_def)
qed

lemma writeServices_goes:
  assumes docs: "platformServes d" and named: "servicesNamed p (rs_cr s)" and names: "distinct (map fs_Name fs)"
    and free: "\<And>f x. f \<in> set fs \<Longrightarrow> cGet (pd_services d) (rs_world s) (childKey p f) = Ok x \<Longrightarrow> unclaimed (p_Meta p) (s_Meta x)"
    and acc: "\<And>f. f \<in> set fs \<Longrightarrow> accepts svKey (pd_services d) (newChild p f) (mutateService d (withDatabase p) f)"
  shows "\<exists>t. writeServices d (rs_cr s) fs s = (Ok (), t) \<and> rs_cr t = rs_cr s"
  using named names free acc
proof (induction fs arbitrary: s)
  case (Cons f fs)
  let ?c = "pd_services d" and ?f = "mutateService d (withDatabase p) f"
  have key: "svKey (newChild p f) = childKey p f"
    by (simp add: svKey_def metaKey_def)
  have stored: "\<exists>y. ?f cur = Ok y \<and> svKey y = childKey p f"
    if "cGet ?c (rs_world s) (childKey p f) = Ok cur" "svKey cur = childKey p f" for cur
    using mutateService_goes [OF docs that(2)] Cons.prems(3) [of f cur] that by simp
  have fresh: "\<exists>y. ?f (newChild p f) = Ok y \<and> svKey y = childKey p f"
    using mutateService_goes [OF docs key] key by (simp add: newMeta_unclaimed)
  obtain w' y where up: "cCreateOrUpdate ?c (rs_world s) (newChild p f) ?f = (w', Ok y)"
    using upsert_accepted [OF platformD(13,12) [OF docs] Cons.prems(4) [of f], of "rs_world s", unfolded key] stored fresh by auto
  have other: "cGet ?c w' k = cGet ?c (rs_world s) k" if "k \<noteq> childKey p f" for k
    using createOrUpdate_frame [OF platformD(13,14) [OF docs] mutateService_key [OF platformD(18) [OF docs]] up] that key by simp
  have "\<exists>t. writeServices d (rs_cr (s\<lparr>rs_world := w'\<rparr>)) fs (s\<lparr>rs_world := w'\<rparr>) = (Ok (), t) \<and> rs_cr t = rs_cr (s\<lparr>rs_world := w'\<rparr>)"
  proof (rule Cons.IH)
    fix g x assume g: "g \<in> set fs" and x: "cGet ?c (rs_world (s\<lparr>rs_world := w'\<rparr>)) (childKey p g) = Ok x"
    have "childKey p g \<noteq> childKey p f"
      using Cons.prems(2) imageI [OF g, of fs_Name] by (auto simp: serviceNameFor_def)
    then show "unclaimed (p_Meta p) (s_Meta x)"
      using Cons.prems(3) [of g x] g x other by simp
  qed (use Cons.prems in auto)
  then show ?case
    using up by (simp add: named_same [OF Cons.prems(1)] upsertA_def callA_def dropA_def thenA_def bindA_def retA_def)
qed (simp add: retA_def)

lemma features_go:
  assumes docs: "platformServes d" and named: "servicesNamed p (rs_cr s)" and acc: "platformAccepted d p"
    and conf: "platformConfigured d p" and free: "childrenFree d (rs_world s) p"
  shows "\<exists>t. ReconcileFeatures d s = (Ok (), t) \<and> rs_cr t = rs_cr s"
proof -
  let ?q = "rs_cr s" and ?fs = "ap_Features (p_Spec p)"
  have fs: "ap_Features (p_Spec ?q) = ?fs"
    using named by (simp add: servicesNamed_def)
  obtain t where t: "writeServices d ?q ?fs s = (Ok (), t)" "rs_cr t = ?q"
    using writeServices_goes [OF docs named, of ?fs] conf free acc
    by (auto simp: platformConfigured_def childrenFree_def platformAccepted_def)
  have "goes ?q (listChildren d ?q)"
    using docs unfolding platformServes_def isOk_iff goes_def listChildren_def readA_def by fastforce
  then have "goes ?q (bindA (listChildren d ?q) (pruneServices d (map (serviceNameFor ?q) ?fs)))"
    by (intro goes_intros pruneServices_goes platformD(15) [OF docs])
  from goes_D [OF this t(2)] obtain u where "bindA (listChildren d ?q) (pruneServices d (map (serviceNameFor ?q) ?fs)) t = (Ok (), u)"
      "rs_cr u = ?q"
    by (metis unit.exhaust)
  then show ?thesis
    using t(1) by (simp add: ReconcileFeatures_def fs bindA_def [of getCR] getCR_def thenA_def
        bindA_def [of "writeServices d ?q ?fs"])
qed

lemma status_stages:
  assumes docs: "platformServes d" and off: "ingressEnabled (rs_cr s) = None"
    and ray: "isOk (cGet (rd_rayservices (pd_ray d)) (rs_world s) (plNamespace (rs_cr s), plName (rs_cr s)))"
    and sts: "cGet (pd_statefulsets d) (rs_world s) (plNamespace (rs_cr s), weaviateName (rs_cr s)) = Ok x" "sf_Replicas x \<noteq> None"
  shows "\<exists>t u v. BuilderApplyConditions (pd_ray d) s = (Ok (), t) \<and> ReconcileWeaviateDatabaseStatus d t = (Ok (), u) \<and>
    UpdateIngressStatus d u = (Ok (), v) \<and> servicesNamed (rs_cr s) (rs_cr v)"
proof -
  let ?p = "rs_cr s"
  obtain sn e we where reads: "CollectRaySnapshot (rd_reads (pd_ray d) (rs_world s)) (plNamespace ?p) (plName ?p) = Ok sn"
      "ExtractRayErrors (firstEntry (pd_ray d) 0) (rd_reads (pd_ray d) (rs_world s)) (plNamespace ?p) (plName ?p) = Ok e"
      "ExtractWeaviateErrors (rd_reads (pd_ray d) (rs_world s)) (plNamespace ?p) (plName ?p) = Ok we"
    and head: "sn_HeadServiceName sn \<noteq> []"
    by (rule snapshot_collected [OF platformD(3) [OF docs] ray])
  obtain t where t: "BuilderApplyConditions (pd_ray d) s = (Ok (), t)"
    using builder_succeeds [OF reads] by blast
  have named: "rs_world t = rs_world s" "p_Meta (rs_cr t) = p_Meta ?p" "p_Spec (rs_cr t) = p_Spec ?p"
      "aps_RayServiceName (p_Status (rs_cr t)) \<noteq> []"
    using builder_Ok [OF t] reads(1) head by (auto simp: withConds_def recordSnapshot_def)
  obtain u where u: "ReconcileWeaviateDatabaseStatus d t = (Ok (), u)" "p_Meta (rs_cr u) = p_Meta (rs_cr t)"
      "p_Spec (rs_cr u) = p_Spec (rs_cr t)" "aps_RayServiceName (p_Status (rs_cr u)) = aps_RayServiceName (p_Status (rs_cr t))"
      "aps_VectorDbServiceName (p_Status (rs_cr u)) = weaviateName ?p"
    using sts named(1-3)
    by (auto simp: ReconcileWeaviateDatabaseStatus_def weaviateName_def getA_def setConds_def modStatus_def modCR_def act_defs Let_def)
  have "ingressEnabled (rs_cr u) = None"
    using off u(3) named(3) by (simp add: ingressEnabled_def)
  then obtain v where "UpdateIngressStatus d u = (Ok (), v)" "p_Meta (rs_cr v) = p_Meta (rs_cr u)"
      "p_Spec (rs_cr v) = p_Spec (rs_cr u)" "aps_RayServiceName (p_Status (rs_cr v)) = aps_RayServiceName (p_Status (rs_cr u))"
      "aps_VectorDbServiceName (p_Status (rs_cr v)) = aps_VectorDbServiceName (p_Status (rs_cr u))"
    by (auto simp: UpdateIngressStatus_def modStatus_def modCR_def act_defs)
  then show ?thesis
    using t u named by (auto simp: servicesNamed_def)
qed

section \<open>A run of the platform\<close>

definition childWait :: "AIService list \<Rightarrow> unit res" where
  "childWait children = (case firstFailure children of
     None \<Rightarrow> Ok ()
   | Some (x, c) \<Rightarrow> Err (Errorf (''AIService '' @ om_Name (s_Meta x) @ '' has failed condition '' @ c_Type c @ '': '' @ c_Message c)))"

abbreviation childrenOf :: "'w platDeps \<Rightarrow> 'w \<Rightarrow> AIPlatform \<Rightarrow> AIService list res" where
  "childrenOf d w p \<equiv> cList (pd_services d) w
     \<lparr>lo_Namespace = plNamespace p, lo_Labels = fmempty, lo_Controller = Some (plName p)\<rparr>"

lemma within_kindsApart: "within (sameBy (cGet e)) c \<Longrightarrow> kindsApart c e"
  unfolding within_def sameBy_def kindsApart_def by (metis fst_conv)

context world_order
begin

lemma moves_weaviate_kinds:
  "within R (pd_accounts d) \<Longrightarrow> within R (pd_statefulsets d) \<Longrightarrow> within R (pd_svcs d) \<Longrightarrow>
   moves R (ReconcileWeaviateDatabase d)"
  unfolding ReconcileWeaviateDatabase_def weaviateWrites_def ownedMeta_def Let_def by (intro moves_intros)

lemma moves_ingress_kinds: "within R (pd_ingresses d) \<Longrightarrow> moves R (ReconcileIngress d)"
  unfolding ReconcileIngress_def Let_def by (intro moves_intros)

lemma moves_sequence: "(\<And>st. st \<in> set sts \<Longrightarrow> moves R (snd st)) \<Longrightarrow> moves R (inSequence sts)"
  by (induction sts) (simp_all add: moves_basic moves_then)

end

lemma platformSeparateD:
  assumes "platformSeparate d"
  shows "moves (sameBy (cGet (rd_rayservices (pd_ray d)))) (ReconcileWeaviateDatabase d)"
    "moves (sameBy (cGet (rd_rayservices (pd_ray d)))) (ReconcileIngress d)"
    "moves (sameBy (cGet (pd_statefulsets d))) (ReconcileIngress d)"
    "kindsApart (pd_accounts d) (pd_statefulsets d)" "kindsApart (pd_svcs d) (pd_statefulsets d)"
    "within (sameBy (cList (pd_services d))) (pd_platforms d)" "platformWrites (sameBy (cGet (pd_platforms d))) d"
    "platformWrites (sameBy (cGet (pd_services d))) (d\<lparr>pd_services := offClient\<rparr>)"
  using assms unfolding platformSeparate_def Let_def
  by (simp_all add: untouched.moves_weaviate_kinds untouched.moves_ingress_kinds within_kindsApart)

text \<open>The stages before the features do not call the client of the AIServices.\<close>

lemma early_stages: "take 9 (platformStages (d\<lparr>pd_services := c\<rparr>)) = take 9 (platformStages d)"
proof -
  have "validate (d\<lparr>pd_services := c\<rparr>) = validate d"
  proof -
    have "enrichPlatform (d\<lparr>pd_services := c\<rparr>) = enrichPlatform d"
      by (simp add: fun_eq_iff enrichPlatform_def Let_def)
    then show ?thesis
      by (simp only: validate_def)
  qed
  moreover have "ReconcileWeaviateDatabase (d\<lparr>pd_services := c\<rparr>) = ReconcileWeaviateDatabase d"
  proof -
    have "ownedMeta (d\<lparr>pd_services := c\<rparr>) = ownedMeta d" "mutateWeaviate (d\<lparr>pd_services := c\<rparr>) = mutateWeaviate d"
      by (simp_all add: fun_eq_iff ownedMeta_def mutateWeaviate_def weaviateClaim_def Let_def split: option.split)
    then show ?thesis
      by (simp add: ReconcileWeaviateDatabase_def weaviateWrites_def Let_def cong: if_cong)
  qed
  moreover have "ReconcileIngress (d\<lparr>pd_services := c\<rparr>) = ReconcileIngress d"
      "UpdateIngressStatus (d\<lparr>pd_services := c\<rparr>) = UpdateIngressStatus d"
      "ReconcileWeaviateDatabaseStatus (d\<lparr>pd_services := c\<rparr>) = ReconcileWeaviateDatabaseStatus d"
    by (simp_all add: ReconcileIngress_def UpdateIngressStatus_def ReconcileWeaviateDatabaseStatus_def Let_def
        cong: if_cong option.case_cong res.case_cong prod.case_cong)
  ultimately show ?thesis
    by (simp add: platformStages_def)
qed

lemma early_world:
  assumes docs: "platformServes d" "platformSeparate d" and run: "inSequence (take 9 (platformStages d)) s = (Ok (), t)"
  shows "cGet (pd_services d) (rs_world t) = cGet (pd_services d) (rs_world s)"
proof -
  have "moves (sameBy (cGet (pd_services d))) (inSequence (take 9 (platformStages (d\<lparr>pd_services := offClient\<rparr>))))"
    by (rule untouched.moves_sequence, rule untouched.moves_platformStages [OF platformSeparateD(8) [OF docs(2)]])
      (use platformD(17) [OF docs(1)] in \<open>auto dest: in_set_takeD\<close>)
  then show ?thesis
    using moves_D [where s = s and t = t and m = "inSequence (take 9 (platformStages d))" and R = "sameBy (cGet (pd_services d))"] run
    by (simp add: early_stages sameBy_def)
qed

text \<open>The stages up to the ingress leave a RayService and a stateful set with its replicas.\<close>

definition clusterBuilt :: "'w platDeps \<Rightarrow> AIPlatform \<Rightarrow> 'w \<Rightarrow> bool" where
  "clusterBuilt d p w \<longleftrightarrow> isOk (cGet (rd_rayservices (pd_ray d)) w (plNamespace p, plName p)) \<and>
     (\<exists>x. cGet (pd_statefulsets d) w (plNamespace p, weaviateName p) = Ok x \<and> sf_Replicas x \<noteq> None)"

lemma three_writes:
  assumes docs: "platformServes d" "platformSeparate d" and conf: "platformConfigured d (rs_cr s)"
    and acc: "platformAccepted d (rs_cr s)"
  obtains t u v where "ReconcileRayService (pd_ray d) s = (Ok (), t)" "ReconcileWeaviateDatabase d t = (Ok (), u)"
    "ReconcileIngress d u = (Ok (), v)" "rs_cr v = rs_cr s" "clusterBuilt d (rs_cr s) (rs_world v)"
proof -
  let ?p = "rs_cr s"
  note separate = platformSeparateD [OF docs(2)] and serves = platformD [OF docs(1)]
  have ray: "rayConfigured (pd_ray d) ?p" and off: "ingressEnabled ?p = None"
    using conf by (simp_all add: platformConfigured_def)
  have sent: "rayAccepted (pd_ray d) ?p" "weaviateAccepted d ?p"
    using acc by (simp_all add: platformAccepted_def)
  obtain t where t: "ReconcileRayService (pd_ray d) s = (Ok (), t)" "rs_cr t = ?p"
    using goes_D [OF rayService_goes [OF serves(2) ray sent(1)] refl] by (metis unit.exhaust)
  obtain u where u: "ReconcileWeaviateDatabase d t = (Ok (), u)" "rs_cr u = ?p"
    using goes_D [OF weaviate_goes [OF docs(1) conf sent(2)] t(2)] by (metis unit.exhaust)
  obtain v where v: "ReconcileIngress d u = (Ok (), v)" "rs_cr v = ?p"
    using goes_D [OF ingress_off_goes [OF serves(16) off] u(2)] by (metis unit.exhaust)
  have reads: "cGet (rd_rayservices (pd_ray d)) (rs_world v) = cGet (rd_rayservices (pd_ray d)) (rs_world t)"
    "cGet (pd_statefulsets d) (rs_world v) = cGet (pd_statefulsets d) (rs_world u)"
    using moves_D [OF separate(1) u(1)] moves_D [OF separate(2) v(1)] moves_D [OF separate(3) v(1)]
    by (simp_all add: sameBy_def)
  obtain start new x where new: "mutateWeaviate d (rs_cr t) (pd_getenv d ''RELATED_IMAGE_WEAVIATE'') start = Ok new"
      "cGet (pd_statefulsets d) (rs_world u) (plNamespace (rs_cr t), weaviateName (rs_cr t)) = Ok x"
      "sf_Replicas x = sf_Replicas new"
    by (rule weaviate_stored [OF serves(8,18) separate(4,5) u(1)])
  then have "clusterBuilt d ?p (rs_world v)"
    using mutateWeaviate_Ok [OF new(1)] rayService_present [OF serves(2) sent(1) t(1)] reads t(2) by (simp add: clusterBuilt_def)
  then show thesis
    using that t(1) u(1) v by blast
qed

lemma ten_stages:
  assumes docs: "platformServes d" "platformSeparate d" and valid: "validate d s = (Ok (), s1)"
    and conf: "platformConfigured d (rs_cr s1)" and acc: "platformAccepted d (rs_cr s1)"
    and free: "clusterFree d (rs_world s) (rs_cr s1)"
  obtains v where "inSequence (take 10 (platformStages d)) s = (Ok (), v)" "servicesNamed (rs_cr s1) (rs_cr v)"
proof -
  let ?p = "rs_cr s1"
  note serves = platformD [OF docs(1)]
  have off: "ingressEnabled ?p = None" and sides: "sidecarsAccepted (pd_sidecars d) ?p"
    and rbac: "ap_ServiceAccountName (p_Spec ?p) \<noteq> [] \<Longrightarrow> rbacAccepted (pd_ray d) ?p"
    and rendered: "sd_Otel (ap_Sidecars (p_Spec ?p)) \<longrightarrow> otelRendered (pd_sidecars d) ?p"
    using conf acc by (simp_all add: platformConfigured_def platformAccepted_def)
  have "rs_world s1 = rs_world s"
    using moves_D [OF untouched.moves_platform_validate [where g = id] valid] by (simp add: sameBy_def)
  then have children: "childrenFree d (rs_world s) ?p"
    and otel: "sd_Otel (ap_Sidecars (p_Spec ?p)) \<longrightarrow> otelRendered (pd_sidecars d) ?p \<and>
      otelStored (pd_sidecars d) (rs_world s1) ?p"
    using free rendered by (simp_all add: clusterFree_def)
  obtain s2 where s2: "SidecarsReconcile (pd_sidecars d) s1 = (Ok (), s2)" "rs_cr s2 = ?p"
    using sidecars_go [OF serves(1) sides refl otel] by blast
  obtain s3 where s3: "ReconcileRayAutoscalerRBAC (pd_ray d) s2 = (Ok (), s3)" "rs_cr s3 = ?p"
    using goes_D [OF rbac_goes [OF serves(2) rbac] s2(2)] by (metis unit.exhaust)
  obtain s4 s5 s6 where s6: "ReconcileRayService (pd_ray d) s3 = (Ok (), s4)" "ReconcileWeaviateDatabase d s4 = (Ok (), s5)"
      "ReconcileIngress d s5 = (Ok (), s6)" "rs_cr s6 = ?p" "clusterBuilt d ?p (rs_world s6)"
    using three_writes [OF docs, of s3] conf acc s3(2) by metis
  obtain s7 s8 s9 where s9: "BuilderApplyConditions (pd_ray d) s6 = (Ok (), s7)"
      "ReconcileWeaviateDatabaseStatus d s7 = (Ok (), s8)" "UpdateIngressStatus d s8 = (Ok (), s9)" "servicesNamed ?p (rs_cr s9)"
    using status_stages [OF docs(1), of s6] s6(4,5) off unfolding clusterBuilt_def by auto
  have nine: "inSequence (take 9 (platformStages d)) s = (Ok (), s9)"
    by (simp add: platformStages_def thenA_def bindA_def valid s2 s3 s6 s9 retA_def)
  have "childrenFree d (rs_world s9) ?p"
    using children early_world [OF docs nine] by (simp add: childrenFree_def)
  then obtain v where v: "ReconcileFeatures d s9 = (Ok (), v)" "rs_cr v = rs_cr s9"
    using features_go [OF docs(1) s9(4) acc conf] by blast
  show ?thesis
  proof (rule that)
    show "inSequence (take 10 (platformStages d)) s = (Ok (), v)"
      by (simp add: platformStages_def thenA_def bindA_def valid s2 s3 s6 s9 v retA_def)
    show "servicesNamed ?p (rs_cr v)"
      using s9(4) v(2) by simp
  qed
qed

lemma check_outcome:
  assumes "platformServes d"
  obtains children where "childrenOf d (rs_world v) (rs_cr v) = Ok children" "CheckAIServiceStatus d v = (childWait children, v)"
proof -
  obtain children where "childrenOf d (rs_world v) (rs_cr v) = Ok children"
    using assms unfolding platformServes_def isOk_iff by blast
  then show ?thesis
    by (intro that [of children])
      (auto simp: CheckAIServiceStatus_def listChildren_def childWait_def act_defs split: option.split)
qed

lemma runStages_prefix:
  "inSequence pre s = (Ok (), v) \<Longrightarrow>
   \<exists>cs'. runStages clock (pre @ post) cs s = runStages clock post cs' v \<and> length cs' = length cs + length pre"
proof (induction pre arbitrary: cs s)
  case (Cons st pre)
  obtain u where u: "snd st s = (Ok (), u)" "inSequence pre u = (Ok (), v)"
    using Cons.prems by (auto simp: thenA_Ok_iff)
  show ?case
    using Cons.IH [OF u(2), of "cs @ [stageCond (clock (length cs)) (fst st) None]"] u(1) by auto
qed (auto simp: retA_def)


text \<open>The status of a platform that is there can be written, and reads back.\<close>

definition statusServes :: "('w, AIPlatform) client \<Rightarrow> bool" where
  "statusServes c \<longleftrightarrow> statusVisible platKey p_Status c \<and> (\<forall>w k x. cGet c w k = Ok x \<longrightarrow> platKey x = k) \<and>
     (\<forall>w x. isOk (cGet c w (platKey x)) \<longrightarrow> isOk (snd (cStatusUpdate c w x)))"

lemma published:
  assumes docs: "statusServes c" and there: "isOk (cGet c (rs_world s) (platKey (rs_cr s)))"
  obtains y where "cGet c (rs_world (publishPlatform c cs s)) (platKey (rs_cr s)) = Ok y"
    "p_Status y = publishedStatus cs (rs_cr s)"
proof -
  obtain latest where latest: "cGet c (rs_world s) (platKey (rs_cr s)) = Ok latest"
    using there unfolding isOk_iff by blast
  have vis: "statusVisible platKey p_Status c" and key: "\<And>w k x. cGet c w k = Ok x \<Longrightarrow> platKey x = k"
    and update: "isOk (cGet c w (platKey x)) \<Longrightarrow> isOk (snd (cStatusUpdate c w x))" for w x
    using docs unfolding statusServes_def by blast+
  let ?x = "latest\<lparr>p_Status := publishedStatus cs (rs_cr s)\<rparr>"
  have "platKey ?x = platKey (rs_cr s)"
    using key [OF latest] by simp
  then obtain w y where "cStatusUpdate c (rs_world s) ?x = (w, Ok y)"
    using update [of "rs_world s" ?x] there unfolding isOk_iff by (metis prod.collapse)
  then show thesis
    using publishPlatform_visible [OF vis _ latest, of cs w y] key that by blast
qed

lemma platform_run:
  assumes docs: "platformServes d" "platformSeparate d" "statusServes (pd_platforms d)"
    and there: "isOk (cGet (pd_platforms d) (rs_world s) (platKey (rs_cr s)))"
    and valid: "validate d s = (Ok (), s1)" and conf: "platformConfigured d (rs_cr s1)"
    and acc: "platformAccepted d (rs_cr s1)" and free: "clusterFree d (rs_world s) (rs_cr s1)"
    and run: "PlatformReconcile d clock s = (r, t)"
  obtains children cs y u where "childrenOf d (rs_world t) (rs_cr s) = Ok children" "r = childWait children"
    "stageReport clock platformStageNames r cs" "10 < length cs"
    "cGet (pd_platforms d) (rs_world t) (platKey (rs_cr s)) = Ok y" "p_Status y = publishedStatus cs u"
    "servicesNamed (rs_cr s1) u"
proof -
  obtain cs u where u: "runStages clock (platformStages d) [] s = (r, cs, u)" "t = publishPlatform (pd_platforms d) cs u"
    using run by (auto simp: PlatformReconcile_def split: prod.splits)
  obtain v where v: "inSequence (take 10 (platformStages d)) s = (Ok (), v)" "servicesNamed (rs_cr s1) (rs_cr v)"
    by (rule ten_stages [OF docs(1,2) valid conf acc free])
  obtain children where children: "childrenOf d (rs_world v) (rs_cr v) = Ok children"
      "CheckAIServiceStatus d v = (childWait children, v)"
    by (rule check_outcome [OF docs(1)])
  have split: "platformStages d = take 10 (platformStages d) @ [(''AIServiceStatus'', CheckAIServiceStatus d)]"
    by (simp add: platformStages_def)
  obtain cs' where "runStages clock [(''AIServiceStatus'', CheckAIServiceStatus d)] cs' v = (r, cs, u)" "length cs' = 10"
    using runStages_prefix [OF v(1), of clock "[(''AIServiceStatus'', CheckAIServiceStatus d)]" "[]"] u(1) split
    by (auto simp: platformStages_def)
  then have "u = v \<and> r = childWait children \<and> 10 < length cs"
    using children(2) by (auto simp: childWait_def split: res.splits option.splits)
  then have here: "u = v" "r = childWait children" "10 < length cs"
    by simp_all
  have meta: "p_Meta (rs_cr v) = p_Meta (rs_cr s)"
    using validate_Ok [OF valid] v(2) by (auto simp: servicesNamed_def)
  have "sameBy (cGet (pd_platforms d)) (rs_world s) (rs_world u)"
    by (rule untouched.moves_stages [OF u(1)])
      (use untouched.moves_platformStages [OF platformSeparateD(7) [OF docs(2)] platformD(17) [OF docs(1)]] in blast)
  then have "isOk (cGet (pd_platforms d) (rs_world u) (platKey (rs_cr u)))"
    using there meta here(1) by (simp add: sameBy_def platKey_def)
  then obtain y where y: "cGet (pd_platforms d) (rs_world t) (platKey (rs_cr u)) = Ok y" "p_Status y = publishedStatus cs (rs_cr u)"
    using published [OF docs(3), of u cs] u(2) by blast
  have "cList (pd_services d) (rs_world t) = cList (pd_services d) (rs_world u)"
    using platformSeparateD(6) [OF docs(2)]
    by (auto simp: u(2) publishPlatform_def within_def sameBy_def split: res.split)
  moreover have "stageReport clock platformStageNames r cs"
    using runStages_report [OF u(1)] by (simp add: stage_simps)
  ultimately show thesis
    using that [of children cs y "rs_cr v"] children(1) here meta y v(2) by (simp add: platKey_def)
qed


text \<open>
  C7: take a platform whose spec validation accepts, with distinct feature names and no ingress
  enabled, for which the cluster specification, the serve configuration and, with the OpenTelemetry
  sidecar, the collector's configuration can be rendered; an API server that answers and accepts what
  the run sends, the AIServices included; and a cluster in which nobody else controls an AIService of
  a child's name. Then the reconcile never panics and fails for one reason only: a listed child has a
  failed condition, the first of which it names. The platform in the cluster is reported Ready exactly
  when there is none.
\<close>

theorem platform_waits_only:
  assumes docs: "platformServes d" "platformSeparate d" "statusServes (pd_platforms d)"
    and there: "isOk (cGet (pd_platforms d) (rs_world s) (platKey (rs_cr s)))"
    and valid: "validate d s = (Ok (), s1)" and conf: "platformConfigured d (rs_cr s1)"
    and acc: "platformAccepted d (rs_cr s1)" and free: "clusterFree d (rs_world s) (rs_cr s1)"
    and run: "PlatformReconcile d clock s = (r, t)"
  shows "\<exists>children y. childrenOf d (rs_world t) (rs_cr s) = Ok children \<and> r = childWait children \<and>
    cGet (pd_platforms d) (rs_world t) (platKey (rs_cr s)) = Ok y \<and>
    (IsConditionTrue (aps_Conditions (p_Status y)) ''Ready'' \<longleftrightarrow>
      (\<forall>x \<in> set children. \<forall>c \<in> set (ass_Conditions (s_Status x)). \<not> failedCond c))"
proof -
  obtain children cs y u where run: "childrenOf d (rs_world t) (rs_cr s) = Ok children" "r = childWait children"
    "stageReport clock platformStageNames r cs"
    "cGet (pd_platforms d) (rs_world t) (platKey (rs_cr s)) = Ok y" "p_Status y = publishedStatus cs u"
    by (rule platform_run [OF docs there valid conf acc free run])
  have "IsConditionTrue cs ''Ready'' \<longleftrightarrow> childWait children = Ok ()"
    using platform_stages.report_ready [OF run(3)] run(2) by simp
  moreover have "childWait children = Ok () \<longleftrightarrow> firstFailure children = None"
    by (auto simp: childWait_def split: option.split)
  ultimately show ?thesis
    using run by (auto simp: firstFailure_None)
qed

text \<open>
  C8: under the conditions of C7 one run of the platform opens the gate of its children, also when it
  fails because of them: afterwards every AIService that refers to the platform finds it ready with
  both of its services named, and can fill in the addresses that it needs. So a platform and its
  children, each of which waits for the other, do not wait for ever.
\<close>

theorem platform_opens_gate:
  assumes docs: "platformServes d" "platformSeparate d" "statusServes (pd_platforms d)"
    and there: "isOk (cGet (pd_platforms d) (rs_world s) (platKey (rs_cr s)))"
    and valid: "validate d s = (Ok (), s1)" and conf: "platformConfigured d (rs_cr s1)"
    and acc: "platformAccepted d (rs_cr s1)" and free: "clusterFree d (rs_world s) (rs_cr s1)"
    and run: "PlatformReconcile d clock s = (r, t)"
    and same: "sa_platforms sd = pd_platforms d" "rs_world x = rs_world t"
    and refs: "ref_Name (as_AIPlatformRef (s_Spec (rs_cr x))) = plName (rs_cr s)"
      "ref_Namespace (as_AIPlatformRef (s_Spec (rs_cr x))) = plNamespace (rs_cr s)"
  shows "\<exists>y. cGet (pd_platforms d) (rs_world t) (platKey (rs_cr s)) = Ok y \<and>
    validateAIPlatformReady y = Ok () \<and> validateVectorDatabaseReady y = Ok () \<and>
    (plName (rs_cr s) \<noteq> [] \<longrightarrow> thenA (resolvePlatform sd) requireURLs x =
       (Ok (), x\<lparr>rs_cr := (rs_cr x)\<lparr>s_Spec := fillURLs y (s_Spec (rs_cr x))\<rparr>\<rparr>))"
proof -
  obtain children cs y u where run: "r = childWait children" "stageReport clock platformStageNames r cs" "10 < length cs"
    "cGet (pd_platforms d) (rs_world t) (platKey (rs_cr s)) = Ok y" "p_Status y = publishedStatus cs u"
    "servicesNamed (rs_cr s1) u"
    by (rule platform_run [OF docs there valid conf acc free run])
  have names: "length platformStageNames = 11" "platformStageNames ! 6 = ''RayServiceStatus''"
    "platformStageNames ! 7 = ''WeaviateDatabaseStatus''"
    by (simp_all add: platformStageNames_def)
  have "\<And>p. r \<noteq> Panic p"
    using run(1) by (auto simp: childWait_def split: option.splits)
  then have "IsConditionTrue cs (platformStageNames ! i @ ''Ready'')" if "i < 8" for i
    using platform_stages.report_true_iff [OF run(2), of i] that run(3) names(1) by (cases r) auto
  from this [of 6] this [of 7]
  have "IsConditionTrue cs ''RayServiceStatusReady''" "IsConditionTrue cs ''WeaviateDatabaseStatusReady''"
    by (simp_all add: names(2,3))
  moreover have "aps_RayServiceName (p_Status y) \<noteq> []" "aps_VectorDbServiceName (p_Status y) \<noteq> []"
    using run(5,6) by (simp_all add: servicesNamed_def publishedStatus_def weaviateName_def)
  ultimately have gate: "validateAIPlatformReady y = Ok ()" "validateVectorDatabaseReady y = Ok ()"
    using run(5) by (simp_all add: validateAIPlatformReady_def validateVectorDatabaseReady_def)
  have "cGet (pd_platforms d) (rs_world t) (plNamespace (rs_cr s), plName (rs_cr s)) = Ok y"
    using run(4) by (simp add: platKey_def metaKey_def)
  then show ?thesis
    using run(4) gate same refs
    by (auto simp: resolvePlatform_def getAIPlatform_def getA_def requireURLs_def modSpec_def fillURLs_def onErr_def
        whenA_def act_defs Let_def)
qed

section \<open>A cluster in memory with all the kinds of a platform\<close>

lemma retryOnConflict_returns: "retryReturns (retryOnConflict n)"
  by (auto simp: retryReturns_def retryOnConflict.simps)

lemma fieldClient_deletes:
  "deletesServe (fieldClient get put (memClient key sel))" "deletesServe (fieldClient get put (defaultingClient key g))"
  by (auto simp: deletesServe_def fieldClient_def through_def memClient_def defaultingClient_def)

lemma fieldClient_quiet: "neverPanics (fieldClient get put (memClient key sel))"
  by (auto simp: neverPanics_def fieldClient_def through_def memClient_def memCreate_def memUpdate_def)

record plat_kinds =
  q_Platforms :: "AIPlatform list"
  q_AIServices :: "AIService list"
  q_RayServices :: "rayservice list"
  q_ConfigMaps :: "configmap list"
  q_Roles :: "role list"
  q_Bindings :: "role_binding list"
  q_Accounts :: "service_account list"
  q_StatefulSets :: "statefulset list"
  q_Services :: "service list"
  q_Ingresses :: "ingress list"
  q_Collectors :: "unstructured list"
  q_Monitors :: "unstructured list"
  q_Rules :: "unstructured list"

definition wholeRay :: "plat_kinds rayDeps" where
  "wholeRay = offRay
     \<lparr>rd_setRef := ownIn True, rd_setOwner := ownIn False,
      rd_readFile := \<lambda>_. Ok [], rd_reads := \<lambda>_. sampleReads,
      rd_parseInstances := \<lambda>_. Ok (fmap_of_list [(''L40S'', [smallInstance []])]),
      rd_parseFeature := \<lambda>_. Ok smallFeature, rd_parseTemplate := \<lambda>_. Ok (\<lambda>_. Ok ''conf''),
      rd_rayservices := fieldClient q_RayServices (\<lambda>v. q_RayServices_update (\<lambda>_. v)) (memClient rayKey (\<lambda>_ _. True)),
      rd_configmaps := fieldClient q_ConfigMaps (\<lambda>v. q_ConfigMaps_update (\<lambda>_. v)) (memClient cmKey (\<lambda>_ _. True)),
      rd_roles := fieldClient q_Roles (\<lambda>v. q_Roles_update (\<lambda>_. v)) (memClient (\<lambda>x. metaKey (ro_Meta x)) (\<lambda>_ _. True)),
      rd_bindings := fieldClient q_Bindings (\<lambda>v. q_Bindings_update (\<lambda>_. v)) (memClient (\<lambda>x. metaKey (rb_Meta x)) (\<lambda>_ _. True))\<rparr>"

definition wholeSide :: "plat_kinds sidecarDeps" where
  "wholeSide = offSide
     \<lparr>si_setRef := ownIn True, si_setOwner := ownIn False,
      si_marshal := \<lambda>_. Ok ''receivers:'', si_yamlToJSON := \<lambda>_. Ok ''{}'', si_unmarshal := \<lambda>_. Ok fmempty,
      si_collectors := fieldClient q_Collectors (\<lambda>v. q_Collectors_update (\<lambda>_. v)) (memClient unKey (\<lambda>_ _. True)),
      si_configmaps := fieldClient q_ConfigMaps (\<lambda>v. q_ConfigMaps_update (\<lambda>_. v)) (memClient cmKey (\<lambda>_ _. True)),
      si_monitors := fieldClient q_Monitors (\<lambda>v. q_Monitors_update (\<lambda>_. v)) (memClient unKey (\<lambda>_ _. True)),
      si_rules := fieldClient q_Rules (\<lambda>v. q_Rules_update (\<lambda>_. v)) (memClient unKey (\<lambda>_ _. True))\<rparr>"

definition wholePlat :: "plat_kinds platDeps" where
  "wholePlat = offPlat
     \<lparr>pd_ray := wholeRay, pd_sidecars := wholeSide, pd_readFile := \<lambda>_. Ok ''tok'', 
      pd_standalones := \<lambda>_ _. Ok (newMeta ''s'' ''ns''),
      pd_platforms := fieldClient q_Platforms (\<lambda>v. q_Platforms_update (\<lambda>_. v)) (memClient platKey (\<lambda>_ _. True)),
      pd_services := fieldClient q_AIServices (\<lambda>v. q_AIServices_update (\<lambda>_. v)) (defaultingClient svKey storedForm),
      pd_accounts := fieldClient q_Accounts (\<lambda>v. q_Accounts_update (\<lambda>_. v)) (memClient (\<lambda>x. metaKey (sa_Meta x)) (\<lambda>_ _. True)),
      pd_statefulsets := fieldClient q_StatefulSets (\<lambda>v. q_StatefulSets_update (\<lambda>_. v)) (memClient stsKey (\<lambda>_ _. True)),
      pd_svcs := fieldClient q_Services (\<lambda>v. q_Services_update (\<lambda>_. v)) (memClient svcKey (\<lambda>_ _. True)),
      pd_ingresses := fieldClient q_Ingresses (\<lambda>v. q_Ingresses_update (\<lambda>_. v)) (memClient igKey (\<lambda>_ _. True))\<rparr>"

lemma wholePlat_sel:
  "pd_ray wholePlat = wholeRay" "pd_sidecars wholePlat = wholeSide" "pd_certs wholePlat = offClient"
  "pd_platforms wholePlat = fieldClient q_Platforms (\<lambda>v. q_Platforms_update (\<lambda>_. v)) (memClient platKey (\<lambda>_ _. True))"
  "pd_services wholePlat = fieldClient q_AIServices (\<lambda>v. q_AIServices_update (\<lambda>_. v)) (defaultingClient svKey storedForm)"
  "pd_accounts wholePlat = fieldClient q_Accounts (\<lambda>v. q_Accounts_update (\<lambda>_. v)) (memClient (\<lambda>x. metaKey (sa_Meta x)) (\<lambda>_ _. True))"
  "pd_statefulsets wholePlat = fieldClient q_StatefulSets (\<lambda>v. q_StatefulSets_update (\<lambda>_. v)) (memClient stsKey (\<lambda>_ _. True))"
  "pd_svcs wholePlat = fieldClient q_Services (\<lambda>v. q_Services_update (\<lambda>_. v)) (memClient svcKey (\<lambda>_ _. True))"
  "pd_ingresses wholePlat = fieldClient q_Ingresses (\<lambda>v. q_Ingresses_update (\<lambda>_. v)) (memClient igKey (\<lambda>_ _. True))"
  "pd_validQuantity wholePlat = (\<lambda>_. True)" "pd_readFile wholePlat = (\<lambda>_. Ok ''tok'')"
  "pd_standalones wholePlat = (\<lambda>_ _. Ok (newMeta ''s'' ''ns''))"
  by (simp_all add: wholePlat_def offPlat_def)

lemmas whole_clients = fieldClient_replies memClient_replies defaultingClient_replies fieldClient_docs memClient_docs
  fieldClient_frame memClient_frame

lemma wholeSide_serves: "sidecarsServe wholeSide"
  by (simp add: sidecarsServe_def wholeSide_def ownIn_docs whole_clients)

lemma wholeRay_serves: "rayServes wholeRay" "readsAnswer wholeRay"
  by (simp_all add: rayServes_def readsAnswer_def wholeRay_def offRay_def ownIn_docs whole_clients fieldClient_quiet
      retryOnConflict_docs retryOnConflict_returns sampleReads_def)

lemma storing_services: "clientDocs svKey (\<lambda>_. ()) (defaultingClient svKey storedForm)"
    "keyFrame svKey (defaultingClient svKey storedForm)"
  by (rule defaultingClient_docs; simp add: storedForm_keeps storedForm_fixed)
    (rule defaultingClient_frame; simp add: storedForm_keeps)

lemma wholePlat_serves: "platformServes wholePlat"
  unfolding platformServes_def wholePlat_sel
  by (simp add: wholeSide_serves wholeRay_serves whole_clients fieldClient_deletes storing_services)
    (simp add: client_gets memClient_reads defaultingClient_def)

lemma wholePlat_separate: "platformSeparate wholePlat"
  unfolding platformSeparate_def platformWrites_def Let_def
  by (simp add: wholePlat_sel wholeSide_def wholeRay_def offSide_def offRay_def fieldClient_within client_gets
      offClient_within untouched.world_order_axioms)

lemma memClient_statusServes: "statusServes (memClient platKey sel)"
proof -
  have "isOk (snd (memUpdate platKey w x))" if "isOk (memGet platKey w (platKey x))" for w x
    using that by (auto simp: memUpdate_def memGet_def split: option.splits)
  moreover have "platKey x = k" if "memGet platKey w k = Ok x" for w k x
    using that find_SomeD by (fastforce simp: memGet_def split: option.splits)
  ultimately show ?thesis
    unfolding statusServes_def using memClient_status [of platKey p_Status sel] by (simp add: memClient_def)
qed

lemma fieldClient_statusServes:
  assumes "\<And>v w. get (put v w) = v" and "statusServes c"
  shows "statusServes (fieldClient get put c)"
proof -
  have "statusVisible platKey p_Status c"
    using assms(2) by (simp add: statusServes_def)
  then have "statusVisible platKey p_Status (fieldClient get put c)"
    unfolding statusVisible_def using assms(1) by (fastforce simp: fieldClient_def through_def prod_eq_iff)
  then show ?thesis
    using assms(2) unfolding statusServes_def by (simp add: fieldClient_def through_def)
qed

lemma wholePlat_status: "statusServes (pd_platforms wholePlat)"
  by (simp add: wholePlat_sel fieldClient_statusServes memClient_statusServes)

text \<open>A platform with all its sidecars, in a cluster that holds nothing else.\<close>

definition wholePlatform :: AIPlatform where
  "wholePlatform = rayPlatform\<lparr>p_Spec := (p_Spec rayPlatform)\<lparr>
     ap_Sidecars := \<lparr>sd_Envoy = True, sd_Otel = True, sd_PrometheusOperator = True\<rparr>,
     ap_SplunkConfiguration := referringSplunk\<lparr>sc_SecretRef := \<lparr>sr_Name = ''hec'', sr_Namespace = []\<rparr>\<rparr>\<rparr>\<rparr>"

definition wholeStart :: "(plat_kinds, AIPlatform) rstate" where
  "wholeStart = \<lparr>rs_world = \<lparr>q_Platforms = [wholePlatform], q_AIServices = [], q_RayServices = [], q_ConfigMaps = [],
     q_Roles = [], q_Bindings = [], q_Accounts = [], q_StatefulSets = [], q_Services = [], q_Ingresses = [],
     q_Collectors = [], q_Monitors = [], q_Rules = []\<rparr>, rs_events = [], rs_cr = wholePlatform\<rparr>"

definition wholeValid :: "SplunkConfigurationSpec \<Rightarrow> AIPlatform" where
  "wholeValid cfg = wholePlatform\<lparr>p_Spec := (fillScheduling (p_Spec wholePlatform))\<lparr>ap_SplunkConfiguration := cfg\<rparr>\<rparr>"

lemma wholeValid_sel:
  "ap_DefaultAcceleratorType (p_Spec (wholeValid cfg)) = ''L40S''" "os_Path (ap_ObjectStorage (p_Spec (wholeValid cfg))) = ''gs://b''"
  "ap_CPUSchedulingSpec (p_Spec (wholeValid cfg)) = Some defaultScheduling"
  "ap_GPUSchedulingSpec (p_Spec (wholeValid cfg)) = Some defaultScheduling"
  "ap_WorkerGroupConfig (p_Spec (wholeValid cfg)) = Some \<lparr>wg_ServiceAccountName = ''sa'', wg_ImageRegistry = ''img''\<rparr>"
  "p_Meta (wholeValid cfg) = p_Meta rayPlatform" "ap_Features (p_Spec (wholeValid cfg)) = ap_Features (p_Spec rayPlatform)"
  "ingressEnabled (wholeValid cfg) = None"
  by (simp_all add: wholeValid_def wholePlatform_def fillScheduling_def rayPlatform_sel ingressEnabled_def)
    (simp_all add: rayPlatform_def zero_defs)

lemma wholeRay_sel:
  "rd_getenv wholeRay = (\<lambda>_. ''img'')" "rd_readFile wholeRay = (\<lambda>_. Ok [])"
  "rd_parseInstances wholeRay = (\<lambda>_. Ok (fmap_of_list [(''L40S'', [smallInstance []])]))"
  "rd_parseFeature wholeRay = (\<lambda>_. Ok smallFeature)" "rd_parseTemplate wholeRay = (\<lambda>_. Ok (\<lambda>_. Ok ''conf''))"
  by (simp_all add: wholeRay_def offRay_def)

lemma whole_configured: "platformConfigured wholePlat (wholeValid cfg)"
proof -
  obtain f g where fs: "ap_Features (p_Spec rayPlatform) = [f, g]" using demo_features by blast
  have "\<forall>scale. \<exists>g. workerGroup wholeRay (wholeValid cfg) scale (smallInstance []) = Ok g"
    by (simp add: workerGroup_def makeWorkerTemplate_def wholeValid_sel split: prod.split)
  then obtain h where "\<forall>scale. workerGroup wholeRay (wholeValid cfg) scale (smallInstance []) = Ok (h scale)"
    by (rule choice [THEN exE])
  then have "\<exists>c. buildClusterConfig wholeRay (wholeValid cfg) = Ok c"
    by (simp add: buildClusterConfig_def makeHeadTemplate_def wholeValid_sel wholeRay_sel fs Let_def split: prod.split)
  then have "isOk (Build wholeRay (wholeValid cfg))"
    by (auto simp: Build_def)
  moreover have "urlParse ''gs://b'' \<noteq> None"
    by code_simp
  moreover have "isOk (renderServeConfig wholeRay (wholeValid cfg) v)" for v
    by (simp add: renderServeConfig_def wholeRay_sel)
  moreover have "isOk (weaviateClaim wholePlat v)" for v
    by (simp add: weaviateClaim_def wholePlat_sel Let_def)
  moreover have "otelRendered wholeSide (wholeValid cfg)"
    by (simp add: otelRendered_def otelConfig_def renderOtelConf_def wholeSide_def offSide_def refused_def Let_def)
  moreover have "distinct (map fs_Name (ap_Features (p_Spec rayPlatform)))"
    by (simp add: rayPlatform_sel)
  ultimately show ?thesis
    by (auto simp: platformConfigured_def rayConfigured_def wholePlat_sel wholeValid_sel wholeRay_sel)
qed

lemma whole_validates:
  obtains t cfg where "validate wholePlat (wholeStart) = (Ok (), t)" "rs_cr t = wholeValid cfg"
proof -
  have "\<exists>t. validate wholePlat (wholeStart) = (Ok (), t)"
    by (simp add: validate_def act_defs enrichPlatform_def fillScheduling_def wholeStart_def wholePlatform_def rayPlatform_sel
       ValidateAndEnrichSplunkConfig_def ensureToken_def ResolveSplunkEndpoint_def VaultGetHECToken_def trimSpace_def isSpaceC_def
       referringSplunk_def zero_defs wholePlat_sel Let_def split: prod.split)
  then obtain t where t: "validate wholePlat (wholeStart) = (Ok (), t)" by blast
  have "rs_cr (wholeStart) = wholePlatform"
    by (simp add: wholeStart_def)
  then show thesis
    using validate_Ok [OF t] that [OF t] by (auto simp: wholeValid_def)
qed

text \<open>Whatever keeps the key of what it is given can be sent.\<close>

lemma ownIn_key: "ownIn b owner m = Ok m' \<Longrightarrow> metaKey m' = metaKey m"
  using setOwnerDocsD(1) [OF ownIn_docs(1)] .

lemma whole_owned:
  "unKey y = unKey x" if "ownedSpec wholeSide p spec x = Ok y"
  using that by (auto simp: ownedSpec_def wholeSide_def bindR_Ok_iff unKey_def dest: ownIn_key)

lemma wholeSide_accepts: "sidecarsAccepted wholeSide p"
proof -
  have "cmKey y = cmKey x" if "mutateOtelMap wholeSide w p x = Ok y" for w x y
    using that by (auto simp: mutateOtelMap_def wholeSide_def Let_def bindR_Ok_iff cmKey_def dest: ownIn_key)
  moreover have "unKey y = unKey x" if "mutateCollector wholeSide p spec x = Ok y" for spec x y
    using that by (auto simp: mutateCollector_def wholeSide_def Let_def bindR_Ok_iff unKey_def metaKey_def dest!: ownIn_key
        split: if_splits)
  moreover have "si_configmaps wholeSide = fieldClient q_ConfigMaps (\<lambda>v. q_ConfigMaps_update (\<lambda>_. v)) (memClient cmKey (\<lambda>_ _. True))"
      "si_collectors wholeSide = fieldClient q_Collectors (\<lambda>v. q_Collectors_update (\<lambda>_. v)) (memClient unKey (\<lambda>_ _. True))"
      "si_monitors wholeSide = fieldClient q_Monitors (\<lambda>v. q_Monitors_update (\<lambda>_. v)) (memClient unKey (\<lambda>_ _. True))"
      "si_rules wholeSide = fieldClient q_Rules (\<lambda>v. q_Rules_update (\<lambda>_. v)) (memClient unKey (\<lambda>_ _. True))"
    by (simp_all add: wholeSide_def)
  ultimately show ?thesis
    unfolding sidecarsAccepted_def envoyAccepted_def otelAccepted_def monitorsAccepted_def
    by (auto intro!: fieldClient_accepts memClient_accepts simp: cmKey_def dest: whole_owned)
qed

lemma wholeRay_accepts: "rbacAccepted wholeRay p" "rayAccepted wholeRay p"
proof -
  have role: "roKey y = roKey x" if "mutateRole wholeRay p x = Ok y" for x y
    using that by (auto simp: mutateRole_def wholeRay_def bindR_Ok_iff dest: ownIn_key)
  have binding: "rbKey y = rbKey x" if "mutateBinding wholeRay p n x = Ok y" for n x y
    using that by (auto simp: mutateBinding_def wholeRay_def bindR_Ok_iff dest: ownIn_key)
  have clients: "rd_roles wholeRay = fieldClient q_Roles (\<lambda>v. q_Roles_update (\<lambda>_. v)) (memClient roKey (\<lambda>_ _. True))"
    "rd_bindings wholeRay = fieldClient q_Bindings (\<lambda>v. q_Bindings_update (\<lambda>_. v)) (memClient rbKey (\<lambda>_ _. True))"
    "rd_rayservices wholeRay = fieldClient q_RayServices (\<lambda>v. q_RayServices_update (\<lambda>_. v)) (memClient rayKey (\<lambda>_ _. True))"
    by (simp_all add: wholeRay_def)
  show "rbacAccepted wholeRay p"
    unfolding rbacAccepted_def Let_def clients by (auto intro!: fieldClient_accepts memClient_accepts role binding)
  show "rayAccepted wholeRay p"
    unfolding rayAccepted_def clients
    by (auto intro!: fieldClient_accepts memClient_accepts simp: withOwner_key [OF wholeRay_serves(1)] rayKey_def)
      (simp add: withOwner_key [OF wholeRay_serves(1), unfolded rayKey_def])
qed

lemma whole_accepts: "platformAccepted wholePlat p"
proof -
  have sts: "stsKey y = stsKey x" if "mutateWeaviate wholePlat p img x = Ok y" for img x y
    using mutateWeaviate_Ok [OF that] by blast
  have svc: "svcKey y = svcKey x" if "mutateWeaviateService p x = Ok y" for x y
    using that by (auto simp: mutateWeaviateService_def svcKey_def)
  have child: "svKey y = svKey x" if "mutateService wholePlat q f x = Ok y" for q f x y
    using mutateService_key [OF platformD(18) [OF wholePlat_serves] that] .
  have "weaviateAccepted wholePlat p"
    unfolding weaviateAccepted_def wholePlat_sel
    by (auto intro!: fieldClient_accepts memClient_accepts sts svc)
  moreover have "accepts svKey (pd_services wholePlat) x (mutateService wholePlat q f)" for x q f
    unfolding wholePlat_sel by (intro fieldClient_accepts defaultingClient_accepts) (auto dest: child simp: storedForm_keeps)
  ultimately show ?thesis
    by (simp add: platformAccepted_def wholePlat_sel wholeSide_accepts wholeRay_accepts)
qed

lemma whole_free: "clusterFree wholePlat (rs_world wholeStart) p"
  by (simp add: clusterFree_def childrenFree_def otelStored_def wholePlat_sel wholeSide_def wholeStart_def client_gets
      memClient_reads defaultingClient_def memGet_def)

lemma whole_there: "isOk (cGet (pd_platforms wholePlat) (rs_world wholeStart) (platKey (rs_cr wholeStart)))"
  by (simp add: wholePlat_sel wholeStart_def fieldClient_def memClient_def memGet_def)


text \<open>A first run in a cluster without AIServices.\<close>

theorem platform_waits_only_witness:
  "let (r, t) = PlatformReconcile wholePlat id wholeStart
   in \<exists>y. memGet platKey (q_Platforms (rs_world t)) (''ns'', ''p'') = Ok y \<and>
        r = childWait (map storedForm (q_AIServices (rs_world t))) \<and> (r = Ok () \<longleftrightarrow> IsConditionTrue (aps_Conditions (p_Status y)) ''Ready'')"
proof -
  obtain s1 cfg where valid: "validate wholePlat wholeStart = (Ok (), s1)" "rs_cr s1 = wholeValid cfg"
    by (rule whole_validates)
  have conf: "platformConfigured wholePlat (rs_cr s1)"
    using whole_configured valid(2) by simp
  obtain r t where run: "PlatformReconcile wholePlat id wholeStart = (r, t)" by fastforce
  have key: "platKey (rs_cr wholeStart) = (''ns'', ''p'')"
    by (simp add: wholeStart_def wholePlatform_def platKey_def metaKey_def rayPlatform_sel)
  have list: "childrenOf wholePlat (rs_world t) p = Ok (map storedForm (q_AIServices (rs_world t)))" for p
    by (simp add: wholePlat_sel client_gets defaultingClient_def)
  have none: "childWait xs = Ok () \<longleftrightarrow> (\<forall>x \<in> set xs. \<forall>c \<in> set (ass_Conditions (s_Status x)). \<not> failedCond c)" for xs
    unfolding firstFailure_None [symmetric] by (auto simp: childWait_def split: option.split)
  obtain children y where out: "childrenOf wholePlat (rs_world t) (rs_cr wholeStart) = Ok children" "r = childWait children"
    "cGet (pd_platforms wholePlat) (rs_world t) (platKey (rs_cr wholeStart)) = Ok y"
    "IsConditionTrue (aps_Conditions (p_Status y)) ''Ready'' \<longleftrightarrow>
      (\<forall>x \<in> set children. \<forall>c \<in> set (ass_Conditions (s_Status x)). \<not> failedCond c)"
    using platform_waits_only [OF wholePlat_serves wholePlat_separate wholePlat_status whole_there valid(1) conf whole_accepts whole_free run]
    by blast
  have "memGet platKey (q_Platforms (rs_world t)) (''ns'', ''p'') = Ok y"
    using out(3) by (simp add: key wholePlat_sel client_gets memClient_reads)
  moreover have "children = map storedForm (q_AIServices (rs_world t))"
    using out(1) list by simp
  ultimately show ?thesis
    using out(2,4) none by (simp add: run)
qed

text \<open>The AIService that the platform builds for its feature, after that run.\<close>

theorem platform_opens_gate_witness:
  "let (r, t) = PlatformReconcile wholePlat id wholeStart;
       sd = offDeps\<lparr>sa_platforms := pd_platforms wholePlat\<rparr>;
       x = \<lparr>rs_world = rs_world t, rs_events = [], rs_cr = buildAIService wholePlatform saiaFeature ''p-saia''\<rparr>
   in fst (thenA (resolvePlatform sd) requireURLs x) = Ok ()"
proof -
  obtain s1 cfg where valid: "validate wholePlat wholeStart = (Ok (), s1)" "rs_cr s1 = wholeValid cfg"
    by (rule whole_validates)
  have conf: "platformConfigured wholePlat (rs_cr s1)"
    using whole_configured valid(2) by simp
  obtain r t where run: "PlatformReconcile wholePlat id wholeStart = (r, t)" by fastforce
  let ?sd = "offDeps\<lparr>sa_platforms := pd_platforms wholePlat\<rparr>"
  let ?x = "\<lparr>rs_world = rs_world t, rs_events = [], rs_cr = buildAIService wholePlatform saiaFeature ''p-saia''\<rparr>"
  have cr: "rs_cr wholeStart = wholePlatform" "plName wholePlatform = ''p''"
    by (simp_all add: wholeStart_def wholePlatform_def rayPlatform_sel)
  have refs: "ref_Name (as_AIPlatformRef (s_Spec (rs_cr ?x))) = plName (rs_cr wholeStart)"
    "ref_Namespace (as_AIPlatformRef (s_Spec (rs_cr ?x))) = plNamespace (rs_cr wholeStart)"
    by (simp_all add: cr buildAIService_def)
  have "sa_platforms ?sd = pd_platforms wholePlat" "rs_world ?x = rs_world t"
    by simp_all
  from platform_opens_gate [OF wholePlat_serves wholePlat_separate wholePlat_status whole_there valid(1) conf whole_accepts whole_free run this refs]
  show ?thesis
    by (auto simp: run cr)
qed

end
