(* ===== verification/RayConfigMaps.thy ===== *)
theory RayConfigMaps
  imports RayBuilder Seeds
begin

text \<open>
  The config maps that the Ray builder can seed from files of the operator's image, and the
  detection of the cluster's provider (\<open>pkg/ai/raybuilder/instance.go\<close>, \<open>workergroup.go\<close> and
  \<open>ReconcileApplicationsConfigMap\<close> of \<open>configmap_apps.go\<close>). The stage list of the platform
  reconciler has the two seeding functions commented out. The YAML and JSON decoders, the file
  system and the environment are parameters; the application texts of \<open>configmap_apps.go\<close> are
  constants that no code reads.
\<close>

section \<open>Instance types\<close>

record InstanceDetails =
  in_GPUType :: string
  in_AcceleratorType :: string
  in_GPUs :: rat
  in_Memory :: string
  in_VCPUs :: rat
  in_NodeSelector :: "smap option"

definition zeroInstance :: InstanceDetails where
  "zeroInstance = \<lparr>in_GPUType = '''', in_AcceleratorType = '''', in_GPUs = 0, in_Memory = '''',
     in_VCPUs = 0, in_NodeSelector = None\<rparr>"

type_synonym InstanceMap = "(string, (string, InstanceDetails) fmap) fmap"

record node =
  nd_Meta :: objmeta
  nd_ProviderID :: string

record 'w mapDeps =
  rm_configmaps :: "('w, configmap) client"
  rm_nodes :: "'w \<Rightarrow> node list res"
  rm_setOwner :: set_owner
  rm_getenv :: "string \<Rightarrow> string"
  rm_readFile :: "string \<Rightarrow> string res"
  rm_yaml :: "string \<Rightarrow> InstanceMap res"
  rm_json :: "string \<Rightarrow> InstanceMap res"

definition ReadInstanceMapFromConfigMap :: "'w mapDeps \<Rightarrow> 'w \<Rightarrow> string \<Rightarrow> string \<Rightarrow> InstanceMap res" where
  "ReadInstanceMapFromConfigMap d w name namespace =
     bindR (cGet (rm_configmaps d) w (namespace, name)) (\<lambda>cm.
       case fmlookup (entries (cm_Data cm)) ''instance.yaml'' of
         None \<Rightarrow> Err (Errorf (''instance.yaml not found in ConfigMap '' @ namespace @ ''/'' @ name))
       | Some val \<Rightarrow> rm_yaml d val)"

definition LoadInstanceMap :: "'w mapDeps \<Rightarrow> string \<Rightarrow> InstanceMap res" where
  "LoadInstanceMap d filename = bindR (rm_readFile d filename) (rm_json d)"

text \<open>
  A missing provider gives a nil pointer, a missing instance type a pointer to the zero value; the
  second result is false in both cases.
\<close>

definition LookupGPUFromInstanceMap :: "InstanceMap \<Rightarrow> string \<Rightarrow> string \<Rightarrow> InstanceDetails option \<times> bool" where
  "LookupGPUFromInstanceMap m provider instanceType =
     (case fmlookup m provider of
        None \<Rightarrow> (None, False)
      | Some pm \<Rightarrow> (case fmlookup pm instanceType of
          None \<Rightarrow> (Some zeroInstance, False)
        | Some info \<Rightarrow> (Some info, True)))"

section \<open>Seeding\<close>

definition seedFile :: "'w mapDeps \<Rightarrow> objmeta \<Rightarrow> string \<Rightarrow> string \<Rightarrow> configmap \<Rightarrow> configmap res" where
  "seedFile d owner key file cm =
     (let old = entries (cm_Data cm)
      in bindR (if fmlookup old key = None
                then bindR (rm_readFile d file) (\<lambda>content. Ok (fmupd key content old))
                else Ok old) (\<lambda>data.
         bindR (rm_setOwner d owner (cm_Meta cm)) (\<lambda>m.
           Ok \<lparr>cm_Meta = m, cm_Data = Some data\<rparr>)))"

definition emptyMap :: "AIPlatform \<Rightarrow> string \<Rightarrow> configmap" where
  "emptyMap p suffix = \<lparr>cm_Meta = newMeta (plName p @ suffix) (plNamespace p), cm_Data = None\<rparr>"

definition ReconcileInstancesConfigMap :: "'w mapDeps \<Rightarrow> ('w, unit) plat" where
  "ReconcileInstancesConfigMap d = bindA getCR (\<lambda>p.
     dropA (upsertA (rm_configmaps d) (emptyMap p ''-instances'')
       (seedFile d (p_Meta p) ''instance.yaml'' (rm_getenv d ''INSTANCE_FILE''))))"

definition ReconcileApplicationsConfigMap :: "'w mapDeps \<Rightarrow> ('w, unit) plat" where
  "ReconcileApplicationsConfigMap d = bindA getCR (\<lambda>p.
     dropA (upsertA (rm_configmaps d) (emptyMap p ''-applications'')
       (seedFile d (p_Meta p) ''applications.yaml'' (pathJoin [rm_getenv d ''HOME'', ''applications.yaml'']))))"

section \<open>The provider of the cluster\<close>

text \<open>Every case of the switch returns, the default too, so only the first node is looked at.\<close>

definition detectClusterProviderFromNodeLabels :: "'w mapDeps \<Rightarrow> 'w \<Rightarrow> string res" where
  "detectClusterProviderFromNodeLabels d w =
     bindR (rm_nodes d w) (\<lambda>nodes. case nodes of
       [] \<Rightarrow> Err (Errorf ''could not detect cluster provider from node labels'')
     | n # _ \<Rightarrow>
         (let labels = entries (om_Labels (nd_Meta n)) in
          if mget labels ''eks.amazonaws.com/nodegroup'' \<noteq> [] then Ok ''aws''
          else if mget labels ''cloud.google.com/gke-nodepool'' \<noteq> [] then Ok ''gcp''
          else if mget labels ''kubernetes.azure.com/cluster'' \<noteq> [] then Ok ''azure''
          else if contains (om_Name (nd_Meta n)) ''oke'' \<or> contains (mget labels ''oke.oraclecloud.com/name'') ''oke''
          then Ok ''oracle''
          else Ok ''generic''))"

definition detectProvider :: "'w mapDeps \<Rightarrow> 'w \<Rightarrow> string res" where
  "detectProvider d w =
     bindR (rm_nodes d w) (\<lambda>_.
       case detectClusterProviderFromNodeLabels d w of
         Ok provider \<Rightarrow> Ok provider
       | Err _ \<Rightarrow> Err (Errorf ''could not detect cloud provider from nodes'')
       | Panic x \<Rightarrow> Panic x)"

definition GetProviderAndInstance :: "node \<Rightarrow> string \<times> string" where
  "GetProviderAndInstance n =
     ((if hasPrefix (nd_ProviderID n) ''aws://'' then ''aws''
       else if hasPrefix (nd_ProviderID n) ''gce://'' then ''gcp''
       else if hasPrefix (nd_ProviderID n) ''azure://'' then ''azure''
       else ''unknown''),
      mget (entries (om_Labels (nd_Meta n))) ''node.kubernetes.io/instance-type'')"


section \<open>What seeding leaves\<close>

lemma emptyMap_simps: "cm_Data (emptyMap p x) = None" "cmKey (emptyMap p x) = (plNamespace p, plName p @ x)"
  by (simp_all add: emptyMap_def cmKey_def metaKey_def)

interpretation file_seed: seeded "seedFile d owner key f" owner key "rm_readFile d f" "rm_setOwner d"
  for d owner key f
  by unfold_locales
    (auto simp: seedFile_def seededMap_def bindR_Ok_iff Let_def split: if_splits option.splits)

lemma applications_seeded:
  assumes docs: "clientDocs cmKey cm_Data (rm_configmaps d)" and own: "setOwnerDocs (rm_setOwner d)"
    and run: "ReconcileApplicationsConfigMap d s = (Ok (), t)"
  defines "k \<equiv> (plNamespace (rs_cr s), plName (rs_cr s) @ ''-applications'')"
  shows "\<exists>cm. cGet (rm_configmaps d) (rs_world t) k = Ok cm \<and>
    keptOrSeeded ''applications.yaml'' (rm_readFile d (pathJoin [rm_getenv d ''HOME'', ''applications.yaml'']))
      (storedEntries (rm_configmaps d) (rs_world s) k) (entries (cm_Data cm))"
  using run file_seed.seeded_once [OF docs own _ emptyMap_simps(1)]
  by (auto simp: ReconcileApplicationsConfigMap_def upsertA_def act_Ok_iff k_def emptyMap_simps(2))

text \<open>
  Once the instances map is seeded, reading the instance map decodes the text that was stored
  under its key, whatever it was, and only when there was none the file that \<open>INSTANCE_FILE\<close> named
  in that run; the other entries of the map are kept. A new file in a later image has no effect.
\<close>

theorem instances_read_back:
  assumes docs: "clientDocs cmKey cm_Data (rm_configmaps d)" and own: "setOwnerDocs (rm_setOwner d)"
    and run: "ReconcileInstancesConfigMap d s = (Ok (), t)"
  defines "k \<equiv> (plNamespace (rs_cr s), plName (rs_cr s) @ ''-instances'')"
  defines "old \<equiv> storedEntries (rm_configmaps d) (rs_world s) k"
  shows "(\<exists>text. ReadInstanceMapFromConfigMap d (rs_world t) (snd k) (fst k) = rm_yaml d text \<and>
      (case fmlookup old ''instance.yaml'' of
         Some stored \<Rightarrow> text = stored
       | None \<Rightarrow> rm_readFile d (rm_getenv d ''INSTANCE_FILE'') = Ok text)) \<and>
    (\<forall>e. e \<noteq> ''instance.yaml'' \<longrightarrow>
       fmlookup (storedEntries (rm_configmaps d) (rs_world t) k) e = fmlookup old e)"
proof -
  obtain cm where cm: "cGet (rm_configmaps d) (rs_world t) k = Ok cm"
      "keptOrSeeded ''instance.yaml'' (rm_readFile d (rm_getenv d ''INSTANCE_FILE'')) old (entries (cm_Data cm))"
    using run file_seed.seeded_once [OF docs own _ emptyMap_simps(1)]
    by (auto simp: ReconcileInstancesConfigMap_def upsertA_def act_Ok_iff k_def old_def emptyMap_simps(2))
  have now: "storedEntries (rm_configmaps d) (rs_world t) k = entries (cm_Data cm)"
    by (simp add: storedEntries_def cm(1))
  have "cGet (rm_configmaps d) (rs_world t) (fst k, snd k) = Ok cm"
    using cm(1) by simp
  then show ?thesis
    using cm(2) unfolding now keptOrSeeded_def ReadInstanceMapFromConfigMap_def
    by (cases "fmlookup old ''instance.yaml''") auto
qed

text \<open>The nodes after the first are not looked at.\<close>

lemma provider_of_first_node:
  assumes "rm_nodes d w = Ok (n # ns)" and "rm_nodes d' w' = Ok (n # ns')"
  shows "detectProvider d w = detectProvider d' w'"
  using assms by (simp add: detectProvider_def detectClusterProviderFromNodeLabels_def)

section \<open>Seeding at a concrete run\<close>

definition demoMaps :: "configmap list mapDeps" where
  "demoMaps =
     \<lparr>rm_configmaps = memClient cmKey (\<lambda>_ _. True), rm_nodes = \<lambda>_. Ok [], rm_setOwner = addOwner,
      rm_getenv = \<lambda>_. ''/etc/instance.yaml'',
      rm_readFile = \<lambda>f. if f = ''/etc/instance.yaml'' then Ok ''aws: {}'' else Err (Errorf ''no such file''),
      rm_yaml = \<lambda>t. if t = ''aws: {}'' then Ok (fmap_of_list [(''aws'', fmempty)]) else Err (Errorf ''yaml''),
      rm_json = \<lambda>_. Err (Errorf ''json'')\<rparr>"

theorem instances_read_back_witness:
  "let (r, t) = ReconcileInstancesConfigMap demoMaps
       \<lparr>rs_world = [], rs_events = [], rs_cr = zeroAIPlatform\<lparr>p_Meta := newMeta ''p'' ''ns''\<rparr>\<rparr>
   in r = Ok () \<and> ReadInstanceMapFromConfigMap demoMaps (rs_world t) ''p-instances'' ''ns'' =
        Ok (fmap_of_list [(''aws'', fmempty)])"
proof -
  let ?S = "\<lparr>rs_world = [], rs_events = [], rs_cr = zeroAIPlatform\<lparr>p_Meta := newMeta ''p'' ''ns''\<rparr>\<rparr>"
  have docs: "clientDocs cmKey cm_Data (rm_configmaps demoMaps)" "setOwnerDocs (rm_setOwner demoMaps)"
    by (simp_all add: demoMaps_def memClient_docs addOwner_docs)
  have maps: "rm_configmaps demoMaps = memClient cmKey (\<lambda>_ _. True)"
    by (simp add: demoMaps_def)
  obtain x where "seedFile demoMaps (p_Meta (rs_cr ?S)) ''instance.yaml'' (rm_getenv demoMaps ''INSTANCE_FILE'')
      (emptyMap (rs_cr ?S) ''-instances'') = Ok x"
    by (simp add: seedFile_def demoMaps_def addOwner_def emptyMap_def Let_def)
  then have "\<exists>t. ReconcileInstancesConfigMap demoMaps ?S = (Ok (), t)"
    by (simp add: ReconcileInstancesConfigMap_def maps memClient_def memGet_def memCreate_def upsertA_def dropA_def act_defs)
  then obtain t where run: "ReconcileInstancesConfigMap demoMaps ?S = (Ok (), t)"
    by blast
  have old: "storedEntries (rm_configmaps demoMaps) (rs_world ?S) k = fmempty" for k
    by (simp add: storedEntries_def maps memClient_def memGet_def)
  show ?thesis
    using instances_read_back [OF docs run, THEN conjunct1] unfolding run old
    by (auto simp: demoMaps_def split: if_splits)
qed

end
