(* ===== verification/Probes.thy ===== *)
theory Probes
  imports Urls
begin

text \<open>
  The two HTTP probes of \<open>pkg/ai/features/common/utils.go\<close>: how an endpoint is completed to the URL
  that is asked, and what an answer means. Building a request from a URL and sending it are
  parameters; \<open>net/url\<close> is that of \<open>GoStd\<close>, which keeps neither the user
  information nor the fragment of a URL.
\<close>

section \<open>Probing\<close>

record response =
  rp_StatusCode :: int
  rp_Status :: string

text \<open>A request is sent with a time-out in seconds, zero for the default client's none.\<close>

record 'q http =
  ht_newRequest :: "url \<Rightarrow> 'q res"
  ht_do :: "nat \<Rightarrow> 'q \<Rightarrow> response res"
  ht_parseErr :: "string \<Rightarrow> gerr"

definition parseURL :: "'q http \<Rightarrow> string \<Rightarrow> url res" where
  "parseURL h s = (case urlParse s of Some u \<Rightarrow> Ok u | None \<Rightarrow> Err (ht_parseErr h s))"

definition joinHostPort :: "string \<Rightarrow> string \<Rightarrow> string" where
  "joinHostPort host port =
     (if contains host '':'' then ''['' @ host @ '']:'' @ port else host @ '':'' @ port)"

definition withScheme :: "url \<Rightarrow> url" where
  "withScheme u = (if u_Scheme u = [] then u\<lparr>u_Scheme := ''http''\<rparr> else u)"

definition rayHeadURL :: "url \<Rightarrow> url" where
  "rayHeadURL u =
     (let u = withScheme u;
          (host, u) = (if u_Host u = [] then (u_Path u, u\<lparr>u_Path := []\<rparr>) else (u_Host u, u));
          host = (if splitHostPort host = None then joinHostPort host ''8265'' else host)
      in u\<lparr>u_Host := host\<rparr>)"

definition CheckRayHeadService :: "'q http \<Rightarrow> string \<Rightarrow> unit res" where
  "CheckRayHeadService h endpoint =
     bindR (mapErr (Wrapf ''invalid endpoint: '') (parseURL h endpoint)) (\<lambda>u.
     bindR (mapErr (Wrapf ''build request: '') (ht_newRequest h (rayHeadURL u))) (\<lambda>req.
     bindR (mapErr (Wrapf ''failed to reach Ray head endpoint: '') (ht_do h 0 req)) (\<lambda>resp.
       if rp_StatusCode resp \<noteq> 200 then Err (Errorf (''ray head returned '' @ rp_Status resp)) else Ok ())))"

definition weaviateURL :: "url \<Rightarrow> url" where
  "weaviateURL u =
     (let u = withScheme u;
          u = (if u_Host u = [] then u\<lparr>u_Host := u_Path u, u_Path := []\<rparr> else u)
      in u\<lparr>u_Path := pathJoin [''/'', u_Path u, ''/v1/.well-known/ready'']\<rparr>)"

definition CheckWeaviateService :: "'q http \<Rightarrow> string \<Rightarrow> unit res" where
  "CheckWeaviateService h endpoint =
     bindR (mapErr (Wrapf ''invalid weaviate URL: '') (parseURL h endpoint)) (\<lambda>u.
     bindR (mapErr (Wrapf ''build request: '') (ht_newRequest h (weaviateURL u))) (\<lambda>req.
     bindR (mapErr (Wrapf ''failed to reach Weaviate endpoint: '') (ht_do h 5 req)) (\<lambda>resp.
       if rp_StatusCode resp \<noteq> 200
       then Err (Errorf (''weaviate not ready, returned status='' @ itoa (rp_StatusCode resp))) else Ok ())))"

text \<open>The transport of \<open>net/http\<close> knows two schemes and refuses a request with any other.\<close>

definition httpDocs :: "'q http \<Rightarrow> bool" where
  "httpDocs h \<longleftrightarrow> (\<forall>u q. ht_newRequest h u = Ok q \<and> u_Scheme u \<notin> {''http'', ''https''} \<longrightarrow>
     (\<forall>n. \<exists>e. ht_do h n q = Err e))"

section \<open>Addresses without a scheme\<close>

text \<open>The characters of host names and ports.\<close>

definition hostNameC :: "char \<Rightarrow> bool" where
  "hostNameC c = (isUpperC c \<or> isLowerC c \<or> isDigitC c \<or> c \<in> set ''-.'')"

lemma hostNameC_chars:
  "\<not> hostNameC (CHR '':'')" "\<not> hostNameC (CHR ''/'')" "\<not> hostNameC (CHR ''@'')" "\<not> hostNameC (CHR ''['')"
  "\<not> hostNameC (CHR '']'')" "\<not> isDigitC (CHR ''/'')" "\<not> isDigitC (CHR ''?'')" "\<not> isDigitC (CHR '':'')"
  "\<not> isUpperC (CHR '':'')" "\<not> isLowerC (CHR '':'')"
  by code_simp+

lemma host_absent: "list_all hostNameC h \<Longrightarrow> \<not> hostNameC c \<Longrightarrow> c \<notin> set h"
  "list_all isDigitC p \<Longrightarrow> \<not> isDigitC c \<Longrightarrow> c \<notin> set p"
  by (auto simp: list_all_iff)

lemma digit_host: "isDigitC c \<Longrightarrow> hostNameC c"
  by (simp add: hostNameC_def)

lemma host_plain: "hostNameC c \<Longrightarrow> plainC c"
  by (auto simp: hostNameC_def plainC_def isUpperC_def isLowerC_def isDigitC_def)

lemma schemeAt_host:
  assumes "list_all hostNameC h"
  shows "schemeAt False (h @ CHR '':'' # p) = Some (Some (length h))"
  using assms by (induction h) (auto simp: hostNameC_def hostNameC_chars)

lemma schemeAt_start:
  assumes "list_all hostNameC h"
  shows "schemeAt True (h @ CHR '':'' # p) =
    (if h = [] then None else if isUpperC (hd h) \<or> isLowerC (hd h) then Some (Some (length h)) else Some None)"
  using assms by (cases h) (auto simp: hostNameC_def hostNameC_chars schemeAt_host)

lemma contains_mid: "contains (s @ [c] @ t) [c]"
  unfolding contains_def by (induction s) (auto simp: hasPrefix_def)

lemma contains_absent: "c \<notin> set xs \<Longrightarrow> \<not> contains xs [c]"
  unfolding contains_def by (induction xs) (auto simp: hasPrefix_def)

text \<open>A host and a port are read as a scheme and an opaque rest, or not at all.\<close>

lemma bare_parse:
  assumes h: "list_all hostNameC host" and p: "list_all isDigitC port"
  shows "urlParse (host @ '':'' @ port) =
    (if host \<noteq> [] \<and> (isUpperC (hd host) \<or> isLowerC (hd host))
     then Some \<lparr>u_Scheme = toLower host, u_Opaque = port, u_Host = [], u_Path = [], u_RawQuery = []\<rparr>
     else None)"
proof -
  let ?s = "host @ '':'' @ port"
  have all: "list_all plainC ?s"
    using h p by (auto simp: list_all_iff host_plain digit_host) (simp add: plainC_def)
  note no = plain_chars(1,2) [OF all] and ctl = plain_chars(3) [OF all]
  have query: "splitQuery port = (port, [])"
    using host_absent(2) [OF p hostNameC_chars(7)] by (auto simp: splitQuery_def cutC_absent dest: hasSuffix_last)
  have slash: "\<not> hasPrefix port ''/''" "\<not> hasPrefix ?s ''/''"
    using host_absent(2) [OF p hostNameC_chars(6)] host_absent(1) [OF h hostNameC_chars(2)]
    by (cases port; cases host; auto simp: hasPrefix_def)+
  have "CHR ''/'' \<notin> set ?s"
    using host_absent(2) [OF p hostNameC_chars(6)] host_absent(1) [OF h hostNameC_chars(2)] by auto
  then have first: "fst (cutC (CHR ''/'') ?s) = ?s"
    by (simp add: cutC_absent)
  have colon: "contains (host @ [CHR '':''] @ port) [CHR '':'']"
    by (rule contains_mid)
  have star: "?s \<noteq> ''*''"
    by (cases host) auto
  have query': "splitQuery ?s = (?s, [])"
    using no(2) by (auto simp: splitQuery_def cutC_absent dest: hasSuffix_last)
  have "parseNoFragment ?s = (if host \<noteq> [] \<and> (isUpperC (hd host) \<or> isLowerC (hd host))
     then Some \<lparr>u_Scheme = toLower host, u_Opaque = port, u_Host = [], u_Path = [], u_RawQuery = []\<rparr>
     else None)"
    using schemeAt_start [OF h, of port] ctl star slash query query' first colon
    by (auto simp: parseNoFragment_def getScheme_def toLower_def)
  then show ?thesis
    using no(1) by (simp add: urlParse_def cutC_absent)
qed

text \<open>
  An address without a scheme is never probed with success, whatever answers there: the host
  name is taken for the scheme of the URL, or the URL does not parse. The comments of both probes
  promise that such addresses are accepted.
\<close>

theorem bare_address_fails:
  assumes docs: "httpDocs h" and host: "list_all hostNameC host" "toLower host \<notin> {''http'', ''https''}"
    and port: "list_all isDigitC port"
  shows "CheckRayHeadService h (host @ '':'' @ port) \<noteq> Ok () \<and>
    CheckWeaviateService h (host @ '':'' @ port) \<noteq> Ok ()"
proof -
  have refused: "\<not> (ht_newRequest h u = Ok q \<and> ht_do h n q = Ok r)"
    if "u_Scheme u = toLower host" for u q n r
    using docs host(2) that unfolding httpDocs_def by (metis res.distinct(1))
  have "u_Scheme u = toLower host \<and> u_Scheme u \<noteq> []" if "parseURL h (host @ '':'' @ port) = Ok u" for u
    using that unfolding parseURL_def bare_parse [OF host(1) port] by (auto split: if_splits simp: toLower_def)
  then have "u_Scheme (rayHeadURL u) = toLower host" "u_Scheme (weaviateURL u) = toLower host"
    if "parseURL h (host @ '':'' @ port) = Ok u" for u
    using that by (auto simp: rayHeadURL_def weaviateURL_def withScheme_def Let_def split: prod.splits if_splits)
  then show ?thesis
    using refused unfolding CheckRayHeadService_def CheckWeaviateService_def
    by (auto simp: bindR_Ok_iff split: if_splits)
qed

section \<open>Endpoints with a scheme\<close>

definition portText :: "string option \<Rightarrow> string" where
  "portText port = (case port of None \<Rightarrow> [] | Some p \<Rightarrow> '':'' @ p)"

lemma lastIndexC_mid: "c \<notin> set t \<Longrightarrow> lastIndexC (s @ c # t) c = Some (length s)"
  by (induction s) (auto simp: lastIndexC_absent)

lemma unescape_host: "list_all hostNameC s \<Longrightarrow> unescape EncodeHost s = Some s"
  "list_all isDigitC p \<Longrightarrow> list_all hostNameC s \<Longrightarrow> unescape EncodeHost (s @ CHR '':'' # p) = Some (s @ CHR '':'' # p)"
proof -
  have ok: "hostNameC c \<Longrightarrow> c \<noteq> CHR ''%'' \<and> hostOkC c" for c
    by (auto simp: hostNameC_def hostOkC_def isUpperC_def isLowerC_def isDigitC_def)
  show plain: "list_all hostNameC s \<Longrightarrow> unescape EncodeHost s = Some s" for s
    using ok by (induction s) auto
  have "hostOkC (CHR '':'')"
    by code_simp
  moreover assume "list_all isDigitC p"
  then have "list_all hostNameC p"
    by (auto simp: list_all_iff digit_host)
  ultimately show "list_all hostNameC s \<Longrightarrow> unescape EncodeHost (s @ CHR '':'' # p) = Some (s @ CHR '':'' # p)"
    using ok plain by (induction s) auto
qed

lemma parseAuthority_host:
  assumes h: "list_all hostNameC host" "host \<noteq> []" and p: "pred_option (list_all isDigitC) port"
  shows "parseAuthority (host @ portText port) = Some (host @ portText port)"
proof -
  have at: "CHR ''@'' \<notin> set (host @ portText port)"
    using host_absent(1) [OF h(1) hostNameC_chars(3)] p digit_host hostNameC_chars(3)
    by (cases port) (auto simp: portText_def list_all_iff)
  have open_: "\<not> hasPrefix (host @ s) ''[''" for s
    using h hostNameC_chars(4) by (cases host) (auto simp: hasPrefix_def)
  show ?thesis
  proof (cases port)
    case None
    then show ?thesis
      using at open_ [of "[]"] h host_absent(1) [OF h(1) hostNameC_chars(1)]
      by (simp add: parseAuthority_def parseHost_def portText_def lastIndexC_absent unescape_host(1))
  next
    case (Some q)
    then show ?thesis
      using at open_ h p host_absent(2) [of q "CHR '':''"] hostNameC_chars(8)
      by (simp add: parseAuthority_def parseHost_def portText_def lastIndexC_absent lastIndexC_mid unescape_host(2)
          validOptionalPort_def hasPrefix_def)
  qed
qed

lemma endpoint_parse:
  assumes "scheme \<in> {''http'', ''https''}" and "list_all hostNameC host" "host \<noteq> []"
    and "pred_option (list_all isDigitC) port" and "plainPath p"
  shows "urlParse (scheme @ ''://'' @ (host @ portText port) @ p) =
    Some \<lparr>u_Scheme = scheme, u_Opaque = [], u_Host = host @ portText port, u_Path = p, u_RawQuery = []\<rparr>"
proof (rule urlParse_authority [OF _ _ _ parseAuthority_host [OF assms(2-4)] _ _ assms(5)])
  show "list_all schemeC scheme" "scheme \<noteq> []" "isLowerC (hd scheme)"
    using assms(1) by (auto simp: schemeC_def isLowerC_def)
  have "plainC (CHR '':'')"
    by code_simp
  then show "list_all plainC (host @ portText port)"
    using assms(2,4) host_plain digit_host by (cases port) (auto simp: portText_def list_all_iff)
  show "CHR ''/'' \<notin> set (host @ portText port)"
    using host_absent(1) [OF assms(2) hostNameC_chars(2)] assms(4) hostNameC_chars(6)
    by (cases port) (auto simp: portText_def list_all_iff)
qed

lemma splitHostPort_host:
  assumes h: "list_all hostNameC host" "host \<noteq> []" and p: "pred_option (list_all isDigitC) port"
  shows "splitHostPort (host @ portText port) = map_option (Pair host) port"
proof -
  have open_: "\<not> hasPrefix (host @ s) ''[''" for s
    using h hostNameC_chars(4) by (cases host) (auto simp: hasPrefix_def)
  note no = host_absent(1) [OF h(1) hostNameC_chars(1)] host_absent(1) [OF h(1) hostNameC_chars(4)]
    host_absent(1) [OF h(1) hostNameC_chars(5)]
  show ?thesis
  proof (cases port)
    case None
    then show ?thesis
      using no by (simp add: splitHostPort_def portText_def lastIndexC_absent)
  next
    case (Some q)
    then have q: "CHR '':'' \<notin> set q" "CHR ''['' \<notin> set q" "CHR '']'' \<notin> set q"
      using p digit_host hostNameC_chars by (auto simp: list_all_iff)
    then have "\<not> contains (host @ CHR '':'' # q) ''[''" "\<not> contains (host @ CHR '':'' # q) '']''"
      using no by (intro contains_absent; simp)+
    then show ?thesis
      using Some no q open_ contains_absent [of "CHR '':''" host]
      by (simp add: splitHostPort_def portText_def lastIndexC_mid)
  qed
qed

text \<open>
  For an endpoint with a scheme, a host name, at most a port and a path, the Ray probe asks that
  very URL, with port 8265 when none is given, and the Weaviate probe the readiness path below it, on
  the port given or the scheme's own; each succeeds exactly when the answer has status 200.
\<close>

theorem endpoint_probed:
  assumes "scheme \<in> {''http'', ''https''}" and "list_all hostNameC host" "host \<noteq> []"
    and "pred_option (list_all isDigitC) port" and "plainPath p"
  defines "endpoint \<equiv> scheme @ ''://'' @ (host @ portText port) @ p"
  defines "url \<equiv> (\<lambda>a q. \<lparr>u_Scheme = scheme, u_Opaque = [], u_Host = a, u_Path = q, u_RawQuery = []\<rparr>)"
  shows "(CheckRayHeadService h endpoint = Ok () \<longleftrightarrow>
      (\<exists>q r. ht_newRequest h (url (host @ '':'' @ (case port of None \<Rightarrow> ''8265'' | Some n \<Rightarrow> n)) p) = Ok q \<and>
         ht_do h 0 q = Ok r \<and> rp_StatusCode r = 200)) \<and>
    (CheckWeaviateService h endpoint = Ok () \<longleftrightarrow>
      (\<exists>q r. ht_newRequest h (url (host @ portText port) (pathJoin [''/'', p, ''/v1/.well-known/ready''])) = Ok q \<and>
         ht_do h 5 q = Ok r \<and> rp_StatusCode r = 200))"
proof -
  have parsed: "parseURL h endpoint = Ok (url (host @ portText port) p)"
    unfolding parseURL_def endpoint_def url_def using endpoint_parse [OF assms(1-5)] by simp
  have scheme: "scheme \<noteq> []"
    using assms(1) by auto
  have noColon: "\<not> contains host '':''"
    using contains_absent [OF host_absent(1) [OF assms(2) hostNameC_chars(1)]] .
  have ray: "rayHeadURL (url (host @ portText port) p) =
      url (host @ '':'' @ (case port of None \<Rightarrow> ''8265'' | Some n \<Rightarrow> n)) p"
    using splitHostPort_host [OF assms(2-4)] assms(3) noColon scheme
    by (cases port) (simp_all add: rayHeadURL_def withScheme_def url_def portText_def joinHostPort_def)
  have weaviate: "weaviateURL (url (host @ portText port) p) =
      url (host @ portText port) (pathJoin [''/'', p, ''/v1/.well-known/ready''])"
    using assms(3) scheme by (simp add: weaviateURL_def withScheme_def url_def)
  show ?thesis
    by (auto simp: CheckRayHeadService_def CheckWeaviateService_def parsed ray weaviate bindR_Ok_iff split: if_splits)
qed

section \<open>The probes at concrete endpoints\<close>

text \<open>A transport on which every HTTP endpoint is healthy.\<close>

definition healthy :: "url http" where
  "healthy =
     \<lparr>ht_newRequest = Ok,
      ht_do = \<lambda>_ u. if u_Scheme u \<in> {''http'', ''https''}
        then Ok \<lparr>rp_StatusCode = 200, rp_Status = ''200 OK''\<rparr> else Err (Errorf ''unsupported protocol scheme''),
      ht_parseErr = \<lambda>_. Errorf ''parse''\<rparr>"

lemma healthy_docs: "httpDocs healthy"
  by (simp add: httpDocs_def healthy_def)

theorem bare_address_fails_witness:
  "CheckRayHeadService healthy ''localhost:8265'' \<noteq> Ok () \<and> CheckWeaviateService healthy ''localhost:8265'' \<noteq> Ok ()"
proof -
  have "list_all hostNameC ''localhost''" "toLower ''localhost'' \<notin> {''http'', ''https''}" "list_all isDigitC ''8265''"
    by code_simp+
  then show ?thesis
    using bare_address_fails [OF healthy_docs, of "''localhost''" "''8265''"] by simp
qed

theorem endpoint_probed_witness:
  "CheckRayHeadService healthy ''http://ray-head/api'' = Ok () \<and> CheckWeaviateService healthy ''http://ray-head/api'' = Ok ()"
proof -
  have "''http'' \<in> {''http'', ''https''}" "list_all hostNameC ''ray-head''" "''ray-head'' \<noteq> []"
    by code_simp+
  moreover have "pred_option (list_all isDigitC) None" "plainPath ''/api''"
    by (simp_all add: plainPath_def plainC_def)
  ultimately show ?thesis
    using endpoint_probed [of "''http''" "''ray-head''" None "''/api''" healthy]
    by (simp add: healthy_def portText_def)
qed

end
