(* ===== verification/Telemetry.thy ===== *)
theory Telemetry
  imports Prelude "HOL-Library.Log_Nat"
begin

text \<open>
  The metrics of the operator (\<open>internal/telemetry/metrics.go\<close>, \<open>scope.go\<close>): the collectors with
  the labels that each declares, and the helpers that the controllers call, each of which picks the
  series of a collector by labels and updates it. The Prometheus client is a parameter; durations
  are passed as measured.
\<close>

section \<open>Collectors\<close>

datatype metric_kind = Histogram | Counter | Gauge

record collector =
  co_Kind :: metric_kind
  co_Name :: string
  co_Labels :: "string list"

definition reconcileDuration :: collector where
  "reconcileDuration = \<lparr>co_Kind = Histogram, co_Name = ''splunk_ai_assistant_reconcile_duration_seconds'',
     co_Labels = [''kind'', ''stage'']\<rparr>"

definition reconcileTotal :: collector where
  "reconcileTotal = \<lparr>co_Kind = Counter, co_Name = ''splunk_ai_assistant_reconcile_total'',
     co_Labels = [''kind'', ''result'']\<rparr>"

definition reconcileErrors :: collector where
  "reconcileErrors = \<lparr>co_Kind = Counter, co_Name = ''splunk_ai_assistant_reconcile_errors_total'',
     co_Labels = [''kind'', ''error_type'']\<rparr>"

definition observedGeneration :: collector where
  "observedGeneration = \<lparr>co_Kind = Gauge, co_Name = ''splunk_ai_assistant_observed_generation'',
     co_Labels = [''namespace'', ''name'', ''kind'']\<rparr>"

definition conditionStatus :: collector where
  "conditionStatus = \<lparr>co_Kind = Gauge, co_Name = ''splunk_ai_assistant_condition_status'',
     co_Labels = [''namespace'', ''name'', ''kind'', ''condition'', ''status'']\<rparr>"

definition desiredReplicas :: collector where
  "desiredReplicas = \<lparr>co_Kind = Gauge, co_Name = ''splunk_ai_assistant_spec_desired_replicas'',
     co_Labels = [''namespace'', ''name'', ''kind'', ''feature'']\<rparr>"

definition readyReplicas :: collector where
  "readyReplicas = \<lparr>co_Kind = Gauge, co_Name = ''splunk_ai_assistant_status_ready_replicas'',
     co_Labels = [''namespace'', ''name'', ''kind'', ''feature'']\<rparr>"

definition apiRequests :: collector where
  "apiRequests = \<lparr>co_Kind = Counter, co_Name = ''splunk_ai_assistant_api_requests_total'',
     co_Labels = [''namespace'', ''name'', ''kind'', ''feature'', ''module'', ''api'', ''outcome'']\<rparr>"

definition apiLatency :: collector where
  "apiLatency = \<lparr>co_Kind = Histogram, co_Name = ''splunk_ai_assistant_api_latency_seconds'',
     co_Labels = [''namespace'', ''name'', ''kind'', ''feature'', ''module'', ''api'']\<rparr>"

definition resourceGauge :: collector where
  "resourceGauge = \<lparr>co_Kind = Gauge, co_Name = ''splunk_ai_assistant_resources'',
     co_Labels = [''kind'', ''feature'', ''phase'']\<rparr>"

definition registered :: "collector list" where
  "registered = [reconcileDuration, reconcileTotal, reconcileErrors, observedGeneration, conditionStatus,
     desiredReplicas, readyReplicas, apiRequests, apiLatency, resourceGauge]"

lemmas collector_defs = reconcileDuration_def reconcileTotal_def reconcileErrors_def observedGeneration_def
  conditionStatus_def desiredReplicas_def readyReplicas_def apiRequests_def apiLatency_def resourceGauge_def

section \<open>The client\<close>

text \<open>
  An update of the series that \<open>With\<close> selects. A duration is a number of nanoseconds; a gauge holds
  an integer, as \<open>float64\<close> rounds it.
\<close>

datatype sample = Observed int | Added | Level int

record 'w metrics =
  mx_with :: "collector \<Rightarrow> (string, string) fmap \<Rightarrow> sample \<Rightarrow> 'w \<Rightarrow> 'w res"
  mx_level :: "'w \<Rightarrow> collector \<Rightarrow> (string, string) fmap \<Rightarrow> int option"

text \<open>
  By its documentation \<open>With\<close> panics unless the labels are those that the collector declares;
  setting a gauge sets the series with these labels and no other.
\<close>

definition metricsDocs :: "'w metrics \<Rightarrow> bool" where
  "metricsDocs mx \<longleftrightarrow>
     (\<forall>c ls x w. if fset (fmdom ls) = set (co_Labels c)
        then \<exists>w'. mx_with mx c ls x w = Ok w' \<and>
          (\<forall>c' ls'. mx_level mx w' c' ls' =
             (if c' = c \<and> ls' = ls then (case x of Level v \<Rightarrow> Some v | _ \<Rightarrow> mx_level mx w c ls)
              else mx_level mx w c' ls'))
        else \<exists>p. mx_with mx c ls x w = Panic p)"

text \<open>The integer that is nearest among those of 53 significant bits, ties to even.\<close>

definition float64 :: "int \<Rightarrow> int" where
  "float64 n =
     (let e = nat (bitlen \<bar>n\<bar>) - 53; q = \<bar>n\<bar> div 2 ^ e; r = \<bar>n\<bar> mod 2 ^ e; h = 2 ^ (e - 1);
          q' = (if e \<noteq> 0 \<and> (h < r \<or> (r = h \<and> odd q)) then q + 1 else q)
      in sgn n * q' * 2 ^ e)"

section \<open>Scopes\<close>

record Scope =
  sp_Namespace :: string
  sp_Name :: string
  sp_Kind :: string
  sp_Feature :: string

text \<open>Of a context only the scope it carries matters.\<close>

type_synonym scope_ctx = "Scope option"

definition WithScope :: "scope_ctx \<Rightarrow> Scope \<Rightarrow> scope_ctx" where
  "WithScope ctx s = Some s"

definition FromContext :: "scope_ctx \<Rightarrow> Scope \<times> bool" where
  "FromContext ctx =
     (case ctx of
        Some s \<Rightarrow> (s, True)
      | None \<Rightarrow> (\<lparr>sp_Namespace = '''', sp_Name = '''', sp_Kind = '''', sp_Feature = ''''\<rparr>, False))"

definition ScopeFrom :: "scope_ctx \<Rightarrow> Scope" where
  "ScopeFrom ctx =
     (case FromContext ctx of (s, ok) \<Rightarrow>
        if ok then s else \<lparr>sp_Namespace = '''', sp_Name = '''', sp_Kind = '''', sp_Feature = ''''\<rparr>)"

section \<open>Helpers\<close>

abbreviation labels :: "(string \<times> string) list \<Rightarrow> (string, string) fmap" where
  "labels \<equiv> fmap_of_list"

definition ObserveReconcileStageS :: "'w metrics \<Rightarrow> Scope \<Rightarrow> string \<Rightarrow> int \<Rightarrow> 'w \<Rightarrow> 'w res" where
  "ObserveReconcileStageS mx s stage elapsed =
     mx_with mx reconcileDuration (labels [(''kind'', sp_Kind s), (''stage'', stage)]) (Observed elapsed)"

definition ObserveReconcileResultS :: "'w metrics \<Rightarrow> Scope \<Rightarrow> string \<Rightarrow> 'w \<Rightarrow> 'w res" where
  "ObserveReconcileResultS mx s result =
     mx_with mx reconcileTotal (labels [(''kind'', sp_Kind s), (''result'', result)]) Added"

definition ObserveReconcileErrorS :: "'w metrics \<Rightarrow> Scope \<Rightarrow> string \<Rightarrow> 'w \<Rightarrow> 'w res" where
  "ObserveReconcileErrorS mx s errorType =
     (let errorType = (if errorType = [] then ''unknown'' else errorType)
      in mx_with mx reconcileErrors (labels [(''kind'', sp_Kind s), (''error_type'', errorType)]) Added)"

definition SetObservedGenerationS :: "'w metrics \<Rightarrow> Scope \<Rightarrow> int64 \<Rightarrow> 'w \<Rightarrow> 'w res" where
  "SetObservedGenerationS mx s gen =
     mx_with mx observedGeneration
       (labels [(''namespace'', sp_Namespace s), (''name'', sp_Name s), (''kind'', sp_Kind s)])
       (Level (float64 (sint gen)))"

definition SetConditionS :: "'w metrics \<Rightarrow> Scope \<Rightarrow> string \<Rightarrow> string \<Rightarrow> 'w \<Rightarrow> 'w res" where
  "SetConditionS mx s condType status =
     (let (v, status) =
            (if status = ''True'' then (1, status)
             else if status = ''False'' \<or> status = ''Unknown'' then (0, status)
             else (0, ''Unknown''))
      in mx_with mx conditionStatus
           (labels [(''namespace'', sp_Namespace s), (''name'', sp_Name s), (''kind'', sp_Kind s),
                    (''condition'', condType), (''status'', status)])
           (Level v))"

definition featureLabel :: "string \<Rightarrow> string" where
  "featureLabel feat = (if feat = [] then ''platform'' else feat)"

definition replicaLabels :: "Scope \<Rightarrow> (string, string) fmap" where
  "replicaLabels s =
     labels [(''namespace'', sp_Namespace s), (''name'', sp_Name s), (''kind'', sp_Kind s),
             (''feature'', featureLabel (sp_Feature s))]"

definition SetDesiredReplicasS :: "'w metrics \<Rightarrow> Scope \<Rightarrow> int32 \<Rightarrow> 'w \<Rightarrow> 'w res" where
  "SetDesiredReplicasS mx s desired = mx_with mx desiredReplicas (replicaLabels s) (Level (sint desired))"

definition SetReadyReplicasS :: "'w metrics \<Rightarrow> Scope \<Rightarrow> int32 \<Rightarrow> 'w \<Rightarrow> 'w res" where
  "SetReadyReplicasS mx s ready = mx_with mx readyReplicas (replicaLabels s) (Level (sint ready))"

definition IncAPIRequestS :: "'w metrics \<Rightarrow> Scope \<Rightarrow> string \<Rightarrow> string \<Rightarrow> string \<Rightarrow> 'w \<Rightarrow> 'w res" where
  "IncAPIRequestS mx s modul api outcome =
     (let outcome = (if outcome = [] then ''ok'' else outcome)
      in mx_with mx apiRequests
           (labels [(''namespace'', sp_Namespace s), (''name'', sp_Name s), (''kind'', sp_Kind s),
                    (''feature'', featureLabel (sp_Feature s)), (''module'', modul), (''api'', api),
                    (''outcome'', outcome)])
           Added)"

definition ObserveAPILatencyS :: "'w metrics \<Rightarrow> Scope \<Rightarrow> string \<Rightarrow> string \<Rightarrow> int \<Rightarrow> 'w \<Rightarrow> 'w res" where
  "ObserveAPILatencyS mx s modul api elapsed =
     mx_with mx apiLatency
       (labels [(''namespace'', sp_Namespace s), (''name'', sp_Name s), (''kind'', sp_Kind s),
                (''feature'', featureLabel (sp_Feature s)), (''module'', modul), (''api'', api)])
       (Observed elapsed)"

definition SetResourceCount :: "'w metrics \<Rightarrow> string \<Rightarrow> string \<Rightarrow> string \<Rightarrow> int64 \<Rightarrow> 'w \<Rightarrow> 'w res" where
  "SetResourceCount mx kind feature phase n =
     mx_with mx resourceGauge
       (labels [(''kind'', kind), (''feature'', featureLabel feature), (''phase'', phase)])
       (Level (float64 (sint n)))"


text \<open>The wrappers take the scope from the context; without one every label of it is empty.\<close>

definition ObserveReconcileStage :: "'w metrics \<Rightarrow> scope_ctx \<Rightarrow> string \<Rightarrow> int \<Rightarrow> 'w \<Rightarrow> 'w res" where
  "ObserveReconcileStage mx ctx = ObserveReconcileStageS mx (ScopeFrom ctx)"

definition ObserveReconcileResult :: "'w metrics \<Rightarrow> scope_ctx \<Rightarrow> string \<Rightarrow> 'w \<Rightarrow> 'w res" where
  "ObserveReconcileResult mx ctx = ObserveReconcileResultS mx (ScopeFrom ctx)"

definition ObserveReconcileError :: "'w metrics \<Rightarrow> scope_ctx \<Rightarrow> string \<Rightarrow> 'w \<Rightarrow> 'w res" where
  "ObserveReconcileError mx ctx = ObserveReconcileErrorS mx (ScopeFrom ctx)"

definition SetObservedGeneration :: "'w metrics \<Rightarrow> scope_ctx \<Rightarrow> int64 \<Rightarrow> 'w \<Rightarrow> 'w res" where
  "SetObservedGeneration mx ctx = SetObservedGenerationS mx (ScopeFrom ctx)"

definition SetCondition :: "'w metrics \<Rightarrow> scope_ctx \<Rightarrow> string \<Rightarrow> string \<Rightarrow> 'w \<Rightarrow> 'w res" where
  "SetCondition mx ctx = SetConditionS mx (ScopeFrom ctx)"

definition SetDesiredReplicas :: "'w metrics \<Rightarrow> scope_ctx \<Rightarrow> int32 \<Rightarrow> 'w \<Rightarrow> 'w res" where
  "SetDesiredReplicas mx ctx = SetDesiredReplicasS mx (ScopeFrom ctx)"

definition SetReadyReplicas :: "'w metrics \<Rightarrow> scope_ctx \<Rightarrow> int32 \<Rightarrow> 'w \<Rightarrow> 'w res" where
  "SetReadyReplicas mx ctx = SetReadyReplicasS mx (ScopeFrom ctx)"

definition IncAPIRequest :: "'w metrics \<Rightarrow> scope_ctx \<Rightarrow> string \<Rightarrow> string \<Rightarrow> string \<Rightarrow> 'w \<Rightarrow> 'w res" where
  "IncAPIRequest mx ctx = IncAPIRequestS mx (ScopeFrom ctx)"

definition ObserveAPILatency :: "'w metrics \<Rightarrow> scope_ctx \<Rightarrow> string \<Rightarrow> string \<Rightarrow> int \<Rightarrow> 'w \<Rightarrow> 'w res" where
  "ObserveAPILatency mx ctx = ObserveAPILatencyS mx (ScopeFrom ctx)"

section \<open>What the helpers do to the metrics\<close>

lemmas helper_defs =
  ObserveReconcileStageS_def ObserveReconcileResultS_def ObserveReconcileErrorS_def SetObservedGenerationS_def
  SetConditionS_def SetDesiredReplicasS_def SetReadyReplicasS_def IncAPIRequestS_def ObserveAPILatencyS_def
  SetResourceCount_def replicaLabels_def

lemma metricsDocs_with:
  assumes "metricsDocs mx" and "fset (fmdom ls) = set (co_Labels c)"
  obtains w' where "mx_with mx c ls x w = Ok w'"
    "\<And>c' ls'. mx_level mx w' c' ls' =
       (if c' = c \<and> ls' = ls then (case x of Level v \<Rightarrow> Some v | _ \<Rightarrow> mx_level mx w c ls) else mx_level mx w c' ls')"
  using assms unfolding metricsDocs_def by meson

lemma with_returns:
  "metricsDocs mx \<Longrightarrow> isOk (mx_with mx c ls x w) \<longleftrightarrow> fset (fmdom ls) = set (co_Labels c)"
  unfolding metricsDocs_def by (metis isOk.simps(1,3))

lemma helpers_ok:
  assumes "metricsDocs mx"
  shows "isOk (ObserveReconcileStageS mx s stage n w)" "isOk (ObserveReconcileResultS mx s result w)"
    "isOk (ObserveReconcileErrorS mx s err w)" "isOk (SetObservedGenerationS mx s gen w)"
    "isOk (SetConditionS mx s typ status w)" "isOk (SetDesiredReplicasS mx s m w)"
    "isOk (SetReadyReplicasS mx s m w)" "isOk (IncAPIRequestS mx s modul api outcome w)"
    "isOk (ObserveAPILatencyS mx s modul api n w)" "isOk (SetResourceCount mx kind feature phase gen w)"
  by (auto simp: helper_defs with_returns [OF assms] collector_defs Let_def)

text \<open>
  C38: no helper panics: each passes exactly the labels that its collector declares, whatever the
  scope and the arguments are.
\<close>

theorem helpers_return:
  assumes "metricsDocs mx"
  shows "isOk (ObserveReconcileStageS mx s stage n w) \<and> isOk (ObserveReconcileResultS mx s result w) \<and>
    isOk (ObserveReconcileErrorS mx s err w) \<and> isOk (SetObservedGenerationS mx s gen w) \<and>
    isOk (SetConditionS mx s typ status w) \<and> isOk (SetDesiredReplicasS mx s m w) \<and>
    isOk (SetReadyReplicasS mx s m w) \<and> isOk (IncAPIRequestS mx s modul api outcome w) \<and>
    isOk (ObserveAPILatencyS mx s modul api n w) \<and> isOk (SetResourceCount mx kind feature phase gen w)"
  by (intro conjI helpers_ok assms)

text \<open>
  The series of a condition is only ever set for the status that is reported: the series of the
  other statuses keep their level. After a condition was True and then anything else, its series
  for True still stands at one.
\<close>

theorem condition_series_stale:
  assumes docs: "metricsDocs mx" and now: "SetConditionS mx s typ status w = Ok w'"
  defines "series \<equiv> (\<lambda>st. labels [(''namespace'', sp_Namespace s), (''name'', sp_Name s), (''kind'', sp_Kind s),
    (''condition'', typ), (''status'', st)])"
  defines "shown \<equiv> (if status \<in> {''True'', ''False''} then status else ''Unknown'')"
  shows "mx_level mx w' conditionStatus (series shown) = Some (if status = ''True'' then 1 else 0) \<and>
    (\<forall>st. st \<noteq> shown \<longrightarrow> mx_level mx w' conditionStatus (series st) = mx_level mx w conditionStatus (series st))"
proof -
  define v :: int where "v = (if status = ''True'' then 1 else 0)"
  have set_: "mx_with mx conditionStatus (series shown) (Level v) w = Ok w'"
    using now by (auto simp: SetConditionS_def series_def shown_def v_def split: if_splits)
  have "fset (fmdom (series st)) = set (co_Labels conditionStatus)" for st
    by (auto simp: series_def conditionStatus_def)
  from metricsDocs_with [OF docs this [of shown], of "Level v" w] set_ have level: "mx_level mx w' c ls =
      (if c = conditionStatus \<and> ls = series shown then Some v else mx_level mx w c ls)" for c ls
    by (metis res.inject(1) sample.case(3))
  have "series st \<noteq> series shown" if "st \<noteq> shown" for st
  proof -
    have "fmlookup (series x) ''status'' = Some x" for x
      by (simp add: series_def)
    then show ?thesis using that by (metis option.inject)
  qed
  then show ?thesis
    by (simp add: level v_def)
qed


section \<open>The helpers on metrics in memory\<close>

definition memMetrics :: "(collector \<times> (string, string) fmap \<Rightarrow> int option) metrics" where
  "memMetrics =
     \<lparr>mx_with = \<lambda>c ls x w.
        (if fset (fmdom ls) = set (co_Labels c)
         then Ok (case x of Level v \<Rightarrow> w((c, ls) := Some v) | _ \<Rightarrow> w) else Panic ''inconsistent label cardinality''),
      mx_level = \<lambda>w c ls. w (c, ls)\<rparr>"

lemma memMetrics_docs: "metricsDocs memMetrics"
  by (auto simp: metricsDocs_def memMetrics_def split: sample.splits)

definition demoScope :: Scope where
  "demoScope = \<lparr>sp_Namespace = ''ns'', sp_Name = ''a'', sp_Kind = ''AIService'', sp_Feature = ''saia''\<rparr>"

theorem helpers_return_witness:
  "isOk (SetConditionS memMetrics demoScope ''Ready'' ''True'' (\<lambda>_. None))"
  using helpers_return [OF memMetrics_docs] by blast

text \<open>Ready is True and then False: both series stand, one of them at one.\<close>

theorem condition_series_stale_witness:
  "\<exists>w w'. SetConditionS memMetrics demoScope ''Ready'' ''True'' (\<lambda>_. None) = Ok w \<and>
     SetConditionS memMetrics demoScope ''Ready'' ''False'' w = Ok w' \<and>
     mx_level memMetrics w' conditionStatus (labels [(''namespace'', ''ns''), (''name'', ''a''),
       (''kind'', ''AIService''), (''condition'', ''Ready''), (''status'', ''True'')]) = Some 1"
proof -
  have ok: "\<exists>w'. SetConditionS memMetrics demoScope ''Ready'' x w = Ok w'" for x w
    using with_returns [OF memMetrics_docs, of conditionStatus]
    by (auto simp: SetConditionS_def memMetrics_def conditionStatus_def)
  obtain w where w: "SetConditionS memMetrics demoScope ''Ready'' ''True'' (\<lambda>_. None) = Ok w"
    using ok by blast
  obtain w' where w': "SetConditionS memMetrics demoScope ''Ready'' ''False'' w = Ok w'"
    using ok by blast
  show ?thesis
    using condition_series_stale [OF memMetrics_docs w, THEN conjunct1]
      condition_series_stale [OF memMetrics_docs w', THEN conjunct2] w w'
    by (auto simp: demoScope_def)
qed

end
