(* ===== verification/Metering.thy ===== *)
theory Metering
  imports Controllers SaiaCorrect RayBuilderCorrect Telemetry
begin

text \<open>
  The calls into the telemetry package that the AIService controller and the Ray builder make, in
  their order, beside what the reconcile does: a metered run yields the calls, the outcome and the
  state. Forgetting the calls gives the reconcile of \<open>Controllers\<close> and the builder of \<open>RayBuilder\<close>.
\<close>

section \<open>Calls\<close>

text \<open>One call with its scope; a duration is known to the clock only.\<close>

datatype meter =
    MStage string
  | MResult string
  | MError string
  | MGeneration int64
  | MCondition string string
  | MDesired int32
  | MReady int32
  | MRequest string string string
  | MLatency string string

type_synonym meters = "(scope_ctx \<times> meter) list"

fun meterCall :: "'m metrics \<Rightarrow> int \<Rightarrow> scope_ctx \<Rightarrow> meter \<Rightarrow> 'm \<Rightarrow> 'm res" where
  "meterCall mx el ctx (MStage st) = ObserveReconcileStage mx ctx st el"
| "meterCall mx el ctx (MResult r) = ObserveReconcileResult mx ctx r"
| "meterCall mx el ctx (MError e) = ObserveReconcileError mx ctx e"
| "meterCall mx el ctx (MGeneration g) = SetObservedGeneration mx ctx g"
| "meterCall mx el ctx (MCondition t v) = SetCondition mx ctx t v"
| "meterCall mx el ctx (MDesired n) = SetDesiredReplicas mx ctx n"
| "meterCall mx el ctx (MReady n) = SetReadyReplicas mx ctx n"
| "meterCall mx el ctx (MRequest m a out) = IncAPIRequest mx ctx m a out"
| "meterCall mx el ctx (MLatency m a) = ObserveAPILatency mx ctx m a el"

fun meterAll :: "'m metrics \<Rightarrow> (nat \<Rightarrow> int) \<Rightarrow> meters \<Rightarrow> 'm \<Rightarrow> 'm res" where
  "meterAll mx el [] w = Ok w"
| "meterAll mx el ((ctx, m) # ms) w = bindR (meterCall mx (el (length ms)) ctx m w) (meterAll mx el ms)"

section \<open>Metered actions\<close>

type_synonym ('w, 'c, 'a) metered = "('w, 'c) rstate \<Rightarrow> meters \<times> 'a res \<times> ('w, 'c) rstate"

definition runM :: "('w, 'c, 'a) act \<Rightarrow> ('w, 'c, 'a) metered" where
  "runM m s = ([], m s)"

definition markM :: "meters \<Rightarrow> ('w, 'c, 'a) metered \<Rightarrow> ('w, 'c, 'a) metered" where
  "markM ms m s = (case m s of (ms', r) \<Rightarrow> (ms @ ms', r))"

text \<open>The outcome of the first action decides; a panic ends the run.\<close>

definition caseM ::
  "('w, 'c, 'a) metered \<Rightarrow> ('a \<Rightarrow> ('w, 'c, 'b) metered) \<Rightarrow> (gerr \<Rightarrow> ('w, 'c, 'b) metered) \<Rightarrow> ('w, 'c, 'b) metered" where
  "caseM m f g s =
     (case m s of
        (ms, Ok x, t) \<Rightarrow> markM ms (f x) t
      | (ms, Err e, t) \<Rightarrow> markM ms (g e) t
      | (ms, Panic p, t) \<Rightarrow> (ms, Panic p, t))"

text \<open>A deferred call is made whatever the outcome is.\<close>

definition deferM :: "meters \<Rightarrow> ('w, 'c, 'a) metered \<Rightarrow> ('w, 'c, 'a) metered" where
  "deferM ms m s = (case m s of (ms', r) \<Rightarrow> (ms' @ ms, r))"

section \<open>The AIService controller\<close>

definition serviceScope :: "nname \<Rightarrow> string \<Rightarrow> scope_ctx" where
  "serviceScope key feature = WithScope None
     \<lparr>sp_Namespace = fst key, sp_Name = snd key, sp_Kind = ''AIService'', sp_Feature = feature\<rparr>"

text \<open>The status of the first Ready condition.\<close>

definition readyMeter :: "scope_ctx \<Rightarrow> condition list \<Rightarrow> meters" where
  "readyMeter ctx cs =
     (case find (\<lambda>c. c_Type c = ''Ready'') cs of Some c \<Rightarrow> [(ctx, MCondition ''Ready'' (c_Status c))] | None \<Rightarrow> [])"

definition meteredStatus :: "'w saiaDeps \<Rightarrow> nat \<Rightarrow> scope_ctx \<Rightarrow> ('w, AIService, unit) metered" where
  "meteredStatus d now ctx =
     caseM (runM (thenA (modCR (\<lambda>ai. ai\<lparr>s_Status := (s_Status ai)\<lparr>
         ass_ObservedGeneration := om_Generation (s_Meta ai),
         ass_Conditions := (let cs = ass_Conditions (s_Status ai)
           in if list_ex (\<lambda>c. c_Type c = ''Ready'') cs then cs
              else cs @ [mkCond now ''Ready'' ''Reconciled'' ''All resources are up-to-date'' True])\<rparr>\<rparr>)) getCR))
       (\<lambda>ai. markM ((ctx, MGeneration (ass_ObservedGeneration (s_Status ai))) #
                readyMeter ctx (ass_Conditions (s_Status ai)))
          (caseM (runM (callA (\<lambda>w. cStatusUpdate (sa_services d) w ai)))
             (\<lambda>_. markM [(ctx, MLatency ''status'' ''k8s_status_update''),
                     (ctx, MRequest ''status'' ''k8s_status_update'' ''ok'')] (runM (retA ())))
             (\<lambda>e. markM [(ctx, MLatency ''status'' ''k8s_status_update''),
                     (ctx, MRequest ''status'' ''k8s_status_update'' ''error''), (ctx, MError ''status_update'')]
                (runM (failA e)))))
       (\<lambda>e. runM (failA e))"

definition meteredDelete :: "'w saiaDeps \<Rightarrow> scope_ctx \<Rightarrow> ('w, AIService, requeue) metered" where
  "meteredDelete d ctx s =
     (if containsString (om_Finalizers (s_Meta (rs_cr s))) aiServiceFinalizer then
        caseM (runM (thenA (modCR (\<lambda>ai. ai\<lparr>s_Meta := dropFinalizer aiServiceFinalizer (s_Meta ai)\<rparr>))
                 (bindA getCR (\<lambda>ai. dropA (updateA (sa_services d) ai)))))
          (\<lambda>_. markM [(ctx, MResult ''success'')] (runM noRequeue)) (\<lambda>e. runM (failA e)) s
      else markM [(ctx, MResult ''success'')] (runM noRequeue) s)"

text \<open>The handler of the feature; the deferred call sees the scope that was set last.\<close>

definition meteredFeature ::
  "'w saiaDeps \<Rightarrow> (nat \<Rightarrow> nat) \<Rightarrow> nat \<Rightarrow> scope_ctx \<Rightarrow> string \<Rightarrow> ('w, AIService, requeue) metered" where
  "meteredFeature d clock now ctx name =
     (case FeatureFactories name of
        None \<Rightarrow> markM [(ctx, MStage ''factory_lookup''), (ctx, MError ''factory_lookup''), (ctx, MResult ''error'')]
                 (runM (retA 10))
      | Some reconcile \<Rightarrow>
          markM [(ctx, MStage ''factory_lookup''), (ctx, MStage ''handler_init'')]
            (caseM (runM (reconcile d clock))
               (\<lambda>_. markM [(ctx, MStage ''feature_reconcile'')]
                  (caseM (meteredStatus d now ctx)
                     (\<lambda>_. markM [(ctx, MResult ''success'')] (runM noRequeue))
                     (\<lambda>e. markM [(ctx, MError ''status_update'')] (runM (failA e)))))
               (\<lambda>e. markM [(ctx, MStage ''feature_reconcile''), (ctx, MError ''reconcile''), (ctx, MResult ''error'')]
                  (runM (failA e)))))"

definition meteredAIService ::
  "'w saiaDeps \<Rightarrow> (nat \<Rightarrow> nat) \<Rightarrow> nat \<Rightarrow> nname \<Rightarrow> ('w, AIService, requeue) metered" where
  "meteredAIService d clock now key s =
     (let ctx = serviceScope key ''unknown'' in
      case fetchA (sa_services d) key zeroAIService s of
        (Panic x, t) \<Rightarrow> ([(ctx, MStage ''total'')], Panic x, t)
      | (Err e, t) \<Rightarrow>
          deferM [(ctx, MStage ''total'')] (markM [(ctx, MStage ''fetch'')]
            (if isNotFound e then markM [(ctx, MResult ''success'')] (runM noRequeue)
             else markM [(ctx, MError ''get''), (ctx, MResult ''error'')] (runM (failA e)))) t
      | (Ok _, t) \<Rightarrow>
          let ai = rs_cr t; ctx' = serviceScope key (featureName ai) in
          deferM [(ctx', MStage ''total'')] (markM [(ctx, MStage ''fetch'')]
            (if om_DeletionTimestamp (s_Meta ai) \<noteq> None then meteredDelete d ctx'
             else meteredFeature d clock now ctx' (featureName ai))) t)"

section \<open>Forgetting the calls\<close>

lemma metered_erase [simp]:
  "snd (runM m s) = m s" "snd (markM ms f s) = snd (f s)" "snd (deferM ms f s) = snd (f s)"
  by (simp_all add: runM_def markM_def deferM_def split: prod.split)

lemma caseM_erase [simp]:
  "snd (caseM m f g s) = (case snd (m s) of (Ok x, t) \<Rightarrow> snd (f x t) | (Err e, t) \<Rightarrow> snd (g e t) | (Panic p, t) \<Rightarrow> (Panic p, t))"
  by (simp add: caseM_def split: prod.split res.split)

lemma meteredStatus_erase: "snd (meteredStatus d now ctx s) = reconcileStatus d now s"
  by (simp add: meteredStatus_def reconcileStatus_def dropA_def act_defs split: prod.split res.split)

lemma meteredDelete_erase: "snd (meteredDelete d ctx s) = deleteAIService d s"
  by (simp add: meteredDelete_def deleteAIService_def dropA_def noRequeue_def act_defs split: prod.split res.split)

lemma meteredAIService_erase: "snd (meteredAIService d clock now key s) = ReconcileAIService d clock now key s"
  by (auto simp: meteredAIService_def ReconcileAIService_def meteredFeature_def meteredStatus_erase
      meteredDelete_erase noRequeue_def act_defs Let_def split: prod.split res.split option.split)

section \<open>The Ray builder\<close>

definition boolToCond :: "bool \<Rightarrow> string" where
  "boolToCond b = (if b then ConditionTrue else ConditionFalse)"

definition builderMeters :: "scope_ctx \<Rightarrow> RaySnapshot \<Rightarrow> meters" where
  "builderMeters ctx sn =
     [(ctx, MCondition ''RayServiceReady'' (boolToCond (rsReady sn))),
      (ctx, MCondition ''RayClusterReady'' (boolToCond (clusterReady sn))),
      (ctx, MCondition ''RayServeRouteReady'' (boolToCond (sn_ServeServiceHasBackend sn))),
      (ctx, MDesired (sn_DesiredWorkerReplicas sn)), (ctx, MReady (sn_AvailableWorkerReplicas sn))]"

text \<open>A snapshot that fails is counted; the gauges are set at the end of a run that gets there.\<close>

definition meteredBuilder :: "'w rayDeps \<Rightarrow> scope_ctx \<Rightarrow> ('w, AIPlatform, unit) metered" where
  "meteredBuilder d ctx s =
     (case CollectRaySnapshot (rd_reads d (rs_world s)) (plNamespace (rs_cr s)) (plName (rs_cr s)) of
        Panic x \<Rightarrow> ([], Panic x, s)
      | Err e \<Rightarrow> ([(ctx, MError ''ray_snapshot'')], snapshotFailed d e s)
      | Ok sn \<Rightarrow> caseM (runM (BuilderApplyConditions d)) (\<lambda>_. markM (builderMeters ctx sn) (runM (retA ())))
                  (\<lambda>e. runM (failA e)) s)"

lemma meteredBuilder_erase: "snd (meteredBuilder d ctx s) = BuilderApplyConditions d s"
  by (auto simp: meteredBuilder_def act_defs BuilderApplyConditions_def Let_def
      split: res.split prod.split)

text \<open>
  The gauges of a run that succeeds agree with the conditions that it writes, and the cluster is
  gauged as not ready every time.
\<close>

lemma builder_gauges:
  assumes "setConditionDocs (rd_setCondition d)" and run: "meteredBuilder d ctx s = (ms, Ok (), t)"
    and "ty \<in> {''RayServiceReady'', ''RayClusterReady'', ''RayServeRouteReady''}"
  shows "(ctx, MCondition ty v) \<in> set ms \<longleftrightarrow>
      map_option c_Status (findCond ty (aps_Conditions (p_Status (rs_cr t)))) = Some v"
    and "(ctx, MCondition ''RayClusterReady'' ''False'') \<in> set ms"
proof -
  have plain: "BuilderApplyConditions d s = (Ok (), t)"
    using meteredBuilder_erase [of d ctx s] run by simp
  obtain sn where sn: "CollectRaySnapshot (rd_reads d (rs_world s)) (plNamespace (rs_cr s)) (plName (rs_cr s)) = Ok sn"
    and status: "map_option c_Status (findCond ''RayServiceReady'' (aps_Conditions (p_Status (rs_cr t)))) = Some (boolStatus (rsReady sn))"
    "map_option c_Status (findCond ''RayServeRouteReady'' (aps_Conditions (p_Status (rs_cr t)))) =
       Some (boolStatus (sn_ServeServiceHasBackend sn))"
    "map_option c_Status (findCond ''RayClusterReady'' (aps_Conditions (p_Status (rs_cr t)))) = Some (boolStatus (clusterReady sn))"
    by (rule builder_statuses [OF assms(1) plain]) (rule that)
  have ms: "ms = builderMeters ctx sn"
    using run sn plain by (simp add: meteredBuilder_def caseM_def markM_def runM_def retA_def)
  have same: "boolToCond b = boolStatus b" for b
    by (simp add: boolToCond_def boolStatus_def)
  show "(ctx, MCondition ty v) \<in> set ms \<longleftrightarrow>
      map_option c_Status (findCond ty (aps_Conditions (p_Status (rs_cr t)))) = Some v"
    using assms(3) by (elim insertE emptyE; simp only: status) (auto simp: ms builderMeters_def same)
  show "(ctx, MCondition ''RayClusterReady'' ''False'') \<in> set ms"
    using CollectRaySnapshot_head [OF sn] by (simp add: ms builderMeters_def boolToCond_def clusterReady_def)
qed

section \<open>What a reconcile counts\<close>

fun resultsOf :: "meters \<Rightarrow> string list" where
  "resultsOf [] = []"
| "resultsOf ((ctx, m) # ms) = (case m of MResult r \<Rightarrow> [r] | _ \<Rightarrow> []) @ resultsOf ms"

fun errorsOf :: "meters \<Rightarrow> string list" where
  "errorsOf [] = []"
| "errorsOf ((ctx, m) # ms) = (case m of MError e \<Rightarrow> [e] | _ \<Rightarrow> []) @ errorsOf ms"

fun stagesOf :: "meters \<Rightarrow> string list" where
  "stagesOf [] = []"
| "stagesOf ((ctx, m) # ms) = (case m of MStage st \<Rightarrow> [st] | _ \<Rightarrow> []) @ stagesOf ms"

lemma tally_append [simp]:
  "resultsOf (xs @ ys) = resultsOf xs @ resultsOf ys" "errorsOf (xs @ ys) = errorsOf xs @ errorsOf ys"
  "stagesOf (xs @ ys) = stagesOf xs @ stagesOf ys"
  by (induction xs rule: resultsOf.induct) auto

lemma readyMeter_tally [simp]:
  "resultsOf (readyMeter ctx cs) = []" "errorsOf (readyMeter ctx cs) = []" "stagesOf (readyMeter ctx cs) = []"
  by (simp_all add: readyMeter_def split: option.split)

text \<open>What an outcome has counted: its results and its errors.\<close>

definition tally :: "meters \<times> 'a res \<times> ('w, 'c) rstate \<Rightarrow> 'a res \<times> string list \<times> string list" where
  "tally x = (fst (snd x), resultsOf (fst x), errorsOf (fst x))"

lemma runM_tally: "runM m s = ([], m s)"
  by (simp add: runM_def)

lemma markM_pair: "m s = (ms', r, t) \<Longrightarrow> markM ms m s = (ms @ ms', r, t)"
  by (simp add: markM_def)

lemma meteredStatus_tally:
  "tally (meteredStatus d now ctx s) \<in>
     {(Ok (), [], [])} \<union> {(Err e, [], [''status_update'']) | e. True} \<union> {(Panic p, [], []) | p. True} \<and>
   stagesOf (fst (meteredStatus d now ctx s)) = []"
  by (auto simp: tally_def meteredStatus_def caseM_def markM_def runM_def act_defs split: prod.split res.split)

lemma meteredDelete_tally:
  "tally (meteredDelete d ctx s) \<in>
     {(Ok 0, [''success''], [])} \<union> {(Err e, [], []) | e. True} \<union> {(Panic p, [], []) | p. True} \<and>
   stagesOf (fst (meteredDelete d ctx s)) = []"
  by (auto simp: tally_def meteredDelete_def caseM_def markM_def runM_def noRequeue_def act_defs split: prod.split res.split)

definition featureTallies :: "(requeue res \<times> string list \<times> string list) set" where
  "featureTallies =
     {(Ok 0, [''success''], []), (Ok 10, [''error''], [''factory_lookup''])} \<union>
     {(Err e, [''error''], [''reconcile'']) | e. True} \<union>
     {(Err e, [], [''status_update'', ''status_update'']) | e. True} \<union> {(Panic p, [], []) | p. True}"

lemma meteredFeature_tally:
  fixes d :: "'w saiaDeps"
  shows "tally (meteredFeature d clock now ctx name s) \<in> featureTallies \<and>
   ''total'' \<notin> set (stagesOf (fst (meteredFeature d clock now ctx name s)))"
proof (cases "FeatureFactories name :: ('w saiaDeps \<Rightarrow> (nat \<Rightarrow> nat) \<Rightarrow> ('w, unit) saia) option")
  case None
  then show ?thesis
    by (simp add: meteredFeature_def tally_def featureTallies_def markM_def runM_def act_defs)
next
  case (Some run)
  obtain q u where q: "run d clock s = (q, u)" by fastforce
  obtain ms x v where v: "meteredStatus d now ctx u = (ms, x, v)" by (metis prod_cases3)
  show ?thesis
    using Some q v meteredStatus_tally [of d now ctx u]
    by (cases q; cases x)
      (auto simp: meteredFeature_def tally_def featureTallies_def caseM_def markM_def runM_def noRequeue_def act_defs)
qed

section \<open>A reconcile and its metrics\<close>

lemma meterCall_returns: "metricsDocs mx \<Longrightarrow> isOk (meterCall mx el ctx m w)"
  by (cases m) (simp_all add: ObserveReconcileStage_def ObserveReconcileResult_def ObserveReconcileError_def
      SetObservedGeneration_def SetCondition_def SetDesiredReplicas_def SetReadyReplicas_def IncAPIRequest_def
      ObserveAPILatency_def helpers_ok)

lemma meterAll_returns: "metricsDocs mx \<Longrightarrow> isOk (meterAll mx el ms w)"
proof (induction ms arbitrary: w)
  case (Cons m ms)
  then show ?case
    using meterCall_returns [of mx "el (length ms)" "fst m" "snd m" w] by (cases m) (auto simp: isOk_iff)
qed simp

text \<open>The calls of a run, by what the fetch finds.\<close>

lemma metered_unfetched:
  assumes "fetchA (sa_services d) key zeroAIService s = (Err e, u)"
  defines "ctx \<equiv> serviceScope key ''unknown''"
  shows "meteredAIService d clock now key s =
    (if isNotFound e then ([(ctx, MStage ''fetch''), (ctx, MResult ''success''), (ctx, MStage ''total'')], Ok 0, u)
     else ([(ctx, MStage ''fetch''), (ctx, MError ''get''), (ctx, MResult ''error''), (ctx, MStage ''total'')], Err e, u))"
  by (simp add: meteredAIService_def assms deferM_def markM_def runM_def noRequeue_def retA_def failA_def Let_def)

lemma metered_fetched:
  assumes "fetchA (sa_services d) key zeroAIService s = (Ok (), u)"
  defines "ctx \<equiv> serviceScope key (featureName (rs_cr u))"
  assumes "(if om_DeletionTimestamp (s_Meta (rs_cr u)) \<noteq> None then meteredDelete d ctx u
    else meteredFeature d clock now ctx (featureName (rs_cr u)) u) = (ms, r, t)"
  shows "meteredAIService d clock now key s =
    (((serviceScope key ''unknown'', MStage ''fetch'') # ms) @ [(ctx, MStage ''total'')], r, t)"
  using assms(3) unfolding ctx_def
  by (auto simp: meteredAIService_def assms(1) deferM_def markM_def Let_def split: if_splits)

lemma fetchA_found: "fetchA c key z s = (Ok (), u) \<Longrightarrow> cGet c (rs_world s) key = Ok (rs_cr u)"
  by (auto simp: fetchA_def getA_def act_defs split: res.splits)

lemma total_last:
  "ms = ms' @ [(ctx, MStage ''total'')] \<Longrightarrow> ''total'' \<notin> set (stagesOf ms') \<Longrightarrow> P \<Longrightarrow>
   (\<exists>ms' ctx. ms = ms' @ [(ctx, MStage ''total'')] \<and> ''total'' \<notin> set (stagesOf ms')) \<and> P"
  by blast

lemma meteredAIService_tally:
  assumes run: "meteredAIService d clock now key s = (ms, r, t)"
  shows "(\<exists>ms' ctx. ms = ms' @ [(ctx, MStage ''total'')] \<and> ''total'' \<notin> set (stagesOf ms')) \<and>
    ((r, resultsOf ms, errorsOf ms) \<in> featureTallies \<or>
     (\<exists>e. r = Err e \<and> resultsOf ms = [''error''] \<and> errorsOf ms = [''get'']) \<or>
     (\<exists>e ai. r = Err e \<and> resultsOf ms = [] \<and> errorsOf ms = [] \<and>
        cGet (sa_services d) (rs_world s) key = Ok ai \<and> om_DeletionTimestamp (s_Meta ai) \<noteq> None))"
proof -
  obtain q u where q: "fetchA (sa_services d) key zeroAIService s = (q, u)" by fastforce
  show ?thesis
  proof (cases q)
    case (Ok x)
    then have fetched: "fetchA (sa_services d) key zeroAIService s = (Ok (), u)" using q by simp
    let ?ctx = "serviceScope key (featureName (rs_cr u))" and ?dying = "om_DeletionTimestamp (s_Meta (rs_cr u)) \<noteq> None"
    obtain ms1 r1 t1 where one: "(if ?dying then meteredDelete d ?ctx u
        else meteredFeature d clock now ?ctx (featureName (rs_cr u)) u) = (ms1, r1, t1)"
      by (metis prod_cases3)
    have ms: "ms = ((serviceScope key ''unknown'', MStage ''fetch'') # ms1) @ [(?ctx, MStage ''total'')]" "r = r1"
      using run metered_fetched [OF fetched one] by simp_all
    have counts: "resultsOf ms = resultsOf ms1" "errorsOf ms = errorsOf ms1"
      by (simp_all add: ms)
    have tallies: "(r1, resultsOf ms1, errorsOf ms1) \<in> featureTallies \<or>
        ?dying \<and> (\<exists>e. r1 = Err e) \<and> resultsOf ms1 = [] \<and> errorsOf ms1 = []"
      and last: "''total'' \<notin> set (stagesOf ((serviceScope key ''unknown'', MStage ''fetch'') # ms1))"
      using one meteredDelete_tally [of d ?ctx u] meteredFeature_tally [of d clock now ?ctx "featureName (rs_cr u)" u]
      by (cases ?dying; auto simp: tally_def featureTallies_def)+
    show ?thesis
      using ms(1) last tallies fetchA_found [OF fetched] unfolding counts ms(2) by blast
  next
    case (Err e)
    let ?ctx = "serviceScope key ''unknown''"
    note unfetched = run [unfolded metered_unfetched [OF q [unfolded Err], of clock now]]
    show ?thesis
    proof (cases "isNotFound e")
      case True
      then have ms: "ms = [(?ctx, MStage ''fetch''), (?ctx, MResult ''success'')] @ [(?ctx, MStage ''total'')]" "r = Ok 0"
        using unfetched by simp_all
      show ?thesis
        by (rule total_last [OF ms(1)]) (simp_all add: ms featureTallies_def)
    next
      case False
      then have ms: "ms = [(?ctx, MStage ''fetch''), (?ctx, MError ''get''), (?ctx, MResult ''error'')] @
          [(?ctx, MStage ''total'')]" "r = Err e"
        using unfetched by simp_all
      show ?thesis
        by (rule total_last [OF ms(1)]) (simp_all add: ms)
    qed
  next
    case (Panic p)
    then have ms: "ms = [] @ [(serviceScope key ''unknown'', MStage ''total'')]" "r = Panic p"
      using run q by (simp_all add: meteredAIService_def Let_def)
    show ?thesis
      by (rule total_last [OF ms(1)]) (simp_all add: ms featureTallies_def)
  qed
qed

text \<open>
  C40: the metrics beside a reconcile of an AIService change nothing of it and never panic; the total
  time is observed once and last, after a panic too. Every run that returns counts one result,
  except that a failing write of the AIService itself counts none: a failed status update counts
  its error twice, and a failed removal of the finalizer counts nothing at all.
\<close>

theorem reconcile_metered:
  assumes "metricsDocs mx" and "meteredAIService d clock now key s = (ms, r, t)"
  shows "ReconcileAIService d clock now key s = (r, t) \<and> isOk (meterAll mx el ms w) \<and>
    (\<exists>ms' ctx. ms = ms' @ [(ctx, MStage ''total'')] \<and> ''total'' \<notin> set (stagesOf ms')) \<and>
    ((r, resultsOf ms, errorsOf ms) \<in> featureTallies \<or>
     (\<exists>e. r = Err e \<and> resultsOf ms = [''error''] \<and> errorsOf ms = [''get'']) \<or>
     (\<exists>e ai. r = Err e \<and> resultsOf ms = [] \<and> errorsOf ms = [] \<and>
        cGet (sa_services d) (rs_world s) key = Ok ai \<and> om_DeletionTimestamp (s_Meta ai) \<noteq> None))"
  using meteredAIService_erase [of d clock now key s] meterAll_returns [OF assms(1)]
    meteredAIService_tally [OF assms(2)]
  by (simp add: assms(2))

text \<open>A service that is being deleted and cannot be updated: the run counts nothing.\<close>

definition dyingService :: AIService where
  "dyingService = (exampleService None)\<lparr>s_Meta := (newMeta ''a'' ''ns'')\<lparr>om_DeletionTimestamp := Some 1,
     om_Finalizers := [aiServiceFinalizer]\<rparr>\<rparr>"

theorem reconcile_metered_witness:
  "let (ms, r, t) = meteredAIService (offDeps\<lparr>sa_services := offClient\<lparr>cGet := \<lambda>_ _. Ok dyingService\<rparr>\<rparr>) id 0 (''ns'', ''a'')
         (onService ())
   in (\<exists>e. r = Err e) \<and> resultsOf ms = [] \<and> errorsOf ms = [] \<and> isOk (meterAll memMetrics (\<lambda>_. 1) ms (\<lambda>_. None)) \<and>
      (\<exists>ms' ctx. ms = ms' @ [(ctx, MStage ''total'')] \<and> ''total'' \<notin> set (stagesOf ms'))"
proof -
  let ?D = "offDeps\<lparr>sa_services := offClient\<lparr>cGet := \<lambda>_ _. Ok dyingService\<rparr>\<rparr> :: unit saiaDeps"
  obtain ms r t where run: "meteredAIService ?D id 0 (''ns'', ''a'') (onService ()) = (ms, r, t)"
    by (metis prod_cases3)
  have "(\<exists>e. r = Err e) \<and> resultsOf ms = [] \<and> errorsOf ms = []"
    using run
    by (auto simp: meteredAIService_def meteredDelete_def fetchA_def getA_def updateA_def dropA_def offDeps_def
        offClient_def offline_def onService_def dyingService_def deferM_def markM_def runM_def caseM_def act_defs Let_def)
  then show ?thesis
    using reconcile_metered [OF memMetrics_docs run, of "\<lambda>_. 1" "\<lambda>_. None"] by (simp add: run)
qed

end
