(* ===== verification/Operator.thy ===== *)
theory Operator
  imports Workloads
begin

text \<open>
  The process around the controllers (\<open>cmd/main.go\<close>, \<open>pkg/config/config.go\<close>) and the registration
  of the debug endpoints (\<open>internal/controller/debug/register.go\<close>). The start-up is the sequence of
  calls into controller-runtime that \<open>main\<close> makes, each of which ends the process when it fails.
  The flags are given parsed; logging is left out.
\<close>

section \<open>Configuration\<close>

datatype OperatorMode = ModeNormal | ModeDebug | ModeSimulate

record OperatorConfig =
  oc_Mode :: OperatorMode
  oc_DebugRayEndpoint :: string
  oc_DebugWeaviateEndpoint :: string
  oc_DebugSaiaEndpoint :: string

definition parseMode :: "string \<Rightarrow> OperatorMode" where
  "parseMode flagVal =
     (if flagVal = ''debug'' then ModeDebug else if flagVal = ''simulate'' then ModeSimulate else ModeNormal)"

record flags =
  fl_metricsAddr :: string
  fl_metricsCertPath :: string
  fl_metricsCertName :: string
  fl_metricsCertKey :: string
  fl_webhookCertPath :: string
  fl_webhookCertName :: string
  fl_webhookCertKey :: string
  fl_enableLeaderElection :: bool
  fl_probeAddr :: string
  fl_secureMetrics :: bool
  fl_enableHTTP2 :: bool
  fl_mode :: string

definition defaultFlags :: flags where
  "defaultFlags =
     \<lparr>fl_metricsAddr = ''0'', fl_metricsCertPath = '''', fl_metricsCertName = ''tls.crt'',
      fl_metricsCertKey = ''tls.key'', fl_webhookCertPath = '''', fl_webhookCertName = ''tls.crt'',
      fl_webhookCertKey = ''tls.key'', fl_enableLeaderElection = False, fl_probeAddr = '':8081'',
      fl_secureMetrics = True, fl_enableHTTP2 = False, fl_mode = ''normal''\<rparr>"

section \<open>Start-up\<close>

text \<open>A change of a TLS configuration: no HTTP/2, or the certificate of the named watcher.\<close>

datatype cert_watcher = WebhookCert | MetricsCert

datatype tls_opt = DisableHTTP2 | GetCertificateOf cert_watcher

record webhook_options =
  wh_Port :: int
  wh_TLSOpts :: "tls_opt list"

record metrics_options =
  ms_BindAddress :: string
  ms_SecureServing :: bool
  ms_TLSOpts :: "tls_opt list"
  ms_AuthFilter :: bool

record manager_options =
  mg_Metrics :: metrics_options
  mg_Webhook :: webhook_options
  mg_ProbeAddress :: string
  mg_LeaderElection :: bool
  mg_LeaderElectionID :: string

datatype step =
    NewCertWatcher cert_watcher string string
  | NewManager manager_options
  | SetupController string OperatorConfig
  | SetupWebhook string
  | AddWatcher cert_watcher
  | AddHealthzCheck
  | AddReadyzCheck
  | StartManager

definition tlsOpts :: "flags \<Rightarrow> tls_opt list" where
  "tlsOpts fl = (if \<not> fl_enableHTTP2 fl then [DisableHTTP2] else [])"

definition webhookTLSOpts :: "flags \<Rightarrow> tls_opt list" where
  "webhookTLSOpts fl = tlsOpts fl @ (if fl_webhookCertPath fl \<noteq> [] then [GetCertificateOf WebhookCert] else [])"

definition metricsServerOptions :: "flags \<Rightarrow> metrics_options" where
  "metricsServerOptions fl =
     \<lparr>ms_BindAddress = fl_metricsAddr fl, ms_SecureServing = fl_secureMetrics fl,
      ms_TLSOpts = tlsOpts fl @
        (if fl_metricsCertPath fl \<noteq> [] then [GetCertificateOf MetricsCert] else []),
      ms_AuthFilter = fl_secureMetrics fl\<rparr>"

definition operatorConfig :: "flags \<Rightarrow> OperatorConfig" where
  "operatorConfig fl =
     \<lparr>oc_Mode = parseMode (fl_mode fl), oc_DebugRayEndpoint = ''http://localhost:8265'',
      oc_DebugWeaviateEndpoint = ''http://localhost:8080'', oc_DebugSaiaEndpoint = ''http://localhost:9000''\<rparr>"

definition managerOptions :: "flags \<Rightarrow> manager_options" where
  "managerOptions fl =
     \<lparr>mg_Metrics = metricsServerOptions fl,
      mg_Webhook = \<lparr>wh_Port = 9443, wh_TLSOpts = webhookTLSOpts fl\<rparr>,
      mg_ProbeAddress = fl_probeAddr fl, mg_LeaderElection = fl_enableLeaderElection fl,
      mg_LeaderElectionID = ''c15928fd.splunk.com''\<rparr>"

definition webhookWatcher :: "flags \<Rightarrow> step list" where
  "webhookWatcher fl =
     (if fl_webhookCertPath fl \<noteq> []
      then [NewCertWatcher WebhookCert (pathJoin [fl_webhookCertPath fl, fl_webhookCertName fl])
              (pathJoin [fl_webhookCertPath fl, fl_webhookCertKey fl])] else [])"

definition metricsWatcher :: "flags \<Rightarrow> step list" where
  "metricsWatcher fl =
     (if fl_metricsCertPath fl \<noteq> []
      then [NewCertWatcher MetricsCert (pathJoin [fl_metricsCertPath fl, fl_metricsCertName fl])
              (pathJoin [fl_metricsCertPath fl, fl_metricsCertKey fl])] else [])"

definition webhookSteps :: "(string \<Rightarrow> string) \<Rightarrow> step list" where
  "webhookSteps getenv =
     (if getenv ''ENABLE_WEBHOOKS'' \<noteq> ''false'' then [SetupWebhook ''AIPlatform''] else []) @
     (if getenv ''ENABLE_WEBHOOKS'' \<noteq> ''false'' then [SetupWebhook ''AIService''] else [])"

definition addedSteps :: "flags \<Rightarrow> step list" where
  "addedSteps fl =
     (if fl_metricsCertPath fl \<noteq> [] then [AddWatcher MetricsCert] else []) @
     (if fl_webhookCertPath fl \<noteq> [] then [AddWatcher WebhookCert] else []) @
     [AddHealthzCheck, AddReadyzCheck]"

definition setupSteps :: "flags \<Rightarrow> (string \<Rightarrow> string) \<Rightarrow> step list" where
  "setupSteps fl getenv =
     (webhookWatcher fl @ metricsWatcher fl @
      [NewManager (managerOptions fl),
       SetupController ''AIPlatform'' (operatorConfig fl),
       SetupController ''AIService'' (operatorConfig fl)] @
      webhookSteps getenv @ addedSteps fl) @ [StartManager]"

text \<open>
  The steps made, the outcome and the state. \<open>main\<close> returns after the last step, which is to run the
  manager until a signal; after an error the process exits with status 1.
\<close>

fun runSteps :: "('s \<Rightarrow> 'w \<Rightarrow> 'w \<times> unit res) \<Rightarrow> 's list \<Rightarrow> 'w \<Rightarrow> 's list \<times> unit res \<times> 'w" where
  "runSteps perform [] w = ([], Ok (), w)"
| "runSteps perform (x # xs) w =
     (case perform x w of
        (u, Ok _) \<Rightarrow> (case runSteps perform xs u of (made, r, v) \<Rightarrow> (x # made, r, v))
      | (u, Err e) \<Rightarrow> ([x], Err e, u)
      | (u, Panic p) \<Rightarrow> ([x], Panic p, u))"

definition operatorMain ::
  "(step \<Rightarrow> 'w \<Rightarrow> 'w \<times> unit res) \<Rightarrow> flags \<Rightarrow> (string \<Rightarrow> string) \<Rightarrow> 'w \<Rightarrow> step list \<times> unit res \<times> 'w" where
  "operatorMain perform fl getenv = runSteps perform (setupSteps fl getenv)"

lemma runSteps_prefix:
  "runSteps perform xs w = (made, r, v) \<Longrightarrow>
   \<exists>rest. xs = made @ rest \<and> (r = Ok () \<longrightarrow> rest = []) \<and>
     (r \<noteq> Ok () \<longrightarrow> (\<exists>before x. made = before @ [x] \<and> (\<exists>u. perform x u = (v, r))))"
proof (induction xs arbitrary: w made)
  case (Cons x xs)
  obtain u q where q: "perform x w = (u, q)" by fastforce
  show ?case
  proof (cases q)
    case (Ok a)
    obtain m where m: "runSteps perform xs u = (m, r, v)" "made = x # m"
      using Cons.prems q Ok by (auto split: prod.splits)
    obtain rest where "xs = m @ rest" "r = Ok () \<longrightarrow> rest = []"
        "r \<noteq> Ok () \<longrightarrow> (\<exists>before y. m = before @ [y] \<and> (\<exists>u. perform y u = (v, r)))"
      using Cons.IH [OF m(1)] by blast
    then show ?thesis
      using m(2) by (intro exI [of _ rest]) (auto intro: exI [of _ "x # _"])
  next
    case (Err e)
    then show ?thesis using Cons.prems q by auto
  next
    case (Panic p)
    then show ?thesis using Cons.prems q by auto
  qed
qed auto

text \<open>
  C39: the manager runs only when every step before it was made, whatever the flags and the
  environment: both controllers are set up, and the webhooks of both kinds or of none, by the
  environment alone; each certificate whose directory is given is watched and served, and neither
  server speaks HTTP/2 unless it is asked for.
\<close>

theorem manager_runs_complete:
  assumes run: "operatorMain perform fl getenv w = (made, r, v)" and started: "StartManager \<in> set made"
  shows "made = setupSteps fl getenv \<and>
    (\<forall>k. (\<exists>c. SetupController k c \<in> set made) \<longleftrightarrow> k \<in> {''AIPlatform'', ''AIService''}) \<and>
    (\<forall>k. SetupWebhook k \<in> set made \<longleftrightarrow> getenv ''ENABLE_WEBHOOKS'' \<noteq> ''false'' \<and> k \<in> {''AIPlatform'', ''AIService''}) \<and>
    (\<forall>x. AddWatcher x \<in> set made \<longleftrightarrow> (\<exists>c k. NewCertWatcher x c k \<in> set made)) \<and>
    (\<forall>m. NewManager m \<in> set made \<longrightarrow>
       (GetCertificateOf WebhookCert \<in> set (wh_TLSOpts (mg_Webhook m)) \<longleftrightarrow> AddWatcher WebhookCert \<in> set made) \<and>
       (GetCertificateOf MetricsCert \<in> set (ms_TLSOpts (mg_Metrics m)) \<longleftrightarrow> AddWatcher MetricsCert \<in> set made) \<and>
       (DisableHTTP2 \<in> set (wh_TLSOpts (mg_Webhook m)) \<longleftrightarrow> \<not> fl_enableHTTP2 fl) \<and>
       (DisableHTTP2 \<in> set (ms_TLSOpts (mg_Metrics m)) \<longleftrightarrow> \<not> fl_enableHTTP2 fl))"
proof -
  obtain rest where rest: "setupSteps fl getenv = made @ rest"
    using runSteps_prefix [OF run [unfolded operatorMain_def]] by blast
  let ?before = "webhookWatcher fl @ metricsWatcher fl @ [NewManager (managerOptions fl), SetupController ''AIPlatform'' (operatorConfig fl),
       SetupController ''AIService'' (operatorConfig fl)] @ webhookSteps getenv @ addedSteps fl"
  have last: "StartManager \<notin> set ?before"
    by (simp add: webhookWatcher_def metricsWatcher_def webhookSteps_def addedSteps_def)
  have "rest = []"
  proof (rule ccontr)
    assume "rest \<noteq> []"
    then have "?before = made @ butlast rest"
      using rest unfolding setupSteps_def by (metis butlast_append butlast_snoc)
    then show False
      using started last by (metis Un_iff set_append)
  qed
  then have made: "made = setupSteps fl getenv"
    using rest by simp
  note steps = setupSteps_def webhookWatcher_def metricsWatcher_def webhookSteps_def addedSteps_def
  have controllers: "(\<exists>c. SetupController k c \<in> set made) \<longleftrightarrow> k \<in> {''AIPlatform'', ''AIService''}" for k
    unfolding made steps by auto
  have webhooks: "SetupWebhook k \<in> set made \<longleftrightarrow>
      getenv ''ENABLE_WEBHOOKS'' \<noteq> ''false'' \<and> k \<in> {''AIPlatform'', ''AIService''}" for k
    unfolding made steps by auto
  have watchers: "AddWatcher x \<in> set made \<longleftrightarrow>
      (case x of WebhookCert \<Rightarrow> fl_webhookCertPath fl | MetricsCert \<Rightarrow> fl_metricsCertPath fl) \<noteq> []"
    "(\<exists>c k. NewCertWatcher x c k \<in> set made) \<longleftrightarrow>
      (case x of WebhookCert \<Rightarrow> fl_webhookCertPath fl | MetricsCert \<Rightarrow> fl_metricsCertPath fl) \<noteq> []" for x
    unfolding made steps by (cases x; simp)+
  have manager: "NewManager m \<in> set made \<longleftrightarrow> m = managerOptions fl" for m
    unfolding made steps by simp
  show ?thesis
    by (intro conjI made)
      (simp_all add: controllers webhooks watchers manager managerOptions_def metricsServerOptions_def webhookTLSOpts_def tlsOpts_def)
qed


section \<open>Debug endpoints\<close>

record debug_options =
  db_CmdLine :: bool
  db_Profile :: bool
  db_Symbol :: bool
  db_Trace :: bool
  db_Heap :: bool
  db_Block :: bool
  db_Goroutine :: bool
  db_Threadcreate :: bool

definition DefaultOptions :: debug_options where
  "DefaultOptions =
     \<lparr>db_CmdLine = True, db_Profile = True, db_Symbol = True, db_Trace = True, db_Heap = True,
      db_Block = True, db_Goroutine = True, db_Threadcreate = True\<rparr>"

text \<open>The handlers of \<open>net/http/pprof\<close>: functions of the package, or named profiles.\<close>

datatype pprof = Index | Cmdline | Profile | Symbol | Trace | Handler string

text \<open>A nil pointer to the options stands for the default ones.\<close>

definition RegisterEndpoint ::
  "(string \<Rightarrow> pprof \<Rightarrow> 'w \<Rightarrow> 'w \<times> unit res) \<Rightarrow> debug_options option \<Rightarrow> ('w, unit, unit) act" where
  "RegisterEndpoint register options =
     (let reg = (\<lambda>path h. callA (register path h));
          o1 = (case options of None \<Rightarrow> DefaultOptions | Some x \<Rightarrow> x)
      in thenA (reg ''/debug/pprof'' Index)
        (thenA (whenA (db_CmdLine o1) (reg ''/debug/pprof/cmdline'' Cmdline))
        (thenA (whenA (db_Profile o1) (reg ''/debug/pprof/profile'' Profile))
        (thenA (whenA (db_Symbol o1) (reg ''/debug/pprof/symbol'' Symbol))
        (thenA (whenA (db_Trace o1) (reg ''/debug/pprof/trace'' Trace))
        (thenA (whenA (db_Heap o1) (reg ''/debug/pprof/heap'' (Handler ''heap'')))
        (thenA (whenA (db_Block o1) (reg ''/debug/pprof/block'' (Handler ''block'')))
        (thenA (whenA (db_Goroutine o1) (reg ''/debug/pprof/goroutine'' (Handler ''goroutine'')))
        (whenA (db_Threadcreate o1) (reg ''/debug/pprof/threadcreate'' (Handler ''threadcreate'')))))))))))"

text \<open>The endpoints that options ask for, in the order of their registration.\<close>

definition endpoints :: "debug_options \<Rightarrow> (string \<times> pprof) list" where
  "endpoints o1 = (''/debug/pprof'', Index) #
     map snd (filter fst
       [(db_CmdLine o1, ''/debug/pprof/cmdline'', Cmdline), (db_Profile o1, ''/debug/pprof/profile'', Profile),
        (db_Symbol o1, ''/debug/pprof/symbol'', Symbol), (db_Trace o1, ''/debug/pprof/trace'', Trace),
        (db_Heap o1, ''/debug/pprof/heap'', Handler ''heap''), (db_Block o1, ''/debug/pprof/block'', Handler ''block''),
        (db_Goroutine o1, ''/debug/pprof/goroutine'', Handler ''goroutine''),
        (db_Threadcreate o1, ''/debug/pprof/threadcreate'', Handler ''threadcreate'')])"

text \<open>Calls in sequence are the steps of a list, as far as the cluster goes.\<close>

definition runsAs :: "('w, unit, unit) act \<Rightarrow> ('s \<Rightarrow> 'w \<Rightarrow> 'w \<times> unit res) \<Rightarrow> 's list \<Rightarrow> bool" where
  "runsAs m perform xs \<longleftrightarrow> (\<forall>s. m s = (case runSteps perform xs (rs_world s) of (_, r, w) \<Rightarrow> (r, s\<lparr>rs_world := w\<rparr>)))"

lemma runSteps_append: "runSteps perform (xs @ ys) w =
  (case runSteps perform xs w of
     (made, Ok _, u) \<Rightarrow> (case runSteps perform ys u of (later, r, v) \<Rightarrow> (made @ later, r, v))
   | (made, r, u) \<Rightarrow> (made, r, u))"
  by (induction xs arbitrary: w) (auto split: prod.splits res.splits)

lemma runsAs_call: "runsAs (callA (f x)) f [x]"
  by (auto simp: runsAs_def callA_def split: prod.splits res.splits)

lemma runsAs_when: "runsAs m f xs \<Longrightarrow> runsAs (whenA b m) f (if b then xs else [])"
  by (simp add: runsAs_def whenA_def retA_def)

lemma runsAs_then: "runsAs m f xs \<Longrightarrow> runsAs n f ys \<Longrightarrow> runsAs (thenA m n) f (xs @ ys)"
  by (auto simp: runsAs_def thenA_def bindA_def runSteps_append split: prod.splits res.splits)

text \<open>
  The debug endpoints are the index and exactly those that the options enable, all of them
  when no options are given, registered in a fixed order up to the first that is refused, whose
  error is the result.
\<close>

theorem endpoints_registered:
  "runsAs (RegisterEndpoint register options) (\<lambda>(path, h). register path h)
     (endpoints (case options of None \<Rightarrow> DefaultOptions | Some o1 \<Rightarrow> o1))"
proof -
  let ?f = "\<lambda>(path, h). register path h"
  have call: "runsAs (callA (register path h)) ?f [(path, h)]" for path h
    using runsAs_call [of ?f "(path, h)"] by simp
  let ?o = "case options of None \<Rightarrow> DefaultOptions | Some o1 \<Rightarrow> o1"
  have "endpoints ?o = [(''/debug/pprof'', Index)] @
      (if db_CmdLine ?o then [(''/debug/pprof/cmdline'', Cmdline)] else []) @
      (if db_Profile ?o then [(''/debug/pprof/profile'', Profile)] else []) @
      (if db_Symbol ?o then [(''/debug/pprof/symbol'', Symbol)] else []) @
      (if db_Trace ?o then [(''/debug/pprof/trace'', Trace)] else []) @
      (if db_Heap ?o then [(''/debug/pprof/heap'', Handler ''heap'')] else []) @
      (if db_Block ?o then [(''/debug/pprof/block'', Handler ''block'')] else []) @
      (if db_Goroutine ?o then [(''/debug/pprof/goroutine'', Handler ''goroutine'')] else []) @
      (if db_Threadcreate ?o then [(''/debug/pprof/threadcreate'', Handler ''threadcreate'')] else [])"
    by (simp add: endpoints_def)
  then show ?thesis
    unfolding RegisterEndpoint_def Let_def by (simp only:) (intro runsAs_then runsAs_when call)
qed

section \<open>A start-up\<close>

theorem manager_runs_complete_witness:
  "let (made, r, v) = operatorMain (\<lambda>_ n. (Suc n, Ok ())) (defaultFlags\<lparr>fl_webhookCertPath := ''/certs''\<rparr>) (\<lambda>_. []) 0
   in (\<forall>k. SetupWebhook k \<in> set made \<longleftrightarrow> k \<in> {''AIPlatform'', ''AIService''})"
proof -
  obtain made r v where run:
      "operatorMain (\<lambda>_ n. (Suc n, Ok ())) (defaultFlags\<lparr>fl_webhookCertPath := ''/certs''\<rparr>) (\<lambda>_. []) 0 = (made, r, v)"
    by (metis prod_cases3)
  have all: "runSteps (\<lambda>_ n. (Suc n, Ok ())) xs n = (xs, Ok (), n + length xs)" for xs :: "step list" and n
    by (induction xs arbitrary: n) simp_all
  have "StartManager \<in> set made"
    using run unfolding operatorMain_def all setupSteps_def by auto
  note facts = manager_runs_complete [OF run this]
  have "SetupWebhook k \<in> set made \<longleftrightarrow> k \<in> {''AIPlatform'', ''AIService''}" for k
    using facts [THEN conjunct2, THEN conjunct2, THEN conjunct1, rule_format, of k] by simp
  then show ?thesis
    by (simp only: run Let_def prod.case) simp
qed

end
