(* ===== verification/Spec2Isabelle.thy ===== *)
theory Spec2Isabelle
  imports Predicates Events ServeConfig SplunkUtils RayStatus System Deletion Settling PlatformProgress RayConfigMaps
    Probes Metering Operator
begin

text \<open>
  A model of the Splunk AI operator, a Kubernetes operator in Go. Two custom resources drive it:
  an \<open>AIPlatform\<close> (a Ray cluster, a Weaviate database, sidecars, an ingress and a list of features)
  and an \<open>AIService\<close> (one feature, deployed beside a platform). Admission webhooks default and
  validate both; a controller per resource reconciles it in stages against the API server; the
  platform creates an AIService for each of its features, and an AIService waits for the stages of
  the platform it refers to. Paths below are relative to \<open>src/\<close>.

  \<^bold>\<open>The foundation.\<close>
  \<^item> \<open>Prelude\<close>: Go's machine integers and maps; the outcome of a call (\<open>res\<close>: a value, an error value,
    a panic); the state of a reconciler (\<open>rstate\<close>: the world behind the API client, the events
    emitted, the custom resource in memory); sequencing of calls that may fail (\<open>act\<close>).
  \<^item> \<open>GoStd\<close>, \<open>Urls\<close>: what the code uses of \<open>strings\<close>, \<open>strconv\<close>, \<open>fmt\<close>, \<open>path\<close>, \<open>net\<close> and \<open>net/url\<close>.
  \<^item> \<open>KubeTypes\<close>, \<open>Workloads\<close>: the Kubernetes objects with the fields the operator reads or writes, and
    the API client as a record of functions on the world.
  \<^item> \<open>ApiTypes\<close>: the two custom resources (\<open>api/v1\<close>).
  \<^item> \<open>Stages\<close>: the stage loop that the reconcilers share, refined to a report of conditions; the locale
    \<open>staged\<close> says what a reader of the conditions may rely on.
  \<^item> \<open>Seeds\<close>: config maps with an entry that is written once (locale \<open>seeded\<close>).
  \<^item> \<open>Frames\<close>: what an action may do to the cluster, as a relation between worlds that its parts
    respect (locale \<open>world_order\<close>).

  \<^bold>\<open>The components.\<close>
  \<^item> \<open>Admission\<close>, \<open>Webhook_Platform\<close>, \<open>Webhook_Service\<close>: \<open>internal/webhook/v1\<close>. Both webhooks
    interpret the locale \<open>admission\<close>, whose lemma carries an invariant through every history of
    admitted updates; the acceptance theorems say exactly which objects are admitted.
  \<^item> \<open>Predicates\<close>: \<open>internal/controller/common/predicate.go\<close>, one locale for the eight typed predicates.
  \<^item> \<open>Controllers\<close>, \<open>ControllersCorrect\<close>: \<open>internal/controller\<close>; the watches, deletion with
    finalizers and the reconcile entry points, and what they deliver and publish.
  \<^item> \<open>Platform\<close>, \<open>PlatformCorrect\<close>, \<open>PlatformChildren\<close>: \<open>pkg/ai/reconciler.go\<close> with
    \<open>validate_defaults.go\<close>, \<open>weaviate.go\<close>, \<open>ingress.go\<close> and \<open>certificate.go\<close>; the status that is
    published, the children that are written and pruned, and the ways in which a platform cannot
    make progress. \<open>PlatformChildren\<close> composes the platform with the webhook and with the reconciler
    of its children.
  \<^item> \<open>Saia\<close>, \<open>SaiaCorrect\<close>, \<open>Seca\<close>: \<open>pkg/ai/features\<close>; the nine stages of a SAIA service, the gate on
    the platform, the schema job, the deployment; the SECA feature and the registry.
  \<^item> \<open>RayBuilder\<close>, \<open>RayBuilderCorrect\<close>: \<open>pkg/ai/raybuilder/builder.go\<close>; the cluster specification, the
    RayService that is written under retries, the conditions rolled up from a snapshot.
  \<^item> \<open>RayStatus\<close>: \<open>pkg/ai/raybuilder/raystatus\<close>; snapshots, conditions and gathered errors.
  \<^item> \<open>ServeConfig\<close>, \<open>RayConfigMaps\<close>: \<open>configmap_serve.go\<close>, \<open>types.go\<close>, \<open>instance.go\<close>,
    \<open>workergroup.go\<close> and the handler of \<open>configmap_apps.go\<close>.
  \<^item> \<open>Sidecars\<close>, \<open>SidecarsCorrect\<close>: \<open>pkg/ai/sidecars\<close>.
  \<^item> \<open>Storage\<close>: \<open>pkg/storage\<close>; the locales \<open>storage_client\<close> and \<open>artifact_client\<close> state the interface
    and are interpreted by the S3, GCS, Azure and fixture clients.
  \<^item> \<open>SplunkUtils\<close>: \<open>pkg/splunkutils\<close>, \<open>pkg/common/vault.go\<close>; one locale for the three ways to a token.
  \<^item> \<open>Events\<close>: \<open>pkg/ai/events.go\<close>; \<open>Probes\<close>: \<open>pkg/ai/features/common/utils.go\<close>; \<open>Telemetry\<close>:
    \<open>internal/telemetry\<close>; \<open>Operator\<close>: \<open>cmd/main.go\<close>, \<open>pkg/config\<close>, \<open>internal/controller/debug\<close>.

  \<^bold>\<open>The composition.\<close>
  \<^item> \<open>System\<close>: both controllers and everybody else as steps over one cluster. The invariant of the
    reachable worlds is that the conditions of a platform are the report of one run, and with it an
    AIService that gets past its first stage has found its platform there.
  \<^item> \<open>Deletion\<close>: the deletion of a platform with the AIServices it controls, a protocol of both
    controllers and the finalizers; it terminates by a measure on what the API server holds.
  \<^item> \<open>Answers\<close>: what a run asks of its surroundings to get through: owner references as documented (an object
    of another controller is refused), an API server that replies to reads and accepts the objects that this
    run sends, and clusters in memory, with and without defaults, that do so.
  \<^item> \<open>Progress\<close>: a run of the SAIA feature of a validated service (a named service account, no copied annotation,
    config maps that nobody else controls) fails only to wait for its certificate or its schema job, and it
    reaches Ready in the run after the job completes.
  \<^item> \<open>Settling\<close>: with a server that fills in defaults, such a run that has succeeded succeeds again and leaves
    all it looks after as it was: what it sends again is stored as the same object, each stage by what it finds
    there, the stages together by what the later ones leave.
  \<^item> \<open>PlatformSteps\<close>, \<open>PlatformProgress\<close>: the same for a validated platform with distinct feature names and no
    ingress enabled, whose configuration can be rendered: a run fails only for a child that has failed, and
    opens the gate of the children whatever they report, so that platform and children do not wait for each
    other. With an ingress enabled the first run fails (\<open>PlatformCorrect\<close>).
  \<^item> \<open>Metering\<close>: the calls into \<open>internal/telemetry\<close> beside a reconcile of an AIService and beside the
    conditions of the Ray builder; forgetting them gives the definitions of the other theories.

  \<^bold>\<open>How the code is read.\<close> A Go struct is a record with a prefix per type, a nil pointer or map is
  \<open>None\<close>, a slice is a list, an integer keeps its width where it can wrap. A method that returns an
  error is an \<open>act\<close> or a function into \<open>res\<close>; a nil dereference, an index out of range or an
  assignment to a nil map is a \<open>Panic\<close>. A range over a map is a parameter wherever its order can be
  seen. Every loop of the code runs over a list that is there, so the definitions terminate
  without fuel; only the example of a retry counts its attempts. That the two controllers together
  come to an end is a theorem of \<open>Deletion\<close>.

  \<^bold>\<open>What is assumed.\<close> Code that is not in the repository is a parameter, and a theorem that relies
  on what its documentation says names the statement as a hypothesis: \<open>clientDocs\<close>, \<open>statusVisible\<close>,
  \<open>writeVisible\<close>, \<open>createOrUpdateSpec\<close>, \<open>keyFrame\<close>, \<open>deleteDocs\<close>, \<open>kindsApart\<close> for the API client
  (reads return what the last write left, kinds and keys do not interfere), \<open>decodedReads\<close> for
  unstructured objects, \<open>webhookEnforced\<close> for a server that calls the webhook, \<open>setOwnerDocs\<close>,
  \<open>setConditionDocs\<close>, \<open>retryDocs\<close> with \<open>retryReturns\<close>, \<open>predicateDocs\<close>, \<open>builderDocs\<close>, \<open>metricsDocs\<close> and \<open>httpDocs\<close>
  for library functions; \<open>systemDocs\<close> (a status changes through its subresource only) and
  \<open>deletionDocs\<close> (deletes and updates treat finalizers as documented; \<open>answers\<close> when none is refused)
  for the deletion protocol. \<open>specDefaulted\<close> is a server that applies the defaults of the CRD and of the
  operator's own webhook to every AIService, \<open>ownerDocs\<close> and \<open>controllerDocs\<close> are the two setters of owner
  references, with the refusals that they document. The progress theorems rest on \<open>progressDocs\<close> and
  \<open>platformServes\<close> (reads are answered, keys are kept, kinds are apart) and separately on \<open>runAccepted\<close> and
  \<open>platformAccepted\<close>, that the server accepts what this very object makes the run send, on
  \<open>configsFree\<close> and \<open>clusterFree\<close>, that the cluster holds nothing of its names that another object controls,
  and on \<open>platformConfigured\<close>, that the files of the operator can be rendered; none of them says that the server
  stores what it is sent unchanged. \<open>settleDocs\<close> adds that the defaults are the same each time. Each is
  shown to hold of a concrete function, most of them of a client in memory, and each theorem with such a
  hypothesis is followed by a run of the model that meets it.

  \<^bold>\<open>Not modelled.\<close> The generated deep copies (\<open>zz_generated.deepcopy.go\<close>), which are the identity on
  values; logging; the interface declarations and constructors that copy their arguments; the two
  constants of application texts in \<open>configmap_apps.go\<close>, which no code reads; the test helpers; the
  RBAC markers and the registration of types with the scheme. The telemetry calls of a status
  function of the platform controller that no code calls are left out.

  \<^bold>\<open>What is left.\<close> The text of the rendered serve configuration as a whole; a run of a platform with an
  ingress whose Ray service an earlier run has named; a roll-up that reaches Ready, which the present code
  cannot (no head pod is seen).
\<close>

end
